(* ===== verification/Prelude.thy ===== *)
theory Prelude
  imports Main "HOL-Library.Word" "HOL-Library.Product_Lexorder"
begin

text \<open>
  Shared vocabulary of the development.

  A point in time is a \<open>time\<close>: the milliseconds of a JavaScript Date (\<open>getTime()\<close>).
  A nullable column or an absent property is an \<open>option\<close>.  Identifiers, keys, codes and
  messages are HOL strings, whose characters stand for the code units 0 to 255; transcript
  text, whose white space matters beyond that range, is a list of 16-bit code units.

  The SQL statements of the repositories are all of four shapes, defined here once on
  lists of rows: the first row that matches, the first row in an order, the row updated by
  a guarded \<open>UPDATE ... RETURNING\<close> and the table after it.
\<close>

type_synonym time = int
type_synonym code_unit = "16 word"
type_synonym jstext = "code_unit list"

named_theorems tx_simps "unfolding of the transaction combinators"
named_theorems op_defs "definitions of the repository operations"
named_theorems mapping_defs "definitions of the row to object mappings"

subsection \<open>Trimming\<close>

definition trim_by :: "('a \<Rightarrow> bool) \<Rightarrow> 'a list \<Rightarrow> 'a list" where
  "trim_by ws xs = rev (dropWhile ws (rev (dropWhile ws xs)))"

lemma hd_rev_dropWhile_rev:
  assumes "xs \<noteq> []" and "\<not> P (hd xs)"
  shows "rev (dropWhile P (rev xs)) \<noteq> [] \<and> hd (rev (dropWhile P (rev xs))) = hd xs"
proof -
  obtain x ys where xs: "xs = x # ys" using assms(1) by (cases xs) auto
  then show ?thesis using assms(2) by (auto simp: dropWhile_append)
qed

lemma trim_by_fixed:
  "trim_by ws xs = xs" if "xs = [] \<or> (\<not> ws (hd xs) \<and> \<not> ws (last xs))"
proof (cases xs)
  case (Cons y ys)
  with that have "dropWhile ws xs = xs" and "dropWhile ws (rev xs) = rev xs"
    unfolding dropWhile_eq_self_iff hd_rev by auto
  then show ?thesis by (simp add: trim_by_def)
qed (simp add: trim_by_def)

lemma trim_by_ends:
  assumes "trim_by ws xs \<noteq> []"
  shows "\<not> ws (hd (trim_by ws xs))" and "\<not> ws (last (trim_by ws xs))"
proof -
  let ?ys = "dropWhile ws xs"
  have ne: "?ys \<noteq> []" using assms unfolding trim_by_def by (metis dropWhile.simps(1) rev.simps(1))
  then have h: "\<not> ws (hd ?ys)" by (metis dropWhile_eq_Nil_conv hd_dropWhile)
  from hd_rev_dropWhile_rev [of ?ys ws, OF ne h] show "\<not> ws (hd (trim_by ws xs))"
    using h by (simp add: trim_by_def)
  show "\<not> ws (last (trim_by ws xs))"
    using assms hd_dropWhile [of ws "rev ?ys"] by (simp add: trim_by_def last_rev)
qed

lemma trim_by_idem [simp]: "trim_by ws (trim_by ws xs) = trim_by ws xs"
  using trim_by_ends [of ws xs] by (cases "trim_by ws xs = []") (auto intro!: trim_by_fixed)

lemma trim_by_infix: "\<exists>us vs. xs = us @ trim_by ws xs @ vs"
proof -
  have 1: "xs = takeWhile ws xs @ dropWhile ws xs" by simp
  have "rev (dropWhile ws xs) = takeWhile ws (rev (dropWhile ws xs)) @ dropWhile ws (rev (dropWhile ws xs))"
    by simp
  then have 2: "dropWhile ws xs = trim_by ws xs @ rev (takeWhile ws (rev (dropWhile ws xs)))"
    by (metis rev_append rev_rev_ident trim_by_def)
  from 1 2 show ?thesis by metis
qed

lemma set_trim_by: "set (trim_by ws xs) \<subseteq> set xs"
  using trim_by_infix [of xs ws] by (metis Un_iff set_append subsetI)

text \<open>The white space \<open>String.prototype.trim\<close> removes, on both representations of text.\<close>

definition js_space :: "char \<Rightarrow> bool" where
  "js_space c = ((of_char c :: nat) \<in> {9, 10, 11, 12, 13, 32, 160})"

definition js_space_unit :: "code_unit \<Rightarrow> bool" where
  "js_space_unit u =
     (u \<in> {9, 10, 11, 12, 13, 32, 160, 5760, 8232, 8233, 8239, 8287, 12288, 65279}
      \<or> (8192 \<le> u \<and> u \<le> 8202))"

definition js_trim :: "string \<Rightarrow> string" where
  "js_trim = trim_by js_space"

definition js_trim_text :: "jstext \<Rightarrow> jstext" where
  "js_trim_text = trim_by js_space_unit"

lemma js_trim_idem [simp]: "js_trim (js_trim s) = js_trim s"
  by (simp add: js_trim_def)

subsection \<open>Statements on tables\<close>

text \<open>
  \<open>findFirst\<close> and \<open>UPDATE ... RETURNING\<close>: \<open>update_returning\<close> gives the first row
  returned (the code reads \<open>rows[0]\<close>) and the table afterwards.
\<close>

definition find_first :: "('r \<Rightarrow> bool) \<Rightarrow> 'r list \<Rightarrow> 'r option" where
  "find_first p rs = find p rs"

definition update_where :: "('r \<Rightarrow> bool) \<Rightarrow> ('r \<Rightarrow> 'r) \<Rightarrow> 'r list \<Rightarrow> 'r list" where
  "update_where p f rs = map (\<lambda>r. if p r then f r else r) rs"

definition update_returning :: "('r \<Rightarrow> bool) \<Rightarrow> ('r \<Rightarrow> 'r) \<Rightarrow> 'r list \<Rightarrow> 'r option \<times> 'r list" where
  "update_returning p f rs = (map_option f (find p rs), update_where p f rs)"

text \<open>\<open>ORDER BY key ASC LIMIT 1\<close>: the first of the smallest; \<open>ORDER BY key ASC LIMIT n\<close>.\<close>

definition order_first :: "('r \<Rightarrow> 'k::linorder) \<Rightarrow> ('r \<Rightarrow> bool) \<Rightarrow> 'r list \<Rightarrow> 'r option" where
  "order_first key p rs = (case sort_key key (filter p rs) of [] \<Rightarrow> None | r # _ \<Rightarrow> Some r)"

definition order_limit :: "('r \<Rightarrow> 'k::linorder) \<Rightarrow> ('r \<Rightarrow> bool) \<Rightarrow> nat \<Rightarrow> 'r list \<Rightarrow> 'r list" where
  "order_limit key p n rs = take n (sort_key key (filter p rs))"

text \<open>Ascending order in PostgreSQL puts nulls last.\<close>

definition nulls_last :: "int option \<Rightarrow> int \<times> int" where
  "nulls_last t = (case t of Some v \<Rightarrow> (0, v) | None \<Rightarrow> (1, 0))"

lemma pred_option_eqs [code]: "pred_option P None = True" "pred_option P (Some x) = P x"
  by simp_all

lemma find_append: "find p (xs @ ys) = (case find p xs of None \<Rightarrow> find p ys | Some x \<Rightarrow> Some x)"
  by (induction xs) auto

lemma find_Some_mem: "find p rs = Some r \<Longrightarrow> r \<in> set rs \<and> p r"
  by (auto simp: find_Some_iff)

lemma find_first_Some: "find_first p rs = Some r \<Longrightarrow> r \<in> set rs \<and> p r"
  by (simp add: find_first_def find_Some_mem)

lemma find_first_None: "find_first p rs = None \<longleftrightarrow> (\<forall>r \<in> set rs. \<not> p r)"
  by (auto simp: find_first_def find_None_iff)

lemma update_returning_Some:
  assumes "update_returning p f rs = (Some u, rs')"
  shows "\<exists>r \<in> set rs. p r \<and> u = f r" and "rs' = update_where p f rs"
  using assms by (auto simp: update_returning_def dest: find_Some_mem)

lemma update_returning_None:
  assumes "update_returning p f rs = (None, rs')"
  shows "rs' = rs" and "\<forall>r \<in> set rs. \<not> p r"
proof -
  show *: "\<forall>r \<in> set rs. \<not> p r"
    using assms by (auto simp: update_returning_def find_None_iff)
  then show "rs' = rs"
    using assms by (auto simp: update_returning_def update_where_def intro: map_idI)
qed

lemma set_update_where:
  "r' \<in> set (update_where p f rs) \<longleftrightarrow> (\<exists>r \<in> set rs. r' = (if p r then f r else r))"
  by (auto simp: update_where_def)

lemma update_where_map:
  "(\<And>r. g (f r) = g r) \<Longrightarrow> map g (update_where p f rs) = map g rs"
  by (auto simp: update_where_def)

lemma order_first_Some:
  assumes "order_first key p rs = Some r"
  shows "r \<in> set rs" and "p r" and "\<And>r'. r' \<in> set rs \<Longrightarrow> p r' \<Longrightarrow> key r \<le> key r'"
proof -
  obtain rest where s: "sort_key key (filter p rs) = r # rest"
    using assms by (auto simp: order_first_def split: list.splits)
  have set_s: "set (r # rest) = {x \<in> set rs. p x}"
    using arg_cong [OF s, where f = set] by auto
  then show "r \<in> set rs" and "p r" by auto
  have "sorted (map key (r # rest))" using s by (metis sorted_sort_key)
  then show "key r \<le> key r'" if "r' \<in> set rs" "p r'" for r'
    using set_s that by auto
qed

lemma order_first_None: "order_first key p rs = None \<longleftrightarrow> (\<forall>r \<in> set rs. \<not> p r)"
proof -
  have "order_first key p rs = None \<longleftrightarrow> sort_key key (filter p rs) = []"
    by (simp add: order_first_def split: list.splits)
  also have "\<dots> \<longleftrightarrow> filter p rs = []" by (metis length_0_conv length_sort)
  finally show ?thesis by (simp add: filter_empty_conv)
qed

lemma order_limit_mem: "r \<in> set (order_limit key p n rs) \<Longrightarrow> r \<in> set rs \<and> p r"
  by (auto simp: order_limit_def dest!: in_set_takeD)

lemma unique_key_eq: "distinct (map k rs) \<Longrightarrow> r \<in> set rs \<Longrightarrow> r' \<in> set rs \<Longrightarrow> k r = k r' \<Longrightarrow> r = r'"
  by (meson eq_key_imp_eq_value distinct_map inj_onD)

lemma find_unique:
  assumes "distinct (map k rs)" and "r \<in> set rs" and "p r" and "\<And>x. p x \<Longrightarrow> k x = k r"
  shows "find p rs = Some r"
proof -
  from assms(2,3) obtain x where "find p rs = Some x"
    by (cases "find p rs") (auto simp: find_None_iff)
  moreover from find_Some_mem [OF this] have "x = r"
    using assms(1,2,4) by (auto intro: unique_key_eq)
  ultimately show ?thesis by simp
qed

subsection \<open>Chains of recorded transitions\<close>

text \<open>
  An event records the status before and after.  \<open>chain_from a xs b\<close> says that a list of
  such pairs leads from \<open>a\<close> to \<open>b\<close> without a gap.
\<close>

fun chain_from :: "'s option \<Rightarrow> ('s option \<times> 's option) list \<Rightarrow> 's option \<Rightarrow> bool" where
  "chain_from a [] b \<longleftrightarrow> a = b"
| "chain_from a ((p, q) # xs) b \<longleftrightarrow> p = a \<and> chain_from q xs b"

lemma chain_from_append [simp]:
  "chain_from a (xs @ ys) c \<longleftrightarrow> (\<exists>b. chain_from a xs b \<and> chain_from b ys c)"
  by (induction a xs c rule: chain_from.induct) auto

lemma chain_from_unique: "chain_from a xs b \<Longrightarrow> chain_from a xs c \<Longrightarrow> b = c"
  by (induction a xs b arbitrary: c rule: chain_from.induct) auto

subsection \<open>Computations that may throw\<close>

definition and_then :: "'e + 'a \<Rightarrow> ('a \<Rightarrow> 'e + 'b) \<Rightarrow> 'e + 'b" where
  "and_then r f = (case r of Inl e \<Rightarrow> Inl e | Inr x \<Rightarrow> f x)"

fun in_order :: "('e + 'a) list \<Rightarrow> 'e + 'a list" where
  "in_order [] = Inr []"
| "in_order (r # rs) = and_then r (\<lambda>x. and_then (in_order rs) (\<lambda>xs. Inr (x # xs)))"

lemma and_then_Inr [simp]: "and_then r f = Inr y \<longleftrightarrow> (\<exists>x. r = Inr x \<and> f x = Inr y)"
  by (cases r) (auto simp: and_then_def)

lemma and_then_simps [simp]: "and_then (Inr x) f = f x" "and_then (Inl e) f = Inl e"
  by (simp_all add: and_then_def)

lemma in_order_values: "in_order (map Inr xs) = Inr xs"
  by (induction xs) (auto simp: and_then_def)

end
