(* ===== verification/Texts.thy ===== *)
theory Texts
  imports Prelude
begin

text \<open>
  Classes of characters and searches in texts, as the regular expressions of the sources
  use them.  \<open>lower\<close> is the case folding of a flag \<open>i\<close> on a pattern of ASCII letters,
  \<open>to_lower\<close> is \<open>String.prototype.toLowerCase\<close> on the code units 0 to 255.
\<close>

definition alnum :: "char \<Rightarrow> bool" where
  "alnum c \<longleftrightarrow> (let n = of_char c :: nat in
     (48 \<le> n \<and> n \<le> 57) \<or> (65 \<le> n \<and> n \<le> 90) \<or> (97 \<le> n \<and> n \<le> 122))"

definition control_char :: "char \<Rightarrow> bool" where
  "control_char c \<longleftrightarrow> (let n = of_char c :: nat in n \<le> 31 \<or> n = 127)"

definition lower :: "char \<Rightarrow> char" where
  "lower c = (let n = of_char c :: nat in if 65 \<le> n \<and> n \<le> 90 then char_of (n + 32) else c)"

fun contains :: "string \<Rightarrow> string \<Rightarrow> bool" where
  "contains p [] \<longleftrightarrow> p = []"
| "contains p (c # s) \<longleftrightarrow> take (length p) (c # s) = p \<or> contains p s"

definition matches_i :: "string \<Rightarrow> string \<Rightarrow> bool" where
  "matches_i word text \<longleftrightarrow> contains word (map lower text)"

definition to_lower :: "char \<Rightarrow> char" where
  "to_lower c = (let n = of_char c :: nat in
     if (65 \<le> n \<and> n \<le> 90) \<or> (192 \<le> n \<and> n \<le> 222 \<and> n \<noteq> 215) then char_of (n + 32) else c)"

definition ascii_letter :: "char \<Rightarrow> bool" where
  "ascii_letter c \<longleftrightarrow> (let n = of_char c :: nat in (65 \<le> n \<and> n \<le> 90) \<or> (97 \<le> n \<and> n \<le> 122))"

definition word_char :: "char \<Rightarrow> bool" where
  "word_char c \<longleftrightarrow> alnum c \<or> c = CHR ''_''"

definition starts_with :: "string \<Rightarrow> string \<Rightarrow> bool" where
  "starts_with p s \<longleftrightarrow> take (length p) s = p"

lemma starts_with_append: "starts_with p s \<longleftrightarrow> (\<exists>rest. s = p @ rest)"
  by (auto simp: starts_with_def) (metis append_take_drop_id)

text \<open>Some place of a text at which a test of the rest succeeds.\<close>

fun somewhere :: "(string \<Rightarrow> bool) \<Rightarrow> string \<Rightarrow> bool" where
  "somewhere p [] \<longleftrightarrow> p []"
| "somewhere p (c # s) \<longleftrightarrow> p (c # s) \<or> somewhere p s"

lemma somewhere_suffix: "somewhere p s \<longleftrightarrow> (\<exists>u v. s = u @ v \<and> p v)"
proof (induction s)
  case (Cons c s)
  have "(\<exists>u v. c # s = u @ v \<and> p v) \<longleftrightarrow> p (c # s) \<or> (\<exists>u v. s = u @ v \<and> p v)"
    by (metis append_Cons append_Nil list.exhaust_sel list.inject list.sel(1,3))
  with Cons show ?case by simp
qed simp

end
