(* ===== verification/UrlSafety.thy ===== *)
theory UrlSafety
  imports Texts
begin

text \<open>
  The rules on URLs (\<open>src/platform/security/url-safety.ts\<close>).  The URL parser
  (\<open>new URL\<close>) and \<open>decodeURIComponent\<close> are arguments; a parsed URL shows the parts the rules
  look at, its port as a number when it has one.
\<close>

record url_parts =
  up_protocol :: string
  up_username :: string
  up_password :: string
  up_hostname :: string
  up_port :: "nat option"
  up_pathname :: string

record url_library =
  ul_parse :: "string \<Rightarrow> url_parts option"
  ul_decode :: "string \<Rightarrow> string option"

definition lower_case :: "string \<Rightarrow> string" where
  "lower_case s = map to_lower s"

definition parseAbsoluteUrl :: "url_library \<Rightarrow> string \<Rightarrow> string + url_parts" where
  "parseAbsoluteUrl lib value =
     (case ul_parse lib value of None \<Rightarrow> Inl ''URL is malformed.'' | Some u \<Rightarrow> Inr u)"

definition validateParsedAbsoluteUrl :: "url_parts \<Rightarrow> string + unit" where
  "validateParsedAbsoluteUrl url =
     (if up_username url \<noteq> [] \<or> up_password url \<noteq> [] then Inl ''Embedded URL credentials are not allowed.''
      else if lower_case (up_protocol url) \<in> {''http:'', ''https:''} then
        (if js_trim (up_hostname url) = [] then Inl ''URL host is invalid.''
         else (case up_port url of
             None \<Rightarrow> Inr ()
           | Some p \<Rightarrow> if p < 1 \<or> p > 65535 then Inl ''URL port is invalid.'' else Inr ()))
      else Inr ())"

definition decodeOnceIfPossible :: "url_library \<Rightarrow> string \<Rightarrow> string" where
  "decodeOnceIfPossible lib value = (case ul_decode lib value of Some d \<Rightarrow> d | None \<Rightarrow> value)"

definition normalizeForSchemeCheck :: "url_library \<Rightarrow> string \<Rightarrow> string" where
  "normalizeForSchemeCheck lib raw = lower_case (decodeOnceIfPossible lib (js_trim raw))"

text \<open>\<open>/^(javascript|data|...)\s*:/\<close>\<close>

definition unsafe_schemes :: "string list" where
  "unsafe_schemes =
     [''javascript'', ''data'', ''file'', ''vbscript'', ''blob'', ''chrome'', ''about'']"

definition hasUnsafeScheme :: "url_library \<Rightarrow> string \<Rightarrow> bool" where
  "hasUnsafeScheme lib value \<longleftrightarrow>
     (let normalized = normalizeForSchemeCheck lib value
      in list_ex (\<lambda>scheme. starts_with scheme normalized
           \<and> starts_with '':'' (dropWhile js_space (drop (length scheme) normalized))) unsafe_schemes)"

definition hasSafeScheme :: "url_library \<Rightarrow> string \<Rightarrow> string list \<Rightarrow> bool" where
  "hasSafeScheme lib value allowedSchemes \<longleftrightarrow>
     (let normalized = normalizeForSchemeCheck lib value
      in list_ex (\<lambda>scheme. starts_with (lower_case scheme @ '':'') normalized) allowedSchemes)"

definition sanitizeUrlInput :: "url_library \<Rightarrow> string \<Rightarrow> string + string" where
  "sanitizeUrlInput lib value =
     (let normalized = js_trim value in
      if normalized = [] then Inl ''URL must not be empty.''
      else if list_ex control_char normalized then Inl ''URL contains control characters.''
      else if starts_with ''//'' normalized then Inl ''Protocol-relative URLs are not allowed.''
      else if hasUnsafeScheme lib normalized then Inl ''Unsafe URL scheme is not allowed.''
      else Inr normalized)"

definition assertSafeExternalUrl :: "url_library \<Rightarrow> string \<Rightarrow> string list \<Rightarrow> string + string" where
  "assertSafeExternalUrl lib value allowedSchemes =
     (case sanitizeUrlInput lib value of
        Inl e \<Rightarrow> Inl e
      | Inr normalized \<Rightarrow>
          if \<not> hasSafeScheme lib normalized allowedSchemes then Inl ''URL scheme is not allowed.''
          else (case parseAbsoluteUrl lib normalized of
              Inl e \<Rightarrow> Inl e
            | Inr parsed \<Rightarrow>
                (case validateParsedAbsoluteUrl parsed of Inl e \<Rightarrow> Inl e | Inr _ \<Rightarrow> Inr normalized)))"

definition assertSafeAssetUrl :: "url_library \<Rightarrow> string \<Rightarrow> string list \<Rightarrow> string + string" where
  "assertSafeAssetUrl lib value allowedSchemes =
     (case sanitizeUrlInput lib value of
        Inl e \<Rightarrow> Inl e
      | Inr normalized \<Rightarrow>
          if \<not> hasSafeScheme lib normalized allowedSchemes then Inl ''Asset URL scheme is not allowed.''
          else (case parseAbsoluteUrl lib normalized of
              Inl e \<Rightarrow> Inl e
            | Inr parsed \<Rightarrow>
                (case validateParsedAbsoluteUrl parsed of
                   Inl e \<Rightarrow> Inl e
                 | Inr _ \<Rightarrow>
                     if lower_case (up_protocol parsed) = ''asset:''
                        \<and> js_trim (up_hostname parsed) = [] \<and> js_trim (up_pathname parsed) = []
                     then Inl ''Asset URL path is invalid.''
                     else Inr normalized)))"

text \<open>The defaults of the optional argument.\<close>

definition external_schemes :: "string list" where
  "external_schemes = [''https'', ''http'', ''mailto'']"

definition asset_schemes :: "string list" where
  "asset_schemes = [''https'', ''http'', ''asset'']"

definition internal_target :: "string \<Rightarrow> bool" where
  "internal_target s \<longleftrightarrow>
     s \<noteq> [] \<and> length s \<le> 120 \<and> alnum (hd s)
     \<and> list_all (\<lambda>c. alnum c \<or> c = CHR ''_'' \<or> c = CHR ''-'') (tl s)"

definition assertSafeInternalHref :: "url_library \<Rightarrow> string \<Rightarrow> string + string" where
  "assertSafeInternalHref lib value =
     (case sanitizeUrlInput lib value of
        Inl e \<Rightarrow> Inl e
      | Inr normalized \<Rightarrow>
          if \<not> starts_with ''#'' normalized then Inl ''Internal href must start with #.''
          else if \<not> internal_target (drop 1 normalized) then Inl ''Internal href target is invalid.''
          else Inr normalized)"

subsection \<open>What the rules guarantee\<close>

lemma sanitizeUrlInput_Inr:
  "sanitizeUrlInput lib v = Inr u \<longleftrightarrow>
     u = js_trim v \<and> u \<noteq> [] \<and> \<not> list_ex control_char u \<and> \<not> starts_with ''//'' u \<and> \<not> hasUnsafeScheme lib u"
  by (auto simp: sanitizeUrlInput_def Let_def)

lemma external_Inr:
  assumes "assertSafeExternalUrl lib v schemes = Inr u"
  obtains p where "sanitizeUrlInput lib v = Inr u" "hasSafeScheme lib u schemes" "ul_parse lib u = Some p"
    "validateParsedAbsoluteUrl p = Inr ()"
  using assms by (auto simp: assertSafeExternalUrl_def parseAbsoluteUrl_def split: sum.splits if_splits option.splits)

lemma asset_Inr:
  assumes "assertSafeAssetUrl lib v schemes = Inr u"
  obtains p where "sanitizeUrlInput lib v = Inr u" "hasSafeScheme lib u schemes" "ul_parse lib u = Some p"
    "validateParsedAbsoluteUrl p = Inr ()"
  using assms by (auto simp: assertSafeAssetUrl_def parseAbsoluteUrl_def split: sum.splits if_splits option.splits)

text \<open>
  The documented behaviour of the two functions of the platform: an absolute URL begins with
  its protocol, up to case, which has no percent sign and ends in the first colon, unless the
  text has control characters (the platform skips tabs and line ends); decoding leaves what
  comes before the first percent sign.
\<close>

definition url_library_ok :: "url_library \<Rightarrow> bool" where
  "url_library_ok lib \<longleftrightarrow>
     (\<forall>u p. js_trim u = u \<longrightarrow> \<not> list_ex control_char u \<longrightarrow> ul_parse lib u = Some p \<longrightarrow>
        (\<exists>scheme rest. u = scheme @ '':'' @ rest \<and> CHR ''%'' \<notin> set scheme \<and> CHR '':'' \<notin> set scheme
           \<and> lower_case (up_protocol p) = lower_case scheme @ '':''))
     \<and> (\<forall>v w. ul_decode lib v = Some w \<longrightarrow>
        (\<exists>rest. w = takeWhile (\<lambda>c. c \<noteq> CHR ''%'') v @ rest))"

lemma to_lower_colon: "to_lower c = CHR '':'' \<longleftrightarrow> c = CHR '':''"
proof (cases "(65 \<le> (of_char c :: nat) \<and> (of_char c :: nat) \<le> 90)
    \<or> (192 \<le> (of_char c :: nat) \<and> (of_char c :: nat) \<le> 222 \<and> (of_char c :: nat) \<noteq> 215)")
  case True
  then have "(of_char (to_lower c) :: nat) = of_char c + 32"
    by (auto simp: to_lower_def Let_def)
  then have "to_lower c \<noteq> CHR '':''" using True by (cases "to_lower c = CHR '':''") auto
  moreover have "c \<noteq> CHR '':''" using True by auto
  ultimately show ?thesis by simp
next
  case False
  then have "to_lower c = c" unfolding to_lower_def Let_def by (rule if_not_P)
  then show ?thesis by simp
qed

lemma lower_case_append [simp]: "lower_case (s @ t) = lower_case s @ lower_case t"
  by (simp add: lower_case_def)

lemma lower_case_colon [simp]: "lower_case '':'' = '':''"
  by (simp add: lower_case_def to_lower_colon)

lemma colon_lower_case [simp]: "CHR '':'' \<in> set (lower_case s) \<longleftrightarrow> CHR '':'' \<in> set s"
proof -
  have "CHR '':'' \<in> set (lower_case s) \<longleftrightarrow> (\<exists>c \<in> set s. to_lower c = CHR '':'')"
    by (force simp: lower_case_def image_iff)
  then show ?thesis by (simp add: to_lower_colon)
qed

lemma first_colon:
  assumes "s @ '':'' @ t = s' @ '':'' @ t'" and "CHR '':'' \<notin> set s" and "CHR '':'' \<notin> set s'"
  shows "s = s'"
proof -
  have tw: "takeWhile (\<lambda>c. c \<noteq> CHR '':'') (x @ '':'' @ y) = x" if "CHR '':'' \<notin> set x" for x y
  proof -
    have "takeWhile (\<lambda>c. c \<noteq> CHR '':'') (x @ '':'' @ y) = x @ takeWhile (\<lambda>c. c \<noteq> CHR '':'') ('':'' @ y)"
      using that by (intro takeWhile_append2) auto
    then show ?thesis by simp
  qed
  from tw [OF assms(2), of t] tw [OF assms(3), of t'] assms(1) show ?thesis by simp
qed

lemma safe_scheme_protocol:
  assumes "url_library_ok lib" and "js_trim u = u" and "\<not> list_ex control_char u"
    and "ul_parse lib u = Some p" and "hasSafeScheme lib u schemes" and "list_all (\<lambda>s. CHR '':'' \<notin> set s) schemes"
  shows "\<exists>scheme \<in> set schemes. lower_case (up_protocol p) = lower_case scheme @ '':''"
proof -
  obtain s0 rest where u: "u = s0 @ '':'' @ rest" "CHR ''%'' \<notin> set s0" "CHR '':'' \<notin> set s0"
    "lower_case (up_protocol p) = lower_case s0 @ '':''"
    using assms(1-4) unfolding url_library_ok_def by blast
  have "\<exists>rest'. decodeOnceIfPossible lib u = s0 @ '':'' @ rest'"
  proof (cases "ul_decode lib u")
    case (Some w)
    then obtain r where "w = takeWhile (\<lambda>c. c \<noteq> CHR ''%'') u @ r"
      using assms(1) unfolding url_library_ok_def by blast
    moreover have "takeWhile (\<lambda>c. c \<noteq> CHR ''%'') u = s0 @ takeWhile (\<lambda>c. c \<noteq> CHR ''%'') ('':'' @ rest)"
      unfolding u(1) using u(2) by (intro takeWhile_append2) auto
    ultimately show ?thesis using Some by (simp add: decodeOnceIfPossible_def)
  qed (use u(1) in \<open>auto simp: decodeOnceIfPossible_def\<close>)
  then obtain rest' where "decodeOnceIfPossible lib u = s0 @ '':'' @ rest'" by blast
  then have n: "normalizeForSchemeCheck lib u = lower_case s0 @ '':'' @ lower_case rest'"
    using assms(2) by (simp add: normalizeForSchemeCheck_def del: append_Cons append_Nil)
  obtain scheme where sc: "scheme \<in> set schemes" "starts_with (lower_case scheme @ '':'') (normalizeForSchemeCheck lib u)"
    using assms(5) by (auto simp: hasSafeScheme_def list_ex_iff)
  then obtain r2 where "normalizeForSchemeCheck lib u = lower_case scheme @ '':'' @ r2"
    by (auto simp: starts_with_append)
  moreover have "CHR '':'' \<notin> set scheme" using sc(1) assms(6) by (auto simp: list_all_iff)
  ultimately have "lower_case s0 = lower_case scheme"
    using n u(3) by (metis colon_lower_case first_colon)
  with u(4) sc(1) show ?thesis by auto
qed

text \<open>
  C26: A link the rules accept is what it says: trimmed and free of control characters, its URL has
  no credentials, and the protocol the platform reads in it is one of the allowed schemes,
  whatever was percent-encoded.
\<close>

theorem accepted_link_is_safe:
  assumes "url_library_ok lib" and "assertSafeExternalUrl lib v external_schemes = Inr u"
  shows "u = js_trim v \<and> \<not> list_ex control_char u
    \<and> (\<exists>p. ul_parse lib u = Some p \<and> up_username p = [] \<and> up_password p = []
         \<and> lower_case (up_protocol p) \<in> {''https:'', ''http:'', ''mailto:''})"
proof -
  from external_Inr [OF assms(2)] obtain p where p: "sanitizeUrlInput lib v = Inr u"
    "hasSafeScheme lib u external_schemes" "ul_parse lib u = Some p" "validateParsedAbsoluteUrl p = Inr ()" by blast
  then have u: "u = js_trim v" "\<not> list_ex control_char u" by (auto simp: sanitizeUrlInput_Inr)
  have "list_all (\<lambda>s. CHR '':'' \<notin> set s) external_schemes" by code_simp
  from safe_scheme_protocol [OF assms(1) _ u(2) p(3,2) this] obtain scheme where
    s: "scheme \<in> set external_schemes" "lower_case (up_protocol p) = lower_case scheme @ '':''"
    using u(1) by auto
  have "list_all (\<lambda>scheme. lower_case scheme @ '':'' \<in> {''https:'', ''http:'', ''mailto:''}) external_schemes"
    by code_simp
  with s have "lower_case (up_protocol p) \<in> {''https:'', ''http:'', ''mailto:''}" by (simp add: list_all_iff)
  moreover have "up_username p = [] \<and> up_password p = []"
    using p(4) by (auto simp: validateParsedAbsoluteUrl_def split: if_splits)
  ultimately show ?thesis using u p(3) by blast
qed

text \<open>A library that knows the links of one host.\<close>

definition demo_url :: string where "demo_url = ''HTTPS://a/%20''"

definition demo_library :: url_library where
  "demo_library = \<lparr>ul_parse = (\<lambda>u. if u = demo_url
       then Some \<lparr>up_protocol = ''https:'', up_username = [], up_password = [], up_hostname = ''a'',
                  up_port = None, up_pathname = ''/%20''\<rparr> else None),
     ul_decode = (\<lambda>v. Some (takeWhile (\<lambda>c. c \<noteq> CHR ''%'') v))\<rparr>"

lemma demo_library_ok: "url_library_ok demo_library"
proof -
  have "demo_url = ''HTTPS'' @ '':'' @ ''//a/%20''" by (simp add: demo_url_def)
  moreover have "lower_case ''https:'' = lower_case ''HTTPS'' @ '':''" by code_simp
  moreover have "CHR ''%'' \<notin> set ''HTTPS'' \<and> CHR '':'' \<notin> set ''HTTPS''" by simp
  ultimately have parts: "\<exists>scheme rest. demo_url = scheme @ '':'' @ rest \<and> CHR ''%'' \<notin> set scheme
      \<and> CHR '':'' \<notin> set scheme \<and> lower_case ''https:'' = lower_case scheme @ '':''" by blast
  show ?thesis unfolding url_library_ok_def
  proof (intro conjI allI impI)
    fix u p
    assume "ul_parse demo_library u = Some p"
    then have "u = demo_url" "up_protocol p = ''https:''" by (auto simp: demo_library_def split: if_splits)
    with parts show "\<exists>scheme rest. u = scheme @ '':'' @ rest \<and> CHR ''%'' \<notin> set scheme \<and> CHR '':'' \<notin> set scheme
        \<and> lower_case (up_protocol p) = lower_case scheme @ '':''" by metis
  qed (simp add: demo_library_def)
qed

lemma accepted_link_is_safe_witness:
  "\<exists>p. ul_parse demo_library demo_url = Some p \<and> lower_case (up_protocol p) = ''https:''"
proof -
  have "assertSafeExternalUrl demo_library demo_url external_schemes = Inr demo_url" by code_simp
  from accepted_link_is_safe [OF demo_library_ok this] obtain p where p: "ul_parse demo_library demo_url = Some p"
    by blast
  then have "up_protocol p = ''https:''" by (auto simp: demo_library_def)
  moreover have "lower_case ''https:'' = ''https:''" by code_simp
  ultimately show ?thesis using p by metis
qed

end
