(* ===== verification/HtmlMarkup.thy ===== *)
theory HtmlMarkup
  imports UrlSafety
begin

text \<open>
  HTML documents as trees (\<open>src/domain/publications/html-types.ts\<close>), their serialization
  (\<open>src/application/rendering/html-markup-serializer.ts\<close> with \<open>html-escaping.ts\<close>) and the shell
  around a serialized body
  (\<open>src/application/publication-packaging/standalone-html-document-composer.ts\<close>).
  \<open>collate\<close> is the order of \<open>localeCompare\<close>.
\<close>

subsection \<open>Escaping\<close>

definition escape_text_char :: "char \<Rightarrow> string" where
  "escape_text_char c =
     (if c = CHR ''&'' then ''&amp;'' else if c = CHR ''<'' then ''&lt;''
      else if c = CHR ''>'' then ''&gt;'' else [c])"

definition escape_attribute_char :: "char \<Rightarrow> string" where
  "escape_attribute_char c =
     (if c = CHR ''&'' then ''&amp;'' else if c = CHR ''<'' then ''&lt;''
      else if c = CHR ''>'' then ''&gt;'' else if c = CHR 0x22 then ''&quot;''
      else if c = CHR 0x27 then ''&#39;'' else [c])"

definition escapeText :: "string \<Rightarrow> string" where
  "escapeText value = concat (map escape_text_char value)"

definition escapeAttribute :: "string \<Rightarrow> string" where
  "escapeAttribute value = concat (map escape_attribute_char value)"

definition escapeTitle :: "string \<Rightarrow> string" where
  "escapeTitle value = escapeText value"

subsection \<open>Documents\<close>

record html_attributes =
  ha_id :: "string option"
  ha_href :: "string option"
  ha_src :: "string option"
  ha_alt :: "string option"
  ha_title :: "string option"
  ha_role :: "string option"
  ha_lang :: "string option"
  ha_target :: "string option"
  ha_rel :: "string option"
  ha_ariaLabel :: "string option"
  ha_ariaDescribedBy :: "string option"
  ha_ariaLabelledBy :: "string option"
  ha_scope :: "string option"
  ha_colspan :: "string option"
  ha_rowspan :: "string option"
  ha_loading :: "string option"
  ha_decoding :: "string option"
  ha_referrerpolicy :: "string option"
  ha_dataPublicationBlock :: "string option"
  ha_dataReferenceId :: "string option"
  ha_dataCitationId :: "string option"
  ha_dataFootnoteId :: "string option"

definition no_attributes :: html_attributes where
  "no_attributes = \<lparr>ha_id = None, ha_href = None, ha_src = None, ha_alt = None, ha_title = None,
     ha_role = None, ha_lang = None, ha_target = None, ha_rel = None, ha_ariaLabel = None,
     ha_ariaDescribedBy = None, ha_ariaLabelledBy = None, ha_scope = None, ha_colspan = None,
     ha_rowspan = None, ha_loading = None, ha_decoding = None, ha_referrerpolicy = None,
     ha_dataPublicationBlock = None, ha_dataReferenceId = None, ha_dataCitationId = None,
     ha_dataFootnoteId = None\<rparr>"

record style_token =
  st_category :: string
  st_value :: string

datatype element_type =
    GenericElement
  | HeadingElement nat
  | ListElement bool
  | TableElement "string list" "string list list"
  | ImageElement string string string "string option"
  | CalloutElement string

datatype html_node =
    HText (hn_text: string)
  | HElement (he_type: element_type) (he_id: "string option") (he_tag: string)
      (he_attributes: html_attributes) (he_classList: "string list") (he_ariaLabel: "string option")
      (he_role: "string option") (he_styleTokens: "style_token list") (he_children: "html_node list")

record html_section =
  hx_id :: string
  hx_title :: string
  hx_role :: string
  hx_styleTokens :: "style_token list"
  hx_elements :: "html_node list"

record html_head =
  hh_title :: string
  hh_lang :: string
  hh_metadata :: "(string \<times> string) list"
  hh_styleTokens :: "style_token list"

record html_landmark =
  hl_role :: string
  hl_sectionId :: string
  hl_label :: "string option"

record html_asset =
  hg_id :: string
  hg_assetId :: string
  hg_uri :: string
  hg_mimeType :: "string option"
  hg_altText :: string

record html_metadata =
  hm_publicationId :: string
  hm_publicationType :: string
  hm_title :: string
  hm_description :: "string option"
  hm_language :: string
  hm_generatedAt :: string
  hm_sourceVersionId :: string
  hm_sourceContentHash :: string
  hm_audience :: string
  hm_theme :: string
  hm_styleTokens :: "style_token list"
  hm_assetReferences :: "html_asset list"

record html_document =
  hd_schemaVersion :: string
  hd_metadata :: html_metadata
  hd_theme :: string
  hd_head :: html_head
  hd_skipNavigationTargetId :: string
  hd_sections :: "html_section list"
  hd_landmarks :: "html_landmark list"

subsection \<open>Attributes\<close>

datatype markup_error = MarkupError string | UnsafeStandaloneHtmlError string | InvalidSerializedHtmlDocumentError string

definition void_tags :: "string list" where
  "void_tags = [''hr'', ''img'']"

definition tag_base_classes :: "string \<Rightarrow> string list" where
  "tag_base_classes tag =
     (if tag = ''article'' then [''publication'']
      else if tag = ''main'' then [''publication-main'']
      else if tag = ''section'' then [''publication-section'']
      else if tag = ''nav'' then [''publication-navigation'']
      else if tag = ''p'' then [''publication-paragraph'']
      else if tag = ''figure'' then [''publication-figure'']
      else if tag = ''figcaption'' then [''publication-caption'']
      else if tag = ''ul'' \<or> tag = ''ol'' then [''publication-list'']
      else if tag = ''table'' then [''publication-table'']
      else if tag \<in> {''h1'', ''h2'', ''h3'', ''h4'', ''h5'', ''h6''} then [''publication-heading'']
      else [])"

definition block_types :: "string list" where
  "block_types = [''reflection'', ''call-to-action'', ''prayer'', ''journal-prompt'', ''sidebar'',
     ''key-takeaway'', ''warning'', ''highlight'', ''scripture'']"

definition block_hooks :: "string \<Rightarrow> string list" where
  "block_hooks block =
     (if block \<in> set block_types then [''publication-block'', ''publication-'' @ block] else [])"

definition controlled_attribute_order :: "string list" where
  "controlled_attribute_order =
     [''id'', ''class'', ''lang'', ''role'', ''aria-label'', ''aria-labelledby'', ''aria-describedby'',
      ''href'', ''src'', ''alt'', ''title'', ''target'', ''rel'', ''scope'', ''colspan'', ''rowspan'',
      ''loading'', ''decoding'', ''referrerpolicy'', ''data-publication-block'', ''data-reference-id'',
      ''data-citation-id'', ''data-footnote-id'']"

definition normalizeClasses :: "(string \<Rightarrow> 'k::linorder) \<Rightarrow> string list \<Rightarrow> string list" where
  "normalizeClasses collate classes = sort_key collate (rev (remdups (rev classes)))"

definition token_text :: "string \<Rightarrow> string" where
  "token_text s = map (\<lambda>c. if alnum c \<or> c = CHR ''-'' then to_lower c else CHR ''-'') s"

definition normalizeStyleTokenClasses :: "(string \<Rightarrow> 'k::linorder) \<Rightarrow> style_token list \<Rightarrow> string list" where
  "normalizeStyleTokenClasses collate tokens =
     normalizeClasses collate
       (map (\<lambda>t. ''token-'' @ token_text (st_category t) @ ''-'' @ token_text (st_value t)) tokens)"

definition validateAndNormalizeUrl ::
  "url_library \<Rightarrow> string \<Rightarrow> string \<Rightarrow> string \<Rightarrow> string + string" where
  "validateAndNormalizeUrl lib tag attribute value =
     (if attribute = ''href'' then
        (if starts_with ''#'' value then assertSafeInternalHref lib value
         else assertSafeExternalUrl lib value external_schemes)
      else if tag = ''img'' then assertSafeAssetUrl lib value asset_schemes
      else assertSafeExternalUrl lib value external_schemes)"

text \<open>An attribute is set when its value is truthy; a URL is checked first.\<close>

definition if_truthy :: "string \<Rightarrow> string option \<Rightarrow> (string \<times> string) list" where
  "if_truthy key value =
     (case value of None \<Rightarrow> [] | Some v \<Rightarrow> if v = [] then [] else [(key, v)])"

definition checked_url ::
  "url_library \<Rightarrow> string \<Rightarrow> string \<Rightarrow> string option \<Rightarrow> string + (string \<times> string) list" where
  "checked_url lib tag attribute value =
     (case value of
        None \<Rightarrow> Inr []
      | Some v \<Rightarrow>
          if v = [] then Inr []
          else (case validateAndNormalizeUrl lib tag attribute v of
              Inl e \<Rightarrow> Inl e
            | Inr u \<Rightarrow> Inr [(attribute, u)]))"

definition join_classes :: "string list \<Rightarrow> string" where
  "join_classes cs = (case cs of [] \<Rightarrow> [] | c # rest \<Rightarrow> c @ concat (map (\<lambda>x. '' '' @ x) rest))"

definition element_classes :: "(string \<Rightarrow> 'k::linorder) \<Rightarrow> html_node \<Rightarrow> string list" where
  "element_classes collate node =
     normalizeClasses collate
       (tag_base_classes (he_tag node)
        @ (case ha_dataPublicationBlock (he_attributes node) of
             Some b \<Rightarrow> if b = [] then [] else block_hooks b | None \<Rightarrow> [])
        @ map (\<lambda>c. ''class-'' @ c) (he_classList node)
        @ normalizeStyleTokenClasses collate (he_styleTokens node))"

definition createControlledAttributes ::
  "(string \<Rightarrow> 'k::linorder) \<Rightarrow> url_library \<Rightarrow> html_node \<Rightarrow> string \<Rightarrow> string list
     \<Rightarrow> markup_error + (string \<times> string) list \<times> string list" where
  "createControlledAttributes collate lib node language idSet =
     (let attrs = he_attributes node; classes = element_classes collate node in
      if (case he_id node of Some i \<Rightarrow> i \<in> set idSet | None \<Rightarrow> False)
      then Inl (MarkupError ''Duplicate HTML ID detected during serialization.'')
      else case checked_url lib (he_tag node) ''href'' (ha_href attrs) of
        Inl e \<Rightarrow> Inl (MarkupError e)
      | Inr href \<Rightarrow>
          (case checked_url lib (he_tag node) ''src'' (ha_src attrs) of
             Inl e \<Rightarrow> Inl (MarkupError e)
           | Inr src \<Rightarrow>
               Inr ((case he_id node of Some i \<Rightarrow> [(''id'', i)] | None \<Rightarrow> [])
                 @ (if classes = [] then [] else [(''class'', join_classes classes)])
                 @ (if he_tag node = ''html'' then [(''lang'', language)] else [])
                 @ if_truthy ''role'' (he_role node)
                 @ if_truthy ''aria-label'' (he_ariaLabel node)
                 @ if_truthy ''aria-labelledby'' (ha_ariaLabelledBy attrs)
                 @ if_truthy ''aria-describedby'' (ha_ariaDescribedBy attrs)
                 @ href @ src
                 @ if_truthy ''alt'' (ha_alt attrs)
                 @ if_truthy ''title'' (ha_title attrs)
                 @ if_truthy ''target'' (ha_target attrs)
                 @ if_truthy ''rel'' (ha_rel attrs)
                 @ if_truthy ''scope'' (ha_scope attrs)
                 @ if_truthy ''colspan'' (ha_colspan attrs)
                 @ if_truthy ''rowspan'' (ha_rowspan attrs)
                 @ if_truthy ''loading'' (ha_loading attrs)
                 @ if_truthy ''decoding'' (ha_decoding attrs)
                 @ if_truthy ''referrerpolicy'' (ha_referrerpolicy attrs)
                 @ if_truthy ''data-publication-block'' (ha_dataPublicationBlock attrs)
                 @ if_truthy ''data-reference-id'' (ha_dataReferenceId attrs)
                 @ if_truthy ''data-citation-id'' (ha_dataCitationId attrs)
                 @ if_truthy ''data-footnote-id'' (ha_dataFootnoteId attrs),
                 (case he_id node of Some i \<Rightarrow> i # idSet | None \<Rightarrow> idSet))))"

definition attribute_entries :: "(string \<times> string) list \<Rightarrow> (string \<times> string) list" where
  "attribute_entries attributes =
     concat (map (\<lambda>key. case map_of attributes key of Some v \<Rightarrow> [(key, v)] | None \<Rightarrow> [])
       controlled_attribute_order)"

definition attribute_text :: "string \<times> string \<Rightarrow> string" where
  "attribute_text entry = '' '' @ fst entry @ ''='' @ [CHR 0x22] @ escapeAttribute (snd entry) @ [CHR 0x22]"

definition serializeAttributes :: "(string \<times> string) list \<Rightarrow> markup_error + string" where
  "serializeAttributes attributes =
     (let entries = attribute_entries attributes in
      if list_ex (\<lambda>(key, v). starts_with ''on'' key) entries
      then Inl (MarkupError ''Event handler attributes are not allowed.'')
      else Inr (concat (map attribute_text entries)))"

subsection \<open>Nodes\<close>

definition active_tags :: "string list" where
  "active_tags = [''script'', ''iframe'', ''object'', ''embed'', ''form'']"

fun serializeNode ::
  "(string \<Rightarrow> 'k::linorder) \<Rightarrow> url_library \<Rightarrow> string \<Rightarrow> html_node \<Rightarrow> string list
     \<Rightarrow> markup_error + string \<times> string list"
  and serializeNodes ::
  "(string \<Rightarrow> 'k::linorder) \<Rightarrow> url_library \<Rightarrow> string \<Rightarrow> html_node list \<Rightarrow> string list
     \<Rightarrow> markup_error + string \<times> string list" where
  "serializeNode collate lib language (HText text) idSet = Inr (escapeText text, idSet)"
| "serializeNode collate lib language (HElement ty i tag attrs cls al role sts children) idSet =
     (if tag \<in> set active_tags then Inl (MarkupError ''Active content elements are not allowed.'')
      else case createControlledAttributes collate lib
                  (HElement ty i tag attrs cls al role sts children) language idSet of
        Inl e \<Rightarrow> Inl e
      | Inr (attributes, idSet1) \<Rightarrow>
          (case serializeAttributes attributes of
             Inl e \<Rightarrow> Inl e
           | Inr serializedAttributes \<Rightarrow>
               if tag \<in> set void_tags then Inr (''<'' @ tag @ serializedAttributes @ ''>'', idSet1)
               else (case serializeNodes collate lib language children idSet1 of
                   Inl e \<Rightarrow> Inl e
                 | Inr (inner, idSet2) \<Rightarrow>
                     Inr (''<'' @ tag @ serializedAttributes @ ''>'' @ inner @ ''</'' @ tag @ ''>'', idSet2))))"
| "serializeNodes collate lib language [] idSet = Inr ([], idSet)"
| "serializeNodes collate lib language (node # nodes) idSet =
     (case serializeNode collate lib language node idSet of
        Inl e \<Rightarrow> Inl e
      | Inr (s, idSet1) \<Rightarrow>
          (case serializeNodes collate lib language nodes idSet1 of
             Inl e \<Rightarrow> Inl e
           | Inr (rest, idSet2) \<Rightarrow> Inr (s @ rest, idSet2)))"

fun main_nodes :: "html_node \<Rightarrow> html_node list"
  and main_nodes_list :: "html_node list \<Rightarrow> html_node list" where
  "main_nodes (HText text) = []"
| "main_nodes (HElement ty i tag attrs cls al role sts children) =
     (if tag = ''main'' then [HElement ty i tag attrs cls al role sts children] else [])
     @ main_nodes_list children"
| "main_nodes_list [] = []"
| "main_nodes_list (node # nodes) = main_nodes node @ main_nodes_list nodes"

definition extractMainNodes :: "html_document \<Rightarrow> html_node list" where
  "extractMainNodes document = concat (map (\<lambda>s. main_nodes_list (hx_elements s)) (hd_sections document))"

fun isTocNav :: "html_node \<Rightarrow> bool"
  and any_toc_nav :: "html_node list \<Rightarrow> bool" where
  "isTocNav (HText text) = False"
| "isTocNav (HElement ty i tag attrs cls al role sts children) =
     (if tag = ''nav'' \<and> (i = Some ''table-of-contents'' \<or> ''toc'' \<in> set cls) then children \<noteq> []
      else any_toc_nav children)"
| "any_toc_nav [] = False"
| "any_toc_nav (node # nodes) = (isTocNav node \<or> any_toc_nav nodes)"

definition hasNonEmptyToc :: "html_document \<Rightarrow> bool" where
  "hasNonEmptyToc document = list_ex (\<lambda>s. any_toc_nav (hx_elements s)) (hd_sections document)"

subsection \<open>The document and its shell\<close>

record serialized_html_document =
  sd_doctype :: string
  sd_htmlAttributes :: "(string \<times> string) list"
  sd_title :: string
  sd_metadata :: "(string \<times> string) list"
  sd_bodyHtml :: string

definition canonicalHtmlDoctype :: string where
  "canonicalHtmlDoctype = ''<!doctype html>''"

definition serializeDocumentParts ::
  "(string \<Rightarrow> 'k::linorder) \<Rightarrow> url_library \<Rightarrow> html_document \<Rightarrow> markup_error + serialized_html_document" where
  "serializeDocumentParts collate lib document =
     (case extractMainNodes document of
        [main] \<Rightarrow>
          if he_children main = []
          then Inl (MarkupError ''Serialized HTML main element must contain meaningful content.'')
          else (case serializeNodes collate lib (hh_lang (hd_head document))
                       (concat (map hx_elements (hd_sections document))) [] of
              Inl e \<Rightarrow> Inl e
            | Inr (body, idSet) \<Rightarrow>
                Inr \<lparr>sd_doctype = canonicalHtmlDoctype,
                     sd_htmlAttributes = [(''lang'', hh_lang (hd_head document))],
                     sd_title = hh_title (hd_head document),
                     sd_metadata = hh_metadata (hd_head document), sd_bodyHtml = body\<rparr>)
      | _ \<Rightarrow> Inl (MarkupError ''Serialized HTML must contain exactly one main element.''))"

datatype reserved_metadata_policy = PreserveReserved | ExcludeReserved

definition shell_attributes :: "(string \<times> string) list \<Rightarrow> markup_error + string" where
  "shell_attributes attributes =
     (if list_ex (\<lambda>(name, v). starts_with ''on'' (lower_case (js_trim name))) attributes
      then Inl (UnsafeStandaloneHtmlError ''Standalone document attributes are invalid.'')
      else Inr (concat (map attribute_text attributes)))"

definition normalizeMetadataEntries ::
  "(string \<times> string) list \<Rightarrow> reserved_metadata_policy \<Rightarrow> (string \<times> string) list" where
  "normalizeMetadataEntries metadata policy =
     (case policy of
        PreserveReserved \<Rightarrow> metadata
      | ExcludeReserved \<Rightarrow>
          filter (\<lambda>(name, c). lower_case (js_trim name) \<notin> {''viewport'', ''color-scheme''}) metadata)"

text \<open>
  The forbidden patterns: a start tag (\<open>/<script\b/i\<close> and its like) and an event handler
  (\<open>/\son[a-z]+\s*=/i\<close>).
\<close>

definition starts_tag :: "string \<Rightarrow> string \<Rightarrow> bool" where
  "starts_tag tag s \<longleftrightarrow>
     starts_with (CHR ''<'' # tag) (map lower s)
     \<and> (case drop (Suc (length tag)) s of [] \<Rightarrow> True | c # _ \<Rightarrow> \<not> word_char c)"

definition starts_handler :: "string \<Rightarrow> bool" where
  "starts_handler s \<longleftrightarrow>
     (case s of
        c # rest \<Rightarrow>
          js_space c \<and> starts_with ''on'' (map lower rest)
          \<and> takeWhile ascii_letter (drop 2 rest) \<noteq> []
          \<and> starts_with ''='' (dropWhile js_space (dropWhile ascii_letter (drop 2 rest)))
      | [] \<Rightarrow> False)"

definition forbidden_tags :: "string list" where
  "forbidden_tags = [''script'', ''style'', ''link'', ''meta'', ''html'', ''head'', ''body'']"

definition assertSafeBodyHtml :: "string \<Rightarrow> markup_error + unit" where
  "assertSafeBodyHtml bodyHtml =
     (if list_ex (\<lambda>tag. somewhere (starts_tag tag) bodyHtml) forbidden_tags
         \<or> somewhere starts_handler bodyHtml
      then Inl (UnsafeStandaloneHtmlError ''Standalone document body content is invalid.'')
      else Inr ())"

definition assertSafeEmbeddedCss :: "string \<Rightarrow> markup_error + unit" where
  "assertSafeEmbeddedCss css =
     (if matches_i ''</style'' css
      then Inl (UnsafeStandaloneHtmlError ''Embedded stylesheet content is invalid.'')
      else Inr ())"

record shell_input =
  si_document :: serialized_html_document
  si_bodyAttributes :: "(string \<times> string) list"
  si_embeddedStylesheetCss :: "string option"
  si_colorScheme :: "string option"
  si_policy :: reserved_metadata_policy

definition quoted :: "string \<Rightarrow> string" where
  "quoted s = [CHR 0x22] @ s @ [CHR 0x22]"

definition meta_tag :: "string \<times> string \<Rightarrow> string" where
  "meta_tag entry = ''<meta name='' @ quoted (escapeAttribute (fst entry)) @ '' content=''
     @ quoted (escapeAttribute (snd entry)) @ ''>''"

definition newline :: string where "newline = [CHR 0x0A]"

definition shell_compose :: "shell_input \<Rightarrow> markup_error + string" where
  "shell_compose input =
     (let document = si_document input in
      if sd_doctype document \<noteq> canonicalHtmlDoctype
      then Inl (InvalidSerializedHtmlDocumentError ''Serialized HTML doctype is invalid.'')
      else case assertSafeBodyHtml (sd_bodyHtml document) of
        Inl e \<Rightarrow> Inl e
      | Inr _ \<Rightarrow>
          (case (case si_embeddedStylesheetCss input of
                   None \<Rightarrow> Inr () | Some css \<Rightarrow> assertSafeEmbeddedCss css) of
             Inl e \<Rightarrow> Inl e
           | Inr _ \<Rightarrow>
               (case (shell_attributes (sd_htmlAttributes document), shell_attributes (si_bodyAttributes input)) of
                  (Inr htmlAttributes, Inr bodyAttributes) \<Rightarrow>
                    Inr (canonicalHtmlDoctype @ newline
                      @ ''<html'' @ htmlAttributes @ ''>'' @ newline
                      @ ''<head>''
                      @ ''<meta charset='' @ quoted ''utf-8'' @ ''>''
                      @ ''<meta name='' @ quoted ''viewport'' @ '' content=''
                      @ quoted ''width=device-width, initial-scale=1'' @ ''>''
                      @ concat (map meta_tag (normalizeMetadataEntries (sd_metadata document) (si_policy input)))
                      @ (case si_colorScheme input of
                           Some scheme \<Rightarrow> if scheme = [] then [] else meta_tag (''color-scheme'', scheme)
                         | None \<Rightarrow> [])
                      @ ''<title>'' @ escapeTitle (sd_title document) @ ''</title>''
                      @ (case si_embeddedStylesheetCss input of
                           None \<Rightarrow> [] | Some css \<Rightarrow> ''<style>'' @ css @ ''</style>'')
                      @ ''</head>'' @ newline
                      @ ''<body'' @ bodyAttributes @ ''>'' @ sd_bodyHtml document @ ''</body>'' @ newline
                      @ ''</html>'' @ newline)
                | (Inl e, _) \<Rightarrow> Inl e
                | (_, Inl e) \<Rightarrow> Inl e)))"

lemma dropWhile_shorter: "length (drop m (dropWhile p (drop n xs))) \<le> length xs - m - n"
  using length_dropWhile_le [of p "drop n xs"] by simp

text \<open>\<open>html.replace(/<nav[^>]*><\/nav>/g, '')\<close>\<close>

function remove_empty_navs :: "string \<Rightarrow> string" where
  "remove_empty_navs s =
     (case s of
        [] \<Rightarrow> []
      | c # rest \<Rightarrow>
          let after = dropWhile (\<lambda>x. x \<noteq> CHR ''>'') (drop 4 s) in
          if starts_with ''<nav'' s \<and> starts_with ''></nav>'' after
          then remove_empty_navs (drop 7 after)
          else c # remove_empty_navs rest)"
  by pat_completeness auto

termination
proof (relation "measure length")
  fix s c rest after
  assume a: "s = c # rest" "after = dropWhile (\<lambda>x. x \<noteq> CHR ''>'') (drop 4 s)"
  then show "(drop 7 after, s) \<in> measure length"
    using dropWhile_shorter [of 7 "\<lambda>x. x \<noteq> CHR ''>''" 4 s] by simp
qed auto

definition markup_serialize ::
  "(string \<Rightarrow> 'k::linorder) \<Rightarrow> url_library \<Rightarrow> html_document \<Rightarrow> markup_error + string" where
  "markup_serialize collate lib document =
     (case serializeDocumentParts collate lib document of
        Inl e \<Rightarrow> Inl e
      | Inr parts \<Rightarrow>
          (case shell_compose \<lparr>si_document = parts, si_bodyAttributes = [], si_embeddedStylesheetCss = None,
                  si_colorScheme = None, si_policy = PreserveReserved\<rparr> of
             Inl e \<Rightarrow> Inl e
           | Inr html \<Rightarrow> Inr (if hasNonEmptyToc document then html else remove_empty_navs html)))"

end
