(* ===== verification/HtmlReading.thy ===== *)
theory HtmlReading
  imports HtmlMarkup
begin

text \<open>
  A reader for the markup \<open>HtmlMarkupSerializer\<close> writes: tags, quoted attributes and character
  references, as a browser reads them.  It is the reference against which the escaping of the
  serializer is proved: what is read back is the tree, node by node, whatever the texts and
  attribute values of the tree are.
\<close>

subsection \<open>Reading\<close>

datatype html_token = TChar char | TOpen string "(string \<times> string) list" | TClose string

definition name_char :: "char \<Rightarrow> bool" where
  "name_char c \<longleftrightarrow> alnum c \<or> c = CHR ''-''"

definition html_references :: "(string \<times> char) list" where
  "html_references = [(''amp;'', CHR ''&''), (''lt;'', CHR ''<''), (''gt;'', CHR ''>''),
     (''quot;'', CHR 0x22), (''#39;'', CHR 0x27)]"

text \<open>One character of a text or of a value; a bare ampersand is refused.\<close>

definition read_char :: "string \<Rightarrow> (char \<times> string) option" where
  "read_char s =
     (case s of
        [] \<Rightarrow> None
      | c # rest \<Rightarrow>
          if c = CHR ''&''
          then (case filter (\<lambda>(r, d). starts_with r rest) html_references of
              [] \<Rightarrow> None | (r, d) # _ \<Rightarrow> Some (d, drop (length r) rest))
          else Some (c, rest))"

lemma read_char_shorter: "read_char s = Some (c, rest) \<Longrightarrow> length rest < length s"
  by (auto simp: read_char_def split: list.splits if_splits)

function read_value :: "string \<Rightarrow> (string \<times> string) option" where
  "read_value s =
     (if s = [] then None
      else if hd s = CHR 0x22 then Some ([], tl s)
      else (case read_char s of
          None \<Rightarrow> None
        | Some (c, rest) \<Rightarrow>
            (case read_value rest of
               None \<Rightarrow> None
             | Some (v, after) \<Rightarrow> Some (c # v, after))))"
  by pat_completeness auto
termination by (relation "measure length") (auto dest: read_char_shorter)

declare read_value.simps [simp del]

lemma read_value_shorter: "read_value s = Some (v, rest) \<Longrightarrow> length rest < length s"
proof (induction s arbitrary: v rest rule: read_value.induct)
  case (1 s)
  show ?case
  proof (cases "s = [] \<or> hd s = CHR 0x22")
    case True
    then show ?thesis using 1(2) by (simp add: read_value.simps [of s]) (cases s; auto)
  next
    case False
    with 1(2) obtain c r w where r: "read_char s = Some (c, r)" "read_value r = Some (w, rest)"
      by (auto simp: read_value.simps [of s] split: option.splits)
    have "length rest < length r" using 1(1) [OF _ _ r(1) _ r(2)] False by auto
    also have "length r < length s" using r(1) by (rule read_char_shorter)
    finally show ?thesis .
  qed
qed

definition read_name :: "string \<Rightarrow> string \<times> string" where
  "read_name s = (takeWhile name_char s, dropWhile name_char s)"

lemma read_name_shorter: "length (snd (read_name s)) \<le> length s"
  by (simp add: read_name_def length_dropWhile_le)

function read_attributes :: "string \<Rightarrow> ((string \<times> string) list \<times> string) option" where
  "read_attributes s =
     (if s = [] then None
      else if hd s = CHR ''>'' then Some ([], tl s)
      else if hd s = CHR '' '' \<and> starts_with (''='' @ [CHR 0x22]) (snd (read_name (tl s)))
      then (case read_value (drop 2 (snd (read_name (tl s)))) of
          None \<Rightarrow> None
        | Some (v, rest) \<Rightarrow>
            (case read_attributes rest of
               None \<Rightarrow> None
             | Some (entries, after) \<Rightarrow> Some ((fst (read_name (tl s)), v) # entries, after)))
      else None)"
  by pat_completeness auto
termination
proof (relation "measure length")
  fix s v rest and x :: "string \<times> string"
  assume "s \<noteq> []" "read_value (drop 2 (snd (read_name (tl s)))) = Some x" "(v, rest) = x"
  then have "length rest < length (snd (read_name (tl s)))"
    using read_value_shorter [of "drop 2 (snd (read_name (tl s)))" v rest] by simp
  also have "\<dots> \<le> length (tl s)" by (rule read_name_shorter)
  finally show "(rest, s) \<in> measure length" by simp
qed simp

declare read_attributes.simps [simp del]

lemma read_attributes_shorter: "read_attributes s = Some (entries, rest) \<Longrightarrow> length rest < length s"
proof (induction s arbitrary: entries rest rule: read_attributes.induct)
  case (1 s)
  show ?case
  proof (cases "s = [] \<or> hd s = CHR ''>''")
    case True
    then show ?thesis using 1(2) by (simp add: read_attributes.simps [of s]) (cases s; auto)
  next
    case False
    with 1(2) obtain v r es where r: "hd s = CHR '' ''" "starts_with (''='' @ [CHR 0x22]) (snd (read_name (tl s)))"
      "read_value (drop 2 (snd (read_name (tl s)))) = Some (v, r)" "read_attributes r = Some (es, rest)"
      by (auto simp: read_attributes.simps [of s] split: if_splits option.splits)
    have "length rest < length r" using 1(1) [OF _ _ _ r(3) _ r(4)] False r by auto
    also have "length r < length s"
      using read_value_shorter [OF r(3)] read_name_shorter [of "tl s"] by simp
    finally show ?thesis .
  qed
qed

function tokenize :: "string \<Rightarrow> html_token list option" where
  "tokenize s =
     (if s = [] then Some []
      else if starts_with ''</'' s then
        (if fst (read_name (drop 2 s)) \<noteq> [] \<and> starts_with ''>'' (snd (read_name (drop 2 s)))
         then map_option (Cons (TClose (fst (read_name (drop 2 s))))) (tokenize (drop 1 (snd (read_name (drop 2 s)))))
         else None)
      else if hd s = CHR ''<'' then
        (if fst (read_name (tl s)) = [] then None
         else case read_attributes (snd (read_name (tl s))) of
             None \<Rightarrow> None
           | Some (entries, rest) \<Rightarrow> map_option (Cons (TOpen (fst (read_name (tl s))) entries)) (tokenize rest))
      else (case read_char s of
          None \<Rightarrow> None
        | Some (c, rest) \<Rightarrow> map_option (Cons (TChar c)) (tokenize rest)))"
  by pat_completeness auto
termination
proof (relation "measure length")
  fix s :: string assume "s \<noteq> []" "starts_with ''</'' s"
  then show "(drop 1 (snd (read_name (drop 2 s))), s) \<in> measure length"
    using read_name_shorter [of "drop 2 s"] by (cases s) auto
next
  fix s entries rest and x :: "(string \<times> string) list \<times> string"
  assume "s \<noteq> []" "read_attributes (snd (read_name (tl s))) = Some x" "(entries, rest) = x"
  then show "(rest, s) \<in> measure length"
    using read_attributes_shorter [of "snd (read_name (tl s))" entries rest] read_name_shorter [of "tl s"]
    by (cases s) auto
qed (auto dest: read_char_shorter)

declare tokenize.simps [simp del]

subsection \<open>Reading what was escaped\<close>

lemma read_escaped_text: "read_char (escape_text_char c @ rest) = Some (c, rest)"
  by (simp add: read_char_def escape_text_char_def html_references_def starts_with_def)

lemma read_escaped_attribute: "read_char (escape_attribute_char c @ rest) = Some (c, rest)"
  by (simp add: read_char_def escape_attribute_char_def html_references_def starts_with_def)

lemma escaped_attribute_hd: "escape_attribute_char c @ rest \<noteq> [] \<and> hd (escape_attribute_char c @ rest) \<noteq> CHR 0x22"
  by (simp add: escape_attribute_char_def)

lemma escaped_text_hd: "escape_text_char c @ rest \<noteq> [] \<and> hd (escape_text_char c @ rest) \<noteq> CHR ''<''"
  by (simp add: escape_text_char_def)

lemma read_escaped_value: "read_value (escapeAttribute v @ CHR 0x22 # rest) = Some (v, rest)"
proof (induction v)
  case Nil
  then show ?case by (simp add: escapeAttribute_def read_value.simps)
next
  case (Cons c v)
  have "read_value (escapeAttribute (c # v) @ CHR 0x22 # rest)
      = read_value (escape_attribute_char c @ escapeAttribute v @ CHR 0x22 # rest)"
    by (simp add: escapeAttribute_def)
  then show ?case
    using escaped_attribute_hd Cons by (subst (asm) (2) read_value.simps) (simp add: read_escaped_attribute)
qed

lemma read_name_append: "list_all name_char n \<Longrightarrow> \<not> name_char c \<Longrightarrow> read_name (n @ c # rest) = (n, c # rest)"
  by (simp add: read_name_def list_all_iff takeWhile_append2 dropWhile_append2)

lemma not_name_char: "\<not> name_char (CHR ''='')" "\<not> name_char (CHR ''>'')" "\<not> name_char (CHR '' '')"
  by code_simp+

lemma read_attribute_texts:
  assumes "list_all (\<lambda>e. list_all name_char (fst e)) entries"
  shows "read_attributes (concat (map attribute_text entries) @ CHR ''>'' # rest) = Some (entries, rest)"
  using assms
proof (induction entries)
  case Nil
  then show ?case by (simp add: read_attributes.simps)
next
  case (Cons e entries)
  obtain k v where e: "e = (k, v)" by fastforce
  let ?after = "concat (map attribute_text entries) @ CHR ''>'' # rest"
  have s: "concat (map attribute_text (e # entries)) @ CHR ''>'' # rest
      = CHR '' '' # k @ CHR ''='' # CHR 0x22 # escapeAttribute v @ CHR 0x22 # ?after"
    by (simp add: attribute_text_def e)
  have n: "read_name (k @ CHR ''='' # CHR 0x22 # escapeAttribute v @ CHR 0x22 # ?after)
      = (k, CHR ''='' # CHR 0x22 # escapeAttribute v @ CHR 0x22 # ?after)"
    using Cons.prems by (intro read_name_append) (simp_all add: e not_name_char)
  show ?case unfolding s
    using Cons by (subst read_attributes.simps) (simp add: n starts_with_def read_escaped_value e)
qed

lemma map_option_nothing: "map_option (append []) x = x"
  by (cases x) auto

lemma tokenize_text: "tokenize (escapeText t @ rest) = map_option (append (map TChar t)) (tokenize rest)"
proof (induction t)
  case Nil
  then show ?case by (simp add: escapeText_def option.map_ident)
next
  case (Cons c t)
  let ?s = "escape_text_char c @ escapeText t @ rest"
  have "tokenize ?s = map_option (Cons (TChar c)) (tokenize (escapeText t @ rest))"
    using escaped_text_hd [of c "escapeText t @ rest"]
    by (subst tokenize.simps) (auto simp: read_escaped_text starts_with_append)
  then show ?case using Cons by (simp add: escapeText_def option.map_comp comp_def)
qed

lemma tokenize_open:
  assumes "list_all name_char tag" "tag \<noteq> []" "list_all (\<lambda>e. list_all name_char (fst e)) entries"
  shows "tokenize (CHR ''<'' # tag @ concat (map attribute_text entries) @ CHR ''>'' # rest)
    = map_option (Cons (TOpen tag entries)) (tokenize rest)"
proof -
  obtain c r where r: "concat (map attribute_text entries) @ CHR ''>'' # rest = c # r" "\<not> name_char c"
    by (cases entries) (auto simp: attribute_text_def not_name_char)
  have n: "read_name (tag @ concat (map attribute_text entries) @ CHR ''>'' # rest)
      = (tag, concat (map attribute_text entries) @ CHR ''>'' # rest)"
    unfolding r(1) using assms(1) r(2) by (rule read_name_append)
  have "\<not> starts_with ''</'' (CHR ''<'' # tag @ concat (map attribute_text entries) @ CHR ''>'' # rest)"
    using assms(1,2) by (cases tag) (auto simp: starts_with_def name_char_def alnum_def)
  then show ?thesis
    using assms(2,3) by (subst tokenize.simps) (simp add: n read_attribute_texts)
qed

lemma tokenize_close:
  assumes "list_all name_char tag" "tag \<noteq> []"
  shows "tokenize (CHR ''<'' # CHR ''/'' # tag @ CHR ''>'' # rest) = map_option (Cons (TClose tag)) (tokenize rest)"
  using assms by (subst tokenize.simps) (simp add: starts_with_def read_name_append not_name_char)

subsection \<open>The tokens of a tree\<close>

text \<open>The attributes written for an element do not depend on the identifiers seen before.\<close>

definition node_attributes ::
  "(string \<Rightarrow> 'k::linorder) \<Rightarrow> url_library \<Rightarrow> string \<Rightarrow> html_node \<Rightarrow> (string \<times> string) list" where
  "node_attributes collate lib language node =
     (case createControlledAttributes collate lib node language [] of
        Inl e \<Rightarrow> [] | Inr (attributes, ids) \<Rightarrow> attribute_entries attributes)"

fun node_tokens ::
  "(string \<Rightarrow> 'k::linorder) \<Rightarrow> url_library \<Rightarrow> string \<Rightarrow> html_node \<Rightarrow> html_token list"
  and nodes_tokens ::
  "(string \<Rightarrow> 'k::linorder) \<Rightarrow> url_library \<Rightarrow> string \<Rightarrow> html_node list \<Rightarrow> html_token list" where
  "node_tokens collate lib language (HText text) = map TChar text"
| "node_tokens collate lib language (HElement ty i tag attrs cls al role sts children) =
     TOpen tag (node_attributes collate lib language (HElement ty i tag attrs cls al role sts children))
     # (if tag \<in> set void_tags then [] else nodes_tokens collate lib language children @ [TClose tag])"
| "nodes_tokens collate lib language [] = []"
| "nodes_tokens collate lib language (node # nodes) =
     node_tokens collate lib language node @ nodes_tokens collate lib language nodes"

fun proper_tags :: "html_node \<Rightarrow> bool" and all_proper_tags :: "html_node list \<Rightarrow> bool" where
  "proper_tags (HText text) = True"
| "proper_tags (HElement ty i tag attrs cls al role sts children) \<longleftrightarrow>
     tag \<noteq> [] \<and> list_all name_char tag \<and> all_proper_tags children"
| "all_proper_tags [] = True"
| "all_proper_tags (node # nodes) \<longleftrightarrow> proper_tags node \<and> all_proper_tags nodes"

lemma controlled_names: "list_all (list_all name_char) controlled_attribute_order"
  by code_simp

lemma controlled_not_handlers: "list_all (\<lambda>key. \<not> starts_with ''on'' key) controlled_attribute_order"
  by code_simp

lemma controlled_distinct: "distinct controlled_attribute_order"
  by code_simp

lemma attribute_entries_in:
  "(k, v) \<in> set (attribute_entries attributes) \<Longrightarrow> k \<in> set controlled_attribute_order \<and> (k, v) \<in> set attributes"
  by (auto simp: attribute_entries_def dest: map_of_SomeD [OF sym] split: option.splits)

lemma attribute_entries_names: "list_all (\<lambda>e. list_all name_char (fst e)) (attribute_entries attributes)"
  using controlled_names by (fastforce simp: list_all_iff dest: attribute_entries_in)

lemma serializeAttributes_is: "serializeAttributes attributes = Inr (concat (map attribute_text (attribute_entries attributes)))"
proof -
  have "\<not> list_ex (\<lambda>(key, v). starts_with ''on'' key) (attribute_entries attributes)"
    using controlled_not_handlers by (fastforce simp: list_ex_iff list_all_iff dest: attribute_entries_in)
  then show ?thesis by (simp add: serializeAttributes_def Let_def)
qed

lemma createControlledAttributes_ids:
  assumes "createControlledAttributes collate lib node language ids = Inr (attributes, ids')"
  shows "createControlledAttributes collate lib node language [] = Inr (attributes, case he_id node of Some i \<Rightarrow> [i] | None \<Rightarrow> [])
    \<and> ids' = (case he_id node of Some i \<Rightarrow> [i] | None \<Rightarrow> []) @ ids
    \<and> (case he_id node of Some i \<Rightarrow> i \<notin> set ids | None \<Rightarrow> True)"
  using assms unfolding createControlledAttributes_def Let_def
  by (cases "he_id node"; simp split: sum.splits if_splits)

lemma serializeNode_parts:
  assumes "serializeNode collate lib language (HElement ty i tag attrs cls al role sts children) ids = Inr (s, ids')"
  defines "node \<equiv> HElement ty i tag attrs cls al role sts children"
  obtains ids1 inner attributes ids0 where "tag \<notin> set active_tags"
    "ids1 = (case i of Some x \<Rightarrow> [x] | None \<Rightarrow> []) @ ids" "\<And>x. i = Some x \<Longrightarrow> x \<notin> set ids"
    "createControlledAttributes collate lib node language [] = Inr (attributes, ids0)"
    "s = CHR ''<'' # tag @ concat (map attribute_text (node_attributes collate lib language node)) @ CHR ''>'' # inner"
    "if tag \<in> set void_tags then inner = [] \<and> ids' = ids1
     else \<exists>r. serializeNodes collate lib language children ids1 = Inr (r, ids')
       \<and> inner = r @ CHR ''<'' # CHR ''/'' # tag @ ''>''"
proof -
  obtain attributes ids1 where c: "tag \<notin> set active_tags"
    "createControlledAttributes collate lib node language ids = Inr (attributes, ids1)"
    "(if tag \<in> set void_tags then s = ''<'' @ tag @ concat (map attribute_text (attribute_entries attributes)) @ ''>'' \<and> ids' = ids1
      else \<exists>r. serializeNodes collate lib language children ids1 = Inr (r, ids')
        \<and> s = ''<'' @ tag @ concat (map attribute_text (attribute_entries attributes)) @ ''>'' @ r @ ''</'' @ tag @ ''>'')"
    using assms(1) by (auto simp: node_def serializeAttributes_is split: sum.splits if_splits)
  from createControlledAttributes_ids [OF c(2)]
  have a: "createControlledAttributes collate lib node language []
        = Inr (attributes, case i of Some i \<Rightarrow> [i] | None \<Rightarrow> [])"
    "ids1 = (case i of Some x \<Rightarrow> [x] | None \<Rightarrow> []) @ ids" "\<And>x. i = Some x \<Longrightarrow> x \<notin> set ids"
    by (auto simp: node_def split: option.splits)
  then have "node_attributes collate lib language node = attribute_entries attributes"
    by (simp add: node_attributes_def)
  then show ?thesis using that [OF c(1) a(2,3)] a(1) c(3) by (auto split: if_splits)
qed

lemma tokenize_nodes:
  fixes collate :: "string \<Rightarrow> 'k::linorder"
  shows "serializeNode collate lib language node ids = Inr (s, ids') \<Longrightarrow> proper_tags node
      \<Longrightarrow> tokenize (s @ rest) = map_option (append (node_tokens collate lib language node)) (tokenize rest)"
    and "serializeNodes collate lib language nodes ids = Inr (s, ids') \<Longrightarrow> all_proper_tags nodes
      \<Longrightarrow> tokenize (s @ rest) = map_option (append (nodes_tokens collate lib language nodes)) (tokenize rest)"
proof (induction collate lib language node and collate lib language nodes
    arbitrary: s ids ids' rest and s ids ids' rest rule: node_tokens_nodes_tokens.induct)
  case (1 collate lib language t)
  then show ?case by (auto simp: tokenize_text)
next
  case (2 collate lib language ty i tag attrs cls al role sts children)
  let ?node = "HElement ty i tag attrs cls al role sts children"
  from serializeNode_parts [OF 2(2)] obtain ids1 inner where
    p: "s = CHR ''<'' # tag @ concat (map attribute_text (node_attributes collate lib language ?node)) @ CHR ''>'' # inner"
    "if tag \<in> set void_tags then inner = [] \<and> ids' = ids1
     else \<exists>r. serializeNodes collate lib language children ids1 = Inr (r, ids')
       \<and> inner = r @ CHR ''<'' # CHR ''/'' # tag @ ''>''" by metis
  have names: "list_all (\<lambda>e. list_all name_char (fst e)) (node_attributes collate lib language ?node)"
    by (auto simp: node_attributes_def attribute_entries_names split: sum.splits)
  have t: "list_all name_char tag" "tag \<noteq> []" "all_proper_tags children" using 2(3) by auto
  have o: "tokenize (s @ rest) = map_option (Cons (TOpen tag (node_attributes collate lib language ?node))) (tokenize (inner @ rest))"
    unfolding p(1) using tokenize_open [OF t(1,2) names, of "inner @ rest"] by simp
  show ?case
  proof (cases "tag \<in> set void_tags")
    case True
    then show ?thesis using p(2) o by (simp add: comp_def)
  next
    case False
    then obtain r where r: "serializeNodes collate lib language children ids1 = Inr (r, ids')"
      "inner = r @ CHR ''<'' # CHR ''/'' # tag @ ''>''" using p(2) by auto
    have "tokenize (inner @ rest) = map_option (append (nodes_tokens collate lib language children))
        (map_option (Cons (TClose tag)) (tokenize rest))"
      using 2(1) [OF False r(1) t(3), of "CHR ''<'' # CHR ''/'' # tag @ CHR ''>'' # rest"] tokenize_close [OF t(1,2), of rest]
      by (simp add: r(2))
    then show ?thesis using False o by (simp add: option.map_comp comp_def)
  qed
next
  case (4 collate lib language node nodes)
  then obtain s1 ids1 s2 where "serializeNode collate lib language node ids = Inr (s1, ids1)"
    "serializeNodes collate lib language nodes ids1 = Inr (s2, ids')" "s = s1 @ s2"
    by (auto split: sum.splits)
  with 4 show ?case by (simp add: option.map_comp comp_def)
qed (auto simp: map_option_nothing)

text \<open>
  C24: What \<open>serializeNode\<close> writes reads back as the tree: whatever markup the texts and the attribute
  values hold, no tag, attribute or character of the tree is lost or added.
\<close>

theorem serialized_html_reads_back:
  assumes "serializeNodes collate lib language nodes [] = Inr (s, ids)" and "all_proper_tags nodes"
  shows "tokenize s = Some (nodes_tokens collate lib language nodes)"
  using tokenize_nodes(2) [OF assms, of "[]"] by (simp add: tokenize.simps [of "[]"])

subsection \<open>What a reader can find in it\<close>

text \<open>
  A link is harmless when it stays in the document or when the platform reads one of the
  protocols below in it.
\<close>

definition harmless_link :: "url_library \<Rightarrow> string \<Rightarrow> bool" where
  "harmless_link lib u \<longleftrightarrow>
     starts_with ''#'' u
     \<or> (case ul_parse lib u of
          None \<Rightarrow> False
        | Some p \<Rightarrow> up_username p = [] \<and> up_password p = []
            \<and> lower_case (up_protocol p) \<in> {''https:'', ''http:'', ''mailto:'', ''asset:''})"

definition harmless_entry :: "url_library \<Rightarrow> string \<times> string \<Rightarrow> bool" where
  "harmless_entry lib entry \<longleftrightarrow>
     fst entry \<in> set controlled_attribute_order \<and> \<not> starts_with ''on'' (fst entry)
     \<and> (fst entry \<in> {''href'', ''src''} \<longrightarrow> harmless_link lib (snd entry))"

fun harmless_token :: "url_library \<Rightarrow> html_token \<Rightarrow> bool" where
  "harmless_token lib (TOpen tag entries) \<longleftrightarrow> tag \<notin> set active_tags \<and> list_all (harmless_entry lib) entries"
| "harmless_token lib (TChar c) \<longleftrightarrow> True"
| "harmless_token lib (TClose tag) \<longleftrightarrow> True"

lemma scheme_lists:
  "list_all (\<lambda>s. CHR '':'' \<notin> set s) external_schemes" "list_all (\<lambda>s. CHR '':'' \<notin> set s) asset_schemes"
  "list_all (\<lambda>s. lower_case s @ '':'' \<in> {''https:'', ''http:'', ''mailto:'', ''asset:''}) external_schemes"
  "list_all (\<lambda>s. lower_case s @ '':'' \<in> {''https:'', ''http:'', ''mailto:'', ''asset:''}) asset_schemes"
  by code_simp+

lemma sanitized_link_harmless:
  assumes "url_library_ok lib" and "sanitizeUrlInput lib v = Inr u" and "hasSafeScheme lib u schemes"
    and "ul_parse lib u = Some p" and "validateParsedAbsoluteUrl p = Inr ()"
    and "schemes = external_schemes \<or> schemes = asset_schemes"
  shows "harmless_link lib u"
proof -
  have u: "js_trim u = u" "\<not> list_ex control_char u" using assms(2) by (auto simp: sanitizeUrlInput_Inr)
  have "list_all (\<lambda>s. CHR '':'' \<notin> set s) schemes" using assms(6) scheme_lists by auto
  from safe_scheme_protocol [OF assms(1) u assms(4,3) this] obtain scheme where
    "scheme \<in> set schemes" "lower_case (up_protocol p) = lower_case scheme @ '':''" by blast
  then have "lower_case (up_protocol p) \<in> {''https:'', ''http:'', ''mailto:'', ''asset:''}"
    using assms(6) scheme_lists(3,4) by (fastforce simp: list_all_iff)
  then show ?thesis
    using assms(4,5) by (auto simp: harmless_link_def validateParsedAbsoluteUrl_def split: if_splits)
qed

lemma validated_link_harmless:
  assumes "url_library_ok lib" and "validateAndNormalizeUrl lib tag attribute v = Inr u"
  shows "harmless_link lib u"
proof -
  have "harmless_link lib u" if "assertSafeInternalHref lib v = Inr u"
    using that by (auto simp: assertSafeInternalHref_def harmless_link_def split: sum.splits if_splits)
  moreover have "harmless_link lib u" if "assertSafeExternalUrl lib v external_schemes = Inr u"
    using external_Inr [OF that] sanitized_link_harmless [OF assms(1)] by metis
  moreover have "harmless_link lib u" if "assertSafeAssetUrl lib v asset_schemes = Inr u"
    using asset_Inr [OF that] sanitized_link_harmless [OF assms(1)] by metis
  ultimately show ?thesis using assms(2) by (auto simp: validateAndNormalizeUrl_def split: if_splits)
qed

lemma checked_url_harmless:
  "url_library_ok lib \<Longrightarrow> checked_url lib tag attribute v = Inr es \<Longrightarrow> (k, u) \<in> set es \<Longrightarrow> harmless_link lib u"
  by (auto simp: checked_url_def dest: validated_link_harmless split: option.splits if_splits sum.splits)

lemma in_if_truthy [simp]: "(k, v) \<in> set (if_truthy key value) \<longleftrightarrow> k = key \<and> value = Some v \<and> v \<noteq> []"
  by (auto simp: if_truthy_def split: option.splits)

lemma checked_url_key: "checked_url lib tag attribute v = Inr es \<Longrightarrow> (k, u) \<in> set es \<Longrightarrow> k = attribute"
  by (auto simp: checked_url_def split: option.splits if_splits sum.splits)

lemma controlled_links_harmless:
  assumes "url_library_ok lib" and "createControlledAttributes collate lib node language ids = Inr (attributes, ids')"
    and "(k, v) \<in> set attributes" and "k \<in> {''href'', ''src''}"
  shows "harmless_link lib v"
proof -
  obtain href src where c: "checked_url lib (he_tag node) ''href'' (ha_href (he_attributes node)) = Inr href"
    "checked_url lib (he_tag node) ''src'' (ha_src (he_attributes node)) = Inr src"
    using assms(2) by (auto simp: createControlledAttributes_def Let_def split: sum.splits if_splits)
  have "(k, v) \<in> set href \<or> (k, v) \<in> set src"
    using assms(2-4) c by (auto simp: createControlledAttributes_def Let_def split: if_splits option.splits)
  then show ?thesis using checked_url_harmless [OF assms(1)] c by blast
qed

lemma node_attributes_harmless:
  assumes "url_library_ok lib"
  shows "list_all (harmless_entry lib) (node_attributes collate lib language node)"
proof (cases "createControlledAttributes collate lib node language []")
  case (Inr r)
  obtain attributes ids where r: "r = (attributes, ids)" by fastforce
  have "harmless_entry lib (k, v)" if "(k, v) \<in> set (attribute_entries attributes)" for k v
    using attribute_entries_in [OF that] controlled_not_handlers controlled_links_harmless [OF assms Inr [unfolded r]]
    by (auto simp: harmless_entry_def list_all_iff)
  then show ?thesis using Inr r by (auto simp: node_attributes_def list_all_iff)
qed (simp add: node_attributes_def)

lemma serialized_tokens_harmless:
  assumes "url_library_ok lib"
  shows "serializeNode collate lib language node ids = Inr (s, ids') \<Longrightarrow>
      list_all (harmless_token lib) (node_tokens collate lib language node)"
    and "serializeNodes collate lib language nodes ids = Inr (s, ids') \<Longrightarrow>
      list_all (harmless_token lib) (nodes_tokens collate lib language nodes)"
  using assms
proof (induction collate lib language node and collate lib language nodes
    arbitrary: s ids ids' and s ids ids' rule: node_tokens_nodes_tokens.induct)
  case (2 collate lib language ty i tag attrs cls al role sts children)
  from serializeNode_parts [OF 2(2)] obtain ids1 inner where
    "tag \<notin> set active_tags"
    "if tag \<in> set void_tags then inner = [] \<and> ids' = ids1
     else \<exists>r. serializeNodes collate lib language children ids1 = Inr (r, ids')
       \<and> inner = r @ CHR ''<'' # CHR ''/'' # tag @ ''>''" by metis
  then show ?case using 2(1,3) node_attributes_harmless [OF 2(3)] by (auto split: if_splits)
next
  case (4 collate lib language node nodes)
  then show ?case by (auto split: sum.splits)
qed (auto simp: list_all_iff)

text \<open>
  C25: Whoever reads the serialized nodes finds nothing active in them: no script, frame, object or
  form, no event handler, and no link with another protocol than the allowed ones.
\<close>

theorem serialized_html_is_inert:
  assumes "url_library_ok lib" and "all_proper_tags nodes"
    and "serializeNodes collate lib language nodes [] = Inr (s, ids)" and "tokenize s = Some tokens"
  shows "list_all (harmless_token lib) tokens"
  using tokenize_nodes(2) [OF assms(3,2), of "[]"] serialized_tokens_harmless(2) [OF assms(1,3)] assms(4)
  by (simp add: tokenize.simps [of "[]"])

text \<open>The identifiers of a document.\<close>

fun token_ids :: "html_token \<Rightarrow> string list" where
  "token_ids (TOpen tag entries) = (case map_of entries ''id'' of Some i \<Rightarrow> [i] | None \<Rightarrow> [])"
| "token_ids (TChar c) = []"
| "token_ids (TClose tag) = []"

lemma map_of_attribute_entries:
  assumes "key \<in> set controlled_attribute_order"
  shows "map_of (attribute_entries attributes) key = map_of attributes key"
proof -
  have "map_of (concat (map (\<lambda>key. case map_of attributes key of Some v \<Rightarrow> [(key, v)] | None \<Rightarrow> []) ks)) key
      = (if key \<in> set ks then map_of attributes key else None)" if "distinct ks" for ks
    using that by (induction ks) (auto simp: map_add_def split: option.splits)
  from this [OF controlled_distinct] assms show ?thesis by (simp add: attribute_entries_def)
qed

lemma map_of_if_truthy: "key \<noteq> k \<Longrightarrow> map_of (if_truthy key value) k = None"
  by (auto simp: if_truthy_def split: option.splits)

lemma map_of_checked_url: "checked_url lib tag attribute v = Inr es \<Longrightarrow> attribute \<noteq> k \<Longrightarrow> map_of es k = None"
  by (auto simp: checked_url_def split: option.splits if_splits sum.splits)

lemma node_attributes_id:
  assumes "createControlledAttributes collate lib node language [] = Inr (attributes, ids)"
  shows "map_of (node_attributes collate lib language node) ''id'' = he_id node"
proof -
  have "map_of attributes ''id'' = he_id node"
    using assms unfolding createControlledAttributes_def Let_def
    by (cases "he_id node"; auto simp: map_of_if_truthy map_of_checked_url map_add_def split: sum.splits)
  moreover have "''id'' \<in> set controlled_attribute_order" by (simp add: controlled_attribute_order_def)
  ultimately show ?thesis by (simp add: node_attributes_def assms map_of_attribute_entries)
qed

lemma serialized_ids:
  shows "serializeNode collate lib language node ids = Inr (s, ids') \<Longrightarrow> distinct ids \<Longrightarrow>
      distinct ids' \<and> ids' = rev (concat (map token_ids (node_tokens collate lib language node))) @ ids"
    and "serializeNodes collate lib language nodes ids = Inr (s, ids') \<Longrightarrow> distinct ids \<Longrightarrow>
      distinct ids' \<and> ids' = rev (concat (map token_ids (nodes_tokens collate lib language nodes))) @ ids"
proof (induction collate lib language node and collate lib language nodes
    arbitrary: s ids ids' and s ids ids' rule: node_tokens_nodes_tokens.induct)
  case (1 collate lib language t)
  moreover have "concat (map (token_ids \<circ> TChar) t) = []" by (induction t) auto
  ultimately show ?case by simp
next
  case (2 collate lib language ty i tag attrs cls al role sts children)
  let ?node = "HElement ty i tag attrs cls al role sts children"
  from serializeNode_parts [OF 2(2)] obtain ids1 inner attributes ids0 where
    p: "ids1 = (case i of Some x \<Rightarrow> [x] | None \<Rightarrow> []) @ ids" "\<And>x. i = Some x \<Longrightarrow> x \<notin> set ids"
    "createControlledAttributes collate lib ?node language [] = Inr (attributes, ids0)"
    "if tag \<in> set void_tags then inner = [] \<and> ids' = ids1
     else \<exists>r. serializeNodes collate lib language children ids1 = Inr (r, ids')
       \<and> inner = r @ CHR ''<'' # CHR ''/'' # tag @ ''>''" by metis
  have o: "token_ids (TOpen tag (node_attributes collate lib language ?node)) = (case i of Some x \<Rightarrow> [x] | None \<Rightarrow> [])"
    by (simp add: node_attributes_id [OF p(3)])
  have d: "distinct ids1" using 2(3) p(1,2) by (cases i) auto
  show ?case
  proof (cases "tag \<in> set void_tags")
    case True
    then show ?thesis using p(1,4) o d by (cases i) auto
  next
    case False
    then obtain r where "serializeNodes collate lib language children ids1 = Inr (r, ids')" using p(4) by auto
    from 2(1) [OF False this d] have e: "distinct ids'"
      "ids' = rev (concat (map token_ids (nodes_tokens collate lib language children))) @ ids1" by blast+
    have "ids' = rev (concat (map token_ids (node_tokens collate lib language ?node))) @ ids"
      using e(2) False o p(1) by (cases i) simp_all
    with e(1) show ?thesis by blast
  qed
next
  case (4 collate lib language node nodes)
  from 4(3) obtain s1 ids1 s2 where t: "serializeNode collate lib language node ids = Inr (s1, ids1)"
    "serializeNodes collate lib language nodes ids1 = Inr (s2, ids')" by (auto split: sum.splits)
  from 4(1) [OF t(1) 4(4)] have a: "distinct ids1"
    "ids1 = rev (concat (map token_ids (node_tokens collate lib language node))) @ ids" by blast+
  from 4(2) [OF t(2) a(1)] have "distinct ids'"
    "ids' = rev (concat (map token_ids (nodes_tokens collate lib language nodes))) @ ids1" by blast+
  moreover from this(2) have "ids' = rev (concat (map token_ids (nodes_tokens collate lib language (node # nodes)))) @ ids"
    by (simp add: a(2))
  ultimately show ?case by blast
qed auto

text \<open>No identifier is written twice.\<close>

theorem serialized_ids_unique:
  assumes "all_proper_tags nodes" and "serializeNodes collate lib language nodes [] = Inr (s, ids)"
    and "tokenize s = Some tokens"
  shows "distinct (concat (map token_ids tokens))"
proof -
  have "tokens = nodes_tokens collate lib language nodes"
    using tokenize_nodes(2) [OF assms(2,1), of "[]"] assms(3) by (simp add: tokenize.simps [of "[]"])
  moreover have "distinct (rev (concat (map token_ids (nodes_tokens collate lib language nodes))))"
    using serialized_ids(2) [OF assms(2)] by (metis append_Nil2 distinct.simps(1))
  ultimately show ?thesis by (metis distinct_rev)
qed

subsection \<open>An example\<close>

definition demo_nodes :: "html_node list" where
  "demo_nodes = [HElement GenericElement (Some ''p1'') ''p'' (no_attributes\<lparr>ha_title := Some [CHR 0x22, CHR ''>'']\<rparr>)
     [] None None [] [HText ''<a&b>'',
       HElement GenericElement (Some ''l1'') ''a'' (no_attributes\<lparr>ha_href := Some ''#p1''\<rparr>) [] None None [] [HText ''x'']]]"

definition demo_markup :: string where
  "demo_markup = ''<p id='' @ quoted ''p1'' @ '' class='' @ quoted ''publication-paragraph'' @ '' title=''
     @ quoted ''&quot;&gt;'' @ ''>&lt;a&amp;b&gt;<a id='' @ quoted ''l1'' @ '' href='' @ quoted ''#p1'' @ ''>x</a></p>''"

definition demo_order :: "string \<Rightarrow> nat" where
  "demo_order s = length s"

lemma demo_nodes_serialized:
  "serializeNodes demo_order demo_library ''en'' demo_nodes [] = Inr (demo_markup, [''l1'', ''p1''])"
  by code_simp

lemma demo_nodes_proper: "all_proper_tags demo_nodes"
  by code_simp

lemma serialized_html_reads_back_witness:
  "tokenize demo_markup = Some (nodes_tokens demo_order demo_library ''en'' demo_nodes)"
  by (rule serialized_html_reads_back [OF demo_nodes_serialized demo_nodes_proper])

lemma demo_nodes_read: "tokenize demo_markup = Some (nodes_tokens demo_order demo_library ''en'' demo_nodes)"
  using tokenize_nodes(2) [OF demo_nodes_serialized demo_nodes_proper, of "[]"] by (simp add: tokenize.simps [of "[]"])

lemma serialized_html_is_inert_witness:
  "list_all (harmless_token demo_library) (nodes_tokens demo_order demo_library ''en'' demo_nodes)"
  by (rule serialized_html_is_inert [OF demo_library_ok demo_nodes_proper demo_nodes_serialized demo_nodes_read])

lemma serialized_ids_unique_witness:
  "distinct (concat (map token_ids (nodes_tokens demo_order demo_library ''en'' demo_nodes)))"
  by (rule serialized_ids_unique [OF demo_nodes_proper demo_nodes_serialized demo_nodes_read])

text \<open>A harmless text that the composer of the document refuses.\<close>

lemma plain_text_refused:
  "assertSafeBodyHtml (escapeText ''the only = sign'') = Inl (UnsafeStandaloneHtmlError ''Standalone document body content is invalid.'')"
  by code_simp

end
