(* ===== verification/HtmlSchema.thy ===== *)
theory HtmlSchema
  imports HtmlReading "HOL-Library.Multiset" "HOL-Library.Monad_Syntax"
begin

text \<open>
  The schema of HTML documents (\<open>src/schemas/publications/html-document-schema.ts\<close>): the shape of
  each part, which trims the texts, and the refinement, a breadth-first walk over the tree that
  collects issues.  \<open>datetime\<close> is the date format of the schema library.  A part that does not
  parse is \<open>None\<close>.
\<close>

subsection \<open>Shapes\<close>

definition zstring :: "nat \<Rightarrow> nat \<Rightarrow> string \<Rightarrow> string option" where
  "zstring lo hi s = (let t = js_trim s in if lo \<le> length t \<and> length t \<le> hi then Some t else None)"

definition zopt :: "('a \<Rightarrow> 'b option) \<Rightarrow> 'a option \<Rightarrow> 'b option option" where
  "zopt f v = (case v of None \<Rightarrow> Some None | Some x \<Rightarrow> map_option Some (f x))"

definition zenum :: "string list \<Rightarrow> string \<Rightarrow> string option" where
  "zenum values s = (if s \<in> set values then Some s else None)"

definition zlist :: "nat \<Rightarrow> nat \<Rightarrow> ('a \<Rightarrow> 'b option) \<Rightarrow> 'a list \<Rightarrow> 'b list option" where
  "zlist lo hi f xs = (if lo \<le> length xs \<and> length xs \<le> hi then those (map f xs) else None)"

definition zdigits :: "string \<Rightarrow> string option" where
  "zdigits s = (let t = js_trim s in
     if t \<noteq> [] \<and> list_all (\<lambda>c. 48 \<le> (of_char c :: nat) \<and> (of_char c :: nat) \<le> 57) t then Some t else None)"

definition htmlClassTokenSchema :: "string \<Rightarrow> string option" where
  "htmlClassTokenSchema = zenum [''document'', ''document-header'', ''document-main'', ''document-footer'',
     ''section'', ''section-title'', ''toc'', ''toc-list'', ''toc-item'', ''content-block'', ''callout'',
     ''list'', ''table'', ''references'', ''footnotes'']"

definition htmlAttributesSchema :: "html_attributes \<Rightarrow> html_attributes option" where
  "htmlAttributesSchema a = do {
     id \<leftarrow> zopt (zstring 1 120) (ha_id a);
     href \<leftarrow> zopt (zstring 1 1024) (ha_href a);
     src \<leftarrow> zopt (zstring 1 1024) (ha_src a);
     alt \<leftarrow> zopt (zstring 1 300) (ha_alt a);
     title \<leftarrow> zopt (zstring 1 240) (ha_title a);
     role \<leftarrow> zopt (zstring 1 120) (ha_role a);
     lang \<leftarrow> zopt (zstring 2 20) (ha_lang a);
     target \<leftarrow> zopt (zenum [''_blank'']) (ha_target a);
     rel \<leftarrow> zopt (zstring 1 120) (ha_rel a);
     ariaLabel \<leftarrow> zopt (zstring 1 240) (ha_ariaLabel a);
     ariaDescribedBy \<leftarrow> zopt (zstring 1 120) (ha_ariaDescribedBy a);
     ariaLabelledBy \<leftarrow> zopt (zstring 1 120) (ha_ariaLabelledBy a);
     scope \<leftarrow> zopt (zenum [''row'', ''col'']) (ha_scope a);
     colspan \<leftarrow> zopt zdigits (ha_colspan a);
     rowspan \<leftarrow> zopt zdigits (ha_rowspan a);
     loading \<leftarrow> zopt (zenum [''lazy'', ''eager'']) (ha_loading a);
     decoding \<leftarrow> zopt (zenum [''auto'', ''sync'', ''async'']) (ha_decoding a);
     referrerpolicy \<leftarrow> zopt (zenum [''no-referrer'', ''strict-origin-when-cross-origin'']) (ha_referrerpolicy a);
     block \<leftarrow> zopt (zenum block_types) (ha_dataPublicationBlock a);
     referenceId \<leftarrow> zopt (zstring 1 120) (ha_dataReferenceId a);
     citationId \<leftarrow> zopt (zstring 1 120) (ha_dataCitationId a);
     footnoteId \<leftarrow> zopt (zstring 1 120) (ha_dataFootnoteId a);
     Some \<lparr>ha_id = id, ha_href = href, ha_src = src, ha_alt = alt, ha_title = title, ha_role = role,
       ha_lang = lang, ha_target = target, ha_rel = rel, ha_ariaLabel = ariaLabel,
       ha_ariaDescribedBy = ariaDescribedBy, ha_ariaLabelledBy = ariaLabelledBy, ha_scope = scope,
       ha_colspan = colspan, ha_rowspan = rowspan, ha_loading = loading, ha_decoding = decoding,
       ha_referrerpolicy = referrerpolicy, ha_dataPublicationBlock = block,
       ha_dataReferenceId = referenceId, ha_dataCitationId = citationId, ha_dataFootnoteId = footnoteId\<rparr>
   }"

definition callout_types :: "string list" where
  "callout_types = [''note'', ''reflection'', ''call-to-action'', ''prayer'', ''journal-prompt'',
     ''sidebar'', ''key-takeaway'', ''warning'', ''highlight'']"

definition section_roles :: "string list" where
  "section_roles = [''cover'', ''toc'', ''content'', ''references'', ''footnotes'']"

definition style_values :: "(string \<times> string list) list" where
  "style_values =
     [(''spacing'', [''none'', ''compact'', ''comfortable'', ''expanded'']),
      (''typography'', [''display'', ''heading'', ''body'', ''caption'', ''label'']),
      (''color-intent'', [''neutral'', ''brand'', ''accent'', ''emphasis'', ''contrast'']),
      (''font-role'', [''default'', ''reading'', ''display'', ''mono'']),
      (''border-intent'', [''none'', ''subtle'', ''strong'', ''focus'']),
      (''shadow-intent'', [''none'', ''raised'', ''overlay'']),
      (''radius'', [''none'', ''soft'', ''rounded'', ''pill'']),
      (''callout-type'', callout_types),
      (''page-intent'', [''reading'', ''study'', ''reference'']),
      (''section-intent'', section_roles),
      (''heading-intent'', [''document-title'', ''section-title'', ''subsection-title'']),
      (''content-width'', [''narrow'', ''standard'', ''wide'']),
      (''image-alignment'', [''left'', ''center'', ''right'', ''full-bleed''])]"

definition htmlStyleTokenSchema :: "style_token \<Rightarrow> style_token option" where
  "htmlStyleTokenSchema t =
     (case map_of style_values (st_category t) of
        None \<Rightarrow> None
      | Some values \<Rightarrow> if st_value t \<in> set values then Some t else None)"

definition htmlAssetReferenceSchema :: "html_asset \<Rightarrow> html_asset option" where
  "htmlAssetReferenceSchema a = do {
     id \<leftarrow> zstring 1 80 (hg_id a);
     assetId \<leftarrow> zstring 1 80 (hg_assetId a);
     uri \<leftarrow> zstring 1 1024 (hg_uri a);
     mimeType \<leftarrow> zopt (zstring 1 100) (hg_mimeType a);
     altText \<leftarrow> zstring 1 300 (hg_altText a);
     Some \<lparr>hg_id = id, hg_assetId = assetId, hg_uri = uri, hg_mimeType = mimeType, hg_altText = altText\<rparr>
   }"

definition html_themes :: "string list" where
  "html_themes = [''classic'', ''modern'', ''ministry'', ''workbook'', ''magazine'', ''minimal'', ''dark'']"

definition htmlMetadataSchema :: "(string \<Rightarrow> bool) \<Rightarrow> html_metadata \<Rightarrow> html_metadata option" where
  "htmlMetadataSchema datetime m = do {
     publicationId \<leftarrow> zstring 1 80 (hm_publicationId m);
     publicationType \<leftarrow> zenum [''cta-guide''] (hm_publicationType m);
     title \<leftarrow> zstring 1 240 (hm_title m);
     description \<leftarrow> zopt (zstring 1 500) (hm_description m);
     language \<leftarrow> zstring 2 20 (hm_language m);
     generatedAt \<leftarrow> (if datetime (hm_generatedAt m) then Some (hm_generatedAt m) else None);
     sourceVersionId \<leftarrow> zstring 1 80 (hm_sourceVersionId m);
     sourceContentHash \<leftarrow> zstring 1 200 (hm_sourceContentHash m);
     audience \<leftarrow> zstring 1 120 (hm_audience m);
     theme' \<leftarrow> zenum html_themes (hm_theme m);
     styleTokens \<leftarrow> zlist 1 100 htmlStyleTokenSchema (hm_styleTokens m);
     assetReferences \<leftarrow> zlist 0 200 htmlAssetReferenceSchema (hm_assetReferences m);
     Some \<lparr>hm_publicationId = publicationId, hm_publicationType = publicationType, hm_title = title,
       hm_description = description, hm_language = language, hm_generatedAt = generatedAt,
       hm_sourceVersionId = sourceVersionId, hm_sourceContentHash = sourceContentHash,
       hm_audience = audience, hm_theme = theme', hm_styleTokens = styleTokens,
       hm_assetReferences = assetReferences\<rparr>
   }"

definition htmlHeadSchema :: "html_head \<Rightarrow> html_head option" where
  "htmlHeadSchema h = do {
     title \<leftarrow> zstring 1 240 (hh_title h);
     lang \<leftarrow> zstring 2 20 (hh_lang h);
     metadata \<leftarrow> zlist 0 40 (\<lambda>(name, content). do {
         name' \<leftarrow> zstring 1 100 name; content' \<leftarrow> zstring 1 500 content; Some (name', content') })
       (hh_metadata h);
     styleTokens \<leftarrow> zlist 0 100 htmlStyleTokenSchema (hh_styleTokens h);
     Some \<lparr>hh_title = title, hh_lang = lang, hh_metadata = metadata, hh_styleTokens = styleTokens\<rparr>
   }"

definition heading_tags :: "string list" where
  "heading_tags = [''h1'', ''h2'', ''h3'', ''h4'', ''h5'', ''h6'']"

definition generic_tags :: "string list" where
  "generic_tags = [''article'', ''section'', ''header'', ''footer'', ''main'', ''aside'', ''nav'', ''p'',
     ''blockquote'', ''figure'', ''figcaption'', ''thead'', ''tbody'', ''tr'', ''th'', ''td'', ''li'',
     ''hr'', ''img'', ''a'']"

text \<open>The parts of an element that depend on its kind.\<close>

definition elementTypeSchema :: "element_type \<Rightarrow> string \<Rightarrow> element_type option" where
  "elementTypeSchema ty tag =
     (case ty of
        GenericElement \<Rightarrow> if tag \<in> set generic_tags then Some ty else None
      | HeadingElement level \<Rightarrow>
          if 1 \<le> level \<and> level \<le> 6 \<and> tag = heading_tags ! (level - 1) then Some ty else None
      | ListElement ordered \<Rightarrow> if tag = (if ordered then ''ol'' else ''ul'') then Some ty else None
      | TableElement headers rows \<Rightarrow>
          if tag \<noteq> ''table'' then None
          else do {
            headers' \<leftarrow> zlist 1 20 (zstring 1 120) headers;
            rows' \<leftarrow> zlist 0 400 (zlist 1 20 (zstring 1 2000)) rows;
            if list_all (\<lambda>row. length row = length headers') rows' then Some (TableElement headers' rows') else None
          }
      | ImageElement assetId src alt caption \<Rightarrow>
          if tag \<noteq> ''figure'' then None
          else do {
            assetId' \<leftarrow> zstring 1 80 assetId;
            src' \<leftarrow> zstring 1 1024 src;
            alt' \<leftarrow> zstring 1 300 alt;
            caption' \<leftarrow> zopt (zstring 1 240) caption;
            Some (ImageElement assetId' src' alt' caption')
          }
      | CalloutElement calloutType \<Rightarrow>
          if tag = ''aside'' \<and> calloutType \<in> set callout_types then Some ty else None)"

definition max_total_elements :: nat where "max_total_elements = 2400"
definition max_tree_depth :: nat where "max_tree_depth = 16"
definition max_children_per_element :: nat where "max_children_per_element = 180"

fun htmlNodeSchema :: "html_node \<Rightarrow> html_node option"
  and htmlNodesSchema :: "html_node list \<Rightarrow> html_node list option" where
  "htmlNodeSchema (HText text) = map_option HText (zstring 1 5000 text)"
| "htmlNodeSchema (HElement ty i tag attrs cls al role sts children) = do {
     ty' \<leftarrow> elementTypeSchema ty tag;
     i' \<leftarrow> zopt (zstring 1 120) i;
     attrs' \<leftarrow> htmlAttributesSchema attrs;
     cls' \<leftarrow> zlist 0 30 htmlClassTokenSchema cls;
     al' \<leftarrow> zopt (zstring 1 240) al;
     role' \<leftarrow> zopt (zstring 1 120) role;
     sts' \<leftarrow> zlist 0 60 htmlStyleTokenSchema sts;
     children' \<leftarrow> (if length children \<le> max_children_per_element then htmlNodesSchema children else None);
     Some (HElement ty' i' tag attrs' cls' al' role' sts' children')
   }"
| "htmlNodesSchema [] = Some []"
| "htmlNodesSchema (node # nodes) = do {
     node' \<leftarrow> htmlNodeSchema node; nodes' \<leftarrow> htmlNodesSchema nodes; Some (node' # nodes')
   }"

fun is_element :: "html_node \<Rightarrow> bool" where
  "is_element (HText text) = False"
| "is_element (HElement ty i tag attrs cls al role sts children) = True"

definition htmlElementSchema :: "html_node \<Rightarrow> html_node option" where
  "htmlElementSchema node = (if is_element node then htmlNodeSchema node else None)"

definition htmlSectionSchema :: "html_section \<Rightarrow> html_section option" where
  "htmlSectionSchema s = do {
     id \<leftarrow> zstring 1 80 (hx_id s);
     title \<leftarrow> zstring 1 240 (hx_title s);
     role \<leftarrow> zenum section_roles (hx_role s);
     styleTokens \<leftarrow> zlist 0 40 htmlStyleTokenSchema (hx_styleTokens s);
     elements \<leftarrow> zlist 1 500 htmlElementSchema (hx_elements s);
     Some \<lparr>hx_id = id, hx_title = title, hx_role = role, hx_styleTokens = styleTokens, hx_elements = elements\<rparr>
   }"

definition htmlLandmarkSchema :: "html_landmark \<Rightarrow> html_landmark option" where
  "htmlLandmarkSchema l = do {
     role \<leftarrow> zenum [''banner'', ''navigation'', ''main'', ''contentinfo''] (hl_role l);
     sectionId \<leftarrow> zstring 1 80 (hl_sectionId l);
     label \<leftarrow> zopt (zstring 1 120) (hl_label l);
     Some \<lparr>hl_role = role, hl_sectionId = sectionId, hl_label = label\<rparr>
   }"

text \<open>The object without its refinement.\<close>

definition documentShape :: "(string \<Rightarrow> bool) \<Rightarrow> html_document \<Rightarrow> html_document option" where
  "documentShape datetime d = do {
     schemaVersion \<leftarrow> zenum [''1.0''] (hd_schemaVersion d);
     metadata \<leftarrow> htmlMetadataSchema datetime (hd_metadata d);
     theme' \<leftarrow> zenum html_themes (hd_theme d);
     head \<leftarrow> htmlHeadSchema (hd_head d);
     skip \<leftarrow> zstring 1 120 (hd_skipNavigationTargetId d);
     sections \<leftarrow> zlist 1 200 htmlSectionSchema (hd_sections d);
     landmarks \<leftarrow> zlist 3 10 htmlLandmarkSchema (hd_landmarks d);
     Some \<lparr>hd_schemaVersion = schemaVersion, hd_metadata = metadata, hd_theme = theme', hd_head = head,
       hd_skipNavigationTargetId = skip, hd_sections = sections, hd_landmarks = landmarks\<rparr>
   }"

subsection \<open>The refinement\<close>

definition landmarkRoleCount :: "string \<Rightarrow> html_landmark list \<Rightarrow> nat" where
  "landmarkRoleCount role landmarks = length (filter (\<lambda>l. hl_role l = role) landmarks)"

definition issue_if :: "bool \<Rightarrow> string \<Rightarrow> string list" where
  "issue_if b message = (if b then [message] else [])"

lemma issue_if_Nil [simp]: "issue_if b message = [] \<longleftrightarrow> \<not> b"
  by (simp add: issue_if_def)

definition validateTagAttributeApplicability :: "string \<Rightarrow> html_attributes \<Rightarrow> string list" where
  "validateTagAttributeApplicability tag a =
     issue_if (ha_href a \<noteq> None \<and> tag \<noteq> ''a'') ''href is only allowed on <a>.''
     @ issue_if (ha_src a \<noteq> None \<and> tag \<noteq> ''img'') ''src is only allowed on <img>.''
     @ issue_if (ha_alt a \<noteq> None \<and> tag \<noteq> ''img'') ''alt is only allowed on <img>.''
     @ issue_if (ha_scope a \<noteq> None \<and> tag \<noteq> ''th'') ''scope is only allowed on <th>.''
     @ issue_if (ha_colspan a \<noteq> None \<and> tag \<noteq> ''td'' \<and> tag \<noteq> ''th'') ''colspan is only allowed on <td> and <th>.''
     @ issue_if (ha_rowspan a \<noteq> None \<and> tag \<noteq> ''td'' \<and> tag \<noteq> ''th'') ''rowspan is only allowed on <td> and <th>.''
     @ issue_if (ha_loading a \<noteq> None \<and> tag \<noteq> ''img'') ''loading is only allowed on <img>.''
     @ issue_if (ha_decoding a \<noteq> None \<and> tag \<noteq> ''img'') ''decoding is only allowed on <img>.''
     @ issue_if (ha_dataPublicationBlock a \<noteq> None \<and> tag \<noteq> ''aside'')
         ''dataPublicationBlock is only allowed on <aside>.''
     @ issue_if ((ha_dataReferenceId a \<noteq> None \<or> ha_dataCitationId a \<noteq> None \<or> ha_dataFootnoteId a \<noteq> None)
           \<and> tag \<noteq> ''a'')
         ''Reference and note data attributes are only allowed on <a>.''
     @ issue_if (ha_target a = Some ''_blank''
           \<and> (let rel = (case ha_rel a of Some r \<Rightarrow> r | None \<Rightarrow> [])
              in \<not> contains ''noopener'' rel \<or> \<not> contains ''noreferrer'' rel))
         (''target='' @ quoted ''_blank'' @ '' links must include rel with noopener and noreferrer.'')"

definition is_refused :: "'e + 'a \<Rightarrow> bool" where
  "is_refused r = (case r of Inl e \<Rightarrow> True | Inr x \<Rightarrow> False)"

definition unsafe_href :: "url_library \<Rightarrow> string \<Rightarrow> bool" where
  "unsafe_href lib href =
     (if starts_with ''#'' href then is_refused (assertSafeInternalHref lib href)
      else is_refused (assertSafeExternalUrl lib href external_schemes))"

text \<open>What is checked of one element, apart from its identifier.\<close>

fun element_issues :: "url_library \<Rightarrow> string list \<Rightarrow> html_node \<Rightarrow> string option \<Rightarrow> string list" where
  "element_issues lib assetIds (HText text) parentTag = []"
| "element_issues lib assetIds (HElement ty i tag attrs cls al role sts children) parentTag =
     issue_if (case ty of ImageElement assetId src alt caption \<Rightarrow> assetId \<notin> set assetIds | _ \<Rightarrow> False)
       ''Image element references an unknown asset.''
     @ validateTagAttributeApplicability tag attrs
     @ issue_if ((tag = ''img'' \<or> tag = ''hr'') \<and> children \<noteq> []) ''Void elements cannot have children.''
     @ issue_if (tag = ''img'' \<and> (ha_alt attrs = None \<or> ha_src attrs = None))
         ''Image elements must include src and alt attributes.''
     @ issue_if (tag = ''a'' \<and> (case ha_href attrs of None \<Rightarrow> False | Some href \<Rightarrow> unsafe_href lib href))
         ''Anchor href failed URL safety validation.''
     @ issue_if (tag = ''img'' \<and> (case ha_src attrs of None \<Rightarrow> False
           | Some src \<Rightarrow> is_refused (assertSafeAssetUrl lib src asset_schemes)))
         ''Image src failed URL safety validation.''
     @ issue_if (tag = ''li'' \<and> parentTag \<noteq> Some ''ol'' \<and> parentTag \<noteq> Some ''ul'')
         ''List items must be children of <ol> or <ul>.''
     @ issue_if ((tag = ''thead'' \<or> tag = ''tbody'') \<and> parentTag \<noteq> Some ''table'')
         ''<thead> and <tbody> must be children of <table>.''
     @ issue_if (tag = ''tr'' \<and> parentTag \<noteq> Some ''thead'' \<and> parentTag \<noteq> Some ''tbody'')
         ''<tr> must be a child of <thead> or <tbody>.''
     @ issue_if ((tag = ''th'' \<or> tag = ''td'') \<and> parentTag \<noteq> Some ''tr'') ''<th> and <td> must be children of <tr>.''
     @ issue_if (length children > max_children_per_element) ''Element has too many child nodes.''"

record traversal =
  tv_total :: nat
  tv_mainCount :: nat
  tv_nonEmptyMain :: bool
  tv_ids :: "string list"
  tv_levels :: "nat list"
  tv_hrefTargets :: "string list"
  tv_issues :: "string list"

fun node_id :: "html_node \<Rightarrow> string list" where
  "node_id (HText text) = []"
| "node_id (HElement ty i tag attrs cls al role sts children) = (case i of Some x \<Rightarrow> [x] | None \<Rightarrow> [])"

fun is_main :: "html_node \<Rightarrow> bool" where
  "is_main (HText text) = False"
| "is_main (HElement ty i tag attrs cls al role sts children) \<longleftrightarrow> tag = ''main''"

fun heading_level :: "html_node \<Rightarrow> nat list" where
  "heading_level (HText text) = []"
| "heading_level (HElement ty i tag attrs cls al role sts children) =
     (case ty of HeadingElement level \<Rightarrow> [level] | _ \<Rightarrow> [])"

fun href_target :: "url_library \<Rightarrow> html_node \<Rightarrow> string list" where
  "href_target lib (HText text) = []"
| "href_target lib (HElement ty i tag attrs cls al role sts children) =
     (if tag = ''a''
      then (case ha_href attrs of
          None \<Rightarrow> []
        | Some href \<Rightarrow>
            if starts_with ''#'' href
            then (case assertSafeInternalHref lib href of Inl e \<Rightarrow> [] | Inr safe \<Rightarrow> [drop 1 safe])
            else [])
      else [])"

text \<open>The body of the walk for an element within the limits.\<close>

definition visit :: "url_library \<Rightarrow> string list \<Rightarrow> html_node \<Rightarrow> string option \<Rightarrow> traversal \<Rightarrow> traversal" where
  "visit lib assetIds node parentTag st =
     st\<lparr>tv_mainCount := tv_mainCount st + (if is_main node then 1 else 0),
        tv_nonEmptyMain := (tv_nonEmptyMain st \<or> (is_main node \<and> he_children node \<noteq> [])),
        tv_ids := tv_ids st @ node_id node,
        tv_levels := tv_levels st @ heading_level node,
        tv_hrefTargets := tv_hrefTargets st @ href_target lib node,
        tv_issues := tv_issues st
          @ issue_if (\<exists>i \<in> set (node_id node). i \<in> set (tv_ids st)) ''Duplicate HTML element ID detected.''
          @ element_issues lib assetIds node parentTag\<rparr>"

type_synonym queue_item = "html_node \<times> nat \<times> string option"

fun child_items :: "html_node \<Rightarrow> nat \<Rightarrow> queue_item list" where
  "child_items (HText text) depth = []"
| "child_items (HElement ty i tag attrs cls al role sts children) depth =
     map (\<lambda>child. (child, Suc depth, Some tag)) (filter is_element children)"

lemma filtered_size: "(\<Sum>x \<leftarrow> filter p xs. Suc (size (x :: html_node))) \<le> size_list size xs"
  by (induction xs) auto

function traverse :: "url_library \<Rightarrow> string list \<Rightarrow> queue_item list \<Rightarrow> traversal \<Rightarrow> traversal" where
  "traverse lib assetIds [] st = st"
| "traverse lib assetIds ((node, depth, parentTag) # queue) st =
     (let st1 = st\<lparr>tv_total := Suc (tv_total st)\<rparr> in
      if tv_total st1 > max_total_elements
      then st1\<lparr>tv_issues := tv_issues st1 @ [''HTML document exceeds maximum element count.'']\<rparr>
      else if depth > max_tree_depth
      then st1\<lparr>tv_issues := tv_issues st1 @ [''HTML document exceeds maximum nesting depth.'']\<rparr>
      else traverse lib assetIds (queue @ child_items node depth) (visit lib assetIds node parentTag st1))"
  by pat_completeness auto
termination
proof (relation "measure (\<lambda>(lib, assetIds, queue, st). \<Sum>(node, rest) \<leftarrow> queue. Suc (size node))")
  fix lib assetIds node depth parentTag queue and st st1 :: traversal
  have "(\<Sum>(x, rest) \<leftarrow> child_items node depth. Suc (size x)) < Suc (size node)"
    by (cases node) (auto simp: comp_def intro: le_less_trans [OF filtered_size])
  then show "((lib, assetIds, queue @ child_items node depth, visit lib assetIds node parentTag st1),
      (lib, assetIds, (node, depth, parentTag) # queue, st))
    \<in> measure (\<lambda>(lib, assetIds, queue, st). \<Sum>(node, rest) \<leftarrow> queue. Suc (size node))" by simp
qed simp

declare traverse.simps(2) [simp del]

definition no_traversal :: traversal where
  "no_traversal = \<lparr>tv_total = 0, tv_mainCount = 0, tv_nonEmptyMain = False, tv_ids = [], tv_levels = [],
     tv_hrefTargets = [], tv_issues = []\<rparr>"

fun skips_level :: "nat list \<Rightarrow> bool" where
  "skips_level (previous # current # rest) \<longleftrightarrow> current > previous + 1 \<or> skips_level (current # rest)"
| "skips_level _ \<longleftrightarrow> False"

definition body_elements :: "html_document \<Rightarrow> html_node list" where
  "body_elements d = concat (map hx_elements (hd_sections d))"

definition document_traversal :: "url_library \<Rightarrow> html_document \<Rightarrow> traversal" where
  "document_traversal lib d =
     traverse lib (map hg_assetId (hm_assetReferences (hd_metadata d)))
       (map (\<lambda>element. (element, 1, None)) (body_elements d)) no_traversal"

fun repeated :: "string list \<Rightarrow> string list \<Rightarrow> nat" where
  "repeated [] seen = 0"
| "repeated (x # xs) seen = (if x \<in> set seen then 1 else 0) + repeated xs (x # seen)"

definition document_issues :: "url_library \<Rightarrow> html_document \<Rightarrow> string list" where
  "document_issues lib d =
     (let st = document_traversal lib d; sectionIds = map hx_id (hd_sections d); landmarks = hd_landmarks d in
      concat (map (\<lambda>a. issue_if (is_refused (assertSafeAssetUrl lib (hg_uri a) asset_schemes))
          ''Asset URI is not allowed by URL policy.'') (hm_assetReferences (hd_metadata d)))
      @ replicate (repeated sectionIds []) ''Duplicate HTML section ID detected.''
      @ tv_issues st
      @ issue_if (hd_skipNavigationTargetId d \<notin> set (tv_ids st))
          ''Skip navigation target must match an existing element ID.''
      @ concat (map (\<lambda>l.
          issue_if (hl_sectionId l \<notin> set sectionIds) ''Landmark sectionId must reference an existing section.''
          @ issue_if (landmarkRoleCount (hl_role l) landmarks > 1 \<and> hl_label l = None)
              ''Repeated landmark roles must include distinct labels.'') landmarks)
      @ issue_if (tv_mainCount st \<noteq> 1) ''Document must contain exactly one <main> element.''
      @ issue_if (\<not> tv_nonEmptyMain st) ''Main element must contain substantive content.''
      @ issue_if (landmarkRoleCount ''main'' landmarks \<noteq> 1) ''Document must contain exactly one main landmark.''
      @ issue_if (\<exists>target \<in> set (tv_hrefTargets st). target \<notin> set (tv_ids st))
          ''Internal link target does not exist in the document.''
      @ issue_if (case tv_levels st of [] \<Rightarrow> False | l # _ \<Rightarrow> l \<noteq> 1) ''Heading hierarchy must start at h1.''
      @ issue_if (skips_level (tv_levels st)) ''Heading hierarchy cannot skip levels.'')"

definition htmlDocumentSchema :: "url_library \<Rightarrow> (string \<Rightarrow> bool) \<Rightarrow> html_document \<Rightarrow> html_document option" where
  "htmlDocumentSchema lib datetime d =
     (case documentShape datetime d of
        None \<Rightarrow> None
      | Some parsed \<Rightarrow> if document_issues lib parsed = [] then Some parsed else None)"

end
