(* ===== verification/AiResults.thy ===== *)
theory AiResults
  imports HtmlSchema Complex_Main
begin

text \<open>
  The results of the AI pipeline and their schemas (\<open>src/schemas/ai\<close>).  A cost is an exact
  rational; \<open>datetime\<close> is the date format of the schema library.
\<close>

record ai_metadata =
  am_title :: string
  am_description :: string
  am_language :: string
  am_audience :: string

record ai_summary =
  as_shortSummary :: string
  as_detailedSummary :: string

record scripture_reference =
  ar_book :: string
  ar_chapter :: int
  ar_verseStart :: int
  ar_verseEnd :: "int option"

record ai_usage =
  au_inputTokens :: int
  au_outputTokens :: int
  au_totalTokens :: int
  au_estimatedCostUsd :: "rat option"
  au_latencyMs :: int

record prompt_execution =
  ae_stage :: string
  ae_promptKey :: string
  ae_promptVersion :: string
  ae_pipelineVersion :: string
  ae_provider :: string
  ae_model :: string
  ae_generatedAt :: string
  ae_usage :: ai_usage

record ai_result =
  ai_pipelineVersion :: string
  ai_provider :: string
  ai_model :: string
  ai_generatedAt :: string
  ai_metadata_of :: ai_metadata
  ai_summary_of :: ai_summary
  ai_keywords :: "string list"
  ai_references :: "scripture_reference list"
  ai_reflections :: "string list"
  ai_promptExecutions :: "prompt_execution list"
  ai_usageTotals :: ai_usage

definition zwhen :: "('a \<Rightarrow> bool) \<Rightarrow> 'a \<Rightarrow> 'a option" where
  "zwhen p x = (if p x then Some x else None)"

definition max_safe_integer :: int where "max_safe_integer = 9007199254740991"

definition safe_count :: "int \<Rightarrow> int option" where
  "safe_count = zwhen (\<lambda>n. 0 \<le> n \<and> n \<le> max_safe_integer)"

text \<open>A text with \<open>min(1)\<close> that is not trimmed, and one that is.\<close>

definition znonempty :: "string \<Rightarrow> string option" where
  "znonempty = zwhen (\<lambda>s. s \<noteq> [])"

definition ztrimmed :: "string \<Rightarrow> string option" where
  "ztrimmed s = znonempty (js_trim s)"

definition aiMetadataSchema :: "ai_metadata \<Rightarrow> ai_metadata option" where
  "aiMetadataSchema m = do {
     title \<leftarrow> zstring 1 120 (am_title m);
     description \<leftarrow> zstring 1 500 (am_description m);
     language \<leftarrow> zstring 2 20 (am_language m);
     audience \<leftarrow> zstring 1 80 (am_audience m);
     Some \<lparr>am_title = title, am_description = description, am_language = language, am_audience = audience\<rparr>
   }"

definition aiSummarySchema :: "ai_summary \<Rightarrow> ai_summary option" where
  "aiSummarySchema s = do {
     short \<leftarrow> zstring 1 240 (as_shortSummary s);
     detailed \<leftarrow> zstring 1 2000 (as_detailedSummary s);
     Some \<lparr>as_shortSummary = short, as_detailedSummary = detailed\<rparr>
   }"

definition aiKeywordsSchema :: "string list \<Rightarrow> string list option" where
  "aiKeywordsSchema = zlist 1 20 (\<lambda>k. map_option lower_case (zstring 1 80 k))"

definition aiScriptureReferenceSchema :: "scripture_reference \<Rightarrow> scripture_reference option" where
  "aiScriptureReferenceSchema r = do {
     book \<leftarrow> zstring 1 80 (ar_book r);
     chapter \<leftarrow> zwhen (\<lambda>n. 0 < n) (ar_chapter r);
     verseStart \<leftarrow> zwhen (\<lambda>n. 0 < n) (ar_verseStart r);
     verseEnd \<leftarrow> zopt (zwhen (\<lambda>n. 0 < n)) (ar_verseEnd r);
     Some \<lparr>ar_book = book, ar_chapter = chapter, ar_verseStart = verseStart, ar_verseEnd = verseEnd\<rparr>
   }"

definition aiScriptureSchema :: "scripture_reference list \<Rightarrow> scripture_reference list option" where
  "aiScriptureSchema = zlist 0 20 aiScriptureReferenceSchema"

definition aiReflectionsSchema :: "string list \<Rightarrow> string list option" where
  "aiReflectionsSchema = zlist 1 10 (zstring 1 240)"

definition aiUsageSchema :: "ai_usage \<Rightarrow> ai_usage option" where
  "aiUsageSchema u = do {
     inputTokens \<leftarrow> safe_count (au_inputTokens u);
     outputTokens \<leftarrow> safe_count (au_outputTokens u);
     totalTokens \<leftarrow> safe_count (au_totalTokens u);
     cost \<leftarrow> zopt (zwhen (\<lambda>c. 0 \<le> c)) (au_estimatedCostUsd u);
     latencyMs \<leftarrow> safe_count (au_latencyMs u);
     if totalTokens = inputTokens + outputTokens then Some u else None
   }"

definition ai_stages :: "string list" where
  "ai_stages = [''metadata'', ''keywords'', ''summary'', ''scripture'', ''reflections'']"

definition ai_providers :: "string list" where
  "ai_providers = [''mock'', ''openai'']"

definition aiPromptExecutionRecordSchema :: "(string \<Rightarrow> bool) \<Rightarrow> prompt_execution \<Rightarrow> prompt_execution option" where
  "aiPromptExecutionRecordSchema datetime e = do {
     stage \<leftarrow> zenum ai_stages (ae_stage e);
     promptKey \<leftarrow> znonempty (ae_promptKey e);
     promptVersion \<leftarrow> znonempty (ae_promptVersion e);
     pipelineVersion \<leftarrow> ztrimmed (ae_pipelineVersion e);
     provider \<leftarrow> zenum ai_providers (ae_provider e);
     model \<leftarrow> znonempty (ae_model e);
     generatedAt \<leftarrow> zwhen datetime (ae_generatedAt e);
     usage \<leftarrow> aiUsageSchema (ae_usage e);
     Some \<lparr>ae_stage = stage, ae_promptKey = promptKey, ae_promptVersion = promptVersion,
       ae_pipelineVersion = pipelineVersion, ae_provider = provider, ae_model = model,
       ae_generatedAt = generatedAt, ae_usage = usage\<rparr>
   }"

definition aiPipelineResultSchema :: "(string \<Rightarrow> bool) \<Rightarrow> ai_result \<Rightarrow> ai_result option" where
  "aiPipelineResultSchema datetime a = do {
     pipelineVersion \<leftarrow> ztrimmed (ai_pipelineVersion a);
     provider \<leftarrow> zenum ai_providers (ai_provider a);
     model \<leftarrow> znonempty (ai_model a);
     generatedAt \<leftarrow> zwhen datetime (ai_generatedAt a);
     metadata \<leftarrow> aiMetadataSchema (ai_metadata_of a);
     summary \<leftarrow> aiSummarySchema (ai_summary_of a);
     keywords \<leftarrow> aiKeywordsSchema (ai_keywords a);
     references \<leftarrow> aiScriptureSchema (ai_references a);
     reflections \<leftarrow> aiReflectionsSchema (ai_reflections a);
     executions \<leftarrow> zlist 1 5 (aiPromptExecutionRecordSchema datetime) (ai_promptExecutions a);
     totals \<leftarrow> aiUsageSchema (ai_usageTotals a);
     Some \<lparr>ai_pipelineVersion = pipelineVersion, ai_provider = provider, ai_model = model,
       ai_generatedAt = generatedAt, ai_metadata_of = metadata, ai_summary_of = summary,
       ai_keywords = keywords, ai_references = references, ai_reflections = reflections,
       ai_promptExecutions = executions, ai_usageTotals = totals\<rparr>
   }"

end
