(* ===== verification/Publications.thy ===== *)
theory Publications
  imports AiResults
begin

text \<open>
  Publications (\<open>src/domain/publications/types.ts\<close>) and their schema
  (\<open>src/schemas/publications/publication-schema.ts\<close>).  \<open>datetime\<close> and \<open>isUrl\<close> are the formats
  of the schema library.
\<close>

text \<open>\<open>xs.map((x, index) => f(index + 1, x))\<close>\<close>

definition numbered :: "(nat \<Rightarrow> 'a \<Rightarrow> 'b) \<Rightarrow> 'a list \<Rightarrow> 'b list" where
  "numbered f xs = map (\<lambda>(index, x). f (index + 1) x) (List.enumerate 0 xs)"

subsection \<open>Data\<close>

record publication_style =
  py_tone :: string
  py_readingLevel :: string
  py_voice :: string

record pub_metadata =
  pd_publicationId :: string
  pd_publicationType :: string
  pd_title :: string
  pd_subtitle :: "string option"
  pd_author :: string
  pd_organization :: "string option"
  pd_generatedAt :: string
  pd_sourceVersionId :: string
  pd_sourceContentHash :: string
  pd_pipelineVersion :: string
  pd_audience :: string
  pd_theme :: string
  pd_style :: publication_style

record publication_asset =
  pa_id :: string
  pa_uri :: string
  pa_altText :: "string option"
  pa_mimeType :: "string option"

datatype reference_type = BibleReference | ExternalReference | InternalReference

record publication_reference =
  pq_id :: string
  pq_referenceType :: reference_type
  pq_label :: string
  pq_detail :: string
  pq_url :: "string option"
  pq_targetId :: "string option"

record publication_citation =
  pi_id :: string
  pi_label :: string
  pi_text :: string
  pi_referenceId :: "string option"

record publication_footnote =
  po_id :: string
  po_marker :: string
  po_text :: string

datatype text_kind = Paragraph | Reflection | Prayer | JournalPrompt | KeyTakeaway | Warning | Highlight | Quote

datatype list_kind = Checklist | BulletList | NumberedList

datatype publication_block =
    HeadingBlock (block_id: string) nat string "string list option" "string list option"
  | TextBlock (block_id: string) text_kind string "string option" "string list option" "string list option"
  | CallToActionBlock (block_id: string) string string string "string list option" "string list option"
  | ScriptureBlock (block_id: string) "string list" string "string list option" "string list option"
  | ListBlock (block_id: string) list_kind "string list" "string list option" "string list option"
  | SidebarBlock (block_id: string) string string
  | ImageBlock (block_id: string) string "string option"
  | TableBlock (block_id: string) "string list" "string list list"
  | DividerBlock (block_id: string)

record publication_section =
  pn_id :: string
  pn_title :: string
  pn_slug :: string
  pn_order :: int
  pn_blocks :: "publication_block list"

record publication_cover =
  pv_title :: string
  pv_subtitle :: "string option"
  pv_author :: string
  pv_organization :: "string option"
  pv_coverImageAssetId :: "string option"
  pv_branding :: "string option"
  pv_generatedDate :: string
  pv_publicationType :: string

record toc_entry =
  te_id :: string
  te_targetId :: string
  te_title :: string
  te_level :: nat
  te_anchor :: string
  te_parentId :: "string option"
  te_pageNumber :: "int option"

record publication =
  pu_metadata :: pub_metadata
  pu_cover :: publication_cover
  pu_toc :: "toc_entry list"
  pu_sections :: "publication_section list"
  pu_references :: "publication_reference list"
  pu_citations :: "publication_citation list"
  pu_footnotes :: "publication_footnote list"
  pu_assets :: "publication_asset list"
  pu_schemaVersion :: string
  pu_layoutIntent :: string
  pu_language :: string
  pu_preferredTargets :: "string list"
  pu_includeCover :: bool
  pu_includeToc :: bool

subsection \<open>Shapes\<close>

definition idListSchema :: "string list \<Rightarrow> string list option" where
  "idListSchema = zlist 1 40 (zstring 1 80)"

definition publicationStyleSchema :: "publication_style \<Rightarrow> publication_style option" where
  "publicationStyleSchema y = do {
     tone \<leftarrow> zstring 1 120 (py_tone y);
     readingLevel \<leftarrow> zenum [''introductory'', ''intermediate'', ''advanced''] (py_readingLevel y);
     voice \<leftarrow> zenum [''pastoral'', ''instructional'', ''reflective''] (py_voice y);
     Some \<lparr>py_tone = tone, py_readingLevel = readingLevel, py_voice = voice\<rparr>
   }"

definition publication_audiences :: "string list" where
  "publication_audiences = [''general'', ''church'', ''youth'', ''small-group'', ''leadership'',
     ''bible-study'', ''education'', ''nonprofit'', ''coaching'']"

definition publicationMetadataSchema :: "(string \<Rightarrow> bool) \<Rightarrow> pub_metadata \<Rightarrow> pub_metadata option" where
  "publicationMetadataSchema datetime m = do {
     publicationId \<leftarrow> zstring 1 80 (pd_publicationId m);
     publicationType \<leftarrow> zenum [''cta-guide''] (pd_publicationType m);
     title \<leftarrow> zstring 1 240 (pd_title m);
     subtitle \<leftarrow> zopt (zstring 1 300) (pd_subtitle m);
     author \<leftarrow> zstring 1 120 (pd_author m);
     organization \<leftarrow> zopt (zstring 1 120) (pd_organization m);
     generatedAt \<leftarrow> zwhen datetime (pd_generatedAt m);
     sourceVersionId \<leftarrow> zstring 1 80 (pd_sourceVersionId m);
     sourceContentHash \<leftarrow> zstring 1 200 (pd_sourceContentHash m);
     pipelineVersion \<leftarrow> zstring 1 40 (pd_pipelineVersion m);
     audience \<leftarrow> zenum publication_audiences (pd_audience m);
     theme' \<leftarrow> zenum html_themes (pd_theme m);
     style \<leftarrow> publicationStyleSchema (pd_style m);
     Some \<lparr>pd_publicationId = publicationId, pd_publicationType = publicationType, pd_title = title,
       pd_subtitle = subtitle, pd_author = author, pd_organization = organization,
       pd_generatedAt = generatedAt, pd_sourceVersionId = sourceVersionId,
       pd_sourceContentHash = sourceContentHash, pd_pipelineVersion = pipelineVersion,
       pd_audience = audience, pd_theme = theme', pd_style = style\<rparr>
   }"

definition publicationAssetSchema :: "publication_asset \<Rightarrow> publication_asset option" where
  "publicationAssetSchema a = do {
     id \<leftarrow> zstring 1 80 (pa_id a);
     uri \<leftarrow> zstring 1 1024 (pa_uri a);
     altText \<leftarrow> zopt (zstring 1 240) (pa_altText a);
     mimeType \<leftarrow> zopt (zstring 1 100) (pa_mimeType a);
     Some \<lparr>pa_id = id, pa_uri = uri, pa_altText = altText, pa_mimeType = mimeType\<rparr>
   }"

definition zurl :: "(string \<Rightarrow> bool) \<Rightarrow> nat \<Rightarrow> string \<Rightarrow> string option" where
  "zurl isUrl hi s = (let t = js_trim s in if isUrl t \<and> length t \<le> hi then Some t else None)"

text \<open>Only an internal reference has a target, and it has one.\<close>

definition publicationReferenceSchema ::
  "(string \<Rightarrow> bool) \<Rightarrow> publication_reference \<Rightarrow> publication_reference option" where
  "publicationReferenceSchema isUrl r = do {
     id \<leftarrow> zstring 1 80 (pq_id r);
     label \<leftarrow> zstring 1 240 (pq_label r);
     detail \<leftarrow> zstring 1 400 (pq_detail r);
     url \<leftarrow> zopt (zurl isUrl 1024) (pq_url r);
     targetId \<leftarrow> zopt (zstring 1 80) (pq_targetId r);
     if (pq_referenceType r = InternalReference) = (targetId \<noteq> None)
     then Some \<lparr>pq_id = id, pq_referenceType = pq_referenceType r, pq_label = label, pq_detail = detail,
       pq_url = url, pq_targetId = targetId\<rparr>
     else None
   }"

definition publicationCitationSchema :: "publication_citation \<Rightarrow> publication_citation option" where
  "publicationCitationSchema c = do {
     id \<leftarrow> zstring 1 80 (pi_id c);
     label \<leftarrow> zstring 1 120 (pi_label c);
     body \<leftarrow> zstring 1 400 (pi_text c);
     referenceId \<leftarrow> zopt (zstring 1 80) (pi_referenceId c);
     Some \<lparr>pi_id = id, pi_label = label, pi_text = body, pi_referenceId = referenceId\<rparr>
   }"

definition publicationFootnoteSchema :: "publication_footnote \<Rightarrow> publication_footnote option" where
  "publicationFootnoteSchema f = do {
     id \<leftarrow> zstring 1 80 (po_id f);
     marker \<leftarrow> zstring 1 20 (po_marker f);
     body \<leftarrow> zstring 1 400 (po_text f);
     Some \<lparr>po_id = id, po_marker = marker, po_text = body\<rparr>
   }"

fun publicationBlockSchema :: "publication_block \<Rightarrow> publication_block option" where
  "publicationBlockSchema (HeadingBlock i level t cs fs) = do {
     i' \<leftarrow> zstring 1 80 i; level' \<leftarrow> zwhen (\<lambda>l. l \<in> {1, 2, 3}) level; t' \<leftarrow> zstring 1 200 t;
     cs' \<leftarrow> zopt idListSchema cs; fs' \<leftarrow> zopt idListSchema fs;
     Some (HeadingBlock i' level' t' cs' fs') }"
| "publicationBlockSchema (TextBlock i kind t attribution cs fs) = do {
     i' \<leftarrow> zstring 1 80 i; t' \<leftarrow> zstring 1 2000 t; attribution' \<leftarrow> zopt (zstring 1 120) attribution;
     cs' \<leftarrow> zopt idListSchema cs; fs' \<leftarrow> zopt idListSchema fs;
     Some (TextBlock i' kind t' attribution' cs' fs') }"
| "publicationBlockSchema (CallToActionBlock i title description action cs fs) = do {
     i' \<leftarrow> zstring 1 80 i; title' \<leftarrow> zstring 1 200 title; description' \<leftarrow> zstring 1 800 description;
     action' \<leftarrow> zstring 1 200 action; cs' \<leftarrow> zopt idListSchema cs; fs' \<leftarrow> zopt idListSchema fs;
     Some (CallToActionBlock i' title' description' action' cs' fs') }"
| "publicationBlockSchema (ScriptureBlock i references t cs fs) = do {
     i' \<leftarrow> zstring 1 80 i; references' \<leftarrow> zlist 0 40 (zstring 1 200) references; t' \<leftarrow> zstring 1 1200 t;
     cs' \<leftarrow> zopt idListSchema cs; fs' \<leftarrow> zopt idListSchema fs;
     Some (ScriptureBlock i' references' t' cs' fs') }"
| "publicationBlockSchema (ListBlock i kind items cs fs) = do {
     i' \<leftarrow> zstring 1 80 i; items' \<leftarrow> zlist 1 40 (zstring 1 240) items;
     cs' \<leftarrow> zopt idListSchema cs; fs' \<leftarrow> zopt idListSchema fs;
     Some (ListBlock i' kind items' cs' fs') }"
| "publicationBlockSchema (SidebarBlock i title body) = do {
     i' \<leftarrow> zstring 1 80 i; title' \<leftarrow> zstring 1 180 title; body' \<leftarrow> zstring 1 1000 body;
     Some (SidebarBlock i' title' body') }"
| "publicationBlockSchema (ImageBlock i assetId caption) = do {
     i' \<leftarrow> zstring 1 80 i; assetId' \<leftarrow> zstring 1 80 assetId; caption' \<leftarrow> zopt (zstring 1 240) caption;
     Some (ImageBlock i' assetId' caption') }"
| "publicationBlockSchema (TableBlock i headers rows) = do {
     i' \<leftarrow> zstring 1 80 i; headers' \<leftarrow> zlist 1 8 (zstring 1 120) headers;
     rows' \<leftarrow> zlist 0 40 (zlist 1 8 (zstring 1 240)) rows;
     if list_all (\<lambda>row. length row = length headers') rows' then Some (TableBlock i' headers' rows') else None }"
| "publicationBlockSchema (DividerBlock i) = do { i' \<leftarrow> zstring 1 80 i; Some (DividerBlock i') }"

definition publicationSectionSchema :: "publication_section \<Rightarrow> publication_section option" where
  "publicationSectionSchema s = do {
     id \<leftarrow> zstring 1 80 (pn_id s);
     title \<leftarrow> zstring 1 200 (pn_title s);
     slug \<leftarrow> zstring 1 120 (pn_slug s);
     order \<leftarrow> zwhen (\<lambda>n. 0 \<le> n \<and> n \<le> max_safe_integer) (pn_order s);
     blocks \<leftarrow> zlist 1 80 publicationBlockSchema (pn_blocks s);
     Some \<lparr>pn_id = id, pn_title = title, pn_slug = slug, pn_order = order, pn_blocks = blocks\<rparr>
   }"

definition publicationCoverSchema :: "(string \<Rightarrow> bool) \<Rightarrow> publication_cover \<Rightarrow> publication_cover option" where
  "publicationCoverSchema datetime c = do {
     title \<leftarrow> zstring 1 240 (pv_title c);
     subtitle \<leftarrow> zopt (zstring 1 300) (pv_subtitle c);
     author \<leftarrow> zstring 1 120 (pv_author c);
     organization \<leftarrow> zopt (zstring 1 120) (pv_organization c);
     coverImageAssetId \<leftarrow> zopt (zstring 1 80) (pv_coverImageAssetId c);
     branding \<leftarrow> zopt (zstring 1 120) (pv_branding c);
     generatedDate \<leftarrow> zwhen datetime (pv_generatedDate c);
     publicationType \<leftarrow> zenum [''cta-guide''] (pv_publicationType c);
     Some \<lparr>pv_title = title, pv_subtitle = subtitle, pv_author = author, pv_organization = organization,
       pv_coverImageAssetId = coverImageAssetId, pv_branding = branding,
       pv_generatedDate = generatedDate, pv_publicationType = publicationType\<rparr>
   }"

definition publicationTableOfContentsEntrySchema :: "toc_entry \<Rightarrow> toc_entry option" where
  "publicationTableOfContentsEntrySchema e = do {
     id \<leftarrow> zstring 1 80 (te_id e);
     targetId \<leftarrow> zstring 1 80 (te_targetId e);
     title \<leftarrow> zstring 1 200 (te_title e);
     level \<leftarrow> zwhen (\<lambda>l. l \<in> {1, 2, 3}) (te_level e);
     anchor \<leftarrow> zstring 1 200 (te_anchor e);
     parentId \<leftarrow> zopt (zstring 1 80) (te_parentId e);
     pageNumber \<leftarrow> zopt (zwhen (\<lambda>n. 0 \<le> n)) (te_pageNumber e);
     Some \<lparr>te_id = id, te_targetId = targetId, te_title = title, te_level = level, te_anchor = anchor,
       te_parentId = parentId, te_pageNumber = pageNumber\<rparr>
   }"

definition publicationShape ::
  "(string \<Rightarrow> bool) \<Rightarrow> (string \<Rightarrow> bool) \<Rightarrow> publication \<Rightarrow> publication option" where
  "publicationShape datetime isUrl p = do {
     metadata \<leftarrow> publicationMetadataSchema datetime (pu_metadata p);
     cover \<leftarrow> publicationCoverSchema datetime (pu_cover p);
     toc \<leftarrow> zlist 0 400 publicationTableOfContentsEntrySchema (pu_toc p);
     sections \<leftarrow> zlist 1 100 publicationSectionSchema (pu_sections p);
     references \<leftarrow> zlist 0 400 (publicationReferenceSchema isUrl) (pu_references p);
     citations \<leftarrow> zlist 0 400 publicationCitationSchema (pu_citations p);
     footnotes \<leftarrow> zlist 0 400 publicationFootnoteSchema (pu_footnotes p);
     assets \<leftarrow> zlist 0 200 publicationAssetSchema (pu_assets p);
     schemaVersion \<leftarrow> zenum [''1.0''] (pu_schemaVersion p);
     layoutIntent \<leftarrow> zenum [''digital-first'', ''print-first''] (pu_layoutIntent p);
     language \<leftarrow> zstring 2 20 (pu_language p);
     preferredTargets \<leftarrow> zlist 1 6 (zenum [''cta-guide'', ''epub'', ''pdf'', ''html'', ''docx'', ''markdown''])
       (pu_preferredTargets p);
     Some \<lparr>pu_metadata = metadata, pu_cover = cover, pu_toc = toc, pu_sections = sections,
       pu_references = references, pu_citations = citations, pu_footnotes = footnotes,
       pu_assets = assets, pu_schemaVersion = schemaVersion, pu_layoutIntent = layoutIntent,
       pu_language = language, pu_preferredTargets = preferredTargets,
       pu_includeCover = pu_includeCover p, pu_includeToc = pu_includeToc p\<rparr>
   }"

subsection \<open>The refinement\<close>

text \<open>The issues in the order in which they are added; a place is a message.\<close>

fun duplicate_issues :: "string \<Rightarrow> string list \<Rightarrow> string list \<Rightarrow> string list" where
  "duplicate_issues category [] seen = []"
| "duplicate_issues category (x # xs) seen =
     issue_if (x \<in> set seen) (''Duplicate '' @ category @ '' ID detected.'') @ duplicate_issues category xs (x # seen)"

definition dangling_if :: "bool \<Rightarrow> string \<Rightarrow> string list" where
  "dangling_if b kind = issue_if b (''Dangling '' @ kind @ '' target detected.'')"

fun block_citationIds :: "publication_block \<Rightarrow> string list" where
  "block_citationIds (HeadingBlock i level t cs fs) = case_option [] id cs"
| "block_citationIds (TextBlock i kind t attribution cs fs) = case_option [] id cs"
| "block_citationIds (CallToActionBlock i title description action cs fs) = case_option [] id cs"
| "block_citationIds (ScriptureBlock i references t cs fs) = case_option [] id cs"
| "block_citationIds (ListBlock i kind items cs fs) = case_option [] id cs"
| "block_citationIds _ = []"

fun block_footnoteIds :: "publication_block \<Rightarrow> string list" where
  "block_footnoteIds (HeadingBlock i level t cs fs) = case_option [] id fs"
| "block_footnoteIds (TextBlock i kind t attribution cs fs) = case_option [] id fs"
| "block_footnoteIds (CallToActionBlock i title description action cs fs) = case_option [] id fs"
| "block_footnoteIds (ScriptureBlock i references t cs fs) = case_option [] id fs"
| "block_footnoteIds (ListBlock i kind items cs fs) = case_option [] id fs"
| "block_footnoteIds _ = []"

fun block_assetId :: "publication_block \<Rightarrow> string option" where
  "block_assetId (ImageBlock i assetId caption) = Some assetId"
| "block_assetId _ = None"

definition sections_blocks :: "publication \<Rightarrow> publication_block list" where
  "sections_blocks p = concat (map pn_blocks (pu_sections p))"

definition validTargetIds :: "publication \<Rightarrow> string list" where
  "validTargetIds p = concat (map (\<lambda>s. pn_id s # map block_id (pn_blocks s)) (pu_sections p))"

text \<open>The table of contents: a parent must come before its children.\<close>

fun toc_issues :: "string list \<Rightarrow> toc_entry list \<Rightarrow> string list \<Rightarrow> string list" where
  "toc_issues targets [] seen = []"
| "toc_issues targets (e # es) seen =
     issue_if (te_id e \<in> set seen) ''Duplicate TOC entry ID detected.''
     @ dangling_if (te_targetId e \<notin> set targets) ''TOC''
     @ dangling_if (case te_parentId e of None \<Rightarrow> False | Some p \<Rightarrow> p \<notin> set (te_id e # seen)) ''TOC parent''
     @ toc_issues targets es (te_id e # seen)"

definition block_issues :: "publication \<Rightarrow> publication_block \<Rightarrow> string list" where
  "block_issues p b =
     dangling_if (case block_assetId b of None \<Rightarrow> False | Some a \<Rightarrow> a \<notin> set (map pa_id (pu_assets p))) ''image asset''
     @ concat (map (\<lambda>i. dangling_if (i \<notin> set (map po_id (pu_footnotes p))) ''footnote'') (block_footnoteIds b))
     @ concat (map (\<lambda>i. dangling_if (i \<notin> set (map pi_id (pu_citations p))) ''citation'') (block_citationIds b))"

fun section_issues :: "publication_section list \<Rightarrow> string list \<Rightarrow> string list \<Rightarrow> string list" where
  "section_issues [] sections blocks = []"
| "section_issues (s # ss) sections blocks =
     issue_if (pn_id s \<in> set sections) ''Duplicate section ID detected.''
     @ duplicate_issues ''block'' (map block_id (pn_blocks s)) blocks
     @ section_issues ss (pn_id s # sections) (rev (map block_id (pn_blocks s)) @ blocks)"

fun reference_issues :: "string list \<Rightarrow> publication_reference list \<Rightarrow> string list \<Rightarrow> string list" where
  "reference_issues targets [] seen = []"
| "reference_issues targets (r # rs) seen =
     issue_if (pq_id r \<in> set seen) ''Duplicate reference ID detected.''
     @ dangling_if (pq_referenceType r = InternalReference
         \<and> (case pq_targetId r of None \<Rightarrow> False | Some t \<Rightarrow> t \<notin> set targets)) ''internal reference''
     @ reference_issues targets rs (pq_id r # seen)"

fun citation_issues :: "string list \<Rightarrow> publication_citation list \<Rightarrow> string list \<Rightarrow> string list" where
  "citation_issues references [] seen = []"
| "citation_issues references (c # cs) seen =
     issue_if (pi_id c \<in> set seen) ''Duplicate citation ID detected.''
     @ dangling_if (case pi_referenceId c of None \<Rightarrow> False | Some r \<Rightarrow> r \<notin> set references) ''citation reference''
     @ citation_issues references cs (pi_id c # seen)"

definition is_front_matter :: "string \<Rightarrow> bool" where
  "is_front_matter i \<longleftrightarrow> i = ''cover'' \<or> i = ''table-of-contents''"

definition publication_issues :: "publication \<Rightarrow> string list" where
  "publication_issues p =
     section_issues (pu_sections p) [] []
     @ duplicate_issues ''asset'' (map pa_id (pu_assets p)) []
     @ reference_issues (validTargetIds p) (pu_references p) []
     @ citation_issues (map pq_id (pu_references p)) (pu_citations p) []
     @ duplicate_issues ''footnote'' (map po_id (pu_footnotes p)) []
     @ toc_issues (validTargetIds p) (pu_toc p) []
     @ dangling_if (case pv_coverImageAssetId (pu_cover p) of None \<Rightarrow> False
         | Some a \<Rightarrow> a \<notin> set (map pa_id (pu_assets p))) ''cover image asset''
     @ concat (map (block_issues p) (sections_blocks p))
     @ issue_if (\<forall>s \<in> set (pu_sections p). is_front_matter (pn_id s))
         ''Publication must contain substantive sections beyond cover and table of contents.''"

definition publicationSchema ::
  "(string \<Rightarrow> bool) \<Rightarrow> (string \<Rightarrow> bool) \<Rightarrow> publication \<Rightarrow> publication option" where
  "publicationSchema datetime isUrl p =
     (case publicationShape datetime isUrl p of
        None \<Rightarrow> None
      | Some parsed \<Rightarrow> if publication_issues parsed = [] then Some parsed else None)"

end
