(* ===== verification/AcceptedHtml.thy ===== *)
theory AcceptedHtml
  imports HtmlSchema
begin

text \<open>
  What the schema of HTML documents guarantees to the code behind it: a document it accepts can
  be serialized, and its markup reads back as the document.  The breadth-first walk of the
  schema and the recursion of the serializer meet in the list of the elements of a tree, each
  with the tag of its parent.
\<close>

subsection \<open>The elements of a tree\<close>

fun elements_of :: "html_node \<Rightarrow> string option \<Rightarrow> (html_node \<times> string option) list"
  and elements_of_list :: "html_node list \<Rightarrow> string option \<Rightarrow> (html_node \<times> string option) list" where
  "elements_of (HText text) parent = []"
| "elements_of (HElement ty i tag attrs cls al role sts children) parent =
     (HElement ty i tag attrs cls al role sts children, parent) # elements_of_list children (Some tag)"
| "elements_of_list [] parent = []"
| "elements_of_list (node # nodes) parent = elements_of node parent @ elements_of_list nodes parent"

definition queue_elements :: "queue_item list \<Rightarrow> (html_node \<times> string option) list" where
  "queue_elements q = concat (map (\<lambda>(node, depth, parent). elements_of node parent) q)"

definition element_ids :: "(html_node \<times> string option) list \<Rightarrow> string list" where
  "element_ids es = concat (map (\<lambda>e. node_id (fst e)) es)"

lemma element_ids_simps [simp]:
  "element_ids [] = []" "element_ids (e # es) = node_id (fst e) @ element_ids es"
  "element_ids (es @ es') = element_ids es @ element_ids es'"
  by (simp_all add: element_ids_def)

lemma queue_elements_simps [simp]:
  "queue_elements [] = []" "queue_elements ((node, depth, parent) # q) = elements_of node parent @ queue_elements q"
  "queue_elements (q @ q') = queue_elements q @ queue_elements q'"
  by (simp_all add: queue_elements_def)

lemma elements_of_text: "\<not> is_element node \<Longrightarrow> elements_of node parent = []"
  by (cases node) auto

lemma elements_of_list_filter:
  "queue_elements (map (\<lambda>child. (child, depth, parent)) (filter is_element nodes)) = elements_of_list nodes parent"
  by (induction nodes) (auto simp: elements_of_text)

lemma elements_of_unfold:
  "elements_of node parent = (if is_element node then [(node, parent)] else []) @ queue_elements (child_items node depth)"
  by (cases node) (auto simp: elements_of_list_filter)

lemma main_nodes_elements:
  "main_nodes node = map fst (filter (\<lambda>e. is_main (fst e)) (elements_of node parent))"
  "main_nodes_list nodes = map fst (filter (\<lambda>e. is_main (fst e)) (elements_of_list nodes parent))"
  by (induction node and nodes arbitrary: parent and parent rule: main_nodes_main_nodes_list.induct) auto

subsection \<open>The walk\<close>

text \<open>A walk without an issue has seen every element and found nothing.\<close>

lemma traverse_clean:
  assumes "tv_issues (traverse lib assetIds q st) = []"
  shows "tv_issues st = []"
    and "\<forall>e \<in> set (queue_elements q). element_issues lib assetIds (fst e) (snd e) = []"
    and "mset (tv_ids (traverse lib assetIds q st)) = mset (tv_ids st) + mset (element_ids (queue_elements q))"
    and "distinct (tv_ids st) \<Longrightarrow> distinct (tv_ids (traverse lib assetIds q st))"
    and "tv_mainCount (traverse lib assetIds q st)
      = tv_mainCount st + length (filter (\<lambda>e. is_main (fst e)) (queue_elements q))"
    and "tv_nonEmptyMain (traverse lib assetIds q st) \<longleftrightarrow> tv_nonEmptyMain st
      \<or> (\<exists>e \<in> set (queue_elements q). is_main (fst e) \<and> he_children (fst e) \<noteq> [])"
proof -
  have "tv_issues st = []
    \<and> (\<forall>e \<in> set (queue_elements q). element_issues lib assetIds (fst e) (snd e) = [])
    \<and> mset (tv_ids (traverse lib assetIds q st)) = mset (tv_ids st) + mset (element_ids (queue_elements q))
    \<and> (distinct (tv_ids st) \<longrightarrow> distinct (tv_ids (traverse lib assetIds q st)))
    \<and> tv_mainCount (traverse lib assetIds q st)
      = tv_mainCount st + length (filter (\<lambda>e. is_main (fst e)) (queue_elements q))
    \<and> (tv_nonEmptyMain (traverse lib assetIds q st) \<longleftrightarrow> tv_nonEmptyMain st
      \<or> (\<exists>e \<in> set (queue_elements q). is_main (fst e) \<and> he_children (fst e) \<noteq> []))"
    using assms
  proof (induction lib assetIds q st rule: traverse.induct)
    case (2 lib assetIds node depth parent queue st)
    let ?st1 = "st\<lparr>tv_total := Suc (tv_total st)\<rparr>"
    let ?v = "visit lib assetIds node parent ?st1"
    have within: "\<not> tv_total ?st1 > max_total_elements" "\<not> depth > max_tree_depth"
      using 2(2) by (auto simp: traverse.simps(2) Let_def split: if_splits)
    then have t: "traverse lib assetIds ((node, depth, parent) # queue) st
        = traverse lib assetIds (queue @ child_items node depth) ?v"
      by (simp add: traverse.simps(2) Let_def)
    note ih = 2(1) [OF refl within 2(2) [unfolded t]]
    have v: "tv_issues st = []" "\<not> (\<exists>i \<in> set (node_id node). i \<in> set (tv_ids st))"
      "element_issues lib assetIds node parent = []"
      using ih by (auto simp: visit_def)
    have d: "distinct (tv_ids st) \<Longrightarrow> distinct (tv_ids ?v)"
      using v(2) by (cases node) (auto simp: visit_def split: option.splits)
    have f: "tv_ids ?v = tv_ids st @ node_id node"
      "tv_mainCount ?v = tv_mainCount st + (if is_main node then 1 else 0)"
      "tv_nonEmptyMain ?v \<longleftrightarrow> tv_nonEmptyMain st \<or> is_main node \<and> he_children node \<noteq> []"
      by (simp_all add: visit_def)
    let ?h = "if is_element node then [(node, parent)] else []"
    have u: "queue_elements ((node, depth, parent) # queue) = ?h @ queue_elements (child_items node depth) @ queue_elements queue"
      by (simp add: elements_of_unfold [of node parent depth])
    have h: "element_ids ?h = node_id node"
      "length (filter (\<lambda>e. is_main (fst e)) ?h) = (if is_main node then 1 else 0)"
      "(\<exists>e \<in> set ?h. is_main (fst e) \<and> he_children (fst e) \<noteq> []) \<longleftrightarrow> is_main node \<and> he_children node \<noteq> []"
      by (cases node; simp)+
    have hi: "\<forall>e \<in> set ?h. element_issues lib assetIds (fst e) (snd e) = []" using v(3) by simp
    show ?case unfolding t u
    proof (intro conjI)
      show "\<forall>e \<in> set (?h @ queue_elements (child_items node depth) @ queue_elements queue).
          element_issues lib assetIds (fst e) (snd e) = []"
        using ih hi by (simp only: queue_elements_simps set_append) blast
      show "mset (tv_ids (traverse lib assetIds (queue @ child_items node depth) ?v)) = mset (tv_ids st)
          + mset (element_ids (?h @ queue_elements (child_items node depth) @ queue_elements queue))"
        using ih by (simp add: f h(1) del: if_split)
      show "distinct (tv_ids st) \<longrightarrow> distinct (tv_ids (traverse lib assetIds (queue @ child_items node depth) ?v))"
        using ih d by blast
      show "tv_mainCount (traverse lib assetIds (queue @ child_items node depth) ?v) = tv_mainCount st
          + length (filter (\<lambda>e. is_main (fst e)) (?h @ queue_elements (child_items node depth) @ queue_elements queue))"
        using ih by (simp add: f h(2) del: if_split)
      show "tv_nonEmptyMain (traverse lib assetIds (queue @ child_items node depth) ?v) \<longleftrightarrow> tv_nonEmptyMain st
          \<or> (\<exists>e \<in> set (?h @ queue_elements (child_items node depth) @ queue_elements queue).
              is_main (fst e) \<and> he_children (fst e) \<noteq> [])"
        using ih by (simp only: f(3) set_append bex_Un h(3) queue_elements_simps) blast
    qed (rule v(1))
  qed simp
  then show "tv_issues st = []"
    and "\<forall>e \<in> set (queue_elements q). element_issues lib assetIds (fst e) (snd e) = []"
    and "mset (tv_ids (traverse lib assetIds q st)) = mset (tv_ids st) + mset (element_ids (queue_elements q))"
    and "distinct (tv_ids st) \<Longrightarrow> distinct (tv_ids (traverse lib assetIds q st))"
    and "tv_mainCount (traverse lib assetIds q st)
      = tv_mainCount st + length (filter (\<lambda>e. is_main (fst e)) (queue_elements q))"
    and "tv_nonEmptyMain (traverse lib assetIds q st) \<longleftrightarrow> tv_nonEmptyMain st
      \<or> (\<exists>e \<in> set (queue_elements q). is_main (fst e) \<and> he_children (fst e) \<noteq> [])" by blast+
qed

subsection \<open>The serializer\<close>

lemma not_is_refused: "\<not> is_refused r \<longleftrightarrow> (\<exists>x. r = Inr x)"
  by (cases r) (auto simp: is_refused_def)

lemma clean_links:
  assumes "element_issues lib assetIds (HElement ty i tag attrs cls al role sts children) parent = []"
  shows "\<exists>href. checked_url lib tag ''href'' (ha_href attrs) = Inr href"
    and "\<exists>src. checked_url lib tag ''src'' (ha_src attrs) = Inr src"
proof -
  have h: "ha_href attrs \<noteq> None \<Longrightarrow> tag = ''a''" "ha_src attrs \<noteq> None \<Longrightarrow> tag = ''img''"
    using assms by (auto simp: validateTagAttributeApplicability_def)
  show "\<exists>href. checked_url lib tag ''href'' (ha_href attrs) = Inr href"
  proof (cases "ha_href attrs")
    case (Some v)
    then have "\<not> unsafe_href lib v" using assms h(1) by auto
    then show ?thesis using Some
      by (auto simp: checked_url_def validateAndNormalizeUrl_def unsafe_href_def not_is_refused split: if_splits)
  qed (simp add: checked_url_def)
  show "\<exists>src. checked_url lib tag ''src'' (ha_src attrs) = Inr src"
  proof (cases "ha_src attrs")
    case (Some v)
    then have "\<not> is_refused (assertSafeAssetUrl lib v asset_schemes)" "tag = ''img''" using assms h(2) by auto
    then show ?thesis using Some
      by (auto simp: checked_url_def validateAndNormalizeUrl_def not_is_refused)
  qed (simp add: checked_url_def)
qed

definition clean_elements :: "url_library \<Rightarrow> string list \<Rightarrow> (html_node \<times> string option) list \<Rightarrow> bool" where
  "clean_elements lib assetIds es \<longleftrightarrow>
     (\<forall>e \<in> set es. element_issues lib assetIds (fst e) (snd e) = [] \<and> he_tag (fst e) \<notin> set active_tags)"

lemma clean_elements_simps [simp]:
  "clean_elements lib assetIds []"
  "clean_elements lib assetIds (e # es) \<longleftrightarrow> element_issues lib assetIds (fst e) (snd e) = []
     \<and> he_tag (fst e) \<notin> set active_tags \<and> clean_elements lib assetIds es"
  "clean_elements lib assetIds (es @ es') \<longleftrightarrow> clean_elements lib assetIds es \<and> clean_elements lib assetIds es'"
  by (auto simp: clean_elements_def)

lemma clean_controlled:
  assumes "element_issues lib assetIds (HElement ty i tag attrs cls al role sts children) parent = []"
    and "distinct (node_id (HElement ty i tag attrs cls al role sts children) @ ids)"
  shows "\<exists>attributes. createControlledAttributes collate lib (HElement ty i tag attrs cls al role sts children) language ids
    = Inr (attributes, node_id (HElement ty i tag attrs cls al role sts children) @ ids)"
proof -
  obtain href src where "checked_url lib tag ''href'' (ha_href attrs) = Inr href"
    "checked_url lib tag ''src'' (ha_src attrs) = Inr src" using clean_links [OF assms(1)] by blast
  then show ?thesis using assms(2)
    by (cases i) (simp_all add: createControlledAttributes_def Let_def)
qed

lemma clean_serializes:
  "clean_elements lib assetIds (elements_of node parent) \<Longrightarrow> distinct (rev (element_ids (elements_of node parent)) @ ids)
    \<Longrightarrow> \<exists>s. serializeNode collate lib language node ids = Inr (s, rev (element_ids (elements_of node parent)) @ ids)"
  "clean_elements lib assetIds (elements_of_list nodes parent)
    \<Longrightarrow> distinct (rev (element_ids (elements_of_list nodes parent)) @ ids)
    \<Longrightarrow> \<exists>s. serializeNodes collate lib language nodes ids = Inr (s, rev (element_ids (elements_of_list nodes parent)) @ ids)"
proof (induction node parent and nodes parent arbitrary: ids and ids rule: elements_of_elements_of_list.induct)
  case (2 ty i tag attrs cls al role sts children parent)
  let ?node = "HElement ty i tag attrs cls al role sts children"
  let ?below = "element_ids (elements_of_list children (Some tag))"
  have r: "rev (node_id ?node) = node_id ?node" by (cases i) auto
  have c: "element_issues lib assetIds ?node parent = []" "tag \<notin> set active_tags"
    "clean_elements lib assetIds (elements_of_list children (Some tag))" using 2(2) by (auto simp del: element_issues.simps)
  have d: "distinct (node_id ?node @ ids)" "distinct (rev ?below @ node_id ?node @ ids)"
    using 2(3) r by (auto simp del: node_id.simps)
  obtain attributes where a: "createControlledAttributes collate lib ?node language ids = Inr (attributes, node_id ?node @ ids)"
    using clean_controlled [OF c(1) d(1)] by blast
  obtain inner where inner: "serializeNodes collate lib language children (node_id ?node @ ids)
      = Inr (inner, rev ?below @ node_id ?node @ ids)" using 2(1) [OF c(3) d(2)] by blast
  have "children = []" if "tag \<in> set void_tags"
    using c(1) that by (auto simp: void_tags_def)
  then show ?case using a inner c(2) r
    by (cases "tag \<in> set void_tags") (auto simp: serializeAttributes_is simp del: node_id.simps)
next
  case (4 node nodes parent)
  let ?ids1 = "rev (element_ids (elements_of node parent)) @ ids"
  have d: "distinct ?ids1" "distinct (rev (element_ids (elements_of_list nodes parent)) @ ?ids1)"
    using 4(4) by auto
  obtain s where "serializeNode collate lib language node ids = Inr (s, ?ids1)" using 4(1) [OF _ d(1)] 4(3) by auto
  moreover obtain s' where "serializeNodes collate lib language nodes ?ids1
      = Inr (s', rev (element_ids (elements_of_list nodes parent)) @ ?ids1)" using 4(2) [OF _ d(2)] 4(3) by auto
  ultimately show ?case by simp
qed auto

subsection \<open>The shape\<close>

lemma those_mem: "those xs = Some ys \<Longrightarrow> y \<in> set ys \<Longrightarrow> Some y \<in> set xs"
  by (induction xs arbitrary: ys) (auto split: option.splits)

lemma zlist_mem: "zlist lo hi f xs = Some ys \<Longrightarrow> y \<in> set ys \<Longrightarrow> \<exists>x \<in> set xs. f x = Some y"
proof -
  assume "zlist lo hi f xs = Some ys" "y \<in> set ys"
  then have "Some y \<in> set (map f xs)" by (intro those_mem) (auto simp: zlist_def split: if_splits)
  then show ?thesis by auto
qed

definition element_tags :: "string list" where
  "element_tags = generic_tags @ heading_tags @ [''ul'', ''ol'', ''table'', ''figure'', ''aside'']"

lemma element_tags_ok: "list_all (\<lambda>tag. tag \<noteq> [] \<and> list_all name_char tag \<and> tag \<notin> set active_tags) element_tags"
  by code_simp

lemma heading_tags_nth: "Suc 0 \<le> level \<Longrightarrow> level \<le> 6 \<Longrightarrow> heading_tags ! (level - Suc 0) \<in> set heading_tags"
  by (rule nth_mem) (simp add: heading_tags_def)

lemma elementTypeSchema_tag: "elementTypeSchema ty tag = Some ty' \<Longrightarrow> tag \<in> set element_tags"
  by (cases ty)
     (auto simp: elementTypeSchema_def element_tags_def heading_tags_nth split: if_splits option.splits)

lemma parsed_tags:
  "htmlNodeSchema node = Some parsed \<Longrightarrow>
     proper_tags parsed \<and> (\<forall>e \<in> set (elements_of parsed parent). he_tag (fst e) \<notin> set active_tags)"
  "htmlNodesSchema nodes = Some parsed_nodes \<Longrightarrow>
     all_proper_tags parsed_nodes \<and> (\<forall>e \<in> set (elements_of_list parsed_nodes parent). he_tag (fst e) \<notin> set active_tags)"
proof (induction node and nodes arbitrary: parsed parent and parsed_nodes parent
    rule: htmlNodeSchema_htmlNodesSchema.induct)
  case (2 ty i tag attrs cls al role sts children)
  from 2(2) obtain ty' i' attrs' cls' al' role' sts' children' where
    p: "elementTypeSchema ty tag = Some ty'" "zopt (zstring 1 120) i = Some i'" "htmlAttributesSchema attrs = Some attrs'"
    "zlist 0 30 htmlClassTokenSchema cls = Some cls'" "zopt (zstring 1 240) al = Some al'"
    "zopt (zstring 1 120) role = Some role'" "zlist 0 60 htmlStyleTokenSchema sts = Some sts'"
    "(if length children \<le> max_children_per_element then htmlNodesSchema children else None) = Some children'"
    "parsed = HElement ty' i' tag attrs' cls' al' role' sts' children'"
    unfolding htmlNodeSchema.simps bind_eq_Some_conv by blast
  have "tag \<noteq> [] \<and> list_all name_char tag \<and> tag \<notin> set active_tags"
    using elementTypeSchema_tag [OF p(1)] element_tags_ok by (auto simp: list_all_iff)
  moreover have "all_proper_tags children'
      \<and> (\<forall>e \<in> set (elements_of_list children' (Some tag)). he_tag (fst e) \<notin> set active_tags)"
    using 2(1) [OF p(1-7)] p(8) by (auto split: if_splits)
  ultimately show ?case using p(9) by auto
next
  case (4 node nodes)
  then show ?case by (fastforce simp: bind_eq_Some_conv)
qed auto

lemma all_proper_tags_iff: "all_proper_tags nodes \<longleftrightarrow> (\<forall>node \<in> set nodes. proper_tags node)"
  by (induction nodes) auto

lemma documentShape_body:
  assumes "documentShape datetime raw = Some d" and "node \<in> set (body_elements d)"
  shows "\<exists>source. htmlNodeSchema source = Some node"
proof -
  from assms obtain sec where s: "sec \<in> set (hd_sections d)" "node \<in> set (hx_elements sec)"
    by (auto simp: body_elements_def)
  from assms(1) have "\<exists>sections. zlist 1 200 htmlSectionSchema sections = Some (hd_sections d)"
    by (auto simp: documentShape_def bind_eq_Some_conv)
  with s(1) obtain source where "htmlSectionSchema source = Some sec" by (metis zlist_mem)
  then have "\<exists>elements. zlist 1 500 htmlElementSchema elements = Some (hx_elements sec)"
    by (auto simp: htmlSectionSchema_def bind_eq_Some_conv)
  with s(2) obtain element where "htmlElementSchema element = Some node" by (metis zlist_mem)
  then show ?thesis by (auto simp: htmlElementSchema_def split: if_splits)
qed

subsection \<open>Accepted documents\<close>

lemma main_nodes_list_concat: "main_nodes_list (concat xss) = concat (map main_nodes_list xss)"
proof -
  have "main_nodes_list (xs @ ys) = main_nodes_list xs @ main_nodes_list ys" for xs ys
    by (induction xs) auto
  then show ?thesis by (induction xss) auto
qed

lemma queue_of_nodes: "queue_elements (map (\<lambda>element. (element, d, p)) nodes) = elements_of_list nodes p"
  by (induction nodes) auto

lemma accepted_elements:
  assumes "htmlDocumentSchema lib datetime raw = Some d"
  shows "clean_elements lib (map hg_assetId (hm_assetReferences (hd_metadata d))) (elements_of_list (body_elements d) None)"
    and "distinct (element_ids (elements_of_list (body_elements d) None))"
    and "all_proper_tags (body_elements d)"
    and "\<exists>main. extractMainNodes d = [main] \<and> he_children main \<noteq> []"
proof -
  let ?assets = "map hg_assetId (hm_assetReferences (hd_metadata d))"
  let ?q = "map (\<lambda>element. (element, 1, None)) (body_elements d)"
  let ?es = "elements_of_list (body_elements d) None"
  have shape: "documentShape datetime raw = Some d" and none: "document_issues lib d = []"
    using assms by (auto simp: htmlDocumentSchema_def split: option.splits if_splits)
  have st: "tv_issues (traverse lib ?assets ?q no_traversal) = []"
    "tv_mainCount (traverse lib ?assets ?q no_traversal) = 1" "tv_nonEmptyMain (traverse lib ?assets ?q no_traversal)"
    using none by (auto simp: document_issues_def document_traversal_def Let_def)
  have q: "queue_elements ?q = ?es" by (rule queue_of_nodes)
  note clean = traverse_clean [OF st(1), unfolded q]
  have parsed: "\<exists>source. htmlNodeSchema source = Some node" if "node \<in> set (body_elements d)" for node
    using documentShape_body [OF shape that] .
  show proper: "all_proper_tags (body_elements d)"
    unfolding all_proper_tags_iff using parsed parsed_tags(1) by blast
  have in_list: "\<exists>node \<in> set nodes. e \<in> set (elements_of node parent)" if "e \<in> set (elements_of_list nodes parent)" for e nodes parent
    using that by (induction nodes) auto
  have "he_tag (fst e) \<notin> set active_tags" if "e \<in> set ?es" for e
    using in_list [OF that] parsed parsed_tags(1) by blast
  then show "clean_elements lib ?assets ?es" using clean(2) by (auto simp: clean_elements_def)
  have "mset (tv_ids (traverse lib ?assets ?q no_traversal)) = mset (element_ids ?es)"
    using clean(3) by (simp add: no_traversal_def)
  moreover have "distinct (tv_ids (traverse lib ?assets ?q no_traversal))"
    using clean(4) by (simp add: no_traversal_def)
  ultimately show "distinct (element_ids ?es)" by (metis mset_eq_imp_distinct_iff)
  have m: "extractMainNodes d = map fst (filter (\<lambda>e. is_main (fst e)) ?es)"
    using main_nodes_elements(2) [of "body_elements d" None]
    by (simp add: extractMainNodes_def body_elements_def main_nodes_list_concat comp_def)
  have "length (extractMainNodes d) = 1" unfolding m using clean(5) st(2) by (simp add: no_traversal_def)
  then obtain main where main: "extractMainNodes d = [main]" by (metis length_0_conv length_Suc_conv One_nat_def)
  obtain e where e: "e \<in> set ?es" "is_main (fst e)" "he_children (fst e) \<noteq> []"
    using clean(6) st(3) by (auto simp: no_traversal_def)
  then have "fst e \<in> set (extractMainNodes d)" unfolding m by auto
  then show "\<exists>main. extractMainNodes d = [main] \<and> he_children main \<noteq> []" using main e(3) by auto
qed

text \<open>
  A document the schema accepts is serialized without an error, and its markup reads back as
  the document.
\<close>

lemma accepted_serializes:
  assumes "htmlDocumentSchema lib datetime raw = Some d"
  shows "\<exists>parts. serializeDocumentParts collate lib d = Inr parts
    \<and> tokenize (sd_bodyHtml parts) = Some (nodes_tokens collate lib (hh_lang (hd_head d)) (body_elements d))"
proof -
  let ?es = "elements_of_list (body_elements d) None"
  have "distinct (rev (element_ids ?es) @ [])" using accepted_elements(2) [OF assms] by simp
  then obtain s where s: "serializeNodes collate lib (hh_lang (hd_head d)) (body_elements d) [] = Inr (s, rev (element_ids ?es))"
    using clean_serializes(2) [OF accepted_elements(1) [OF assms], of "[]" collate "hh_lang (hd_head d)"] by auto
  have "tokenize s = Some (nodes_tokens collate lib (hh_lang (hd_head d)) (body_elements d))"
    using tokenize_nodes(2) [OF s accepted_elements(3) [OF assms], of "[]"] by (simp add: tokenize.simps [of "[]"])
  with s accepted_elements(4) [OF assms] show ?thesis
    by (auto simp: serializeDocumentParts_def body_elements_def)
qed

subsection \<open>An example\<close>

definition plain :: "string \<Rightarrow> html_node list \<Rightarrow> html_node" where
  "plain tag children = HElement GenericElement None tag no_attributes [] None None [] children"

definition demo_document :: html_document where
  "demo_document = \<lparr>hd_schemaVersion = ''1.0'',
     hd_metadata = \<lparr>hm_publicationId = ''p'', hm_publicationType = ''cta-guide'', hm_title = ''T'',
       hm_description = None, hm_language = ''en'', hm_generatedAt = ''2024-01-01T00:00:00Z'',
       hm_sourceVersionId = ''v'', hm_sourceContentHash = ''h'', hm_audience = ''general'',
       hm_theme = ''classic'', hm_styleTokens = [\<lparr>st_category = ''spacing'', st_value = ''none''\<rparr>],
       hm_assetReferences = []\<rparr>,
     hd_theme = ''classic'',
     hd_head = \<lparr>hh_title = ''T'', hh_lang = ''en'', hh_metadata = [], hh_styleTokens = []\<rparr>,
     hd_skipNavigationTargetId = ''m'',
     hd_sections = [\<lparr>hx_id = ''root'', hx_title = ''T'', hx_role = ''content'', hx_styleTokens = [],
       hx_elements = [plain ''article''
         [plain ''header'' [HElement (HeadingElement 1) None ''h1'' no_attributes [] None None [] [HText ''T'']],
          HElement GenericElement (Some ''m'') ''main'' no_attributes [] None None [] [plain ''p'' [HText ''a<b'']]]]\<rparr>],
     hd_landmarks = map (\<lambda>role. \<lparr>hl_role = role, hl_sectionId = ''root'', hl_label = None\<rparr>)
       [''banner'', ''main'', ''contentinfo'']\<rparr>"

lemma demo_document_accepted: "htmlDocumentSchema demo_library (\<lambda>s. True) demo_document = Some demo_document"
  by code_simp

end
