(* ===== verification/Fingerprint.thy ===== *)
theory Fingerprint
  imports Prelude "HOL-Library.Multiset"
begin

text \<open>
  Request fingerprints (\<open>src/platform/security/fingerprinting/index.ts\<close> and
  \<open>src/application/publish-jobs/request-fingerprint.ts\<close>).  A request is put into a
  canonical JSON text whose object keys are sorted, and the text is hashed.  The collation
  behind \<open>localeCompare\<close> is a library's: the parameter \<open>collate\<close> gives the sort key it
  compares.  The digest is the parameter \<open>sha256\<close>.
\<close>

subsection \<open>JSON values and their text\<close>

datatype json =
    JNull
  | JBool bool
  | JNum int
  | JStr string
  | JArr "json list"
  | JObj "(string \<times> json) list"

definition hex_digit :: "nat \<Rightarrow> char" where
  "hex_digit n = ''0123456789abcdef'' ! (n mod 16)"

text \<open>How \<open>JSON.stringify\<close> writes one character of a string.\<close>

definition escape_char :: "char \<Rightarrow> string" where
  "escape_char c =
     (let n = of_char c :: nat in
      if n = 34 then [CHR 0x5C, CHR 0x22]
      else if n = 92 then [CHR 0x5C, CHR 0x5C]
      else if n = 8 then [CHR 0x5C, CHR ''b'']
      else if n = 12 then [CHR 0x5C, CHR ''f'']
      else if n = 10 then [CHR 0x5C, CHR ''n'']
      else if n = 13 then [CHR 0x5C, CHR ''r'']
      else if n = 9 then [CHR 0x5C, CHR ''t'']
      else if n < 32 then [CHR 0x5C, CHR ''u'', CHR ''0'', CHR ''0'', hex_digit (n div 16), hex_digit n]
      else [c])"

definition stringify_string :: "string \<Rightarrow> string" where
  "stringify_string s = CHR 0x22 # concat (map escape_char s) @ [CHR 0x22]"

fun digits_of :: "nat \<Rightarrow> string" where
  "digits_of n = (if n < 10 then [hex_digit n] else digits_of (n div 10) @ [hex_digit (n mod 10)])"

declare digits_of.simps [simp del]

definition stringify_int :: "int \<Rightarrow> string" where
  "stringify_int i = (if i < 0 then CHR ''-'' # digits_of (nat (- i)) else digits_of (nat i))"

fun join :: "string \<Rightarrow> string list \<Rightarrow> string" where
  "join sep [] = []"
| "join sep [x] = x"
| "join sep (x # y # xs) = x @ sep @ join sep (y # xs)"

fun canonicalize :: "(string \<Rightarrow> 'k::linorder) \<Rightarrow> json \<Rightarrow> string" where
  "canonicalize collate JNull = ''null''"
| "canonicalize collate (JArr items) = ''['' @ join '','' (map (canonicalize collate) items) @ '']''"
| "canonicalize collate (JObj entries) =
     ''{'' @ join '','' (map (\<lambda>(key, text). stringify_string key @ '':'' @ text)
              (sort_key (collate \<circ> fst)
                (map (\<lambda>(key, item). (key, canonicalize collate item)) entries))) @ ''}''"
| "canonicalize collate (JBool b) = (if b then ''true'' else ''false'')"
| "canonicalize collate (JNum n) = stringify_int n"
| "canonicalize collate (JStr s) = stringify_string s"

subsection \<open>Content-job requests\<close>

record fingerprint_input =
  fi_tenantId :: string
  fi_projectId :: string
  fi_sourceVersionId :: string
  fi_jobType :: string
  fi_requestSchemaVersion :: string

definition fingerprint_json :: "fingerprint_input \<Rightarrow> json" where
  "fingerprint_json i = JObj
     [(''tenantId'', JStr (fi_tenantId i)),
      (''projectId'', JStr (fi_projectId i)),
      (''sourceVersionId'', JStr (fi_sourceVersionId i)),
      (''jobType'', JStr (fi_jobType i)),
      (''requestSchemaVersion'', JStr (fi_requestSchemaVersion i))]"

definition computeRequestFingerprint ::
  "(string \<Rightarrow> string) \<Rightarrow> (string \<Rightarrow> 'k::linorder) \<Rightarrow> fingerprint_input \<Rightarrow> string" where
  "computeRequestFingerprint sha256 collate i = sha256 (canonicalize collate (fingerprint_json i))"

subsection \<open>Publish-job requests\<close>

text \<open>
  The optional properties of the render options and of the publication metadata: absent
  ones are not among the entries of the object.
\<close>

record render_options =
  ro_densityId :: "string option"
  ro_layoutId :: "string option"
  ro_includeToc :: "bool option"

record publication_metadata =
  pm_publicationId :: "string option"
  pm_title :: "string option"
  pm_language :: "string option"
  pm_theme :: "string option"
  pm_audience :: "string option"

definition present :: "string \<Rightarrow> ('a \<Rightarrow> json) \<Rightarrow> 'a option \<Rightarrow> (string \<times> json) list" where
  "present key f v = (case v of None \<Rightarrow> [] | Some x \<Rightarrow> [(key, f x)])"

definition render_options_json :: "render_options \<Rightarrow> json" where
  "render_options_json o' = JObj
     (present ''densityId'' JStr (ro_densityId o') @ present ''layoutId'' JStr (ro_layoutId o')
      @ present ''includeToc'' JBool (ro_includeToc o'))"

definition publication_metadata_json :: "publication_metadata \<Rightarrow> json" where
  "publication_metadata_json m = JObj
     (present ''publicationId'' JStr (pm_publicationId m) @ present ''title'' JStr (pm_title m)
      @ present ''language'' JStr (pm_language m) @ present ''theme'' JStr (pm_theme m)
      @ present ''audience'' JStr (pm_audience m))"

definition or_null :: "('a \<Rightarrow> json) \<Rightarrow> 'a option \<Rightarrow> json" where
  "or_null f v = (case v of None \<Rightarrow> JNull | Some x \<Rightarrow> f x)"

record publish_fingerprint_input =
  pf_sourceContentJobId :: string
  pf_sourceRenderArtifactId :: string
  pf_checksumSha256 :: string
  pf_byteSize :: int
  pf_outputFormat :: string
  pf_publishMode :: string
  pf_renderOptions :: "render_options option"
  pf_publicationMetadata :: "publication_metadata option"

definition publish_fingerprint_json :: "publish_fingerprint_input \<Rightarrow> json" where
  "publish_fingerprint_json i = JObj
     [(''sourceContentJobId'', JStr (pf_sourceContentJobId i)),
      (''sourceRenderArtifactId'', JStr (pf_sourceRenderArtifactId i)),
      (''sourceArtifactChecksumSha256'', JStr (pf_checksumSha256 i)),
      (''sourceArtifactByteSize'', JNum (pf_byteSize i)),
      (''outputFormat'', JStr (pf_outputFormat i)),
      (''publishMode'', JStr (pf_publishMode i)),
      (''normalizedRenderOptions'', or_null render_options_json (pf_renderOptions i)),
      (''normalizedPublicationMetadata'',
         or_null publication_metadata_json (pf_publicationMetadata i))]"

definition computePublishJobRequestFingerprint ::
  "(string \<Rightarrow> string) \<Rightarrow> (string \<Rightarrow> 'k::linorder) \<Rightarrow> publish_fingerprint_input \<Rightarrow> string" where
  "computePublishJobRequestFingerprint sha256 collate i =
     sha256 (canonicalize collate (publish_fingerprint_json i))"

definition buildRemoteSubmissionIdempotencyKey :: "string \<Rightarrow> string" where
  "buildRemoteSubmissionIdempotencyKey publishJobId = ''publish::submit:'' @ publishJobId"

subsection \<open>Reading a string literal back\<close>

text \<open>
  \<open>read_body\<close> reads the characters of a string literal up to the closing quote and gives
  the string and what follows.  It undoes \<open>stringify_string\<close>, so a literal is determined
  by its text wherever it stands.
\<close>

definition hex_val :: "char \<Rightarrow> nat" where
  "hex_val c = length (takeWhile (\<lambda>d. d \<noteq> c) ''0123456789abcdef'')"

definition unescape :: "char \<Rightarrow> char" where
  "unescape d =
     (if d = CHR ''b'' then char_of (8::nat) else if d = CHR ''f'' then char_of (12::nat)
      else if d = CHR ''n'' then char_of (10::nat) else if d = CHR ''r'' then char_of (13::nat)
      else if d = CHR ''t'' then char_of (9::nat) else d)"

fun read_body :: "string \<Rightarrow> (string \<times> string) option" where
  "read_body [] = None"
| "read_body (c # cs) =
     (if c = CHR 0x22 then Some ([], cs)
      else if c \<noteq> CHR 0x5C then map_option (apfst (Cons c)) (read_body cs)
      else case cs of
        [] \<Rightarrow> None
      | d # ds \<Rightarrow>
          if d \<noteq> CHR ''u'' then map_option (apfst (Cons (unescape d))) (read_body ds)
          else (case ds of
              x1 # x2 # x3 # x4 # es \<Rightarrow>
                map_option (apfst (Cons (char_of (16 * hex_val x3 + hex_val x4)))) (read_body es)
            | _ \<Rightarrow> None))"

lemma hex_val_digit: "hex_val (hex_digit n) = n mod 16"
proof -
  have "\<forall>m \<in> set [0..<16]. hex_val (''0123456789abcdef'' ! m) = m" by code_simp
  then show ?thesis by (simp add: hex_digit_def)
qed

lemma char_code_eq: "(of_char c :: nat) = n \<Longrightarrow> c = char_of n"
  by auto

lemma read_body_escape: "read_body (escape_char c @ r) = map_option (apfst (Cons c)) (read_body r)"
proof -
  let ?n = "of_char c :: nat"
  have c: "c = char_of ?n" by simp
  have q: "char_of (34::nat) = CHR 0x22" "char_of (92::nat) = CHR 0x5C" by code_simp+
  consider "?n = 34" | "?n = 92" | "?n = 8" | "?n = 12" | "?n = 10" | "?n = 13" | "?n = 9"
    | "?n < 32" "?n \<notin> {8, 9, 10, 12, 13}" | "?n \<ge> 32" "?n \<noteq> 34" "?n \<noteq> 92" by force
  then show ?thesis
  proof cases
    case 8
    have "16 * (?n div 16 mod 16) + ?n mod 16 = ?n" using 8(1) by simp
    with 8 show ?thesis by (simp add: escape_char_def Let_def hex_val_digit)
  next
    case 9
    have "c \<noteq> CHR 0x22" and "c \<noteq> CHR 0x5C" using 9 by auto
    with 9 show ?thesis by (simp add: escape_char_def Let_def)
  qed (use c q in \<open>auto simp: escape_char_def Let_def unescape_def dest!: char_code_eq\<close>)
qed

lemma read_body_string:
  "read_body (concat (map escape_char s) @ CHR 0x22 # r) = Some (s, r)"
  by (induction s) (simp_all add: read_body_escape)

lemma stringify_string_unique:
  "stringify_string s @ r = stringify_string t @ u \<longleftrightarrow> s = t \<and> r = u"
proof
  assume "stringify_string s @ r = stringify_string t @ u"
  then have "concat (map escape_char s) @ CHR 0x22 # r = concat (map escape_char t) @ CHR 0x22 # u"
    by (simp add: stringify_string_def)
  then have "read_body (concat (map escape_char s) @ CHR 0x22 # r)
      = read_body (concat (map escape_char t) @ CHR 0x22 # u)" by simp
  then show "s = t \<and> r = u" by (simp add: read_body_string)
qed simp

subsection \<open>Canonical texts\<close>

text \<open>The order in which the entries of an object are written down does not matter.\<close>

lemma canonicalize_permuted:
  assumes perm: "mset entries = mset entries'"
    and keys: "distinct (map fst entries)"
    and inj: "inj_on collate (set (map fst entries))"
  shows "canonicalize collate (JObj entries) = canonicalize collate (JObj entries')"
proof -
  let ?f = "\<lambda>(key, item). (key, canonicalize collate item)"
  let ?es = "map ?f entries" and ?es' = "map ?f entries'"
  have m: "mset ?es = mset ?es'" using perm by simp
  have d: "inj_on (collate \<circ> fst) (set ?es)"
  proof (rule inj_onI)
    fix x y
    assume x: "x \<in> set ?es" and y: "y \<in> set ?es" and e: "(collate \<circ> fst) x = (collate \<circ> fst) y"
    from x obtain a where a: "a \<in> set entries" "x = ?f a" by auto
    from y obtain b where b: "b \<in> set entries" "y = ?f b" by auto
    from e a b have "collate (fst a) = collate (fst b)" by (simp split: prod.splits)
    then have "fst a = fst b" using inj a(1) b(1) by (simp add: inj_on_def)
    with a b keys have "a = b" by (auto dest: unique_key_eq)
    with a b show "x = y" by simp
  qed
  have "sort_key (collate \<circ> fst) ?es = sort_key (collate \<circ> fst) ?es'"
    by (rule sort_key_inj_key_eq) (use m d in simp_all)
  then show ?thesis by simp
qed

text \<open>
  Two objects with the same keys and string values that have the same text have the same
  values: the sorted keys agree and each value is read off its literal.
\<close>

definition entry_text :: "(string \<Rightarrow> string) \<Rightarrow> string \<Rightarrow> string" where
  "entry_text f k = stringify_string k @ '':'' @ stringify_string (f k)"

lemma entry_text_unique: "entry_text f k @ r = entry_text g k @ u \<longleftrightarrow> f k = g k \<and> r = u"
  unfolding entry_text_def append_assoc same_append_eq stringify_string_unique by simp

lemma entry_text_eq: "entry_text f k = entry_text g k \<longleftrightarrow> f k = g k"
  using entry_text_unique [of f k "[]" g "[]"] by simp

lemma join_entries_unique:
  assumes "join '','' (map (entry_text f) ks) @ ''}'' = join '','' (map (entry_text g) ks) @ ''}''"
  shows "\<forall>k \<in> set ks. f k = g k"
  using assms
proof (induction ks rule: induct_list012)
  case (3 k l ks)
  let ?rest = "\<lambda>h. join '','' (map (entry_text h) (l # ks)) @ ''}''"
  from "3.prems" have "entry_text f k @ '','' @ ?rest f = entry_text g k @ '','' @ ?rest g"
    by simp
  then have "f k = g k" and "?rest f = ?rest g"
    unfolding entry_text_unique by simp_all
  with "3.IH"(2) show ?case by simp
qed (simp_all add: entry_text_eq)

definition fi_lookup :: "fingerprint_input \<Rightarrow> string \<Rightarrow> string" where
  "fi_lookup i key =
     (if key = ''tenantId'' then fi_tenantId i else if key = ''projectId'' then fi_projectId i
      else if key = ''sourceVersionId'' then fi_sourceVersionId i
      else if key = ''jobType'' then fi_jobType i else fi_requestSchemaVersion i)"

abbreviation fi_keys :: "string list" where
  "fi_keys \<equiv> [''tenantId'', ''projectId'', ''sourceVersionId'', ''jobType'', ''requestSchemaVersion'']"

lemma sort_key_map: "sort_key (f \<circ> g) xs = ys \<Longrightarrow> map g ys = sort_key f (map g xs)"
proof -
  have "map g (insort_key (f \<circ> g) x xs) = insort_key f (g x) (map g xs)" for x xs
    by (induction xs) auto
  then have "map g (sort_key (f \<circ> g) xs) = sort_key f (map g xs)"
    by (induction xs) (auto simp: sort_key_def foldr_map)
  then show "sort_key (f \<circ> g) xs = ys \<Longrightarrow> map g ys = sort_key f (map g xs)" by auto
qed

lemma canonicalize_fingerprint:
  "canonicalize collate (fingerprint_json i) = ''{'' @
     join '','' (map (entry_text (fi_lookup i)) (sort_key collate fi_keys)) @ ''}''"
proof -
  let ?g = "\<lambda>k. (k, stringify_string (fi_lookup i k))"
  have "map (\<lambda>(key, item). (key, canonicalize collate item))
      [(''tenantId'', JStr (fi_tenantId i)), (''projectId'', JStr (fi_projectId i)),
       (''sourceVersionId'', JStr (fi_sourceVersionId i)), (''jobType'', JStr (fi_jobType i)),
       (''requestSchemaVersion'', JStr (fi_requestSchemaVersion i))] = map ?g fi_keys"
    by (simp add: fi_lookup_def)
  moreover have "sort_key (collate \<circ> fst) (map ?g fi_keys) = map ?g (sort_key collate fi_keys)"
    using sort_key_map [of "collate \<circ> fst" ?g fi_keys] by (simp add: comp_def)
  ultimately show ?thesis
    by (simp add: fingerprint_json_def comp_def entry_text_def [abs_def] del: list.map sort_key_simps)
qed

lemma fingerprint_text_inj:
  assumes "canonicalize collate (fingerprint_json i) = canonicalize collate (fingerprint_json j)"
  shows "i = j"
proof -
  from assms have "\<forall>k \<in> set (sort_key collate fi_keys). fi_lookup i k = fi_lookup j k"
    by (intro join_entries_unique) (simp add: canonicalize_fingerprint)
  then have "\<forall>k \<in> set fi_keys. fi_lookup i k = fi_lookup j k" unfolding set_sort .
  then show ?thesis by (auto simp: fi_lookup_def intro!: fingerprint_input.equality)
qed

subsection \<open>The properties\<close>

text \<open>
  C14: The fingerprint identifies the request.  Two content-job requests have one
  fingerprint exactly when they agree in tenant, project, source version, job type and
  schema version, whatever characters these contain and whatever collation orders the keys,
  unless the hash maps their two texts to one digest.
\<close>

theorem fingerprint_identifies_request:
  assumes "inj_on sha256 {canonicalize collate (fingerprint_json i), canonicalize collate (fingerprint_json j)}"
  shows "computeRequestFingerprint sha256 collate i = computeRequestFingerprint sha256 collate j \<longleftrightarrow> i = j"
  using assms fingerprint_text_inj [of collate i j]
  by (auto simp: computeRequestFingerprint_def inj_on_def)

lemma fingerprint_identifies_request_witness:
  "computeRequestFingerprint (\<lambda>s. s) (\<lambda>s. length s)
     \<lparr>fi_tenantId = ''a'', fi_projectId = ''b'', fi_sourceVersionId = ''c'', fi_jobType = ''d'',
      fi_requestSchemaVersion = ''e''\<rparr>
   \<noteq> computeRequestFingerprint (\<lambda>s. s) (\<lambda>s. length s)
     \<lparr>fi_tenantId = ''a'', fi_projectId = ''b'', fi_sourceVersionId = ''c'', fi_jobType = ''d'',
      fi_requestSchemaVersion = ''f''\<rparr>"
  by (subst fingerprint_identifies_request) (simp_all add: inj_on_def)

end
