(* ===== verification/HtmlComposer.thy ===== *)
theory HtmlComposer
  imports Publications AcceptedHtml Fingerprint "HOL-Library.Sublist"
begin

text \<open>
  The composition of a publication into an HTML document
  (\<open>src/application/publications/html-composer.ts\<close>).  A function that may throw gives a
  \<open>composer_fault\<close> or its value; the children of an element are computations too, run from
  left to right before the element is built.
\<close>

subsection \<open>Errors and computations\<close>

datatype html_error =
    HtmlValidationError string
  | HtmlCompositionError string
  | UnsupportedHtmlElementError string
  | HtmlCancelledError string

text \<open>A \<open>PlainError\<close> is any other thrown value, that of the URL rules in particular.\<close>

datatype composer_fault = HtmlFault html_error | PlainError string

definition url_checked :: "string + 'a \<Rightarrow> composer_fault + 'a" where
  "url_checked r = (case r of Inl m \<Rightarrow> Inl (PlainError m) | Inr x \<Rightarrow> Inr x)"

type_synonym element_result = "composer_fault + html_node"

subsection \<open>Style tokens\<close>

definition single_value_token_categories :: "string list" where
  "single_value_token_categories = map fst style_values"

definition tok :: "string \<Rightarrow> string \<Rightarrow> style_token" where
  "tok category value = \<lparr>st_category = category, st_value = value\<rparr>"

definition theme_tokens :: "string \<Rightarrow> string \<Rightarrow> string \<Rightarrow> string \<Rightarrow> string \<Rightarrow> style_token list" where
  "theme_tokens page font color spacing width =
     [tok ''page-intent'' page, tok ''font-role'' font, tok ''color-intent'' color, tok ''spacing'' spacing,
      tok ''content-width'' width]"

definition theme_token_map :: "string \<Rightarrow> style_token list" where
  "theme_token_map theme' =
     (if theme' = ''classic'' then theme_tokens ''reading'' ''reading'' ''neutral'' ''comfortable'' ''standard''
      else if theme' = ''modern'' then theme_tokens ''reading'' ''display'' ''accent'' ''expanded'' ''wide''
      else if theme' = ''ministry'' then theme_tokens ''study'' ''reading'' ''brand'' ''comfortable'' ''standard''
      else if theme' = ''workbook'' then theme_tokens ''study'' ''default'' ''neutral'' ''expanded'' ''wide''
      else if theme' = ''magazine'' then theme_tokens ''reading'' ''display'' ''emphasis'' ''comfortable'' ''wide''
      else if theme' = ''minimal'' then theme_tokens ''reference'' ''default'' ''neutral'' ''compact'' ''narrow''
      else theme_tokens ''reading'' ''reading'' ''contrast'' ''comfortable'' ''standard'')"

definition css_like :: "string \<Rightarrow> bool" where
  "css_like value = list_ex (\<lambda>w. contains w value)
     [''#'', ''px'', ''rem'', ''rgb('', ''hsl('', ''font-family'', ''var('']"

fun normalize_tokens :: "style_token list \<Rightarrow> style_token list \<Rightarrow> composer_fault + style_token list" where
  "normalize_tokens [] normalized = Inr (rev normalized)"
| "normalize_tokens (t # ts) normalized =
     (if t \<in> set normalized then normalize_tokens ts normalized
      else if st_category t \<in> set (map st_category normalized)
              \<and> st_category t \<in> set single_value_token_categories
      then Inl (HtmlFault (HtmlCompositionError
             (''Conflicting style token values for category '' @ st_category t @ ''.'')))
      else if css_like (lower_case (st_value t))
      then Inl (HtmlFault (HtmlCompositionError ''CSS-like style token values are not allowed.''))
      else normalize_tokens ts (t # normalized))"

definition normalizeTokens :: "style_token list \<Rightarrow> composer_fault + style_token list" where
  "normalizeTokens tokens = normalize_tokens tokens []"

definition mapThemeToDesignTokens :: "string \<Rightarrow> composer_fault + style_token list" where
  "mapThemeToDesignTokens theme' = normalizeTokens (theme_token_map theme')"

subsection \<open>Elements\<close>

definition textNode :: "string \<Rightarrow> element_result" where
  "textNode body = Inr (HText body)"

definition element_of ::
  "element_type \<Rightarrow> string option \<Rightarrow> string \<Rightarrow> string list \<Rightarrow> element_result list \<Rightarrow> string option \<Rightarrow> string option
     \<Rightarrow> html_attributes \<Rightarrow> style_token list \<Rightarrow> element_result" where
  "element_of ty i tag classList children ariaLabel role attrs styleTokens =
     and_then (in_order children) (\<lambda>cs.
     and_then (normalizeTokens styleTokens) (\<lambda>ts.
       Inr (HElement ty i tag attrs classList ariaLabel role ts cs)))"

definition genericElement ::
  "string option \<Rightarrow> string \<Rightarrow> string list \<Rightarrow> element_result list \<Rightarrow> string option \<Rightarrow> string option
     \<Rightarrow> html_attributes \<Rightarrow> style_token list \<Rightarrow> element_result" where
  "genericElement = element_of GenericElement"

text \<open>An element with an identifier and children only.\<close>

definition box :: "string \<Rightarrow> string \<Rightarrow> element_result list \<Rightarrow> element_result" where
  "box i tag children = genericElement (Some i) tag [] children None None no_attributes []"

definition headingElement :: "string \<Rightarrow> nat \<Rightarrow> string \<Rightarrow> string \<Rightarrow> element_result" where
  "headingElement i level body headingIntent =
     element_of (HeadingElement level) (Some i) (''h'' @ digits_of level) [''section-title''] [textNode body]
       None None no_attributes
       [tok ''typography'' (if level \<le> 2 then ''heading'' else ''body''), tok ''heading-intent'' headingIntent]"

definition list_tag :: "bool \<Rightarrow> string" where
  "list_tag ordered = (if ordered then ''ol'' else ''ul'')"

definition listContainer :: "string \<Rightarrow> bool \<Rightarrow> element_result list \<Rightarrow> string list \<Rightarrow> element_result" where
  "listContainer i ordered items classList =
     element_of (ListElement ordered) (Some i) (list_tag ordered) classList items None None no_attributes
       [tok ''spacing'' ''comfortable'']"

definition listElement :: "string \<Rightarrow> bool \<Rightarrow> string list \<Rightarrow> element_result" where
  "listElement i ordered items =
     listContainer i ordered
       (numbered (\<lambda>n item. box (i @ ''-item-'' @ digits_of n) ''li'' [textNode item]) items) [''list'']"

definition tableElement :: "string \<Rightarrow> string list \<Rightarrow> string list list \<Rightarrow> element_result" where
  "tableElement i headers rows =
     (let headerRow = box (i @ ''-thead-row'') ''tr''
            (numbered (\<lambda>n header. genericElement (Some (i @ ''-th-'' @ digits_of n)) ''th'' [] [textNode header] None None
               (no_attributes\<lparr>ha_scope := Some ''col''\<rparr>) []) headers);
          bodyRows = numbered (\<lambda>r row. box (i @ ''-row-'' @ digits_of r) ''tr''
            (numbered (\<lambda>c cell. box (i @ ''-row-'' @ digits_of r @ ''-cell-'' @ digits_of c) ''td'' [textNode cell]) row)) rows
      in element_of (TableElement headers rows) (Some i) ''table'' [''table'']
           [box (i @ ''-thead'') ''thead'' [headerRow], box (i @ ''-tbody'') ''tbody'' bodyRows]
           None None no_attributes [tok ''spacing'' ''compact'', tok ''content-width'' ''wide''])"

definition imageElement ::
  "url_library \<Rightarrow> string \<Rightarrow> string \<Rightarrow> string \<Rightarrow> string \<Rightarrow> string option \<Rightarrow> element_result" where
  "imageElement lib blockId assetId src alt caption =
     and_then (url_checked (assertSafeAssetUrl lib src asset_schemes)) (\<lambda>safe.
       element_of (ImageElement assetId src alt caption) (Some blockId) ''figure'' [''content-block'']
         (genericElement (Some (blockId @ ''-img'')) ''img'' [] [] None None
            (no_attributes\<lparr>ha_src := Some safe, ha_alt := Some alt, ha_loading := Some ''lazy'',
               ha_decoding := Some ''async'', ha_referrerpolicy := Some ''strict-origin-when-cross-origin''\<rparr>) []
          # (case caption of None \<Rightarrow> [] | Some c \<Rightarrow> [box (blockId @ ''-caption'') ''figcaption'' [textNode c]]))
         caption None no_attributes [tok ''image-alignment'' ''center''])"

definition calloutElement ::
  "string \<Rightarrow> string \<Rightarrow> string \<Rightarrow> string option \<Rightarrow> string \<Rightarrow> element_result" where
  "calloutElement i calloutType publicationBlockType title body =
     element_of (CalloutElement calloutType) (Some i) ''aside'' [''callout'', ''content-block'']
       ((case title of
           None \<Rightarrow> []
         | Some t \<Rightarrow> if t = [] then [] else [headingElement (i @ ''-title'') 3 t ''subsection-title''])
        @ [box (i @ ''-body'') ''p'' [textNode body]])
       title (Some ''note'') (no_attributes\<lparr>ha_dataPublicationBlock := Some publicationBlockType\<rparr>)
       [tok ''callout-type'' calloutType, tok ''border-intent'' ''subtle'', tok ''radius'' ''soft'']"

definition toSubHeadingLevel :: "nat \<Rightarrow> nat" where
  "toSubHeadingLevel level = (if level = 1 then 3 else if level = 2 then 3 else 4)"

definition caption_tokens :: "style_token list" where
  "caption_tokens = [tok ''typography'' ''caption'']"

definition citationLink :: "url_library \<Rightarrow> string \<Rightarrow> element_result" where
  "citationLink lib i =
     and_then (url_checked (assertSafeInternalHref lib (''#appendix-citation-'' @ i))) (\<lambda>href.
       genericElement None ''a'' [] [textNode (''['' @ i @ '']'')] None None
         (no_attributes\<lparr>ha_href := Some href, ha_dataCitationId := Some i\<rparr>) caption_tokens)"

definition footnoteLink :: "url_library \<Rightarrow> string \<Rightarrow> element_result" where
  "footnoteLink lib i =
     and_then (url_checked (assertSafeInternalHref lib (''#appendix-footnote-'' @ i))) (\<lambda>href.
       genericElement None ''a'' [] [textNode (''('' @ i @ '')'')] None None
         (no_attributes\<lparr>ha_href := Some href, ha_dataFootnoteId := Some i\<rparr>) caption_tokens)"

fun with_commas :: "element_result list \<Rightarrow> element_result list" where
  "with_commas [] = []"
| "with_commas [x] = [x]"
| "with_commas (x # y # xs) = x # textNode '', '' # with_commas (y # xs)"

definition link_paragraph ::
  "string \<Rightarrow> string \<Rightarrow> (string \<Rightarrow> element_result) \<Rightarrow> string list option \<Rightarrow> element_result list" where
  "link_paragraph idPrefix heading link ids =
     (case ids of
        None \<Rightarrow> []
      | Some is \<Rightarrow>
          if is = [] then []
          else [genericElement (Some (idPrefix @ join ''-'' is)) ''p'' []
                  (textNode heading # with_commas (map link is)) None None no_attributes caption_tokens])"

definition appendReferenceLinks ::
  "url_library \<Rightarrow> string list option \<Rightarrow> string list option \<Rightarrow> element_result list" where
  "appendReferenceLinks lib citationIds footnoteIds =
     link_paragraph ''citations-'' ''Citations: '' (citationLink lib) citationIds
     @ link_paragraph ''footnotes-'' ''Footnotes: '' (footnoteLink lib) footnoteIds"

subsection \<open>Blocks\<close>

text \<open>The kinds of text that become a call-out, each with its name and its title.\<close>

fun callout_of :: "text_kind \<Rightarrow> (string \<times> string option) option" where
  "callout_of Reflection = Some (''reflection'', None)"
| "callout_of Prayer = Some (''prayer'', None)"
| "callout_of JournalPrompt = Some (''journal-prompt'', Some ''Journal Prompt'')"
| "callout_of KeyTakeaway = Some (''key-takeaway'', None)"
| "callout_of Warning = Some (''warning'', None)"
| "callout_of Highlight = Some (''highlight'', None)"
| "callout_of Paragraph = None"
| "callout_of Quote = None"

fun composeTextBlock ::
  "url_library \<Rightarrow> text_kind \<Rightarrow> string \<Rightarrow> string \<Rightarrow> string option \<Rightarrow> element_result list" where
  "composeTextBlock lib Paragraph i body attribution =
     [genericElement (Some i) ''p'' [''content-block''] [textNode body] None None no_attributes
        [tok ''typography'' ''body'']]"
| "composeTextBlock lib Quote i body attribution =
     genericElement (Some i) ''blockquote'' [''content-block''] [textNode body] None None no_attributes []
     # (case attribution of
          None \<Rightarrow> []
        | Some a \<Rightarrow>
            if a = [] then []
            else [genericElement (Some (i @ ''-attribution'')) ''p'' [] [textNode a] None None no_attributes caption_tokens])"
| "composeTextBlock lib kind i body attribution =
     (case callout_of kind of
        Some (name, title) \<Rightarrow> [calloutElement i name name title body] | None \<Rightarrow> [])"

fun composeBlock :: "url_library \<Rightarrow> publication \<Rightarrow> publication_block \<Rightarrow> element_result list" where
  "composeBlock lib p (HeadingBlock i level body cs fs) =
     [headingElement i (toSubHeadingLevel level) body ''subsection-title'']"
| "composeBlock lib p (TextBlock i kind body attribution cs fs) =
     composeTextBlock lib kind i body attribution @ appendReferenceLinks lib cs fs"
| "composeBlock lib p (CallToActionBlock i title description action cs fs) =
     calloutElement i ''call-to-action'' ''call-to-action'' (Some title) (description @ '' '' @ action)
     # appendReferenceLinks lib cs fs"
| "composeBlock lib p (ScriptureBlock i references body cs fs) =
     calloutElement i ''note'' ''scripture'' (Some (join ''; '' references)) body # appendReferenceLinks lib cs fs"
| "composeBlock lib p (ListBlock i kind items cs fs) =
     listElement i (kind = NumberedList) items # appendReferenceLinks lib cs fs"
| "composeBlock lib p (SidebarBlock i title body) =
     [calloutElement i ''sidebar'' ''sidebar'' (Some title) body]"
| "composeBlock lib p (ImageBlock i assetId caption) =
     (case List.find (\<lambda>a. pa_id a = assetId) (pu_assets p) of
        None \<Rightarrow> [Inl (HtmlFault (HtmlValidationError ''Image block references unknown asset.''))]
      | Some asset \<Rightarrow>
          [imageElement lib i (pa_id asset) (pa_uri asset)
             (case pa_altText asset of Some alt \<Rightarrow> alt | None \<Rightarrow> ''Image description pending.'') caption])"
| "composeBlock lib p (TableBlock i headers rows) = [tableElement i headers rows]"
| "composeBlock lib p (DividerBlock i) =
     [genericElement (Some i) ''hr'' [''content-block''] [] None None no_attributes []]"

subsection \<open>The table of contents\<close>

function toc_cyclic :: "toc_entry list \<Rightarrow> string list \<Rightarrow> toc_entry \<Rightarrow> bool" where
  "toc_cyclic entries seen cursor =
     (case te_parentId cursor of
        None \<Rightarrow> False
      | Some parentId \<Rightarrow>
          (case List.find (\<lambda>e. te_id e = parentId) entries of
             None \<Rightarrow> False
           | Some parent \<Rightarrow>
               if te_id parent \<in> set seen then True else toc_cyclic entries (te_id parent # seen) parent))"
  by pat_completeness auto
termination
proof (relation "measure (\<lambda>(entries, seen, cursor). length (filter (\<lambda>e. te_id e \<notin> set seen) entries))")
  fix entries :: "toc_entry list" and seen cursor parentId parent
  assume p: "List.find (\<lambda>e. te_id e = parentId) entries = Some parent" "te_id parent \<notin> set seen"
  then have "parent \<in> set entries" by (auto simp: find_Some_iff)
  then have "length (filter (\<lambda>e. te_id e \<notin> set (te_id parent # seen)) entries)
      < length (filter (\<lambda>e. te_id e \<notin> set seen) entries)"
    using p(2)
  proof (induction entries)
    case (Cons e es)
    have "length (filter (\<lambda>e. te_id e \<notin> set (te_id parent # seen)) es) \<le> length (filter (\<lambda>e. te_id e \<notin> set seen) es)"
      by (induction es) auto
    with Cons show ?case by (cases "parent = e") auto
  qed simp
  then show "((entries, te_id parent # seen, parent), entries, seen, cursor)
      \<in> measure (\<lambda>(entries, seen, cursor). length (filter (\<lambda>e. te_id e \<notin> set seen) entries))" by simp
qed simp

fun check_toc_entries :: "toc_entry list \<Rightarrow> toc_entry list \<Rightarrow> composer_fault + unit" where
  "check_toc_entries all [] = Inr ()"
| "check_toc_entries all (e # es) =
     (if te_parentId e \<noteq> None \<and> the (te_parentId e) \<notin> set (map te_id all)
      then Inl (HtmlFault (HtmlValidationError ''TOC contains orphan entries.''))
      else if toc_cyclic all [te_id e] e
      then Inl (HtmlFault (HtmlValidationError ''TOC contains cyclic parent relationships.''))
      else check_toc_entries all es)"

definition validateTocEntries :: "toc_entry list \<Rightarrow> composer_fault + toc_entry list" where
  "validateTocEntries entries =
     (let filtered = filter (\<lambda>e. \<not> is_front_matter (te_targetId e)) entries in
      if \<not> distinct (map te_id filtered)
      then Inl (HtmlFault (HtmlValidationError ''TOC contains duplicate entry IDs.''))
      else and_then (check_toc_entries filtered filtered) (\<lambda>_. Inr filtered))"

datatype toc_tree = TocNode (toc_entry: toc_entry) (toc_children: "toc_tree list")

text \<open>
  The tree below an entry, in the order of the entries.  An entry is left out below itself: the
  entries are acyclic when the tree is built.
\<close>

function toc_forest :: "toc_entry list \<Rightarrow> string option \<Rightarrow> toc_tree list" where
  "toc_forest entries parent =
     map (\<lambda>e. TocNode e (toc_forest (filter (\<lambda>x. te_id x \<noteq> te_id e) entries) (Some (te_id e))))
       (filter (\<lambda>e. te_parentId e = parent) entries)"
  by pat_completeness auto
termination
proof (relation "measure (\<lambda>(entries, parent). length entries)")
  fix entries :: "toc_entry list" and parent e
  assume "e \<in> set (filter (\<lambda>e. te_parentId e = parent) entries)"
  then have "length (filter (\<lambda>x. te_id x \<noteq> te_id e) entries) < length entries"
    by (intro length_filter_less [of e]) auto
  then show "((filter (\<lambda>x. te_id x \<noteq> te_id e) entries, Some (te_id e)), entries, parent)
      \<in> measure (\<lambda>(entries, parent). length entries)" by simp
qed simp

declare toc_cyclic.simps [simp del] toc_forest.simps [simp del]

definition buildTocTree :: "toc_entry list \<Rightarrow> composer_fault + toc_tree list" where
  "buildTocTree entries =
     (if \<exists>e \<in> set entries. te_parentId e \<noteq> None \<and> the (te_parentId e) \<notin> set (map te_id entries)
      then Inl (HtmlFault (HtmlValidationError ''TOC tree could not resolve a parent node.''))
      else Inr (toc_forest entries None))"

definition toc_link :: "url_library \<Rightarrow> toc_entry \<Rightarrow> element_result" where
  "toc_link lib e =
     and_then (url_checked (assertSafeInternalHref lib (''#'' @ te_targetId e))) (\<lambda>href.
       genericElement (Some (''toc-link-'' @ te_id e)) ''a'' [] [textNode (te_title e)] None None
         (no_attributes\<lparr>ha_href := Some href\<rparr>) [])"

fun tocNodeToListItem :: "url_library \<Rightarrow> toc_tree \<Rightarrow> element_result"
  and tocNodesToListItems :: "url_library \<Rightarrow> toc_tree list \<Rightarrow> element_result list" where
  "tocNodeToListItem lib (TocNode e children) =
     genericElement (Some (''toc-item-'' @ te_id e)) ''li'' [''toc-item'']
       (toc_link lib e
        # (if children = [] then []
           else [listContainer (''toc-children-'' @ te_id e) True (tocNodesToListItems lib children) [''toc-list'']]))
       None None no_attributes []"
| "tocNodesToListItems lib [] = []"
| "tocNodesToListItems lib (node # nodes) = tocNodeToListItem lib node # tocNodesToListItems lib nodes"

subsection \<open>The parts of the document\<close>

definition appendix :: "string \<Rightarrow> string \<Rightarrow> string \<Rightarrow> element_result list \<Rightarrow> element_result" where
  "appendix i className title items =
     genericElement (Some i) ''section'' [className]
       [headingElement (i @ ''-title'') 2 title ''section-title'',
        box (i @ ''-list-container'') ''section'' [listContainer (i @ ''-list'') True items [''list'']]]
       None None no_attributes []"

definition reference_link :: "url_library \<Rightarrow> publication_reference \<Rightarrow> string \<Rightarrow> element_result" where
  "reference_link lib r url =
     and_then (url_checked (if starts_with ''#'' url then assertSafeInternalHref lib url
                            else assertSafeExternalUrl lib url external_schemes)) (\<lambda>href.
       genericElement (Some (''appendix-reference-link-'' @ pq_id r)) ''a'' [] [textNode ''Open source''] None None
         (no_attributes\<lparr>ha_href := Some href, ha_dataReferenceId := Some (pq_id r), ha_target := Some ''_blank'',
            ha_rel := Some ''noopener noreferrer''\<rparr>) [])"

definition composeReferences :: "url_library \<Rightarrow> publication \<Rightarrow> element_result option" where
  "composeReferences lib p =
     (if pu_references p = [] then None
      else Some (appendix ''appendix-references'' ''references'' ''References''
        (map (\<lambda>r. box (''appendix-reference-'' @ pq_id r) ''li''
            (textNode (pq_label r @ '' - '' @ pq_detail r)
             # (case pq_url r of None \<Rightarrow> [] | Some url \<Rightarrow> [textNode '' - '', reference_link lib r url])))
          (pu_references p))))"

definition composeCitations :: "publication \<Rightarrow> element_result option" where
  "composeCitations p =
     (if pu_citations p = [] then None
      else Some (appendix ''appendix-citations'' ''references'' ''Citations''
        (map (\<lambda>c. box (''appendix-citation-'' @ pi_id c) ''li'' [textNode (pi_label c @ '': '' @ pi_text c)])
          (pu_citations p))))"

definition composeFootnotes :: "publication \<Rightarrow> element_result option" where
  "composeFootnotes p =
     (if pu_footnotes p = [] then None
      else Some (appendix ''appendix-footnotes'' ''footnotes'' ''Footnotes''
        (map (\<lambda>f. box (''appendix-footnote-'' @ po_id f) ''li'' [textNode (po_marker f @ ''. '' @ po_text f)])
          (pu_footnotes p))))"

definition mapped_block :: "url_library \<Rightarrow> publication \<Rightarrow> publication_block \<Rightarrow> element_result list" where
  "mapped_block lib p block =
     (let mapped = composeBlock lib p block in
      if mapped = []
      then [Inl (HtmlFault (HtmlCompositionError ''Every publication block must produce at least one HTML element.''))]
      else mapped)"

definition composeBodySection :: "url_library \<Rightarrow> publication \<Rightarrow> publication_section \<Rightarrow> element_result" where
  "composeBodySection lib p s =
     genericElement (Some (pn_id s)) ''section'' [''section'']
       (headingElement (pn_id s @ ''-title'') 2 (pn_title s) ''section-title''
        # concat (map (mapped_block lib p) (pn_blocks s)))
       None None no_attributes [tok ''section-intent'' ''content'']"

definition content_sections :: "publication \<Rightarrow> publication_section list" where
  "content_sections p = filter (\<lambda>s. \<not> is_front_matter (pn_id s)) (pu_sections p)"

definition composeMain :: "url_library \<Rightarrow> publication \<Rightarrow> element_result" where
  "composeMain lib p =
     genericElement (Some ''main-content'') ''main'' [''document-main'']
       (map (composeBodySection lib p) (content_sections p)) None None no_attributes []"

definition composeHeader :: "publication \<Rightarrow> element_result" where
  "composeHeader p =
     genericElement (Some ''document-header'') ''header'' [''document-header'']
       [headingElement ''document-title'' 1 (pd_title (pu_metadata p)) ''document-title'',
        box ''document-subtitle'' ''p''
          [textNode (case pd_subtitle (pu_metadata p) of Some s \<Rightarrow> s | None \<Rightarrow> pd_title (pu_metadata p))]]
       None None no_attributes []"

definition composeToc :: "url_library \<Rightarrow> toc_tree list \<Rightarrow> element_result option" where
  "composeToc lib tree =
     (if tree = [] then None
      else Some (genericElement (Some ''table-of-contents'') ''nav'' [''toc'']
        [headingElement ''toc-title'' 2 ''Table of contents'' ''section-title'',
         box ''toc-root-list-container'' ''section''
           [listContainer ''toc-root-list'' True (tocNodesToListItems lib tree) [''toc-list'']]]
        (Some ''Table of contents'') (Some ''navigation'') no_attributes []))"

definition element_if_any :: "element_result option \<Rightarrow> element_result list" where
  "element_if_any r = (case r of None \<Rightarrow> [] | Some x \<Rightarrow> [x])"

definition composeFooter :: "url_library \<Rightarrow> publication \<Rightarrow> element_result" where
  "composeFooter lib p =
     genericElement (Some ''document-footer'') ''footer'' [''document-footer'']
       (element_if_any (composeReferences lib p) @ element_if_any (composeCitations p) @ element_if_any (composeFootnotes p))
       None None no_attributes []"

definition asset_references :: "url_library \<Rightarrow> publication \<Rightarrow> composer_fault + html_asset list" where
  "asset_references lib p =
     in_order (numbered (\<lambda>n a. and_then (url_checked (assertSafeAssetUrl lib (pa_uri a) asset_schemes)) (\<lambda>uri.
         Inr \<lparr>hg_id = ''asset-ref-'' @ digits_of n, hg_assetId = pa_id a, hg_uri = uri,
              hg_mimeType = pa_mimeType a,
              hg_altText = (case pa_altText a of Some alt \<Rightarrow> alt | None \<Rightarrow> ''Image description pending.'')\<rparr>))
       (pu_assets p))"

subsection \<open>The composer\<close>

definition head_metadata :: "pub_metadata \<Rightarrow> (string \<times> string) list" where
  "head_metadata m =
     [(''description'', case pd_subtitle m of Some s \<Rightarrow> s | None \<Rightarrow> pd_title m),
      (''publication-type'', pd_publicationType m), (''audience'', pd_audience m), (''theme'', pd_theme m),
      (''source-version-id'', pd_sourceVersionId m), (''source-content-hash'', pd_sourceContentHash m)]"

definition landmarks_of :: "bool \<Rightarrow> html_landmark list" where
  "landmarks_of hasToc =
     [\<lparr>hl_role = ''banner'', hl_sectionId = ''document-root'', hl_label = Some ''Document header''\<rparr>]
     @ (if hasToc
        then [\<lparr>hl_role = ''navigation'', hl_sectionId = ''document-root'', hl_label = Some ''Table of contents''\<rparr>]
        else [])
     @ [\<lparr>hl_role = ''main'', hl_sectionId = ''document-root'', hl_label = None\<rparr>,
        \<lparr>hl_role = ''contentinfo'', hl_sectionId = ''document-root'', hl_label = None\<rparr>]"

definition document_of ::
  "publication \<Rightarrow> style_token list \<Rightarrow> html_asset list \<Rightarrow> bool \<Rightarrow> style_token list \<Rightarrow> html_node \<Rightarrow> html_document" where
  "document_of p styleTokens assetReferences hasToc sectionTokens article =
     (let m = pu_metadata p in
      \<lparr>hd_schemaVersion = ''1.0'',
       hd_metadata = \<lparr>hm_publicationId = pd_publicationId m, hm_publicationType = pd_publicationType m,
         hm_title = pd_title m, hm_description = pd_subtitle m, hm_language = pu_language p,
         hm_generatedAt = pd_generatedAt m, hm_sourceVersionId = pd_sourceVersionId m,
         hm_sourceContentHash = pd_sourceContentHash m, hm_audience = pd_audience m, hm_theme = pd_theme m,
         hm_styleTokens = styleTokens, hm_assetReferences = assetReferences\<rparr>,
       hd_theme = pd_theme m,
       hd_head = \<lparr>hh_title = pd_title m, hh_lang = pu_language p, hh_metadata = head_metadata m,
         hh_styleTokens = styleTokens\<rparr>,
       hd_skipNavigationTargetId = ''main-content'',
       hd_sections = [\<lparr>hx_id = ''document-root'', hx_title = pd_title m, hx_role = ''content'',
         hx_styleTokens = sectionTokens, hx_elements = [article]\<rparr>],
       hd_landmarks = landmarks_of hasToc\<rparr>)"

definition cancelled :: html_error where
  "cancelled = HtmlCancelledError ''HTML composition was cancelled.''"

text \<open>The body of the \<open>try\<close>; the signal is looked at a second time after the main part.\<close>

definition compose_body ::
  "url_library \<Rightarrow> (string \<Rightarrow> bool) \<Rightarrow> (string \<Rightarrow> bool) \<Rightarrow> bool \<Rightarrow> publication \<Rightarrow> composer_fault + html_document" where
  "compose_body lib datetime isUrl abortedLater publicationInput =
     (case publicationSchema datetime isUrl publicationInput of
        None \<Rightarrow> Inl (PlainError ''ZodError'')
      | Some p \<Rightarrow>
          and_then (mapThemeToDesignTokens (pd_theme (pu_metadata p))) (\<lambda>styleTokens.
          and_then (asset_references lib p) (\<lambda>assetReferences.
          and_then (validateTocEntries (pu_toc p)) (\<lambda>tocEntries.
          and_then (buildTocTree tocEntries) (\<lambda>tocTree.
          and_then (composeHeader p) (\<lambda>header.
          and_then (in_order (element_if_any (composeToc lib tocTree))) (\<lambda>tocNav.
          and_then (composeMain lib p) (\<lambda>main.
            if abortedLater then Inl (HtmlFault cancelled)
            else and_then (composeFooter lib p) (\<lambda>footer.
              and_then (genericElement (Some ''document-article'') ''article'' [''document'']
                  (map Inr ([header] @ tocNav @ [main, footer])) None None no_attributes []) (\<lambda>article.
              and_then (normalizeTokens [tok ''section-intent'' ''content'']) (\<lambda>sectionTokens.
                case htmlDocumentSchema lib datetime
                       (document_of p styleTokens assetReferences (tocTree \<noteq> []) sectionTokens article) of
                  None \<Rightarrow> Inl (HtmlFault (HtmlValidationError ''HTML document failed validation.''))
                | Some d \<Rightarrow> Inr d)))))))))))"

definition html_compose ::
  "url_library \<Rightarrow> (string \<Rightarrow> bool) \<Rightarrow> (string \<Rightarrow> bool) \<Rightarrow> bool \<Rightarrow> bool \<Rightarrow> publication \<Rightarrow> html_error + html_document" where
  "html_compose lib datetime isUrl aborted abortedLater publicationInput =
     (if aborted then Inl cancelled
      else case compose_body lib datetime isUrl abortedLater publicationInput of
          Inr d \<Rightarrow> Inr d
        | Inl (HtmlFault e) \<Rightarrow> Inl e
        | Inl (PlainError m) \<Rightarrow>
            if abortedLater then Inl cancelled else Inl (HtmlValidationError ''HTML document failed validation.''))"

subsection \<open>Composed documents\<close>

lemma composed_parts:
  assumes "html_compose lib datetime isUrl aborted abortedLater input = Inr d"
  obtains p styleTokens assetReferences hasToc sectionTokens article header tocNav main footer where
    "publicationSchema datetime isUrl input = Some p"
    "composeMain lib p = Inr main"
    "genericElement (Some ''document-article'') ''article'' [''document'']
       (map Inr ([header] @ tocNav @ [main, footer])) None None no_attributes [] = Inr article"
    "htmlDocumentSchema lib datetime (document_of p styleTokens assetReferences hasToc sectionTokens article) = Some d"
proof -
  have "compose_body lib datetime isUrl abortedLater input = Inr d"
    using assms by (auto simp: html_compose_def split: if_splits sum.splits composer_fault.splits)
  then show ?thesis using that
    by (auto simp: compose_body_def split: if_splits option.splits)
qed

text \<open>
  C27: What the composer gives can be rendered: a composed document is serialized without an error,
  and its markup reads back as the document.
\<close>

theorem composed_document_serializes:
  assumes "html_compose lib datetime isUrl aborted abortedLater input = Inr d"
  shows "\<exists>parts. serializeDocumentParts collate lib d = Inr parts
    \<and> tokenize (sd_bodyHtml parts) = Some (nodes_tokens collate lib (hh_lang (hd_head d)) (body_elements d))"
  by (rule composed_parts [OF assms]) (rule accepted_serializes)

subsection \<open>No text is lost\<close>

fun node_texts :: "html_node \<Rightarrow> string list" and nodes_texts :: "html_node list \<Rightarrow> string list" where
  "node_texts (HText body) = [body]"
| "node_texts (HElement ty i tag attrs cls al role sts children) = nodes_texts children"
| "nodes_texts [] = []"
| "nodes_texts (node # nodes) = node_texts node @ nodes_texts nodes"

fun block_texts :: "publication_block \<Rightarrow> string list" where
  "block_texts (HeadingBlock i level body cs fs) = [body]"
| "block_texts (TextBlock i kind body attribution cs fs) =
     body # (if kind = Quote then (case attribution of Some a \<Rightarrow> if a = [] then [] else [a] | None \<Rightarrow> []) else [])"
| "block_texts (CallToActionBlock i title description action cs fs) =
     (if title = [] then [] else [title]) @ [description @ '' '' @ action]"
| "block_texts (ScriptureBlock i references body cs fs) =
     (if join ''; '' references = [] then [] else [join ''; '' references]) @ [body]"
| "block_texts (ListBlock i kind items cs fs) = items"
| "block_texts (SidebarBlock i title body) = (if title = [] then [] else [title]) @ [body]"
| "block_texts (ImageBlock i assetId caption) = (case caption of Some c \<Rightarrow> [c] | None \<Rightarrow> [])"
| "block_texts (TableBlock i headers rows) = headers @ concat rows"
| "block_texts (DividerBlock i) = []"

definition publication_texts :: "publication \<Rightarrow> string list" where
  "publication_texts p =
     concat (map (\<lambda>s. pn_title s # concat (map block_texts (pn_blocks s))) (content_sections p))"

text \<open>What an element says, and what a list of computations says, when they succeed.\<close>

definition says :: "element_result \<Rightarrow> string list \<Rightarrow> bool" where
  "says r ts \<longleftrightarrow> (\<forall>node. r = Inr node \<longrightarrow> subseq ts (node_texts node))"

definition all_say :: "element_result list \<Rightarrow> string list \<Rightarrow> bool" where
  "all_say rs ts \<longleftrightarrow> (\<forall>nodes. in_order rs = Inr nodes \<longrightarrow> subseq ts (nodes_texts nodes))"

lemma nodes_texts_append [simp]: "nodes_texts (xs @ ys) = nodes_texts xs @ nodes_texts ys"
  by (induction xs) auto

lemma says_nothing [intro, simp]: "says r []" "all_say rs []"
  by (simp_all add: says_def all_say_def)

lemma says_text [intro, simp]: "says (textNode t) [t]"
  by (simp add: says_def textNode_def)

lemma says_element [intro]: "all_say children ts \<Longrightarrow> says (element_of ty i tag cls children al role attrs sts) ts"
  by (auto simp: says_def all_say_def element_of_def)

lemma says_generic [intro]: "all_say children ts \<Longrightarrow> says (genericElement i tag cls children al role attrs sts) ts"
  by (auto simp: genericElement_def)

lemma says_box [intro]: "all_say children ts \<Longrightarrow> says (box i tag children) ts"
  by (auto simp: box_def)

lemma all_say_Cons: "says r ts \<Longrightarrow> all_say rs us \<Longrightarrow> all_say (r # rs) (ts @ us)"
  by (auto simp: says_def all_say_def intro: list_emb_append_mono)

lemma all_say_one [intro]: "says r ts \<Longrightarrow> all_say [r] ts"
  using all_say_Cons [of r ts "[]" "[]"] by simp

lemma all_say_append:
  assumes "all_say rs ts" and "all_say rs' us"
  shows "all_say (rs @ rs') (ts @ us)"
proof -
  have "\<exists>xs ys. in_order rs = Inr xs \<and> in_order rs' = Inr ys \<and> nodes = xs @ ys" if "in_order (rs @ rs') = Inr nodes" for nodes
    using that by (induction rs arbitrary: nodes) fastforce+
  then show ?thesis using assms unfolding all_say_def by (metis list_emb_append_mono nodes_texts_append)
qed

lemma all_say_map: "(\<And>x. x \<in> set xs \<Longrightarrow> says (f x) (g x)) \<Longrightarrow> all_say (map f xs) (concat (map g xs))"
  by (induction xs) (auto intro: all_say_Cons)

lemma all_say_concat: "(\<And>x. x \<in> set xs \<Longrightarrow> all_say (f x) (g x)) \<Longrightarrow> all_say (concat (map f xs)) (concat (map g xs))"
  by (induction xs) (auto intro: all_say_append)

lemma all_say_numbered: "(\<And>n x. x \<in> set xs \<Longrightarrow> says (f n x) (g x)) \<Longrightarrow> all_say (numbered f xs) (concat (map g xs))"
proof -
  assume a: "\<And>n x. x \<in> set xs \<Longrightarrow> says (f n x) (g x)"
  have "all_say (map (\<lambda>(index, x). f (index + 1) x) (List.enumerate k ys)) (concat (map g ys))"
    if "set ys \<subseteq> set xs" for k ys
    using that by (induction ys arbitrary: k) (auto intro!: all_say_Cons a)
  then show ?thesis by (simp add: numbered_def)
qed

lemma concat_singles [simp]: "concat (map (\<lambda>x. [x]) xs) = xs"
  by (induction xs) auto

lemma says_and_then [intro]: "(\<And>x. r = Inr x \<Longrightarrow> says (f x) ts) \<Longrightarrow> says (and_then r f) ts"
  by (auto simp: says_def)

lemma all_say_before: "all_say rs ts \<Longrightarrow> all_say (rs @ rs') ts"
  using all_say_append [of rs ts rs' "[]"] by simp

lemma all_say_after: "all_say rs' ts \<Longrightarrow> all_say (rs @ rs') ts"
  using all_say_append [of rs "[]" rs' ts] by simp

lemma all_say_second: "all_say rs ts \<Longrightarrow> all_say (r # rs) ts"
  using all_say_after [of rs ts "[r]"] by simp

lemma all_say_first: "says r ts \<Longrightarrow> all_say (r # rs) ts"
  using all_say_Cons [of r ts rs "[]"] by simp

lemma says_heading [intro, simp]: "says (headingElement i level body intent) [body]"
  by (auto simp: headingElement_def)

lemma says_listContainer [intro]: "all_say items ts \<Longrightarrow> says (listContainer i ordered items cls) ts"
  by (auto simp: listContainer_def)

lemma says_listElement: "says (listElement i ordered items) items"
proof -
  have "all_say (numbered (\<lambda>n item. box (i @ ''-item-'' @ digits_of n) ''li'' [textNode item]) items)
      (concat (map (\<lambda>item. [item]) items))"
    by (intro all_say_numbered says_box all_say_one says_text)
  then show ?thesis by (auto simp: listElement_def)
qed

lemma says_table: "says (tableElement i headers rows) (headers @ concat rows)"
proof -
  have "all_say (numbered (\<lambda>n header. genericElement (Some (i @ ''-th-'' @ digits_of n)) ''th'' [] [textNode header] None None
      (no_attributes\<lparr>ha_scope := Some ''col''\<rparr>) []) headers) (concat (map (\<lambda>h. [h]) headers))"
    by (intro all_say_numbered says_generic all_say_one says_text)
  moreover have "all_say (numbered (\<lambda>c cell. box (b c) ''td'' [textNode cell]) row) (concat (map (\<lambda>c. [c]) row))" for b row
    by (intro all_say_numbered says_box all_say_one says_text)
  then have "all_say (numbered (\<lambda>r row. box (i @ ''-row-'' @ digits_of r) ''tr''
      (numbered (\<lambda>c cell. box (i @ ''-row-'' @ digits_of r @ ''-cell-'' @ digits_of c) ''td'' [textNode cell]) row)) rows)
      (concat (map (\<lambda>row. row) rows))"
    by (intro all_say_numbered says_box) simp
  ultimately show ?thesis
    unfolding tableElement_def Let_def
    by (intro says_element all_say_Cons [of _ headers "[_]" "concat rows"] all_say_one says_box) simp_all
qed

lemma says_image: "says (imageElement lib i assetId src alt caption) (case caption of Some c \<Rightarrow> [c] | None \<Rightarrow> [])"
  unfolding imageElement_def
  by (intro says_and_then says_element all_say_second) (cases caption; auto)

lemma says_callout:
  "says (calloutElement i name block title body)
     ((case title of Some t \<Rightarrow> if t = [] then [] else [t] | None \<Rightarrow> []) @ [body])"
proof -
  have "all_say [headingElement (i @ ''-title'') 3 t ''subsection-title'', box (i @ ''-body'') ''p'' [textNode body]] [t, body]" for t
    using all_say_Cons [of "headingElement (i @ ''-title'') 3 t ''subsection-title''" "[t]"
      "[box (i @ ''-body'') ''p'' [textNode body]]" "[body]"] by auto
  then show ?thesis unfolding calloutElement_def by (cases title) (auto intro!: says_element)
qed

lemma says_composeTextBlock:
  "all_say (composeTextBlock lib kind i body attribution)
     (body # (if kind = Quote then (case attribution of Some a \<Rightarrow> if a = [] then [] else [a] | None \<Rightarrow> []) else []))"
proof (cases "kind = Quote")
  case True
  have "all_say [genericElement (Some i) ''blockquote'' [''content-block''] [textNode body] None None no_attributes [],
      genericElement (Some (i @ ''-attribution'')) ''p'' [] [textNode a] None None no_attributes caption_tokens] [body, a]" for a
    using all_say_Cons [of "genericElement (Some i) ''blockquote'' [''content-block''] [textNode body] None None no_attributes []"
      "[body]" "[genericElement (Some (i @ ''-attribution'')) ''p'' [] [textNode a] None None no_attributes caption_tokens]" "[a]"]
    by auto
  then show ?thesis using True by (auto split: option.splits)
next
  case False
  have c: "all_say [calloutElement i name name None body] [body]" "all_say [calloutElement i name name (Some t) body] [body]" for name t
  proof -
    show "all_say [calloutElement i name name None body] [body]"
      using says_callout [of i name name None body] by auto
    have "says (calloutElement i name name (Some t) body) [body]"
      using says_callout [of i name name "Some t" body] unfolding says_def
      by (auto dest: subseq_Cons' split: if_splits)
    then show "all_say [calloutElement i name name (Some t) body] [body]" by auto
  qed
  show ?thesis using False c by (cases kind) auto
qed

lemma says_block: "all_say (composeBlock lib p block) (block_texts block)"
proof (cases block)
  case (TextBlock i kind body attribution cs fs)
  then show ?thesis using all_say_before [OF says_composeTextBlock] by simp
next
  case (CallToActionBlock i title description action cs fs)
  then show ?thesis
    using says_callout [of i "''call-to-action''" "''call-to-action''" "Some title" "description @ '' '' @ action"]
    by (auto intro!: all_say_first)
next
  case (ScriptureBlock i references body cs fs)
  then show ?thesis
    using says_callout [of i "''note''" "''scripture''" "Some (join ''; '' references)" body]
    by (auto intro!: all_say_first)
next
  case (ListBlock i kind items cs fs)
  then show ?thesis by (auto intro!: all_say_first says_listElement)
next
  case (SidebarBlock i title body)
  then show ?thesis using says_callout [of i "''sidebar''" "''sidebar''" "Some title" body] by auto
next
  case (ImageBlock i assetId caption)
  then show ?thesis
    by (auto split: option.splits simp: all_say_def [of "[Inl _]"] intro!: all_say_one)
       (use says_image [of lib i _ _ _ caption] in \<open>auto split: option.splits\<close>)
next
  case (TableBlock i headers rows)
  then show ?thesis by (auto intro!: all_say_one says_table)
qed auto

lemma says_mapped: "all_say (mapped_block lib p block) (block_texts block)"
  using says_block [of lib p block] by (auto simp: mapped_block_def Let_def all_say_def)

lemma says_section:
  "says (composeBodySection lib p s) (pn_title s # concat (map block_texts (pn_blocks s)))"
  using all_say_Cons [OF says_heading all_say_concat [of "pn_blocks s" "mapped_block lib p" block_texts, OF says_mapped]]
  by (auto simp: composeBodySection_def)

lemma says_main: "says (composeMain lib p) (publication_texts p)"
  unfolding composeMain_def publication_texts_def
  by (intro says_generic all_say_map says_section)

lemma schema_texts:
  "htmlNodeSchema node = Some parsed \<Longrightarrow> node_texts parsed = map js_trim (node_texts node)"
  "htmlNodesSchema nodes = Some parsed_nodes \<Longrightarrow> nodes_texts parsed_nodes = map js_trim (nodes_texts nodes)"
proof (induction node and nodes arbitrary: parsed and parsed_nodes rule: htmlNodeSchema_htmlNodesSchema.induct)
  case (2 ty i tag attrs cls al role sts children)
  from 2(2) show ?case
    unfolding htmlNodeSchema.simps bind_eq_Some_conv
    by (elim exE conjE) (auto dest!: 2(1) split: if_splits)
qed (auto simp: zstring_def Let_def bind_eq_Some_conv split: if_splits)


subsection \<open>Examples\<close>

text \<open>A publication of one section with one citation, for any blocks of the section.\<close>

definition demo_publication :: "publication_block list \<Rightarrow> publication" where
  "demo_publication blocks =
     \<lparr>pu_metadata = \<lparr>pd_publicationId = ''pub_1'', pd_publicationType = ''cta-guide'', pd_title = ''Hope'',
        pd_subtitle = None, pd_author = ''A'', pd_organization = None, pd_generatedAt = ''2024-01-01T00:00:00Z'',
        pd_sourceVersionId = ''v1'', pd_sourceContentHash = ''h1'', pd_pipelineVersion = ''1'',
        pd_audience = ''general'', pd_theme = ''ministry'',
        pd_style = \<lparr>py_tone = ''calm'', py_readingLevel = ''introductory'', py_voice = ''pastoral''\<rparr>\<rparr>,
      pu_cover = \<lparr>pv_title = ''Hope'', pv_subtitle = None, pv_author = ''A'', pv_organization = None,
        pv_coverImageAssetId = None, pv_branding = None, pv_generatedDate = ''2024-01-01T00:00:00Z'',
        pv_publicationType = ''cta-guide''\<rparr>,
      pu_toc = [\<lparr>te_id = ''t1'', te_targetId = ''s1'', te_title = ''Part'', te_level = 1, te_anchor = ''part'',
        te_parentId = None, te_pageNumber = None\<rparr>],
      pu_sections = [\<lparr>pn_id = ''s1'', pn_title = ''Part'', pn_slug = ''part'', pn_order = 1, pn_blocks = blocks\<rparr>],
      pu_references = [],
      pu_citations = [\<lparr>pi_id = ''c1'', pi_label = ''C'', pi_text = ''John 3:16'', pi_referenceId = None\<rparr>],
      pu_footnotes = [], pu_assets = [], pu_schemaVersion = ''1.0'', pu_layoutIntent = ''digital-first'',
      pu_language = ''en'', pu_preferredTargets = [''html''], pu_includeCover = True, pu_includeToc = True\<rparr>"

definition demo_compose :: "publication_block list \<Rightarrow> html_error + html_document" where
  "demo_compose blocks =
     html_compose demo_library (\<lambda>s. True) (\<lambda>s. True) False False (demo_publication blocks)"

definition accepted_publication :: "publication_block list \<Rightarrow> bool" where
  "accepted_publication blocks \<longleftrightarrow>
     publicationSchema (\<lambda>s. True) (\<lambda>s. True) (demo_publication blocks) = Some (demo_publication blocks)"

definition demo_blocks :: "publication_block list" where
  "demo_blocks = [HeadingBlock ''b1'' 1 ''Start'' None None,
     TextBlock ''b2'' Paragraph ''a<b'' None (Some [''c1'']) None]"

lemma demo_composes: "\<exists>d. demo_compose demo_blocks = Inr d"
proof -
  have "\<not> is_refused (demo_compose demo_blocks)" by code_simp
  then show ?thesis by (simp add: not_is_refused)
qed

lemma composed_document_serializes_witness:
  "\<exists>d parts. demo_compose demo_blocks = Inr d \<and> serializeDocumentParts demo_order demo_library d = Inr parts"
proof -
  obtain d where d: "demo_compose demo_blocks = Inr d" using demo_composes by blast
  from composed_document_serializes [OF d [unfolded demo_compose_def], of demo_order] d show ?thesis by blast
qed


end
