(* ===== verification/ComposerCases.thy ===== *)
theory ComposerCases
  imports HtmlComposer
begin

text \<open>
  Concrete publications the composer of \<open>application/publications/html-composer.ts\<close> refuses although the publication schema accepts
  them, evaluated by the kernel.
\<close>

text \<open>
  Publications the publication schema accepts and the composer does not: two paragraphs with
  the same citations (the paragraphs of links get the same identifier), a section whose first
  heading is of level 3, a scripture block without references, and one with many of them (the
  label of the call-out is too long).
\<close>

definition invalid_html :: "html_error + html_document" where
  "invalid_html = Inl (HtmlValidationError ''HTML document failed validation.'')"

lemma shared_citation_refused:
  "accepted_publication [TextBlock ''b1'' Paragraph ''x'' None (Some [''c1'']) None,
       TextBlock ''b2'' Paragraph ''y'' None (Some [''c1'']) None]
   \<and> demo_compose [TextBlock ''b1'' Paragraph ''x'' None (Some [''c1'']) None,
       TextBlock ''b2'' Paragraph ''y'' None (Some [''c1'']) None] = invalid_html"
  by code_simp

lemma deep_heading_refused:
  "accepted_publication [HeadingBlock ''b1'' 3 ''x'' None None]
   \<and> demo_compose [HeadingBlock ''b1'' 3 ''x'' None None] = invalid_html"
  by code_simp

lemma empty_scripture_refused:
  "accepted_publication [ScriptureBlock ''b1'' [] ''x'' None None]
   \<and> demo_compose [ScriptureBlock ''b1'' [] ''x'' None None] = invalid_html"
  by code_simp

lemma long_scripture_refused:
  "accepted_publication [ScriptureBlock ''b1'' (replicate 13 ''1 Corinthians 13:4'') ''x'' None None]
   \<and> demo_compose [ScriptureBlock ''b1'' (replicate 13 ''1 Corinthians 13:4'') ''x'' None None] = invalid_html"
  by code_simp

end
