(* ===== verification/Errors.thy ===== *)
theory Errors
  imports Prelude
begin

text \<open>
  The error values of the platform (\<open>src/platform/shared/errors\<close>), the identifier and
  argument checks every repository starts with (\<open>src/platform/identity/ids\<close>,
  \<open>src/infrastructure/repositories/error-utils.ts\<close>), and what a database transaction does
  with them: it commits the new tables or, when the body throws, leaves them unchanged.
  A \<open>throw\<close> is the left value of a sum.
\<close>

subsection \<open>Error codes and platform errors\<close>

datatype (plugins only: size code) error_code =
    VALIDATION_ERROR
  | INVALID_JSON
  | PAYLOAD_TOO_LARGE
  | TENANT_CONTEXT_REQUIRED
  | RESOURCE_NOT_FOUND
  | DATABASE_UNAVAILABLE
  | INTERNAL_SERVER_ERROR
  | IDEMPOTENCY_KEY_REUSED
  | INVALID_WORKFLOW_STATE
  | JOB_NOT_CLAIMABLE
  | JOB_ALREADY_COMPLETED
  | TRANSCRIPT_HASH_MISMATCH
  | WORKER_RETRYABLE
  | WORKER_PERMANENT
  | WORKER_UNSUPPORTED_JOB_TYPE
  | WORKER_CANCELLED
  | WORKER_MAX_ATTEMPTS_EXCEEDED
  | WORKER_LEASE_EXPIRED
  | SOURCE_VERSION_NOT_FOUND
  | SOURCE_PROJECT_MISMATCH
  | AI_VALIDATION_ERROR
  | AI_PROVIDER_UNAVAILABLE
  | AI_RATE_LIMIT
  | AI_AUTHENTICATION_ERROR
  | AI_TIMEOUT
  | AI_PERMANENT_ERROR
  | WORKER_UNEXPECTED_ERROR
  | PUBLICATION_VALIDATION_ERROR
  | PUBLICATION_UNSUPPORTED_TYPE
  | PUBLICATION_BUILD_ERROR
  | HTML_VALIDATION_ERROR
  | HTML_COMPOSITION_ERROR
  | HTML_UNSUPPORTED_ELEMENT
  | RENDER_VALIDATION_ERROR
  | UNSUPPORTED_FORMAT
  | UNSUPPORTED_THEME
  | RENDER_FAILED
  | INVALID_ASSET
  | PUBLISH_ENGINE_CONFIGURATION_ERROR
  | PUBLISH_ENGINE_AUTHENTICATION_ERROR
  | PUBLISH_ENGINE_TRANSPORT_ERROR
  | PUBLISH_ENGINE_TIMEOUT
  | PUBLISH_ENGINE_CANCELLED
  | PUBLISH_ENGINE_PROTOCOL_ERROR
  | PUBLISH_ENGINE_REMOTE_REQUEST_ERROR
  | PUBLISH_ENGINE_RETRY_EXHAUSTED
  | PUBLISH_ENGINE_JOB_FAILED
  | PUBLISH_ENGINE_JOB_CANCELLED
  | PUBLISH_ENGINE_WAIT_TIMEOUT
  | PUBLISH_ENGINE_ARTIFACT_INVALID
  | PUBLISH_JOB_NOT_FOUND
  | PUBLISH_JOB_IDEMPOTENCY_CONFLICT
  | PUBLISH_SOURCE_NOT_ELIGIBLE
  | PUBLISH_SOURCE_ARTIFACT_MISSING
  | PUBLISH_SOURCE_ARTIFACT_INVALID
  | PUBLISH_JOB_NOT_CLAIMABLE
  | PUBLISH_JOB_LEASE_MISMATCH
  | PUBLISH_JOB_INVALID_STATE
  | PUBLISH_REMOTE_JOB_FAILED
  | PUBLISH_REMOTE_JOB_CANCELLED
  | PUBLISH_DOWNLOAD_METADATA_INVALID
  | PUBLISH_JOB_RETRY_EXHAUSTED

primrec code_value :: "error_code \<Rightarrow> string" where
    "code_value VALIDATION_ERROR = ''VALIDATION_ERROR''"
  | "code_value INVALID_JSON = ''INVALID_JSON''"
  | "code_value PAYLOAD_TOO_LARGE = ''PAYLOAD_TOO_LARGE''"
  | "code_value TENANT_CONTEXT_REQUIRED = ''TENANT_CONTEXT_REQUIRED''"
  | "code_value RESOURCE_NOT_FOUND = ''RESOURCE_NOT_FOUND''"
  | "code_value DATABASE_UNAVAILABLE = ''DATABASE_UNAVAILABLE''"
  | "code_value INTERNAL_SERVER_ERROR = ''INTERNAL_SERVER_ERROR''"
  | "code_value IDEMPOTENCY_KEY_REUSED = ''IDEMPOTENCY_KEY_REUSED''"
  | "code_value INVALID_WORKFLOW_STATE = ''INVALID_WORKFLOW_STATE''"
  | "code_value JOB_NOT_CLAIMABLE = ''JOB_NOT_CLAIMABLE''"
  | "code_value JOB_ALREADY_COMPLETED = ''JOB_ALREADY_COMPLETED''"
  | "code_value TRANSCRIPT_HASH_MISMATCH = ''TRANSCRIPT_HASH_MISMATCH''"
  | "code_value WORKER_RETRYABLE = ''WORKER_RETRYABLE''"
  | "code_value WORKER_PERMANENT = ''WORKER_PERMANENT''"
  | "code_value WORKER_UNSUPPORTED_JOB_TYPE = ''WORKER_UNSUPPORTED_JOB_TYPE''"
  | "code_value WORKER_CANCELLED = ''WORKER_CANCELLED''"
  | "code_value WORKER_MAX_ATTEMPTS_EXCEEDED = ''WORKER_MAX_ATTEMPTS_EXCEEDED''"
  | "code_value WORKER_LEASE_EXPIRED = ''WORKER_LEASE_EXPIRED''"
  | "code_value SOURCE_VERSION_NOT_FOUND = ''SOURCE_VERSION_NOT_FOUND''"
  | "code_value SOURCE_PROJECT_MISMATCH = ''SOURCE_PROJECT_MISMATCH''"
  | "code_value AI_VALIDATION_ERROR = ''AI_VALIDATION_ERROR''"
  | "code_value AI_PROVIDER_UNAVAILABLE = ''AI_PROVIDER_UNAVAILABLE''"
  | "code_value AI_RATE_LIMIT = ''AI_RATE_LIMIT''"
  | "code_value AI_AUTHENTICATION_ERROR = ''AI_AUTHENTICATION_ERROR''"
  | "code_value AI_TIMEOUT = ''AI_TIMEOUT''"
  | "code_value AI_PERMANENT_ERROR = ''AI_PERMANENT_ERROR''"
  | "code_value WORKER_UNEXPECTED_ERROR = ''WORKER_UNEXPECTED_ERROR''"
  | "code_value PUBLICATION_VALIDATION_ERROR = ''PUBLICATION_VALIDATION_ERROR''"
  | "code_value PUBLICATION_UNSUPPORTED_TYPE = ''PUBLICATION_UNSUPPORTED_TYPE''"
  | "code_value PUBLICATION_BUILD_ERROR = ''PUBLICATION_BUILD_ERROR''"
  | "code_value HTML_VALIDATION_ERROR = ''HTML_VALIDATION_ERROR''"
  | "code_value HTML_COMPOSITION_ERROR = ''HTML_COMPOSITION_ERROR''"
  | "code_value HTML_UNSUPPORTED_ELEMENT = ''HTML_UNSUPPORTED_ELEMENT''"
  | "code_value RENDER_VALIDATION_ERROR = ''RENDER_VALIDATION_ERROR''"
  | "code_value UNSUPPORTED_FORMAT = ''UNSUPPORTED_FORMAT''"
  | "code_value UNSUPPORTED_THEME = ''UNSUPPORTED_THEME''"
  | "code_value RENDER_FAILED = ''RENDER_FAILED''"
  | "code_value INVALID_ASSET = ''INVALID_ASSET''"
  | "code_value PUBLISH_ENGINE_CONFIGURATION_ERROR = ''PUBLISH_ENGINE_CONFIGURATION_ERROR''"
  | "code_value PUBLISH_ENGINE_AUTHENTICATION_ERROR = ''PUBLISH_ENGINE_AUTHENTICATION_ERROR''"
  | "code_value PUBLISH_ENGINE_TRANSPORT_ERROR = ''PUBLISH_ENGINE_TRANSPORT_ERROR''"
  | "code_value PUBLISH_ENGINE_TIMEOUT = ''PUBLISH_ENGINE_TIMEOUT''"
  | "code_value PUBLISH_ENGINE_CANCELLED = ''PUBLISH_ENGINE_CANCELLED''"
  | "code_value PUBLISH_ENGINE_PROTOCOL_ERROR = ''PUBLISH_ENGINE_PROTOCOL_ERROR''"
  | "code_value PUBLISH_ENGINE_REMOTE_REQUEST_ERROR = ''PUBLISH_ENGINE_REMOTE_REQUEST_ERROR''"
  | "code_value PUBLISH_ENGINE_RETRY_EXHAUSTED = ''PUBLISH_ENGINE_RETRY_EXHAUSTED''"
  | "code_value PUBLISH_ENGINE_JOB_FAILED = ''PUBLISH_ENGINE_JOB_FAILED''"
  | "code_value PUBLISH_ENGINE_JOB_CANCELLED = ''PUBLISH_ENGINE_JOB_CANCELLED''"
  | "code_value PUBLISH_ENGINE_WAIT_TIMEOUT = ''PUBLISH_ENGINE_WAIT_TIMEOUT''"
  | "code_value PUBLISH_ENGINE_ARTIFACT_INVALID = ''PUBLISH_ENGINE_ARTIFACT_INVALID''"
  | "code_value PUBLISH_JOB_NOT_FOUND = ''PUBLISH_JOB_NOT_FOUND''"
  | "code_value PUBLISH_JOB_IDEMPOTENCY_CONFLICT = ''PUBLISH_JOB_IDEMPOTENCY_CONFLICT''"
  | "code_value PUBLISH_SOURCE_NOT_ELIGIBLE = ''PUBLISH_SOURCE_NOT_ELIGIBLE''"
  | "code_value PUBLISH_SOURCE_ARTIFACT_MISSING = ''PUBLISH_SOURCE_ARTIFACT_MISSING''"
  | "code_value PUBLISH_SOURCE_ARTIFACT_INVALID = ''PUBLISH_SOURCE_ARTIFACT_INVALID''"
  | "code_value PUBLISH_JOB_NOT_CLAIMABLE = ''PUBLISH_JOB_NOT_CLAIMABLE''"
  | "code_value PUBLISH_JOB_LEASE_MISMATCH = ''PUBLISH_JOB_LEASE_MISMATCH''"
  | "code_value PUBLISH_JOB_INVALID_STATE = ''PUBLISH_JOB_INVALID_STATE''"
  | "code_value PUBLISH_REMOTE_JOB_FAILED = ''PUBLISH_REMOTE_JOB_FAILED''"
  | "code_value PUBLISH_REMOTE_JOB_CANCELLED = ''PUBLISH_REMOTE_JOB_CANCELLED''"
  | "code_value PUBLISH_DOWNLOAD_METADATA_INVALID = ''PUBLISH_DOWNLOAD_METADATA_INVALID''"
  | "code_value PUBLISH_JOB_RETRY_EXHAUSTED = ''PUBLISH_JOB_RETRY_EXHAUSTED''"

text \<open>
  The subclasses of PlatformError carry what their constructors take; the structured
  \<open>details\<close> are diagnostics no code branches on and are left out.
\<close>

datatype platform_error =
    PlatformError error_code string
  | ValidationError string
  | ConflictError error_code string
  | NotFoundError string string

fun perror_code :: "platform_error \<Rightarrow> error_code" where
    "perror_code (PlatformError c m) = c"
  | "perror_code (ValidationError m) = VALIDATION_ERROR"
  | "perror_code (ConflictError c m) = c"
  | "perror_code (NotFoundError t i) = RESOURCE_NOT_FOUND"

fun perror_message :: "platform_error \<Rightarrow> string" where
    "perror_message (PlatformError c m) = m"
  | "perror_message (ValidationError m) = m"
  | "perror_message (ConflictError c m) = m"
  | "perror_message (NotFoundError t i) = t @ '' was not found.''"

text \<open>
  What the \<open>catch\<close> of a repository sees: a platform error its own body threw, the
  driver's unique violation (SQL state 23505), or another driver failure.
\<close>

datatype caught = Thrown platform_error | UniqueViolation | DriverFailure

definition toDatabaseUnavailableError :: "caught \<Rightarrow> string \<Rightarrow> platform_error" where
  "toDatabaseUnavailableError error message =
     (case error of Thrown e \<Rightarrow> e
      | _ \<Rightarrow> PlatformError DATABASE_UNAVAILABLE message)"

definition isUniqueViolation :: "caught \<Rightarrow> bool" where
  "isUniqueViolation error = (error = UniqueViolation)"

definition ensureNonEmpty :: "string \<Rightarrow> string \<Rightarrow> platform_error + string" where
  "ensureNonEmpty value field =
     (let trimmed = js_trim value
      in if length trimmed = 0 then Inl (ValidationError (field @ '' cannot be empty.''))
         else Inr trimmed)"

lemma ensureNonEmpty_Inr:
  "ensureNonEmpty v f = Inr t \<longleftrightarrow> js_trim v = t \<and> t \<noteq> []"
  by (auto simp: ensureNonEmpty_def Let_def)

lemma ensureNonEmpty_stable: "ensureNonEmpty v f = Inr t \<Longrightarrow> ensureNonEmpty t f = Inr t"
  by (auto simp: ensureNonEmpty_Inr)

subsection \<open>Identifiers\<close>

text \<open>
  An identifier is a prefix, an underscore and a non-empty suffix.  The suffix of a fresh
  identifier is a ULID from a library, so it is an argument.
\<close>

definition createPrefixedId :: "string \<Rightarrow> string \<Rightarrow> string" where
  "createPrefixedId prefix ulid = prefix @ ''_'' @ ulid"

definition isPrefixedId :: "string \<Rightarrow> string \<Rightarrow> bool" where
  "isPrefixedId value prefix \<longleftrightarrow>
     take (length prefix + 1) value = prefix @ ''_'' \<and> length value > length prefix + 1"

lemma isPrefixedId_iff:
  "isPrefixedId v p \<longleftrightarrow> (\<exists>u. u \<noteq> [] \<and> v = createPrefixedId p u)"
proof
  assume "isPrefixedId v p"
  then have "v = (p @ ''_'') @ drop (length p + 1) v" and "drop (length p + 1) v \<noteq> []"
    unfolding isPrefixedId_def by (metis append_take_drop_id, simp)
  then show "\<exists>u. u \<noteq> [] \<and> v = createPrefixedId p u"
    unfolding createPrefixedId_def by (metis append.assoc)
qed (auto simp: isPrefixedId_def createPrefixedId_def)

definition validateTenantId :: "string \<Rightarrow> platform_error + unit" where
  "validateTenantId tenantId =
     (if \<not> isPrefixedId tenantId ''tenant'' then Inl (ValidationError ''Invalid tenant ID.'')
      else Inr ())"

definition validateTenantAndJobIds :: "string \<Rightarrow> string \<Rightarrow> platform_error + unit" where
  "validateTenantAndJobIds tenantId jobId =
     (if \<not> isPrefixedId tenantId ''tenant'' then Inl (ValidationError ''Invalid tenant ID.'')
      else if \<not> isPrefixedId jobId ''job'' then Inl (ValidationError ''Invalid content job ID.'')
      else Inr ())"

definition validateScopedIds :: "string \<Rightarrow> string option \<Rightarrow> platform_error + unit" where
  "validateScopedIds tenantId projectId =
     (if \<not> isPrefixedId tenantId ''tenant'' then Inl (ValidationError ''Invalid tenant ID.'')
      else case projectId of
        Some p \<Rightarrow> if \<not> isPrefixedId p ''project'' then Inl (ValidationError ''Invalid project ID.'')
                 else Inr ()
      | None \<Rightarrow> Inr ())"

subsection \<open>Transactions\<close>

text \<open>
  \<open>transaction fault d body\<close> runs a transaction body on the tables \<open>d\<close>.  \<open>fault\<close>
  says that some statement of it failed in the driver.  A failed or throwing body rolls
  back.  \<open>or_unavailable\<close> is the \<open>catch\<close> every operation ends with, and \<open>checked\<close> an
  argument check before the \<open>try\<close>, which leaves the tables alone.
\<close>

definition transaction :: "bool \<Rightarrow> 'd \<Rightarrow> caught + 'a \<times> 'd \<Rightarrow> (caught + 'a) \<times> 'd" where
  "transaction fault d body =
     (if fault then (Inl DriverFailure, d)
      else case body of Inl e \<Rightarrow> (Inl e, d) | Inr (a, d') \<Rightarrow> (Inr a, d'))"

definition or_unavailable :: "string \<Rightarrow> (caught + 'a) \<times> 'd \<Rightarrow> (platform_error + 'a) \<times> 'd" where
  "or_unavailable message r =
     (case r of (Inl e, d) \<Rightarrow> (Inl (toDatabaseUnavailableError e message), d)
      | (Inr a, d) \<Rightarrow> (Inr a, d))"

definition checked ::
  "platform_error + 'b \<Rightarrow> 'd \<Rightarrow> ('b \<Rightarrow> (platform_error + 'a) \<times> 'd) \<Rightarrow> (platform_error + 'a) \<times> 'd"
  where
  "checked c d k = (case c of Inl e \<Rightarrow> (Inl e, d) | Inr b \<Rightarrow> k b)"

text \<open>A mapping that throws inside a transaction body.\<close>

definition thrown :: "platform_error + 'a \<Rightarrow> caught + 'a" where
  "thrown c = (case c of Inl e \<Rightarrow> Inl (Thrown e) | Inr a \<Rightarrow> Inr a)"

lemma transaction_cases:
  assumes "transaction fault d body = (r, d')"
  obtains (rolled_back) e where "r = Inl e" "d' = d"
  | (committed) a where "\<not> fault" "r = Inr a" "body = Inr (a, d')"
  using assms by (auto simp: transaction_def split: if_splits sum.splits prod.splits)

lemma or_unavailable_state [simp]: "snd (or_unavailable m r) = snd r"
  by (auto simp: or_unavailable_def split: prod.splits sum.splits)

lemma or_unavailable_Inr [simp]:
  "or_unavailable m r = (Inr a, d) \<longleftrightarrow> r = (Inr a, d)"
  by (auto simp: or_unavailable_def split: prod.splits sum.splits)

lemma fst_or_unavailable_Inr [simp]:
  "fst (or_unavailable m r) = Inr a \<longleftrightarrow> fst r = Inr a"
  by (auto simp: or_unavailable_def split: prod.splits sum.splits)

lemma checked_Inr [simp]: "checked (Inr b) d k = k b"
  by (simp add: checked_def)

lemma checked_Inl [simp]: "checked (Inl e) d k = (Inl e, d)"
  by (simp add: checked_def)

lemma thrown_simps [simp]: "thrown (Inl e) = Inl (Thrown e)" "thrown (Inr a) = Inr a"
  by (simp_all add: thrown_def)

lemma transaction_simps [simp]:
  "transaction True d body = (Inl DriverFailure, d)"
  "transaction fault d (Inl e) = (Inl (if fault then DriverFailure else e), d)"
  "transaction False d (Inr (a, d')) = (Inr a, d')"
  by (simp_all add: transaction_def)

text \<open>
  The shape of every transactional operation: whatever happens, the tables are the old ones
  or the ones its body produced.  Preservation of an invariant is proved through it.
\<close>

lemma checked_state:
  assumes "\<And>b. c = Inr b \<Longrightarrow> P (snd (k b))" and "P d"
  shows "P (snd (checked c d k))"
  using assms by (cases c) (auto simp: checked_def)

lemma transaction_state:
  assumes "\<And>a d'. body = Inr (a, d') \<Longrightarrow> P d'" and "P d"
  shows "P (snd (transaction fault d body))"
  using assms by (auto simp: transaction_def split: if_splits sum.splits prod.splits)

lemma transaction_snd:
  "snd (transaction fault d body) = d \<or> (\<exists>a. body = Inr (a, snd (transaction fault d body)))"
  by (auto simp: transaction_def split: if_splits sum.splits prod.splits)

lemma thrown_Inr [simp]: "thrown c = Inr a \<longleftrightarrow> c = Inr a"
  by (cases c) auto

lemmas [tx_simps] = transaction_def or_unavailable_def checked_def thrown_def

end
