(* ===== verification/Domain.thy ===== *)
theory Domain
  imports Errors Fingerprint
begin

text \<open>
  The domain types (\<open>src/domain\<close>) and the rows of the tables (\<open>src/db/schema\<close>) of
  content jobs, publish jobs, their events and source versions, with the two transition
  policies.  Both policies are instances of one interface, the locale \<open>status_policy\<close>.
\<close>

subsection \<open>Content jobs\<close>

datatype content_status = CQueued | CProcessing | CRetrying | CCompleted | CFailed | CCancelled

datatype content_stage =
  CSQueued | CSNormalizingTranscript | CSCalculatingStatistics | CSCompleted | CSFailed

fun content_status_name :: "content_status \<Rightarrow> string" where
  "content_status_name CQueued = ''queued''"
| "content_status_name CProcessing = ''processing''"
| "content_status_name CRetrying = ''retrying''"
| "content_status_name CCompleted = ''completed''"
| "content_status_name CFailed = ''failed''"
| "content_status_name CCancelled = ''cancelled''"

fun allowedTransitions :: "content_status \<Rightarrow> content_status list" where
  "allowedTransitions CQueued = [CProcessing, CCancelled]"
| "allowedTransitions CProcessing = [CCompleted, CRetrying, CFailed]"
| "allowedTransitions CRetrying = [CProcessing, CCancelled]"
| "allowedTransitions CCompleted = []"
| "allowedTransitions CFailed = []"
| "allowedTransitions CCancelled = []"

definition isTransitionAllowed :: "content_status \<Rightarrow> content_status \<Rightarrow> bool" where
  "isTransitionAllowed from to \<longleftrightarrow> to \<in> set (allowedTransitions from)"

definition assertTransitionAllowed :: "content_status \<Rightarrow> content_status \<Rightarrow> platform_error + unit" where
  "assertTransitionAllowed from to =
     (if from = CCompleted then
        Inl (ConflictError JOB_ALREADY_COMPLETED ''Completed jobs cannot transition to another state.'')
      else if \<not> isTransitionAllowed from to then
        Inl (ConflictError INVALID_WORKFLOW_STATE (''Transition from '' @ content_status_name from @ '' to ''
          @ content_status_name to @ '' is not allowed.''))
      else Inr ())"

subsection \<open>Publish jobs\<close>

datatype publish_status =
  PQueued | PProcessing | PWaiting | PRetrying | PCompleted | PFailed | PCancelled

datatype publish_stage =
    PSQueued | PSValidatingSource | PSSubmitting | PSWaitingForRemote | PSCheckingRemoteStatus
  | PSRetrievingDownload | PSCompleted | PSFailed | PSCancelled

fun publish_status_name :: "publish_status \<Rightarrow> string" where
  "publish_status_name PQueued = ''queued''"
| "publish_status_name PProcessing = ''processing''"
| "publish_status_name PWaiting = ''waiting''"
| "publish_status_name PRetrying = ''retrying''"
| "publish_status_name PCompleted = ''completed''"
| "publish_status_name PFailed = ''failed''"
| "publish_status_name PCancelled = ''cancelled''"

fun publish_stage_name :: "publish_stage \<Rightarrow> string" where
  "publish_stage_name PSQueued = ''queued''"
| "publish_stage_name PSValidatingSource = ''validating-source''"
| "publish_stage_name PSSubmitting = ''submitting''"
| "publish_stage_name PSWaitingForRemote = ''waiting-for-remote''"
| "publish_stage_name PSCheckingRemoteStatus = ''checking-remote-status''"
| "publish_stage_name PSRetrievingDownload = ''retrieving-download''"
| "publish_stage_name PSCompleted = ''completed''"
| "publish_stage_name PSFailed = ''failed''"
| "publish_stage_name PSCancelled = ''cancelled''"

datatype publish_mode = PStandard | PCtaGuide

datatype publish_event_type =
    PublishJobCreated | PublishJobClaimed | PublishSubmitted | PublishStatusPolled
  | PublishWaiting | PublishRetryScheduled | PublishCompleted | PublishFailed
  | PublishCancelled | PublishLeaseExpired

datatype output_format = Html | Pdf | Epub

fun transitionPolicy :: "publish_status \<Rightarrow> publish_status list" where
  "transitionPolicy PQueued = [PProcessing, PCancelled]"
| "transitionPolicy PProcessing = [PWaiting, PRetrying, PCompleted, PFailed, PCancelled]"
| "transitionPolicy PWaiting = [PProcessing, PCancelled]"
| "transitionPolicy PRetrying = [PProcessing, PCancelled, PFailed]"
| "transitionPolicy PCompleted = []"
| "transitionPolicy PFailed = []"
| "transitionPolicy PCancelled = []"

definition isPublishJobTransitionAllowed :: "publish_status \<Rightarrow> publish_status \<Rightarrow> bool" where
  "isPublishJobTransitionAllowed from to \<longleftrightarrow> to \<in> set (transitionPolicy from)"

definition assertPublishJobTransitionAllowed ::
  "publish_status \<Rightarrow> publish_status \<Rightarrow> platform_error + unit" where
  "assertPublishJobTransitionAllowed from to =
     (if \<not> isPublishJobTransitionAllowed from to then
        Inl (ConflictError PUBLISH_JOB_INVALID_STATE (''Publish job transition from ''
          @ publish_status_name from @ '' to '' @ publish_status_name to @ '' is not allowed.''))
      else Inr ())"

text \<open>
  The statuses and stages as the columns spell them, and the reading of a stored spelling
  (\<open>assertKnownStatus\<close> and \<open>assertKnownStage\<close> of the publish-job repository).
\<close>

definition publishJobStatuses :: "publish_status list" where
  "publishJobStatuses = [PQueued, PProcessing, PWaiting, PRetrying, PCompleted, PFailed, PCancelled]"

definition publishJobStages :: "publish_stage list" where
  "publishJobStages = [PSQueued, PSValidatingSource, PSSubmitting, PSWaitingForRemote,
     PSCheckingRemoteStatus, PSRetrievingDownload, PSCompleted, PSFailed, PSCancelled]"

definition assertKnownStatus :: "string \<Rightarrow> platform_error + publish_status" where
  "assertKnownStatus value =
     (case find (\<lambda>s. publish_status_name s = value) publishJobStatuses of
        Some s \<Rightarrow> Inr s
      | None \<Rightarrow> Inl (ValidationError ''Stored publish job status is invalid.''))"

definition assertKnownStage :: "string \<Rightarrow> platform_error + publish_stage" where
  "assertKnownStage value =
     (case find (\<lambda>s. publish_stage_name s = value) publishJobStages of
        Some s \<Rightarrow> Inr s
      | None \<Rightarrow> Inl (ValidationError ''Stored publish job stage is invalid.''))"

lemma known_status_name [simp]: "assertKnownStatus (publish_status_name s) = Inr s"
  by (cases s) (simp_all add: assertKnownStatus_def publishJobStatuses_def)

lemma known_stage_name [simp]: "assertKnownStage (publish_stage_name s) = Inr s"
  by (cases s) (simp_all add: assertKnownStage_def publishJobStages_def)

subsection \<open>The interface of a transition policy\<close>

text \<open>
  A policy says which status may follow which.  Terminal statuses are the ones nothing
  follows.  \<open>conforms\<close> is what one operation may do to a job: leave its status, or move
  it along the policy.
\<close>

locale status_policy =
  fixes allowed :: "'s \<Rightarrow> 's \<Rightarrow> bool"
    and terminal :: "'s \<Rightarrow> bool"
  assumes terminal_final: "terminal s \<Longrightarrow> \<not> allowed s t"
    and live_exit: "\<not> terminal s \<Longrightarrow> \<exists>t. allowed s t"
begin

definition conforms :: "'s \<Rightarrow> 's \<Rightarrow> bool" where
  "conforms s t \<longleftrightarrow> s = t \<or> allowed s t"

lemma conforms_refl: "conforms s s"
  by (simp add: conforms_def)

lemma terminal_iff: "terminal s \<longleftrightarrow> (\<forall>t. \<not> allowed s t)"
  using terminal_final live_exit by blast

lemma terminal_conforms: "terminal s \<Longrightarrow> conforms s t \<Longrightarrow> t = s"
  using terminal_final by (auto simp: conforms_def)

lemma terminal_forever: "conforms\<^sup>*\<^sup>* s t \<Longrightarrow> terminal s \<Longrightarrow> t = s"
  by (induction rule: rtranclp_induct) (auto dest: terminal_conforms)

end

definition content_terminal :: "content_status \<Rightarrow> bool" where
  "content_terminal s \<longleftrightarrow> s = CCompleted \<or> s = CFailed \<or> s = CCancelled"

definition publish_terminal :: "publish_status \<Rightarrow> bool" where
  "publish_terminal s \<longleftrightarrow> s = PCompleted \<or> s = PFailed \<or> s = PCancelled"

interpretation cpol: status_policy isTransitionAllowed content_terminal
proof
  show "content_terminal s \<Longrightarrow> \<not> isTransitionAllowed s t" for s t
    by (auto simp: content_terminal_def isTransitionAllowed_def)
  show "\<not> content_terminal s \<Longrightarrow> \<exists>t. isTransitionAllowed s t" for s
    by (cases s) (auto simp: content_terminal_def isTransitionAllowed_def)
qed

interpretation ppol: status_policy isPublishJobTransitionAllowed publish_terminal
proof
  show "publish_terminal s \<Longrightarrow> \<not> isPublishJobTransitionAllowed s t" for s t
    by (auto simp: publish_terminal_def isPublishJobTransitionAllowed_def)
  show "\<not> publish_terminal s \<Longrightarrow> \<exists>t. isPublishJobTransitionAllowed s t" for s
    by (cases s) (auto simp: publish_terminal_def isPublishJobTransitionAllowed_def)
qed

lemma assertTransitionAllowed_Inr [simp]:
  "assertTransitionAllowed s t = Inr u \<longleftrightarrow> isTransitionAllowed s t"
  by (cases s; cases t) (auto simp: assertTransitionAllowed_def isTransitionAllowed_def)

subsection \<open>Results of content jobs\<close>

text \<open>
  The stored result of a transcript job.  The AI, publication and HTML documents inside it
  are JSON values.
\<close>

record inline_content =
  ic_kind :: string
  ic_encoding :: string
  ic_bytesBase64 :: string
  ic_serializedDocument :: string

datatype storage_reference =
    StorageNone
  | Storage (sr_provider: string) (sr_uri: string) (sr_checksumSha256: string) (sr_byteSize: int)

record render_artifact =
  ra_artifactId :: string
  ra_status :: string
  ra_format :: string
  ra_payloadRepresentation :: "string option"
  ra_mimeType :: string
  ra_fileExtension :: string
  ra_checksumSha256 :: string
  ra_byteSize :: int
  ra_createdAt :: string
  ra_warnings :: "(string \<times> string) list"
  ra_errors :: "(string \<times> string) list"
  ra_content :: "inline_content option"
  ra_storage :: storage_reference

record processing_result =
  res_schemaVersion :: string
  res_sourceVersionId :: string
  res_contentHash :: string
  res_wordCount :: int
  res_characterCount :: int
  res_paragraphCount :: int
  res_lineCount :: int
  res_processedAt :: string
  res_ai :: "json option"
  res_publication :: "json option"
  res_htmlDocument :: "json option"
  res_renderArtifact :: "render_artifact option"

text \<open>The render artifact schema (\<open>src/schemas/rendering/rendering-schema.ts\<close>).\<close>

definition hex_lower :: "char \<Rightarrow> bool" where
  "hex_lower c \<longleftrightarrow> c \<in> set ''0123456789abcdef''"

text \<open>\<open>/^[a-f0-9]{64}$/\<close>\<close>

definition is_checksum :: "string \<Rightarrow> bool" where
  "is_checksum s \<longleftrightarrow> length s = 64 \<and> list_all hex_lower s"

definition coded_message_ok :: "string \<times> string \<Rightarrow> bool" where
  "coded_message_ok w \<longleftrightarrow> fst w \<noteq> [] \<and> snd w \<noteq> []"

definition inlineArtifactContentSchema :: "inline_content \<Rightarrow> bool" where
  "inlineArtifactContentSchema c \<longleftrightarrow>
     ic_kind c = ''inline'' \<and> ic_encoding c \<in> {''utf-8'', ''base64''}
     \<and> ic_bytesBase64 c \<noteq> [] \<and> ic_serializedDocument c \<noteq> []"

fun artifactStorageReferenceSchema :: "storage_reference \<Rightarrow> bool" where
  "artifactStorageReferenceSchema StorageNone = True"
| "artifactStorageReferenceSchema (Storage p u c b) \<longleftrightarrow>
     p \<in> {''azure-blob'', ''s3'', ''gcs'', ''filesystem''} \<and> u \<noteq> [] \<and> is_checksum c \<and> 0 \<le> b"

text \<open>
  The sub-schemas not modelled here and the ISO date checks of the schema library are the
  fields of \<open>result_schemas\<close>.
\<close>

record result_schemas =
  rs_datetime :: "string \<Rightarrow> bool"
  rs_ai :: "json \<Rightarrow> bool"
  rs_publication :: "json \<Rightarrow> bool"
  rs_htmlDocument :: "json \<Rightarrow> bool"

definition renderArtifactSchema :: "result_schemas \<Rightarrow> render_artifact \<Rightarrow> bool" where
  "renderArtifactSchema sch a \<longleftrightarrow>
     ra_artifactId a \<noteq> []
     \<and> ra_status a \<in> {''ready'', ''warning'', ''error''}
     \<and> ra_format a \<in> {''html'', ''pdf'', ''epub'', ''docx'', ''markdown''}
     \<and> pred_option (\<lambda>p. p \<in> {''structured-json'', ''html-markup'', ''styled-html'', ''binary'',
                              ''storage-reference''}) (ra_payloadRepresentation a)
     \<and> ra_mimeType a \<noteq> []
     \<and> ra_fileExtension a \<in> {''.html'', ''.json'', ''.pdf'', ''.epub'', ''.docx'', ''.md''}
     \<and> is_checksum (ra_checksumSha256 a)
     \<and> 0 \<le> ra_byteSize a
     \<and> rs_datetime sch (ra_createdAt a)
     \<and> list_all coded_message_ok (ra_warnings a)
     \<and> list_all coded_message_ok (ra_errors a)
     \<and> pred_option inlineArtifactContentSchema (ra_content a)
     \<and> artifactStorageReferenceSchema (ra_storage a)"

definition transcriptProcessingResultSchema :: "result_schemas \<Rightarrow> processing_result \<Rightarrow> bool" where
  "transcriptProcessingResultSchema sch r \<longleftrightarrow>
     res_schemaVersion r = ''1.0''
     \<and> isPrefixedId (res_sourceVersionId r) ''srcver''
     \<and> res_contentHash r \<noteq> []
     \<and> 0 \<le> res_wordCount r \<and> 0 \<le> res_characterCount r
     \<and> 0 \<le> res_paragraphCount r \<and> 0 \<le> res_lineCount r
     \<and> rs_datetime sch (res_processedAt r)
     \<and> pred_option (rs_ai sch) (res_ai r)
     \<and> pred_option (rs_publication sch) (res_publication r)
     \<and> pred_option (rs_htmlDocument sch) (res_htmlDocument r)
     \<and> pred_option (renderArtifactSchema sch) (res_renderArtifact r)"

end
