(* ===== verification/Transcript.thy ===== *)
theory Transcript
  imports Prelude
begin

text \<open>
  Transcript identity (\<open>src/platform/security/hashing/index.ts\<close>): the five
  replacements of \<open>normalizeTranscript\<close> in their order, on 16-bit code units, and the
  hash of the normalised text.  The digest itself is the SHA-256 of a library and an
  argument.  Line feed is 10, carriage return 13, tab 9 and space 32.
\<close>

subsection \<open>The replacements\<close>

text \<open>\<open>replace(/\r\n/g, '\n')\<close> and \<open>replace(/\r/g, '\n')\<close>\<close>

fun replace_crlf :: "jstext \<Rightarrow> jstext" where
  "replace_crlf [] = []"
| "replace_crlf [c] = [c]"
| "replace_crlf (c # d # cs) =
     (if c = 13 \<and> d = 10 then 10 # replace_crlf cs else c # replace_crlf (d # cs))"

definition replace_cr :: "jstext \<Rightarrow> jstext" where
  "replace_cr = map (\<lambda>c. if c = 13 then 10 else c)"

definition blank :: "code_unit \<Rightarrow> bool" where
  "blank c \<longleftrightarrow> c = 32 \<or> c = 9"

text \<open>
  \<open>replace(/[ \t]+/g, ' ')\<close>: of a run of blanks the last one stays, as a space.
\<close>

fun collapse_blanks :: "jstext \<Rightarrow> jstext" where
  "collapse_blanks [] = []"
| "collapse_blanks (c # cs) =
     (if blank c
      then (if cs \<noteq> [] \<and> blank (hd cs) then collapse_blanks cs else 32 # collapse_blanks cs)
      else c # collapse_blanks cs)"

text \<open>
  \<open>replace(/\n{3,}/g, '\n\n')\<close>: a line feed with two more behind it goes, so a run of
  three or more becomes two.
\<close>

fun two_newlines :: "jstext \<Rightarrow> bool" where
  "two_newlines (c # d # cs) \<longleftrightarrow> c = 10 \<and> d = 10"
| "two_newlines cs \<longleftrightarrow> False"

fun collapse_newlines :: "jstext \<Rightarrow> jstext" where
  "collapse_newlines [] = []"
| "collapse_newlines (c # cs) =
     (if c = 10 \<and> two_newlines cs then collapse_newlines cs else c # collapse_newlines cs)"

definition normalizeTranscript :: "jstext \<Rightarrow> jstext" where
  "normalizeTranscript transcript =
     js_trim_text (collapse_newlines (collapse_blanks (replace_cr (replace_crlf transcript))))"

definition computeTranscriptHash :: "(jstext \<Rightarrow> string) \<Rightarrow> jstext \<Rightarrow> string" where
  "computeTranscriptHash sha256 transcript = sha256 (normalizeTranscript transcript)"

subsection \<open>Normal texts\<close>

text \<open>
  A text on which the four replacements do nothing: no carriage return or tab, no two
  spaces in a row, no three line feeds in a row.
\<close>

fun settled :: "jstext \<Rightarrow> bool" where
  "settled [] \<longleftrightarrow> True"
| "settled (c # cs) \<longleftrightarrow>
     c \<noteq> 13 \<and> c \<noteq> 9 \<and> \<not> (c = 32 \<and> cs \<noteq> [] \<and> hd cs = 32)
     \<and> \<not> (c = 10 \<and> two_newlines cs) \<and> settled cs"

lemma two_newlines_append: "two_newlines us \<Longrightarrow> two_newlines (us @ vs)"
  by (cases us rule: two_newlines.cases) auto

lemma two_newlines_hd: "two_newlines cs \<Longrightarrow> cs \<noteq> [] \<and> hd cs = 10"
  by (cases cs rule: two_newlines.cases) auto

lemma settled_appendD: "settled (us @ vs) \<Longrightarrow> settled us \<and> settled vs"
proof (induction us)
  case (Cons c us)
  then show ?case by (cases us) (auto dest: two_newlines_append [of "_ # _" vs, simplified])
qed simp

lemma settled_no_cr: "settled cs \<Longrightarrow> 13 \<notin> set cs"
  by (induction cs) auto

lemma replace_crlf_id: "13 \<notin> set cs \<Longrightarrow> replace_crlf cs = cs"
  by (induction cs rule: replace_crlf.induct) auto

lemma replace_cr_id: "13 \<notin> set cs \<Longrightarrow> replace_cr cs = cs"
  by (auto simp: replace_cr_def intro: map_idI)

lemma replace_cr_no_cr: "13 \<notin> set (replace_cr cs)"
  by (auto simp: replace_cr_def)

lemma collapse_blanks_id: "settled cs \<Longrightarrow> collapse_blanks cs = cs"
proof (induction cs)
  case (Cons c cs)
  then show ?case by (cases cs) (auto simp: blank_def)
qed simp

lemma collapse_newlines_id: "settled cs \<Longrightarrow> collapse_newlines cs = cs"
  by (induction cs) auto

lemma hd_collapse_newlines: "cs \<noteq> [] \<Longrightarrow> hd (collapse_newlines cs) = hd cs"
  by (induction cs) (auto dest: two_newlines_hd)

lemma collapse_newlines_Nil [simp]: "collapse_newlines cs = [] \<longleftrightarrow> cs = []"
  by (induction cs) auto

lemma collapse_blanks_Nil [simp]: "collapse_blanks cs = [] \<longleftrightarrow> cs = []"
  by (induction cs) auto

text \<open>After the blanks: no carriage return, no tab, no two spaces in a row.\<close>

fun blanks_settled :: "jstext \<Rightarrow> bool" where
  "blanks_settled [] \<longleftrightarrow> True"
| "blanks_settled (c # cs) \<longleftrightarrow>
     c \<noteq> 13 \<and> c \<noteq> 9 \<and> \<not> (c = 32 \<and> cs \<noteq> [] \<and> hd cs = 32) \<and> blanks_settled cs"

lemma hd_collapse_blanks:
  "cs \<noteq> [] \<Longrightarrow> hd (collapse_blanks cs) = (if blank (hd cs) then 32 else hd cs)"
  by (induction cs) auto

lemma collapse_blanks_settles: "13 \<notin> set cs \<Longrightarrow> blanks_settled (collapse_blanks cs)"
  by (induction cs) (auto simp: hd_collapse_blanks blank_def)

lemma collapse_newlines_settles: "blanks_settled cs \<Longrightarrow> settled (collapse_newlines cs)"
proof (induction cs)
  case (Cons c cs)
  have IH: "settled (collapse_newlines cs)" using Cons by simp
  show ?case
  proof (cases "c = 10 \<and> two_newlines cs")
    case True
    with IH show ?thesis by simp
  next
    case False
    have "\<not> two_newlines (collapse_newlines cs)" if c: "c = 10"
    proof
      assume t: "two_newlines (collapse_newlines cs)"
      then have ne: "cs \<noteq> []" and "hd (collapse_newlines cs) = 10"
        using two_newlines_hd by fastforce+
      then obtain ds where cs: "cs = 10 # ds"
        using hd_collapse_newlines [OF ne] by (cases cs) auto
      with False c have nd: "ds = [] \<or> hd ds \<noteq> 10" by (cases ds) auto
      then have "\<not> two_newlines ds" by (auto dest: two_newlines_hd)
      then have "collapse_newlines cs = 10 # collapse_newlines ds" using cs by simp
      with t have t': "two_newlines (10 # collapse_newlines ds)" by simp
      then have "collapse_newlines ds \<noteq> [] \<and> hd (collapse_newlines ds) = 10"
        by (cases "collapse_newlines ds") auto
      with nd hd_collapse_newlines [of ds] show False by simp
    qed
    then show ?thesis using False Cons.prems IH hd_collapse_newlines [of cs] by auto
  qed
qed simp

lemma settled_trim: "settled cs \<Longrightarrow> settled (js_trim_text cs)"
proof -
  assume s: "settled cs"
  obtain us vs where "cs = us @ js_trim_text cs @ vs"
    using trim_by_infix [of cs js_space_unit] unfolding js_trim_text_def by blast
  with s show ?thesis using settled_appendD by metis
qed

lemma normalizeTranscript_settled: "settled (normalizeTranscript t)"
  by (simp add: normalizeTranscript_def settled_trim collapse_newlines_settles
      collapse_blanks_settles replace_cr_no_cr)

lemma normalizeTranscript_fixed:
  assumes "settled t" and "js_trim_text t = t"
  shows "normalizeTranscript t = t"
  using assms settled_no_cr [OF assms(1)]
  by (simp add: normalizeTranscript_def replace_crlf_id replace_cr_id collapse_blanks_id
      collapse_newlines_id)

lemma js_trim_text_idem [simp]: "js_trim_text (js_trim_text t) = js_trim_text t"
  by (simp add: js_trim_text_def)

lemma normalizeTranscript_trimmed: "js_trim_text (normalizeTranscript t) = normalizeTranscript t"
  by (simp add: normalizeTranscript_def)

lemma normalize_idem: "normalizeTranscript (normalizeTranscript t) = normalizeTranscript t"
  by (rule normalizeTranscript_fixed [OF normalizeTranscript_settled normalizeTranscript_trimmed])

text \<open>Line ends do not matter: CR LF, CR and LF texts normalise alike.\<close>

definition to_crlf :: "jstext \<Rightarrow> jstext" where
  "to_crlf cs = concat (map (\<lambda>c. if c = 10 then [13, 10] else [c]) cs)"

definition to_cr :: "jstext \<Rightarrow> jstext" where
  "to_cr = map (\<lambda>c. if c = 10 then 13 else c)"

lemma replace_crlf_step: "c \<noteq> 13 \<Longrightarrow> replace_crlf (c # cs) = c # replace_crlf cs"
  by (cases cs) auto

lemma replace_crlf_to_crlf:
  assumes "13 \<notin> set cs"
  shows "replace_crlf (to_crlf cs) = cs"
  using assms
proof (induction cs)
  case (Cons c cs)
  then show ?case by (auto simp: to_crlf_def replace_crlf_step)
qed (simp add: to_crlf_def)

lemma replace_crlf_no_lf: "10 \<notin> set cs \<Longrightarrow> replace_crlf cs = cs"
  by (induction cs rule: replace_crlf.induct) auto

lemma normalize_line_ends:
  assumes "13 \<notin> set t"
  shows "normalizeTranscript (to_crlf t) = normalizeTranscript t"
    and "normalizeTranscript (to_cr t) = normalizeTranscript t"
proof -
  show "normalizeTranscript (to_crlf t) = normalizeTranscript t"
    using assms by (simp add: normalizeTranscript_def replace_crlf_to_crlf replace_crlf_id)
  have "10 \<notin> set (to_cr t)" by (auto simp: to_cr_def)
  then have "replace_cr (replace_crlf (to_cr t)) = t"
    using assms by (auto simp: replace_crlf_no_lf replace_cr_def to_cr_def intro!: map_idI)
  then show "normalizeTranscript (to_cr t) = normalizeTranscript t"
    using assms by (simp add: normalizeTranscript_def replace_crlf_id replace_cr_id)
qed

subsection \<open>The properties\<close>

text \<open>
  C15: The normal form is a normal form.  A normalised transcript has no carriage return or
  tab, no two spaces and no three line feeds in a row and no white space at its ends, the
  texts with these properties are exactly the ones normalisation leaves alone, and
  normalising twice is normalising once; so the stored text of a version hashes to its
  stored hash.
\<close>

theorem transcript_normal_form:
  "settled (normalizeTranscript t) \<and> js_trim_text (normalizeTranscript t) = normalizeTranscript t
   \<and> (normalizeTranscript u = u \<longleftrightarrow> settled u \<and> js_trim_text u = u)
   \<and> computeTranscriptHash sha256 (normalizeTranscript t) = computeTranscriptHash sha256 t"
  using normalizeTranscript_settled normalizeTranscript_trimmed normalizeTranscript_fixed [of u] normalize_idem
  by (metis computeTranscriptHash_def)

lemma transcript_normal_form_witness:
  "normalizeTranscript [32, 104, 9, 32, 105, 13, 10, 13, 13, 13, 106] = [104, 32, 105, 10, 10, 106]
   \<and> settled (normalizeTranscript [32, 104, 9, 32, 105, 13, 10, 13, 13, 13, 106])"
  using transcript_normal_form by code_simp

text \<open>
  the hash does not depend on the line ends.  A text with LF line ends, the same text
  with CR LF and the same text with CR have one hash.
\<close>

theorem transcript_hash_line_ends:
  assumes "13 \<notin> set t"
  shows "computeTranscriptHash sha256 (to_crlf t) = computeTranscriptHash sha256 t
    \<and> computeTranscriptHash sha256 (to_cr t) = computeTranscriptHash sha256 t"
  using normalize_line_ends [OF assms] by (simp add: computeTranscriptHash_def)

lemma transcript_hash_line_ends_witness:
  "computeTranscriptHash (map (\<lambda>u. char_of (unat u))) [104, 13, 10, 105] = ''h'' @ [CHR 0x0A] @ ''i''"
proof -
  have "to_crlf [104, 10, 105] = [104, 13, 10, 105]" by code_simp
  moreover have "computeTranscriptHash (map (\<lambda>u. char_of (unat u))) [104, 10, 105] = ''h'' @ [CHR 0x0A] @ ''i''"
    by code_simp
  ultimately show ?thesis
    using transcript_hash_line_ends [of "[104, 10, 105]" "map (\<lambda>u. char_of (unat u))"] by simp
qed

end
