(* ===== verification/Database.thy ===== *)
theory Database
  imports Domain Transcript
begin

text \<open>
  The rows of the five tables (\<open>src/db/schema\<close>), one record field per column, and the
  database as the record of the tables.  Rows are kept in insertion order.
\<close>

subsection \<open>Source versions\<close>

record source_version =
  sv_id :: string
  sv_tenantId :: string
  sv_projectId :: string
  sv_versionNumber :: int
  sv_contentHash :: string
  sv_transcriptText :: jstext
  sv_createdAt :: time

subsection \<open>Content jobs and their events\<close>

record content_row =
  cr_id :: string
  cr_tenantId :: string
  cr_projectId :: string
  cr_sourceVersionId :: string
  cr_status :: content_status
  cr_currentStage :: content_stage
  cr_idempotencyKey :: string
  cr_requestFingerprint :: string
  cr_attemptCount :: int
  cr_result :: "processing_result option"
  cr_errorCode :: "string option"
  cr_errorMessage :: "string option"
  cr_correlationId :: string
  cr_leaseOwner :: "string option"
  cr_leaseExpiresAt :: "time option"
  cr_heartbeatAt :: "time option"
  cr_nextAttemptAt :: "time option"
  cr_createdAt :: time
  cr_startedAt :: "time option"
  cr_completedAt :: "time option"
  cr_updatedAt :: time

datatype job_event_type =
    JobCreated | JobClaimed | JobLeaseAcquired | JobProcessingStarted | JobCompleted
  | JobRetryScheduled | JobFailed | JobCancelled | JobLeaseExpired

text \<open>
  The details of an event are an object of scalars, kept as labelled values, or the whole
  result of a job.
\<close>

datatype detail = DText string | DInt int | DBool bool | DTime time | DNull

datatype event_details = Details "(string \<times> detail) list" | ResultDetails processing_result

record job_event =
  je_id :: string
  je_tenantId :: string
  je_jobId :: string
  je_eventType :: job_event_type
  je_priorStatus :: "content_status option"
  je_newStatus :: "content_status option"
  je_details :: "event_details option"
  je_createdAt :: time

subsection \<open>Publish jobs and their events\<close>

record artifact_snapshot =
  as_artifactId :: string
  as_payloadRepresentation :: string
  as_mimeType :: string
  as_fileExtension :: string
  as_payload :: string
  as_byteSize :: int
  as_checksumSha256 :: string

record download_metadata =
  dm_fileName :: string
  dm_mimeType :: string
  dm_byteSize :: "int option"
  dm_checksumSha256 :: "string option"
  dm_downloadUrl :: "string option"
  dm_expiresAt :: "string option"

record publish_row =
  pr_id :: string
  pr_tenantId :: string
  pr_projectId :: string
  pr_sourceContentJobId :: string
  pr_sourceRenderArtifactId :: string
  pr_sourceArtifactChecksumSha256 :: string
  pr_sourceArtifactByteSize :: int
  pr_sourceArtifactSnapshot :: artifact_snapshot
  pr_publishMode :: publish_mode
  pr_outputFormat :: output_format
  pr_renderOptions :: "render_options option"
  pr_publicationMetadata :: "publication_metadata option"
  pr_status :: publish_status
  pr_stage :: publish_stage
  pr_idempotencyKey :: string
  pr_requestFingerprint :: string
  pr_remoteSubmissionIdempotencyKey :: string
  pr_remoteJobId :: "string option"
  pr_remoteState :: "string option"
  pr_remoteCorrelationId :: "string option"
  pr_remoteErrorCode :: "string option"
  pr_remoteErrorMessage :: "string option"
  pr_downloadMetadata :: "download_metadata option"
  pr_attemptCount :: int
  pr_consecutiveFailureCount :: int
  pr_pollCount :: int
  pr_correlationId :: string
  pr_leaseOwner :: "string option"
  pr_leaseExpiresAt :: "time option"
  pr_heartbeatAt :: "time option"
  pr_nextAttemptAt :: "time option"
  pr_nextPollAt :: "time option"
  pr_submittedAt :: "time option"
  pr_lastPolledAt :: "time option"
  pr_completedAt :: "time option"
  pr_cancelledAt :: "time option"
  pr_createdAt :: time
  pr_updatedAt :: time

record publish_event =
  pe_id :: string
  pe_tenantId :: string
  pe_publishJobId :: string
  pe_eventType :: publish_event_type
  pe_priorStatus :: "publish_status option"
  pe_newStatus :: "publish_status option"
  pe_details :: "(string \<times> detail) list option"
  pe_createdAt :: time

subsection \<open>The database\<close>

record db =
  sourceVersions :: "source_version list"
  contentJobs :: "content_row list"
  jobEvents :: "job_event list"
  publishJobs :: "publish_row list"
  publishJobEvents :: "publish_event list"

definition empty_db :: db where
  "empty_db = \<lparr>sourceVersions = [], contentJobs = [], jobEvents = [], publishJobs = [],
     publishJobEvents = []\<rparr>"

end
