(* ===== verification/PublishJobs.thy ===== *)
theory PublishJobs
  imports Database
begin

text \<open>
  The publish-job repository
  (\<open>src/infrastructure/repositories/drizzle-publish-job-repository.ts\<close>), the claim and lease
  renewal of the publish worker
  (\<open>src/infrastructure/publish-jobs/database-publish-job-source.ts\<close>) and the use cases that
  only call them.

  As for content jobs, \<open>fault\<close> fails a transaction and \<open>snap\<close> is what its selects read.  The
  operations that record what the Publish Engine answered are not transactions: an update,
  then one or two event inserts, each a statement of its own.  There \<open>fault\<close> is the number of
  the statement that fails, and what was done before it stays.
\<close>

subsection \<open>Rows and jobs\<close>

text \<open>A \<open>PublishJob\<close> has the columns of its row; the mapping only checks the two enumerations.\<close>

definition mapPublishJob :: "publish_row \<Rightarrow> platform_error + publish_row" where
  "mapPublishJob row =
     (case assertKnownStatus (publish_status_name (pr_status row)) of
        Inl e \<Rightarrow> Inl e
      | Inr status \<Rightarrow>
          (case assertKnownStage (publish_stage_name (pr_stage row)) of
             Inl e \<Rightarrow> Inl e
           | Inr stage \<Rightarrow> Inr (row\<lparr>pr_status := status, pr_stage := stage\<rparr>)))"

lemma mapPublishJob_row [simp]: "mapPublishJob row = Inr row"
  by (simp add: mapPublishJob_def)

definition pj_event ::
  "string \<Rightarrow> publish_event_type \<Rightarrow> publish_status option \<Rightarrow> publish_status \<Rightarrow> (string \<times> detail) list option
     \<Rightarrow> time \<Rightarrow> publish_row \<Rightarrow> publish_event" where
  "pj_event evtId eventType prior new details now row =
     \<lparr>pe_id = evtId, pe_tenantId = pr_tenantId row, pe_publishJobId = pr_id row,
      pe_eventType = eventType, pe_priorStatus = prior, pe_newStatus = Some new,
      pe_details = details, pe_createdAt = now\<rparr>"

fun text_or_null :: "string option \<Rightarrow> detail" where
  "text_or_null None = DNull"
| "text_or_null (Some s) = DText s"

fun time_or_null :: "time option \<Rightarrow> detail" where
  "time_or_null None = DNull"
| "time_or_null (Some t) = DTime t"

definition or_else :: "'a option \<Rightarrow> 'a option \<Rightarrow> 'a option" where
  "or_else a b = (case a of Some x \<Rightarrow> Some x | None \<Rightarrow> b)"

subsection \<open>Creation and reading\<close>

record create_publish_input =
  cpi_tenantId :: string
  cpi_projectId :: string
  cpi_sourceContentJobId :: string
  cpi_sourceRenderArtifactId :: string
  cpi_sourceArtifactSnapshot :: artifact_snapshot
  cpi_publishMode :: publish_mode
  cpi_outputFormat :: output_format
  cpi_renderOptions :: "render_options option"
  cpi_publicationMetadata :: "publication_metadata option"
  cpi_idempotencyKey :: string
  cpi_requestFingerprint :: string
  cpi_remoteSubmissionIdempotencyKey :: string
  cpi_correlationId :: string

definition pj_new_row ::
  "create_publish_input \<Rightarrow> string \<Rightarrow> string \<Rightarrow> string \<Rightarrow> string \<Rightarrow> time \<Rightarrow> publish_row" where
  "pj_new_row input idempotencyKey requestFingerprint remoteKey newId now =
     \<lparr>pr_id = newId, pr_tenantId = cpi_tenantId input, pr_projectId = cpi_projectId input,
      pr_sourceContentJobId = cpi_sourceContentJobId input,
      pr_sourceRenderArtifactId = cpi_sourceRenderArtifactId input,
      pr_sourceArtifactChecksumSha256 = as_checksumSha256 (cpi_sourceArtifactSnapshot input),
      pr_sourceArtifactByteSize = as_byteSize (cpi_sourceArtifactSnapshot input),
      pr_sourceArtifactSnapshot = cpi_sourceArtifactSnapshot input,
      pr_publishMode = cpi_publishMode input, pr_outputFormat = cpi_outputFormat input,
      pr_renderOptions = cpi_renderOptions input,
      pr_publicationMetadata = cpi_publicationMetadata input,
      pr_status = PQueued, pr_stage = PSQueued, pr_idempotencyKey = idempotencyKey,
      pr_requestFingerprint = requestFingerprint, pr_remoteSubmissionIdempotencyKey = remoteKey,
      pr_remoteJobId = None, pr_remoteState = None, pr_remoteCorrelationId = None,
      pr_remoteErrorCode = None, pr_remoteErrorMessage = None, pr_downloadMetadata = None,
      pr_attemptCount = 0, pr_consecutiveFailureCount = 0, pr_pollCount = 0,
      pr_correlationId = cpi_correlationId input, pr_leaseOwner = None, pr_leaseExpiresAt = None,
      pr_heartbeatAt = None, pr_nextAttemptAt = Some now, pr_nextPollAt = Some now,
      pr_submittedAt = None, pr_lastPolledAt = None, pr_completedAt = None, pr_cancelledAt = None,
      pr_createdAt = now, pr_updatedAt = now\<rparr>"

fun publish_mode_name :: "publish_mode \<Rightarrow> string" where
  "publish_mode_name PStandard = ''standard''"
| "publish_mode_name PCtaGuide = ''cta-guide''"

fun output_format_name :: "output_format \<Rightarrow> string" where
  "output_format_name Html = ''html''"
| "output_format_name Pdf = ''pdf''"
| "output_format_name Epub = ''epub''"

definition pj_by_key :: "string \<Rightarrow> string \<Rightarrow> db \<Rightarrow> publish_row option" where
  "pj_by_key tenantId key d =
     find_first (\<lambda>r. pr_tenantId r = tenantId \<and> pr_idempotencyKey r = key) (publishJobs d)"

definition pj_reuse :: "publish_row \<Rightarrow> string \<Rightarrow> platform_error + publish_row" where
  "pj_reuse existing requestFingerprint =
     (if pr_requestFingerprint existing \<noteq> requestFingerprint then
        Inl (ConflictError PUBLISH_JOB_IDEMPOTENCY_CONFLICT
               ''Idempotency key was reused with a different publish request.'')
      else mapPublishJob existing)"

definition pj_conflict :: "publish_row \<Rightarrow> publish_row list \<Rightarrow> bool" where
  "pj_conflict row rows \<longleftrightarrow>
     list_ex (\<lambda>r. pr_id r = pr_id row
        \<or> (pr_tenantId r = pr_tenantId row \<and> pr_idempotencyKey r = pr_idempotencyKey row)) rows"

definition pj_create_body ::
  "db \<Rightarrow> string \<Rightarrow> string \<Rightarrow> time \<Rightarrow> create_publish_input \<Rightarrow> string \<Rightarrow> string \<Rightarrow> db
     \<Rightarrow> caught + publish_row \<times> db" where
  "pj_create_body snap newId evtId now input idempotencyKey requestFingerprint d =
     (case find_first (\<lambda>r. cr_id r = cpi_sourceContentJobId input \<and> cr_tenantId r = cpi_tenantId input
                         \<and> cr_projectId r = cpi_projectId input) (contentJobs snap) of
        None \<Rightarrow> Inl (Thrown (NotFoundError ''Source content job'' (cpi_sourceContentJobId input)))
      | Some _ \<Rightarrow>
          (case pj_by_key (cpi_tenantId input) idempotencyKey snap of
             Some existing \<Rightarrow>
               thrown (map_sum id (\<lambda>j. (j, d)) (pj_reuse existing requestFingerprint))
           | None \<Rightarrow>
               (case ensureNonEmpty (cpi_remoteSubmissionIdempotencyKey input)
                       ''remoteSubmissionIdempotencyKey'' of
                  Inl e \<Rightarrow> Inl (Thrown e)
                | Inr remoteKey \<Rightarrow>
                    let created = pj_new_row input idempotencyKey requestFingerprint remoteKey newId now in
                    if pj_conflict created (publishJobs d) then Inl UniqueViolation
                    else thrown (map_sum id
                      (\<lambda>j. (j, d\<lparr>publishJobs := publishJobs d @ [created],
                         publishJobEvents := publishJobEvents d @
                           [pj_event evtId PublishJobCreated None (pr_status created)
                              (Some [(''sourceContentJobId'', DText (pr_sourceContentJobId created)),
                                     (''sourceRenderArtifactId'', DText (pr_sourceRenderArtifactId created)),
                                     (''outputFormat'', DText (output_format_name (pr_outputFormat created))),
                                     (''publishMode'', DText (publish_mode_name (pr_publishMode created)))])
                              now created]\<rparr>))
                      (mapPublishJob created)))))"

definition pj_createOrGetIdempotent ::
  "bool \<Rightarrow> db \<Rightarrow> string \<Rightarrow> string \<Rightarrow> time \<Rightarrow> create_publish_input \<Rightarrow> db
     \<Rightarrow> (platform_error + publish_row) \<times> db" where
  "pj_createOrGetIdempotent fault snap newId evtId now input d =
     checked (validateTenantId (cpi_tenantId input)) d (\<lambda>_.
     checked (ensureNonEmpty (cpi_idempotencyKey input) ''idempotencyKey'') d (\<lambda>idempotencyKey.
     checked (ensureNonEmpty (cpi_requestFingerprint input) ''requestFingerprint'') d (\<lambda>requestFingerprint.
       case transaction fault d
              (pj_create_body snap newId evtId now input idempotencyKey requestFingerprint d) of
         (Inr j, d') \<Rightarrow> (Inr j, d')
       | (Inl e, d') \<Rightarrow>
           (case (if isUniqueViolation e then pj_by_key (cpi_tenantId input) idempotencyKey d' else None) of
              Some existing \<Rightarrow> (pj_reuse existing requestFingerprint, d')
            | None \<Rightarrow>
                (Inl (toDatabaseUnavailableError e
                        ''Unable to create or read idempotent publish job.''), d')))))"

definition pj_getById :: "bool \<Rightarrow> string \<Rightarrow> string \<Rightarrow> db \<Rightarrow> platform_error + publish_row option" where
  "pj_getById fault tenantId publishJobId d =
     (case validateTenantId tenantId of
        Inl e \<Rightarrow> Inl e
      | Inr _ \<Rightarrow>
          if fault then Inl (PlatformError DATABASE_UNAVAILABLE ''Unable to fetch publish job by ID.'')
          else (case find_first (\<lambda>r. pr_tenantId r = tenantId \<and> pr_id r = publishJobId) (publishJobs d) of
                  None \<Rightarrow> Inr None
                | Some row \<Rightarrow> map_sum id Some (mapPublishJob row)))"

definition pj_listEvents ::
  "bool \<Rightarrow> string \<Rightarrow> string \<Rightarrow> db \<Rightarrow> platform_error + publish_event list" where
  "pj_listEvents fault tenantId publishJobId d =
     (case validateTenantId tenantId of
        Inl e \<Rightarrow> Inl e
      | Inr _ \<Rightarrow>
          if fault then Inl (PlatformError DATABASE_UNAVAILABLE ''Unable to list publish job events.'')
          else Inr (sort_key pe_createdAt
                 (filter (\<lambda>e. pe_tenantId e = tenantId \<and> pe_publishJobId e = publishJobId)
                    (publishJobEvents d))))"

definition getPublishJob :: "bool \<Rightarrow> string \<Rightarrow> string \<Rightarrow> db \<Rightarrow> platform_error + publish_row" where
  "getPublishJob fault tenantId publishJobId d =
     (case pj_getById fault tenantId publishJobId d of
        Inl e \<Rightarrow> Inl e
      | Inr None \<Rightarrow> Inl (NotFoundError ''Publish job'' publishJobId)
      | Inr (Some j) \<Rightarrow> Inr j)"

definition getPublishJobEvents ::
  "bool \<Rightarrow> bool \<Rightarrow> string \<Rightarrow> string \<Rightarrow> db \<Rightarrow> platform_error + publish_event list" where
  "getPublishJobEvents fault fault' tenantId publishJobId d =
     (case pj_getById fault tenantId publishJobId d of
        Inl e \<Rightarrow> Inl e
      | Inr None \<Rightarrow> Inl (NotFoundError ''Publish job'' publishJobId)
      | Inr (Some j) \<Rightarrow> pj_listEvents fault' tenantId publishJobId d)"

subsection \<open>Claiming\<close>

definition lease_open :: "time \<Rightarrow> publish_row \<Rightarrow> bool" where
  "lease_open now r \<longleftrightarrow> (case pr_leaseExpiresAt r of None \<Rightarrow> True | Some t \<Rightarrow> t \<le> now)"

definition reached :: "time option \<Rightarrow> time \<Rightarrow> bool" where
  "reached t now \<longleftrightarrow> (case t of None \<Rightarrow> False | Some u \<Rightarrow> u \<le> now)"

definition pj_due :: "time \<Rightarrow> publish_row \<Rightarrow> bool" where
  "pj_due now r \<longleftrightarrow>
     pr_status r \<in> {PQueued, PRetrying, PWaiting}
     \<and> pr_cancelledAt r = None \<and> pr_completedAt r = None
     \<and> (reached (pr_nextAttemptAt r) now
        \<or> (pr_nextAttemptAt r = None \<and> reached (pr_nextPollAt r) now))
     \<and> lease_open now r"

definition pj_lease :: "string \<Rightarrow> int \<Rightarrow> time \<Rightarrow> publish_row \<Rightarrow> publish_row" where
  "pj_lease workerId leaseDurationMs now r =
     r\<lparr>pr_status := PProcessing, pr_leaseOwner := Some workerId,
       pr_leaseExpiresAt := Some (now + leaseDurationMs), pr_heartbeatAt := Some now,
       pr_attemptCount := pr_attemptCount r + 1, pr_updatedAt := now\<rparr>"

definition pj_claimed_event ::
  "string \<Rightarrow> publish_status \<Rightarrow> string \<Rightarrow> time option \<Rightarrow> time \<Rightarrow> publish_row \<Rightarrow> publish_event" where
  "pj_claimed_event evtId prior workerId leaseExpiresAt now row =
     pj_event evtId PublishJobClaimed (Some prior) (pr_status row)
       (Some [(''workerId'', DText workerId), (''leaseExpiresAt'', time_or_null leaseExpiresAt)]) now row"

definition pj_claim_key :: "publish_row \<Rightarrow> (int \<times> int) \<times> (int \<times> int) \<times> int" where
  "pj_claim_key r = (nulls_last (pr_nextAttemptAt r), nulls_last (pr_nextPollAt r), pr_createdAt r)"

definition pj_claim_body ::
  "db \<Rightarrow> string \<Rightarrow> string \<Rightarrow> int \<Rightarrow> time \<Rightarrow> db \<Rightarrow> caught + publish_row option \<times> db" where
  "pj_claim_body snap evtId workerId leaseDurationMs now d =
     (case order_first pj_claim_key (pj_due now) (publishJobs snap) of
        None \<Rightarrow> Inr (None, d)
      | Some candidate \<Rightarrow>
          (case update_returning
             (\<lambda>r. pr_id r = pr_id candidate \<and> pr_status r = pr_status candidate \<and> lease_open now r)
             (pj_lease workerId leaseDurationMs now) (publishJobs d) of
             (None, _) \<Rightarrow> Inr (None, d)
           | (Some claimed, jobs) \<Rightarrow>
               thrown (map_sum id
                 (\<lambda>j. (Some j, d\<lparr>publishJobs := jobs,
                    publishJobEvents := publishJobEvents d @
                      [pj_claimed_event evtId (pr_status candidate) workerId
                         (Some (now + leaseDurationMs)) now claimed]\<rparr>))
                 (mapPublishJob claimed))))"

definition pj_claimNextDue ::
  "bool \<Rightarrow> db \<Rightarrow> string \<Rightarrow> string \<Rightarrow> int \<Rightarrow> time \<Rightarrow> db \<Rightarrow> (platform_error + publish_row option) \<times> db" where
  "pj_claimNextDue fault snap evtId workerId leaseDurationMs now d =
     checked (ensureNonEmpty workerId ''workerId'') d (\<lambda>workerId.
       or_unavailable ''Unable to claim next publish job.''
         (transaction fault d (pj_claim_body snap evtId workerId leaseDurationMs now d)))"

text \<open>The worker's own claim (\<open>DatabasePublishJobSource.acquireNext\<close>).\<close>

record claimed_publish_job =
  cp_tenantId :: string
  cp_publishJobId :: string
  cp_workerId :: string
  cp_leaseExpiresAt :: time

definition ps_due :: "time \<Rightarrow> publish_row \<Rightarrow> bool" where
  "ps_due now r \<longleftrightarrow>
     (pr_status r = PQueued
      \<or> (pr_status r = PRetrying \<and> reached (pr_nextAttemptAt r) now)
      \<or> (pr_status r = PWaiting \<and> reached (pr_nextPollAt r) now))
     \<and> lease_open now r"

definition ps_order_key :: "publish_row \<Rightarrow> int \<times> int" where
  "ps_order_key r =
     (case pr_nextAttemptAt r of Some t \<Rightarrow> t
      | None \<Rightarrow> (case pr_nextPollAt r of Some t \<Rightarrow> t | None \<Rightarrow> pr_createdAt r), pr_createdAt r)"

definition ps_candidate :: "(string \<Rightarrow> bool) \<Rightarrow> time \<Rightarrow> db \<Rightarrow> publish_row option" where
  "ps_candidate locked now d =
     order_first ps_order_key (\<lambda>r. ps_due now r \<and> \<not> locked (pr_id r)) (publishJobs d)"

definition ps_acquire_body ::
  "(string \<Rightarrow> bool) \<Rightarrow> db \<Rightarrow> string \<Rightarrow> string \<Rightarrow> int \<Rightarrow> time \<Rightarrow> db
     \<Rightarrow> caught + claimed_publish_job option \<times> db" where
  "ps_acquire_body locked snap evtId workerId leaseDurationMs now d =
     (case ps_candidate locked now snap of
        None \<Rightarrow> Inr (None, d)
      | Some candidate \<Rightarrow>
          (case update_returning
             (\<lambda>r. pr_id r = pr_id candidate \<and> pr_tenantId r = pr_tenantId candidate
                \<and> pr_status r = pr_status candidate \<and> lease_open now r)
             (pj_lease workerId leaseDurationMs now) (publishJobs d) of
             (None, _) \<Rightarrow> Inr (None, d)
           | (Some updated, jobs) \<Rightarrow>
               (case pr_leaseExpiresAt updated of
                  None \<Rightarrow> Inr (None, d\<lparr>publishJobs := jobs\<rparr>)
                | Some expires \<Rightarrow>
                    Inr (Some \<lparr>cp_tenantId = pr_tenantId updated, cp_publishJobId = pr_id updated,
                               cp_workerId = workerId, cp_leaseExpiresAt = expires\<rparr>,
                         d\<lparr>publishJobs := jobs,
                           publishJobEvents := publishJobEvents d @
                             [pj_claimed_event evtId (pr_status candidate) workerId (Some expires)
                                now updated]\<rparr>))))"

definition ps_acquireNext ::
  "bool \<Rightarrow> (string \<Rightarrow> bool) \<Rightarrow> db \<Rightarrow> string \<Rightarrow> string \<Rightarrow> int \<Rightarrow> time \<Rightarrow> db
     \<Rightarrow> (platform_error + claimed_publish_job option) \<times> db" where
  "ps_acquireNext fault locked snap evtId workerId leaseDurationMs now d =
     or_unavailable ''Unable to acquire next publish job.''
       (transaction fault d (ps_acquire_body locked snap evtId workerId leaseDurationMs now d))"

subsection \<open>Keeping a lease\<close>

definition pj_mine :: "string \<Rightarrow> string \<Rightarrow> string \<Rightarrow> publish_row \<Rightarrow> bool" where
  "pj_mine tenantId publishJobId workerId r \<longleftrightarrow>
     pr_tenantId r = tenantId \<and> pr_id r = publishJobId \<and> pr_status r = PProcessing
     \<and> pr_leaseOwner r = Some workerId"

definition pj_held :: "string \<Rightarrow> string \<Rightarrow> string \<Rightarrow> time \<Rightarrow> publish_row \<Rightarrow> bool" where
  "pj_held tenantId publishJobId workerId now r \<longleftrightarrow>
     pj_mine tenantId publishJobId workerId r
     \<and> (case pr_leaseExpiresAt r of None \<Rightarrow> False | Some t \<Rightarrow> t > now)"

definition ps_renewLease ::
  "bool \<Rightarrow> string \<Rightarrow> string \<Rightarrow> string \<Rightarrow> int \<Rightarrow> time \<Rightarrow> db
     \<Rightarrow> (platform_error + claimed_publish_job option) \<times> db" where
  "ps_renewLease fault tenantId publishJobId workerId leaseDurationMs now d =
     (if fault then (Inl (PlatformError DATABASE_UNAVAILABLE ''Unable to renew publish job lease.''), d)
      else case update_returning (pj_held tenantId publishJobId workerId now)
             (\<lambda>r. r\<lparr>pr_leaseExpiresAt := Some (now + leaseDurationMs),
                    pr_heartbeatAt := Some now, pr_updatedAt := now\<rparr>) (publishJobs d) of
             (None, _) \<Rightarrow> (Inr None, d)
           | (Some renewed, jobs) \<Rightarrow>
               (Inr (map_option (\<lambda>expires. \<lparr>cp_tenantId = pr_tenantId renewed,
                       cp_publishJobId = pr_id renewed, cp_workerId = workerId,
                       cp_leaseExpiresAt = expires\<rparr>) (pr_leaseExpiresAt renewed)),
                d\<lparr>publishJobs := jobs\<rparr>))"

definition pj_heartbeat ::
  "bool \<Rightarrow> string \<Rightarrow> string \<Rightarrow> string \<Rightarrow> int \<Rightarrow> time \<Rightarrow> db
     \<Rightarrow> (platform_error + publish_row option) \<times> db" where
  "pj_heartbeat fault tenantId publishJobId workerId leaseDurationMs now d =
     checked (ensureNonEmpty workerId ''workerId'') d (\<lambda>workerId.
       if fault then (Inl (PlatformError DATABASE_UNAVAILABLE ''Unable to heartbeat publish job lease.''), d)
       else case update_returning
              (\<lambda>r. pj_mine tenantId publishJobId workerId r
                 \<and> (case pr_leaseExpiresAt r of None \<Rightarrow> True | Some t \<Rightarrow> t \<ge> now))
              (\<lambda>r. r\<lparr>pr_heartbeatAt := Some now, pr_leaseExpiresAt := Some (now + leaseDurationMs),
                     pr_updatedAt := now\<rparr>) (publishJobs d) of
              (None, _) \<Rightarrow> (Inr None, d)
            | (Some row, jobs) \<Rightarrow> (map_sum id Some (mapPublishJob row), d\<lparr>publishJobs := jobs\<rparr>))"

definition pj_stage_body ::
  "db \<Rightarrow> string \<Rightarrow> string \<Rightarrow> string \<Rightarrow> string \<Rightarrow> publish_stage \<Rightarrow> time \<Rightarrow> db
     \<Rightarrow> caught + publish_row option \<times> db" where
  "pj_stage_body snap evtId tenantId publishJobId workerId stage now d =
     (case find_first (pj_mine tenantId publishJobId workerId) (publishJobs snap) of
        None \<Rightarrow> Inr (None, d)
      | Some current \<Rightarrow>
          (case update_returning (pj_mine (pr_tenantId current) (pr_id current) workerId)
             (\<lambda>r. r\<lparr>pr_stage := stage, pr_updatedAt := now\<rparr>) (publishJobs d) of
             (None, _) \<Rightarrow> Inr (None, d)
           | (Some updated, jobs) \<Rightarrow>
               thrown (map_sum id
                 (\<lambda>j. (Some j, d\<lparr>publishJobs := jobs,
                    publishJobEvents := publishJobEvents d @
                      [pj_event evtId PublishStatusPolled (Some (pr_status current)) (pr_status updated)
                         (Some [(''priorStage'', DText (publish_stage_name (pr_stage current))),
                                (''newStage'', DText (publish_stage_name (pr_stage updated)))])
                         now updated]\<rparr>))
                 (mapPublishJob updated))))"

definition pj_setStage ::
  "bool \<Rightarrow> db \<Rightarrow> string \<Rightarrow> string \<Rightarrow> string \<Rightarrow> string \<Rightarrow> publish_stage \<Rightarrow> time \<Rightarrow> db
     \<Rightarrow> (platform_error + publish_row option) \<times> db" where
  "pj_setStage fault snap evtId tenantId publishJobId workerId stage now d =
     checked (ensureNonEmpty workerId ''workerId'') d (\<lambda>workerId.
       or_unavailable ''Unable to update publish job stage.''
         (transaction fault d (pj_stage_body snap evtId tenantId publishJobId workerId stage now d)))"

end
