(* ===== verification/Retry.thy ===== *)
theory Retry
  imports Prelude Complex_Main
begin

text \<open>
  Delays between attempts (\<open>src/application/workers/retry-policy.ts\<close>) and the retry rules
  of the Publish Engine client
  (\<open>src/infrastructure/publish-engine/publish-engine-retry-policy.ts\<close>).  Durations are
  whole milliseconds.  The jitter is computed in doubles, modelled as exact rationals; a
  draw of \<open>random\<close> is the field \<open>random\<close>.
\<close>

record retry_policy =
  baseDelayMs :: int
  maxDelayMs :: int
  maxAttempts :: int
  jitterRatio :: "rat option"
  random :: rat

definition calculateRetryDelayMs :: "int \<Rightarrow> retry_policy \<Rightarrow> int" where
  "calculateRetryDelayMs attemptNumber config =
     (if attemptNumber \<le> 0 then 0
      else
        let exponentialDelay = baseDelayMs config * 2 ^ nat (attemptNumber - 1);
            cappedDelay = min (maxDelayMs config) exponentialDelay;
            ratio = (case jitterRatio config of None \<Rightarrow> 0 | Some r \<Rightarrow> r)
        in if ratio \<le> 0 then max 0 cappedDelay
           else
             let jitterFactor = 1 + (random config * 2 - 1) * ratio
             in max 0 \<lfloor>of_int cappedDelay * jitterFactor\<rfloor>)"

datatype retry_decision = NoRetry | Retry (rd_delayMs: int) (rd_nextAttemptAt: time)

definition evaluateRetry :: "int \<Rightarrow> time \<Rightarrow> bool \<Rightarrow> retry_policy \<Rightarrow> retry_decision" where
  "evaluateRetry attemptCount now retryable config =
     (if \<not> retryable \<or> attemptCount \<ge> maxAttempts config then NoRetry
      else
        let nextAttemptNumber = attemptCount + 1;
            delayMs = calculateRetryDelayMs nextAttemptNumber config
        in Retry delayMs (now + delayMs))"

subsection \<open>Bounds of the delay\<close>

lemma delay_nonneg: "0 \<le> calculateRetryDelayMs n c"
  by (simp add: calculateRetryDelayMs_def Let_def)

lemma delay_no_jitter:
  assumes "jitterRatio c = None" and "0 < n"
  shows "calculateRetryDelayMs n c = max 0 (min (maxDelayMs c) (baseDelayMs c * 2 ^ nat (n - 1)))"
  using assms by (simp add: calculateRetryDelayMs_def)

lemma delay_le_max:
  assumes "jitterRatio c = None" and "0 \<le> maxDelayMs c"
  shows "calculateRetryDelayMs n c \<le> maxDelayMs c"
  using assms by (auto simp: calculateRetryDelayMs_def)

lemma delay_mono:
  assumes "jitterRatio c = None" and "0 \<le> baseDelayMs c" and "m \<le> n"
  shows "calculateRetryDelayMs m c \<le> calculateRetryDelayMs n c"
proof (cases "m \<le> 0")
  case True
  then show ?thesis using delay_nonneg [of n c] by (simp add: calculateRetryDelayMs_def)
next
  case False
  have "baseDelayMs c * 2 ^ nat (m - 1) \<le> baseDelayMs c * 2 ^ nat (n - 1)"
    using assms(2,3) by (intro mult_left_mono power_increasing) auto
  then show ?thesis using False assms by (simp add: delay_no_jitter)
qed

text \<open>With jitter the delay stays within the ratio of the capped delay.\<close>

lemma delay_jitter_bound:
  assumes r: "jitterRatio c = Some r" "0 \<le> r"
    and rnd: "0 \<le> random c" "random c \<le> 1"
    and base: "0 \<le> baseDelayMs c" "0 \<le> maxDelayMs c"
  shows "of_int (calculateRetryDelayMs n c) \<le> (1 + r) * of_int (maxDelayMs c)"
proof (cases "n \<le> 0 \<or> r = 0")
  case True
  have "of_int (calculateRetryDelayMs n c) \<le> (of_int (maxDelayMs c) :: rat)"
    using True r base by (auto simp: calculateRetryDelayMs_def)
  also have "\<dots> \<le> (1 + r) * of_int (maxDelayMs c)"
    using r(2) base(2) by (simp add: algebra_simps)
  finally show ?thesis .
next
  case False
  let ?cap = "min (maxDelayMs c) (baseDelayMs c * 2 ^ nat (n - 1))"
  let ?f = "1 + (random c * 2 - 1) * r"
  have cap: "0 \<le> ?cap" "?cap \<le> maxDelayMs c" using base by auto
  have "(random c * 2 - 1) * r \<le> 1 * r" using rnd r(2) by (intro mult_right_mono) auto
  then have f: "?f \<le> 1 + r" by simp
  have "of_int ?cap * ?f \<le> of_int ?cap * (1 + r)"
    using f cap(1) by (intro mult_left_mono) auto
  also have "\<dots> \<le> of_int (maxDelayMs c) * (1 + r)"
    using cap(2) r(2) by (intro mult_right_mono) auto
  finally have "of_int ?cap * ?f \<le> (1 + r) * of_int (maxDelayMs c)" by (simp add: mult.commute)
  moreover have "of_int \<lfloor>of_int ?cap * ?f\<rfloor> \<le> of_int ?cap * ?f" by (rule of_int_floor_le)
  moreover have "0 \<le> (1 + r) * of_int (maxDelayMs c)" using r(2) base(2) by simp
  ultimately show ?thesis using False r
    by (simp add: calculateRetryDelayMs_def Let_def) linarith
qed

lemma evaluateRetry_Retry:
  "evaluateRetry n t rt c = Retry d due \<Longrightarrow>
     rt \<and> n < maxAttempts c \<and> d = calculateRetryDelayMs (n + 1) c \<and> due = t + d \<and> t \<le> due"
  using delay_nonneg [of "n + 1" c] by (auto simp: evaluateRetry_def Let_def split: if_splits)

subsection \<open>Retry rules of the Publish Engine client\<close>

datatype operation_type = Submission | Read

record retry_context =
  rc_operationType :: operation_type
  rc_hasIdempotencyKey :: bool

definition isRetryableStatus :: "int \<Rightarrow> bool" where
  "isRetryableStatus status \<longleftrightarrow>
     status = 408 \<or> status = 429 \<or> status = 502 \<or> status = 503 \<or> status = 504"

definition shouldRetryOperation :: "retry_context \<Rightarrow> bool" where
  "shouldRetryOperation context =
     (if rc_operationType context = Read then True else rc_hasIdempotencyKey context)"

definition resolveRetryDelayMs :: "int \<Rightarrow> int option \<Rightarrow> retry_policy \<Rightarrow> int \<Rightarrow> int" where
  "resolveRetryDelayMs attemptNumber retryAfterMs retryPolicy remainingBudgetMs =
     (let base = (case retryAfterMs of Some r \<Rightarrow> r
                  | None \<Rightarrow> calculateRetryDelayMs attemptNumber retryPolicy);
          bounded = min (min base (maxDelayMs retryPolicy)) remainingBudgetMs
      in max 0 bounded)"

text \<open>
  \<open>Retry-After\<close>: \<open>toNumber\<close> is the language's conversion of a trimmed header to a finite
  number (\<open>None\<close> for NaN or an infinity) and \<open>parseDate\<close> is \<open>Date.parse\<close>; both are
  arguments.
\<close>

definition parseRetryAfterMs ::
  "(string \<Rightarrow> rat option) \<Rightarrow> (string \<Rightarrow> time option) \<Rightarrow> string option \<Rightarrow> time \<Rightarrow> int option" where
  "parseRetryAfterMs toNumber parseDate headerValue nowMs =
     (case headerValue of
        None \<Rightarrow> None
      | Some h \<Rightarrow>
          if h = [] then None
          else let trimmed = js_trim h in
            if length trimmed = 0 then None
            else case toNumber trimmed of
              Some asSeconds \<Rightarrow> if asSeconds < 0 then None else Some \<lfloor>asSeconds * 1000\<rfloor>
            | None \<Rightarrow>
                (case parseDate trimmed of
                   None \<Rightarrow> None
                 | Some asDate \<Rightarrow> let delta = asDate - nowMs in Some (if delta < 0 then 0 else delta)))"

lemma resolveRetryDelayMs_bounds:
  assumes "0 \<le> maxDelayMs p" and "0 \<le> budget"
  shows "0 \<le> resolveRetryDelayMs n ra p budget"
    and "resolveRetryDelayMs n ra p budget \<le> maxDelayMs p"
    and "resolveRetryDelayMs n ra p budget \<le> budget"
  using assms by (auto simp: resolveRetryDelayMs_def Let_def)

lemma parseRetryAfterMs_nonneg: "parseRetryAfterMs tn pd h now = Some d \<Longrightarrow> 0 \<le> d"
  by (auto simp: parseRetryAfterMs_def Let_def split: option.splits if_splits)

subsection \<open>The properties\<close>

definition jitter_of :: "retry_policy \<Rightarrow> rat" where
  "jitter_of c = (case jitterRatio c of None \<Rightarrow> 0 | Some r \<Rightarrow> r)"

lemma delay_bound:
  assumes "0 \<le> jitter_of c" and "0 \<le> random c" "random c \<le> 1" and "0 \<le> baseDelayMs c" "0 \<le> maxDelayMs c"
  shows "of_int (calculateRetryDelayMs n c) \<le> (1 + jitter_of c) * of_int (maxDelayMs c)"
proof (cases "jitterRatio c")
  case None
  then show ?thesis using delay_le_max [OF None assms(5), of n] by (simp add: jitter_of_def)
next
  case (Some r)
  then show ?thesis using delay_jitter_bound [OF Some] assms by (simp add: jitter_of_def)
qed

text \<open>
  The retry decision.  A failed attempt is retried exactly when the failure is
  retryable and the attempts are not used up; the next attempt is then at \<open>now\<close> plus a
  delay that is not negative and at most the configured maximum, stretched by the jitter
  ratio.
\<close>

theorem retry_decision_bounded:
  assumes "0 \<le> jitter_of c" and "0 \<le> random c" "random c \<le> 1" and "0 \<le> baseDelayMs c" "0 \<le> maxDelayMs c"
  shows "case evaluateRetry n now rt c of
      NoRetry \<Rightarrow> \<not> rt \<or> maxAttempts c \<le> n
    | Retry d due \<Rightarrow> rt \<and> n < maxAttempts c \<and> due = now + d \<and> 0 \<le> d
        \<and> of_int d \<le> (1 + jitter_of c) * of_int (maxDelayMs c)"
  using delay_bound [OF assms, of "n + 1"] delay_nonneg [of "n + 1" c]
  by (simp add: evaluateRetry_def Let_def)

lemma retry_decision_bounded_witness:
  "case evaluateRetry 1 1000 True \<lparr>baseDelayMs = 100, maxDelayMs = 5000, maxAttempts = 3,
       jitterRatio = Some (1 / 2), random = 1\<rparr> of
     NoRetry \<Rightarrow> False
   | Retry d due \<Rightarrow> due = 1000 + d \<and> (of_int d :: rat) \<le> 7500"
  using retry_decision_bounded [where n = 1 and now = 1000 and rt = True
      and c = "\<lparr>baseDelayMs = 100, maxDelayMs = 5000, maxAttempts = 3,
       jitterRatio = Some (1 / 2), random = 1\<rparr>"]
  by (auto simp: jitter_of_def split: retry_decision.splits)

end
