(* ===== verification/PublishRecords.thy ===== *)
theory PublishRecords
  imports PublishJobs Retry
begin

text \<open>
  What a publish worker records about a job it holds, cancellation, and the recovery of
  expired leases (the second half of
  \<open>src/infrastructure/repositories/drizzle-publish-job-repository.ts\<close> and
  \<open>src/application/publish-jobs/publish-stale-recovery.ts\<close>).
\<close>

subsection \<open>An update followed by its events\<close>

text \<open>
  The shape of the six recording operations: a guarded update and then one insert for each
  event.  The statements are not in one transaction.
\<close>

definition pj_record ::
  "nat option \<Rightarrow> string \<Rightarrow> (publish_row \<Rightarrow> bool) \<Rightarrow> (publish_row \<Rightarrow> publish_row)
     \<Rightarrow> (publish_row \<Rightarrow> publish_event list) \<Rightarrow> db \<Rightarrow> (platform_error + publish_row option) \<times> db" where
  "pj_record fault message guard upd events d =
     (if fault = Some 0 then (Inl (PlatformError DATABASE_UNAVAILABLE message), d)
      else case update_returning guard upd (publishJobs d) of
          (None, _) \<Rightarrow> (Inr None, d)
        | (Some updated, jobs) \<Rightarrow>
            let inserts = events updated;
                d' = d\<lparr>publishJobs := jobs\<rparr>
            in case fault of
                Some (Suc k) \<Rightarrow>
                  if k < length inserts
                  then (Inl (PlatformError DATABASE_UNAVAILABLE message),
                        d'\<lparr>publishJobEvents := publishJobEvents d' @ take k inserts\<rparr>)
                  else (map_sum id Some (mapPublishJob updated),
                        d'\<lparr>publishJobEvents := publishJobEvents d' @ inserts\<rparr>)
              | _ \<Rightarrow> (map_sum id Some (mapPublishJob updated),
                      d'\<lparr>publishJobEvents := publishJobEvents d' @ inserts\<rparr>))"

subsection \<open>Waiting for the engine\<close>

definition pj_set_submitted ::
  "string \<Rightarrow> string \<Rightarrow> string option \<Rightarrow> time \<Rightarrow> time \<Rightarrow> time \<Rightarrow> publish_row \<Rightarrow> publish_row" where
  "pj_set_submitted remoteJobId remoteState remoteCorrelationId submittedAt nextPollAt now r =
     r\<lparr>pr_status := PWaiting, pr_stage := PSWaitingForRemote, pr_remoteJobId := Some remoteJobId,
       pr_remoteState := Some remoteState, pr_remoteCorrelationId := remoteCorrelationId,
       pr_submittedAt := Some submittedAt, pr_nextPollAt := Some nextPollAt, pr_nextAttemptAt := None,
       pr_consecutiveFailureCount := 0, pr_lastPolledAt := None, pr_leaseOwner := None,
       pr_leaseExpiresAt := None, pr_heartbeatAt := None, pr_updatedAt := now\<rparr>"

definition pj_recordSubmission ::
  "nat option \<Rightarrow> string \<Rightarrow> string \<Rightarrow> string \<Rightarrow> string \<Rightarrow> string \<Rightarrow> string \<Rightarrow> string \<Rightarrow> string option
     \<Rightarrow> time \<Rightarrow> time \<Rightarrow> time \<Rightarrow> db \<Rightarrow> (platform_error + publish_row option) \<times> db" where
  "pj_recordSubmission fault evtId1 evtId2 tenantId publishJobId workerId remoteJobId remoteState
     remoteCorrelationId submittedAt nextPollAt now d =
     checked (ensureNonEmpty workerId ''workerId'') d (\<lambda>workerId.
     checked (ensureNonEmpty remoteJobId ''remoteJobId'') d (\<lambda>remoteJobId.
     checked (ensureNonEmpty remoteState ''remoteState'') d (\<lambda>remoteState.
       pj_record fault ''Unable to record publish submission.''
         (pj_held tenantId publishJobId workerId now)
         (pj_set_submitted remoteJobId remoteState remoteCorrelationId submittedAt nextPollAt now)
         (\<lambda>updated.
            [pj_event evtId1 PublishSubmitted (Some PProcessing) PWaiting
               (Some [(''remoteJobId'', text_or_null (pr_remoteJobId updated)),
                      (''remoteState'', text_or_null (pr_remoteState updated)),
                      (''remoteCorrelationId'', text_or_null (pr_remoteCorrelationId updated))]) now updated,
             pj_event evtId2 PublishWaiting (Some PWaiting) PWaiting
               (Some [(''remoteState'', text_or_null (pr_remoteState updated)),
                      (''nextPollAt'', time_or_null (pr_nextPollAt updated))]) now updated])
         d)))"

definition pj_set_waiting ::
  "string \<Rightarrow> string option \<Rightarrow> time \<Rightarrow> time \<Rightarrow> time \<Rightarrow> publish_row \<Rightarrow> publish_row" where
  "pj_set_waiting remoteState remoteCorrelationId lastPolledAt nextPollAt now r =
     r\<lparr>pr_status := PWaiting, pr_stage := PSWaitingForRemote, pr_remoteState := Some remoteState,
       pr_remoteCorrelationId := remoteCorrelationId, pr_lastPolledAt := Some lastPolledAt,
       pr_nextPollAt := Some nextPollAt, pr_nextAttemptAt := None, pr_consecutiveFailureCount := 0,
       pr_pollCount := pr_pollCount r + 1, pr_leaseOwner := None, pr_leaseExpiresAt := None,
       pr_heartbeatAt := None, pr_updatedAt := now\<rparr>"

definition pj_recordRemoteWaiting ::
  "nat option \<Rightarrow> string \<Rightarrow> string \<Rightarrow> string \<Rightarrow> string \<Rightarrow> string \<Rightarrow> string option \<Rightarrow> time \<Rightarrow> time \<Rightarrow> time
     \<Rightarrow> db \<Rightarrow> (platform_error + publish_row option) \<times> db" where
  "pj_recordRemoteWaiting fault evtId tenantId publishJobId workerId remoteState remoteCorrelationId
     lastPolledAt nextPollAt now d =
     checked (ensureNonEmpty workerId ''workerId'') d (\<lambda>workerId.
     checked (ensureNonEmpty remoteState ''remoteState'') d (\<lambda>remoteState.
       pj_record fault ''Unable to record waiting publish status.''
         (pj_held tenantId publishJobId workerId now)
         (pj_set_waiting remoteState remoteCorrelationId lastPolledAt nextPollAt now)
         (\<lambda>updated.
            [pj_event evtId PublishWaiting (Some PProcessing) PWaiting
               (Some [(''remoteState'', text_or_null (pr_remoteState updated)),
                      (''nextPollAt'', time_or_null (pr_nextPollAt updated))]) now updated])
         d))"

subsection \<open>Failures\<close>

definition pj_set_retrying :: "string \<Rightarrow> string \<Rightarrow> time \<Rightarrow> time \<Rightarrow> publish_row \<Rightarrow> publish_row" where
  "pj_set_retrying errorCode errorMessage nextAttemptAt now r =
     r\<lparr>pr_status := PRetrying, pr_stage := PSFailed, pr_remoteErrorCode := Some errorCode,
       pr_remoteErrorMessage := Some errorMessage, pr_nextAttemptAt := Some nextAttemptAt,
       pr_nextPollAt := None, pr_consecutiveFailureCount := pr_consecutiveFailureCount r + 1,
       pr_leaseOwner := None, pr_leaseExpiresAt := None, pr_heartbeatAt := None, pr_updatedAt := now\<rparr>"

definition pj_recordRetry ::
  "nat option \<Rightarrow> string \<Rightarrow> string \<Rightarrow> string \<Rightarrow> string \<Rightarrow> string \<Rightarrow> string \<Rightarrow> time \<Rightarrow> time
     \<Rightarrow> db \<Rightarrow> (platform_error + publish_row option) \<times> db" where
  "pj_recordRetry fault evtId tenantId publishJobId workerId errorCode errorMessage nextAttemptAt now d =
     checked (ensureNonEmpty workerId ''workerId'') d (\<lambda>workerId.
     checked (ensureNonEmpty errorCode ''errorCode'') d (\<lambda>errorCode.
     checked (ensureNonEmpty errorMessage ''errorMessage'') d (\<lambda>errorMessage.
       pj_record fault ''Unable to schedule publish retry.''
         (pj_held tenantId publishJobId workerId now)
         (pj_set_retrying errorCode errorMessage nextAttemptAt now)
         (\<lambda>updated.
            [pj_event evtId PublishRetryScheduled (Some PProcessing) PRetrying
               (Some [(''errorCode'', text_or_null (pr_remoteErrorCode updated)),
                      (''errorMessage'', text_or_null (pr_remoteErrorMessage updated)),
                      (''nextAttemptAt'', time_or_null (pr_nextAttemptAt updated))]) now updated])
         d)))"

text \<open>A poll that ends a job counts: \<open>lastPolledAt\<close> adds one to the polls.\<close>

definition count_poll :: "time option \<Rightarrow> publish_row \<Rightarrow> publish_row" where
  "count_poll lastPolledAt r =
     r\<lparr>pr_pollCount := (case lastPolledAt of Some _ \<Rightarrow> pr_pollCount r + 1 | None \<Rightarrow> pr_pollCount r),
       pr_lastPolledAt := or_else lastPolledAt (pr_lastPolledAt r)\<rparr>"

definition pj_set_completed ::
  "string \<Rightarrow> string option \<Rightarrow> time option \<Rightarrow> download_metadata \<Rightarrow> time \<Rightarrow> publish_row \<Rightarrow> publish_row" where
  "pj_set_completed remoteState remoteCorrelationId lastPolledAt downloadMetadata now r =
     (count_poll lastPolledAt r)\<lparr>pr_status := PCompleted, pr_stage := PSCompleted,
       pr_remoteState := Some remoteState, pr_remoteCorrelationId := remoteCorrelationId,
       pr_downloadMetadata := Some downloadMetadata, pr_consecutiveFailureCount := 0,
       pr_completedAt := Some now, pr_leaseOwner := None, pr_leaseExpiresAt := None,
       pr_heartbeatAt := None, pr_nextPollAt := None, pr_nextAttemptAt := None, pr_updatedAt := now\<rparr>"

definition pj_complete ::
  "nat option \<Rightarrow> string \<Rightarrow> string \<Rightarrow> string \<Rightarrow> string \<Rightarrow> string \<Rightarrow> string option \<Rightarrow> time option
     \<Rightarrow> download_metadata \<Rightarrow> time \<Rightarrow> db \<Rightarrow> (platform_error + publish_row option) \<times> db" where
  "pj_complete fault evtId tenantId publishJobId workerId remoteState remoteCorrelationId lastPolledAt
     downloadMetadata now d =
     checked (ensureNonEmpty workerId ''workerId'') d (\<lambda>workerId.
     checked (ensureNonEmpty remoteState ''remoteState'') d (\<lambda>remoteState.
       pj_record fault ''Unable to complete publish job.''
         (pj_held tenantId publishJobId workerId now)
         (pj_set_completed remoteState remoteCorrelationId lastPolledAt downloadMetadata now)
         (\<lambda>updated.
            [pj_event evtId PublishCompleted (Some PProcessing) PCompleted
               (Some [(''remoteState'', text_or_null (pr_remoteState updated)),
                      (''remoteCorrelationId'', text_or_null (pr_remoteCorrelationId updated))]) now updated])
         d))"

definition pj_set_failed ::
  "string \<Rightarrow> string \<Rightarrow> string option \<Rightarrow> string option \<Rightarrow> time option \<Rightarrow> time \<Rightarrow> publish_row \<Rightarrow> publish_row" where
  "pj_set_failed errorCode errorMessage remoteState remoteCorrelationId lastPolledAt now r =
     (count_poll lastPolledAt r)\<lparr>pr_status := PFailed, pr_stage := PSFailed,
       pr_remoteState := remoteState, pr_remoteCorrelationId := remoteCorrelationId,
       pr_remoteErrorCode := Some errorCode, pr_remoteErrorMessage := Some errorMessage,
       pr_completedAt := Some now, pr_leaseOwner := None, pr_leaseExpiresAt := None,
       pr_heartbeatAt := None, pr_nextPollAt := None, pr_nextAttemptAt := None, pr_updatedAt := now\<rparr>"

definition pj_fail ::
  "nat option \<Rightarrow> string \<Rightarrow> string \<Rightarrow> string \<Rightarrow> string \<Rightarrow> string \<Rightarrow> string \<Rightarrow> string option \<Rightarrow> string option
     \<Rightarrow> time option \<Rightarrow> time \<Rightarrow> db \<Rightarrow> (platform_error + publish_row option) \<times> db" where
  "pj_fail fault evtId tenantId publishJobId workerId errorCode errorMessage remoteState
     remoteCorrelationId lastPolledAt now d =
     checked (ensureNonEmpty workerId ''workerId'') d (\<lambda>workerId.
     checked (ensureNonEmpty errorCode ''errorCode'') d (\<lambda>errorCode.
     checked (ensureNonEmpty errorMessage ''errorMessage'') d (\<lambda>errorMessage.
       pj_record fault ''Unable to fail publish job.''
         (pj_held tenantId publishJobId workerId now)
         (pj_set_failed errorCode errorMessage remoteState remoteCorrelationId lastPolledAt now)
         (\<lambda>updated.
            [pj_event evtId PublishFailed (Some PProcessing) PFailed
               (Some [(''errorCode'', text_or_null (pr_remoteErrorCode updated)),
                      (''errorMessage'', text_or_null (pr_remoteErrorMessage updated)),
                      (''remoteState'', text_or_null (pr_remoteState updated))]) now updated])
         d)))"

definition pj_set_remote_cancelled ::
  "string \<Rightarrow> string option \<Rightarrow> time option \<Rightarrow> time \<Rightarrow> publish_row \<Rightarrow> publish_row" where
  "pj_set_remote_cancelled remoteState remoteCorrelationId lastPolledAt now r =
     (count_poll lastPolledAt r)\<lparr>pr_status := PCancelled, pr_stage := PSCancelled,
       pr_remoteState := Some remoteState, pr_remoteCorrelationId := remoteCorrelationId,
       pr_cancelledAt := Some now, pr_leaseOwner := None, pr_leaseExpiresAt := None,
       pr_heartbeatAt := None, pr_nextPollAt := None, pr_nextAttemptAt := None, pr_updatedAt := now\<rparr>"

definition pj_markRemoteCancelled ::
  "nat option \<Rightarrow> string \<Rightarrow> string \<Rightarrow> string \<Rightarrow> string \<Rightarrow> string \<Rightarrow> string option \<Rightarrow> time option \<Rightarrow> time
     \<Rightarrow> db \<Rightarrow> (platform_error + publish_row option) \<times> db" where
  "pj_markRemoteCancelled fault evtId tenantId publishJobId workerId remoteState remoteCorrelationId
     lastPolledAt now d =
     checked (ensureNonEmpty workerId ''workerId'') d (\<lambda>workerId.
     checked (ensureNonEmpty remoteState ''remoteState'') d (\<lambda>remoteState.
       pj_record fault ''Unable to mark publish job cancelled from remote state.''
         (pj_held tenantId publishJobId workerId now)
         (pj_set_remote_cancelled remoteState remoteCorrelationId lastPolledAt now)
         (\<lambda>updated.
            [pj_event evtId PublishCancelled (Some PProcessing) PCancelled
               (Some [(''remoteState'', text_or_null (pr_remoteState updated)),
                      (''remoteCorrelationId'', text_or_null (pr_remoteCorrelationId updated))]) now updated])
         d))"

subsection \<open>Cancellation\<close>

definition pj_set_cancelled :: "time \<Rightarrow> publish_row \<Rightarrow> publish_row" where
  "pj_set_cancelled now r =
     r\<lparr>pr_status := PCancelled, pr_stage := PSCancelled, pr_cancelledAt := Some now,
       pr_leaseOwner := None, pr_leaseExpiresAt := None, pr_heartbeatAt := None,
       pr_nextAttemptAt := None, pr_nextPollAt := None, pr_updatedAt := now\<rparr>"

definition pj_cancel_body ::
  "db \<Rightarrow> string \<Rightarrow> string \<Rightarrow> string \<Rightarrow> time \<Rightarrow> db \<Rightarrow> caught + publish_row \<times> db" where
  "pj_cancel_body snap evtId tenantId publishJobId now d =
     (case find_first (\<lambda>r. pr_tenantId r = tenantId \<and> pr_id r = publishJobId) (publishJobs snap) of
        None \<Rightarrow> Inl (Thrown (NotFoundError ''Publish job'' publishJobId))
      | Some current \<Rightarrow>
          if pr_status current \<notin> {PQueued, PWaiting, PRetrying} then
            Inl (Thrown (ConflictError PUBLISH_JOB_INVALID_STATE
              ''Publish job can only be cancelled from queued, waiting, or retrying states.''))
          else
            (case update_returning
               (\<lambda>r. pr_tenantId r = tenantId \<and> pr_id r = publishJobId \<and> pr_status r = pr_status current)
               (pj_set_cancelled now) (publishJobs d) of
               (None, _) \<Rightarrow>
                 Inl (Thrown (ConflictError PUBLISH_JOB_INVALID_STATE
                   ''Publish job state changed concurrently and can no longer be cancelled.''))
             | (Some updated, jobs) \<Rightarrow>
                 thrown (map_sum id
                   (\<lambda>j. (j, d\<lparr>publishJobs := jobs,
                      publishJobEvents := publishJobEvents d @
                        [pj_event evtId PublishCancelled (Some (pr_status current)) PCancelled None
                           now updated]\<rparr>))
                   (mapPublishJob updated))))"

definition pj_cancel ::
  "bool \<Rightarrow> db \<Rightarrow> string \<Rightarrow> string \<Rightarrow> string \<Rightarrow> time \<Rightarrow> db \<Rightarrow> (platform_error + publish_row) \<times> db" where
  "pj_cancel fault snap evtId tenantId publishJobId now d =
     checked (validateTenantId tenantId) d (\<lambda>_.
       or_unavailable ''Unable to cancel publish job.''
         (transaction fault d (pj_cancel_body snap evtId tenantId publishJobId now d)))"

subsection \<open>Expired leases\<close>

definition pj_stale :: "time \<Rightarrow> publish_row \<Rightarrow> bool" where
  "pj_stale now r \<longleftrightarrow> pr_status r = PProcessing \<and> reached (pr_leaseExpiresAt r) now"

text \<open>
  A job the engine already knows (\<open>stale.remoteJobId\<close>) goes on waiting for it; another one
  is submitted again.
\<close>

definition pj_set_recovered ::
  "bool \<Rightarrow> bool \<Rightarrow> int \<Rightarrow> time \<Rightarrow> time \<Rightarrow> publish_row \<Rightarrow> publish_row" where
  "pj_set_recovered shouldFail knownRemotely nextFailureCount nextAttemptAt now r =
     (if shouldFail then
        r\<lparr>pr_status := PFailed, pr_stage := PSFailed,
          pr_remoteErrorCode := Some (code_value PUBLISH_JOB_RETRY_EXHAUSTED),
          pr_remoteErrorMessage :=
            Some ''Publish job lease expired repeatedly and exceeded recovery threshold.'',
          pr_completedAt := Some now, pr_consecutiveFailureCount := nextFailureCount,
          pr_leaseOwner := None, pr_leaseExpiresAt := None, pr_heartbeatAt := None,
          pr_nextPollAt := None, pr_nextAttemptAt := None, pr_updatedAt := now\<rparr>
      else
        r\<lparr>pr_status := (if knownRemotely then PWaiting else PRetrying),
          pr_stage := (if knownRemotely then PSWaitingForRemote else PSFailed),
          pr_remoteErrorCode := Some (code_value PUBLISH_JOB_LEASE_MISMATCH),
          pr_remoteErrorMessage := Some ''Publish job lease expired and was recovered.'',
          pr_nextAttemptAt := (if knownRemotely then None else Some nextAttemptAt),
          pr_nextPollAt := (if knownRemotely then Some nextAttemptAt else None),
          pr_consecutiveFailureCount := nextFailureCount, pr_leaseOwner := None,
          pr_leaseExpiresAt := None, pr_heartbeatAt := None, pr_updatedAt := now\<rparr>)"

definition known_remotely :: "publish_row \<Rightarrow> bool" where
  "known_remotely r \<longleftrightarrow> pr_remoteJobId r \<noteq> None \<and> pr_remoteJobId r \<noteq> Some []"

definition pj_recover_one ::
  "(string \<Rightarrow> string) \<Rightarrow> time \<Rightarrow> int \<Rightarrow> int \<Rightarrow> publish_row \<Rightarrow> nat \<times> db \<Rightarrow> nat \<times> db" where
  "pj_recover_one evtId now maxConsecutiveFailures retryDelayMs stale s =
     (case s of (recoveredCount, d) \<Rightarrow>
        let nextFailureCount = pr_consecutiveFailureCount stale + 1;
            shouldFail = nextFailureCount \<ge> maxConsecutiveFailures;
            nextAttemptAt = now + retryDelayMs
        in case update_returning (\<lambda>r. pr_id r = pr_id stale \<and> pj_stale now r)
               (pj_set_recovered shouldFail (known_remotely stale) nextFailureCount nextAttemptAt now)
               (publishJobs d) of
             (None, _) \<Rightarrow> (recoveredCount, d)
           | (Some updated, jobs) \<Rightarrow>
               (recoveredCount + 1,
                d\<lparr>publishJobs := jobs,
                  publishJobEvents := publishJobEvents d @
                    [pj_event (evtId (pr_id stale)) PublishLeaseExpired (Some PProcessing) (pr_status updated)
                       (Some [(''recoveredAt'', DTime now),
                              (''nextAttemptAt'', if shouldFail \<or> pr_status updated = PWaiting then DNull
                                                else DTime nextAttemptAt),
                              (''nextPollAt'', if pr_status updated = PWaiting then DTime nextAttemptAt
                                             else DNull),
                              (''consecutiveFailureCount'', DInt nextFailureCount),
                              (''terminalFailure'', DBool shouldFail),
                              (''preservedRemoteJobId'', text_or_null (pr_remoteJobId stale))])
                       now updated]\<rparr>))"

definition pj_stale_rows :: "time \<Rightarrow> nat \<Rightarrow> db \<Rightarrow> publish_row list" where
  "pj_stale_rows now limit d =
     order_limit (\<lambda>r. (nulls_last (pr_leaseExpiresAt r), pr_createdAt r)) (pj_stale now) limit (publishJobs d)"

definition pj_recoverStaleLeases ::
  "bool \<Rightarrow> db \<Rightarrow> (string \<Rightarrow> string) \<Rightarrow> time \<Rightarrow> int \<Rightarrow> int \<Rightarrow> nat \<Rightarrow> db \<Rightarrow> (platform_error + nat) \<times> db" where
  "pj_recoverStaleLeases fault snap evtId now maxConsecutiveFailures retryDelayMs limit d =
     or_unavailable ''Unable to recover stale publish job leases.''
       (transaction fault d
         (Inr (fold (pj_recover_one evtId now maxConsecutiveFailures retryDelayMs)
                 (pj_stale_rows now limit snap) (0, d))))"

definition publish_runOnce ::
  "retry_policy \<Rightarrow> int \<Rightarrow> bool \<Rightarrow> db \<Rightarrow> (string \<Rightarrow> string) \<Rightarrow> time \<Rightarrow> nat \<Rightarrow> db \<Rightarrow> (platform_error + nat) \<times> db" where
  "publish_runOnce policy maxConsecutiveFailures fault snap evtId now limit d =
     pj_recoverStaleLeases fault snap evtId now maxConsecutiveFailures
       (calculateRetryDelayMs 1 policy) limit d"

end
