(* ===== verification/JobTable.thy ===== *)
theory JobTable
  imports Domain
begin

text \<open>
  The contract both job tables keep, stated once: a table of rows with unique identifiers
  and keys, a status moved along a policy, and a log whose events record every move.  The
  steps of the contract are an inductive relation; a repository operation is proved correct
  by showing that it makes such a step, and what follows from the steps (the invariant, the
  history of every job, finality of terminal statuses) is proved here.

  The second interface is the lease protocol: what one worker may assume about a job it
  holds while others run.
\<close>

subsection \<open>A table with a log\<close>

locale job_table = status_policy allowed terminal
  for allowed :: "'s \<Rightarrow> 's \<Rightarrow> bool" and terminal :: "'s \<Rightarrow> bool" +
  fixes rid :: "'r \<Rightarrow> string" and rkey :: "'r \<Rightarrow> 'k" and rstatus :: "'r \<Rightarrow> 's"
    and rok :: "'r \<Rightarrow> bool"
    and eid :: "'e \<Rightarrow> string" and epre :: "'e \<Rightarrow> 's option" and epost :: "'e \<Rightarrow> 's option"
    and initial :: 's
  assumes initial_live: "\<not> terminal initial"
begin

definition rows_ok :: "'r list \<Rightarrow> bool" where
  "rows_ok rows \<longleftrightarrow> distinct (map rid rows) \<and> distinct (map rkey rows) \<and> list_all rok rows"

definition log_of :: "string \<Rightarrow> 'e list \<Rightarrow> ('s option \<times> 's option) list" where
  "log_of i evs = map (\<lambda>e. (epre e, epost e)) (filter (\<lambda>e. eid e = i) evs)"

definition logged :: "'r list \<Rightarrow> 'e list \<Rightarrow> bool" where
  "logged rows evs \<longleftrightarrow>
     (\<forall>r \<in> set rows. chain_from None (log_of (rid r) evs) (Some (rstatus r)))
     \<and> (\<forall>e \<in> set evs. eid e \<in> rid ` set rows)"

definition keeps :: "('r \<Rightarrow> 'r) \<Rightarrow> 'r \<Rightarrow> bool" where
  "keeps f r \<longleftrightarrow> rid (f r) = rid r \<and> rkey (f r) = rkey r \<and> (rok r \<longrightarrow> rok (f r))
     \<and> conforms (rstatus r) (rstatus (f r))"

inductive row_step :: "'r list \<Rightarrow> 'r list \<Rightarrow> bool" where
  row_stay: "row_step rows rows"
| row_insert: "rid r \<notin> rid ` set rows \<Longrightarrow> rkey r \<notin> rkey ` set rows \<Longrightarrow> rok r \<Longrightarrow> rstatus r = initial
    \<Longrightarrow> row_step rows (rows @ [r])"
| row_update: "(\<And>r. r \<in> set rows \<Longrightarrow> p r \<Longrightarrow> keeps f r) \<Longrightarrow> row_step rows (update_where p f rows)"

inductive table_step :: "'r list \<times> 'e list \<Rightarrow> 'r list \<times> 'e list \<Rightarrow> bool" where
  stay: "table_step (rows, evs) (rows, evs)"
| insert: "rid r \<notin> rid ` set rows \<Longrightarrow> rkey r \<notin> rkey ` set rows \<Longrightarrow> rok r \<Longrightarrow> rstatus r = initial
    \<Longrightarrow> eid e = rid r \<Longrightarrow> epre e = None \<Longrightarrow> epost e = Some initial
    \<Longrightarrow> table_step (rows, evs) (rows @ [r], evs @ [e])"
| move: "r \<in> set rows \<Longrightarrow> p r \<Longrightarrow> (\<And>x. p x \<Longrightarrow> rid x = rid r) \<Longrightarrow> keeps f r
    \<Longrightarrow> eid e = rid r \<Longrightarrow> epre e = Some (rstatus r) \<Longrightarrow> epost e = Some (rstatus (f r))
    \<Longrightarrow> distinct (map rid rows) \<Longrightarrow> table_step (rows, evs) (update_where p f rows, evs @ [e])"
| touch: "(\<And>r. r \<in> set rows \<Longrightarrow> p r \<Longrightarrow> keeps f r \<and> rstatus (f r) = rstatus r)
    \<Longrightarrow> table_step (rows, evs) (update_where p f rows, evs)"

lemma row_step_ok:
  assumes "row_step rows rows'" and "rows_ok rows"
  shows "rows_ok rows'"
  using assms
proof (induction rule: row_step.induct)
  case (row_update rows p f)
  then have k: "r \<in> set rows \<Longrightarrow> p r \<Longrightarrow> keeps f r" for r by blast
  have "map rid (update_where p f rows) = map rid rows"
    "map rkey (update_where p f rows) = map rkey rows"
    using k by (auto simp: update_where_def keeps_def)
  moreover have "list_all rok (update_where p f rows)"
    using k row_update.prems by (auto simp: update_where_def keeps_def rows_ok_def list_all_iff)
  ultimately show ?case using row_update.prems by (simp add: rows_ok_def)
qed (auto simp: rows_ok_def)

lemma row_step_conforms:
  assumes "row_step rows rows'" and "r \<in> set rows"
  shows "\<exists>r' \<in> set rows'. rid r' = rid r \<and> rkey r' = rkey r \<and> conforms (rstatus r) (rstatus r')"
  using assms
proof (induction rule: row_step.induct)
  case (row_update rows p f)
  then have "(if p r then f r else r) \<in> set (update_where p f rows)"
    by (auto simp: set_update_where)
  with row_update show ?case by (auto simp: keeps_def conforms_refl split: if_splits)
qed (auto simp: conforms_refl)

lemma table_step_rows:
  assumes "table_step (rows, evs) (rows', evs')"
  shows "row_step rows rows'"
  using assms
proof (cases rule: table_step.cases)
  case stay
  then show ?thesis by (simp add: row_stay)
next
  case (insert r e)
  then show ?thesis by (simp add: row_insert)
next
  case (move r p f e)
  have "x = r" if "x \<in> set rows" "p x" for x
    using unique_key_eq [OF move(10) that(1) move(3)] move(5) [OF that(2)] by simp
  then show ?thesis unfolding move(1) using move(6) by (intro row_update) simp
next
  case (touch p f)
  then show ?thesis by (simp add: row_update)
qed

lemma log_of_append [simp]: "log_of i (evs @ [e]) = log_of i evs @ (if eid e = i then [(epre e, epost e)] else [])"
  by (simp add: log_of_def)

lemma log_of_fresh: "i \<notin> eid ` set evs \<Longrightarrow> log_of i evs = []"
  by (auto simp: log_of_def filter_empty_conv)

lemma logged_touch:
  assumes "logged rows evs" and "\<And>r. r \<in> set rows \<Longrightarrow> p r \<Longrightarrow> rid (f r) = rid r \<and> rstatus (f r) = rstatus r"
  shows "logged (update_where p f rows) evs"
proof -
  have "rid ` set (update_where p f rows) = rid ` set rows"
  proof -
    have "map rid (update_where p f rows) = map rid rows" using assms(2) by (auto simp: update_where_def)
    from arg_cong [OF this, where f = set] show ?thesis by simp
  qed
  then show ?thesis using assms by (auto simp: logged_def set_update_where)
qed

lemma logged_move:
  assumes lg: "logged rows evs" and r: "r \<in> set rows" "p r" and p: "\<And>x. p x \<Longrightarrow> rid x = rid r"
    and f: "rid (f r) = rid r" and e: "eid e = rid r" "epre e = Some (rstatus r)" "epost e = Some (rstatus (f r))"
    and d: "distinct (map rid rows)"
  shows "logged (update_where p f rows) (evs @ [e])"
proof -
  have same: "x = r" if "x \<in> set rows" "rid x = rid r" for x
    using unique_key_eq [OF d] that r by blast
  have ids: "rid ` set (update_where p f rows) = rid ` set rows"
  proof -
    have "map rid (update_where p f rows) = map rid rows"
      using p f same by (auto simp: update_where_def)
    from arg_cong [OF this, where f = set] show ?thesis by simp
  qed
  have "chain_from None (log_of (rid y) (evs @ [e])) (Some (rstatus y))"
    if "y \<in> set (update_where p f rows)" for y
  proof -
    from that obtain x where x: "x \<in> set rows" "y = (if p x then f x else x)"
      by (auto simp: set_update_where)
    have ch: "chain_from None (log_of (rid x) evs) (Some (rstatus x))"
      using lg x by (auto simp: logged_def)
    show ?thesis
    proof (cases "p x")
      case True
      then have "x = r" using p same x by blast
      then show ?thesis using x True ch e f by auto
    next
      case False
      then have "rid x \<noteq> rid r" using same x r by blast
      then show ?thesis using x False ch e by simp
    qed
  qed
  then show ?thesis using ids lg e r by (auto simp: logged_def)
qed

lemma table_step_logged:
  assumes "table_step (rows, evs) (rows', evs')" and "logged rows evs"
  shows "logged rows' evs'"
  using assms(1)
proof (cases rule: table_step.cases)
  case (insert r e)
  have "rid r \<notin> eid ` set evs"
    using insert assms(2) by (auto simp: logged_def)
  then have "log_of (rid r) evs = []" by (rule log_of_fresh)
  then have "chain_from None (log_of (rid r) (evs @ [e])) (Some (rstatus r))"
    using insert by simp
  moreover have "chain_from None (log_of (rid x) (evs @ [e])) (Some (rstatus x))"
    if "x \<in> set rows" for x
  proof -
    have "rid x \<noteq> rid r" using insert(3) that by (metis imageI)
    then show ?thesis using that assms(2) insert(7) by (simp add: logged_def)
  qed
  ultimately show ?thesis using assms(2) insert(1,2,7) by (auto simp: logged_def)
next
  case (move r p f e)
  have "rid (f r) = rid r" using move(6) by (simp add: keeps_def)
  from logged_move [of rows evs r p f, OF assms(2) move(3,4) move(5) this move(7-10)]
  show ?thesis unfolding move(1,2) .
next
  case (touch p f)
  then show ?thesis using assms(2) by (auto simp: keeps_def intro!: logged_touch)
qed (use assms(2) in auto)

lemma table_steps_inv:
  assumes "table_step\<^sup>*\<^sup>* s s'" and "rows_ok (fst s)" and "logged (fst s) (snd s)"
  shows "rows_ok (fst s')" and "logged (fst s') (snd s')"
proof -
  have "rows_ok (fst s') \<and> logged (fst s') (snd s')"
    using assms
  proof (induction rule: rtranclp_induct)
    case (step y z)
    then show ?case
      by (metis prod.collapse row_step_ok table_step_logged table_step_rows)
  qed simp
  then show "rows_ok (fst s')" and "logged (fst s') (snd s')" by auto
qed

text \<open>
  The two shapes of a guarded update: with an event it is a \<open>move\<close>, alone it is a
  \<open>touch\<close>.  The returned row is known to be the changed one.
\<close>

lemma update_move:
  assumes ok: "rows_ok rows" and up: "update_returning p f rows = (Some u, rows')"
    and p: "\<And>x. p x \<Longrightarrow> rid x = i"
    and r: "\<And>r. r \<in> set rows \<Longrightarrow> p r \<Longrightarrow> u = f r \<Longrightarrow> rstatus r = a \<and> keeps f r \<and> rstatus (f r) = b"
    and e: "eid e = i" "epre e = Some a" "epost e = Some b"
  shows "table_step (rows, evs) (rows', evs @ [e])"
proof -
  from update_returning_Some [OF up] obtain r0 where r0: "r0 \<in> set rows" "p r0" "u = f r0"
    and rows': "rows' = update_where p f rows" by blast
  from r [OF r0] have "rstatus r0 = a" "keeps f r0" "rstatus (f r0) = b" by auto
  then show ?thesis unfolding rows'
    using ok e p r0 by (intro move [of r0]) (auto simp: rows_ok_def)
qed

lemma update_touch:
  assumes "update_returning p f rows = (u, rows')"
    and "\<And>r. r \<in> set rows \<Longrightarrow> p r \<Longrightarrow> keeps f r \<and> rstatus (f r) = rstatus r"
  shows "table_step (rows, evs) (rows', evs)"
  using assms by (auto simp: update_returning_def intro!: touch)

text \<open>An event that records no move.\<close>

lemma annotate:
  assumes "rows_ok rows" and "r \<in> set rows" and "eid e = rid r"
    and "epre e = Some (rstatus r)" and "epost e = Some (rstatus r)"
  shows "table_step (rows, evs) (rows, evs @ [e])"
proof -
  have "table_step (rows, evs) (update_where (\<lambda>x. x = r) (\<lambda>x. x) rows, evs @ [e])"
    using assms by (intro move [of r]) (auto simp: rows_ok_def keeps_def conforms_refl)
  moreover have "update_where (\<lambda>x. x = r) (\<lambda>x. x) rows = rows"
    by (simp add: update_where_def)
  ultimately show ?thesis by simp
qed

text \<open>Over any number of steps a job stays in the table and a terminal status stays.\<close>

lemma row_steps_conform:
  assumes "row_step\<^sup>*\<^sup>* rows rows'" and "r \<in> set rows"
  shows "\<exists>r' \<in> set rows'. rid r' = rid r \<and> rkey r' = rkey r \<and> conforms\<^sup>*\<^sup>* (rstatus r) (rstatus r')"
  using assms
proof (induction rule: rtranclp_induct)
  case (step y z)
  then show ?case using row_step_conforms by (metis rtranclp.rtrancl_into_rtrancl)
qed auto

lemma terminal_kept:
  assumes "row_step\<^sup>*\<^sup>* rows rows'" and "r \<in> set rows" and "terminal (rstatus r)"
  shows "\<exists>r' \<in> set rows'. rid r' = rid r \<and> rstatus r' = rstatus r"
  using row_steps_conform [OF assms(1,2)] terminal_forever assms(3) by metis

end

subsection \<open>The lease protocol\<close>

text \<open>
  \<open>step a now s s'\<close> is an operation of the actor \<open>a\<close> (a worker, or \<open>None\<close> for the API
  and the recovery) at the clock \<open>now\<close>; \<open>held s j w u\<close> says that the worker \<open>w\<close> holds
  the job \<open>j\<close> until \<open>u\<close>.  The provider promises that a lease has one holder and that
  nobody else's operation takes it away while it runs.
\<close>

locale lease_protocol =
  fixes step :: "'w option \<Rightarrow> time \<Rightarrow> 's \<Rightarrow> 's \<Rightarrow> bool"
    and held :: "'s \<Rightarrow> string \<Rightarrow> 'w \<Rightarrow> time \<Rightarrow> bool"
    and good :: "'s \<Rightarrow> bool"
  assumes good_step: "step a now s s' \<Longrightarrow> good s \<Longrightarrow> good s'"
    and sole_holder: "good s \<Longrightarrow> held s j w u \<Longrightarrow> held s j w' u' \<Longrightarrow> w = w' \<and> u = u'"
    and undisturbed: "step a now s s' \<Longrightarrow> good s \<Longrightarrow> held s j w u \<Longrightarrow> a \<noteq> Some w \<Longrightarrow> now < u
      \<Longrightarrow> held s' j w u"
begin

text \<open>A run of other actors before a time.\<close>

inductive others_until :: "'w \<Rightarrow> time \<Rightarrow> 's \<Rightarrow> 's \<Rightarrow> bool" for w and u where
  nobody: "others_until w u s s"
| other: "others_until w u s s' \<Longrightarrow> step a now s' s'' \<Longrightarrow> a \<noteq> Some w \<Longrightarrow> now < u
    \<Longrightarrow> others_until w u s s''"

lemma others_good: "others_until w u s s' \<Longrightarrow> good s \<Longrightarrow> good s'"
  by (induction rule: others_until.induct) (auto intro: good_step)

lemma lease_kept:
  assumes "others_until w u s s'" and "good s" and "held s j w u"
  shows "held s' j w u"
  using assms
proof (induction rule: others_until.induct)
  case (other s s' a now s'')
  then show ?case using undisturbed [of a now s' s''] others_good by blast
qed simp

lemma lease_exclusive:
  assumes "others_until w u s s'" and "good s" and "held s j w u" and "held s' j w' u'"
  shows "w' = w"
  using sole_holder lease_kept [OF assms(1-3)] others_good [OF assms(1,2)] assms(4) by blast

end

end
