(* ===== verification/PublishLifecycle.thy ===== *)
theory PublishLifecycle
  imports PublishRecords JobTable
begin

text \<open>
  The life of a publish job under the operations of the repository and of the worker's
  source: every one is a step of the contract \<open>job_table\<close>.  The recording operations keep
  the rows of the contract whatever fails; they keep its log as well, unless an event insert
  fails after its update (a \<^emph>\<open>torn\<close> operation).
\<close>

subsection \<open>The row invariant\<close>

definition publish_key :: "publish_row \<Rightarrow> string \<times> string" where
  "publish_key r = (pr_tenantId r, pr_idempotencyKey r)"

definition publish_lease_ok :: "publish_row \<Rightarrow> bool" where
  "publish_lease_ok r \<longleftrightarrow>
     (if pr_status r = PProcessing
      then pr_leaseOwner r \<noteq> None \<and> pr_leaseExpiresAt r \<noteq> None \<and> pr_heartbeatAt r \<noteq> None
      else pr_leaseOwner r = None \<and> pr_leaseExpiresAt r = None \<and> pr_heartbeatAt r = None)"

definition publish_schedule_ok :: "publish_row \<Rightarrow> bool" where
  "publish_schedule_ok r \<longleftrightarrow>
     (case pr_status r of
        PQueued \<Rightarrow> pr_nextAttemptAt r = Some (pr_createdAt r) \<and> pr_nextPollAt r = pr_nextAttemptAt r
      | PRetrying \<Rightarrow> pr_nextAttemptAt r \<noteq> None \<and> pr_nextPollAt r = None
      | PWaiting \<Rightarrow> pr_nextAttemptAt r = None \<and> pr_nextPollAt r \<noteq> None
      | PProcessing \<Rightarrow> True
      | _ \<Rightarrow> pr_nextAttemptAt r = None \<and> pr_nextPollAt r = None)"

definition publish_counts_ok :: "publish_row \<Rightarrow> bool" where
  "publish_counts_ok r \<longleftrightarrow>
     0 \<le> pr_attemptCount r \<and> 0 \<le> pr_consecutiveFailureCount r \<and> 0 \<le> pr_pollCount r
     \<and> (pr_status r \<notin> {PQueued, PCancelled} \<longrightarrow> 1 \<le> pr_attemptCount r)"

definition publish_outcome_ok :: "publish_row \<Rightarrow> bool" where
  "publish_outcome_ok r \<longleftrightarrow>
     (pr_completedAt r \<noteq> None \<longleftrightarrow> pr_status r \<in> {PCompleted, PFailed})
     \<and> (pr_cancelledAt r \<noteq> None \<longleftrightarrow> pr_status r = PCancelled)
     \<and> (pr_downloadMetadata r \<noteq> None \<longleftrightarrow> pr_status r = PCompleted)
     \<and> (pr_status r \<in> {PFailed, PRetrying} \<longrightarrow> pr_remoteErrorCode r \<noteq> None)
     \<and> (pr_remoteErrorCode r = None \<longleftrightarrow> pr_remoteErrorMessage r = None)
     \<and> (pr_submittedAt r = None \<longleftrightarrow> pr_remoteJobId r = None)"

definition publish_source_ok :: "publish_row \<Rightarrow> bool" where
  "publish_source_ok r \<longleftrightarrow>
     pr_sourceArtifactChecksumSha256 r = as_checksumSha256 (pr_sourceArtifactSnapshot r)
     \<and> pr_sourceArtifactByteSize r = as_byteSize (pr_sourceArtifactSnapshot r)"

definition publish_row_ok :: "publish_row \<Rightarrow> bool" where
  "publish_row_ok r \<longleftrightarrow>
     publish_lease_ok r \<and> publish_schedule_ok r \<and> publish_counts_ok r \<and> publish_outcome_ok r
     \<and> publish_source_ok r"

interpretation ptab: job_table isPublishJobTransitionAllowed publish_terminal pr_id publish_key pr_status
  publish_row_ok pe_publishJobId pe_priorStatus pe_newStatus PQueued
  by unfold_locales (simp add: publish_terminal_def)

lemmas publish_ok_defs = publish_row_ok_def publish_lease_ok_def publish_schedule_ok_def
  publish_counts_ok_def publish_outcome_ok_def publish_source_ok_def publish_key_def

lemma publish_allowed:
  "isPublishJobTransitionAllowed PQueued PProcessing" "isPublishJobTransitionAllowed PRetrying PProcessing"
  "isPublishJobTransitionAllowed PWaiting PProcessing" "isPublishJobTransitionAllowed PProcessing PWaiting"
  "isPublishJobTransitionAllowed PProcessing PRetrying" "isPublishJobTransitionAllowed PProcessing PCompleted"
  "isPublishJobTransitionAllowed PProcessing PFailed" "isPublishJobTransitionAllowed PProcessing PCancelled"
  "isPublishJobTransitionAllowed PQueued PCancelled" "isPublishJobTransitionAllowed PWaiting PCancelled"
  "isPublishJobTransitionAllowed PRetrying PCancelled"
  by (simp_all add: isPublishJobTransitionAllowed_def)

abbreviation publish_tables :: "db \<Rightarrow> publish_row list \<times> publish_event list" where
  "publish_tables d \<equiv> (publishJobs d, publishJobEvents d)"

subsection \<open>Changes of one row\<close>

lemma pconformsI: "isPublishJobTransitionAllowed s t \<Longrightarrow> ppol.conforms s t"
  by (simp add: ppol.conforms_def)

lemma lease_keeps:
  assumes "pr_status r \<in> {PQueued, PRetrying, PWaiting}"
  shows "ptab.keeps (pj_lease w dur now) r"
  using assms
  by (cases "pr_status r")
    (simp_all add: ptab.keeps_def pconformsI publish_allowed publish_ok_defs pj_lease_def)

lemma cancelled_keeps:
  assumes "pr_status r \<in> {PQueued, PRetrying, PWaiting}"
  shows "ptab.keeps (pj_set_cancelled now) r"
  using assms
  by (cases "pr_status r")
    (simp_all add: ptab.keeps_def pconformsI publish_allowed publish_ok_defs pj_set_cancelled_def)

lemma submitted_keeps:
  "pr_status r = PProcessing \<Longrightarrow> ptab.keeps (pj_set_submitted i s c t u now) r"
  by (simp add: ptab.keeps_def pconformsI publish_allowed publish_ok_defs pj_set_submitted_def)

lemma waiting_keeps:
  "pr_status r = PProcessing \<Longrightarrow> ptab.keeps (pj_set_waiting s c t u now) r"
  by (simp add: ptab.keeps_def pconformsI publish_allowed publish_ok_defs pj_set_waiting_def)

lemma retrying_keeps:
  "pr_status r = PProcessing \<Longrightarrow> ptab.keeps (pj_set_retrying c m t now) r"
  by (simp add: ptab.keeps_def pconformsI publish_allowed publish_ok_defs pj_set_retrying_def)

lemma completed_keeps:
  "pr_status r = PProcessing \<Longrightarrow> ptab.keeps (pj_set_completed s c lp dm now) r"
  by (simp add: ptab.keeps_def pconformsI publish_allowed publish_ok_defs pj_set_completed_def
      count_poll_def split: option.split)

lemma failed_keeps:
  "pr_status r = PProcessing \<Longrightarrow> ptab.keeps (pj_set_failed c m s rc lp now) r"
  by (simp add: ptab.keeps_def pconformsI publish_allowed publish_ok_defs pj_set_failed_def
      count_poll_def split: option.split)

lemma remote_cancelled_keeps:
  "pr_status r = PProcessing \<Longrightarrow> ptab.keeps (pj_set_remote_cancelled s c lp now) r"
  by (simp add: ptab.keeps_def pconformsI publish_allowed publish_ok_defs pj_set_remote_cancelled_def
      count_poll_def split: option.split)

lemma recovered_keeps:
  "pr_status r = PProcessing \<Longrightarrow> 0 \<le> n \<Longrightarrow> ptab.keeps (pj_set_recovered x k n t now) r"
  by (simp add: ptab.keeps_def pconformsI publish_allowed publish_ok_defs pj_set_recovered_def)

lemma renewed_keeps:
  "pr_status r = PProcessing \<Longrightarrow>
     ptab.keeps (\<lambda>r. r\<lparr>pr_leaseExpiresAt := Some u, pr_heartbeatAt := Some now, pr_updatedAt := now\<rparr>) r"
  by (simp add: ptab.keeps_def ppol.conforms_refl publish_ok_defs)

lemma staged_keeps:
  "pr_status r = PProcessing \<Longrightarrow> ptab.keeps (\<lambda>r. r\<lparr>pr_stage := stage, pr_updatedAt := now\<rparr>) r"
  by (simp add: ptab.keeps_def ppol.conforms_refl publish_ok_defs)

lemma new_row_ok: "publish_row_ok (pj_new_row input key fp rk newId now)"
  by (simp add: publish_ok_defs pj_new_row_def)

subsection \<open>Each operation is a step of the contract\<close>

definition publish_frame :: "db \<Rightarrow> db \<Rightarrow> bool" where
  "publish_frame d d' \<longleftrightarrow>
     sourceVersions d' = sourceVersions d \<and> contentJobs d' = contentJobs d \<and> jobEvents d' = jobEvents d"

definition publish_op_ok :: "db \<Rightarrow> db \<Rightarrow> bool" where
  "publish_op_ok d d' \<longleftrightarrow> ptab.table_step\<^sup>*\<^sup>* (publish_tables d) (publish_tables d') \<and> publish_frame d d'"

text \<open>What a torn operation still keeps.\<close>

definition publish_rows_kept :: "db \<Rightarrow> db \<Rightarrow> bool" where
  "publish_rows_kept d d' \<longleftrightarrow> ptab.row_step\<^sup>*\<^sup>* (publishJobs d) (publishJobs d') \<and> publish_frame d d'"

lemma publish_op_refl [simp]: "publish_op_ok d d"
  by (simp add: publish_op_ok_def publish_frame_def)

lemma publish_op1:
  "ptab.table_step (publish_tables d) (publish_tables d') \<Longrightarrow> publish_frame d d' \<Longrightarrow> publish_op_ok d d'"
  by (simp add: publish_op_ok_def)

lemma table_steps_rows:
  "ptab.table_step\<^sup>*\<^sup>* s s' \<Longrightarrow> ptab.row_step\<^sup>*\<^sup>* (fst s) (fst s')"
proof (induction rule: rtranclp_induct)
  case (step y z)
  then have "ptab.row_step (fst y) (fst z)"
    using ptab.table_step_rows [of "fst y" "snd y" "fst z" "snd z"] by simp
  then show ?case using step.IH by simp
qed simp

lemma publish_op_rows: "publish_op_ok d d' \<Longrightarrow> publish_rows_kept d d'"
  using table_steps_rows by (fastforce simp: publish_op_ok_def publish_rows_kept_def)

lemma publish_transaction:
  "(\<And>a d'. body = Inr (a, d') \<Longrightarrow> publish_op_ok d d')
     \<Longrightarrow> publish_op_ok d (snd (or_unavailable m (transaction fault d body)))"
  using transaction_snd [of fault d body] by (metis or_unavailable_state publish_op_refl)

lemma publish_checked:
  "(\<And>b. c = Inr b \<Longrightarrow> publish_op_ok d (snd (k b))) \<Longrightarrow> publish_op_ok d (snd (checked c d k))"
  by (cases c) simp_all

lemma pj_event_simps [simp]:
  "pe_publishJobId (pj_event i ty a b ds now r) = pr_id r" "pe_priorStatus (pj_event i ty a b ds now r) = a"
  "pe_newStatus (pj_event i ty a b ds now r) = Some b"
  by (simp_all add: pj_event_def)

text \<open>A guarded update with one event, both committed.\<close>

lemma publish_move:
  assumes ok: "ptab.rows_ok (publishJobs d)"
    and up: "update_returning p f (publishJobs d) = (Some u, jobs)"
    and p: "\<And>x. p x \<Longrightarrow> pr_id x = i"
    and r: "\<And>r. p r \<Longrightarrow> pr_status r = a \<and> ptab.keeps f r"
    and e: "pe_publishJobId e = i" "pe_priorStatus e = Some a" "pe_newStatus e = Some (pr_status u)"
  shows "publish_op_ok d (d\<lparr>publishJobs := jobs, publishJobEvents := publishJobEvents d @ [e]\<rparr>)"
proof (rule publish_op1)
  have "ptab.table_step (publishJobs d, publishJobEvents d) (jobs, publishJobEvents d @ [e])"
    by (rule ptab.update_move [OF ok up p _ e]) (use r in auto)
  then show "ptab.table_step (publish_tables d)
      (publish_tables (d\<lparr>publishJobs := jobs, publishJobEvents := publishJobEvents d @ [e]\<rparr>))" by simp
qed (simp add: publish_frame_def)

lemma publish_touch:
  assumes "update_returning p f (publishJobs d) = (u, jobs)"
    and "\<And>r. p r \<Longrightarrow> ptab.keeps f r \<and> pr_status (f r) = pr_status r"
  shows "publish_op_ok d (d\<lparr>publishJobs := jobs\<rparr>)"
  by (rule publish_op1) (use ptab.update_touch [OF assms(1)] assms(2) in \<open>simp_all add: publish_frame_def\<close>)

lemma create_pop:
  "publish_op_ok d (snd (pj_createOrGetIdempotent fault snap newId evtId now input d))"
proof -
  have b: "publish_op_ok d d'" if "pj_create_body snap newId evtId now input key fp d = Inr (j, d')" for key fp j d'
  proof (cases "d' = d")
    case False
    with that obtain rk ev where nc: "\<not> pj_conflict (pj_new_row input key fp rk newId now) (publishJobs d)"
      and d': "d' = d\<lparr>publishJobs := publishJobs d @ [pj_new_row input key fp rk newId now],
          publishJobEvents := publishJobEvents d @ [pj_event evtId PublishJobCreated None PQueued ev now
            (pj_new_row input key fp rk newId now)]\<rparr>"
      by (auto simp: pj_create_body_def pj_reuse_def Let_def pj_new_row_def split: option.splits sum.splits if_splits)
    have "ptab.table_step (publish_tables d) (publish_tables d')"
      unfolding d' using nc new_row_ok
      by (auto simp: pj_conflict_def list_ex_iff publish_key_def pj_new_row_def intro!: ptab.insert)
    then show ?thesis by (rule publish_op1) (simp add: d' publish_frame_def)
  qed simp
  have "publish_op_ok d (snd (case transaction fault d (pj_create_body snap newId evtId now input key fp d) of
         (Inr j, d') \<Rightarrow> (Inr j, d')
       | (Inl e, d') \<Rightarrow>
           (case (if isUniqueViolation e then pj_by_key (cpi_tenantId input) key d' else None) of
              Some existing \<Rightarrow> (pj_reuse existing fp, d')
            | None \<Rightarrow> (Inl (toDatabaseUnavailableError e m), d'))))" for key fp m
  proof -
    obtain r e where t: "transaction fault d (pj_create_body snap newId evtId now input key fp d) = (r, e)"
      by (meson surj_pair)
    have "publish_op_ok d e"
      using transaction_snd [of fault d "pj_create_body snap newId evtId now input key fp d"] b
      by (metis publish_op_refl snd_conv t)
    then show ?thesis unfolding t by (simp split: sum.split option.split)
  qed
  then show ?thesis unfolding pj_createOrGetIdempotent_def by (intro publish_checked)
qed

lemma claim_pop:
  assumes ok: "ptab.rows_ok (publishJobs d)"
  shows "publish_op_ok d (snd (pj_claimNextDue fault snap evtId w lease now d))"
  unfolding pj_claimNextDue_def
proof (rule publish_checked, rule publish_transaction)
  fix w a d'
  assume b: "pj_claim_body snap evtId w lease now d = Inr (a, d')"
  show "publish_op_ok d d'"
  proof (cases "d' = d")
    case False
    with b obtain c u jobs where
      c: "order_first pj_claim_key (pj_due now) (publishJobs snap) = Some c"
      and up: "update_returning (\<lambda>r. pr_id r = pr_id c \<and> pr_status r = pr_status c \<and> lease_open now r)
        (pj_lease w lease now) (publishJobs d) = (Some u, jobs)"
      and d': "d' = d\<lparr>publishJobs := jobs, publishJobEvents := publishJobEvents d @
          [pj_claimed_event evtId (pr_status c) w (Some (now + lease)) now u]\<rparr>"
      by (auto simp: pj_claim_body_def split: option.splits prod.splits)
    have st: "pr_status c \<in> {PQueued, PRetrying, PWaiting}"
      using order_first_Some(2) [OF c] by (simp add: pj_due_def)
    have "pr_id u = pr_id c" using update_returning_Some(1) [OF up] by (auto simp: pj_lease_def)
    then show ?thesis unfolding d'
      by (intro publish_move [OF ok up, where i = "pr_id c" and a = "pr_status c"])
        (use st lease_keeps in \<open>auto simp: pj_claimed_event_def\<close>)
  qed simp
qed

lemma acquire_pop:
  assumes ok: "ptab.rows_ok (publishJobs d)"
  shows "publish_op_ok d (snd (ps_acquireNext fault locked snap evtId w lease now d))"
  unfolding ps_acquireNext_def
proof (rule publish_transaction)
  fix a d'
  assume b: "ps_acquire_body locked snap evtId w lease now d = Inr (a, d')"
  show "publish_op_ok d d'"
  proof (cases "d' = d")
    case False
    with b obtain c u jobs where
      c: "ps_candidate locked now snap = Some c"
      and up: "update_returning (\<lambda>r. pr_id r = pr_id c \<and> pr_tenantId r = pr_tenantId c
          \<and> pr_status r = pr_status c \<and> lease_open now r) (pj_lease w lease now) (publishJobs d) = (Some u, jobs)"
      by (auto simp: ps_acquire_body_def split: option.splits prod.splits)
    have u: "pr_id u = pr_id c" "pr_leaseExpiresAt u = Some (now + lease)"
      using update_returning_Some(1) [OF up] by (auto simp: pj_lease_def)
    have d': "d' = d\<lparr>publishJobs := jobs, publishJobEvents := publishJobEvents d @
          [pj_claimed_event evtId (pr_status c) w (Some (now + lease)) now u]\<rparr>"
      using b c up u(2) by (auto simp: ps_acquire_body_def)
    have st: "pr_status c \<in> {PQueued, PRetrying, PWaiting}"
      using order_first_Some(2) [OF c [unfolded ps_candidate_def]] by (auto simp: ps_due_def)
    show ?thesis unfolding d'
      by (intro publish_move [OF ok up, where i = "pr_id c" and a = "pr_status c"])
        (use st lease_keeps u in \<open>auto simp: pj_claimed_event_def\<close>)
  qed simp
qed

lemma mine_processing [dest]: "pj_mine t j w r \<Longrightarrow> pr_status r = PProcessing"
  and held_mine [dest]: "pj_held t j w now r \<Longrightarrow> pj_mine t j w r"
  by (simp_all add: pj_mine_def pj_held_def)

lemma renew_pop: "publish_op_ok d (snd (ps_renewLease fault t j w lease now d))"
proof -
  have "publish_op_ok d (d\<lparr>publishJobs := jobs\<rparr>)"
    if "update_returning (pj_held t j w now) (\<lambda>r. r\<lparr>pr_leaseExpiresAt := Some (now + lease),
          pr_heartbeatAt := Some now, pr_updatedAt := now\<rparr>) (publishJobs d) = (u, jobs)" for u jobs
    by (rule publish_touch [OF that]) (auto intro!: renewed_keeps)
  then show ?thesis by (auto simp: ps_renewLease_def split: option.splits prod.splits)
qed

lemma heartbeat_pop: "publish_op_ok d (snd (pj_heartbeat fault t j w lease now d))"
  unfolding pj_heartbeat_def
proof (rule publish_checked)
  fix w
  let ?g = "\<lambda>r. pj_mine t j w r \<and> (case pr_leaseExpiresAt r of None \<Rightarrow> True | Some x \<Rightarrow> x \<ge> now)"
  have "publish_op_ok d (d\<lparr>publishJobs := jobs\<rparr>)"
    if "update_returning ?g (\<lambda>r. r\<lparr>pr_heartbeatAt := Some now, pr_leaseExpiresAt := Some (now + lease),
          pr_updatedAt := now\<rparr>) (publishJobs d) = (u, jobs)" for u jobs
  proof (rule publish_touch [OF that])
    fix r
    assume "?g r"
    then show "ptab.keeps (\<lambda>r. r\<lparr>pr_heartbeatAt := Some now, pr_leaseExpiresAt := Some (now + lease),
          pr_updatedAt := now\<rparr>) r
        \<and> pr_status (r\<lparr>pr_heartbeatAt := Some now, pr_leaseExpiresAt := Some (now + lease),
          pr_updatedAt := now\<rparr>) = pr_status r"
      by (auto simp: ptab.keeps_def ppol.conforms_refl publish_ok_defs)
  qed
  then show "publish_op_ok d (snd (if fault
      then (Inl (PlatformError DATABASE_UNAVAILABLE ''Unable to heartbeat publish job lease.''), d)
      else case update_returning ?g (\<lambda>r. r\<lparr>pr_heartbeatAt := Some now,
          pr_leaseExpiresAt := Some (now + lease), pr_updatedAt := now\<rparr>) (publishJobs d) of
        (None, _) \<Rightarrow> (Inr None, d)
      | (Some row, jobs) \<Rightarrow> (map_sum id Some (mapPublishJob row), d\<lparr>publishJobs := jobs\<rparr>)))"
    by (simp split: option.splits prod.splits)
qed

lemma stage_pop:
  assumes ok: "ptab.rows_ok (publishJobs d)"
  shows "publish_op_ok d (snd (pj_setStage fault snap evtId t j w stage now d))"
  unfolding pj_setStage_def
proof (rule publish_checked, rule publish_transaction)
  fix w a d'
  assume b: "pj_stage_body snap evtId t j w stage now d = Inr (a, d')"
  show "publish_op_ok d d'"
  proof (cases "d' = d")
    case False
    with b obtain c u jobs ds where
      c: "find_first (pj_mine t j w) (publishJobs snap) = Some c"
      and up: "update_returning (pj_mine (pr_tenantId c) (pr_id c) w)
        (\<lambda>r. r\<lparr>pr_stage := stage, pr_updatedAt := now\<rparr>) (publishJobs d) = (Some u, jobs)"
      and d': "d' = d\<lparr>publishJobs := jobs, publishJobEvents := publishJobEvents d @
          [pj_event evtId PublishStatusPolled (Some (pr_status c)) (pr_status u) ds now u]\<rparr>"
      by (auto simp: pj_stage_body_def split: option.splits prod.splits)
    have st: "pr_status c = PProcessing" using find_first_Some [OF c] by auto
    have u: "pr_id u = pr_id c" "pr_status u = PProcessing"
      using update_returning_Some(1) [OF up] by (auto simp: pj_mine_def)
    show ?thesis unfolding d'
      by (intro publish_move [OF ok up, where i = "pr_id c" and a = PProcessing])
        (use st u staged_keeps in \<open>auto simp: pj_mine_def\<close>)
  qed simp
qed

lemma cancel_pop:
  assumes ok: "ptab.rows_ok (publishJobs d)"
  shows "publish_op_ok d (snd (pj_cancel fault snap evtId t j now d))"
  unfolding pj_cancel_def
proof (rule publish_checked, rule publish_transaction)
  fix a d'
  assume "pj_cancel_body snap evtId t j now d = Inr (a, d')"
  then obtain s u jobs where st: "s \<in> {PQueued, PRetrying, PWaiting}"
    and up: "update_returning (\<lambda>r. pr_tenantId r = t \<and> pr_id r = j \<and> pr_status r = s)
      (pj_set_cancelled now) (publishJobs d) = (Some u, jobs)"
    and d': "d' = d\<lparr>publishJobs := jobs, publishJobEvents := publishJobEvents d @
        [pj_event evtId PublishCancelled (Some s) PCancelled None now u]\<rparr>"
    by (auto simp: pj_cancel_body_def split: option.splits prod.splits if_splits)
  have u: "pr_id u = j" "pr_status u = PCancelled"
    using update_returning_Some(1) [OF up] by (auto simp: pj_set_cancelled_def)
  show "publish_op_ok d d'" unfolding d'
    by (intro publish_move [OF ok up, where i = j and a = s])
      (use st u cancelled_keeps in auto)
qed

subsection \<open>The recording operations\<close>

text \<open>
  A recording operation is torn when its update is done and one of its \<open>n\<close> events is not
  inserted.
\<close>

definition torn :: "nat option \<Rightarrow> nat \<Rightarrow> bool" where
  "torn fault n \<longleftrightarrow> (case fault of Some (Suc k) \<Rightarrow> k < n | _ \<Rightarrow> False)"

text \<open>The events of a recording operation: one for the move, the rest notes on the new status.\<close>

definition tells_move :: "string \<Rightarrow> publish_status \<Rightarrow> publish_event list \<Rightarrow> bool" where
  "tells_move j s es \<longleftrightarrow> es \<noteq> [] \<and> pe_publishJobId (hd es) = j \<and> pe_priorStatus (hd es) = Some PProcessing
     \<and> pe_newStatus (hd es) = Some s
     \<and> (\<forall>e \<in> set (tl es). pe_publishJobId e = j \<and> pe_priorStatus e = Some s \<and> pe_newStatus e = Some s)"

lemma annotations:
  assumes "ptab.rows_ok rows" and "r \<in> set rows"
    and "\<forall>e \<in> set es. pe_publishJobId e = pr_id r \<and> pe_priorStatus e = Some (pr_status r)
       \<and> pe_newStatus e = Some (pr_status r)"
  shows "ptab.table_step\<^sup>*\<^sup>* (rows, evs) (rows, evs @ es)"
  using assms(3)
proof (induction es rule: rev_induct)
  case (snoc e es)
  then have "ptab.table_step (rows, evs @ es) (rows, (evs @ es) @ [e])"
    by (intro ptab.annotate [OF assms(1,2)]) auto
  with snoc show ?case by (simp add: rtranclp.rtrancl_into_rtrancl)
qed simp

lemma move_and_notes:
  assumes ok: "ptab.rows_ok (publishJobs d)"
    and up: "update_returning g f (publishJobs d) = (Some u, jobs)"
    and g: "\<And>r. g r \<Longrightarrow> pr_id r = j \<and> pr_status r = PProcessing \<and> ptab.keeps f r"
    and es: "tells_move j (pr_status u) es"
  shows "publish_op_ok d (d\<lparr>publishJobs := jobs, publishJobEvents := publishJobEvents d @ es\<rparr>)"
proof -
  from es obtain e rest where e: "es = e # rest" "pe_publishJobId e = j" "pe_priorStatus e = Some PProcessing"
    "pe_newStatus e = Some (pr_status u)"
    and rest: "\<forall>x \<in> set rest. pe_publishJobId x = j \<and> pe_priorStatus x = Some (pr_status u)
      \<and> pe_newStatus x = Some (pr_status u)"
    by (cases es) (auto simp: tells_move_def)
  have mv: "ptab.table_step (publishJobs d, publishJobEvents d) (jobs, publishJobEvents d @ [e])"
    by (rule ptab.update_move [OF ok up _ _ e(2,3,4)]) (use g in auto)
  have ok': "ptab.rows_ok jobs" using ptab.row_step_ok [OF ptab.table_step_rows [OF mv] ok] .
  have u: "u \<in> set jobs" "pr_id u = j"
    using update_returning_Some [OF up] g by (auto simp: set_update_where ptab.keeps_def)
  have "ptab.table_step\<^sup>*\<^sup>* (jobs, publishJobEvents d @ [e]) (jobs, (publishJobEvents d @ [e]) @ rest)"
    using u rest by (intro annotations [OF ok' u(1)]) simp
  with mv have "ptab.table_step\<^sup>*\<^sup>* (publishJobs d, publishJobEvents d) (jobs, publishJobEvents d @ es)"
    by (simp add: e(1) converse_rtranclp_into_rtranclp)
  then show ?thesis by (simp add: publish_op_ok_def publish_frame_def)
qed

lemma record_rows:
  assumes "\<And>r. g r \<Longrightarrow> ptab.keeps f r"
  shows "publish_rows_kept d (snd (pj_record fault m g f evs d))"
proof -
  have "ptab.row_step (publishJobs d) (update_where g f (publishJobs d))"
    using assms by (intro ptab.row_update) auto
  then have "publish_rows_kept d (d\<lparr>publishJobs := update_where g f (publishJobs d), publishJobEvents := es\<rparr>)" for es
    by (simp add: publish_rows_kept_def publish_frame_def r_into_rtranclp)
  moreover have "publish_rows_kept d d" by (simp add: publish_rows_kept_def publish_frame_def)
  ultimately show ?thesis
    by (simp add: pj_record_def update_returning_def Let_def split: option.splits nat.splits)
qed

lemma record_ops:
  assumes ok: "ptab.rows_ok (publishJobs d)" and n: "\<And>u. length (evs u) = n" and t: "\<not> torn fault n"
    and g: "\<And>r. g r \<Longrightarrow> pr_id r = j \<and> pr_status r = PProcessing \<and> ptab.keeps f r"
    and es: "\<And>r. g r \<Longrightarrow> tells_move j (pr_status (f r)) (evs (f r))"
  shows "publish_op_ok d (snd (pj_record fault m g f evs d))"
proof (cases "update_returning g f (publishJobs d)")
  case (Pair u jobs)
  show ?thesis
  proof (cases u)
    case None
    then show ?thesis by (simp add: pj_record_def Pair)
  next
    case (Some v)
    from update_returning_Some [OF Pair [unfolded Some]] es
    have "tells_move j (pr_status v) (evs v)" by auto
    then have "publish_op_ok d (d\<lparr>publishJobs := jobs, publishJobEvents := publishJobEvents d @ evs v\<rparr>)"
      using g by (intro move_and_notes [OF ok Pair [unfolded Some]]) auto
    then show ?thesis using t n
      by (simp add: pj_record_def Pair Some Let_def torn_def split: option.splits nat.splits)
  qed
qed

text \<open>The two facts about a recording operation, in one.\<close>

definition publish_recorded :: "bool \<Rightarrow> db \<Rightarrow> db \<Rightarrow> bool" where
  "publish_recorded t d d' \<longleftrightarrow> publish_rows_kept d d' \<and> (\<not> t \<longrightarrow> publish_op_ok d d')"

lemma publish_recorded_refl [simp]: "publish_recorded t d d"
  by (simp add: publish_recorded_def publish_op_rows)

lemma recorded_checked:
  "(\<And>b. c = Inr b \<Longrightarrow> publish_recorded t d (snd (k b))) \<Longrightarrow> publish_recorded t d (snd (checked c d k))"
  by (cases c) simp_all

lemma recorded_op: "publish_op_ok d d' \<Longrightarrow> publish_recorded t d d'"
  by (simp add: publish_recorded_def publish_op_rows)

lemma record_ok:
  assumes "ptab.rows_ok (publishJobs d)" and "\<And>u. length (evs u) = n"
    and "\<And>r. pr_status r = PProcessing \<Longrightarrow> ptab.keeps f r"
    and "\<And>r. tells_move (pr_id r) (pr_status (f r)) (evs (f r))"
  shows "publish_recorded (torn fault n) d (snd (pj_record fault m (pj_held t j w now) f evs d))"
  unfolding publish_recorded_def
proof (intro conjI impI)
  show "publish_rows_kept d (snd (pj_record fault m (pj_held t j w now) f evs d))"
    using assms(3) by (intro record_rows) auto
  show "publish_op_ok d (snd (pj_record fault m (pj_held t j w now) f evs d))" if "\<not> torn fault n"
  proof (rule record_ops [OF assms(1,2) that])
    show "pr_id r = j \<and> pr_status r = PProcessing \<and> ptab.keeps f r" if "pj_held t j w now r" for r
      using that assms(3) by (auto simp: pj_held_def pj_mine_def)
    show "tells_move j (pr_status (f r)) (evs (f r))" if "pj_held t j w now r" for r
      using assms(4) [of r] that by (auto simp: pj_held_def pj_mine_def)
  qed
qed

lemma submission_ok:
  assumes "ptab.rows_ok (publishJobs d)"
  shows "publish_recorded (torn fault 2) d
    (snd (pj_recordSubmission fault e1 e2 t j w ri rs rc sub poll now d))"
  unfolding pj_recordSubmission_def
  by (intro recorded_checked record_ok [OF assms])
    (simp_all add: submitted_keeps tells_move_def pj_set_submitted_def)

lemma remote_waiting_ok:
  assumes "ptab.rows_ok (publishJobs d)"
  shows "publish_recorded (torn fault 1) d
    (snd (pj_recordRemoteWaiting fault evtId t j w rs rc lp poll now d))"
  unfolding pj_recordRemoteWaiting_def
  by (intro recorded_checked record_ok [OF assms])
    (simp_all add: waiting_keeps tells_move_def pj_set_waiting_def)

lemma retry_ok:
  assumes "ptab.rows_ok (publishJobs d)"
  shows "publish_recorded (torn fault 1) d (snd (pj_recordRetry fault evtId t j w c m na now d))"
  unfolding pj_recordRetry_def
  by (intro recorded_checked record_ok [OF assms])
    (simp_all add: retrying_keeps tells_move_def pj_set_retrying_def)

lemma complete_ok:
  assumes "ptab.rows_ok (publishJobs d)"
  shows "publish_recorded (torn fault 1) d (snd (pj_complete fault evtId t j w rs rc lp dm now d))"
  unfolding pj_complete_def
  by (intro recorded_checked record_ok [OF assms])
    (simp_all add: completed_keeps tells_move_def pj_set_completed_def count_poll_def)

lemma fail_ok:
  assumes "ptab.rows_ok (publishJobs d)"
  shows "publish_recorded (torn fault 1) d (snd (pj_fail fault evtId t j w c m rs rc lp now d))"
  unfolding pj_fail_def
  by (intro recorded_checked record_ok [OF assms])
    (simp_all add: failed_keeps tells_move_def pj_set_failed_def count_poll_def)

lemma remote_cancelled_ok:
  assumes "ptab.rows_ok (publishJobs d)"
  shows "publish_recorded (torn fault 1) d (snd (pj_markRemoteCancelled fault evtId t j w rs rc lp now d))"
  unfolding pj_markRemoteCancelled_def
  by (intro recorded_checked record_ok [OF assms])
    (simp_all add: remote_cancelled_keeps tells_move_def pj_set_remote_cancelled_def count_poll_def)

subsection \<open>Recovery\<close>

lemma recover_one_pop:
  assumes ok: "ptab.rows_ok (publishJobs d)" and st: "0 \<le> pr_consecutiveFailureCount stale"
  shows "publish_op_ok d (snd (pj_recover_one evtId now mx delay stale (n, d)))"
proof -
  let ?x = "pr_consecutiveFailureCount stale + 1 \<ge> mx"
  let ?f = "pj_set_recovered ?x (known_remotely stale) (pr_consecutiveFailureCount stale + 1) (now + delay) now"
  have "publish_op_ok d (d\<lparr>publishJobs := jobs, publishJobEvents := publishJobEvents d @
        [pj_event e PublishLeaseExpired (Some PProcessing) (pr_status u) ds now u]\<rparr>)"
    if up: "update_returning (\<lambda>r. pr_id r = pr_id stale \<and> pj_stale now r) ?f (publishJobs d) = (Some u, jobs)"
    for u jobs e ds
  proof -
    have "pr_id u = pr_id stale"
      using update_returning_Some(1) [OF up] by (auto simp: pj_set_recovered_def)
    then show ?thesis
      by (intro publish_move [OF ok up, where i = "pr_id stale" and a = PProcessing])
        (use st recovered_keeps in \<open>auto simp: pj_stale_def\<close>)
  qed
  then show ?thesis by (simp add: pj_recover_one_def Let_def split: option.splits prod.splits)
qed

lemma publish_op_trans: "publish_op_ok d d' \<Longrightarrow> publish_op_ok d' d'' \<Longrightarrow> publish_op_ok d d''"
  by (auto simp: publish_op_ok_def publish_frame_def)

lemma publish_op_rows_ok:
  assumes "publish_op_ok d d'" and "ptab.rows_ok (publishJobs d)"
  shows "ptab.rows_ok (publishJobs d')"
proof -
  have "ptab.row_step\<^sup>*\<^sup>* (publishJobs d) (publishJobs d')"
    using publish_op_rows [OF assms(1)] by (simp add: publish_rows_kept_def)
  then show ?thesis using assms(2) by (induction rule: rtranclp_induct) (auto intro: ptab.row_step_ok)
qed

lemma recover_fold_pop:
  assumes "ptab.rows_ok (publishJobs d)" and "\<forall>r \<in> set rs. 0 \<le> pr_consecutiveFailureCount r"
  shows "publish_op_ok d (snd (fold (pj_recover_one evtId now mx delay) rs (n, d)))"
  using assms
proof (induction rs arbitrary: n d)
  case (Cons r rs)
  obtain n' d' where s: "pj_recover_one evtId now mx delay r (n, d) = (n', d')" by (meson surj_pair)
  have 1: "publish_op_ok d d'"
    using recover_one_pop [OF Cons.prems(1), of r evtId now mx delay n] Cons.prems(2) by (simp add: s)
  have "publish_op_ok d' (snd (fold (pj_recover_one evtId now mx delay) rs (n', d')))"
    using Cons publish_op_rows_ok [OF 1] by simp
  with 1 show ?case by (simp add: s publish_op_trans)
qed simp

definition publish_inv :: "db \<Rightarrow> bool" where
  "publish_inv d \<longleftrightarrow>
     distinct (map pr_id (publishJobs d)) \<and> distinct (map publish_key (publishJobs d))
     \<and> list_all publish_row_ok (publishJobs d)"

lemma publish_rows_ok_inv: "ptab.rows_ok (publishJobs d) \<longleftrightarrow> publish_inv d"
  by (simp add: ptab.rows_ok_def publish_inv_def)

lemma recover_pop:
  assumes "publish_inv d" and "publish_inv snap"
  shows "publish_op_ok d (snd (pj_recoverStaleLeases fault snap evtId now mx delay limit d))"
proof -
  have "\<forall>r \<in> set (pj_stale_rows now limit snap). 0 \<le> pr_consecutiveFailureCount r"
    using assms(2) order_limit_mem
    by (fastforce simp: pj_stale_rows_def publish_inv_def list_all_iff publish_row_ok_def publish_counts_ok_def)
  then have "publish_op_ok d (snd (fold (pj_recover_one evtId now mx delay)
      (pj_stale_rows now limit snap) (0, d)))"
    using assms(1) by (intro recover_fold_pop) (simp_all add: publish_rows_ok_inv)
  then show ?thesis
    unfolding pj_recoverStaleLeases_def by (intro publish_transaction) auto
qed

end
