(* ===== verification/PublishRuns.thy ===== *)
theory PublishRuns
  imports PublishLifecycle
begin

text \<open>
  Runs of the program on publish jobs: every operation of the repository and of the worker's
  source, by any actor, with whatever its selects read and whichever statements fail.  What
  holds in every reachable database, who may change a job, and what the operations achieve
  without interference.
\<close>

subsection \<open>Runs\<close>

text \<open>
  The actor is the worker whose operation it is, \<open>None\<close> for the API and the recovery.  The
  flag says whether torn recordings are allowed.  The recovery computes failure counts from
  the rows it selected, so these come from a consistent database, if not the present one.
\<close>

inductive publish_step :: "bool \<Rightarrow> string option \<Rightarrow> time \<Rightarrow> db \<Rightarrow> db \<Rightarrow> bool" for tears where
  create: "publish_step tears None now d
     (snd (pj_createOrGetIdempotent fault snap newId evtId now input d))"
| cancel: "publish_step tears None now d (snd (pj_cancel fault snap evtId t j now d))"
| recover: "publish_inv snap \<Longrightarrow> publish_step tears None now d
     (snd (pj_recoverStaleLeases fault snap evtId now maxConsecutiveFailures delay limit d))"
| claim: "publish_step tears (Some w) now d (snd (pj_claimNextDue fault snap evtId w lease now d))"
| acquire: "publish_step tears (Some w) now d (snd (ps_acquireNext fault locked snap evtId w lease now d))"
| renew: "publish_step tears (Some w) now d (snd (ps_renewLease fault t j w lease now d))"
| heartbeat: "publish_step tears (Some (js_trim w)) now d (snd (pj_heartbeat fault t j w lease now d))"
| stage: "publish_step tears (Some (js_trim w)) now d (snd (pj_setStage fault snap evtId t j w stg now d))"
| submission: "(torn stmt 2 \<Longrightarrow> tears) \<Longrightarrow> publish_step tears (Some (js_trim w)) now d
     (snd (pj_recordSubmission stmt evtId evtId' t j w ri rs rc sub poll now d))"
| waiting: "(torn stmt 1 \<Longrightarrow> tears) \<Longrightarrow> publish_step tears (Some (js_trim w)) now d
     (snd (pj_recordRemoteWaiting stmt evtId t j w rs rc lp poll now d))"
| retry: "(torn stmt 1 \<Longrightarrow> tears) \<Longrightarrow> publish_step tears (Some (js_trim w)) now d
     (snd (pj_recordRetry stmt evtId t j w code msg na now d))"
| complete: "(torn stmt 1 \<Longrightarrow> tears) \<Longrightarrow> publish_step tears (Some (js_trim w)) now d
     (snd (pj_complete stmt evtId t j w rs rc lpo dm now d))"
| fail: "(torn stmt 1 \<Longrightarrow> tears) \<Longrightarrow> publish_step tears (Some (js_trim w)) now d
     (snd (pj_fail stmt evtId t j w code msg rso rc lpo now d))"
| remote_cancelled: "(torn stmt 1 \<Longrightarrow> tears) \<Longrightarrow> publish_step tears (Some (js_trim w)) now d
     (snd (pj_markRemoteCancelled stmt evtId t j w rs rc lpo now d))"
| elsewhere: "publish_tables d' = publish_tables d \<Longrightarrow> publish_step tears a now d d'"

inductive publish_run :: "bool \<Rightarrow> db \<Rightarrow> db \<Rightarrow> bool" for tears where
  run_none: "publish_run tears d d"
| run_step: "publish_run tears d d' \<Longrightarrow> publish_step tears a now d' d'' \<Longrightarrow> publish_run tears d d''"

lemma recorded_tables:
  assumes "publish_recorded t d d'"
  shows "ptab.row_step\<^sup>*\<^sup>* (publishJobs d) (publishJobs d')"
    and "\<not> t \<Longrightarrow> ptab.table_step\<^sup>*\<^sup>* (publish_tables d) (publish_tables d')"
  using assms by (auto simp: publish_recorded_def publish_rows_kept_def publish_op_ok_def)

lemma recorded_tears:
  "publish_recorded (torn fault n) d d' \<Longrightarrow> (torn fault n \<Longrightarrow> tears) \<Longrightarrow> publish_recorded tears d d'"
  by (auto simp: publish_recorded_def)

lemma publish_step_recorded:
  assumes st: "publish_step tears a now d d'" and inv: "publish_inv d"
  shows "publish_recorded tears d d' \<or> publish_tables d' = publish_tables d"
proof -
  have ok: "ptab.rows_ok (publishJobs d)" using inv by (simp add: publish_rows_ok_inv)
  note ops = create_pop claim_pop [OF ok] acquire_pop [OF ok] renew_pop heartbeat_pop stage_pop [OF ok]
    cancel_pop [OF ok] recover_pop [OF inv]
  note recs = submission_ok [OF ok] remote_waiting_ok [OF ok] retry_ok [OF ok] complete_ok [OF ok]
    fail_ok [OF ok] remote_cancelled_ok [OF ok]
  show ?thesis using st
    by (cases rule: publish_step.cases) (blast intro: recorded_op ops recorded_tears recs)+
qed

lemma publish_step_rows:
  assumes "publish_step tears a now d d'" and "publish_inv d"
  shows "ptab.row_step\<^sup>*\<^sup>* (publishJobs d) (publishJobs d')"
  using publish_step_recorded [OF assms] recorded_tables(1) by fastforce

lemma publish_step_table:
  assumes "publish_step False a now d d'" and "publish_inv d"
  shows "ptab.table_step\<^sup>*\<^sup>* (publish_tables d) (publish_tables d')"
  using publish_step_recorded [OF assms] recorded_tables(2) [of False] by fastforce

lemma row_steps_ok: "ptab.row_step\<^sup>*\<^sup>* rows rows' \<Longrightarrow> ptab.rows_ok rows \<Longrightarrow> ptab.rows_ok rows'"
  by (induction rule: rtranclp_induct) (auto intro: ptab.row_step_ok)

lemma publish_step_inv:
  assumes "publish_step tears a now d d'" and "publish_inv d"
  shows "publish_inv d'"
  using row_steps_ok [OF publish_step_rows [OF assms]] assms(2) by (simp add: publish_rows_ok_inv)

lemma publish_run_inv: "publish_run tears d d' \<Longrightarrow> publish_inv d \<Longrightarrow> publish_inv d'"
  by (induction rule: publish_run.induct) (auto intro: publish_step_inv)

lemma publish_run_rows:
  assumes "publish_run tears d d'" and "publish_inv d"
  shows "ptab.row_step\<^sup>*\<^sup>* (publishJobs d) (publishJobs d')"
  using assms
proof (induction rule: publish_run.induct)
  case (run_step d d' a now d'')
  then show ?case using publish_step_rows publish_run_inv by (meson rtranclp_trans)
qed simp

lemma publish_run_table:
  assumes "publish_run False d d'" and "publish_inv d"
  shows "ptab.table_step\<^sup>*\<^sup>* (publish_tables d) (publish_tables d')"
  using assms
proof (induction rule: publish_run.induct)
  case (run_step d d' a now d'')
  then show ?case using publish_step_table publish_run_inv by (meson rtranclp_trans)
qed simp

lemma publish_inv_empty: "publish_inv empty_db"
  by (simp add: publish_inv_def empty_db_def)

lemma publish_logged_empty: "ptab.logged (publishJobs empty_db) (publishJobEvents empty_db)"
  by (simp add: ptab.logged_def empty_db_def)

subsection \<open>Who may change a row\<close>

definition publish_open_to :: "string option \<Rightarrow> time \<Rightarrow> publish_row \<Rightarrow> bool" where
  "publish_open_to a now r \<longleftrightarrow>
     pr_status r \<in> {PQueued, PRetrying, PWaiting}
     \<or> (\<exists>w. a = Some w \<and> pj_mine (pr_tenantId r) (pr_id r) w r)
     \<or> pj_stale now r"

definition publish_untouched :: "string option \<Rightarrow> time \<Rightarrow> db \<Rightarrow> db \<Rightarrow> bool" where
  "publish_untouched a now d d' \<longleftrightarrow>
     (\<forall>r \<in> set (publishJobs d). \<not> publish_open_to a now r \<longrightarrow> r \<in> set (publishJobs d'))"

lemma pub_untouched_refl [simp]: "publish_untouched a now d d"
  by (simp add: publish_untouched_def)

lemma pub_untouched_trans:
  "publish_untouched a now d d' \<Longrightarrow> publish_untouched a now d' d'' \<Longrightarrow> publish_untouched a now d d''"
  by (auto simp: publish_untouched_def)

lemma pub_untouched_append: "publishJobs d' = publishJobs d @ rs \<Longrightarrow> publish_untouched a now d d'"
  by (simp add: publish_untouched_def)

lemma pub_untouched_update:
  assumes "update_returning p f (publishJobs d) = (u, jobs)" and "publishJobs d' = jobs"
    and "\<And>r. p r \<Longrightarrow> publish_open_to a now r"
  shows "publish_untouched a now d d'"
proof -
  have "r \<in> set jobs" if "r \<in> set (publishJobs d)" "\<not> publish_open_to a now r" for r
    using that assms(1,3) set_update_where [of r p f "publishJobs d"]
    by (auto simp: update_returning_def intro!: bexI [of _ r])
  then show ?thesis using assms(2) by (simp add: publish_untouched_def)
qed

lemma pub_untouched_where:
  "(\<And>r. p r \<Longrightarrow> publish_open_to a now r) \<Longrightarrow> publishJobs d' = update_where p f (publishJobs d)
     \<Longrightarrow> publish_untouched a now d d'"
  using pub_untouched_update [of p f d _ _ d' a now] by (simp add: update_returning_def)

lemma pub_transaction_untouched:
  "(\<And>x d'. body = Inr (x, d') \<Longrightarrow> publish_untouched a now d d')
     \<Longrightarrow> publish_untouched a now d (snd (or_unavailable m (transaction fault d body)))"
  using transaction_snd [of fault d body] by (metis or_unavailable_state pub_untouched_refl)

lemma checked_untouched:
  "(\<And>b. c = Inr b \<Longrightarrow> publish_untouched a now d (snd (k b))) \<Longrightarrow> publish_untouched a now d (snd (checked c d k))"
  by (cases c) simp_all

lemma mine_open: "pj_mine t j w r \<Longrightarrow> publish_open_to (Some w) now r"
  by (auto simp: publish_open_to_def pj_mine_def)

lemma record_untouched:
  assumes "\<And>r. g r \<Longrightarrow> publish_open_to a now r"
  shows "publish_untouched a now d (snd (pj_record fault m g f evs d))"
proof -
  have "publish_untouched a now d (d\<lparr>publishJobs := update_where g f (publishJobs d), publishJobEvents := es\<rparr>)"
    for es
    by (rule pub_untouched_where [OF assms]) simp_all
  then show ?thesis
    by (simp add: pj_record_def update_returning_def Let_def split: option.splits nat.splits)
qed

lemma pub_create_untouched:
  "publish_untouched a now d (snd (pj_createOrGetIdempotent fault snap newId evtId now' input d))"
proof -
  have b: "publish_untouched a now d e"
    if "pj_create_body snap newId evtId now' input key fp d = Inr (j, e)" for key fp j e
    using that by (auto simp: pj_create_body_def pj_reuse_def Let_def
        split: option.splits sum.splits if_splits intro: pub_untouched_append)
  have "publish_untouched a now d (snd (case transaction fault d (pj_create_body snap newId evtId now' input key fp d) of
         (Inr j, d') \<Rightarrow> (Inr j, d')
       | (Inl e, d') \<Rightarrow>
           (case (if isUniqueViolation e then pj_by_key (cpi_tenantId input) key d' else None) of
              Some existing \<Rightarrow> (pj_reuse existing fp, d')
            | None \<Rightarrow> (Inl (toDatabaseUnavailableError e m), d'))))" for key fp m
  proof -
    obtain r e where t: "transaction fault d (pj_create_body snap newId evtId now' input key fp d) = (r, e)"
      by (meson surj_pair)
    have "publish_untouched a now d e"
      using transaction_snd [of fault d "pj_create_body snap newId evtId now' input key fp d"] b
      by (metis pub_untouched_refl snd_conv t)
    then show ?thesis unfolding t by (simp split: sum.split option.split)
  qed
  then show ?thesis unfolding pj_createOrGetIdempotent_def by (intro checked_untouched)
qed

lemma pub_cancel_untouched: "publish_untouched a now d (snd (pj_cancel fault snap evtId t j now' d))"
  unfolding pj_cancel_def
proof (rule checked_untouched, rule pub_transaction_untouched)
  fix x e
  assume "pj_cancel_body snap evtId t j now' d = Inr (x, e)"
  then obtain s u jobs where st: "s \<in> {PQueued, PRetrying, PWaiting}"
    and up: "update_returning (\<lambda>r. pr_tenantId r = t \<and> pr_id r = j \<and> pr_status r = s)
      (pj_set_cancelled now') (publishJobs d) = (Some u, jobs)"
    and e: "e = d\<lparr>publishJobs := jobs, publishJobEvents := publishJobEvents d @
        [pj_event evtId PublishCancelled (Some s) PCancelled None now' u]\<rparr>"
    by (auto simp: pj_cancel_body_def split: option.splits prod.splits if_splits)
  show "publish_untouched a now d e"
    by (rule pub_untouched_update [OF up]) (use st in \<open>auto simp: e publish_open_to_def\<close>)
qed

lemma claim_untouched: "publish_untouched a now d (snd (pj_claimNextDue fault snap evtId w lease now' d))"
  unfolding pj_claimNextDue_def
proof (rule checked_untouched, rule pub_transaction_untouched)
  fix w x e
  assume b: "pj_claim_body snap evtId w lease now' d = Inr (x, e)"
  show "publish_untouched a now d e"
  proof (cases "e = d")
    case False
    with b obtain c u jobs where
      c: "order_first pj_claim_key (pj_due now') (publishJobs snap) = Some c"
      and up: "update_returning (\<lambda>r. pr_id r = pr_id c \<and> pr_status r = pr_status c \<and> lease_open now' r)
        (pj_lease w lease now') (publishJobs d) = (Some u, jobs)" "publishJobs e = jobs"
      by (auto simp: pj_claim_body_def split: option.splits prod.splits)
    show ?thesis using up order_first_Some(2) [OF c]
      by (elim pub_untouched_update) (auto simp: publish_open_to_def pj_due_def)
  qed simp
qed

lemma pub_acquire_untouched:
  "publish_untouched a now d (snd (ps_acquireNext fault locked snap evtId w lease now' d))"
  unfolding ps_acquireNext_def
proof (rule pub_transaction_untouched)
  fix x e
  assume b: "ps_acquire_body locked snap evtId w lease now' d = Inr (x, e)"
  show "publish_untouched a now d e"
  proof (cases "e = d")
    case False
    with b obtain c u jobs where
      c: "ps_candidate locked now' snap = Some c"
      and up: "update_returning (\<lambda>r. pr_id r = pr_id c \<and> pr_tenantId r = pr_tenantId c
          \<and> pr_status r = pr_status c \<and> lease_open now' r) (pj_lease w lease now') (publishJobs d) = (Some u, jobs)"
        "publishJobs e = jobs"
      by (auto simp: ps_acquire_body_def split: option.splits prod.splits)
    show ?thesis using up order_first_Some(2) [OF c [unfolded ps_candidate_def]]
      by (elim pub_untouched_update) (auto simp: publish_open_to_def ps_due_def)
  qed simp
qed

lemma pub_held_open: "pj_held t j w now' r \<Longrightarrow> publish_open_to (Some w) now r"
  using held_mine mine_open by blast

lemma renew_untouched: "publish_untouched (Some w) now d (snd (ps_renewLease fault t j w lease now' d))"
  by (auto simp: ps_renewLease_def split: option.splits prod.splits elim!: pub_untouched_update intro: pub_held_open)

lemma heartbeat_untouched:
  "publish_untouched (Some (js_trim w)) now d (snd (pj_heartbeat fault t j w lease now' d))"
  unfolding pj_heartbeat_def
  by (rule checked_untouched)
    (auto simp: ensureNonEmpty_Inr split: option.splits prod.splits elim!: pub_untouched_update intro: mine_open)

lemma stage_untouched:
  "publish_untouched (Some (js_trim w)) now d (snd (pj_setStage fault snap evtId t j w stg now' d))"
  unfolding pj_setStage_def
  by (rule checked_untouched, rule pub_transaction_untouched)
    (auto simp: ensureNonEmpty_Inr pj_stage_body_def split: option.splits prod.splits
      elim!: pub_untouched_update intro: mine_open)

lemma recover_one_untouched:
  "publish_untouched a now d (snd (pj_recover_one evtId now mx delay stale (n, d)))"
  by (auto simp: pj_recover_one_def Let_def publish_open_to_def split: option.splits prod.splits
      elim!: pub_untouched_update)

lemma recover_fold_untouched:
  "publish_untouched a now d (snd (fold (pj_recover_one evtId now mx delay) rs (n, d)))"
proof (induction rs arbitrary: n d)
  case (Cons r rs)
  obtain n' d' where s: "pj_recover_one evtId now mx delay r (n, d) = (n', d')" by (meson surj_pair)
  have "publish_untouched a now d d'" using recover_one_untouched [of a now d evtId mx delay r n] by (simp add: s)
  then show ?case using Cons [of d' n'] by (simp add: s pub_untouched_trans)
qed simp

lemma recover_untouched:
  "publish_untouched a now d (snd (pj_recoverStaleLeases fault snap evtId now mx delay limit d))"
  unfolding pj_recoverStaleLeases_def
proof (rule pub_transaction_untouched)
  fix x e
  assume "(Inr (fold (pj_recover_one evtId now mx delay) (pj_stale_rows now limit snap) (0, d)) :: caught + nat \<times> db)
    = Inr (x, e)"
  then show "publish_untouched a now d e"
    using recover_fold_untouched [of a now d evtId mx delay "pj_stale_rows now limit snap" 0] by simp
qed

lemmas recording_defs = pj_recordSubmission_def pj_recordRemoteWaiting_def pj_recordRetry_def
  pj_complete_def pj_fail_def pj_markRemoteCancelled_def

lemma record_held_untouched:
  "w = w' \<Longrightarrow> publish_untouched (Some w) now d (snd (pj_record fault m (pj_held t j w' now') f evs d))"
  by (rule record_untouched) (simp add: pub_held_open)

lemma publish_step_untouched:
  assumes "publish_step tears a now d d'"
  shows "publish_untouched a now d d'"
  using assms
proof (cases rule: publish_step.cases)
  case elsewhere
  then show ?thesis by (simp add: publish_untouched_def)
qed (simp_all add: pub_create_untouched pub_cancel_untouched recover_untouched claim_untouched pub_acquire_untouched
    renew_untouched heartbeat_untouched stage_untouched,
    (unfold recording_defs, (intro checked_untouched record_held_untouched, simp add: ensureNonEmpty_Inr)+)?)

subsection \<open>Leases\<close>

definition publish_held :: "db \<Rightarrow> string \<Rightarrow> string \<Rightarrow> time \<Rightarrow> bool" where
  "publish_held d j w until \<longleftrightarrow>
     (\<exists>r \<in> set (publishJobs d). pr_id r = j \<and> pr_status r = PProcessing
        \<and> pr_leaseOwner r = Some w \<and> pr_leaseExpiresAt r = Some until)"

lemma publish_sole_holder:
  "publish_inv d \<Longrightarrow> publish_held d j w u \<Longrightarrow> publish_held d j w' u' \<Longrightarrow> w = w' \<and> u = u'"
  unfolding publish_held_def publish_inv_def by (metis option.inject unique_key_eq)

lemma publish_undisturbed:
  assumes st: "publish_step tears a now d d'" and h: "publish_held d j w u"
    and a: "a \<noteq> Some w" and t: "now < u"
  shows "publish_held d' j w u"
proof -
  from h obtain r where r: "r \<in> set (publishJobs d)" "pr_id r = j" "pr_status r = PProcessing"
    "pr_leaseOwner r = Some w" "pr_leaseExpiresAt r = Some u" by (auto simp: publish_held_def)
  have "\<not> publish_open_to a now r"
    using r a t by (auto simp: publish_open_to_def pj_mine_def pj_stale_def reached_def)
  then have "r \<in> set (publishJobs d')"
    using publish_step_untouched [OF st] r(1) by (simp add: publish_untouched_def)
  then show ?thesis using r by (auto simp: publish_held_def)
qed

interpretation please: lease_protocol "publish_step tears" publish_held publish_inv for tears
  by unfold_locales
    (blast intro: publish_step_inv, blast dest: publish_sole_holder, blast intro: publish_undisturbed)

text \<open>A run in which everybody but \<open>w\<close> acts, before the time \<open>u\<close>.\<close>

definition publish_others_until :: "bool \<Rightarrow> string \<Rightarrow> time \<Rightarrow> db \<Rightarrow> db \<Rightarrow> bool" where
  "publish_others_until tears = lease_protocol.others_until (publish_step tears)"

subsection \<open>An example run\<close>

text \<open>
  A publish job for an existing content job is created at 5, acquired by the worker \<open>w\<close> at
  10 until 110 and then, at 20, recorded as submitted or as failed.
\<close>

definition example_content :: content_row where
  "example_content = \<lparr>cr_id = ''job_1'', cr_tenantId = ''tenant_1'', cr_projectId = ''project_1'',
     cr_sourceVersionId = ''srcver_1'', cr_status = CCompleted, cr_currentStage = CSCompleted,
     cr_idempotencyKey = ''k'', cr_requestFingerprint = ''f'', cr_attemptCount = 1, cr_result = None,
     cr_errorCode = None, cr_errorMessage = None, cr_correlationId = ''corr_1'', cr_leaseOwner = None,
     cr_leaseExpiresAt = None, cr_heartbeatAt = None, cr_nextAttemptAt = None, cr_createdAt = 1,
     cr_startedAt = Some 2, cr_completedAt = Some 3, cr_updatedAt = 3\<rparr>"

definition example_publish_input :: create_publish_input where
  "example_publish_input = \<lparr>cpi_tenantId = ''tenant_1'', cpi_projectId = ''project_1'',
     cpi_sourceContentJobId = ''job_1'', cpi_sourceRenderArtifactId = ''artifact_1'',
     cpi_sourceArtifactSnapshot = \<lparr>as_artifactId = ''artifact_1'', as_payloadRepresentation = ''styled-html'',
       as_mimeType = ''text/html'', as_fileExtension = ''.html'', as_payload = ''<p></p>'', as_byteSize = 7,
       as_checksumSha256 = ''c''\<rparr>,
     cpi_publishMode = PStandard, cpi_outputFormat = Html, cpi_renderOptions = None,
     cpi_publicationMetadata = None, cpi_idempotencyKey = '' pk '', cpi_requestFingerprint = ''pf'',
     cpi_remoteSubmissionIdempotencyKey = ''rk'', cpi_correlationId = ''corr_1''\<rparr>"

definition example_p0 :: db where
  "example_p0 = empty_db\<lparr>contentJobs := [example_content]\<rparr>"

definition example_p1 :: db where
  "example_p1 = snd (pj_createOrGetIdempotent False example_p0 ''pjob_1'' ''e_1'' 5 example_publish_input example_p0)"

definition example_p2 :: db where
  "example_p2 = snd (ps_acquireNext False (\<lambda>_. False) example_p1 ''e_2'' ''w'' 100 10 example_p1)"

definition example_submit :: "nat option \<Rightarrow> db" where
  "example_submit stmt = snd (pj_recordSubmission stmt ''e_3'' ''e_4'' ''tenant_1'' ''pjob_1'' ''w'' ''r_1''
     ''queued'' None 20 60 20 example_p2)"

definition example_p3 :: db where
  "example_p3 = snd (pj_fail None ''e_3'' ''tenant_1'' ''pjob_1'' ''w'' ''E'' ''m'' None None None 20 example_p2)"

lemma example_prun1: "publish_run tears empty_db example_p1"
  unfolding example_p1_def
  by (rule run_step [OF run_step [OF run_none elsewhere] create]) (simp add: example_p0_def)

lemma example_prun2: "publish_run tears empty_db example_p2"
  unfolding example_p2_def by (rule run_step [OF example_prun1 acquire])

lemma example_prun3: "publish_run tears empty_db example_p3"
  unfolding example_p3_def by (rule run_step [OF example_prun2 fail]) (simp add: torn_def)

definition example_prow :: "db \<Rightarrow> publish_row" where
  "example_prow d = hd (publishJobs d)"

lemma example_prows:
  "publishJobs example_p2 = [example_prow example_p2] \<and> pr_status (example_prow example_p2) = PProcessing"
  "publishJobs example_p3 = [example_prow example_p3] \<and> pr_status (example_prow example_p3) = PFailed"
proof -
  have "length (publishJobs example_p2) = 1 \<and> pr_status (hd (publishJobs example_p2)) = PProcessing"
    by code_simp
  then show "publishJobs example_p2 = [example_prow example_p2] \<and> pr_status (example_prow example_p2) = PProcessing"
    by (cases "publishJobs example_p2") (auto simp: example_prow_def)
  have "length (publishJobs example_p3) = 1 \<and> pr_status (hd (publishJobs example_p3)) = PFailed"
    by code_simp
  then show "publishJobs example_p3 = [example_prow example_p3] \<and> pr_status (example_prow example_p3) = PFailed"
    by (cases "publishJobs example_p3") (auto simp: example_prow_def)
qed

lemma example_pmember:
  "example_prow example_p2 \<in> set (publishJobs example_p2)"
  "example_prow example_p3 \<in> set (publishJobs example_p3)"
  using example_prows by (metis list.set_intros(1))+

lemma example_pheld: "publish_held example_p2 ''pjob_1'' ''w'' 110"
  by code_simp

subsection \<open>The properties\<close>

text \<open>
  C2: After any run of the program's operations on publish jobs, from the empty database,
  with any interleaving of stale reads and any failing statements (torn recordings
  included), the table is consistent: identifiers and idempotency keys are unique, exactly
  the processing jobs carry a lease, queued and retrying jobs have a time for the next
  attempt and waiting ones a time for the next poll, download metadata belongs to completed
  jobs, errors come with their message and settled jobs have no schedule.
\<close>

theorem publish_run_consistent:
  assumes "publish_run tears empty_db d"
  shows "publish_inv d"
  by (rule publish_run_inv [OF assms publish_inv_empty])

lemma publish_run_consistent_witness: "publish_inv example_p3"
  by (rule publish_run_consistent [OF example_prun3 [of True]])



text \<open>
  The hypothesis is needed: when the insert of the event fails after the update of a
  submission, the job waits while its log ends in processing.
\<close>

lemma torn_submission_leaves_log_behind:
  "publish_run True empty_db (example_submit (Some 1))"
  "map pr_status (publishJobs (example_submit (Some 1))) = [PWaiting]
   \<and> map (\<lambda>e. (pe_priorStatus e, pe_newStatus e)) (publishJobEvents (example_submit (Some 1)))
       = [(None, Some PQueued), (Some PQueued, Some PProcessing)]"
proof -
  show "publish_run True empty_db (example_submit (Some 1))"
    unfolding example_submit_def by (rule run_step [OF example_prun2 submission]) simp
  show "map pr_status (publishJobs (example_submit (Some 1))) = [PWaiting]
   \<and> map (\<lambda>e. (pe_priorStatus e, pe_newStatus e)) (publishJobEvents (example_submit (Some 1)))
       = [(None, Some PQueued), (Some PQueued, Some PProcessing)]"
    by code_simp
qed

lemma conforms_reaches: "ppol.conforms\<^sup>*\<^sup>* s t \<Longrightarrow> isPublishJobTransitionAllowed\<^sup>*\<^sup>* s t"
  by (induction rule: rtranclp_induct) (auto simp: ppol.conforms_def)

text \<open>
  No operation leaves the transition policy of the domain, which the repository never
  consults: over any run a job keeps its identity and key, and its status is reached by
  allowed transitions.
\<close>

theorem publish_run_conforms:
  assumes "publish_run tears d d'" and "publish_inv d" and "r \<in> set (publishJobs d)"
  shows "\<exists>r' \<in> set (publishJobs d'). pr_id r' = pr_id r \<and> publish_key r' = publish_key r
     \<and> isPublishJobTransitionAllowed\<^sup>*\<^sup>* (pr_status r) (pr_status r')"
  using ptab.row_steps_conform [OF publish_run_rows [OF assms(1,2)] assms(3)] conforms_reaches by blast

lemma publish_run_conforms_witness:
  "\<exists>r' \<in> set (publishJobs example_p3). pr_id r' = pr_id (example_prow example_p2)
     \<and> publish_key r' = publish_key (example_prow example_p2)
     \<and> isPublishJobTransitionAllowed\<^sup>*\<^sup>* (pr_status (example_prow example_p2)) (pr_status r')"
proof -
  have "publish_run False example_p2 example_p3"
    unfolding example_p3_def by (rule run_step [OF run_none fail]) (simp add: torn_def)
  from publish_run_conforms [OF this publish_run_inv [OF example_prun2 publish_inv_empty] example_pmember(1)]
  show ?thesis .
qed

text \<open>
  A settled publish job is never touched again: the row of a completed, failed or
  cancelled job is the same, column for column, after any further run.
\<close>

theorem publish_settled_for_good:
  assumes "publish_run tears d d'" and "r \<in> set (publishJobs d)" and "publish_terminal (pr_status r)"
  shows "r \<in> set (publishJobs d')"
  using assms
proof (induction rule: publish_run.induct)
  case (run_step d d' a now d'')
  have "\<not> publish_open_to a now r"
    using run_step.prems by (auto simp: publish_open_to_def publish_terminal_def pj_mine_def pj_stale_def)
  then show ?case
    using publish_step_untouched [OF run_step.hyps(2)] run_step by (simp add: publish_untouched_def)
qed

lemma publish_settled_for_good_witness:
  "example_prow example_p3 \<in> set (publishJobs (snd (ps_acquireNext False (\<lambda>_. False) example_p3 ''e_5'' ''v''
     100 500 example_p3)))"
proof -
  have "publish_run True example_p3
    (snd (ps_acquireNext False (\<lambda>_. False) example_p3 ''e_5'' ''v'' 100 500 example_p3))"
    by (rule run_step [OF run_none acquire])
  from publish_settled_for_good [OF this example_pmember(2)] show ?thesis
    using example_prows(2) by (simp add: publish_terminal_def)
qed

text \<open>
  C4: Mutual exclusion of publish workers.  While a worker holds a publish job until \<open>u\<close>
  and everybody else acts before \<open>u\<close>, whatever they do, it goes on holding it and no one
  else does.
\<close>

theorem publish_lease_exclusive:
  assumes "publish_others_until tears w u d d'" and "publish_inv d" and "publish_held d j w u"
  shows "publish_held d' j w u \<and> (\<forall>w' u'. publish_held d' j w' u' \<longrightarrow> w' = w)"
  using please.lease_kept [OF assms [unfolded publish_others_until_def]]
    please.lease_exclusive [OF assms [unfolded publish_others_until_def]] by blast

lemma publish_lease_exclusive_witness:
  "publish_held (snd (ps_acquireNext False (\<lambda>_. False) example_p2 ''e_5'' ''v'' 100 50 example_p2))
     ''pjob_1'' ''w'' 110"
proof -
  have "publish_others_until True ''w'' 110 example_p2
    (snd (ps_acquireNext False (\<lambda>_. False) example_p2 ''e_5'' ''v'' 100 50 example_p2))"
    unfolding publish_others_until_def
    by (rule please.other [OF please.nobody acquire]) simp_all
  from publish_lease_exclusive [OF this publish_run_inv [OF example_prun2 publish_inv_empty] example_pheld]
  show ?thesis by blast
qed

text \<open>An operation that found nothing to do, or refused its arguments.\<close>

definition refused :: "db \<Rightarrow> (platform_error + 'a option) \<times> db \<Rightarrow> bool" where
  "refused d r \<longleftrightarrow> snd r = d \<and> (case fst r of Inr (Some _) \<Rightarrow> False | _ \<Rightarrow> True)"

lemma refused_checked: "(\<And>b. c = Inr b \<Longrightarrow> refused d (k b)) \<Longrightarrow> refused d (checked c d k)"
  by (cases c) (auto simp: refused_def)

lemma refused_record:
  assumes "\<forall>r \<in> set (publishJobs d). \<not> pj_held t j w now r" and "w' = w"
  shows "refused d (pj_record stmt m (pj_held t j w' now) f evs d)"
proof -
  have "find (pj_held t j w now) (publishJobs d) = None" using assms by (auto simp: find_None_iff)
  then show ?thesis using assms(2) by (simp add: pj_record_def update_returning_def refused_def)
qed

text \<open>
  Fencing of the recording operations.  A worker whose lease ran out or that lost the
  job can record nothing: a submission, a poll, a retry, a completion, a failure, a remote
  cancellation or a renewal leaves the database as it is and returns no job.
\<close>

theorem publish_fenced_off:
  assumes "\<forall>r \<in> set (publishJobs d). \<not> pj_held t j (js_trim w) now r"
  shows "refused d (pj_recordSubmission stmt e1 e2 t j w ri rs rc sub poll now d)
    \<and> refused d (pj_recordRemoteWaiting stmt e1 t j w rs rc lp poll now d)
    \<and> refused d (pj_recordRetry stmt e1 t j w code msg na now d)
    \<and> refused d (pj_complete stmt e1 t j w rs rc lpo dm now d)
    \<and> refused d (pj_fail stmt e1 t j w code msg rso rc lpo now d)
    \<and> refused d (pj_markRemoteCancelled stmt e1 t j w rs rc lpo now d)
    \<and> (js_trim w = w \<longrightarrow> refused d (ps_renewLease fault t j w lease now d))"
proof -
  have "refused d (ps_renewLease fault t j w lease now d)" if "js_trim w = w"
  proof -
    have "find (pj_held t j w now) (publishJobs d) = None"
      using assms that by (auto simp: find_None_iff)
    then show ?thesis by (simp add: ps_renewLease_def update_returning_def refused_def)
  qed
  then show ?thesis unfolding recording_defs
    by (intro conjI impI refused_checked refused_record [OF assms]) (auto simp: ensureNonEmpty_Inr)
qed

lemma publish_fenced_off_witness:
  "refused example_p2 (pj_complete None ''e'' ''tenant_1'' ''pjob_1'' ''v'' ''completed'' None None
     \<lparr>dm_fileName = ''f'', dm_mimeType = ''m'', dm_byteSize = None, dm_checksumSha256 = None,
      dm_downloadUrl = None, dm_expiresAt = None\<rparr> 50 example_p2)"
proof -
  have "\<forall>r \<in> set (publishJobs example_p2). \<not> pj_held ''tenant_1'' ''pjob_1'' (js_trim ''v'') 50 r"
    by code_simp
  from publish_fenced_off [OF this] show ?thesis by blast
qed

text \<open>
  C8: No publish job is stranded.  In every reachable database a live job is due for
  acquisition from some time on, or its lease is stale from some time on.
\<close>

theorem publish_never_stranded:
  assumes "publish_run tears empty_db d" and "r \<in> set (publishJobs d)"
    and "\<not> publish_terminal (pr_status r)"
  shows "\<exists>t. (\<forall>now \<ge> t. ps_due now r) \<or> (\<forall>now \<ge> t. pj_stale now r)"
proof -
  have "publish_row_ok r"
    using publish_run_inv [OF assms(1) publish_inv_empty] assms(2)
    by (simp add: publish_inv_def list_all_iff)
  then show ?thesis using assms(3)
    by (cases "pr_status r")
      (auto simp: publish_ok_defs ps_due_def pj_stale_def reached_def lease_open_def publish_terminal_def)
qed

lemma publish_never_stranded_witness:
  "\<exists>t. (\<forall>now \<ge> t. ps_due now (example_prow example_p2)) \<or> (\<forall>now \<ge> t. pj_stale now (example_prow example_p2))"
  using publish_never_stranded [OF example_prun2 example_pmember(1)] example_prows(1)
  by (simp add: publish_terminal_def)

text \<open>
  The two claims of the program, the repository's \<open>claimNextDue\<close> and the worker
  source's \<open>acquireNext\<close>, write the same rule differently: on a reachable database they
  agree on which jobs are due, from the time of a job's creation on.
\<close>

theorem publish_claims_agree:
  assumes "publish_run tears empty_db d" and "r \<in> set (publishJobs d)" and "pr_createdAt r \<le> now"
  shows "pj_due now r \<longleftrightarrow> ps_due now r"
proof -
  have "publish_row_ok r"
    using publish_run_inv [OF assms(1) publish_inv_empty] assms(2)
    by (simp add: publish_inv_def list_all_iff)
  then show ?thesis using assms(3)
    by (cases "pr_status r") (auto simp: publish_ok_defs ps_due_def pj_due_def reached_def)
qed

lemma publish_claims_agree_witness:
  "pj_due 50 (example_prow example_p2) \<longleftrightarrow> ps_due 50 (example_prow example_p2)"
proof -
  have "pr_createdAt (example_prow example_p2) \<le> 50" by code_simp
  from publish_claims_agree [OF example_prun2 example_pmember(1) this] show ?thesis .
qed

subsection \<open>Acquisition, creation and recovery without interference\<close>

lemma ps_update_unique:
  assumes "publish_inv d" and "c \<in> set (publishJobs d)" and "lease_open now c"
  shows "update_returning (\<lambda>r. pr_id r = pr_id c \<and> pr_tenantId r = pr_tenantId c
      \<and> pr_status r = pr_status c \<and> lease_open now r) f (publishJobs d)
    = (Some (f c), update_where (\<lambda>r. pr_id r = pr_id c \<and> pr_tenantId r = pr_tenantId c
      \<and> pr_status r = pr_status c \<and> lease_open now r) f (publishJobs d))"
  using find_unique [of pr_id "publishJobs d" c "\<lambda>r. pr_id r = pr_id c \<and> pr_tenantId r = pr_tenantId c
      \<and> pr_status r = pr_status c \<and> lease_open now r"] assms
  by (simp add: update_returning_def publish_inv_def)

text \<open>
  Acquisition takes the due job that comes first.  In a consistent database and without
  interference, \<open>acquireNext\<close> returns null exactly when no job is due; otherwise the
  claim names a due job with the least schedule (next attempt, else next poll, else
  creation; then creation), stored as processing, leased to the worker until
  \<open>now + leaseDurationMs\<close>, with one attempt more.
\<close>

theorem publish_acquire_takes_first_due:
  assumes inv: "publish_inv d"
  shows "case ps_acquireNext False (\<lambda>_. False) d evtId w lease now d of
      (Inl e, d') \<Rightarrow> False
    | (Inr None, d') \<Rightarrow> d' = d \<and> (\<forall>x \<in> set (publishJobs d). \<not> ps_due now x)
    | (Inr (Some j), d') \<Rightarrow>
        (\<exists>c \<in> set (publishJobs d). ps_due now c
           \<and> (\<forall>x \<in> set (publishJobs d). ps_due now x \<longrightarrow> ps_order_key c \<le> ps_order_key x)
           \<and> pj_lease w lease now c \<in> set (publishJobs d')
           \<and> cp_publishJobId j = pr_id c \<and> cp_tenantId j = pr_tenantId c \<and> cp_workerId j = w
           \<and> cp_leaseExpiresAt j = now + lease)"
proof (cases "ps_candidate (\<lambda>_. False) now d")
  case None
  then have "ps_acquireNext False (\<lambda>_. False) d evtId w lease now d = (Inr None, d)"
    by (simp add: ps_acquireNext_def ps_acquire_body_def or_unavailable_def)
  moreover have "\<forall>x \<in> set (publishJobs d). \<not> ps_due now x"
    using None by (simp add: ps_candidate_def order_first_None)
  ultimately show ?thesis by simp
next
  case (Some c)
  note c = order_first_Some [OF Some [unfolded ps_candidate_def]]
  have due: "c \<in> set (publishJobs d)" "ps_due now c" using c by auto
  have first: "\<forall>x \<in> set (publishJobs d). ps_due now x \<longrightarrow> ps_order_key c \<le> ps_order_key x"
    using c(3) by simp
  have lo: "lease_open now c" using due(2) by (simp add: ps_due_def)
  let ?c = "pj_lease w lease now c"
  let ?j = "\<lparr>cp_tenantId = pr_tenantId c, cp_publishJobId = pr_id c, cp_workerId = w,
    cp_leaseExpiresAt = now + lease\<rparr>"
  have up: "?c \<in> set (update_where (\<lambda>r. pr_id r = pr_id c \<and> pr_tenantId r = pr_tenantId c
      \<and> pr_status r = pr_status c \<and> lease_open now r) (pj_lease w lease now) (publishJobs d))"
    using due(1) lo by (auto simp: set_update_where intro!: bexI [of _ c])
  have "\<exists>d'. ps_acquireNext False (\<lambda>_. False) d evtId w lease now d = (Inr (Some ?j), d')
      \<and> ?c \<in> set (publishJobs d')"
    using up by (simp add: ps_acquireNext_def ps_acquire_body_def Some
        ps_update_unique [OF inv due(1) lo] or_unavailable_def pj_lease_def)
  then show ?thesis using due first by (auto intro!: bexI [of _ c])
qed

lemma publish_acquire_takes_first_due_witness:
  "case ps_acquireNext False (\<lambda>_. False) example_p1 ''e'' ''w'' 100 10 example_p1 of
      (Inl e, d') \<Rightarrow> False
    | (Inr None, d') \<Rightarrow> d' = example_p1 \<and> (\<forall>x \<in> set (publishJobs example_p1). \<not> ps_due 10 x)
    | (Inr (Some j), d') \<Rightarrow>
        (\<exists>c \<in> set (publishJobs example_p1). ps_due 10 c
           \<and> (\<forall>x \<in> set (publishJobs example_p1). ps_due 10 x \<longrightarrow> ps_order_key c \<le> ps_order_key x)
           \<and> pj_lease ''w'' 100 10 c \<in> set (publishJobs d')
           \<and> cp_publishJobId j = pr_id c \<and> cp_tenantId j = pr_tenantId c \<and> cp_workerId j = ''w''
           \<and> cp_leaseExpiresAt j = 10 + 100)"
  by (rule publish_acquire_takes_first_due [OF publish_run_inv [OF example_prun1 publish_inv_empty]])

text \<open>What the recovery makes of a stale row.\<close>

definition pj_recovered :: "time \<Rightarrow> int \<Rightarrow> int \<Rightarrow> publish_row \<Rightarrow> publish_row" where
  "pj_recovered now maxConsecutiveFailures delay r =
     pj_set_recovered (pr_consecutiveFailureCount r + 1 \<ge> maxConsecutiveFailures) (known_remotely r)
       (pr_consecutiveFailureCount r + 1) (now + delay) now r"

lemma pj_recovered_not_stale: "\<not> pj_stale now (pj_recovered now mx delay r)"
  by (simp add: pj_stale_def pj_recovered_def pj_set_recovered_def)

lemma pj_recovered_id [simp]: "pr_id (pj_recovered now mx delay r) = pr_id r"
  by (simp add: pj_recovered_def pj_set_recovered_def)

lemma recover_one_exact:
  assumes dist: "distinct (map pr_id (publishJobs d))" and r: "r \<in> set (publishJobs d)" "pj_stale now r"
  shows "\<exists>d'. pj_recover_one evtId now mx delay r (n, d) = (n + 1, d')
    \<and> publishJobs d' = map (\<lambda>x. if x = r then pj_recovered now mx delay x else x) (publishJobs d)"
proof -
  let ?g = "\<lambda>x. pr_id x = pr_id r \<and> pj_stale now x"
  have same: "?g x \<longleftrightarrow> x = r" if "x \<in> set (publishJobs d)" for x
    using unique_key_eq [OF dist that r(1)] r(2) by auto
  have "find ?g (publishJobs d) = Some r"
    by (rule find_unique [OF dist r(1)]) (use r(2) in auto)
  moreover have "update_where ?g f (publishJobs d) = map (\<lambda>x. if x = r then f x else x) (publishJobs d)" for f
    by (auto simp: update_where_def same cong: map_cong if_cong)
  ultimately show ?thesis
    by (auto simp: pj_recover_one_def update_returning_def pj_recovered_def Let_def cong: if_cong)
qed

lemma recover_fold_exact:
  assumes "distinct (map pr_id (publishJobs d))" and "distinct rs" and "set rs \<subseteq> set (publishJobs d)"
    and "\<forall>r \<in> set rs. pj_stale now r"
  shows "\<exists>d'. fold (pj_recover_one evtId now mx delay) rs (n, d) = (n + length rs, d')
    \<and> publishJobs d' = map (\<lambda>x. if x \<in> set rs then pj_recovered now mx delay x else x) (publishJobs d)"
  using assms
proof (induction rs arbitrary: n d)
  case (Cons r rs)
  let ?f = "\<lambda>x. if x = r then pj_recovered now mx delay x else x"
  obtain d1 where d1: "pj_recover_one evtId now mx delay r (n, d) = (n + 1, d1)"
    "publishJobs d1 = map ?f (publishJobs d)"
    using recover_one_exact [of d r now evtId mx delay n] Cons.prems by auto
  have "map pr_id (publishJobs d1) = map pr_id (publishJobs d)" by (simp add: d1)
  then have "distinct (map pr_id (publishJobs d1))" using Cons.prems(1) by simp
  moreover have "set rs \<subseteq> set (publishJobs d1)"
    using Cons.prems by (auto simp: d1 image_iff)
  ultimately obtain d2 where d2: "fold (pj_recover_one evtId now mx delay) rs (n + 1, d1) = (n + 1 + length rs, d2)"
    "publishJobs d2 = map (\<lambda>x. if x \<in> set rs then pj_recovered now mx delay x else x) (publishJobs d1)"
    using Cons.IH [of d1 "n + 1"] Cons.prems by auto
  have "pj_recovered now mx delay r \<notin> set rs"
    using Cons.prems(4) pj_recovered_not_stale by auto
  then have "publishJobs d2 = map (\<lambda>x. if x \<in> set (r # rs) then pj_recovered now mx delay x else x) (publishJobs d)"
    using Cons.prems(2) by (auto simp: d2 d1)
  then show ?case using d1(1) d2(1) by simp
qed auto

text \<open>
  One pass of the recovery is exact.  With no interference and a limit that admits all
  stale jobs, it counts them and replaces each by its recovered row (failed when the
  failures reach the threshold; otherwise waiting when the engine knows the job and
  retrying when it does not, after the first retry delay), changes no other row and leaves
  no stale job.
\<close>

theorem publish_recovery_exact:
  assumes inv: "publish_inv d" and lim: "length (filter (pj_stale now) (publishJobs d)) \<le> limit"
  shows "case publish_runOnce policy mx False d evtId now limit d of
      (Inl e, d') \<Rightarrow> False
    | (Inr n, d') \<Rightarrow> n = length (filter (pj_stale now) (publishJobs d))
        \<and> publishJobs d' = map (\<lambda>r. if pj_stale now r
            then pj_recovered now mx (calculateRetryDelayMs 1 policy) r else r) (publishJobs d)
        \<and> (\<forall>r \<in> set (publishJobs d'). \<not> pj_stale now r)"
proof -
  let ?rs = "pj_stale_rows now limit d" and ?delay = "calculateRetryDelayMs 1 policy"
  have rs: "?rs = sort_key (\<lambda>r. (nulls_last (pr_leaseExpiresAt r), pr_createdAt r))
      (filter (pj_stale now) (publishJobs d))"
    using lim by (simp add: pj_stale_rows_def order_limit_def)
  have dist: "distinct (map pr_id (publishJobs d))" using inv by (simp add: publish_inv_def)
  then have d: "distinct ?rs" "length ?rs = length (filter (pj_stale now) (publishJobs d))"
    by (simp_all add: rs distinct_filter distinct_map)
  have s: "set ?rs = {r \<in> set (publishJobs d). pj_stale now r}" by (auto simp: rs)
  then have sub: "set ?rs \<subseteq> set (publishJobs d)" "\<forall>r \<in> set ?rs. pj_stale now r" by blast+
  from recover_fold_exact [OF dist d(1) sub, of evtId mx ?delay 0]
  obtain d' where f: "fold (pj_recover_one evtId now mx ?delay) ?rs (0, d) = (length ?rs, d')"
    "publishJobs d' = map (\<lambda>x. if x \<in> set ?rs then pj_recovered now mx ?delay x else x) (publishJobs d)"
    unfolding add_0 by blast
  have m: "publishJobs d' = map (\<lambda>r. if pj_stale now r then pj_recovered now mx ?delay r else r) (publishJobs d)"
    unfolding f(2) s by auto
  then show ?thesis
    using d(2) pj_recovered_not_stale
    by (auto simp: publish_runOnce_def pj_recoverStaleLeases_def or_unavailable_def f(1))
qed

lemma publish_recovery_exact_witness:
  "case publish_runOnce \<lparr>baseDelayMs = 10, maxDelayMs = 100, maxAttempts = 3, jitterRatio = None, random = 0\<rparr> 3 False
       example_p2 (\<lambda>i. i) 200 10 example_p2 of
      (Inl e, d') \<Rightarrow> False
    | (Inr n, d') \<Rightarrow> n = 1 \<and> (\<forall>r \<in> set (publishJobs d'). \<not> pj_stale 200 r)"
proof -
  have l: "length (filter (pj_stale 200) (publishJobs example_p2)) = 1" by code_simp
  obtain r d' where r: "publish_runOnce \<lparr>baseDelayMs = 10, maxDelayMs = 100, maxAttempts = 3,
      jitterRatio = None, random = 0\<rparr> 3 False example_p2 (\<lambda>i. i) 200 10 example_p2 = (r, d')"
    by (meson surj_pair)
  have le: "length (filter (pj_stale 200) (publishJobs example_p2)) \<le> 10" unfolding l by simp
  note fact = publish_recovery_exact [OF publish_run_inv [OF example_prun2 publish_inv_empty] le,
      where policy = "\<lparr>baseDelayMs = 10, maxDelayMs = 100, maxAttempts = 3, jitterRatio = None, random = 0\<rparr>"
      and mx = 3 and evtId = "\<lambda>i. i", unfolded r l prod.case]
  show ?thesis
  proof (cases r)
    case (Inl e)
    show ?thesis using fact unfolding Inl by simp
  next
    case (Inr n)
    show ?thesis using fact unfolding r Inr sum.case prod.case by blast
  qed
qed

end
