(* ===== verification/PublishFailures.thy ===== *)
theory PublishFailures
  imports Errors Retry
begin

text \<open>
  The errors of the Publish Engine client
  (\<open>src/infrastructure/publish-engine/publish-engine-errors.ts\<close>) and what a publish worker
  makes of an error (\<open>src/application/publish-jobs/publish-retry-classifier.ts\<close>).
\<close>

subsection \<open>Errors of the client\<close>

text \<open>
  A class each; the remote request error carries the HTTP status and, among its details,
  the \<open>Retry-After\<close> header the client reads back.  The other details and the causes are
  diagnostics and are left out.  \<open>PublishEngineIdempotencyConflictError\<close> extends the
  remote request error with status 409.
\<close>

datatype engine_error =
    ConfigurationError string
  | AuthenticationError string
  | TransportError string
  | EngineTimeoutError string
  | EngineCancelledError string
  | ProtocolError string
  | RemoteRequestError string int "string option"
  | IdempotencyConflictError string
  | RetryExhaustedError string
  | JobFailedError string
  | JobCancelledError string
  | WaitTimeoutError string
  | ArtifactValidationError string

fun engine_code :: "engine_error \<Rightarrow> error_code" where
  "engine_code (ConfigurationError m) = PUBLISH_ENGINE_CONFIGURATION_ERROR"
| "engine_code (AuthenticationError m) = PUBLISH_ENGINE_AUTHENTICATION_ERROR"
| "engine_code (TransportError m) = PUBLISH_ENGINE_TRANSPORT_ERROR"
| "engine_code (EngineTimeoutError m) = PUBLISH_ENGINE_TIMEOUT"
| "engine_code (EngineCancelledError m) = PUBLISH_ENGINE_CANCELLED"
| "engine_code (ProtocolError m) = PUBLISH_ENGINE_PROTOCOL_ERROR"
| "engine_code (RemoteRequestError m status retryAfter) = PUBLISH_ENGINE_REMOTE_REQUEST_ERROR"
| "engine_code (IdempotencyConflictError m) = PUBLISH_ENGINE_REMOTE_REQUEST_ERROR"
| "engine_code (RetryExhaustedError m) = PUBLISH_ENGINE_RETRY_EXHAUSTED"
| "engine_code (JobFailedError m) = PUBLISH_ENGINE_JOB_FAILED"
| "engine_code (JobCancelledError m) = PUBLISH_ENGINE_JOB_CANCELLED"
| "engine_code (WaitTimeoutError m) = PUBLISH_ENGINE_WAIT_TIMEOUT"
| "engine_code (ArtifactValidationError m) = PUBLISH_ENGINE_ARTIFACT_INVALID"

fun engine_message :: "engine_error \<Rightarrow> string" where
  "engine_message (ConfigurationError m) = m"
| "engine_message (AuthenticationError m) = m"
| "engine_message (TransportError m) = m"
| "engine_message (EngineTimeoutError m) = m"
| "engine_message (EngineCancelledError m) = m"
| "engine_message (ProtocolError m) = m"
| "engine_message (RemoteRequestError m status retryAfter) = m"
| "engine_message (IdempotencyConflictError m) = m"
| "engine_message (RetryExhaustedError m) = m"
| "engine_message (JobFailedError m) = m"
| "engine_message (JobCancelledError m) = m"
| "engine_message (WaitTimeoutError m) = m"
| "engine_message (ArtifactValidationError m) = m"

text \<open>
  What the publish executor can catch: an error of the client, another platform error, its
  own \<open>PublishLeaseLostError\<close>, some other \<open>Error\<close> with its message, or a thrown value
  that is no \<open>Error\<close>.
\<close>

datatype publish_fault =
    EngineFault engine_error
  | PlatformFault platform_error
  | PublishLeaseLost
  | ErrorFault string
  | ValueFault

fun fault_message :: "publish_fault \<Rightarrow> string option" where
  "fault_message (EngineFault e) = Some (engine_message e)"
| "fault_message (PlatformFault e) = Some (perror_message e)"
| "fault_message PublishLeaseLost = Some ''Publish lease lost.''"
| "fault_message (ErrorFault m) = Some m"
| "fault_message ValueFault = None"

subsection \<open>Classification\<close>

datatype failure_phase = SubmissionPhase | PollPhase | DownloadPhase

fun phase_name :: "failure_phase \<Rightarrow> string" where
  "phase_name SubmissionPhase = ''submission''"
| "phase_name PollPhase = ''poll''"
| "phase_name DownloadPhase = ''download''"

record classification =
  cl_retryable :: bool
  cl_errorCode :: string
  cl_errorMessage :: string

definition sanitizePublishMessage :: "string \<Rightarrow> string" where
  "sanitizePublishMessage message = (if length message \<le> 500 then message else take 500 message)"

definition messageFromError :: "publish_fault \<Rightarrow> string \<Rightarrow> string" where
  "messageFromError error fallback =
     (case fault_message error of
        Some m \<Rightarrow> if js_trim m \<noteq> [] then sanitizePublishMessage m else fallback
      | None \<Rightarrow> fallback)"

definition classified :: "bool \<Rightarrow> error_code \<Rightarrow> publish_fault \<Rightarrow> failure_phase \<Rightarrow> string \<Rightarrow> classification" where
  "classified retryable code error phase suffix =
     \<lparr>cl_retryable = retryable, cl_errorCode = code_value code,
      cl_errorMessage = messageFromError error (phase_name phase @ '' failed'' @ suffix)\<rparr>"

definition classifyPublishOrchestrationFailure ::
  "publish_fault \<Rightarrow> failure_phase \<Rightarrow> bool \<Rightarrow> classification" where
  "classifyPublishOrchestrationFailure error phase uncertainSubmission =
     (if uncertainSubmission then
        classified True PUBLISH_ENGINE_TRANSPORT_ERROR error phase '': uncertain submission outcome''
      else case error of
        EngineFault e \<Rightarrow>
          (case e of
             AuthenticationError m \<Rightarrow>
               classified False PUBLISH_ENGINE_AUTHENTICATION_ERROR error phase '': authentication error''
           | ProtocolError m \<Rightarrow>
               classified False PUBLISH_ENGINE_PROTOCOL_ERROR error phase '': protocol error''
           | IdempotencyConflictError m \<Rightarrow>
               classified False PUBLISH_JOB_IDEMPOTENCY_CONFLICT error phase '': idempotency conflict''
           | ArtifactValidationError m \<Rightarrow>
               classified False PUBLISH_SOURCE_ARTIFACT_INVALID error phase '': invalid artifact''
           | JobFailedError m \<Rightarrow>
               classified False PUBLISH_REMOTE_JOB_FAILED error phase '': remote job failed''
           | JobCancelledError m \<Rightarrow>
               classified False PUBLISH_REMOTE_JOB_CANCELLED error phase '': remote job cancelled''
           | EngineCancelledError m \<Rightarrow>
               classified False PUBLISH_REMOTE_JOB_CANCELLED error phase '': remote job cancelled''
           | TransportError m \<Rightarrow>
               classified True (engine_code e) error phase '': retryable transport failure''
           | EngineTimeoutError m \<Rightarrow>
               classified True (engine_code e) error phase '': retryable transport failure''
           | WaitTimeoutError m \<Rightarrow>
               classified True (engine_code e) error phase '': retryable transport failure''
           | RetryExhaustedError m \<Rightarrow>
               classified True (engine_code e) error phase '': retryable transport failure''
           | RemoteRequestError m status retryAfter \<Rightarrow>
               if status = 401 \<or> status = 403 then
                 classified False PUBLISH_ENGINE_AUTHENTICATION_ERROR error phase '': unauthorized remote response''
               else if isRetryableStatus status then
                 classified True PUBLISH_ENGINE_REMOTE_REQUEST_ERROR error phase '': retryable remote response''
               else
                 classified False PUBLISH_ENGINE_REMOTE_REQUEST_ERROR error phase '': non-retryable remote response''
           | ConfigurationError m \<Rightarrow> classified False (engine_code e) error phase '': platform error'')
      | PlatformFault e \<Rightarrow> classified False (perror_code e) error phase '': platform error''
      | _ \<Rightarrow> classified True PUBLISH_ENGINE_TRANSPORT_ERROR error phase '': unexpected retryable failure'')"

lemmas classify_defs = classifyPublishOrchestrationFailure_def classified_def

lemma code_value_nonempty: "code_value c \<noteq> []"
  by (cases c) simp_all

lemma code_value_trimmed: "js_trim (code_value c) = code_value c"
  unfolding js_trim_def by (rule trim_by_fixed) (cases c; simp add: js_space_def)

lemma message_length: "length fallback \<le> 500 \<Longrightarrow> length (messageFromError e fallback) \<le> 500"
  by (simp add: messageFromError_def sanitizePublishMessage_def split: option.split)

lemma message_nonempty: "fallback \<noteq> [] \<Longrightarrow> messageFromError e fallback \<noteq> []"
  by (auto simp: messageFromError_def sanitizePublishMessage_def js_trim_def trim_by_def split: option.split)

text \<open>Every classification has this shape.\<close>

lemma classify_shape:
  "\<exists>r c s. classifyPublishOrchestrationFailure error phase u = classified r c error phase s \<and> length s \<le> 40"
proof -
  have k: "\<exists>r c s'. classified x y error phase s = classified r c error phase s' \<and> length s' \<le> 40"
    if "length s \<le> 40" for x y s
    using that by blast
  show ?thesis unfolding classifyPublishOrchestrationFailure_def
    by (split if_split publish_fault.split engine_error.split | intro conjI impI allI | rule k; simp)+
qed

lemma classification_storable:
  "(\<exists>code. cl_errorCode (classifyPublishOrchestrationFailure error phase u) = code_value code)
   \<and> cl_errorMessage (classifyPublishOrchestrationFailure error phase u) \<noteq> []
   \<and> length (cl_errorMessage (classifyPublishOrchestrationFailure error phase u)) \<le> 500"
proof -
  obtain r c s where "classifyPublishOrchestrationFailure error phase u = classified r c error phase s"
    "length s \<le> 40" using classify_shape by blast
  moreover have "length (phase_name phase) \<le> 10" "phase_name phase \<noteq> []" by (cases phase; simp)+
  ultimately show ?thesis
    by (auto simp: classified_def message_nonempty intro!: message_length)
qed

text \<open>
  The client's answer to an aborted request is classified as if the engine had cancelled
  the job: a job whose worker is told to stop fails for good.
\<close>

lemma cancelled_request_is_final:
  "classifyPublishOrchestrationFailure (EngineFault (EngineCancelledError m)) phase False
    = classified False PUBLISH_REMOTE_JOB_CANCELLED (EngineFault (EngineCancelledError m)) phase
        '': remote job cancelled''"
  by (simp add: classifyPublishOrchestrationFailure_def)

text \<open>
  C16: The classification.  An error is retried in the next attempt exactly when it is a
  failure of the transport or of time (transport, timeout, wait timeout, exhausted
  retries), an answer with one of the retryable statuses, or no platform error at all; and
  whatever it is, the stored code is a code of the platform and the stored message is not
  empty and at most 500 characters long.
\<close>

theorem publish_classification:
  "(cl_retryable (classifyPublishOrchestrationFailure error phase False) \<longleftrightarrow>
      (case error of
         EngineFault (TransportError _) \<Rightarrow> True
       | EngineFault (EngineTimeoutError _) \<Rightarrow> True
       | EngineFault (WaitTimeoutError _) \<Rightarrow> True
       | EngineFault (RetryExhaustedError _) \<Rightarrow> True
       | EngineFault (RemoteRequestError _ status _) \<Rightarrow> isRetryableStatus status
       | EngineFault _ \<Rightarrow> False
       | PlatformFault _ \<Rightarrow> False
       | _ \<Rightarrow> True))
    \<and> (\<exists>code. cl_errorCode (classifyPublishOrchestrationFailure error phase False) = code_value code)
    \<and> cl_errorMessage (classifyPublishOrchestrationFailure error phase False) \<noteq> []
    \<and> length (cl_errorMessage (classifyPublishOrchestrationFailure error phase False)) \<le> 500"
proof (intro conjI)
  show "cl_retryable (classifyPublishOrchestrationFailure error phase False) \<longleftrightarrow>
      (case error of
         EngineFault (TransportError _) \<Rightarrow> True
       | EngineFault (EngineTimeoutError _) \<Rightarrow> True
       | EngineFault (WaitTimeoutError _) \<Rightarrow> True
       | EngineFault (RetryExhaustedError _) \<Rightarrow> True
       | EngineFault (RemoteRequestError _ status _) \<Rightarrow> isRetryableStatus status
       | EngineFault _ \<Rightarrow> False
       | PlatformFault _ \<Rightarrow> False
       | _ \<Rightarrow> True)"
    by (auto simp: classify_defs isRetryableStatus_def split: publish_fault.split engine_error.split)
qed (use classification_storable in blast)+

end
