(* ===== verification/ContentJobs.thy ===== *)
theory ContentJobs
  imports Database
begin

text \<open>
  The content-job repository
  (\<open>src/infrastructure/repositories/drizzle-content-job-repository.ts\<close>), the job-event
  repository next to it and the use cases of \<open>src/application/content-jobs\<close>.

  Every operation takes \<open>fault\<close> (a statement failed in the driver), and one that selects
  before it updates takes \<open>snap\<close>, the database its select read, beside \<open>d\<close>, the one its
  guarded update meets: transactions run at READ COMMITTED, so others may commit in
  between.  Fresh identifiers and the clock are arguments; the clock is read once.
\<close>

subsection \<open>Jobs as the code sees them\<close>

record content_job =
  cj_id :: string
  cj_tenantId :: string
  cj_projectId :: string
  cj_sourceVersionId :: string
  cj_status :: content_status
  cj_currentStage :: content_stage
  cj_idempotencyKey :: string
  cj_requestFingerprint :: string
  cj_attemptCount :: int
  cj_result :: "processing_result option"
  cj_errorCode :: "string option"
  cj_errorMessage :: "string option"
  cj_correlationId :: string
  cj_createdAt :: time
  cj_startedAt :: "time option"
  cj_completedAt :: "time option"
  cj_updatedAt :: time

definition content_job_of :: "content_row \<Rightarrow> content_job" where
  "content_job_of row = \<lparr>cj_id = cr_id row, cj_tenantId = cr_tenantId row,
     cj_projectId = cr_projectId row, cj_sourceVersionId = cr_sourceVersionId row,
     cj_status = cr_status row, cj_currentStage = cr_currentStage row,
     cj_idempotencyKey = cr_idempotencyKey row, cj_requestFingerprint = cr_requestFingerprint row,
     cj_attemptCount = cr_attemptCount row, cj_result = cr_result row,
     cj_errorCode = cr_errorCode row, cj_errorMessage = cr_errorMessage row,
     cj_correlationId = cr_correlationId row, cj_createdAt = cr_createdAt row,
     cj_startedAt = cr_startedAt row, cj_completedAt = cr_completedAt row,
     cj_updatedAt = cr_updatedAt row\<rparr>"

definition mapContentJob :: "result_schemas \<Rightarrow> content_row \<Rightarrow> platform_error + content_job" where
  "mapContentJob sch row =
     (if pred_option (transcriptProcessingResultSchema sch) (cr_result row)
      then Inr (content_job_of row)
      else Inl (ValidationError ''Stored job result has invalid schema.''))"

text \<open>
  The tail of an operation: the updated table, the event and the mapping of the returned
  row, which rolls everything back when it throws.
\<close>

definition content_commit ::
  "result_schemas \<Rightarrow> content_row list \<Rightarrow> job_event \<Rightarrow> content_row \<Rightarrow> db \<Rightarrow> caught + content_job \<times> db"
  where
  "content_commit sch jobs event row d =
     thrown (map_sum id (\<lambda>j. (j, d\<lparr>contentJobs := jobs, jobEvents := jobEvents d @ [event]\<rparr>))
               (mapContentJob sch row))"

subsection \<open>Creation\<close>

record create_content_input =
  cci_tenantId :: string
  cci_projectId :: string
  cci_sourceVersionId :: string
  cci_idempotencyKey :: string
  cci_correlationId :: "string option"
  cci_jobType :: string
  cci_requestSchemaVersion :: string

definition cj_validate_create :: "create_content_input \<Rightarrow> platform_error + string" where
  "cj_validate_create input =
     (if \<not> isPrefixedId (cci_tenantId input) ''tenant'' then Inl (ValidationError ''Invalid tenant ID.'')
      else if \<not> isPrefixedId (cci_projectId input) ''project'' then
        Inl (ValidationError ''Invalid project ID.'')
      else if \<not> isPrefixedId (cci_sourceVersionId input) ''srcver'' then
        Inl (ValidationError ''Invalid source version ID.'')
      else if \<not> pred_option (\<lambda>c. isPrefixedId c ''corr'') (cci_correlationId input) then
        Inl (ValidationError ''Invalid correlation ID.'')
      else ensureNonEmpty (cci_idempotencyKey input) ''idempotencyKey'')"

definition cj_fingerprint_input :: "create_content_input \<Rightarrow> fingerprint_input" where
  "cj_fingerprint_input input =
     \<lparr>fi_tenantId = cci_tenantId input, fi_projectId = cci_projectId input,
      fi_sourceVersionId = cci_sourceVersionId input, fi_jobType = cci_jobType input,
      fi_requestSchemaVersion = cci_requestSchemaVersion input\<rparr>"

text \<open>The fresh row, with the identifiers \<open>newId\<close> and \<open>newCorr\<close>.\<close>

definition cj_new_row ::
  "create_content_input \<Rightarrow> string \<Rightarrow> string \<Rightarrow> string \<Rightarrow> string \<Rightarrow> time \<Rightarrow> content_row" where
  "cj_new_row input idempotencyKey requestFingerprint newId newCorr now =
     \<lparr>cr_id = newId, cr_tenantId = cci_tenantId input, cr_projectId = cci_projectId input,
      cr_sourceVersionId = cci_sourceVersionId input, cr_status = CQueued,
      cr_currentStage = CSQueued, cr_idempotencyKey = idempotencyKey,
      cr_requestFingerprint = requestFingerprint, cr_attemptCount = 0, cr_result = None,
      cr_errorCode = None, cr_errorMessage = None,
      cr_correlationId = (case cci_correlationId input of Some c \<Rightarrow> c | None \<Rightarrow> newCorr),
      cr_leaseOwner = None, cr_leaseExpiresAt = None, cr_heartbeatAt = None,
      cr_nextAttemptAt = None, cr_createdAt = now, cr_startedAt = None, cr_completedAt = None,
      cr_updatedAt = now\<rparr>"

definition cj_by_key :: "string \<Rightarrow> string \<Rightarrow> db \<Rightarrow> content_row option" where
  "cj_by_key tenantId key d =
     find_first (\<lambda>r. cr_tenantId r = tenantId \<and> cr_idempotencyKey r = key) (contentJobs d)"

text \<open>A stored job for the key: the same request returns it, another one conflicts.\<close>

definition cj_reuse :: "string \<Rightarrow> string \<Rightarrow> platform_error + unit" where
  "cj_reuse storedFingerprint requestFingerprint =
     (if storedFingerprint \<noteq> requestFingerprint then
        Inl (ConflictError IDEMPOTENCY_KEY_REUSED
               ''Idempotency key was reused with a different request payload.'')
      else Inr ())"

text \<open>The primary key and the unique index on tenant and idempotency key.\<close>

definition cj_conflict :: "content_row \<Rightarrow> content_row list \<Rightarrow> bool" where
  "cj_conflict row rows \<longleftrightarrow>
     list_ex (\<lambda>r. cr_id r = cr_id row
        \<or> (cr_tenantId r = cr_tenantId row \<and> cr_idempotencyKey r = cr_idempotencyKey row)) rows"

definition cj_create_body ::
  "result_schemas \<Rightarrow> db \<Rightarrow> string \<Rightarrow> string \<Rightarrow> string \<Rightarrow> time \<Rightarrow> create_content_input \<Rightarrow> string
     \<Rightarrow> string \<Rightarrow> db \<Rightarrow> caught + content_job \<times> db" where
  "cj_create_body sch snap newId newCorr evtId now input idempotencyKey requestFingerprint d =
     (case find_first (\<lambda>v. sv_id v = cci_sourceVersionId input \<and> sv_tenantId v = cci_tenantId input
                         \<and> sv_projectId v = cci_projectId input) (sourceVersions snap) of
        None \<Rightarrow> Inl (Thrown (NotFoundError ''Source version'' (cci_sourceVersionId input)))
      | Some _ \<Rightarrow>
          (case cj_by_key (cci_tenantId input) idempotencyKey snap of
             Some existing \<Rightarrow>
               (case cj_reuse (cr_requestFingerprint existing) requestFingerprint of
                  Inl e \<Rightarrow> Inl (Thrown e)
                | Inr _ \<Rightarrow> thrown (map_sum id (\<lambda>j. (j, d)) (mapContentJob sch existing)))
           | None \<Rightarrow>
               let created = cj_new_row input idempotencyKey requestFingerprint newId newCorr now in
               if cj_conflict created (contentJobs d) then Inl UniqueViolation
               else content_commit sch (contentJobs d @ [created])
                      \<lparr>je_id = evtId, je_tenantId = cci_tenantId input, je_jobId = cr_id created,
                       je_eventType = JobCreated, je_priorStatus = None,
                       je_newStatus = Some (cr_status created),
                       je_details = Some (Details [(''requestFingerprint'', DText requestFingerprint),
                                          (''idempotencyKey'', DText idempotencyKey)]),
                       je_createdAt = now\<rparr> created d))"

definition cj_getByIdempotencyKey ::
  "result_schemas \<Rightarrow> bool \<Rightarrow> string \<Rightarrow> string \<Rightarrow> db \<Rightarrow> platform_error + content_job option" where
  "cj_getByIdempotencyKey sch fault tenantId idempotencyKey d =
     (case validateTenantId tenantId of
        Inl e \<Rightarrow> Inl e
      | Inr _ \<Rightarrow>
          (case ensureNonEmpty idempotencyKey ''idempotencyKey'' of
             Inl e \<Rightarrow> Inl e
           | Inr normalizedKey \<Rightarrow>
               if fault then Inl (PlatformError DATABASE_UNAVAILABLE
                                    ''Unable to fetch content job by idempotency key.'')
               else (case cj_by_key tenantId normalizedKey d of
                       None \<Rightarrow> Inr None
                     | Some row \<Rightarrow> map_sum id Some (mapContentJob sch row))))"

definition cj_createOrGetIdempotent ::
  "(string \<Rightarrow> string) \<Rightarrow> (string \<Rightarrow> 'k::linorder) \<Rightarrow> result_schemas \<Rightarrow> bool \<Rightarrow> db \<Rightarrow> string \<Rightarrow> string
     \<Rightarrow> string \<Rightarrow> time \<Rightarrow> create_content_input \<Rightarrow> db \<Rightarrow> (platform_error + content_job) \<times> db" where
  "cj_createOrGetIdempotent sha256 collate sch fault snap newId newCorr evtId now input d =
     checked (cj_validate_create input) d (\<lambda>idempotencyKey.
       let requestFingerprint = computeRequestFingerprint sha256 collate (cj_fingerprint_input input) in
       case transaction fault d
              (cj_create_body sch snap newId newCorr evtId now input idempotencyKey
                 requestFingerprint d) of
         (Inr j, d') \<Rightarrow> (Inr j, d')
       | (Inl e, d') \<Rightarrow>
           (case (if isUniqueViolation e
                  then cj_getByIdempotencyKey sch False (cci_tenantId input) idempotencyKey d'
                  else Inr None) of
              Inl e' \<Rightarrow> (Inl e', d')
            | Inr (Some existing) \<Rightarrow>
                (case cj_reuse (cj_requestFingerprint existing) requestFingerprint of
                   Inl e' \<Rightarrow> (Inl e', d')
                 | Inr _ \<Rightarrow> (Inr existing, d'))
            | Inr None \<Rightarrow>
                (Inl (toDatabaseUnavailableError e
                        ''Unable to create or read idempotent content job.''), d')))"

subsection \<open>Reading\<close>

definition cj_getById ::
  "result_schemas \<Rightarrow> bool \<Rightarrow> string \<Rightarrow> string \<Rightarrow> db \<Rightarrow> platform_error + content_job option" where
  "cj_getById sch fault tenantId jobId d =
     (case validateTenantAndJobIds tenantId jobId of
        Inl e \<Rightarrow> Inl e
      | Inr _ \<Rightarrow>
          if fault then Inl (PlatformError DATABASE_UNAVAILABLE ''Unable to fetch content job by ID.'')
          else (case find_first (\<lambda>r. cr_tenantId r = tenantId \<and> cr_id r = jobId) (contentJobs d) of
                  None \<Rightarrow> Inr None
                | Some row \<Rightarrow> map_sum id Some (mapContentJob sch row)))"

definition je_listByJob :: "bool \<Rightarrow> string \<Rightarrow> string \<Rightarrow> db \<Rightarrow> platform_error + job_event list" where
  "je_listByJob fault tenantId jobId d =
     (if fault then Inl (PlatformError DATABASE_UNAVAILABLE ''Unable to list job events.'')
      else Inr (sort_key je_createdAt
             (filter (\<lambda>e. je_tenantId e = tenantId \<and> je_jobId e = jobId) (jobEvents d))))"

definition je_append :: "bool \<Rightarrow> job_event \<Rightarrow> db \<Rightarrow> (platform_error + job_event) \<times> db" where
  "je_append fault event d =
     (if fault then (Inl (PlatformError DATABASE_UNAVAILABLE ''Unable to append job event.''), d)
      else (Inr event, d\<lparr>jobEvents := jobEvents d @ [event]\<rparr>))"

definition getContentJob ::
  "result_schemas \<Rightarrow> bool \<Rightarrow> string \<Rightarrow> string \<Rightarrow> db \<Rightarrow> platform_error + content_job" where
  "getContentJob sch fault tenantId jobId d =
     (case cj_getById sch fault tenantId jobId d of
        Inl e \<Rightarrow> Inl e
      | Inr None \<Rightarrow> Inl (NotFoundError ''Content job'' jobId)
      | Inr (Some j) \<Rightarrow> Inr j)"

definition getContentJobEvents ::
  "result_schemas \<Rightarrow> bool \<Rightarrow> string \<Rightarrow> string \<Rightarrow> db \<Rightarrow> platform_error + job_event list" where
  "getContentJobEvents sch fault tenantId jobId d =
     (case cj_getById sch fault tenantId jobId d of
        Inl e \<Rightarrow> Inl e
      | Inr None \<Rightarrow> Inl (NotFoundError ''Content job'' jobId)
      | Inr (Some j) \<Rightarrow> je_listByJob fault tenantId jobId d)"

subsection \<open>Claiming and stages\<close>

text \<open>\<open>dbNow\<close> is the \<open>now()\<close> of the database server.\<close>

definition cj_claim_body ::
  "result_schemas \<Rightarrow> db \<Rightarrow> string \<Rightarrow> time \<Rightarrow> time \<Rightarrow> string \<Rightarrow> string \<Rightarrow> db
     \<Rightarrow> caught + content_job \<times> db" where
  "cj_claim_body sch snap evtId dbNow now tenantId jobId d =
     (case find_first (\<lambda>r. cr_id r = jobId \<and> cr_tenantId r = tenantId
                         \<and> cr_status r \<in> {CQueued, CRetrying}) (contentJobs snap) of
        None \<Rightarrow> Inl (Thrown (ConflictError JOB_NOT_CLAIMABLE ''Job is not claimable.''))
      | Some currentRow \<Rightarrow>
          let priorStatus = cr_status currentRow in
          (case update_returning
             (\<lambda>r. cr_id r = jobId \<and> cr_tenantId r = tenantId \<and> cr_status r = priorStatus)
             (\<lambda>r. r\<lparr>cr_status := CProcessing, cr_currentStage := CSNormalizingTranscript,
                    cr_startedAt := Some (case cr_startedAt r of Some t \<Rightarrow> t | None \<Rightarrow> dbNow),
                    cr_attemptCount := cr_attemptCount r + 1, cr_updatedAt := dbNow\<rparr>)
             (contentJobs d) of
             (None, _) \<Rightarrow> Inl (Thrown (ConflictError JOB_NOT_CLAIMABLE ''Job is not claimable.''))
           | (Some claimed, jobs) \<Rightarrow>
               content_commit sch jobs
                 \<lparr>je_id = evtId, je_tenantId = tenantId, je_jobId = jobId, je_eventType = JobClaimed,
                  je_priorStatus = Some priorStatus, je_newStatus = Some CProcessing,
                  je_details = Some (Details [(''stage'', DText ''normalizing-transcript'')]),
                  je_createdAt = now\<rparr> claimed d))"

definition cj_claim ::
  "result_schemas \<Rightarrow> bool \<Rightarrow> db \<Rightarrow> string \<Rightarrow> time \<Rightarrow> time \<Rightarrow> string \<Rightarrow> string \<Rightarrow> db
     \<Rightarrow> (platform_error + content_job) \<times> db" where
  "cj_claim sch fault snap evtId dbNow now tenantId jobId d =
     checked (validateTenantAndJobIds tenantId jobId) d (\<lambda>_.
       or_unavailable ''Unable to claim content job.''
         (transaction fault d (cj_claim_body sch snap evtId dbNow now tenantId jobId d)))"

text \<open>
  \<open>markStage\<close> is one statement outside a transaction: when the mapping throws the update
  stays.
\<close>

definition cj_markStage ::
  "result_schemas \<Rightarrow> bool \<Rightarrow> time \<Rightarrow> string \<Rightarrow> string \<Rightarrow> content_stage \<Rightarrow> db
     \<Rightarrow> (platform_error + content_job) \<times> db" where
  "cj_markStage sch fault now tenantId jobId stage d =
     checked (validateTenantAndJobIds tenantId jobId) d (\<lambda>_.
       if fault then (Inl (PlatformError DATABASE_UNAVAILABLE ''Unable to update content job stage.''), d)
       else case update_returning
              (\<lambda>r. cr_id r = jobId \<and> cr_tenantId r = tenantId \<and> cr_status r = CProcessing)
              (\<lambda>r. r\<lparr>cr_currentStage := stage, cr_updatedAt := now\<rparr>) (contentJobs d) of
              (None, _) \<Rightarrow>
                (Inl (ConflictError INVALID_WORKFLOW_STATE ''Only processing jobs can update stage.''), d)
            | (Some row, jobs) \<Rightarrow> (mapContentJob sch row, d\<lparr>contentJobs := jobs\<rparr>))"

subsection \<open>Transitions with an event\<close>

record transition_params =
  tp_tenantId :: string
  tp_jobId :: string
  tp_targetStatus :: content_status
  tp_targetStage :: content_stage
  tp_eventType :: job_event_type
  tp_details :: "event_details option"
  tp_setValues :: "content_row \<Rightarrow> content_row"
  tp_beforeUpdate :: "content_job \<Rightarrow> platform_error + unit"

definition cj_transition_body ::
  "result_schemas \<Rightarrow> db \<Rightarrow> string \<Rightarrow> time \<Rightarrow> transition_params \<Rightarrow> db \<Rightarrow> caught + content_job \<times> db" where
  "cj_transition_body sch snap evtId now params d =
     (case find_first (\<lambda>r. cr_id r = tp_jobId params \<and> cr_tenantId r = tp_tenantId params)
             (contentJobs snap) of
        None \<Rightarrow> Inl (Thrown (NotFoundError ''Content job'' (tp_jobId params)))
      | Some row \<Rightarrow>
          (case mapContentJob sch row of
             Inl e \<Rightarrow> Inl (Thrown e)
           | Inr current \<Rightarrow>
             (case tp_beforeUpdate params current of
                Inl e \<Rightarrow> Inl (Thrown e)
              | Inr _ \<Rightarrow>
                (case assertTransitionAllowed (cj_status current) (tp_targetStatus params) of
                   Inl e \<Rightarrow> Inl (Thrown e)
                 | Inr _ \<Rightarrow>
                   (case update_returning
                      (\<lambda>r. cr_id r = tp_jobId params \<and> cr_tenantId r = tp_tenantId params
                         \<and> cr_status r = cj_status current)
                      (\<lambda>r. (tp_setValues params r)\<lparr>cr_status := tp_targetStatus params,
                             cr_currentStage := tp_targetStage params, cr_updatedAt := now\<rparr>)
                      (contentJobs d) of
                      (None, _) \<Rightarrow>
                        Inl (Thrown (ConflictError INVALID_WORKFLOW_STATE
                          ''Job state changed concurrently; transition aborted.''))
                    | (Some updated, jobs) \<Rightarrow>
                        content_commit sch jobs
                          \<lparr>je_id = evtId, je_tenantId = tp_tenantId params,
                           je_jobId = tp_jobId params, je_eventType = tp_eventType params,
                           je_priorStatus = Some (cj_status current),
                           je_newStatus = Some (tp_targetStatus params),
                           je_details = tp_details params, je_createdAt = now\<rparr> updated d)))))"

definition cj_transitionWithEvent ::
  "result_schemas \<Rightarrow> bool \<Rightarrow> db \<Rightarrow> string \<Rightarrow> time \<Rightarrow> transition_params \<Rightarrow> db
     \<Rightarrow> (platform_error + content_job) \<times> db" where
  "cj_transitionWithEvent sch fault snap evtId now params d =
     checked (validateTenantAndJobIds (tp_tenantId params) (tp_jobId params)) d (\<lambda>_.
       or_unavailable ''Unable to transition content job.''
         (transaction fault d (cj_transition_body sch snap evtId now params d)))"

definition cj_complete ::
  "result_schemas \<Rightarrow> bool \<Rightarrow> db \<Rightarrow> string \<Rightarrow> time \<Rightarrow> string \<Rightarrow> string \<Rightarrow> processing_result \<Rightarrow> db
     \<Rightarrow> (platform_error + content_job) \<times> db" where
  "cj_complete sch fault snap evtId now tenantId jobId result d =
     (if \<not> transcriptProcessingResultSchema sch result then
        (Inl (ValidationError ''Invalid transcript processing result.''), d)
      else cj_transitionWithEvent sch fault snap evtId now
        \<lparr>tp_tenantId = tenantId, tp_jobId = jobId, tp_targetStatus = CCompleted,
         tp_targetStage = CSCompleted, tp_eventType = JobCompleted,
         tp_details = Some (ResultDetails result),
         tp_setValues = (\<lambda>r. r\<lparr>cr_result := Some result, cr_completedAt := Some now,
                               cr_errorCode := None, cr_errorMessage := None\<rparr>),
         tp_beforeUpdate = (\<lambda>job.
           if cj_sourceVersionId job \<noteq> res_sourceVersionId result then
             Inl (ConflictError TRANSCRIPT_HASH_MISMATCH
                    ''Result source version does not match job source version.'')
           else Inr ())\<rparr> d)"

definition cj_scheduleRetry ::
  "result_schemas \<Rightarrow> bool \<Rightarrow> db \<Rightarrow> string \<Rightarrow> time \<Rightarrow> string \<Rightarrow> string \<Rightarrow> string \<Rightarrow> string \<Rightarrow> db
     \<Rightarrow> (platform_error + content_job) \<times> db" where
  "cj_scheduleRetry sch fault snap evtId now tenantId jobId errorCode errorMessage d =
     checked (ensureNonEmpty errorCode ''errorCode'') d (\<lambda>safeCode.
     checked (ensureNonEmpty errorMessage ''errorMessage'') d (\<lambda>safeMessage.
       cj_transitionWithEvent sch fault snap evtId now
        \<lparr>tp_tenantId = tenantId, tp_jobId = jobId, tp_targetStatus = CRetrying,
         tp_targetStage = CSFailed, tp_eventType = JobRetryScheduled,
         tp_details = Some (Details [(''errorCode'', DText safeCode),
                                     (''errorMessage'', DText safeMessage)]),
         tp_setValues = (\<lambda>r. r\<lparr>cr_errorCode := Some safeCode, cr_errorMessage := Some safeMessage,
                               cr_result := None, cr_completedAt := None\<rparr>),
         tp_beforeUpdate = (\<lambda>_. Inr ())\<rparr> d))"

definition cj_fail ::
  "result_schemas \<Rightarrow> bool \<Rightarrow> db \<Rightarrow> string \<Rightarrow> time \<Rightarrow> string \<Rightarrow> string \<Rightarrow> string \<Rightarrow> string \<Rightarrow> db
     \<Rightarrow> (platform_error + content_job) \<times> db" where
  "cj_fail sch fault snap evtId now tenantId jobId errorCode errorMessage d =
     checked (ensureNonEmpty errorCode ''errorCode'') d (\<lambda>safeCode.
     checked (ensureNonEmpty errorMessage ''errorMessage'') d (\<lambda>safeMessage.
       cj_transitionWithEvent sch fault snap evtId now
        \<lparr>tp_tenantId = tenantId, tp_jobId = jobId, tp_targetStatus = CFailed,
         tp_targetStage = CSFailed, tp_eventType = JobFailed,
         tp_details = Some (Details [(''errorCode'', DText safeCode),
                                     (''errorMessage'', DText safeMessage)]),
         tp_setValues = (\<lambda>r. r\<lparr>cr_errorCode := Some safeCode, cr_errorMessage := Some safeMessage,
                               cr_completedAt := Some now, cr_result := None\<rparr>),
         tp_beforeUpdate = (\<lambda>_. Inr ())\<rparr> d))"

definition cj_cancel ::
  "result_schemas \<Rightarrow> bool \<Rightarrow> db \<Rightarrow> string \<Rightarrow> time \<Rightarrow> string \<Rightarrow> string \<Rightarrow> db
     \<Rightarrow> (platform_error + content_job) \<times> db" where
  "cj_cancel sch fault snap evtId now tenantId jobId d =
     cj_transitionWithEvent sch fault snap evtId now
        \<lparr>tp_tenantId = tenantId, tp_jobId = jobId, tp_targetStatus = CCancelled,
         tp_targetStage = CSFailed, tp_eventType = JobCancelled, tp_details = None,
         tp_setValues = (\<lambda>r. r\<lparr>cr_completedAt := Some now, cr_result := None\<rparr>),
         tp_beforeUpdate = (\<lambda>_. Inr ())\<rparr> d"

end
