(* ===== verification/PublishSource.thy ===== *)
theory PublishSource
  imports PublishRuns PublishFailures ContentJobs
begin

text \<open>
  From a completed content job to a publish job: the check of the styled HTML artifact
  (\<open>src/infrastructure/publish-engine/publish-engine-artifact-validator.ts\<close>), the
  eligibility of the source (\<open>src/application/publish-jobs/source-eligibility.ts\<close>) and the
  use case (\<open>src/application/publish-jobs/create-publish-job.ts\<close>).

  \<open>sha256\<close> stands for the hexadecimal digest of the UTF-8 bytes of a text.
\<close>

subsection \<open>The styled HTML source\<close>

text \<open>The UTF-8 bytes of a text (\<open>Buffer.from(payload, 'utf8')\<close>), bytes as characters.\<close>

definition utf8_char :: "char \<Rightarrow> string" where
  "utf8_char c = (let n = of_char c :: nat in
     if n < 128 then [c] else [char_of (192 + n div 64), char_of (128 + n mod 64)])"

definition utf8 :: "string \<Rightarrow> string" where
  "utf8 s = concat (map utf8_char s)"

definition byteLength :: "string \<Rightarrow> int" where
  "byteLength s = int (length (utf8 s))"

record styled_source =
  ss_payloadRepresentation :: string
  ss_mimeType :: string
  ss_fileExtension :: string
  ss_payload :: string
  ss_byteSize :: int
  ss_checksumSha256 :: string

definition publishEngineStyledHtmlSourceSchema :: "styled_source \<Rightarrow> bool" where
  "publishEngineStyledHtmlSourceSchema s \<longleftrightarrow>
     ss_payloadRepresentation s = ''styled-html''
     \<and> ss_mimeType s = ''text/html; charset=utf-8''
     \<and> ss_fileExtension s = ''.html''
     \<and> ss_payload s \<noteq> [] \<and> 0 \<le> ss_byteSize s \<and> is_checksum (ss_checksumSha256 s)"

definition validateChecksumFormat :: "string \<Rightarrow> engine_error + unit" where
  "validateChecksumFormat value =
     (if \<not> is_checksum value
      then Inl (ArtifactValidationError ''Styled HTML artifact checksum must be a lowercase SHA-256 hex string.'')
      else Inr ())"

definition validatePublishEngineStyledHtmlSource ::
  "(string \<Rightarrow> string) \<Rightarrow> styled_source \<Rightarrow> engine_error + styled_source" where
  "validatePublishEngineStyledHtmlSource sha256 source =
     (if \<not> publishEngineStyledHtmlSourceSchema source
      then Inl (ArtifactValidationError ''Styled HTML source artifact is invalid.'')
      else case validateChecksumFormat (ss_checksumSha256 source) of
        Inl e \<Rightarrow> Inl e
      | Inr _ \<Rightarrow>
          if byteLength (ss_payload source) \<noteq> ss_byteSize source
          then Inl (ArtifactValidationError
            ''Styled HTML source artifact byte size does not match UTF-8 payload bytes.'')
          else if sha256 (ss_payload source) \<noteq> ss_checksumSha256 source
          then Inl (ArtifactValidationError
            ''Styled HTML source artifact checksum does not match UTF-8 payload bytes.'')
          else Inr source)"

definition createPublishEngineStyledHtmlSourceFromRenderArtifact ::
  "(string \<Rightarrow> string) \<Rightarrow> render_artifact \<Rightarrow> engine_error + styled_source" where
  "createPublishEngineStyledHtmlSourceFromRenderArtifact sha256 artifact =
     (if ra_payloadRepresentation artifact \<noteq> Some ''styled-html''
      then Inl (ArtifactValidationError
        ''Render artifact payloadRepresentation must be styled-html for Publish Engine submission.'')
      else if ra_mimeType artifact \<noteq> ''text/html; charset=utf-8''
      then Inl (ArtifactValidationError
        ''Render artifact mimeType must be text/html; charset=utf-8 for Publish Engine submission.'')
      else if ra_fileExtension artifact \<noteq> ''.html''
      then Inl (ArtifactValidationError
        ''Render artifact fileExtension must be .html for Publish Engine submission.'')
      else case ra_content artifact of
        Some c \<Rightarrow>
          if ic_kind c \<noteq> ''inline'' \<or> ic_encoding c \<noteq> ''utf-8''
          then Inl (ArtifactValidationError
            ''Render artifact content must be inline UTF-8 for Publish Engine submission.'')
          else validatePublishEngineStyledHtmlSource sha256
            \<lparr>ss_payloadRepresentation = ''styled-html'', ss_mimeType = ''text/html; charset=utf-8'',
             ss_fileExtension = ''.html'', ss_payload = ic_serializedDocument c,
             ss_byteSize = ra_byteSize artifact, ss_checksumSha256 = ra_checksumSha256 artifact\<rparr>
      | None \<Rightarrow> Inl (ArtifactValidationError
          ''Render artifact content must be inline UTF-8 for Publish Engine submission.''))"

subsection \<open>Eligibility\<close>

definition publish_artifact_max_bytes :: int where
  "publish_artifact_max_bytes = 1048576"

definition deriveSourceRenderArtifactId :: "content_job \<Rightarrow> platform_error + string" where
  "deriveSourceRenderArtifactId job =
     (case Option.bind (cj_result job) res_renderArtifact of
        None \<Rightarrow> Inl (ConflictError PUBLISH_SOURCE_ARTIFACT_MISSING
                      ''Source content job does not have a render artifact.'')
      | Some artifact \<Rightarrow>
          let artifactId = js_trim (ra_artifactId artifact)
          in if artifactId \<noteq> [] then Inr artifactId
             else Inr (''styled:'' @ cj_id job @ '':'' @ ra_checksumSha256 artifact @ '':''
                       @ stringify_int (ra_byteSize artifact)))"

text \<open>The \<open>try\<close> block: any error in it becomes the one conflict.\<close>

definition eligible_source :: "(string \<Rightarrow> string) \<Rightarrow> render_artifact \<Rightarrow> platform_error + styled_source" where
  "eligible_source sha256 artifact =
     (case (if ra_payloadRepresentation artifact = None \<or> ra_content artifact = None then None
            else case createPublishEngineStyledHtmlSourceFromRenderArtifact sha256 artifact of
              Inl e \<Rightarrow> None
            | Inr source \<Rightarrow>
                (case validatePublishEngineStyledHtmlSource sha256 source of
                   Inl e \<Rightarrow> None
                 | Inr _ \<Rightarrow> Some source)) of
        None \<Rightarrow> Inl (ConflictError PUBLISH_SOURCE_ARTIFACT_INVALID
                      ''Source content job render artifact is not a valid styled HTML artifact.'')
      | Some source \<Rightarrow> Inr source)"

definition createPublishSourceSnapshot ::
  "(string \<Rightarrow> string) \<Rightarrow> content_job \<Rightarrow> string \<Rightarrow> platform_error + string \<times> artifact_snapshot" where
  "createPublishSourceSnapshot sha256 sourceJob projectId =
     (if cj_projectId sourceJob \<noteq> projectId then
        Inl (ConflictError PUBLISH_SOURCE_NOT_ELIGIBLE
               ''Source content job does not belong to the requested project.'')
      else if cj_status sourceJob \<noteq> CCompleted then
        Inl (ConflictError PUBLISH_SOURCE_NOT_ELIGIBLE
               ''Source content job must be completed before publishing.'')
      else case Option.bind (cj_result sourceJob) res_renderArtifact of
        None \<Rightarrow> Inl (ConflictError PUBLISH_SOURCE_ARTIFACT_MISSING
                      ''Source content job does not include a render artifact.'')
      | Some artifact \<Rightarrow>
          (case eligible_source sha256 artifact of
             Inl e \<Rightarrow> Inl e
           | Inr source \<Rightarrow>
               if ss_byteSize source > publish_artifact_max_bytes then
                 Inl (ConflictError PUBLISH_SOURCE_ARTIFACT_INVALID
                   ''Source styled HTML artifact exceeds maximum allowed publish snapshot size.'')
               else (case deriveSourceRenderArtifactId sourceJob of
                   Inl e \<Rightarrow> Inl e
                 | Inr artifactId \<Rightarrow>
                     Inr (artifactId,
                       \<lparr>as_artifactId = artifactId,
                        as_payloadRepresentation = ss_payloadRepresentation source,
                        as_mimeType = ss_mimeType source, as_fileExtension = ss_fileExtension source,
                        as_payload = ss_payload source, as_byteSize = ss_byteSize source,
                        as_checksumSha256 = ss_checksumSha256 source\<rparr>))))"

text \<open>What the worker requires of a stored snapshot (\<open>src/domain/publish-jobs/types.ts\<close>).\<close>

definition publishSourceArtifactSnapshotSchema :: "artifact_snapshot \<Rightarrow> bool" where
  "publishSourceArtifactSnapshotSchema s \<longleftrightarrow>
     js_trim (as_artifactId s) \<noteq> [] \<and> length (js_trim (as_artifactId s)) \<le> 120
     \<and> as_payloadRepresentation s = ''styled-html''
     \<and> as_mimeType s = ''text/html; charset=utf-8'' \<and> as_fileExtension s = ''.html''
     \<and> as_payload s \<noteq> [] \<and> int (length (as_payload s)) \<le> publish_artifact_max_bytes
     \<and> 0 < as_byteSize s \<and> as_byteSize s \<le> publish_artifact_max_bytes
     \<and> is_checksum (as_checksumSha256 s)"

subsection \<open>Creating a publish job\<close>

record create_publish_command =
  cpc_tenantId :: string
  cpc_projectId :: string
  cpc_sourceContentJobId :: string
  cpc_outputFormat :: output_format
  cpc_publishMode :: publish_mode
  cpc_renderOptions :: "render_options option"
  cpc_publicationMetadata :: "publication_metadata option"
  cpc_idempotencyKey :: string
  cpc_correlationId :: string

definition publish_fingerprint_of ::
  "(string \<Rightarrow> string) \<Rightarrow> (string \<Rightarrow> 'k::linorder) \<Rightarrow> create_publish_command \<Rightarrow> string \<Rightarrow> artifact_snapshot
     \<Rightarrow> string" where
  "publish_fingerprint_of sha256 collate command artifactId snapshot =
     computePublishJobRequestFingerprint sha256 collate
       \<lparr>pf_sourceContentJobId = cpc_sourceContentJobId command, pf_sourceRenderArtifactId = artifactId,
        pf_checksumSha256 = as_checksumSha256 snapshot, pf_byteSize = as_byteSize snapshot,
        pf_outputFormat = output_format_name (cpc_outputFormat command),
        pf_publishMode = publish_mode_name (cpc_publishMode command),
        pf_renderOptions = cpc_renderOptions command,
        pf_publicationMetadata = cpc_publicationMetadata command\<rparr>"

definition create_input_of ::
  "create_publish_command \<Rightarrow> string \<Rightarrow> artifact_snapshot \<Rightarrow> string \<Rightarrow> create_publish_input" where
  "create_input_of command artifactId snapshot requestFingerprint =
     \<lparr>cpi_tenantId = cpc_tenantId command, cpi_projectId = cpc_projectId command,
      cpi_sourceContentJobId = cpc_sourceContentJobId command, cpi_sourceRenderArtifactId = artifactId,
      cpi_sourceArtifactSnapshot = snapshot, cpi_publishMode = cpc_publishMode command,
      cpi_outputFormat = cpc_outputFormat command, cpi_renderOptions = cpc_renderOptions command,
      cpi_publicationMetadata = cpc_publicationMetadata command,
      cpi_idempotencyKey = cpc_idempotencyKey command, cpi_requestFingerprint = requestFingerprint,
      cpi_remoteSubmissionIdempotencyKey = buildRemoteSubmissionIdempotencyKey requestFingerprint,
      cpi_correlationId = cpc_correlationId command\<rparr>"

text \<open>
  The use case.  \<open>readFault\<close> and \<open>seen\<close> are the fate of the read of the source job and the
  database it reads; the rest are the arguments of the repository's operation.
\<close>

definition createPublishJob ::
  "(string \<Rightarrow> string) \<Rightarrow> (string \<Rightarrow> 'k::linorder) \<Rightarrow> result_schemas \<Rightarrow> bool \<Rightarrow> db \<Rightarrow> bool \<Rightarrow> db
     \<Rightarrow> string \<Rightarrow> string \<Rightarrow> time \<Rightarrow> create_publish_command \<Rightarrow> db \<Rightarrow> (platform_error + publish_row) \<times> db" where
  "createPublishJob sha256 collate sch readFault seen fault snap newId evtId now command d =
     (if cpc_publishMode command = PCtaGuide \<and> cpc_publicationMetadata command = None then
        (Inl (ValidationError ''CTA publish mode requires publicationMetadata.''), d)
      else case cj_getById sch readFault (cpc_tenantId command) (cpc_sourceContentJobId command) seen of
        Inl e \<Rightarrow> (Inl e, d)
      | Inr None \<Rightarrow> (Inl (NotFoundError ''Source content job'' (cpc_sourceContentJobId command)), d)
      | Inr (Some sourceJob) \<Rightarrow>
          (case createPublishSourceSnapshot sha256 sourceJob (cpc_projectId command) of
             Inl e \<Rightarrow> (Inl e, d)
           | Inr (artifactId, snapshot) \<Rightarrow>
               pj_createOrGetIdempotent fault snap newId evtId now
                 (create_input_of command artifactId snapshot
                    (publish_fingerprint_of sha256 collate command artifactId snapshot)) d))"

subsection \<open>An eligible source\<close>

lemma utf8_char_length: "1 \<le> length (utf8_char c)"
  by (simp add: utf8_char_def Let_def)

lemma length_utf8: "length s \<le> length (utf8 s)"
proof (induction s)
  case (Cons c s)
  then show ?case using utf8_char_length [of c] by (simp add: utf8_def)
qed (simp add: utf8_def)

lemma byteLength_pos: "s \<noteq> [] \<Longrightarrow> 0 < byteLength s"
  using length_utf8 [of s] by (cases s) (auto simp: byteLength_def)

lemma trim_nonempty:
  assumes "c \<in> set s" and "\<not> js_space c"
  shows "js_trim s \<noteq> []"
proof
  assume "js_trim s = []"
  then have "\<forall>x \<in> set (dropWhile js_space s). js_space x"
    by (simp add: js_trim_def trim_by_def)
  then have "dropWhile js_space s = []"
    by (metis hd_dropWhile hd_in_set)
  with assms show False by simp
qed

lemma validate_source_Inr:
  "validatePublishEngineStyledHtmlSource sha256 s = Inr t \<longleftrightarrow>
     t = s \<and> publishEngineStyledHtmlSourceSchema s \<and> byteLength (ss_payload s) = ss_byteSize s
     \<and> sha256 (ss_payload s) = ss_checksumSha256 s"
  by (auto simp: validatePublishEngineStyledHtmlSource_def validateChecksumFormat_def
      publishEngineStyledHtmlSourceSchema_def)

lemma create_source_Inr:
  assumes "createPublishEngineStyledHtmlSourceFromRenderArtifact sha256 a = Inr s"
  obtains c where "ra_content a = Some c" "ic_kind c = ''inline''" "ic_encoding c = ''utf-8''"
    "s = \<lparr>ss_payloadRepresentation = ''styled-html'', ss_mimeType = ''text/html; charset=utf-8'',
      ss_fileExtension = ''.html'', ss_payload = ic_serializedDocument c,
      ss_byteSize = ra_byteSize a, ss_checksumSha256 = ra_checksumSha256 a\<rparr>"
    "validatePublishEngineStyledHtmlSource sha256 s = Inr s"
  using assms
  by (auto simp: createPublishEngineStyledHtmlSourceFromRenderArtifact_def validate_source_Inr
      split: if_splits option.splits)

lemma eligible_source_Inr:
  "eligible_source sha256 a = Inr s \<Longrightarrow> createPublishEngineStyledHtmlSourceFromRenderArtifact sha256 a = Inr s"
  by (auto simp: eligible_source_def split: if_splits sum.splits)

lemma snapshot_Inr:
  assumes "createPublishSourceSnapshot sha256 job pid = Inr (aid, snapshot)"
  obtains a s where "cj_projectId job = pid" "cj_status job = CCompleted"
    "Option.bind (cj_result job) res_renderArtifact = Some a"
    "createPublishEngineStyledHtmlSourceFromRenderArtifact sha256 a = Inr s"
    "ss_byteSize s \<le> publish_artifact_max_bytes" "deriveSourceRenderArtifactId job = Inr aid"
    "snapshot = \<lparr>as_artifactId = aid, as_payloadRepresentation = ss_payloadRepresentation s,
       as_mimeType = ss_mimeType s, as_fileExtension = ss_fileExtension s,
       as_payload = ss_payload s, as_byteSize = ss_byteSize s, as_checksumSha256 = ss_checksumSha256 s\<rparr>"
  using assms
  by (auto simp: createPublishSourceSnapshot_def dest: eligible_source_Inr
      split: if_splits option.splits sum.splits)

lemma derived_id_nonempty: "deriveSourceRenderArtifactId job = Inr aid \<Longrightarrow> js_trim aid \<noteq> []"
  using trim_nonempty [of "CHR ''s''" aid]
  by (auto simp: deriveSourceRenderArtifactId_def Let_def js_space_def split: option.splits if_splits)

subsection \<open>An example\<close>

definition demo_sha256 :: "string \<Rightarrow> string" where
  "demo_sha256 s = (if s = ''<p></p>'' then replicate 64 CHR ''a'' else s)"

definition demo_collate :: "string \<Rightarrow> nat" where "demo_collate s = length s"

definition demo_schemas :: result_schemas where
  "demo_schemas = \<lparr>rs_datetime = (\<lambda>_. True), rs_ai = (\<lambda>_. True), rs_publication = (\<lambda>_. True),
     rs_htmlDocument = (\<lambda>_. True)\<rparr>"

definition demo_artifact :: render_artifact where
  "demo_artifact = \<lparr>ra_artifactId = ''artifact_1'', ra_status = ''ready'', ra_format = ''html'',
     ra_payloadRepresentation = Some ''styled-html'', ra_mimeType = ''text/html; charset=utf-8'',
     ra_fileExtension = ''.html'', ra_checksumSha256 = replicate 64 CHR ''a'', ra_byteSize = 7,
     ra_createdAt = ''t'', ra_warnings = [], ra_errors = [],
     ra_content = Some \<lparr>ic_kind = ''inline'', ic_encoding = ''utf-8'', ic_bytesBase64 = ''b'',
       ic_serializedDocument = ''<p></p>''\<rparr>, ra_storage = StorageNone\<rparr>"

definition demo_result :: processing_result where
  "demo_result = \<lparr>res_schemaVersion = ''1.0'', res_sourceVersionId = ''srcver_1'', res_contentHash = ''h'',
     res_wordCount = 1, res_characterCount = 1, res_paragraphCount = 1, res_lineCount = 1,
     res_processedAt = ''t'', res_ai = None, res_publication = None, res_htmlDocument = None,
     res_renderArtifact = Some demo_artifact\<rparr>"

definition demo_p0 :: db where
  "demo_p0 = empty_db\<lparr>contentJobs := [example_content\<lparr>cr_result := Some demo_result\<rparr>]\<rparr>"

definition demo_job :: content_job where
  "demo_job = content_job_of (example_content\<lparr>cr_result := Some demo_result\<rparr>)"

definition demo_command :: create_publish_command where
  "demo_command = \<lparr>cpc_tenantId = ''tenant_1'', cpc_projectId = ''project_1'', cpc_sourceContentJobId = ''job_1'',
     cpc_outputFormat = Html, cpc_publishMode = PStandard, cpc_renderOptions = None,
     cpc_publicationMetadata = None, cpc_idempotencyKey = ''pk'', cpc_correlationId = ''corr_1''\<rparr>"

definition demo_snapshot :: artifact_snapshot where
  "demo_snapshot = \<lparr>as_artifactId = ''artifact_1'', as_payloadRepresentation = ''styled-html'',
     as_mimeType = ''text/html; charset=utf-8'', as_fileExtension = ''.html'', as_payload = ''<p></p>'',
     as_byteSize = 7, as_checksumSha256 = replicate 64 CHR ''a''\<rparr>"

lemma demo_source: "createPublishSourceSnapshot demo_sha256 demo_job ''project_1'' = Inr (''artifact_1'', demo_snapshot)"
  by code_simp

lemma demo_read:
  "cj_getById demo_schemas False ''tenant_1'' ''job_1'' demo_p0 = Inr (Some demo_job)"
proof -
  have "\<not> isl (mapContentJob demo_schemas (example_content\<lparr>cr_result := Some demo_result\<rparr>))" by code_simp
  then have "mapContentJob demo_schemas (example_content\<lparr>cr_result := Some demo_result\<rparr>) = Inr demo_job"
    by (simp add: mapContentJob_def demo_job_def split: if_splits)
  moreover have "validateTenantAndJobIds ''tenant_1'' ''job_1'' = Inr ()" by code_simp
  ultimately show ?thesis
    by (simp add: cj_getById_def demo_p0_def find_first_def example_content_def)
qed

text \<open>
  C12: Eligibility.  A publish source is created only from a completed job of the requested
  project whose render artifact carries its document inline; the snapshot then holds that
  document, with its length in UTF-8 bytes, at most one MiB, and its digest, and the worker
  will accept it exactly when its identifier is at most 120 characters long, which the
  creation does not check.
\<close>

theorem publish_source_snapshot:
  assumes "createPublishSourceSnapshot sha256 job pid = Inr (aid, snapshot)"
  shows "cj_projectId job = pid \<and> cj_status job = CCompleted
    \<and> (\<exists>a c. Option.bind (cj_result job) res_renderArtifact = Some a \<and> ra_content a = Some c
         \<and> as_payload snapshot = ic_serializedDocument c)
    \<and> as_byteSize snapshot = byteLength (as_payload snapshot)
    \<and> as_checksumSha256 snapshot = sha256 (as_payload snapshot)
    \<and> as_byteSize snapshot \<le> 1048576
    \<and> (publishSourceArtifactSnapshotSchema snapshot \<longleftrightarrow> length (js_trim aid) \<le> 120)"
proof -
  obtain a s where job: "cj_projectId job = pid" "cj_status job = CCompleted"
      "Option.bind (cj_result job) res_renderArtifact = Some a"
    and src: "createPublishEngineStyledHtmlSourceFromRenderArtifact sha256 a = Inr s"
    and max: "ss_byteSize s \<le> publish_artifact_max_bytes" and id: "deriveSourceRenderArtifactId job = Inr aid"
    and sn: "snapshot = \<lparr>as_artifactId = aid, as_payloadRepresentation = ss_payloadRepresentation s,
       as_mimeType = ss_mimeType s, as_fileExtension = ss_fileExtension s,
       as_payload = ss_payload s, as_byteSize = ss_byteSize s, as_checksumSha256 = ss_checksumSha256 s\<rparr>"
    by (rule snapshot_Inr [OF assms])
  obtain c where c: "ra_content a = Some c" and s: "s = \<lparr>ss_payloadRepresentation = ''styled-html'',
      ss_mimeType = ''text/html; charset=utf-8'', ss_fileExtension = ''.html'',
      ss_payload = ic_serializedDocument c, ss_byteSize = ra_byteSize a,
      ss_checksumSha256 = ra_checksumSha256 a\<rparr>"
    and v0: "validatePublishEngineStyledHtmlSource sha256 s = Inr s"
    by (rule create_source_Inr [OF src]) blast
  have payload: "ss_payload s = ic_serializedDocument c" by (simp add: s)
  from v0 have v: "publishEngineStyledHtmlSourceSchema s" "byteLength (ss_payload s) = ss_byteSize s"
      "sha256 (ss_payload s) = ss_checksumSha256 s"
    by (simp_all add: validate_source_Inr)
  have "int (length (ss_payload s)) \<le> ss_byteSize s" "0 < ss_byteSize s"
    using v length_utf8 [of "ss_payload s"] byteLength_pos [of "ss_payload s"]
    by (auto simp: byteLength_def publishEngineStyledHtmlSourceSchema_def)
  then have "publishSourceArtifactSnapshotSchema snapshot \<longleftrightarrow> length (js_trim aid) \<le> 120"
    using v(1) max derived_id_nonempty [OF id]
    by (auto simp: sn publishSourceArtifactSnapshotSchema_def publishEngineStyledHtmlSourceSchema_def)
  then show ?thesis using job c v max payload by (auto simp: sn publish_artifact_max_bytes_def)
qed

lemma publish_source_snapshot_witness:
  "as_byteSize demo_snapshot = byteLength ''<p></p>'' \<and> publishSourceArtifactSnapshotSchema demo_snapshot"
proof -
  have "length (js_trim ''artifact_1'') \<le> 120" by code_simp
  moreover have "as_payload demo_snapshot = ''<p></p>''" by (simp add: demo_snapshot_def)
  ultimately show ?thesis using publish_source_snapshot [OF demo_source] by simp
qed

subsection \<open>Idempotent creation\<close>

definition pj_source_exists :: "create_publish_input \<Rightarrow> db \<Rightarrow> bool" where
  "pj_source_exists input d \<longleftrightarrow>
     find_first (\<lambda>r. cr_id r = cpi_sourceContentJobId input \<and> cr_tenantId r = cpi_tenantId input
                  \<and> cr_projectId r = cpi_projectId input) (contentJobs d) \<noteq> None"

lemma pj_create_stored:
  assumes v: "validateTenantId (cpi_tenantId input) = Inr ()"
    "ensureNonEmpty (cpi_idempotencyKey input) ''idempotencyKey'' = Inr key"
    "ensureNonEmpty (cpi_requestFingerprint input) ''requestFingerprint'' = Inr fp"
    and src: "pj_source_exists input snap"
    and row: "pj_by_key (cpi_tenantId input) key snap = Some row"
  shows "pj_createOrGetIdempotent False snap newId evtId now input d = (pj_reuse row fp, d)"
  using src
  by (auto simp: pj_createOrGetIdempotent_def pj_create_body_def v row pj_source_exists_def pj_reuse_def
      isUniqueViolation_def toDatabaseUnavailableError_def)

lemma pj_create_lost_race:
  assumes v: "validateTenantId (cpi_tenantId input) = Inr ()"
    "ensureNonEmpty (cpi_idempotencyKey input) ''idempotencyKey'' = Inr key"
    "ensureNonEmpty (cpi_requestFingerprint input) ''requestFingerprint'' = Inr fp"
    "ensureNonEmpty (cpi_remoteSubmissionIdempotencyKey input) ''remoteSubmissionIdempotencyKey'' = Inr rk"
    and src: "pj_source_exists input snap"
    and none: "pj_by_key (cpi_tenantId input) key snap = None"
    and row: "pj_by_key (cpi_tenantId input) key d = Some row"
  shows "pj_createOrGetIdempotent False snap newId evtId now input d = (pj_reuse row fp, d)"
proof -
  have "row \<in> set (publishJobs d)" "pr_tenantId row = cpi_tenantId input" "pr_idempotencyKey row = key"
    using row by (auto simp: pj_by_key_def dest!: find_first_Some)
  then have "pj_conflict (pj_new_row input key fp rk newId now) (publishJobs d)"
    by (auto simp: pj_conflict_def pj_new_row_def list_ex_iff)
  then show ?thesis using src
    by (auto simp: pj_createOrGetIdempotent_def pj_create_body_def v row none pj_source_exists_def
        isUniqueViolation_def Let_def)
qed

lemma pj_create_success:
  assumes r: "pj_createOrGetIdempotent False d newId evtId now input d = (Inr j, d')"
  obtains key fp rk where "validateTenantId (cpi_tenantId input) = Inr ()"
    "ensureNonEmpty (cpi_idempotencyKey input) ''idempotencyKey'' = Inr key"
    "ensureNonEmpty (cpi_requestFingerprint input) ''requestFingerprint'' = Inr fp"
    "pj_source_exists input d" "pj_by_key (cpi_tenantId input) key d' = Some j"
    "pr_requestFingerprint j = fp" "contentJobs d' = contentJobs d"
    "pj_by_key (cpi_tenantId input) key d = Some j
     \<or> (pj_by_key (cpi_tenantId input) key d = None
        \<and> ensureNonEmpty (cpi_remoteSubmissionIdempotencyKey input) ''remoteSubmissionIdempotencyKey'' = Inr rk)"
proof -
  from r obtain key fp where v: "validateTenantId (cpi_tenantId input) = Inr ()"
    "ensureNonEmpty (cpi_idempotencyKey input) ''idempotencyKey'' = Inr key"
    "ensureNonEmpty (cpi_requestFingerprint input) ''requestFingerprint'' = Inr fp"
    unfolding pj_createOrGetIdempotent_def by (auto simp: checked_def split: sum.splits)
  have src: "pj_source_exists input d"
    unfolding pj_source_exists_def
  proof
    assume "find_first (\<lambda>r. cr_id r = cpi_sourceContentJobId input \<and> cr_tenantId r = cpi_tenantId input
                  \<and> cr_projectId r = cpi_projectId input) (contentJobs d) = None"
    then show False using r
      by (simp add: pj_createOrGetIdempotent_def v pj_create_body_def isUniqueViolation_def)
  qed
  show thesis
  proof (cases "pj_by_key (cpi_tenantId input) key d")
    case (Some row)
    then show ?thesis using r pj_create_stored [OF v src Some] that [OF v src]
      by (auto simp: pj_reuse_def split: if_splits)
  next
    case None
    from src obtain c where c: "find_first (\<lambda>r. cr_id r = cpi_sourceContentJobId input
        \<and> cr_tenantId r = cpi_tenantId input \<and> cr_projectId r = cpi_projectId input) (contentJobs d) = Some c"
      by (auto simp: pj_source_exists_def)
    obtain rk where rk: "ensureNonEmpty (cpi_remoteSubmissionIdempotencyKey input)
        ''remoteSubmissionIdempotencyKey'' = Inr rk"
      using r by (cases "ensureNonEmpty (cpi_remoteSubmissionIdempotencyKey input) ''remoteSubmissionIdempotencyKey''")
        (auto simp: pj_createOrGetIdempotent_def v pj_create_body_def c None isUniqueViolation_def)
    let ?new = "pj_new_row input key fp rk newId now"
    have "\<not> pj_conflict ?new (publishJobs d)"
      using r by (auto simp: pj_createOrGetIdempotent_def v pj_create_body_def c None rk isUniqueViolation_def Let_def)
    then have d': "publishJobs d' = publishJobs d @ [?new]" "contentJobs d' = contentJobs d" and j: "j = ?new"
      using r by (auto simp: pj_createOrGetIdempotent_def v pj_create_body_def c None rk Let_def)
    have "pj_by_key (cpi_tenantId input) key d' = Some j"
      using None by (simp add: pj_by_key_def find_first_def d' j find_append pj_new_row_def)
    then show ?thesis using that [OF v src] None rk d' by (simp add: j pj_new_row_def)
  qed
qed

lemma pj_create_again:
  assumes first: "pj_createOrGetIdempotent False d newId evtId now input d = (Inr j, d')"
    and snap: "snap = d \<or> snap = d'"
  shows "pj_createOrGetIdempotent False snap newId' evtId' now' input d' = (Inr j, d')"
proof -
  from pj_create_success [OF first] obtain key fp rk where v: "validateTenantId (cpi_tenantId input) = Inr ()"
      "ensureNonEmpty (cpi_idempotencyKey input) ''idempotencyKey'' = Inr key"
      "ensureNonEmpty (cpi_requestFingerprint input) ''requestFingerprint'' = Inr fp"
    and src: "pj_source_exists input d" and row: "pj_by_key (cpi_tenantId input) key d' = Some j"
    and fp: "pr_requestFingerprint j = fp" and cj: "contentJobs d' = contentJobs d"
    and old: "pj_by_key (cpi_tenantId input) key d = Some j
     \<or> (pj_by_key (cpi_tenantId input) key d = None
        \<and> ensureNonEmpty (cpi_remoteSubmissionIdempotencyKey input) ''remoteSubmissionIdempotencyKey'' = Inr rk)"
    by metis
  have src': "pj_source_exists input snap" using src cj snap by (auto simp: pj_source_exists_def)
  have reuse: "pj_reuse j fp = Inr j" using fp by (simp add: pj_reuse_def)
  show ?thesis
  proof (cases "pj_by_key (cpi_tenantId input) key snap")
    case None
    then have "ensureNonEmpty (cpi_remoteSubmissionIdempotencyKey input) ''remoteSubmissionIdempotencyKey'' = Inr rk"
      using old row snap by auto
    from pj_create_lost_race [OF v this src' None row] reuse show ?thesis by simp
  next
    case (Some row')
    then have "row' = j" using old row snap by auto
    with pj_create_stored [OF v src' Some] reuse show ?thesis by simp
  qed
qed

lemma createPublishJob_Inr:
  assumes "createPublishJob sha256 collate sch rf seen fault snap newId evtId now command d = (Inr j, d')"
  obtains job aid snapshot where
    "\<not> (cpc_publishMode command = PCtaGuide \<and> cpc_publicationMetadata command = None)"
    "cj_getById sch rf (cpc_tenantId command) (cpc_sourceContentJobId command) seen = Inr (Some job)"
    "createPublishSourceSnapshot sha256 job (cpc_projectId command) = Inr (aid, snapshot)"
    "pj_createOrGetIdempotent fault snap newId evtId now
       (create_input_of command aid snapshot (publish_fingerprint_of sha256 collate command aid snapshot)) d
     = (Inr j, d')"
  using assms
  by (auto simp: createPublishJob_def split: if_splits sum.splits option.splits prod.splits)

text \<open>
  Creating a publish job is idempotent.  After a successful creation the same command
  again, with fresh identifiers and another clock, returns the same job and changes
  nothing, whether its selects still read the database before the first creation (two
  creations racing) or the one after it.
\<close>

theorem publish_create_idempotent:
  assumes first: "createPublishJob sha256 collate sch False seen False d newId evtId now command d = (Inr j, d')"
    and snap: "snap = d \<or> snap = d'"
  shows "createPublishJob sha256 collate sch False seen False snap newId' evtId' now' command d' = (Inr j, d')"
proof -
  from createPublishJob_Inr [OF first] obtain job aid snapshot where
    c: "\<not> (cpc_publishMode command = PCtaGuide \<and> cpc_publicationMetadata command = None)"
      "cj_getById sch False (cpc_tenantId command) (cpc_sourceContentJobId command) seen = Inr (Some job)"
      "createPublishSourceSnapshot sha256 job (cpc_projectId command) = Inr (aid, snapshot)"
    and r: "pj_createOrGetIdempotent False d newId evtId now
       (create_input_of command aid snapshot (publish_fingerprint_of sha256 collate command aid snapshot)) d
     = (Inr j, d')" by metis
  from pj_create_again [OF r snap, of newId' evtId' now'] show ?thesis
    using c by (simp add: createPublishJob_def)
qed

text \<open>
  A publish idempotency key belongs to one request.  After a successful creation, a
  command of the same tenant with the same key whose fingerprint differs (another source,
  artifact, format, mode, options or metadata) is refused as a conflict and changes nothing.
\<close>

theorem publish_key_conflict_refused:
  assumes first: "createPublishJob sha256 collate sch False seen False d newId evtId now command d = (Inr j, d')"
    and job': "cj_getById sch False (cpc_tenantId command') (cpc_sourceContentJobId command') seen' = Inr (Some job)"
      "createPublishSourceSnapshot sha256 job (cpc_projectId command') = Inr (aid, snapshot)"
    and mode: "cpc_publishMode command' = PStandard"
    and same: "cpc_tenantId command' = cpc_tenantId command"
      "js_trim (cpc_idempotencyKey command') = js_trim (cpc_idempotencyKey command)"
    and other: "js_trim (publish_fingerprint_of sha256 collate command' aid snapshot) \<noteq> []"
      "js_trim (publish_fingerprint_of sha256 collate command' aid snapshot) \<noteq> pr_requestFingerprint j"
    and src: "pj_source_exists (create_input_of command' aid snapshot x) d'"
  shows "createPublishJob sha256 collate sch False seen' False d' newId' evtId' now' command' d'
    = (Inl (ConflictError PUBLISH_JOB_IDEMPOTENCY_CONFLICT
              ''Idempotency key was reused with a different publish request.''), d')"
proof -
  let ?input = "create_input_of command' aid snapshot (publish_fingerprint_of sha256 collate command' aid snapshot)"
  from createPublishJob_Inr [OF first] obtain aid0 sn0 fp0 where
    r: "pj_createOrGetIdempotent False d newId evtId now (create_input_of command aid0 sn0 fp0) d = (Inr j, d')"
    by metis
  from pj_create_success [OF r] obtain key where
    v: "validateTenantId (cpi_tenantId (create_input_of command aid0 sn0 fp0)) = Inr ()"
      "ensureNonEmpty (cpi_idempotencyKey (create_input_of command aid0 sn0 fp0)) ''idempotencyKey'' = Inr key"
      "pj_by_key (cpi_tenantId (create_input_of command aid0 sn0 fp0)) key d' = Some j"
    by metis
  have v': "validateTenantId (cpi_tenantId ?input) = Inr ()"
    "ensureNonEmpty (cpi_idempotencyKey ?input) ''idempotencyKey'' = Inr key"
    "pj_by_key (cpi_tenantId ?input) key d' = Some j"
    using v same by (simp_all add: create_input_of_def ensureNonEmpty_Inr)
  have fp: "ensureNonEmpty (cpi_requestFingerprint ?input) ''requestFingerprint''
      = Inr (js_trim (publish_fingerprint_of sha256 collate command' aid snapshot))"
    using other(1) by (simp add: create_input_of_def ensureNonEmpty_Inr)
  have src': "pj_source_exists ?input d'" using src by (simp add: pj_source_exists_def create_input_of_def)
  from pj_create_stored [OF v'(1,2) fp src' v'(3)] other(2) show ?thesis
    using job' mode by (simp add: createPublishJob_def pj_reuse_def)
qed

end
