(* ===== verification/CreationCases.thy ===== *)
theory CreationCases
  imports PublishSource
begin

text \<open>
  A concrete creation of a publish job, evaluated by the kernel: repeating the request
  returns the stored job, and reusing its key for another format is refused.  It shows that
  the hypotheses of the laws of creation can hold.
\<close>

definition demo_p1 :: db where
  "demo_p1 = snd (createPublishJob demo_sha256 demo_collate demo_schemas False demo_p0 False demo_p0 ''pjob_1''
     ''e_1'' 5 demo_command demo_p0)"

lemma demo_created:
  "\<exists>j. createPublishJob demo_sha256 demo_collate demo_schemas False demo_p0 False demo_p0 ''pjob_1'' ''e_1'' 5
     demo_command demo_p0 = (Inr j, demo_p1)"
proof -
  have "\<not> isl (fst (createPublishJob demo_sha256 demo_collate demo_schemas False demo_p0 False demo_p0 ''pjob_1''
     ''e_1'' 5 demo_command demo_p0))"
    by code_simp
  then show ?thesis
    by (cases "fst (createPublishJob demo_sha256 demo_collate demo_schemas False demo_p0 False demo_p0 ''pjob_1''
     ''e_1'' 5 demo_command demo_p0)") (auto simp: demo_p1_def prod_eq_iff)
qed

lemma publish_create_idempotent_witness:
  "\<exists>j. createPublishJob demo_sha256 demo_collate demo_schemas False demo_p0 False demo_p0 ''pjob_9'' ''e_9'' 77
     demo_command demo_p1 = (Inr j, demo_p1)"
proof -
  obtain j where "createPublishJob demo_sha256 demo_collate demo_schemas False demo_p0 False demo_p0 ''pjob_1''
     ''e_1'' 5 demo_command demo_p0 = (Inr j, demo_p1)"
    using demo_created by blast
  from publish_create_idempotent [OF this] show ?thesis by blast
qed

lemma demo_rows:
  "map pr_requestFingerprint (publishJobs demo_p1) =
     [publish_fingerprint_of demo_sha256 demo_collate demo_command ''artifact_1'' demo_snapshot]
   \<and> pj_source_exists (create_input_of (demo_command\<lparr>cpc_outputFormat := Pdf\<rparr>) ''artifact_1'' demo_snapshot []) demo_p1
   \<and> js_trim (publish_fingerprint_of demo_sha256 demo_collate (demo_command\<lparr>cpc_outputFormat := Pdf\<rparr>)
       ''artifact_1'' demo_snapshot)
     \<notin> {[], publish_fingerprint_of demo_sha256 demo_collate demo_command ''artifact_1'' demo_snapshot}"
  by code_simp

lemma publish_key_conflict_refused_witness:
  "createPublishJob demo_sha256 demo_collate demo_schemas False demo_p0 False demo_p1 ''pjob_9'' ''e_9'' 77
     (demo_command\<lparr>cpc_outputFormat := Pdf\<rparr>) demo_p1
    = (Inl (ConflictError PUBLISH_JOB_IDEMPOTENCY_CONFLICT
              ''Idempotency key was reused with a different publish request.''), demo_p1)"
proof -
  obtain j where c: "createPublishJob demo_sha256 demo_collate demo_schemas False demo_p0 False demo_p0 ''pjob_1''
     ''e_1'' 5 demo_command demo_p0 = (Inr j, demo_p1)"
    using demo_created by blast
  from createPublishJob_Inr [OF c] obtain aid sn fp where
    "pj_createOrGetIdempotent False demo_p0 ''pjob_1'' ''e_1'' 5 (create_input_of demo_command aid sn fp) demo_p0
      = (Inr j, demo_p1)" by metis
  from pj_create_success [OF this] obtain t k where "pj_by_key t k demo_p1 = Some j" by metis
  then have "j \<in> set (publishJobs demo_p1)" by (auto simp: pj_by_key_def dest: find_first_Some)
  then have "pr_requestFingerprint j \<in> set (map pr_requestFingerprint (publishJobs demo_p1))" by simp
  then have fp: "pr_requestFingerprint j =
      publish_fingerprint_of demo_sha256 demo_collate demo_command ''artifact_1'' demo_snapshot"
    using demo_rows by simp
  show ?thesis
    by (rule publish_key_conflict_refused [OF c, where job = demo_job and aid = "''artifact_1''"
          and snapshot = demo_snapshot and x = "[]"])
      (use fp demo_rows demo_read demo_source in \<open>simp_all add: demo_command_def\<close>)
qed

end
