(* ===== verification/JobSource.thy ===== *)
theory JobSource
  imports ContentJobs
begin

text \<open>
  The worker's view of the content-job table
  (\<open>src/infrastructure/workers/database-job-source.ts\<close>): leases, stages, results and the
  recovery of jobs whose lease ran out.
\<close>

subsection \<open>Leased jobs\<close>

record leased_job = content_job +
  lj_leaseOwner :: string
  lj_leaseExpiresAt :: time
  lj_heartbeatAt :: time
  lj_nextAttemptAt :: "time option"

text \<open>\<open>!row.leaseOwner\<close> also holds of the empty string.\<close>

definition mapWorkerLeasedJob :: "result_schemas \<Rightarrow> content_row \<Rightarrow> platform_error + leased_job" where
  "mapWorkerLeasedJob sch row =
     (case (cr_leaseOwner row, cr_leaseExpiresAt row, cr_heartbeatAt row) of
        (Some owner, Some expires, Some beat) \<Rightarrow>
          if owner = [] then
            Inl (ConflictError INVALID_WORKFLOW_STATE ''Leased job row is missing lease metadata.'')
          else map_sum id
            (\<lambda>base. content_job.extend base
               \<lparr>lj_leaseOwner = owner, lj_leaseExpiresAt = expires, lj_heartbeatAt = beat,
                lj_nextAttemptAt = cr_nextAttemptAt row\<rparr>)
            (mapContentJob sch row)
      | _ \<Rightarrow> Inl (ConflictError INVALID_WORKFLOW_STATE ''Leased job row is missing lease metadata.''))"

subsection \<open>Acquiring\<close>

text \<open>
  The candidate query.  \<open>FOR UPDATE SKIP LOCKED\<close> passes over the rows other transactions
  have locked; \<open>locked\<close> says which.
\<close>

definition js_due :: "time \<Rightarrow> content_row \<Rightarrow> bool" where
  "js_due now r \<longleftrightarrow>
     (cr_status r = CQueued
      \<or> (cr_status r = CRetrying
         \<and> (case cr_nextAttemptAt r of None \<Rightarrow> False | Some t \<Rightarrow> t \<le> now)))
     \<and> (case cr_leaseExpiresAt r of None \<Rightarrow> True | Some t \<Rightarrow> t \<le> now)"

definition js_candidate :: "(string \<Rightarrow> bool) \<Rightarrow> time \<Rightarrow> db \<Rightarrow> content_row option" where
  "js_candidate locked now d =
     order_first cr_createdAt (\<lambda>r. js_due now r \<and> \<not> locked (cr_id r)) (contentJobs d)"

definition js_lease :: "string \<Rightarrow> int \<Rightarrow> time \<Rightarrow> content_row \<Rightarrow> content_row" where
  "js_lease workerId leaseDurationMs now r =
     r\<lparr>cr_status := CProcessing, cr_currentStage := CSNormalizingTranscript,
       cr_attemptCount := cr_attemptCount r + 1,
       cr_startedAt := Some (case cr_startedAt r of Some t \<Rightarrow> t | None \<Rightarrow> now),
       cr_leaseOwner := Some workerId, cr_leaseExpiresAt := Some (now + leaseDurationMs),
       cr_heartbeatAt := Some now, cr_updatedAt := now\<rparr>"

text \<open>The tail shared by the operations that return a row and record an event.\<close>

definition js_event ::
  "string \<Rightarrow> job_event_type \<Rightarrow> content_status \<Rightarrow> content_status \<Rightarrow> (string \<times> detail) list \<Rightarrow> time
     \<Rightarrow> string \<Rightarrow> string \<Rightarrow> job_event" where
  "js_event evtId eventType prior new details now tenantId jobId =
     \<lparr>je_id = evtId, je_tenantId = tenantId, je_jobId = jobId, je_eventType = eventType,
      je_priorStatus = Some prior, je_newStatus = Some new, je_details = Some (Details details),
      je_createdAt = now\<rparr>"

definition js_acquire_body ::
  "result_schemas \<Rightarrow> (string \<Rightarrow> bool) \<Rightarrow> db \<Rightarrow> string \<Rightarrow> string \<Rightarrow> int \<Rightarrow> time \<Rightarrow> db
     \<Rightarrow> caught + leased_job option \<times> db" where
  "js_acquire_body sch locked snap evtId workerId leaseDurationMs now d =
     (case js_candidate locked now snap of
        None \<Rightarrow> Inr (None, d)
      | Some candidate \<Rightarrow>
          (case update_returning
             (\<lambda>r. cr_id r = cr_id candidate \<and> cr_status r = cr_status candidate)
             (js_lease workerId leaseDurationMs now) (contentJobs d) of
             (None, _) \<Rightarrow> Inr (None, d)
           | (Some updated, jobs) \<Rightarrow>
               thrown (map_sum id
                 (\<lambda>j. (Some j, d\<lparr>contentJobs := jobs,
                    jobEvents := jobEvents d @
                      [js_event evtId JobLeaseAcquired (cr_status candidate) CProcessing
                         [(''workerId'', DText workerId),
                          (''attemptCount'', DInt (cr_attemptCount updated))]
                         now (cr_tenantId updated) (cr_id updated)]\<rparr>))
                 (mapWorkerLeasedJob sch updated))))"

definition js_acquireNext ::
  "result_schemas \<Rightarrow> bool \<Rightarrow> (string \<Rightarrow> bool) \<Rightarrow> db \<Rightarrow> string \<Rightarrow> string \<Rightarrow> int \<Rightarrow> time \<Rightarrow> db
     \<Rightarrow> (platform_error + leased_job option) \<times> db" where
  "js_acquireNext sch fault locked snap evtId workerId leaseDurationMs now d =
     or_unavailable ''Unable to acquire next job.''
       (transaction fault d (js_acquire_body sch locked snap evtId workerId leaseDurationMs now d))"

subsection \<open>Operations of the lease holder\<close>

text \<open>
  The guard of every operation of a worker on its job: it is processing, the worker owns
  the lease, and the lease has not run out.
\<close>

definition js_held :: "string \<Rightarrow> string \<Rightarrow> string \<Rightarrow> time \<Rightarrow> content_row \<Rightarrow> bool" where
  "js_held tenantId jobId workerId now r \<longleftrightarrow>
     cr_id r = jobId \<and> cr_tenantId r = tenantId \<and> cr_status r = CProcessing
     \<and> cr_leaseOwner r = Some workerId
     \<and> (case cr_leaseExpiresAt r of None \<Rightarrow> False | Some t \<Rightarrow> t > now)"

text \<open>One guarded statement without a transaction (\<open>renewLease\<close>, \<open>markStage\<close>).\<close>

definition js_renewLease ::
  "result_schemas \<Rightarrow> bool \<Rightarrow> string \<Rightarrow> string \<Rightarrow> string \<Rightarrow> int \<Rightarrow> time \<Rightarrow> db
     \<Rightarrow> (platform_error + leased_job option) \<times> db" where
  "js_renewLease sch fault tenantId jobId workerId leaseDurationMs now d =
     (if fault then (Inl (PlatformError DATABASE_UNAVAILABLE ''Unable to renew job lease.''), d)
      else case update_returning (js_held tenantId jobId workerId now)
             (\<lambda>r. r\<lparr>cr_leaseExpiresAt := Some (now + leaseDurationMs),
                    cr_heartbeatAt := Some now, cr_updatedAt := now\<rparr>) (contentJobs d) of
             (None, _) \<Rightarrow> (Inr None, d)
           | (Some renewed, jobs) \<Rightarrow>
               (map_sum id Some (mapWorkerLeasedJob sch renewed), d\<lparr>contentJobs := jobs\<rparr>))"

definition js_markStage ::
  "result_schemas \<Rightarrow> bool \<Rightarrow> string \<Rightarrow> string \<Rightarrow> string \<Rightarrow> content_stage \<Rightarrow> time \<Rightarrow> db
     \<Rightarrow> (platform_error + leased_job option) \<times> db" where
  "js_markStage sch fault tenantId jobId workerId stage now d =
     (if fault then (Inl (PlatformError DATABASE_UNAVAILABLE ''Unable to update job stage.''), d)
      else case update_returning (js_held tenantId jobId workerId now)
             (\<lambda>r. r\<lparr>cr_currentStage := stage, cr_updatedAt := now\<rparr>) (contentJobs d) of
             (None, _) \<Rightarrow> (Inr None, d)
           | (Some updated, jobs) \<Rightarrow>
               (map_sum id Some (mapWorkerLeasedJob sch updated), d\<lparr>contentJobs := jobs\<rparr>))"

text \<open>
  A guarded update and its event in one transaction: \<open>markCompleted\<close>, \<open>scheduleRetry\<close> and
  \<open>markFailed\<close> are this with their columns.
\<close>

definition js_finish_body ::
  "result_schemas \<Rightarrow> string \<Rightarrow> string \<Rightarrow> string \<Rightarrow> time \<Rightarrow> (content_row \<Rightarrow> content_row)
     \<Rightarrow> (content_row \<Rightarrow> job_event) \<Rightarrow> db \<Rightarrow> caught + content_job option \<times> db" where
  "js_finish_body sch tenantId jobId workerId now upd event d =
     (case update_returning (js_held tenantId jobId workerId now) upd (contentJobs d) of
        (None, _) \<Rightarrow> Inr (None, d)
      | (Some updated, jobs) \<Rightarrow>
          map_sum id (map_prod Some id) (content_commit sch jobs (event updated) updated d))"

definition js_set_completed :: "processing_result option \<Rightarrow> time \<Rightarrow> content_row \<Rightarrow> content_row" where
  "js_set_completed result now r =
     r\<lparr>cr_status := CCompleted, cr_currentStage := CSCompleted, cr_result := result,
       cr_completedAt := Some now, cr_errorCode := None, cr_errorMessage := None,
       cr_leaseOwner := None, cr_leaseExpiresAt := None, cr_heartbeatAt := None,
       cr_nextAttemptAt := None, cr_updatedAt := now\<rparr>"

definition js_markCompleted ::
  "result_schemas \<Rightarrow> bool \<Rightarrow> string \<Rightarrow> string \<Rightarrow> string \<Rightarrow> string \<Rightarrow> processing_result option \<Rightarrow> time
     \<Rightarrow> db \<Rightarrow> (platform_error + content_job option) \<times> db" where
  "js_markCompleted sch fault evtId tenantId jobId workerId result now d =
     or_unavailable ''Unable to mark job completed.''
       (transaction fault d
         (js_finish_body sch tenantId jobId workerId now (js_set_completed result now)
            (\<lambda>updated. js_event evtId JobCompleted CProcessing CCompleted
               [(''workerId'', DText workerId), (''attemptCount'', DInt (cr_attemptCount updated))]
               now tenantId jobId) d))"

definition js_set_retrying :: "string \<Rightarrow> string \<Rightarrow> time \<Rightarrow> time \<Rightarrow> content_row \<Rightarrow> content_row" where
  "js_set_retrying errorCode errorMessage nextAttemptAt now r =
     r\<lparr>cr_status := CRetrying, cr_currentStage := CSFailed, cr_errorCode := Some errorCode,
       cr_errorMessage := Some errorMessage, cr_result := None, cr_completedAt := None,
       cr_leaseOwner := None, cr_leaseExpiresAt := None, cr_heartbeatAt := None,
       cr_nextAttemptAt := Some nextAttemptAt, cr_updatedAt := now\<rparr>"

definition js_scheduleRetry ::
  "result_schemas \<Rightarrow> bool \<Rightarrow> string \<Rightarrow> string \<Rightarrow> string \<Rightarrow> string \<Rightarrow> string \<Rightarrow> string \<Rightarrow> time \<Rightarrow> time
     \<Rightarrow> db \<Rightarrow> (platform_error + content_job option) \<times> db" where
  "js_scheduleRetry sch fault evtId tenantId jobId workerId errorCode errorMessage nextAttemptAt now d =
     or_unavailable ''Unable to schedule job retry.''
       (transaction fault d
         (js_finish_body sch tenantId jobId workerId now
            (js_set_retrying errorCode errorMessage nextAttemptAt now)
            (\<lambda>updated. js_event evtId JobRetryScheduled CProcessing CRetrying
               [(''workerId'', DText workerId), (''attemptCount'', DInt (cr_attemptCount updated)),
                (''errorCode'', DText errorCode), (''nextAttemptAt'', DTime nextAttemptAt)]
               now tenantId jobId) d))"

definition js_set_failed :: "string \<Rightarrow> string \<Rightarrow> time \<Rightarrow> content_row \<Rightarrow> content_row" where
  "js_set_failed errorCode errorMessage now r =
     r\<lparr>cr_status := CFailed, cr_currentStage := CSFailed, cr_errorCode := Some errorCode,
       cr_errorMessage := Some errorMessage, cr_result := None, cr_completedAt := Some now,
       cr_leaseOwner := None, cr_leaseExpiresAt := None, cr_heartbeatAt := None,
       cr_nextAttemptAt := None, cr_updatedAt := now\<rparr>"

definition js_markFailed ::
  "result_schemas \<Rightarrow> bool \<Rightarrow> string \<Rightarrow> string \<Rightarrow> string \<Rightarrow> string \<Rightarrow> string \<Rightarrow> string \<Rightarrow> time
     \<Rightarrow> db \<Rightarrow> (platform_error + content_job option) \<times> db" where
  "js_markFailed sch fault evtId tenantId jobId workerId errorCode errorMessage now d =
     or_unavailable ''Unable to mark job failed.''
       (transaction fault d
         (js_finish_body sch tenantId jobId workerId now (js_set_failed errorCode errorMessage now)
            (\<lambda>updated. js_event evtId JobFailed CProcessing CFailed
               [(''workerId'', DText workerId), (''attemptCount'', DInt (cr_attemptCount updated)),
                (''errorCode'', DText errorCode)]
               now tenantId jobId) d))"

subsection \<open>Stale jobs\<close>

definition js_stale :: "time \<Rightarrow> content_row \<Rightarrow> bool" where
  "js_stale now r \<longleftrightarrow>
     cr_status r = CProcessing
     \<and> (case cr_leaseExpiresAt r of None \<Rightarrow> False | Some t \<Rightarrow> t \<le> now)"

text \<open>\<open>map\<close> throws at the first row it cannot map.\<close>

fun map_leased :: "result_schemas \<Rightarrow> content_row list \<Rightarrow> platform_error + leased_job list" where
  "map_leased sch [] = Inr []"
| "map_leased sch (r # rs) =
     (case mapWorkerLeasedJob sch r of
        Inl e \<Rightarrow> Inl e
      | Inr j \<Rightarrow> map_sum id (Cons j) (map_leased sch rs))"

definition js_listStaleProcessingJobs ::
  "result_schemas \<Rightarrow> bool \<Rightarrow> time \<Rightarrow> nat \<Rightarrow> db \<Rightarrow> platform_error + leased_job list" where
  "js_listStaleProcessingJobs sch fault now limit d =
     (if fault then Inl (PlatformError DATABASE_UNAVAILABLE ''Unable to list stale processing jobs.'')
      else map_leased sch
        (filter (\<lambda>r. cr_leaseExpiresAt r \<noteq> None)
          (order_limit (\<lambda>r. nulls_last (cr_leaseExpiresAt r)) (js_stale now) limit (contentJobs d))))"

definition js_set_recovered :: "bool \<Rightarrow> time \<Rightarrow> time \<Rightarrow> content_row \<Rightarrow> content_row" where
  "js_set_recovered exhausted nextAttemptAt now r =
     (if exhausted then
        r\<lparr>cr_status := CFailed, cr_currentStage := CSFailed,
          cr_errorCode := Some (code_value WORKER_MAX_ATTEMPTS_EXCEEDED),
          cr_errorMessage := Some ''Job exceeded max worker attempts after lease expiration.'',
          cr_completedAt := Some now, cr_leaseOwner := None, cr_leaseExpiresAt := None,
          cr_heartbeatAt := None, cr_nextAttemptAt := None, cr_updatedAt := now\<rparr>
      else
        r\<lparr>cr_status := CRetrying, cr_currentStage := CSFailed,
          cr_errorCode := Some (code_value WORKER_LEASE_EXPIRED),
          cr_errorMessage := Some ''Job lease expired while processing.'',
          cr_completedAt := None, cr_leaseOwner := None, cr_leaseExpiresAt := None,
          cr_heartbeatAt := None, cr_nextAttemptAt := Some nextAttemptAt, cr_updatedAt := now\<rparr>)"

definition js_recover_body ::
  "result_schemas \<Rightarrow> db \<Rightarrow> string \<Rightarrow> string \<Rightarrow> string \<Rightarrow> int \<Rightarrow> time \<Rightarrow> time \<Rightarrow> db
     \<Rightarrow> caught + content_job option \<times> db" where
  "js_recover_body sch snap evtId tenantId jobId maxAttempts nextAttemptAt now d =
     (let guard = (\<lambda>r. cr_id r = jobId \<and> cr_tenantId r = tenantId \<and> js_stale now r) in
      case find_first guard (contentJobs snap) of
        None \<Rightarrow> Inr (None, d)
      | Some stale \<Rightarrow>
          let exhausted = cr_attemptCount stale \<ge> maxAttempts in
          (case update_returning guard (js_set_recovered exhausted nextAttemptAt now) (contentJobs d) of
             (None, _) \<Rightarrow> Inr (None, d)
           | (Some updated, jobs) \<Rightarrow>
               map_sum id (map_prod Some id)
                 (content_commit sch jobs
                   (js_event evtId JobLeaseExpired CProcessing
                      (if exhausted then CFailed else CRetrying)
                      [(''attemptCount'', DInt (cr_attemptCount updated)),
                       (''nextAttemptAt'', if exhausted then DNull else DTime nextAttemptAt)]
                      now tenantId jobId) updated d)))"

definition js_recoverStaleJob ::
  "result_schemas \<Rightarrow> bool \<Rightarrow> db \<Rightarrow> string \<Rightarrow> string \<Rightarrow> string \<Rightarrow> int \<Rightarrow> time \<Rightarrow> time \<Rightarrow> db
     \<Rightarrow> (platform_error + content_job option) \<times> db" where
  "js_recoverStaleJob sch fault snap evtId tenantId jobId maxAttempts nextAttemptAt now d =
     or_unavailable ''Unable to recover stale processing job.''
       (transaction fault d
         (js_recover_body sch snap evtId tenantId jobId maxAttempts nextAttemptAt now d))"

end
