(* ===== verification/SourceVersions.thy ===== *)
theory SourceVersions
  imports Database
begin

text \<open>
  The source-version repository
  (\<open>src/infrastructure/repositories/drizzle-source-version-repository.ts\<close>) and its two
  use cases (\<open>src/application/source-versions\<close>).  A version is immutable: it is only ever
  inserted.  The advisory lock of \<open>create\<close> serialises the creations of one tenant and
  project, except that \<open>hashtext\<close> may also serialise others.
\<close>

subsection \<open>Reading\<close>

definition sv_getById :: "bool \<Rightarrow> string \<Rightarrow> string \<Rightarrow> db \<Rightarrow> platform_error + source_version option"
  where
  "sv_getById fault tenantId sourceVersionId d =
     (case validateScopedIds tenantId None of
        Inl e \<Rightarrow> Inl e
      | Inr _ \<Rightarrow>
          if fault then Inl (PlatformError DATABASE_UNAVAILABLE ''Unable to read source version.'')
          else Inr (find_first (\<lambda>r. sv_tenantId r = tenantId \<and> sv_id r = sourceVersionId)
                     (sourceVersions d)))"

definition sv_findByHash ::
  "bool \<Rightarrow> string \<Rightarrow> string \<Rightarrow> string \<Rightarrow> db \<Rightarrow> platform_error + source_version option" where
  "sv_findByHash fault tenantId projectId contentHash d =
     (case validateScopedIds tenantId (Some projectId) of
        Inl e \<Rightarrow> Inl e
      | Inr _ \<Rightarrow>
          if fault then
            Inl (PlatformError DATABASE_UNAVAILABLE ''Unable to query source versions by hash.'')
          else Inr (find_first (\<lambda>r. sv_tenantId r = tenantId \<and> sv_projectId r = projectId
                                  \<and> sv_contentHash r = contentHash) (sourceVersions d)))"

definition sv_listByProject ::
  "bool \<Rightarrow> string \<Rightarrow> string \<Rightarrow> db \<Rightarrow> platform_error + source_version list" where
  "sv_listByProject fault tenantId projectId d =
     (case validateScopedIds tenantId (Some projectId) of
        Inl e \<Rightarrow> Inl e
      | Inr _ \<Rightarrow>
          if fault then Inl (PlatformError DATABASE_UNAVAILABLE ''Unable to list source versions.'')
          else Inr (sort_key sv_versionNumber
                 (filter (\<lambda>r. sv_tenantId r = tenantId \<and> sv_projectId r = projectId)
                    (sourceVersions d))))"

subsection \<open>Creating\<close>

text \<open>
  The unique indexes and the check constraint of the table: the identifier, the version
  number of a project and the hash of a project.
\<close>

definition sv_conflict :: "source_version \<Rightarrow> source_version list \<Rightarrow> bool" where
  "sv_conflict v vs \<longleftrightarrow>
     list_ex (\<lambda>r. sv_id r = sv_id v
        \<or> (sv_tenantId r = sv_tenantId v \<and> sv_projectId r = sv_projectId v
           \<and> (sv_versionNumber r = sv_versionNumber v \<or> sv_contentHash r = sv_contentHash v))) vs"

text \<open>
  \<open>snap\<close> is the database the selects of the transaction read, \<open>d\<close> the one its insert
  meets.  A unique violation rolls back and reads the stored version again.
\<close>

definition sv_next_number :: "string \<Rightarrow> string \<Rightarrow> db \<Rightarrow> int" where
  "sv_next_number tenantId projectId d =
     (case order_first (\<lambda>r. - sv_versionNumber r)
        (\<lambda>r. sv_tenantId r = tenantId \<and> sv_projectId r = projectId) (sourceVersions d) of
        Some r \<Rightarrow> sv_versionNumber r | None \<Rightarrow> 0) + 1"

definition sv_create_body ::
  "db \<Rightarrow> string \<Rightarrow> time \<Rightarrow> string \<Rightarrow> string \<Rightarrow> string \<Rightarrow> jstext \<Rightarrow> db
     \<Rightarrow> caught + source_version \<times> db" where
  "sv_create_body snap newId now tenantId projectId contentHash normalizedTranscript d =
     (case find_first (\<lambda>r. sv_tenantId r = tenantId \<and> sv_projectId r = projectId
                         \<and> sv_contentHash r = contentHash) (sourceVersions snap) of
        Some existingByHash \<Rightarrow> Inr (existingByHash, d)
      | None \<Rightarrow>
          let v = \<lparr>sv_id = newId, sv_tenantId = tenantId, sv_projectId = projectId,
                   sv_versionNumber = sv_next_number tenantId projectId snap,
                   sv_contentHash = contentHash, sv_transcriptText = normalizedTranscript,
                   sv_createdAt = now\<rparr>
          in if sv_conflict v (sourceVersions d) then Inl UniqueViolation
             else Inr (v, d\<lparr>sourceVersions := sourceVersions d @ [v]\<rparr>))"

definition sv_create ::
  "(jstext \<Rightarrow> string) \<Rightarrow> bool \<Rightarrow> db \<Rightarrow> string \<Rightarrow> time \<Rightarrow> string \<Rightarrow> string \<Rightarrow> jstext \<Rightarrow> db
     \<Rightarrow> (platform_error + source_version) \<times> db" where
  "sv_create sha256 fault snap newId now tenantId projectId transcriptText d =
     checked (validateScopedIds tenantId (Some projectId)) d (\<lambda>_.
       let normalizedTranscript = normalizeTranscript transcriptText in
       if length normalizedTranscript = 0 then
         (Inl (ValidationError ''Transcript cannot be empty after normalization.''), d)
       else
         let contentHash = computeTranscriptHash sha256 normalizedTranscript in
         case transaction fault d
                (sv_create_body snap newId now tenantId projectId contentHash normalizedTranscript d) of
           (Inr v, d') \<Rightarrow> (Inr v, d')
         | (Inl e, d') \<Rightarrow>
             (case (if isUniqueViolation e
                    then sv_findByHash False tenantId projectId contentHash d' else Inr None) of
                Inl e' \<Rightarrow> (Inl e', d')
              | Inr (Some existing) \<Rightarrow> (Inr existing, d')
              | Inr None \<Rightarrow>
                  (Inl (toDatabaseUnavailableError e ''Unable to create source version.''), d')))"

definition sv_createImmutable ::
  "(jstext \<Rightarrow> string) \<Rightarrow> bool \<Rightarrow> db \<Rightarrow> string \<Rightarrow> time \<Rightarrow> string \<Rightarrow> string \<Rightarrow> jstext \<Rightarrow> db
     \<Rightarrow> (platform_error + source_version) \<times> db" where
  "sv_createImmutable = sv_create"

definition getSourceVersion ::
  "bool \<Rightarrow> string \<Rightarrow> string \<Rightarrow> db \<Rightarrow> platform_error + source_version" where
  "getSourceVersion fault tenantId sourceVersionId d =
     (case sv_getById fault tenantId sourceVersionId d of
        Inl e \<Rightarrow> Inl e
      | Inr None \<Rightarrow> Inl (NotFoundError ''Source version'' sourceVersionId)
      | Inr (Some v) \<Rightarrow> Inr v)"

subsection \<open>What every creation keeps\<close>

text \<open>
  The table invariant: identifiers and, within a project, version numbers and hashes are
  unique; version numbers are positive; every text is normalised, not empty, and its hash
  is the hash of the text.
\<close>

definition sv_scope :: "source_version \<Rightarrow> string \<times> string" where
  "sv_scope r = (sv_tenantId r, sv_projectId r)"

definition sv_row_ok :: "(jstext \<Rightarrow> string) \<Rightarrow> source_version \<Rightarrow> bool" where
  "sv_row_ok sha256 r \<longleftrightarrow>
     1 \<le> sv_versionNumber r \<and> sv_transcriptText r \<noteq> []
     \<and> normalizeTranscript (sv_transcriptText r) = sv_transcriptText r
     \<and> sv_contentHash r = sha256 (sv_transcriptText r)"

definition sv_inv :: "(jstext \<Rightarrow> string) \<Rightarrow> db \<Rightarrow> bool" where
  "sv_inv sha256 d \<longleftrightarrow>
     distinct (map sv_id (sourceVersions d))
     \<and> distinct (map (\<lambda>r. (sv_scope r, sv_versionNumber r)) (sourceVersions d))
     \<and> distinct (map (\<lambda>r. (sv_scope r, sv_contentHash r)) (sourceVersions d))
     \<and> list_all (sv_row_ok sha256) (sourceVersions d)"

lemma sv_inv_empty: "sv_inv sha256 empty_db"
  by (simp add: sv_inv_def empty_db_def)

lemma sv_next_number_pos:
  assumes "list_all (sv_row_ok sha256) (sourceVersions d)"
  shows "1 \<le> sv_next_number t p d"
  using assms
  by (auto simp: sv_next_number_def sv_row_ok_def list_all_iff split: option.splits
      dest!: order_first_Some(1))

lemma sv_inv_insert:
  assumes inv: "sv_inv sha256 d" and nc: "\<not> sv_conflict v (sourceVersions d)"
    and ok: "sv_row_ok sha256 v"
  shows "sv_inv sha256 (d\<lparr>sourceVersions := sourceVersions d @ [v]\<rparr>)"
  using assms by (auto simp: sv_inv_def sv_conflict_def sv_scope_def list_ex_iff)

lemma sv_create_body_cases:
  assumes "sv_create_body snap newId now t p h txt d = Inr (v, d')"
  shows "(d' = d \<and> v \<in> set (sourceVersions snap) \<and> sv_scope v = (t, p) \<and> sv_contentHash v = h)
    \<or> (d' = d\<lparr>sourceVersions := sourceVersions d @ [v]\<rparr> \<and> \<not> sv_conflict v (sourceVersions d)
       \<and> sv_id v = newId \<and> sv_scope v = (t, p) \<and> sv_contentHash v = h
       \<and> sv_transcriptText v = txt \<and> sv_versionNumber v = sv_next_number t p snap)"
  using assms
  by (auto simp: sv_create_body_def sv_scope_def Let_def split: option.splits if_splits
      dest!: find_first_Some)

lemma sv_create_state:
  "snd (sv_create sha256 fault snap newId now t p txt d) = d
   \<or> (\<exists>v. sv_create_body snap newId now t p (computeTranscriptHash sha256 (normalizeTranscript txt))
          (normalizeTranscript txt) d = Inr (v, snd (sv_create sha256 fault snap newId now t p txt d))
        \<and> normalizeTranscript txt \<noteq> [])"
  by (auto simp: sv_create_def Let_def checked_def transaction_def split: sum.splits prod.splits
      option.splits if_splits)

lemma sv_create_inv:
  assumes inv: "sv_inv sha256 d" and snap: "sv_inv sha256 snap"
  shows "sv_inv sha256 (snd (sv_create sha256 fault snap newId now t p txt d))"
proof (cases "snd (sv_create sha256 fault snap newId now t p txt d) = d")
  case True
  then show ?thesis using inv by simp
next
  case False
  let ?n = "normalizeTranscript txt"
  from False sv_create_state obtain v where
    b: "sv_create_body snap newId now t p (computeTranscriptHash sha256 ?n) ?n d
        = Inr (v, snd (sv_create sha256 fault snap newId now t p txt d))" and ne: "?n \<noteq> []"
    by metis
  from sv_create_body_cases [OF b] False have
    d': "snd (sv_create sha256 fault snap newId now t p txt d) = d\<lparr>sourceVersions := sourceVersions d @ [v]\<rparr>"
    and nc: "\<not> sv_conflict v (sourceVersions d)" and h: "sv_contentHash v = computeTranscriptHash sha256 ?n"
    and tx: "sv_transcriptText v = ?n" and num: "sv_versionNumber v = sv_next_number t p snap"
    by auto
  have "1 \<le> sv_next_number t p snap"
    using snap sv_next_number_pos by (auto simp: sv_inv_def)
  then have "sv_row_ok sha256 v"
    using h tx num ne by (simp add: sv_row_ok_def computeTranscriptHash_def normalize_idem)
  then show ?thesis using sv_inv_insert [OF inv nc] d' by simp
qed

text \<open>Nothing is ever changed or removed: the old table is a prefix of the new one.\<close>

lemma sv_create_immutable:
  "\<exists>vs. sourceVersions (snd (sv_create sha256 fault snap newId now t p txt d)) = sourceVersions d @ vs
      \<and> length vs \<le> 1"
proof -
  consider "snd (sv_create sha256 fault snap newId now t p txt d) = d"
    | v where "snd (sv_create sha256 fault snap newId now t p txt d) = d\<lparr>sourceVersions := sourceVersions d @ [v]\<rparr>"
    using sv_create_state sv_create_body_cases by metis
  then show ?thesis by cases auto
qed

text \<open>
  Without interference (\<open>snap = d\<close>) and failure a creation returns the version with the
  hash of the text, whether new or stored, and a text with an equal normal form returns the
  stored one.
\<close>

lemma order_first_max:
  assumes "order_first (\<lambda>r. - sv_versionNumber r) P rs = Some m" and "r \<in> set rs" and "P r"
  shows "sv_versionNumber r \<le> sv_versionNumber m"
  using order_first_Some(3) [OF assms] by simp

lemma sv_next_number_fresh:
  assumes "r \<in> set (sourceVersions d)" and "sv_scope r = (t, p)"
  shows "sv_versionNumber r < sv_next_number t p d"
proof -
  have p: "sv_tenantId r = t \<and> sv_projectId r = p" using assms(2) by (simp add: sv_scope_def)
  show ?thesis
  proof (cases "order_first (\<lambda>r. - sv_versionNumber r)
      (\<lambda>r. sv_tenantId r = t \<and> sv_projectId r = p) (sourceVersions d)")
    case None
    then show ?thesis using p assms(1) by (auto simp: order_first_None)
  next
    case (Some m)
    from order_first_max [OF this assms(1)] p show ?thesis by (simp add: sv_next_number_def Some)
  qed
qed

lemma sv_create_sequential:
  assumes ids: "isPrefixedId t ''tenant''" "isPrefixedId p ''project''"
    and ne: "normalizeTranscript txt \<noteq> []"
    and fresh: "newId \<notin> sv_id ` set (sourceVersions d)"
  obtains v d' where "sv_create sha256 False d newId now t p txt d = (Inr v, d')"
    and "v \<in> set (sourceVersions d')" and "sv_scope v = (t, p)"
    and "sv_contentHash v = computeTranscriptHash sha256 txt"
    and "d' = d \<or> d' = d\<lparr>sourceVersions := sourceVersions d @ [v]\<rparr>"
proof -
  let ?n = "normalizeTranscript txt"
  let ?h = "computeTranscriptHash sha256 ?n"
  have h: "?h = computeTranscriptHash sha256 txt"
    by (simp add: computeTranscriptHash_def normalize_idem)
  have "\<exists>v d'. sv_create_body d newId now t p ?h ?n d = Inr (v, d')"
  proof (cases "find_first (\<lambda>r. sv_tenantId r = t \<and> sv_projectId r = p \<and> sv_contentHash r = ?h)
      (sourceVersions d)")
    case None
    let ?v = "\<lparr>sv_id = newId, sv_tenantId = t, sv_projectId = p,
      sv_versionNumber = sv_next_number t p d, sv_contentHash = ?h, sv_transcriptText = ?n,
      sv_createdAt = now\<rparr>"
    have "\<not> sv_conflict ?v (sourceVersions d)"
      using None fresh sv_next_number_fresh
      by (fastforce simp: sv_conflict_def list_ex_iff find_first_None sv_scope_def)
    with None show ?thesis by (simp add: sv_create_body_def Let_def)
  qed (simp add: sv_create_body_def)
  then obtain v d' where b: "sv_create_body d newId now t p ?h ?n d = Inr (v, d')" by blast
  from b ids ne have "sv_create sha256 False d newId now t p txt d = (Inr v, d')"
    by (simp add: sv_create_def validateScopedIds_def Let_def)
  moreover from sv_create_body_cases [OF b] have "v \<in> set (sourceVersions d')"
    "sv_scope v = (t, p)" "sv_contentHash v = computeTranscriptHash sha256 txt"
    "d' = d \<or> d' = d\<lparr>sourceVersions := sourceVersions d @ [v]\<rparr>"
    by (auto simp: h)
  ultimately show thesis by (rule that)
qed

subsection \<open>The properties\<close>

inductive sv_run :: "(jstext \<Rightarrow> string) \<Rightarrow> db \<Rightarrow> db \<Rightarrow> bool" for sha256 where
  sv_none: "sv_run sha256 d d"
| sv_step: "sv_run sha256 d d' \<Longrightarrow> sv_inv sha256 snap
    \<Longrightarrow> sv_run sha256 d (snd (sv_create sha256 fault snap newId now t p txt d'))"

text \<open>
  C13: After any creations, whatever consistent database each one's selects read and whether
  or not a statement fails, source versions are consistent: identifiers are unique, version
  numbers and content hashes are unique within a project, numbers are positive, and every
  stored text is a non-empty normal form whose hash is the stored hash.
\<close>

theorem source_versions_consistent:
  assumes "sv_run sha256 empty_db d"
  shows "sv_inv sha256 d"
proof -
  have "sv_run sha256 e d \<Longrightarrow> sv_inv sha256 e \<Longrightarrow> sv_inv sha256 d" for e
    by (induction rule: sv_run.induct) (auto intro: sv_create_inv)
  then show ?thesis using assms sv_inv_empty by blast
qed

text \<open>
  versions are immutable.  A creation only ever adds at most one row behind the ones
  that are there; no stored version is changed or removed.
\<close>

theorem source_versions_immutable:
  "\<exists>vs. sourceVersions (snd (sv_create sha256 fault snap newId now t p txt d)) = sourceVersions d @ vs
      \<and> length vs \<le> 1"
  by (rule sv_create_immutable)

lemma sv_create_found:
  assumes "isPrefixedId t ''tenant''" "isPrefixedId p ''project''" and "normalizeTranscript txt \<noteq> []"
    and "find_first (\<lambda>r. sv_tenantId r = t \<and> sv_projectId r = p
        \<and> sv_contentHash r = computeTranscriptHash sha256 txt) (sourceVersions d) = Some v"
  shows "sv_create sha256 False d newId now t p txt d = (Inr v, d)"
proof -
  have "computeTranscriptHash sha256 (normalizeTranscript txt) = computeTranscriptHash sha256 txt"
    by (simp add: computeTranscriptHash_def normalize_idem)
  then show ?thesis using assms
    by (simp add: sv_create_def sv_create_body_def validateScopedIds_def)
qed

text \<open>
  Deduplication by content.  Without interference, submitting a transcript and then one
  with the same normal form returns the version created first and adds nothing.
\<close>

theorem source_versions_deduplicated:
  assumes inv: "sv_inv sha256 d" and ids: "isPrefixedId t ''tenant''" "isPrefixedId p ''project''"
    and ne: "normalizeTranscript txt \<noteq> []" and fresh: "newId \<notin> sv_id ` set (sourceVersions d)"
    and same: "normalizeTranscript txt' = normalizeTranscript txt"
  shows "\<exists>v d'. sv_create sha256 False d newId now t p txt d = (Inr v, d')
     \<and> sv_contentHash v = computeTranscriptHash sha256 txt
     \<and> sv_create sha256 False d' newId' now' t p txt' d' = (Inr v, d')"
proof -
  obtain v d' where c: "sv_create sha256 False d newId now t p txt d = (Inr v, d')"
    and v: "v \<in> set (sourceVersions d')" "sv_scope v = (t, p)"
      "sv_contentHash v = computeTranscriptHash sha256 txt"
    by (rule sv_create_sequential [OF ids ne fresh])
  have "sv_inv sha256 (snd (sv_create sha256 False d newId now t p txt d))"
    by (rule sv_create_inv [OF inv inv])
  then have "sv_inv sha256 d'" using c by simp
  then have di: "distinct (map (\<lambda>r. (sv_scope r, sv_contentHash r)) (sourceVersions d'))"
    by (simp add: sv_inv_def)
  have h: "computeTranscriptHash sha256 txt' = computeTranscriptHash sha256 txt"
    using same by (simp add: computeTranscriptHash_def)
  have "find_first (\<lambda>r. sv_tenantId r = t \<and> sv_projectId r = p
      \<and> sv_contentHash r = computeTranscriptHash sha256 txt') (sourceVersions d') = Some v"
    unfolding find_first_def h
    by (rule find_unique [OF di v(1)]) (use v in \<open>auto simp: sv_scope_def\<close>)
  from sv_create_found [OF ids _ this] ne same c v show ?thesis by auto
qed

definition example_digest :: "jstext \<Rightarrow> string" where
  "example_digest t = map (\<lambda>u. char_of (unat u)) t"

lemma source_versions_deduplicated_witness:
  "\<exists>v d'. sv_create example_digest False empty_db ''srcver_1'' 1 ''tenant_1'' ''project_1'' [104, 13, 10, 105]
       empty_db = (Inr v, d')
     \<and> sv_contentHash v = computeTranscriptHash example_digest [104, 13, 10, 105]
     \<and> sv_create example_digest False d' ''srcver_2'' 2 ''tenant_1'' ''project_1'' [32, 104, 13, 105, 9] d'
       = (Inr v, d')"
proof (rule source_versions_deduplicated [OF sv_inv_empty])
  show "isPrefixedId ''tenant_1'' ''tenant''" "isPrefixedId ''project_1'' ''project''"
    "normalizeTranscript [104, 13, 10, 105] \<noteq> []"
    "normalizeTranscript [32, 104, 13, 105, 9] = normalizeTranscript [104, 13, 10, 105]"
    by code_simp+
qed (simp add: empty_db_def)

lemma source_versions_consistent_witness:
  "sv_inv example_digest (snd (sv_create example_digest False empty_db ''srcver_1'' 1 ''tenant_1''
     ''project_1'' [104] empty_db))"
  by (rule source_versions_consistent [OF sv_step [OF sv_none sv_inv_empty]])

end
