(* ===== verification/ContentLifecycle.thy ===== *)
theory ContentLifecycle
  imports JobSource JobTable SourceVersions
begin

text \<open>
  The life of a content job under the operations the program runs on it: the API creates and
  cancels (\<open>drizzle-content-job-repository.ts\<close>), workers acquire, renew, advance, complete,
  retry and fail, and the recovery takes over stale jobs (\<open>database-job-source.ts\<close>).  Every
  operation, with whatever its selects read and whether or not a statement fails, is a step
  of the contract \<open>job_table\<close>.
\<close>

subsection \<open>The row invariant\<close>

definition content_key :: "content_row \<Rightarrow> string \<times> string" where
  "content_key r = (cr_tenantId r, cr_idempotencyKey r)"

definition content_lease_ok :: "content_row \<Rightarrow> bool" where
  "content_lease_ok r \<longleftrightarrow>
     (if cr_status r = CProcessing
      then cr_leaseOwner r \<noteq> None \<and> cr_leaseOwner r \<noteq> Some [] \<and> cr_leaseExpiresAt r \<noteq> None
           \<and> cr_heartbeatAt r \<noteq> None
      else cr_leaseOwner r = None \<and> cr_leaseExpiresAt r = None \<and> cr_heartbeatAt r = None)"

definition content_progress_ok :: "content_row \<Rightarrow> bool" where
  "content_progress_ok r \<longleftrightarrow>
     0 \<le> cr_attemptCount r
     \<and> (cr_status r = CQueued \<longrightarrow> cr_attemptCount r = 0 \<and> cr_startedAt r = None
          \<and> cr_nextAttemptAt r = None \<and> cr_errorCode r = None)
     \<and> (cr_status r \<in> {CProcessing, CRetrying, CCompleted, CFailed}
          \<longrightarrow> 1 \<le> cr_attemptCount r \<and> cr_startedAt r \<noteq> None)
     \<and> (cr_status r = CRetrying \<longrightarrow> cr_nextAttemptAt r \<noteq> None)
     \<and> (cr_completedAt r \<noteq> None \<longleftrightarrow> content_terminal (cr_status r))"

definition content_outcome_ok :: "result_schemas \<Rightarrow> content_row \<Rightarrow> bool" where
  "content_outcome_ok sch r \<longleftrightarrow>
     pred_option (transcriptProcessingResultSchema sch) (cr_result r)
     \<and> (cr_result r \<noteq> None \<longrightarrow> cr_status r = CCompleted)
     \<and> (cr_errorCode r = None \<longleftrightarrow> cr_errorMessage r = None)
     \<and> (cr_status r = CCompleted \<longrightarrow> cr_errorCode r = None)
     \<and> (cr_status r \<in> {CRetrying, CFailed} \<longrightarrow> cr_errorCode r \<noteq> None)"

definition content_row_ok :: "result_schemas \<Rightarrow> content_row \<Rightarrow> bool" where
  "content_row_ok sch r \<longleftrightarrow>
     content_lease_ok r \<and> content_progress_ok r \<and> content_outcome_ok sch r"

interpretation ctab: job_table isTransitionAllowed content_terminal cr_id content_key cr_status
  "content_row_ok sch" je_jobId je_priorStatus je_newStatus CQueued for sch
  by unfold_locales (simp add: content_terminal_def)

lemmas content_ok_defs =
  content_row_ok_def content_lease_ok_def content_progress_ok_def content_outcome_ok_def
  content_terminal_def

abbreviation content_tables :: "db \<Rightarrow> content_row list \<times> job_event list" where
  "content_tables d \<equiv> (contentJobs d, jobEvents d)"

text \<open>The tables no content-job operation writes.\<close>

definition other_tables :: "db \<Rightarrow> source_version list \<times> publish_row list \<times> publish_event list" where
  "other_tables d = (sourceVersions d, publishJobs d, publishJobEvents d)"

subsection \<open>Each operation is a step of the contract\<close>

lemma mapContentJob_Inr:
  "mapContentJob sch r = Inr j
     \<longleftrightarrow> pred_option (transcriptProcessingResultSchema sch) (cr_result r) \<and> j = content_job_of r"
  by (auto simp: mapContentJob_def)

lemma mapWorkerLeasedJob_Inr:
  assumes "mapWorkerLeasedJob sch r = Inr j"
  shows "cr_leaseOwner r \<noteq> None" "cr_leaseOwner r \<noteq> Some []" "cr_leaseExpiresAt r \<noteq> None"
    "cr_heartbeatAt r \<noteq> None" "pred_option (transcriptProcessingResultSchema sch) (cr_result r)"
  using assms
  by (auto simp: mapWorkerLeasedJob_def mapContentJob_def split: option.splits if_splits)

lemma content_commit_Inr:
  "content_commit sch jobs ev row d = Inr (j, d')
     \<longleftrightarrow> pred_option (transcriptProcessingResultSchema sch) (cr_result row)
        \<and> j = content_job_of row \<and> d' = d\<lparr>contentJobs := jobs, jobEvents := jobEvents d @ [ev]\<rparr>"
  by (auto simp: content_commit_def mapContentJob_def)

lemma map_sum_Inr: "map_sum id f s = Inr y \<longleftrightarrow> (\<exists>x. s = Inr x \<and> y = f x)"
  by (cases s) auto

lemma conformsI: "isTransitionAllowed s t \<Longrightarrow> cpol.conforms s t"
  by (simp add: cpol.conforms_def)

lemma allowed_moves:
  "isTransitionAllowed CQueued CProcessing" "isTransitionAllowed CRetrying CProcessing"
  "isTransitionAllowed CProcessing CCompleted" "isTransitionAllowed CProcessing CRetrying"
  "isTransitionAllowed CProcessing CFailed" "isTransitionAllowed CQueued CCancelled"
  "isTransitionAllowed CRetrying CCancelled"
  by (simp_all add: isTransitionAllowed_def)

lemma create_body_step:
  assumes b: "cj_create_body sch snap newId newCorr evtId now input key fp d = Inr (j, d')"
  shows "ctab.table_step sch (content_tables d) (content_tables d') \<and> other_tables d' = other_tables d"
proof -
  let ?new = "cj_new_row input key fp newId newCorr now"
  from b consider "d' = d"
    | ev where "\<not> cj_conflict ?new (contentJobs d)" "d' = d\<lparr>contentJobs := contentJobs d @ [?new],
        jobEvents := jobEvents d @ [ev]\<rparr>" "je_jobId ev = cr_id ?new" "je_priorStatus ev = None"
        "je_newStatus ev = Some CQueued"
    by (auto simp: cj_create_body_def Let_def content_commit_Inr map_sum_Inr cj_new_row_def
        split: option.splits sum.splits if_splits)
  then show ?thesis
  proof cases
    case 1
    then show ?thesis by (simp add: ctab.stay)
  next
    case 2
    then have "cr_id ?new \<notin> cr_id ` set (contentJobs d)"
      "content_key ?new \<notin> content_key ` set (contentJobs d)"
      by (auto simp: cj_conflict_def list_ex_iff content_key_def)
    moreover have "content_row_ok sch ?new"
      by (simp add: cj_new_row_def content_ok_defs)
    ultimately show ?thesis using 2
      by (auto simp: other_tables_def cj_new_row_def intro!: ctab.insert)
  qed
qed

text \<open>Every transactional operation: the old tables, or what its body made of them.\<close>

lemma op_step:
  assumes "\<And>a d'. body = Inr (a, d') \<Longrightarrow> ctab.table_step sch (content_tables d) (content_tables d')
      \<and> other_tables d' = other_tables d"
  shows "ctab.table_step sch (content_tables d) (content_tables (snd (transaction fault d body)))
      \<and> other_tables (snd (transaction fault d body)) = other_tables d"
  using transaction_snd [of fault d body] assms by (metis ctab.stay)

definition content_op_ok :: "result_schemas \<Rightarrow> db \<Rightarrow> db \<Rightarrow> bool" where
  "content_op_ok sch d d' \<longleftrightarrow>
     ctab.table_step sch (content_tables d) (content_tables d') \<and> other_tables d' = other_tables d"

lemma content_op_refl [simp]: "content_op_ok sch d d"
  by (simp add: content_op_ok_def ctab.stay)

lemma transaction_op_ok:
  "(\<And>a d'. body = Inr (a, d') \<Longrightarrow> content_op_ok sch d d')
     \<Longrightarrow> content_op_ok sch d (snd (or_unavailable m (transaction fault d body)))"
  using op_step [of body sch d fault] by (simp add: content_op_ok_def)

lemma create_op_ok:
  "content_op_ok sch d
     (snd (cj_createOrGetIdempotent sha256 collate sch fault snap newId newCorr evtId now input d))"
proof (cases "cj_validate_create input")
  case (Inr key)
  let ?body = "cj_create_body sch snap newId newCorr evtId now input key
    (computeRequestFingerprint sha256 collate (cj_fingerprint_input input)) d"
  have "snd (cj_createOrGetIdempotent sha256 collate sch fault snap newId newCorr evtId now input d)
      = snd (transaction fault d ?body)"
    by (auto simp: cj_createOrGetIdempotent_def Inr Let_def split: prod.splits sum.splits option.splits)
  then show ?thesis using op_step [of ?body sch d fault] create_body_step
    by (auto simp: content_op_ok_def)
qed (simp add: cj_createOrGetIdempotent_def)

definition transition_event :: "string \<Rightarrow> time \<Rightarrow> transition_params \<Rightarrow> content_status \<Rightarrow> job_event" where
  "transition_event evtId now params s =
     \<lparr>je_id = evtId, je_tenantId = tp_tenantId params, je_jobId = tp_jobId params,
      je_eventType = tp_eventType params, je_priorStatus = Some s,
      je_newStatus = Some (tp_targetStatus params), je_details = tp_details params, je_createdAt = now\<rparr>"

lemma transition_body_Inr:
  assumes "cj_transition_body sch snap evtId now params d = Inr (j, d')"
  obtains row u jobs where
    "row \<in> set (contentJobs snap)" "isTransitionAllowed (cr_status row) (tp_targetStatus params)"
    "update_returning (\<lambda>r. cr_id r = tp_jobId params \<and> cr_tenantId r = tp_tenantId params
        \<and> cr_status r = cr_status row)
       (\<lambda>r. (tp_setValues params r)\<lparr>cr_status := tp_targetStatus params,
              cr_currentStage := tp_targetStage params, cr_updatedAt := now\<rparr>) (contentJobs d) = (Some u, jobs)"
    "pred_option (transcriptProcessingResultSchema sch) (cr_result u)"
    "d' = d\<lparr>contentJobs := jobs,
       jobEvents := jobEvents d @ [transition_event evtId now params (cr_status row)]\<rparr>"
proof -
  from assms obtain row where row: "find_first (\<lambda>r. cr_id r = tp_jobId params \<and> cr_tenantId r = tp_tenantId params)
      (contentJobs snap) = Some row" and al: "isTransitionAllowed (cr_status row) (tp_targetStatus params)"
    by (auto simp: cj_transition_body_def mapContentJob_Inr content_job_of_def
        split: option.splits sum.splits)
  have [simp]: "cj_status (content_job_of row) = cr_status row" by (simp add: content_job_of_def)
  from assms row al show thesis
    by (auto simp: cj_transition_body_def mapContentJob_Inr content_commit_Inr transition_event_def
        split: option.splits sum.splits prod.splits dest: find_first_Some intro: that)
qed

lemma transition_body_ok:
  assumes ok: "ctab.rows_ok sch (contentJobs d)"
    and b: "cj_transition_body sch snap evtId now params d = Inr (j, d')"
    and new_def: "new = (\<lambda>r. (tp_setValues params r)\<lparr>cr_status := tp_targetStatus params,
              cr_currentStage := tp_targetStage params, cr_updatedAt := now\<rparr>)"
    and keep: "\<And>r. isTransitionAllowed (cr_status r) (tp_targetStatus params) \<Longrightarrow> ctab.keeps sch new r"
  shows "content_op_ok sch d d'"
proof (rule transition_body_Inr [OF b])
  fix row u jobs
  assume al: "isTransitionAllowed (cr_status row) (tp_targetStatus params)"
    and up: "update_returning (\<lambda>r. cr_id r = tp_jobId params \<and> cr_tenantId r = tp_tenantId params
        \<and> cr_status r = cr_status row)
       (\<lambda>r. (tp_setValues params r)\<lparr>cr_status := tp_targetStatus params,
              cr_currentStage := tp_targetStage params, cr_updatedAt := now\<rparr>) (contentJobs d) = (Some u, jobs)"
    and d': "d' = d\<lparr>contentJobs := jobs,
       jobEvents := jobEvents d @ [transition_event evtId now params (cr_status row)]\<rparr>"
  have "ctab.table_step sch (contentJobs d, jobEvents d)
      (jobs, jobEvents d @ [transition_event evtId now params (cr_status row)])"
    by (rule ctab.update_move [OF ok up [folded new_def], where i = "tp_jobId params"
          and a = "cr_status row" and b = "tp_targetStatus params"])
      (use al keep in \<open>auto simp: transition_event_def new_def\<close>)
  then show ?thesis by (simp add: content_op_ok_def d' other_tables_def)
qed

lemma live_content_status:
  "isTransitionAllowed s CCancelled \<longleftrightarrow> s = CQueued \<or> s = CRetrying"
  by (cases s) (auto simp: isTransitionAllowed_def)

lemma js_lease_ok:
  assumes "content_row_ok sch r" and "cr_status r \<in> {CQueued, CRetrying}" and "workerId \<noteq> []"
  shows "content_row_ok sch (js_lease workerId lease now r)"
  using assms by (cases "cr_status r"; cases "cr_errorCode r") (simp_all add: content_ok_defs js_lease_def)

lemma cancel_row_ok:
  assumes "content_row_ok sch r" and "cr_status r = CQueued \<or> cr_status r = CRetrying"
  shows "content_row_ok sch (r\<lparr>cr_completedAt := Some now, cr_result := None, cr_status := CCancelled,
      cr_currentStage := CSFailed, cr_updatedAt := now\<rparr>)"
  using assms by (cases "cr_status r"; cases "cr_errorCode r") (simp_all add: content_ok_defs)

lemma renew_row_ok:
  assumes "content_row_ok sch r" and "cr_status r = CProcessing"
  shows "content_row_ok sch (r\<lparr>cr_leaseExpiresAt := Some u, cr_heartbeatAt := Some now, cr_updatedAt := now\<rparr>)"
  using assms by (simp add: content_ok_defs)

lemma stage_row_ok:
  "content_row_ok sch (r\<lparr>cr_currentStage := stage, cr_updatedAt := now\<rparr>) \<longleftrightarrow> content_row_ok sch r"
  by (simp add: content_ok_defs)

lemma checked_op_ok:
  "(\<And>b. c = Inr b \<Longrightarrow> content_op_ok sch d (snd (k b))) \<Longrightarrow> content_op_ok sch d (snd (checked c d k))"
  by (cases c) simp_all

lemma transition_op_ok:
  assumes ok: "ctab.rows_ok sch (contentJobs d)"
    and keep: "\<And>r. isTransitionAllowed (cr_status r) (tp_targetStatus params)
       \<Longrightarrow> ctab.keeps sch (\<lambda>r. (tp_setValues params r)\<lparr>cr_status := tp_targetStatus params,
              cr_currentStage := tp_targetStage params, cr_updatedAt := now\<rparr>) r"
  shows "content_op_ok sch d (snd (cj_transitionWithEvent sch fault snap evtId now params d))"
  unfolding cj_transitionWithEvent_def
proof (rule checked_op_ok, rule transaction_op_ok)
  show "content_op_ok sch d d'"
    if "cj_transition_body sch snap evtId now params d = Inr (j, d')" for j d'
    using transition_body_ok [OF ok that refl] keep by blast
qed

lemma cancel_op_ok:
  assumes ok: "ctab.rows_ok sch (contentJobs d)"
  shows "content_op_ok sch d (snd (cj_cancel sch fault snap evtId now tenantId jobId d))"
  unfolding cj_cancel_def
  by (rule transition_op_ok [OF ok])
    (simp add: ctab.keeps_def content_key_def cpol.conforms_def live_content_status cancel_row_ok)

lemma acquire_op_ok:
  assumes ok: "ctab.rows_ok sch (contentJobs d)"
  shows "content_op_ok sch d (snd (js_acquireNext sch fault locked snap evtId workerId lease now d))"
  unfolding js_acquireNext_def
proof (rule transaction_op_ok)
  fix a d'
  assume b: "js_acquire_body sch locked snap evtId workerId lease now d = Inr (a, d')"
  show "content_op_ok sch d d'"
  proof (cases "d' = d")
    case False
    with b obtain c u jobs ev where
      c: "js_candidate locked now snap = Some c"
      and up: "update_returning (\<lambda>r. cr_id r = cr_id c \<and> cr_status r = cr_status c)
        (js_lease workerId lease now) (contentJobs d) = (Some u, jobs)"
      and m: "mapWorkerLeasedJob sch u \<in> range Inr"
      and d': "d' = d\<lparr>contentJobs := jobs, jobEvents := jobEvents d @ [ev]\<rparr>"
      and ev: "je_jobId ev = cr_id u" "je_priorStatus ev = Some (cr_status c)"
        "je_newStatus ev = Some CProcessing"
      by (auto simp: js_acquire_body_def map_sum_Inr js_event_def split: option.splits prod.splits)
    from c have "js_due now c" unfolding js_candidate_def by (auto dest: order_first_Some(2))
    then have st: "cr_status c \<in> {CQueued, CRetrying}" by (auto simp: js_due_def)
    from update_returning_Some(1) [OF up] have id: "cr_id u = cr_id c" by (auto simp: js_lease_def)
    from m have "cr_leaseOwner u \<noteq> Some []" "pred_option (transcriptProcessingResultSchema sch) (cr_result u)"
      by (auto dest: mapWorkerLeasedJob_Inr)
    moreover from update_returning_Some(1) [OF up] have "cr_leaseOwner u = Some workerId"
      by (auto simp: js_lease_def)
    ultimately have keep: "ctab.keeps sch (js_lease workerId lease now) r"
      if "cr_status r = cr_status c" "u = js_lease workerId lease now r" for r
      using that st js_lease_ok [of sch r workerId lease now]
      by (auto simp: ctab.keeps_def js_lease_def content_key_def allowed_moves conformsI)
    have "ctab.table_step sch (contentJobs d, jobEvents d) (jobs, jobEvents d @ [ev])"
    proof (rule ctab.update_move [OF ok up _ _ ev(1)[unfolded id] ev(2,3)])
      show "cr_status r = cr_status c \<and> ctab.keeps sch (js_lease workerId lease now) r
          \<and> cr_status (js_lease workerId lease now r) = CProcessing"
        if "cr_id r = cr_id c \<and> cr_status r = cr_status c" "u = js_lease workerId lease now r" for r
        using that keep by (simp add: js_lease_def)
    qed simp
    then show ?thesis by (simp add: content_op_ok_def d' other_tables_def)
  qed simp
qed

lemma renew_op_ok: "content_op_ok sch d (snd (js_renewLease sch fault tenantId jobId workerId lease now d))"
proof -
  have "ctab.table_step sch (contentJobs d, jobEvents d) (jobs, jobEvents d)"
    if "update_returning (js_held tenantId jobId workerId now)
      (\<lambda>r. r\<lparr>cr_leaseExpiresAt := Some (now + lease), cr_heartbeatAt := Some now, cr_updatedAt := now\<rparr>)
      (contentJobs d) = (u, jobs)" for u jobs
    by (rule ctab.update_touch [OF that])
      (auto simp: ctab.keeps_def content_key_def cpol.conforms_refl js_held_def renew_row_ok)
  then show ?thesis
    by (auto simp: js_renewLease_def content_op_ok_def other_tables_def ctab.stay split: option.splits prod.splits)
qed

lemma stage_op_ok: "content_op_ok sch d (snd (js_markStage sch fault tenantId jobId workerId stage now d))"
proof -
  have "ctab.table_step sch (contentJobs d, jobEvents d) (jobs, jobEvents d)"
    if "update_returning (js_held tenantId jobId workerId now)
      (\<lambda>r. r\<lparr>cr_currentStage := stage, cr_updatedAt := now\<rparr>) (contentJobs d) = (u, jobs)" for u jobs
    by (rule ctab.update_touch [OF that])
      (auto simp: ctab.keeps_def content_key_def cpol.conforms_refl stage_row_ok)
  then show ?thesis
    by (auto simp: js_markStage_def content_op_ok_def other_tables_def ctab.stay split: option.splits prod.splits)
qed

lemma finish_body_ok:
  assumes ok: "ctab.rows_ok sch (contentJobs d)"
    and b: "js_finish_body sch tenantId jobId workerId now upd event d = Inr (a, d')"
    and upd: "\<And>r. js_held tenantId jobId workerId now r \<Longrightarrow> content_row_ok sch r
        \<Longrightarrow> pred_option (transcriptProcessingResultSchema sch) (cr_result (upd r))
        \<Longrightarrow> content_row_ok sch (upd r) \<and> cr_id (upd r) = cr_id r \<and> content_key (upd r) = content_key r
          \<and> cr_status (upd r) = t"
    and al: "isTransitionAllowed CProcessing t"
    and ev: "\<And>u. je_jobId (event u) = jobId \<and> je_priorStatus (event u) = Some CProcessing
        \<and> je_newStatus (event u) = Some t"
  shows "content_op_ok sch d d'"
proof (cases "d' = d")
  case False
  with b obtain u jobs where
    up: "update_returning (js_held tenantId jobId workerId now) upd (contentJobs d) = (Some u, jobs)"
    and d': "d' = d\<lparr>contentJobs := jobs, jobEvents := jobEvents d @ [event u]\<rparr>"
    and p: "pred_option (transcriptProcessingResultSchema sch) (cr_result u)"
    by (auto simp: js_finish_body_def content_commit_Inr map_sum_Inr split: option.splits prod.splits)
  have rok: "content_row_ok sch r" if "r \<in> set (contentJobs d)" for r
    using ok that by (auto simp: ctab.rows_ok_def list_all_iff)
  have "ctab.table_step sch (contentJobs d, jobEvents d) (jobs, jobEvents d @ [event u])"
  proof (rule ctab.update_move [OF ok up])
    fix r
    assume r: "r \<in> set (contentJobs d)" "js_held tenantId jobId workerId now r" "u = upd r"
    from upd [OF r(2) rok [OF r(1)]] p r(3) have "content_row_ok sch (upd r) \<and> cr_id (upd r) = cr_id r
      \<and> content_key (upd r) = content_key r \<and> cr_status (upd r) = t" by simp
    moreover have "cr_status r = CProcessing" using r(2) by (simp add: js_held_def)
    ultimately show "cr_status r = CProcessing \<and> ctab.keeps sch upd r \<and> cr_status (upd r) = t"
      using al by (simp add: ctab.keeps_def conformsI)
  qed (use ev in \<open>auto simp: js_held_def\<close>)
  then show ?thesis by (simp add: content_op_ok_def d' other_tables_def)
qed simp

lemma completed_row_ok:
  assumes "content_row_ok sch r" and "cr_status r = CProcessing"
    and "pred_option (transcriptProcessingResultSchema sch) result"
  shows "content_row_ok sch (js_set_completed result now r)"
  using assms by (simp add: content_ok_defs js_set_completed_def)

lemma retrying_row_ok:
  assumes "content_row_ok sch r" and "cr_status r = CProcessing"
  shows "content_row_ok sch (js_set_retrying code msg next now r)"
  using assms by (simp add: content_ok_defs js_set_retrying_def)

lemma failed_row_ok:
  assumes "content_row_ok sch r" and "cr_status r = CProcessing"
  shows "content_row_ok sch (js_set_failed code msg now r)"
  using assms by (simp add: content_ok_defs js_set_failed_def)

lemma recovered_row_ok:
  assumes "content_row_ok sch r" and "cr_status r = CProcessing"
  shows "content_row_ok sch (js_set_recovered exhausted next now r)"
  using assms by (simp add: content_ok_defs js_set_recovered_def)

lemma js_set_simps [simp]:
  "cr_id (js_set_completed res now r) = cr_id r" "content_key (js_set_completed res now r) = content_key r"
  "cr_status (js_set_completed res now r) = CCompleted" "cr_result (js_set_completed res now r) = res"
  "cr_id (js_set_retrying c m t now r) = cr_id r" "content_key (js_set_retrying c m t now r) = content_key r"
  "cr_status (js_set_retrying c m t now r) = CRetrying"
  "cr_id (js_set_failed c m now r) = cr_id r" "content_key (js_set_failed c m now r) = content_key r"
  "cr_status (js_set_failed c m now r) = CFailed"
  "cr_id (js_set_recovered x t now r) = cr_id r" "content_key (js_set_recovered x t now r) = content_key r"
  "cr_status (js_set_recovered x t now r) = (if x then CFailed else CRetrying)"
  by (simp_all add: js_set_completed_def js_set_retrying_def js_set_failed_def js_set_recovered_def
      content_key_def)

lemma js_event_simps [simp]:
  "je_jobId (js_event i ty a b ds now t j) = j" "je_priorStatus (js_event i ty a b ds now t j) = Some a"
  "je_newStatus (js_event i ty a b ds now t j) = Some b"
  by (simp_all add: js_event_def)

lemma js_held_processing [dest]: "js_held t j w now r \<Longrightarrow> cr_status r = CProcessing"
  by (simp add: js_held_def)

lemma complete_op_ok:
  assumes ok: "ctab.rows_ok sch (contentJobs d)"
  shows "content_op_ok sch d (snd (js_markCompleted sch fault evtId tenantId jobId workerId result now d))"
  unfolding js_markCompleted_def
  by (rule transaction_op_ok, erule finish_body_ok [OF ok, where t = CCompleted])
    (auto simp: completed_row_ok allowed_moves)

lemma retry_op_ok:
  assumes ok: "ctab.rows_ok sch (contentJobs d)"
  shows "content_op_ok sch d
    (snd (js_scheduleRetry sch fault evtId tenantId jobId workerId code msg next now d))"
  unfolding js_scheduleRetry_def
  by (rule transaction_op_ok, erule finish_body_ok [OF ok, where t = CRetrying])
    (auto simp: retrying_row_ok allowed_moves)

lemma fail_op_ok:
  assumes ok: "ctab.rows_ok sch (contentJobs d)"
  shows "content_op_ok sch d (snd (js_markFailed sch fault evtId tenantId jobId workerId code msg now d))"
  unfolding js_markFailed_def
  by (rule transaction_op_ok, erule finish_body_ok [OF ok, where t = CFailed])
    (auto simp: failed_row_ok allowed_moves)

lemma recover_op_ok:
  assumes ok: "ctab.rows_ok sch (contentJobs d)"
  shows "content_op_ok sch d
    (snd (js_recoverStaleJob sch fault snap evtId tenantId jobId maxAttempts next now d))"
  unfolding js_recoverStaleJob_def
proof (rule transaction_op_ok)
  fix a d'
  assume b: "js_recover_body sch snap evtId tenantId jobId maxAttempts next now d = Inr (a, d')"
  let ?g = "\<lambda>r. cr_id r = jobId \<and> cr_tenantId r = tenantId \<and> js_stale now r"
  show "content_op_ok sch d d'"
  proof (cases "d' = d")
    case False
    with b obtain x u jobs ev where
      up: "update_returning ?g (js_set_recovered x next now) (contentJobs d) = (Some u, jobs)"
      and d': "d' = d\<lparr>contentJobs := jobs, jobEvents := jobEvents d @ [ev]\<rparr>"
      and ev: "je_jobId ev = jobId" "je_priorStatus ev = Some CProcessing"
        "je_newStatus ev = Some (if x then CFailed else CRetrying)"
      by (auto simp: js_recover_body_def Let_def content_commit_Inr map_sum_Inr
          split: option.splits prod.splits)
    have "ctab.table_step sch (contentJobs d, jobEvents d) (jobs, jobEvents d @ [ev])"
    proof (rule ctab.update_move [OF ok up _ _ ev])
      show "cr_status r = CProcessing \<and> ctab.keeps sch (js_set_recovered x next now) r
          \<and> cr_status (js_set_recovered x next now r) = (if x then CFailed else CRetrying)"
        if "?g r" for r
        using that by (auto simp: ctab.keeps_def js_stale_def conformsI allowed_moves recovered_row_ok)
    qed simp
    then show ?thesis by (simp add: content_op_ok_def d' other_tables_def)
  qed simp
qed

subsection \<open>Runs\<close>

text \<open>
  One operation of the program: the actor is the worker whose operation it is, \<open>None\<close> for
  the API and the recovery.  \<open>elsewhere\<close> is an operation on the other tables.
\<close>

inductive content_step ::
  "(string \<Rightarrow> string) \<Rightarrow> (string \<Rightarrow> 'k::linorder) \<Rightarrow> result_schemas \<Rightarrow> string option \<Rightarrow> time \<Rightarrow> db \<Rightarrow> db \<Rightarrow> bool"
  for sha256 collate sch where
  create: "content_step sha256 collate sch None now d
     (snd (cj_createOrGetIdempotent sha256 collate sch fault snap newId newCorr evtId now input d))"
| cancel: "content_step sha256 collate sch None now d
     (snd (cj_cancel sch fault snap evtId now tenantId jobId d))"
| acquire: "content_step sha256 collate sch (Some w) now d
     (snd (js_acquireNext sch fault locked snap evtId w lease now d))"
| renew: "content_step sha256 collate sch (Some w) now d
     (snd (js_renewLease sch fault tenantId jobId w lease now d))"
| stage: "content_step sha256 collate sch (Some w) now d
     (snd (js_markStage sch fault tenantId jobId w stg now d))"
| complete: "content_step sha256 collate sch (Some w) now d
     (snd (js_markCompleted sch fault evtId tenantId jobId w result now d))"
| retry: "content_step sha256 collate sch (Some w) now d
     (snd (js_scheduleRetry sch fault evtId tenantId jobId w code msg next now d))"
| fail: "content_step sha256 collate sch (Some w) now d
     (snd (js_markFailed sch fault evtId tenantId jobId w code msg now d))"
| recover: "content_step sha256 collate sch None now d
     (snd (js_recoverStaleJob sch fault snap evtId tenantId jobId maxAttempts next now d))"
| elsewhere: "content_tables d' = content_tables d \<Longrightarrow> content_step sha256 collate sch a now d d'"

inductive content_run ::
  "(string \<Rightarrow> string) \<Rightarrow> (string \<Rightarrow> 'k::linorder) \<Rightarrow> result_schemas \<Rightarrow> db \<Rightarrow> db \<Rightarrow> bool"
  for sha256 collate sch where
  run_none: "content_run sha256 collate sch d d"
| run_step: "content_run sha256 collate sch d d' \<Longrightarrow> content_step sha256 collate sch a now d' d''
    \<Longrightarrow> content_run sha256 collate sch d d''"

definition content_inv :: "result_schemas \<Rightarrow> db \<Rightarrow> bool" where
  "content_inv sch d \<longleftrightarrow>
     distinct (map cr_id (contentJobs d)) \<and> distinct (map content_key (contentJobs d))
     \<and> list_all (content_row_ok sch) (contentJobs d)"

lemma rows_ok_inv: "ctab.rows_ok sch (contentJobs d) \<longleftrightarrow> content_inv sch d"
  by (simp add: ctab.rows_ok_def content_inv_def)

lemma content_step_table:
  assumes "content_step sha256 collate sch a now d d'" and "content_inv sch d"
  shows "ctab.table_step sch (content_tables d) (content_tables d')"
proof -
  have ok: "ctab.rows_ok sch (contentJobs d)" using assms(2) by (simp add: rows_ok_inv)
  have "content_op_ok sch d d' \<or> content_tables d' = content_tables d"
    using assms(1)
    by (cases rule: content_step.cases)
      (simp_all add: create_op_ok cancel_op_ok [OF ok] acquire_op_ok [OF ok] renew_op_ok stage_op_ok
        complete_op_ok [OF ok] retry_op_ok [OF ok] fail_op_ok [OF ok] recover_op_ok [OF ok])
  then show ?thesis using ctab.stay by (auto simp: content_op_ok_def)
qed

lemma content_step_inv:
  assumes "content_step sha256 collate sch a now d d'" and "content_inv sch d"
  shows "content_inv sch d'"
  using ctab.row_step_ok [OF ctab.table_step_rows [OF content_step_table [OF assms]]] assms(2)
  by (simp add: rows_ok_inv)

lemma content_run_table:
  assumes "content_run sha256 collate sch d d'" and "content_inv sch d"
  shows "content_inv sch d' \<and> (ctab.table_step sch)\<^sup>*\<^sup>* (content_tables d) (content_tables d')"
  using assms
proof (induction rule: content_run.induct)
  case (run_step d d' a now d'')
  then show ?case using content_step_table content_step_inv
    by (metis rtranclp.rtrancl_into_rtrancl)
qed simp

subsection \<open>Who may change a row\<close>

text \<open>
  A row changes only when it waits for a worker, when its own worker acts within the lease,
  or when the lease has run out.
\<close>

definition content_open_to :: "string option \<Rightarrow> time \<Rightarrow> content_row \<Rightarrow> bool" where
  "content_open_to a now r \<longleftrightarrow>
     cr_status r = CQueued \<or> cr_status r = CRetrying
     \<or> (\<exists>w. a = Some w \<and> js_held (cr_tenantId r) (cr_id r) w now r)
     \<or> js_stale now r"

definition content_untouched :: "string option \<Rightarrow> time \<Rightarrow> db \<Rightarrow> db \<Rightarrow> bool" where
  "content_untouched a now d d' \<longleftrightarrow>
     (\<forall>r \<in> set (contentJobs d). \<not> content_open_to a now r \<longrightarrow> r \<in> set (contentJobs d'))"

lemma untouched_refl [simp]: "content_untouched a now d d"
  by (simp add: content_untouched_def)

lemma untouched_append: "contentJobs d' = contentJobs d @ rs \<Longrightarrow> content_untouched a now d d'"
  by (simp add: content_untouched_def)

lemma untouched_update:
  assumes "update_returning p f (contentJobs d) = (u, jobs)" and "contentJobs d' = jobs"
    and "\<And>r. p r \<Longrightarrow> content_open_to a now r"
  shows "content_untouched a now d d'"
proof -
  have "r \<in> set jobs" if "r \<in> set (contentJobs d)" "\<not> content_open_to a now r" for r
    using that assms(1,3) set_update_where [of r p f "contentJobs d"]
    by (auto simp: update_returning_def intro!: bexI [of _ r])
  then show ?thesis using assms(2) by (simp add: content_untouched_def)
qed

lemma transaction_untouched:
  "(\<And>x d'. body = Inr (x, d') \<Longrightarrow> content_untouched a now d d')
     \<Longrightarrow> content_untouched a now d (snd (or_unavailable m (transaction fault d body)))"
  using transaction_snd [of fault d body] by (metis or_unavailable_state untouched_refl)

lemma held_open: "js_held t j w now r \<Longrightarrow> content_open_to (Some w) now r"
  by (auto simp: content_open_to_def js_held_def)

lemma create_untouched:
  "content_untouched a now d
     (snd (cj_createOrGetIdempotent sha256 collate sch fault snap newId newCorr evtId now' input d))"
proof (cases "cj_validate_create input")
  case (Inr key)
  let ?body = "cj_create_body sch snap newId newCorr evtId now' input key
    (computeRequestFingerprint sha256 collate (cj_fingerprint_input input)) d"
  have "snd (cj_createOrGetIdempotent sha256 collate sch fault snap newId newCorr evtId now' input d)
      = snd (transaction fault d ?body)"
    by (auto simp: cj_createOrGetIdempotent_def Inr Let_def split: prod.splits sum.splits option.splits)
  moreover have "content_untouched a now d d'" if "?body = Inr (j, d')" for j d'
    using that by (auto simp: cj_create_body_def Let_def content_commit_Inr map_sum_Inr
        split: option.splits sum.splits if_splits intro: untouched_append)
  ultimately show ?thesis using transaction_snd [of fault d ?body] by (metis untouched_refl)
qed (simp add: cj_createOrGetIdempotent_def)

lemma cancel_untouched:
  "content_untouched a now d (snd (cj_cancel sch fault snap evtId now' tenantId jobId d))"
proof -
  have "content_untouched a now d (snd (cj_transitionWithEvent sch fault snap evtId now' params d))"
    if t: "tp_targetStatus params = CCancelled" for params
  proof (cases "validateTenantAndJobIds (tp_tenantId params) (tp_jobId params)")
    case (Inr u)
    have "content_untouched a now d d'"
      if b: "cj_transition_body sch snap evtId now' params d = Inr (j, d')" for j d'
    proof (rule transition_body_Inr [OF b], rule untouched_update)
      fix row r :: content_row
      assume "isTransitionAllowed (cr_status row) (tp_targetStatus params)"
        and "cr_id r = tp_jobId params \<and> cr_tenantId r = tp_tenantId params \<and> cr_status r = cr_status row"
      then show "content_open_to a now r" by (auto simp: t live_content_status content_open_to_def)
    qed auto
    then show ?thesis by (simp add: cj_transitionWithEvent_def Inr transaction_untouched [unfolded or_unavailable_state])
  qed (simp add: cj_transitionWithEvent_def)
  then show ?thesis by (simp add: cj_cancel_def)
qed

lemma acquire_untouched:
  "content_untouched a now d (snd (js_acquireNext sch fault locked snap evtId workerId lease now' d))"
  unfolding js_acquireNext_def
proof (rule transaction_untouched)
  fix x d'
  assume b: "js_acquire_body sch locked snap evtId workerId lease now' d = Inr (x, d')"
  then show "content_untouched a now d d'"
  proof (cases "d' = d")
    case False
    with b obtain c u jobs where
      c: "js_candidate locked now' snap = Some c"
      and up: "update_returning (\<lambda>r. cr_id r = cr_id c \<and> cr_status r = cr_status c)
        (js_lease workerId lease now') (contentJobs d) = (Some u, jobs)"
      and d': "contentJobs d' = jobs"
      by (auto simp: js_acquire_body_def map_sum_Inr split: option.splits prod.splits)
    from c have "js_due now' c" unfolding js_candidate_def by (auto dest: order_first_Some(2))
    then show ?thesis
      by (intro untouched_update [OF up d']) (auto simp: js_due_def content_open_to_def)
  qed simp
qed

lemma finish_untouched:
  assumes "js_finish_body sch tenantId jobId w now upd event d = Inr (x, d')"
  shows "content_untouched (Some w) now d d'"
  using assms
  by (auto simp: js_finish_body_def content_commit_Inr map_sum_Inr split: option.splits prod.splits
      elim!: untouched_update dest: held_open)

lemma content_step_untouched:
  assumes "content_step sha256 collate sch a now d d'"
  shows "content_untouched a now d d'"
  using assms
proof (cases rule: content_step.cases)
  case (renew w fault tenantId jobId lease)
  then show ?thesis
    by (auto simp: js_renewLease_def split: option.splits prod.splits
        elim!: untouched_update dest: held_open)
next
  case (stage w fault tenantId jobId stg)
  then show ?thesis
    by (auto simp: js_markStage_def split: option.splits prod.splits
        elim!: untouched_update dest: held_open)
next
  case (recover fault snap evtId tenantId jobId maxAttempts "next")
  have "content_untouched a now d e"
    if "js_recover_body sch snap evtId tenantId jobId maxAttempts next now d = Inr (x, e)" for x e
    using that
    by (auto simp: js_recover_body_def Let_def content_commit_Inr map_sum_Inr
        split: option.splits prod.splits if_splits elim!: untouched_update simp: content_open_to_def)
  then show ?thesis unfolding recover js_recoverStaleJob_def by (rule transaction_untouched)
next
  case elsewhere
  then show ?thesis by (simp add: content_untouched_def)
qed (simp_all add: create_untouched cancel_untouched acquire_untouched js_markCompleted_def
    js_scheduleRetry_def js_markFailed_def transaction_untouched [unfolded or_unavailable_state]
    finish_untouched)

subsection \<open>Leases\<close>

definition content_held :: "db \<Rightarrow> string \<Rightarrow> string \<Rightarrow> time \<Rightarrow> bool" where
  "content_held d jobId w until \<longleftrightarrow>
     (\<exists>r \<in> set (contentJobs d). cr_id r = jobId \<and> cr_status r = CProcessing
        \<and> cr_leaseOwner r = Some w \<and> cr_leaseExpiresAt r = Some until)"

lemma content_sole_holder:
  "content_inv sch d \<Longrightarrow> content_held d j w u \<Longrightarrow> content_held d j w' u' \<Longrightarrow> w = w' \<and> u = u'"
  unfolding content_held_def content_inv_def by (metis option.inject unique_key_eq)

lemma content_undisturbed:
  assumes st: "content_step sha256 collate sch a now d d'" and h: "content_held d j w u"
    and a: "a \<noteq> Some w" and t: "now < u"
  shows "content_held d' j w u"
proof -
  from h obtain r where r: "r \<in> set (contentJobs d)" "cr_id r = j" "cr_status r = CProcessing"
    "cr_leaseOwner r = Some w" "cr_leaseExpiresAt r = Some u" by (auto simp: content_held_def)
  have "\<not> content_open_to a now r"
    using r a t by (auto simp: content_open_to_def js_held_def js_stale_def)
  then have "r \<in> set (contentJobs d')"
    using content_step_untouched [OF st] r(1) by (simp add: content_untouched_def)
  then show ?thesis using r by (auto simp: content_held_def)
qed

interpretation clease: lease_protocol "content_step sha256 collate sch" content_held "content_inv sch"
  for sha256 and collate :: "string \<Rightarrow> 'k::linorder" and sch
  by unfold_locales
    (blast intro: content_step_inv, blast dest: content_sole_holder, blast intro: content_undisturbed)

text \<open>A run in which everybody but \<open>w\<close> acts, before the time \<open>u\<close>.\<close>

definition content_others_until ::
  "(string \<Rightarrow> string) \<Rightarrow> (string \<Rightarrow> 'k::linorder) \<Rightarrow> result_schemas \<Rightarrow> string \<Rightarrow> time \<Rightarrow> db \<Rightarrow> db \<Rightarrow> bool"
  where
  "content_others_until sha256 collate sch = lease_protocol.others_until (content_step sha256 collate sch)"

subsection \<open>An example run\<close>

text \<open>A job is created, acquired by the worker \<open>w\<close> and completed or retried.\<close>

definition example_schemas :: result_schemas where
  "example_schemas = \<lparr>rs_datetime = (\<lambda>_. True), rs_ai = (\<lambda>_. True), rs_publication = (\<lambda>_. True),
     rs_htmlDocument = (\<lambda>_. True)\<rparr>"

definition example_sha256 :: "string \<Rightarrow> string" where "example_sha256 s = s"

definition example_collate :: "string \<Rightarrow> nat" where "example_collate s = length s"

definition example_source :: source_version where
  "example_source = \<lparr>sv_id = ''srcver_1'', sv_tenantId = ''tenant_1'', sv_projectId = ''project_1'',
     sv_versionNumber = 1, sv_contentHash = ''h'', sv_transcriptText = [72], sv_createdAt = 0\<rparr>"

definition example_input :: create_content_input where
  "example_input = \<lparr>cci_tenantId = ''tenant_1'', cci_projectId = ''project_1'',
     cci_sourceVersionId = ''srcver_1'', cci_idempotencyKey = ''k'', cci_correlationId = None,
     cci_jobType = ''transcript'', cci_requestSchemaVersion = ''1''\<rparr>"

definition example_db0 :: db where
  "example_db0 = empty_db\<lparr>sourceVersions := [example_source]\<rparr>"

definition example_db1 :: db where
  "example_db1 = snd (cj_createOrGetIdempotent example_sha256 example_collate example_schemas False
     example_db0 ''job_1'' ''corr_1'' ''evt_1'' 5 example_input example_db0)"

definition example_db2 :: db where
  "example_db2 = snd (js_acquireNext example_schemas False (\<lambda>_. False) example_db1 ''evt_2'' ''w''
     100 10 example_db1)"

definition example_db3 :: db where
  "example_db3 = snd (js_markFailed example_schemas False ''evt_3'' ''tenant_1'' ''job_1'' ''w''
     ''E'' ''m'' 20 example_db2)"

lemma example_run1: "content_run example_sha256 example_collate example_schemas empty_db example_db1"
  unfolding example_db1_def
  by (rule run_step [OF run_step [OF run_none elsewhere] create]) (simp add: example_db0_def)

lemma example_run2: "content_run example_sha256 example_collate example_schemas empty_db example_db2"
  unfolding example_db2_def by (rule run_step [OF example_run1 acquire])

lemma example_run3: "content_run example_sha256 example_collate example_schemas empty_db example_db3"
  unfolding example_db3_def by (rule run_step [OF example_run2 fail])

definition example_row :: "db \<Rightarrow> content_row" where
  "example_row d = hd (contentJobs d)"

lemma example_rows:
  "contentJobs example_db2 = [example_row example_db2] \<and> cr_status (example_row example_db2) = CProcessing"
  "contentJobs example_db3 = [example_row example_db3] \<and> cr_status (example_row example_db3) = CFailed"
proof -
  have "length (contentJobs example_db2) = 1 \<and> cr_status (hd (contentJobs example_db2)) = CProcessing"
    by code_simp
  then show "contentJobs example_db2 = [example_row example_db2] \<and> cr_status (example_row example_db2) = CProcessing"
    by (cases "contentJobs example_db2") (auto simp: example_row_def)
  have "length (contentJobs example_db3) = 1 \<and> cr_status (hd (contentJobs example_db3)) = CFailed"
    by code_simp
  then show "contentJobs example_db3 = [example_row example_db3] \<and> cr_status (example_row example_db3) = CFailed"
    by (cases "contentJobs example_db3") (auto simp: example_row_def)
qed

lemma example_member:
  "example_row example_db2 \<in> set (contentJobs example_db2)"
  "example_row example_db3 \<in> set (contentJobs example_db3)"
  using example_rows by (metis list.set_intros(1))+

lemma example_held: "content_held example_db2 ''job_1'' ''w'' 110"
  by code_simp

subsection \<open>The properties\<close>

lemma content_inv_empty: "content_inv sch empty_db"
  by (simp add: content_inv_def empty_db_def)

lemma content_logged_empty: "ctab.logged (contentJobs empty_db) (jobEvents empty_db)"
  by (simp add: ctab.logged_def empty_db_def)

lemma content_run_logged:
  assumes "content_run sha256 collate sch d d'" and "content_inv sch d"
    and "ctab.logged (contentJobs d) (jobEvents d)"
  shows "ctab.logged (contentJobs d') (jobEvents d')"
  using content_run_table [OF assms(1,2)] assms(2,3)
    ctab.table_steps_inv(2) [of sch "content_tables d" "content_tables d'"]
  by (simp add: rows_ok_inv)

lemma content_run_untouched:
  assumes "content_run sha256 collate sch d d'" and "r \<in> set (contentJobs d)"
    and "content_terminal (cr_status r)"
  shows "r \<in> set (contentJobs d')"
  using assms
proof (induction rule: content_run.induct)
  case (run_step d d' a now d'')
  have "\<not> content_open_to a now r"
    using run_step.prems by (auto simp: content_open_to_def content_terminal_def js_held_def js_stale_def)
  then show ?case
    using content_step_untouched [OF run_step.hyps(2)] run_step by (simp add: content_untouched_def)
qed

text \<open>
  C1: After any run of the program's operations on content jobs, from the empty database,
  with any interleaving of stale reads and any failing statements, the table is consistent:
  identifiers and idempotency keys are unique, exactly the processing jobs carry a lease,
  retrying jobs have a time for their next attempt, results are stored only with completed
  jobs and pass the schema, error code and message come together and completion times
  belong to the terminal jobs.
\<close>

theorem content_run_consistent:
  assumes "content_run sha256 collate sch empty_db d"
  shows "content_inv sch d"
  using content_run_table [OF assms content_inv_empty] by simp

lemma content_run_consistent_witness: "content_inv example_schemas example_db3"
  by (rule content_run_consistent [OF example_run3])


text \<open>
  C5: The event log of a job tells its whole history: read in the order of insertion, the
  prior and new statuses of its events lead from no status to the present one without a
  gap, in every reachable database.
\<close>

theorem content_history:
  assumes "content_run sha256 collate sch empty_db d" and "r \<in> set (contentJobs d)"
  shows "chain_from None
    (map (\<lambda>e. (je_priorStatus e, je_newStatus e)) (filter (\<lambda>e. je_jobId e = cr_id r) (jobEvents d)))
    (Some (cr_status r))"
  using content_run_logged [OF assms(1) content_inv_empty content_logged_empty] assms(2)
  by (simp add: ctab.logged_def ctab.log_of_def)

lemma content_history_witness:
  "chain_from None
     (map (\<lambda>e. (je_priorStatus e, je_newStatus e))
        (filter (\<lambda>e. je_jobId e = cr_id (example_row example_db3)) (jobEvents example_db3)))
     (Some CFailed)"
  using content_history [OF example_run3 example_member(2)] example_rows(2) by simp


text \<open>
  Every operation conforms to the transition policy of the domain, although the worker
  operations never consult it: a job keeps its identity and either its status or moves to
  one the policy allows.
\<close>

theorem content_step_conforms:
  assumes "content_step sha256 collate sch a now d d'" and "content_inv sch d"
    and "r \<in> set (contentJobs d)"
  shows "\<exists>r' \<in> set (contentJobs d'). cr_id r' = cr_id r \<and> content_key r' = content_key r
     \<and> (cr_status r' = cr_status r \<or> isTransitionAllowed (cr_status r) (cr_status r'))"
  using ctab.row_step_conforms [OF ctab.table_step_rows [OF content_step_table [OF assms(1,2)]] assms(3)]
  by (auto simp: cpol.conforms_def)

lemma content_step_conforms_witness:
  "\<exists>r' \<in> set (contentJobs example_db3). cr_id r' = cr_id (example_row example_db2)
     \<and> content_key r' = content_key (example_row example_db2)
     \<and> (cr_status r' = cr_status (example_row example_db2)
        \<or> isTransitionAllowed (cr_status (example_row example_db2)) (cr_status r'))"
  using content_step_conforms [OF fail _ example_member(1)]
    content_run_table [OF example_run2 content_inv_empty]
  unfolding example_db3_def by blast


text \<open>
  A settled job is never touched again: the row of a completed, failed or cancelled job
  is the same, column for column, after any further run.
\<close>

theorem content_settled_for_good:
  assumes "content_run sha256 collate sch d d'" and "r \<in> set (contentJobs d)"
    and "content_terminal (cr_status r)"
  shows "r \<in> set (contentJobs d')"
  by (rule content_run_untouched [OF assms])

lemma content_settled_for_good_witness:
  "example_row example_db3 \<in> set (contentJobs (snd (js_acquireNext example_schemas False (\<lambda>_. False)
     example_db3 ''evt_4'' ''v'' 100 500 example_db3)))"
proof -
  have "content_run example_sha256 example_collate example_schemas example_db3
    (snd (js_acquireNext example_schemas False (\<lambda>_. False) example_db3 ''evt_4'' ''v'' 100 500 example_db3))"
    by (rule run_step [OF run_none acquire])
  from content_settled_for_good [OF this example_member(2)] show ?thesis
    using example_rows(2) by (simp add: content_terminal_def)
qed


text \<open>
  C3: Mutual exclusion by leases.  While a worker holds a job until \<open>u\<close> and everybody else
  acts before \<open>u\<close>, whatever they do (acquire, recover, cancel, complete, ...), it goes on
  holding it, and no one else does.
\<close>

theorem content_lease_exclusive:
  assumes "content_others_until sha256 collate sch w u d d'" and "content_inv sch d"
    and "content_held d jobId w u"
  shows "content_held d' jobId w u \<and> (\<forall>w' u'. content_held d' jobId w' u' \<longrightarrow> w' = w)"
  using clease.lease_kept [OF assms [unfolded content_others_until_def]]
    clease.lease_exclusive [OF assms [unfolded content_others_until_def]] by blast

lemma content_lease_exclusive_witness:
  "content_held (snd (js_acquireNext example_schemas False (\<lambda>_. False) example_db2 ''evt_4'' ''v'' 100 50
     example_db2)) ''job_1'' ''w'' 110"
proof -
  have "content_others_until example_sha256 example_collate example_schemas ''w'' 110 example_db2
    (snd (js_acquireNext example_schemas False (\<lambda>_. False) example_db2 ''evt_4'' ''v'' 100 50 example_db2))"
    unfolding content_others_until_def
    by (rule clease.other [OF clease.nobody acquire]) simp_all
  from content_lease_exclusive [OF this _ example_held] show ?thesis
    using content_run_table [OF example_run2 content_inv_empty] by blast
qed


text \<open>
  Fencing.  A worker that does not hold the lease (it ran out, someone else took the
  job over, the job was settled) can change nothing: each of its operations on the job
  returns null and leaves the database as it is.
\<close>

theorem content_fenced_off:
  assumes "\<forall>r \<in> set (contentJobs d). \<not> js_held tenantId jobId w now r"
  shows "js_renewLease sch False tenantId jobId w lease now d = (Inr None, d)
    \<and> js_markStage sch False tenantId jobId w stg now d = (Inr None, d)
    \<and> js_markCompleted sch False evtId tenantId jobId w result now d = (Inr None, d)
    \<and> js_scheduleRetry sch False evtId tenantId jobId w code msg next now d = (Inr None, d)
    \<and> js_markFailed sch False evtId tenantId jobId w code msg now d = (Inr None, d)"
proof -
  have "find (js_held tenantId jobId w now) (contentJobs d) = None"
    using assms by (auto simp: find_None_iff)
  then show ?thesis
    by (simp add: js_renewLease_def js_markStage_def js_markCompleted_def js_scheduleRetry_def
        js_markFailed_def js_finish_body_def update_returning_def or_unavailable_def)
qed

lemma content_fenced_off_witness:
  "js_markCompleted example_schemas False ''e'' ''tenant_1'' ''job_1'' ''v'' None 50 example_db2
     = (Inr None, example_db2)"
proof -
  have "\<forall>r \<in> set (contentJobs example_db2). \<not> js_held ''tenant_1'' ''job_1'' ''v'' 50 r"
    by code_simp
  from content_fenced_off [OF this] show ?thesis by blast
qed


text \<open>
  C7: No job is stranded.  In every reachable database each live job either waits for a
  worker and is due from some time on, or is leased and stale from the end of its lease on,
  so that acquisition or recovery will find it.
\<close>

theorem content_never_stranded:
  assumes "content_run sha256 collate sch empty_db d" and "r \<in> set (contentJobs d)"
    and "\<not> content_terminal (cr_status r)"
  shows "\<exists>t. (\<forall>now \<ge> t. js_due now r) \<or> (\<forall>now \<ge> t. js_stale now r)"
proof -
  have "content_row_ok sch r"
    using content_run_table [OF assms(1) content_inv_empty] assms(2)
    by (simp add: content_inv_def list_all_iff)
  then show ?thesis using assms(3)
    by (cases "cr_status r") (auto simp: content_ok_defs js_due_def js_stale_def)
qed

lemma content_never_stranded_witness:
  "\<exists>t. (\<forall>now \<ge> t. js_due now (example_row example_db2)) \<or> (\<forall>now \<ge> t. js_stale now (example_row example_db2))"
  using content_never_stranded [OF example_run2 example_member(1)] example_rows(1)
  by (simp add: content_terminal_def)


subsection \<open>Acquisition and creation without interference\<close>

lemma update_unique:
  assumes "content_inv sch d" and "c \<in> set (contentJobs d)"
  shows "update_returning (\<lambda>r. cr_id r = cr_id c \<and> cr_status r = cr_status c) f (contentJobs d)
    = (Some (f c), update_where (\<lambda>r. cr_id r = cr_id c \<and> cr_status r = cr_status c) f (contentJobs d))"
  using find_unique [of cr_id "contentJobs d" c "\<lambda>r. cr_id r = cr_id c \<and> cr_status r = cr_status c"] assms
  by (simp add: update_returning_def content_inv_def)

text \<open>
  Acquisition takes the oldest due job.  In a consistent database and without
  interference, \<open>acquireNext\<close> returns null exactly when no job is due; otherwise it returns
  a due job than which no due job is older, stored as processing and leased to the worker
  until \<open>now + leaseDurationMs\<close>, with one attempt more.
\<close>

theorem acquire_takes_oldest_due:
  assumes inv: "content_inv sch d" and w: "w \<noteq> []"
  shows "case js_acquireNext sch False (\<lambda>_. False) d evtId w lease now d of
      (Inl e, d') \<Rightarrow> False
    | (Inr None, d') \<Rightarrow> d' = d \<and> (\<forall>x \<in> set (contentJobs d). \<not> js_due now x)
    | (Inr (Some j), d') \<Rightarrow>
        (\<exists>c \<in> set (contentJobs d). js_due now c
           \<and> (\<forall>x \<in> set (contentJobs d). js_due now x \<longrightarrow> cr_createdAt c \<le> cr_createdAt x)
           \<and> js_lease w lease now c \<in> set (contentJobs d')
           \<and> cj_id j = cr_id c \<and> lj_leaseOwner j = w \<and> lj_leaseExpiresAt j = now + lease
           \<and> cj_attemptCount j = cr_attemptCount c + 1)"
proof (cases "js_candidate (\<lambda>_. False) now d")
  case None
  then have "js_acquireNext sch False (\<lambda>_. False) d evtId w lease now d = (Inr None, d)"
    by (simp add: js_acquireNext_def js_acquire_body_def or_unavailable_def)
  moreover have "\<forall>x \<in> set (contentJobs d). \<not> js_due now x"
    using None by (simp add: js_candidate_def order_first_None)
  ultimately show ?thesis by simp
next
  case (Some c)
  note c = order_first_Some [OF Some [unfolded js_candidate_def]]
  have due: "c \<in> set (contentJobs d)" "js_due now c" using c by auto
  have oldest: "\<forall>x \<in> set (contentJobs d). js_due now x \<longrightarrow> cr_createdAt c \<le> cr_createdAt x"
    using c(3) by simp
  have ok: "content_row_ok sch c" using inv due by (simp add: content_inv_def list_all_iff)
  let ?c = "js_lease w lease now c"
  let ?j = "content_job.extend (content_job_of ?c)
      \<lparr>lj_leaseOwner = w, lj_leaseExpiresAt = now + lease, lj_heartbeatAt = now,
       lj_nextAttemptAt = cr_nextAttemptAt c\<rparr>"
  have m: "mapWorkerLeasedJob sch ?c = Inr ?j"
    using w ok by (simp add: mapWorkerLeasedJob_def mapContentJob_def js_lease_def content_row_ok_def
        content_outcome_ok_def)
  have up: "?c \<in> set (update_where (\<lambda>r. cr_id r = cr_id c \<and> cr_status r = cr_status c)
      (js_lease w lease now) (contentJobs d))"
    using due(1) by (auto simp: set_update_where intro!: bexI [of _ c])
  have "\<exists>d'. js_acquireNext sch False (\<lambda>_. False) d evtId w lease now d = (Inr (Some ?j), d')
      \<and> ?c \<in> set (contentJobs d')"
    using m up by (simp add: js_acquireNext_def js_acquire_body_def Some
        update_unique [OF inv due(1)] or_unavailable_def)
  moreover have "cj_id ?j = cr_id c" "lj_leaseOwner ?j = w" "lj_leaseExpiresAt ?j = now + lease"
    "cj_attemptCount ?j = cr_attemptCount c + 1"
    by (simp_all add: content_job.extend_def content_job_of_def js_lease_def)
  ultimately show ?thesis using due oldest by (auto intro!: bexI [of _ c])
qed

lemma acquire_takes_oldest_due_witness:
  "case js_acquireNext example_schemas False (\<lambda>_. False) example_db1 ''e'' ''w'' 100 10 example_db1 of
      (Inl e, d') \<Rightarrow> False
    | (Inr None, d') \<Rightarrow> d' = example_db1 \<and> (\<forall>x \<in> set (contentJobs example_db1). \<not> js_due 10 x)
    | (Inr (Some j), d') \<Rightarrow>
        (\<exists>c \<in> set (contentJobs example_db1). js_due 10 c
           \<and> (\<forall>x \<in> set (contentJobs example_db1). js_due 10 x \<longrightarrow> cr_createdAt c \<le> cr_createdAt x)
           \<and> js_lease ''w'' 100 10 c \<in> set (contentJobs d')
           \<and> cj_id j = cr_id c \<and> lj_leaseOwner j = ''w'' \<and> lj_leaseExpiresAt j = 10 + 100
           \<and> cj_attemptCount j = cr_attemptCount c + 1)"
  by (rule acquire_takes_oldest_due) (use content_run_table [OF example_run1 content_inv_empty] in auto)

text \<open>Creation without interference, by what the key has stored.\<close>

abbreviation cj_fingerprint ::
  "(string \<Rightarrow> string) \<Rightarrow> (string \<Rightarrow> 'k::linorder) \<Rightarrow> create_content_input \<Rightarrow> string" where
  "cj_fingerprint sha256 collate input \<equiv> computeRequestFingerprint sha256 collate (cj_fingerprint_input input)"

definition cj_source_exists :: "create_content_input \<Rightarrow> db \<Rightarrow> bool" where
  "cj_source_exists input d \<longleftrightarrow>
     find_first (\<lambda>v. sv_id v = cci_sourceVersionId input \<and> sv_tenantId v = cci_tenantId input
                  \<and> sv_projectId v = cci_projectId input) (sourceVersions d) \<noteq> None"

lemma create_stored:
  assumes v: "cj_validate_create input = Inr key" and src: "cj_source_exists input snap"
    and row: "cj_by_key (cci_tenantId input) key snap = Some row"
  shows "cj_createOrGetIdempotent sha256 collate sch False snap newId newCorr evtId now input d =
    (if cr_requestFingerprint row \<noteq> cj_fingerprint sha256 collate input
     then (Inl (ConflictError IDEMPOTENCY_KEY_REUSED
                  ''Idempotency key was reused with a different request payload.''), d)
     else (mapContentJob sch row, d))"
  using assms(1,3) src
  by (auto simp: cj_createOrGetIdempotent_def cj_create_body_def cj_source_exists_def cj_reuse_def
      isUniqueViolation_def toDatabaseUnavailableError_def mapContentJob_def)

text \<open>A creation that raced with another and lost: the insert violates the unique index.\<close>

lemma create_lost_race:
  assumes v: "cj_validate_create input = Inr key" and src: "cj_source_exists input snap"
    and none: "cj_by_key (cci_tenantId input) key snap = None"
    and row: "cj_by_key (cci_tenantId input) key d = Some row"
    and same: "cr_requestFingerprint row = cj_fingerprint sha256 collate input"
  shows "cj_createOrGetIdempotent sha256 collate sch False snap newId newCorr evtId now input d
    = (mapContentJob sch row, d)"
proof -
  have t: "validateTenantId (cci_tenantId input) = Inr ()" and k: "ensureNonEmpty key ''idempotencyKey'' = Inr key"
    using v ensureNonEmpty_stable
    by (auto simp: cj_validate_create_def validateTenantId_def split: if_splits)
  have "row \<in> set (contentJobs d)" "cr_tenantId row = cci_tenantId input" "cr_idempotencyKey row = key"
    using row by (auto simp: cj_by_key_def dest!: find_first_Some)
  then have "cj_conflict (cj_new_row input key fp newId newCorr now) (contentJobs d)" for fp
    by (auto simp: cj_conflict_def cj_new_row_def list_ex_iff)
  then show ?thesis
    using v src none same row
    by (auto simp: cj_createOrGetIdempotent_def cj_create_body_def cj_source_exists_def cj_reuse_def
        isUniqueViolation_def Let_def cj_getByIdempotencyKey_def t k mapContentJob_Inr content_job_of_def
        mapContentJob_def)
qed

lemma create_success:
  assumes "cj_createOrGetIdempotent sha256 collate sch False d newId newCorr evtId now input d = (Inr j, d')"
  obtains key row where "cj_validate_create input = Inr key" "cj_source_exists input d"
    "cj_by_key (cci_tenantId input) key d' = Some row" "cr_requestFingerprint row = cj_fingerprint sha256 collate input"
    "mapContentJob sch row = Inr j" "sourceVersions d' = sourceVersions d"
    "cj_by_key (cci_tenantId input) key d = Some row \<or> cj_by_key (cci_tenantId input) key d = None"
proof -
  from assms obtain key where v: "cj_validate_create input = Inr key"
    by (cases "cj_validate_create input") (auto simp: cj_createOrGetIdempotent_def)
  have src: "cj_source_exists input d"
    unfolding cj_source_exists_def
  proof
    assume "find_first (\<lambda>v. sv_id v = cci_sourceVersionId input \<and> sv_tenantId v = cci_tenantId input
        \<and> sv_projectId v = cci_projectId input) (sourceVersions d) = None"
    then show False using assms v
      by (simp add: cj_createOrGetIdempotent_def cj_create_body_def isUniqueViolation_def)
  qed
  show thesis
  proof (cases "cj_by_key (cci_tenantId input) key d")
    case (Some row)
    have "d' = d" "cr_requestFingerprint row = cj_fingerprint sha256 collate input" "mapContentJob sch row = Inr j"
      using assms create_stored [OF v src Some, of sha256 collate sch newId newCorr evtId now d]
      by (auto split: if_splits)
    with Some show ?thesis by (intro that [OF v src, of row]) simp_all
  next
    case None
    let ?new = "cj_new_row input key (cj_fingerprint sha256 collate input) newId newCorr now"
    have t: "validateTenantId (cci_tenantId input) = Inr ()" and k: "ensureNonEmpty key ''idempotencyKey'' = Inr key"
      using v ensureNonEmpty_stable
      by (auto simp: cj_validate_create_def validateTenantId_def split: if_splits)
    have m: "mapContentJob sch ?new = Inr (content_job_of ?new)"
      by (simp add: mapContentJob_def cj_new_row_def)
    from src obtain v0 where src': "find_first (\<lambda>v. sv_id v = cci_sourceVersionId input
        \<and> sv_tenantId v = cci_tenantId input \<and> sv_projectId v = cci_projectId input) (sourceVersions d) = Some v0"
      by (auto simp: cj_source_exists_def)
    have "\<not> cj_conflict ?new (contentJobs d)"
      using assms v src' None
      by (auto simp: cj_createOrGetIdempotent_def cj_create_body_def isUniqueViolation_def Let_def
          cj_getByIdempotencyKey_def t k)
    then have d': "contentJobs d' = contentJobs d @ [?new]" "sourceVersions d' = sourceVersions d"
      and j: "j = content_job_of ?new"
      using assms v src' None
      by (auto simp: cj_createOrGetIdempotent_def cj_create_body_def Let_def content_commit_def m)
    have "cj_by_key (cci_tenantId input) key d' = Some ?new"
      using None by (simp add: cj_by_key_def find_first_def d' find_append cj_new_row_def)
    then show ?thesis
      using that [OF v src] m j d' None by (simp add: cj_new_row_def)
  qed
qed

lemma example_created:
  "\<exists>j. cj_createOrGetIdempotent example_sha256 example_collate example_schemas False
     example_db0 ''job_1'' ''corr_1'' ''evt_1'' 5 example_input example_db0 = (Inr j, example_db1)"
proof -
  have "\<not> isl (fst (cj_createOrGetIdempotent example_sha256 example_collate example_schemas False
     example_db0 ''job_1'' ''corr_1'' ''evt_1'' 5 example_input example_db0))"
    by code_simp
  then show ?thesis by (cases "fst (cj_createOrGetIdempotent example_sha256 example_collate
      example_schemas False example_db0 ''job_1'' ''corr_1'' ''evt_1'' 5 example_input example_db0)")
    (auto simp: example_db1_def prod_eq_iff)
qed

text \<open>
  C11: Creation is idempotent.  After a successful creation the same request again, with
  fresh identifiers and another clock, returns the same job and changes nothing, whether
  its selects still read the database before the first creation (two creations racing) or
  the one after it.
\<close>

theorem create_idempotent:
  assumes first: "cj_createOrGetIdempotent sha256 collate sch False d newId newCorr evtId now input d
      = (Inr j, d')"
    and snap: "snap = d \<or> snap = d'"
  shows "cj_createOrGetIdempotent sha256 collate sch False snap newId' newCorr' evtId' now' input d'
    = (Inr j, d')"
proof -
  from create_success [OF first] obtain key row where
    v: "cj_validate_create input = Inr key" and src: "cj_source_exists input d"
    and row: "cj_by_key (cci_tenantId input) key d' = Some row"
    and fp: "cr_requestFingerprint row = cj_fingerprint sha256 collate input"
    and m: "mapContentJob sch row = Inr j" and sv: "sourceVersions d' = sourceVersions d"
    and old: "cj_by_key (cci_tenantId input) key d = Some row \<or> cj_by_key (cci_tenantId input) key d = None"
    by metis
  have src': "cj_source_exists input snap"
    using src sv snap by (auto simp: cj_source_exists_def)
  show ?thesis
  proof (cases "cj_by_key (cci_tenantId input) key snap")
    case None
    from create_lost_race [OF v src' None row fp] m show ?thesis by simp
  next
    case (Some row')
    then have "row' = row" using old row snap by auto
    with create_stored [OF v src' Some, of sha256 collate] fp m show ?thesis by simp
  qed
qed

lemma create_idempotent_witness:
  "\<exists>j. cj_createOrGetIdempotent example_sha256 example_collate example_schemas False example_db0
     ''job_9'' ''corr_9'' ''evt_9'' 77 example_input example_db1 = (Inr j, example_db1)"
proof -
  obtain j where "cj_createOrGetIdempotent example_sha256 example_collate example_schemas False
     example_db0 ''job_1'' ''corr_1'' ''evt_1'' 5 example_input example_db0 = (Inr j, example_db1)"
    using example_created by blast
  from create_idempotent [OF this] show ?thesis by blast
qed

text \<open>
  An idempotency key belongs to one request.  After a successful creation, a request of
  the same tenant with the same key but any other content (project, source version, job
  type or schema version) is refused as a reuse of the key and changes nothing, unless the
  hash maps the two canonical texts to the same digest.
\<close>

theorem create_key_reuse_refused:
  assumes first: "cj_createOrGetIdempotent sha256 collate sch False d newId newCorr evtId now input d
      = (Inr j, d')"
    and other: "cci_tenantId input' = cci_tenantId input"
      "js_trim (cci_idempotencyKey input') = js_trim (cci_idempotencyKey input)"
      "cj_fingerprint_input input' \<noteq> cj_fingerprint_input input"
    and valid: "\<not> isl (cj_validate_create input')" and src: "cj_source_exists input' d'"
    and hash: "inj_on sha256 {canonicalize collate (fingerprint_json (cj_fingerprint_input input)),
                              canonicalize collate (fingerprint_json (cj_fingerprint_input input'))}"
  shows "cj_createOrGetIdempotent sha256 collate sch False d' newId' newCorr' evtId' now' input' d'
    = (Inl (ConflictError IDEMPOTENCY_KEY_REUSED
              ''Idempotency key was reused with a different request payload.''), d')"
proof -
  from create_success [OF first] obtain key row where
    v: "cj_validate_create input = Inr key"
    and row: "cj_by_key (cci_tenantId input) key d' = Some row"
    and fp: "cr_requestFingerprint row = cj_fingerprint sha256 collate input" by metis
  have v': "cj_validate_create input' = Inr key"
    using v valid other(2)
    by (auto simp: cj_validate_create_def ensureNonEmpty_def Let_def isl_def split: if_splits)
  have "cj_fingerprint sha256 collate input' \<noteq> cj_fingerprint sha256 collate input"
    using hash other(3) fingerprint_text_inj [of collate "cj_fingerprint_input input'" "cj_fingerprint_input input"]
    by (auto simp: computeRequestFingerprint_def inj_on_def)
  with create_stored [OF v' src, of row sha256 collate] row other(1) fp show ?thesis by simp
qed

lemma create_key_reuse_refused_witness:
  "cj_createOrGetIdempotent example_sha256 example_collate example_schemas False example_db1
     ''job_9'' ''corr_9'' ''evt_9'' 77 (example_input\<lparr>cci_jobType := ''other''\<rparr>) example_db1
   = (Inl (ConflictError IDEMPOTENCY_KEY_REUSED
             ''Idempotency key was reused with a different request payload.''), example_db1)"
proof -
  have 1: "\<not> isl (cj_validate_create (example_input\<lparr>cci_jobType := ''other''\<rparr>))" by code_simp
  have "map sv_id (sourceVersions example_db1) = [''srcver_1'']
    \<and> cj_source_exists (example_input\<lparr>cci_jobType := ''other''\<rparr>) example_db1" by code_simp
  then have 2: "cj_source_exists (example_input\<lparr>cci_jobType := ''other''\<rparr>) example_db1" by blast
  obtain j where c: "cj_createOrGetIdempotent example_sha256 example_collate example_schemas False
     example_db0 ''job_1'' ''corr_1'' ''evt_1'' 5 example_input example_db0 = (Inr j, example_db1)"
    using example_created by blast
  show ?thesis
    by (rule create_key_reuse_refused [OF c _ _ _ 1 2])
      (simp_all add: example_input_def cj_fingerprint_input_def example_sha256_def inj_on_def)
qed

end
