(* ===== verification/ContentExecutor.thy ===== *)
theory ContentExecutor
  imports ContentLifecycle Retry
begin

text \<open>
  The execution of a leased content job (\<open>src/application/workers/job-executor.ts\<close> with the
  errors of \<open>src/domain/workers/worker-errors.ts\<close>).

  The processor, its heartbeats, the background heartbeat loop, the abort signal and what
  others do to the database in the meantime run concurrently; an execution is modelled over
  the sequence of \<open>exec_event\<close>s in which their effects happened.  \<open>requestHeartbeat\<close> merges
  requests that come while a renewal is under way; each event \<open>Beat\<close> or \<open>LoopBeat\<close> is one
  renewal.
\<close>

subsection \<open>Errors\<close>

text \<open>
  What the body of \<open>execute\<close> can catch.  \<open>UnsupportedJobTypeError\<close> is a
  \<open>PermanentWorkerError\<close>; an error of another origin may carry a \<open>code\<close>.
\<close>

datatype worker_error =
    RetryableWorkerError string string
  | PermanentWorkerError string string
  | LeaseLostError
  | WorkerCancelledError
  | PlatformThrown platform_error
  | OtherThrown "string option"

definition unsupportedJobTypeError :: "string \<Rightarrow> worker_error" where
  "unsupportedJobTypeError jobType =
     PermanentWorkerError (''Unsupported job type: '' @ jobType) (code_value WORKER_UNSUPPORTED_JOB_TYPE)"

definition thrown_code :: "worker_error \<Rightarrow> string option" where
  "thrown_code error =
     (case error of PlatformThrown e \<Rightarrow> Some (code_value (perror_code e))
      | OtherThrown c \<Rightarrow> c
      | _ \<Rightarrow> None)"

text \<open>Whether the error is retryable, with its message and code.\<close>

definition classifyError :: "worker_error \<Rightarrow> bool \<times> string \<times> string" where
  "classifyError error =
     (case error of
        RetryableWorkerError m c \<Rightarrow> (True, m, c)
      | PermanentWorkerError m c \<Rightarrow> (False, m, c)
      | _ \<Rightarrow>
          if thrown_code error = Some (code_value DATABASE_UNAVAILABLE)
          then (True, ''Database was temporarily unavailable.'', ''DATABASE_UNAVAILABLE'')
          else (True, ''Unexpected processor failure.'', code_value WORKER_UNEXPECTED_ERROR))"

definition sanitizeErrorMessage :: "string \<Rightarrow> string" where
  "sanitizeErrorMessage message = (if length message > 500 then take 500 message else message)"

datatype job_outcome = JobDone | JobRetryLater | JobFailedForGood | JobLeaseLost | JobCancelledRun

subsection \<open>Settling a job\<close>

record exec_config =
  ec_hasProcessor :: bool
  ec_leaseDurationMs :: int
  ec_retryPolicy :: retry_policy
  ec_maxAttempts :: int

text \<open>
  The clock, the fate and the event identifier of a statement at the end of the execution:
  the first is \<open>markCompleted\<close>'s, the second the error handling's.
\<close>

record exec_call =
  ca_now :: time
  ca_fault :: bool
  ca_evtId :: string

definition markPermanentFailure ::
  "result_schemas \<Rightarrow> exec_call \<Rightarrow> leased_job \<Rightarrow> string \<Rightarrow> string \<Rightarrow> db \<Rightarrow> (worker_error + unit) \<times> db" where
  "markPermanentFailure sch ca job message code d =
     (case js_markFailed sch (ca_fault ca) (ca_evtId ca) (cj_tenantId job) (cj_id job)
             (lj_leaseOwner job) code (sanitizeErrorMessage message) (ca_now ca) d of
        (Inl e, d') \<Rightarrow> (Inl (PlatformThrown e), d')
      | (Inr None, d') \<Rightarrow> (Inl LeaseLostError, d')
      | (Inr (Some failed), d') \<Rightarrow> (Inr (), d'))"

definition scheduleRetryOrFail ::
  "result_schemas \<Rightarrow> exec_config \<Rightarrow> exec_call \<Rightarrow> leased_job \<Rightarrow> string \<Rightarrow> string \<Rightarrow> db
     \<Rightarrow> (worker_error + job_outcome) \<times> db" where
  "scheduleRetryOrFail sch cfg ca job message code d =
     (let giveUp = (case markPermanentFailure sch ca job (sanitizeErrorMessage message)
                           (code_value WORKER_MAX_ATTEMPTS_EXCEEDED) d of
            (Inl e, d') \<Rightarrow> (Inl e, d')
          | (Inr _, d') \<Rightarrow>
              (Inr (if code = code_value WORKER_CANCELLED then JobCancelledRun else JobFailedForGood), d'))
      in case evaluateRetry (cj_attemptCount job) (ca_now ca) True (ec_retryPolicy cfg) of
        NoRetry \<Rightarrow> giveUp
      | Retry delayMs nextAttemptAt \<Rightarrow>
          if cj_attemptCount job \<ge> ec_maxAttempts cfg then giveUp
          else case js_scheduleRetry sch (ca_fault ca) (ca_evtId ca) (cj_tenantId job) (cj_id job)
                      (lj_leaseOwner job) code (sanitizeErrorMessage message) nextAttemptAt (ca_now ca) d of
              (Inl e, d') \<Rightarrow> (Inl (PlatformThrown e), d')
            | (Inr None, d') \<Rightarrow> (Inl LeaseLostError, d')
            | (Inr (Some scheduled), d') \<Rightarrow>
                (Inr (if code = code_value WORKER_CANCELLED then JobCancelledRun else JobRetryLater), d'))"

subsection \<open>The execution\<close>

record exec_state =
  es_db :: db
  es_leaseLost :: bool
  es_aborted :: bool
  es_loopActive :: bool
  es_loopError :: "worker_error option"

text \<open>
  \<open>Others f\<close>: somebody else changes the database; \<open>Abort\<close>: the signal; \<open>Stage\<close> and
  \<open>Beat\<close>: the processor's calls; \<open>LoopBeat\<close>: the background loop wakes up.
\<close>

datatype exec_event =
    Others "db \<Rightarrow> db"
  | Abort
  | Stage content_stage time bool
  | Beat time bool
  | LoopBeat time bool

definition renewLeaseOnce ::
  "result_schemas \<Rightarrow> exec_config \<Rightarrow> leased_job \<Rightarrow> time \<Rightarrow> bool \<Rightarrow> exec_state
     \<Rightarrow> exec_state \<times> worker_error option" where
  "renewLeaseOnce sch cfg job now fault st =
     (if es_aborted st then (st, None)
      else case js_renewLease sch fault (cj_tenantId job) (cj_id job) (lj_leaseOwner job)
                  (ec_leaseDurationMs cfg) now (es_db st) of
          (Inl e, d) \<Rightarrow> (st\<lparr>es_db := d\<rparr>, Some (PlatformThrown e))
        | (Inr None, d) \<Rightarrow> (st\<lparr>es_db := d, es_leaseLost := True, es_aborted := True\<rparr>, Some LeaseLostError)
        | (Inr (Some renewed), d) \<Rightarrow> (st\<lparr>es_db := d\<rparr>, None))"

text \<open>One event: the state after it and what it throws into the processor.\<close>

fun exec_step ::
  "result_schemas \<Rightarrow> exec_config \<Rightarrow> leased_job \<Rightarrow> exec_event \<Rightarrow> exec_state
     \<Rightarrow> exec_state \<times> worker_error option" where
  "exec_step sch cfg job (Others f) st = (st\<lparr>es_db := f (es_db st)\<rparr>, None)"
| "exec_step sch cfg job Abort st = (st\<lparr>es_aborted := True\<rparr>, None)"
| "exec_step sch cfg job (Stage stage now fault) st =
     (case js_markStage sch fault (cj_tenantId job) (cj_id job) (lj_leaseOwner job) stage now (es_db st) of
        (Inl e, d) \<Rightarrow> (st\<lparr>es_db := d\<rparr>, Some (PlatformThrown e))
      | (Inr None, d) \<Rightarrow> (st\<lparr>es_db := d, es_leaseLost := True\<rparr>, Some LeaseLostError)
      | (Inr (Some updated), d) \<Rightarrow> (st\<lparr>es_db := d\<rparr>, None))"
| "exec_step sch cfg job (Beat now fault) st = renewLeaseOnce sch cfg job now fault st"
| "exec_step sch cfg job (LoopBeat now fault) st =
     (if \<not> es_loopActive st then (st, None)
      else case renewLeaseOnce sch cfg job now fault st of
          (st', None) \<Rightarrow> (st'\<lparr>es_loopActive := \<not> es_aborted st'\<rparr>, None)
        | (st', Some LeaseLostError) \<Rightarrow> (st'\<lparr>es_loopActive := False\<rparr>, None)
        | (st', Some e) \<Rightarrow> (st'\<lparr>es_loopActive := False, es_loopError := Some e\<rparr>, None))"

text \<open>
  The processor ends at the first error thrown into it, or with \<open>ending\<close> after the last
  event.
\<close>

fun exec_events ::
  "result_schemas \<Rightarrow> exec_config \<Rightarrow> leased_job \<Rightarrow> exec_event list \<Rightarrow> worker_error + processing_result
     \<Rightarrow> exec_state \<Rightarrow> exec_state \<times> (worker_error + processing_result)" where
  "exec_events sch cfg job [] ending st = (st, ending)"
| "exec_events sch cfg job (ev # evs) ending st =
     (case exec_step sch cfg job ev st of
        (st', Some e) \<Rightarrow> (st', Inl e)
      | (st', None) \<Rightarrow> exec_events sch cfg job evs ending st')"

definition exec_handle ::
  "result_schemas \<Rightarrow> exec_config \<Rightarrow> exec_call \<Rightarrow> leased_job \<Rightarrow> exec_state \<Rightarrow> worker_error \<Rightarrow> db
     \<Rightarrow> (worker_error + job_outcome) \<times> db" where
  "exec_handle sch cfg ca job st error d =
     (if es_leaseLost st \<or> error = LeaseLostError then (Inr JobLeaseLost, d)
      else if es_aborted st \<or> error = WorkerCancelledError then (Inr JobCancelledRun, d)
      else case classifyError error of
          (True, message, code) \<Rightarrow> scheduleRetryOrFail sch cfg ca job message code d
        | (False, message, code) \<Rightarrow>
            (case markPermanentFailure sch ca job message code d of
               (Inl e, d') \<Rightarrow> (Inl e, d')
             | (Inr _, d') \<Rightarrow> (Inr JobFailedForGood, d')))"

definition exec_finish ::
  "result_schemas \<Rightarrow> exec_config \<Rightarrow> exec_call \<Rightarrow> exec_call \<Rightarrow> leased_job \<Rightarrow> exec_state
     \<Rightarrow> worker_error + processing_result \<Rightarrow> (worker_error + job_outcome) \<times> db" where
  "exec_finish sch cfg ca1 ca2 job st ending =
     (case ending of
        Inl error \<Rightarrow> exec_handle sch cfg ca2 job st error (es_db st)
      | Inr result \<Rightarrow>
          if es_leaseLost st then (Inr JobLeaseLost, es_db st)
          else case js_markCompleted sch (ca_fault ca1) (ca_evtId ca1) (cj_tenantId job) (cj_id job)
                      (lj_leaseOwner job) (Some result) (ca_now ca1) (es_db st) of
              (Inl e, d') \<Rightarrow> exec_handle sch cfg ca2 job st (PlatformThrown e) d'
            | (Inr None, d') \<Rightarrow> (Inr JobLeaseLost, d')
            | (Inr (Some completed), d') \<Rightarrow> (Inr JobDone, d'))"

text \<open>
  \<open>execute\<close>; \<open>Inl\<close> is a rejected promise.  The \<open>finally\<close> block awaits the heartbeat loop,
  so an error the loop ended with replaces the outcome.
\<close>

definition exec_start :: "bool \<Rightarrow> db \<Rightarrow> exec_state" where
  "exec_start aborted d = \<lparr>es_db = d, es_leaseLost = False, es_aborted = aborted,
     es_loopActive = \<not> aborted, es_loopError = None\<rparr>"

definition execute ::
  "result_schemas \<Rightarrow> exec_config \<Rightarrow> exec_call \<Rightarrow> exec_call \<Rightarrow> leased_job \<Rightarrow> bool \<Rightarrow> exec_event list
     \<Rightarrow> worker_error + processing_result \<Rightarrow> db \<Rightarrow> (worker_error + job_outcome) \<times> db" where
  "execute sch cfg ca1 ca2 job aborted events ending d =
     (if \<not> ec_hasProcessor cfg then
        (case unsupportedJobTypeError ''transcript-processing'' of
           PermanentWorkerError message code \<Rightarrow>
             (case markPermanentFailure sch ca1 job message code d of
                (Inl e, d') \<Rightarrow> (Inl e, d')
              | (Inr _, d') \<Rightarrow> (Inr JobFailedForGood, d'))
         | e \<Rightarrow> (Inl e, d))
      else
        case exec_events sch cfg job events ending (exec_start aborted d) of
          (st, end') \<Rightarrow>
            (case (exec_finish sch cfg ca1 ca2 job st end', es_loopError st) of
               ((outcome, d'), None) \<Rightarrow> (outcome, d')
             | ((outcome, d'), Some e) \<Rightarrow> (Inl e, d')))"

subsection \<open>An execution is a run of the job table\<close>

lemma content_run_trans:
  assumes "content_run sha256 collate sch e f" and "content_run sha256 collate sch d e"
  shows "content_run sha256 collate sch d f"
  using assms by (induction rule: content_run.induct) (auto intro: run_step)

lemma content_run1: "content_step sha256 collate sch a now d d' \<Longrightarrow> content_run sha256 collate sch d d'"
  by (rule run_step [OF run_none])

definition others_run ::
  "(string \<Rightarrow> string) \<Rightarrow> (string \<Rightarrow> 'k::linorder) \<Rightarrow> result_schemas \<Rightarrow> exec_event \<Rightarrow> bool" where
  "others_run sha256 collate sch ev \<longleftrightarrow>
     (case ev of Others f \<Rightarrow> \<forall>d. content_run sha256 collate sch d (f d) | _ \<Rightarrow> True)"

lemma snd_run:
  assumes "op = (r, d')" and "content_step sha256 collate sch a now d (snd op)"
  shows "content_run sha256 collate sch d d'"
  using assms content_run1 by simp

lemma renewLeaseOnce_run:
  assumes "renewLeaseOnce sch cfg job now fault st = (st', e)"
  shows "content_run sha256 collate sch (es_db st) (es_db st')"
proof -
  have "content_run sha256 collate sch (es_db st) (snd (js_renewLease sch fault (cj_tenantId job) (cj_id job)
      (lj_leaseOwner job) (ec_leaseDurationMs cfg) now (es_db st)))"
    by (rule content_run1 [OF content_step.renew])
  then show ?thesis using assms
    by (auto simp: renewLeaseOnce_def run_none split: if_splits prod.splits sum.splits option.splits)
qed

lemma exec_step_run:
  assumes "exec_step sch cfg job ev st = (st', e)" and "others_run sha256 collate sch ev"
  shows "content_run sha256 collate sch (es_db st) (es_db st')"
proof (cases ev)
  case (Stage stage now fault)
  have "content_run sha256 collate sch (es_db st) (snd (js_markStage sch fault (cj_tenantId job) (cj_id job)
      (lj_leaseOwner job) stage now (es_db st)))"
    by (rule content_run1 [OF content_step.stage])
  then show ?thesis using assms Stage by (auto split: prod.splits sum.splits option.splits)
next
  case (LoopBeat now fault)
  obtain st1 e1 where r: "renewLeaseOnce sch cfg job now fault st = (st1, e1)" by fastforce
  have "st' = st \<or> es_db st' = es_db st1"
    using assms(1) LoopBeat r by (auto split: if_splits option.splits worker_error.splits)
  then show ?thesis using renewLeaseOnce_run [OF r] run_none by metis
qed (use assms renewLeaseOnce_run in \<open>auto simp: others_run_def intro: run_none\<close>)

lemma exec_events_run:
  assumes "exec_events sch cfg job events ending st = (st', ending')"
    and "\<forall>ev \<in> set events. others_run sha256 collate sch ev"
  shows "content_run sha256 collate sch (es_db st) (es_db st')"
  using assms
proof (induction events arbitrary: st)
  case (Cons ev evs)
  obtain st1 e where s: "exec_step sch cfg job ev st = (st1, e)" by fastforce
  have 1: "content_run sha256 collate sch (es_db st) (es_db st1)"
    by (rule exec_step_run [OF s]) (use Cons.prems(2) in simp)
  show ?case
  proof (cases e)
    case None
    then have "content_run sha256 collate sch (es_db st1) (es_db st')"
      using Cons s by simp
    then show ?thesis using 1 by (rule content_run_trans)
  next
    case (Some err)
    then show ?thesis using 1 s Cons.prems(1) by simp
  qed
qed (simp add: run_none)

lemma snd_markPermanentFailure:
  "snd (markPermanentFailure sch ca job message code d) = snd (js_markFailed sch (ca_fault ca) (ca_evtId ca)
      (cj_tenantId job) (cj_id job) (lj_leaseOwner job) code (sanitizeErrorMessage message) (ca_now ca) d)"
  by (simp add: markPermanentFailure_def split: prod.split sum.split option.split)

lemma snd_scheduleRetryOrFail:
  "snd (scheduleRetryOrFail sch cfg ca job message code d) \<in>
     {snd (markPermanentFailure sch ca job (sanitizeErrorMessage message)
             (code_value WORKER_MAX_ATTEMPTS_EXCEEDED) d)}
     \<union> {snd (js_scheduleRetry sch (ca_fault ca) (ca_evtId ca) (cj_tenantId job) (cj_id job)
             (lj_leaseOwner job) code (sanitizeErrorMessage message) n (ca_now ca) d) | n. True}"
proof (cases "evaluateRetry (cj_attemptCount job) (ca_now ca) True (ec_retryPolicy cfg)")
  case NoRetry
  then show ?thesis by (simp add: scheduleRetryOrFail_def split: prod.split sum.split)
next
  case (Retry delay n)
  show ?thesis
  proof (cases "cj_attemptCount job \<ge> ec_maxAttempts cfg")
    case True
    with Retry show ?thesis by (simp add: scheduleRetryOrFail_def split: prod.split sum.split)
  next
    case False
    with Retry have "snd (scheduleRetryOrFail sch cfg ca job message code d) = snd (js_scheduleRetry sch
        (ca_fault ca) (ca_evtId ca) (cj_tenantId job) (cj_id job) (lj_leaseOwner job) code
        (sanitizeErrorMessage message) n (ca_now ca) d)"
      by (simp add: scheduleRetryOrFail_def split: prod.split sum.split option.split)
    then show ?thesis by blast
  qed
qed

lemma markPermanentFailure_run:
  "content_run sha256 collate sch d (snd (markPermanentFailure sch ca job message code d))"
  unfolding snd_markPermanentFailure by (rule content_run1 [OF content_step.fail])

lemma scheduleRetryOrFail_run:
  "content_run sha256 collate sch d (snd (scheduleRetryOrFail sch cfg ca job message code d))"
proof -
  have "content_run sha256 collate sch d (snd (js_scheduleRetry sch (ca_fault ca) (ca_evtId ca) (cj_tenantId job)
      (cj_id job) (lj_leaseOwner job) code (sanitizeErrorMessage message) n (ca_now ca) d))" for n
    by (rule content_run1 [OF content_step.retry])
  then show ?thesis
    using snd_scheduleRetryOrFail [of sch cfg ca job message code d]
      markPermanentFailure_run [of sha256 collate sch d ca job] by auto
qed

lemma exec_handle_run:
  "content_run sha256 collate sch d (snd (exec_handle sch cfg ca job st error d))"
proof -
  obtain rt m c where cl: "classifyError error = (rt, m, c)" by (cases "classifyError error") auto
  have "snd (exec_handle sch cfg ca job st error d)
    \<in> {d, snd (scheduleRetryOrFail sch cfg ca job m c d), snd (markPermanentFailure sch ca job m c d)}"
    by (simp add: exec_handle_def cl split: prod.split sum.split bool.split)
  then show ?thesis
    using markPermanentFailure_run [of sha256 collate sch d ca job m c]
      scheduleRetryOrFail_run [of sha256 collate sch d cfg ca job m c] run_none [of sha256 collate sch d]
    by auto
qed

lemma exec_finish_run:
  "content_run sha256 collate sch (es_db st) (snd (exec_finish sch cfg ca1 ca2 job st ending))"
proof (cases ending)
  case (Inl error)
  then show ?thesis using exec_handle_run by (simp add: exec_finish_def)
next
  case (Inr result)
  let ?op = "js_markCompleted sch (ca_fault ca1) (ca_evtId ca1) (cj_tenantId job) (cj_id job)
      (lj_leaseOwner job) (Some result) (ca_now ca1) (es_db st)"
  have op: "content_run sha256 collate sch (es_db st) (snd ?op)"
    by (rule content_run1 [OF content_step.complete])
  obtain r d' where r: "?op = (r, d')" by fastforce
  have d': "content_run sha256 collate sch (es_db st) d'" using op r by simp
  have h: "content_run sha256 collate sch (es_db st) (snd (exec_handle sch cfg ca2 job st e d'))" for e
    by (rule content_run_trans [OF exec_handle_run d'])
  have "snd (exec_finish sch cfg ca1 ca2 job st ending)
      \<in> {es_db st, d'} \<union> {snd (exec_handle sch cfg ca2 job st e d') | e. True}"
    by (auto simp: exec_finish_def Inr r split: sum.split option.split)
  then show ?thesis using d' h run_none [of sha256 collate sch "es_db st"] by auto
qed

text \<open>The job of the example run, held by the worker \<open>w\<close> until 110.\<close>

definition example_job :: leased_job where
  "example_job = content_job.extend (content_job_of (example_row example_db2))
     \<lparr>lj_leaseOwner = ''w'', lj_leaseExpiresAt = 110, lj_heartbeatAt = 10, lj_nextAttemptAt = None\<rparr>"

definition example_result :: processing_result where
  "example_result = \<lparr>res_schemaVersion = ''1.0'', res_sourceVersionId = ''srcver_1'', res_contentHash = ''h'',
     res_wordCount = 1, res_characterCount = 1, res_paragraphCount = 1, res_lineCount = 1,
     res_processedAt = ''t'', res_ai = None, res_publication = None, res_htmlDocument = None,
     res_renderArtifact = None\<rparr>"

definition example_config :: "int \<Rightarrow> exec_config" where
  "example_config limit = \<lparr>ec_hasProcessor = True, ec_leaseDurationMs = 100,
     ec_retryPolicy = \<lparr>baseDelayMs = 10, maxDelayMs = 50, maxAttempts = limit, jitterRatio = None, random = 0\<rparr>,
     ec_maxAttempts = limit\<rparr>"

definition example_call :: "time \<Rightarrow> exec_call" where
  "example_call now = \<lparr>ca_now = now, ca_fault = False, ca_evtId = ''evt_x''\<rparr>"



subsection \<open>Outcomes\<close>

lemma finish_body_row:
  assumes "js_finish_body sch t j w now upd event d = Inr (Some x, d')"
  shows "\<exists>r \<in> set (contentJobs d). js_held t j w now r \<and> upd r \<in> set (contentJobs d')"
proof -
  from assms obtain u jobs where
    up: "update_returning (js_held t j w now) upd (contentJobs d) = (Some u, jobs)"
    and d': "contentJobs d' = jobs"
    by (auto simp: js_finish_body_def content_commit_Inr map_sum_Inr split: option.splits prod.splits)
  from update_returning_Some(1) [OF up] obtain r where "r \<in> set (contentJobs d)" "js_held t j w now r" by blast
  moreover have "upd r \<in> set (contentJobs d')"
    using calculation update_returning_Some(2) [OF up] d' by (auto simp: set_update_where)
  ultimately show ?thesis by blast
qed

lemma transaction_Inr: "transaction fault d body = (Inr a, d') \<longleftrightarrow> \<not> fault \<and> body = Inr (a, d')"
  by (auto simp: transaction_def split: sum.splits)

definition job_row :: "leased_job \<Rightarrow> content_status \<Rightarrow> (content_row \<Rightarrow> bool) \<Rightarrow> db \<Rightarrow> bool" where
  "job_row job s p d \<longleftrightarrow>
     (\<exists>r \<in> set (contentJobs d). cr_id r = cj_id job \<and> cr_tenantId r = cj_tenantId job
        \<and> cr_status r = s \<and> p r)"

lemma finish_body_job_row:
  assumes "js_finish_body sch (cj_tenantId job) (cj_id job) w now upd event d = Inr (Some x, d')"
    and "\<And>r. cr_id (upd r) = cr_id r \<and> cr_tenantId (upd r) = cr_tenantId r \<and> cr_status (upd r) = s \<and> p (upd r)"
  shows "job_row job s p d'"
proof -
  from finish_body_row [OF assms(1)] obtain r where
    "js_held (cj_tenantId job) (cj_id job) w now r" "upd r \<in> set (contentJobs d')" by blast
  then show ?thesis using assms(2) [of r]
    unfolding job_row_def js_held_def by (intro bexI [of _ "upd r"]) simp_all
qed

lemma markCompleted_row:
  assumes "js_markCompleted sch f e (cj_tenantId job) (cj_id job) w result now d = (Inr (Some x), d')"
  shows "job_row job CCompleted (\<lambda>r. cr_result r = result) d'"
  using assms unfolding js_markCompleted_def or_unavailable_Inr transaction_Inr
  by (auto elim!: finish_body_job_row simp: js_set_completed_def)

lemma scheduleRetry_row:
  assumes "js_scheduleRetry sch f e (cj_tenantId job) (cj_id job) w c m t now d = (Inr (Some x), d')"
  shows "job_row job CRetrying (\<lambda>r. cr_nextAttemptAt r = Some t \<and> cr_errorCode r = Some c) d'"
  using assms unfolding js_scheduleRetry_def or_unavailable_Inr transaction_Inr
  by (auto elim!: finish_body_job_row simp: js_set_retrying_def)

lemma markFailed_row:
  assumes "js_markFailed sch f e (cj_tenantId job) (cj_id job) w c m now d = (Inr (Some x), d')"
  shows "job_row job CFailed (\<lambda>r. cr_errorCode r = Some c) d'"
  using assms unfolding js_markFailed_def or_unavailable_Inr transaction_Inr
  by (auto elim!: finish_body_job_row simp: js_set_failed_def)

lemma markPermanentFailure_row:
  assumes "markPermanentFailure sch ca job m c d = (Inr u, d')"
  shows "job_row job CFailed (\<lambda>r. cr_errorCode r = Some c) d'"
  using assms by (auto simp: markPermanentFailure_def split: prod.splits sum.splits option.splits dest: markFailed_row)

definition outcome_recorded ::
  "exec_config \<Rightarrow> exec_call \<Rightarrow> leased_job \<Rightarrow> worker_error + processing_result \<Rightarrow> job_outcome \<Rightarrow> db \<Rightarrow> bool" where
  "outcome_recorded cfg ca job ending out d \<longleftrightarrow>
     (case out of
        JobDone \<Rightarrow> (\<exists>result. ending = Inr result \<and> job_row job CCompleted (\<lambda>r. cr_result r = Some result) d)
      | JobRetryLater \<Rightarrow> cj_attemptCount job < ec_maxAttempts cfg
          \<and> job_row job CRetrying (\<lambda>r. \<exists>t \<ge> ca_now ca. cr_nextAttemptAt r = Some t) d
      | JobFailedForGood \<Rightarrow> job_row job CFailed (\<lambda>r. cr_errorCode r \<noteq> None) d
      | JobLeaseLost \<Rightarrow> True
      | JobCancelledRun \<Rightarrow> True)"

lemma job_row_mono: "job_row job s p d \<Longrightarrow> (\<And>r. p r \<Longrightarrow> q r) \<Longrightarrow> job_row job s q d"
  by (auto simp: job_row_def)

lemma scheduleRetryOrFail_recorded:
  assumes "scheduleRetryOrFail sch cfg ca job m c d = (Inr out, d')"
  shows "outcome_recorded cfg ca job ending out d'"
proof (cases "evaluateRetry (cj_attemptCount job) (ca_now ca) True (ec_retryPolicy cfg) = NoRetry
    \<or> ec_maxAttempts cfg \<le> cj_attemptCount job")
  case True
  then have "\<exists>u. markPermanentFailure sch ca job (sanitizeErrorMessage m) (code_value WORKER_MAX_ATTEMPTS_EXCEEDED) d
      = (Inr u, d') \<and> (out = JobCancelledRun \<or> out = JobFailedForGood)"
    using assms by (auto simp: scheduleRetryOrFail_def Let_def split: prod.splits sum.splits retry_decision.splits if_splits)
  then show ?thesis
    using markPermanentFailure_row by (fastforce simp: outcome_recorded_def intro: job_row_mono)
next
  case False
  then obtain dl n where ev: "evaluateRetry (cj_attemptCount job) (ca_now ca) True (ec_retryPolicy cfg) = Retry dl n"
    by (cases "evaluateRetry (cj_attemptCount job) (ca_now ca) True (ec_retryPolicy cfg)") auto
  with False assms obtain x where sr: "js_scheduleRetry sch (ca_fault ca) (ca_evtId ca) (cj_tenantId job)
      (cj_id job) (lj_leaseOwner job) c (sanitizeErrorMessage m) n (ca_now ca) d = (Inr (Some x), d')"
      and out: "out = JobCancelledRun \<or> out = JobRetryLater"
    by (auto simp: scheduleRetryOrFail_def Let_def split: prod.splits sum.splits option.splits if_splits)
  have "ca_now ca \<le> n" using evaluateRetry_Retry [OF ev] by simp
  then show ?thesis using job_row_mono [OF scheduleRetry_row [OF sr]] out False
    by (auto simp: outcome_recorded_def)
qed

lemma exec_handle_recorded:
  assumes "exec_handle sch cfg ca job st error d = (Inr out, d')"
  shows "outcome_recorded cfg ca job ending out d'"
proof -
  obtain rt m c where cl: "classifyError error = (rt, m, c)" by (cases "classifyError error") auto
  from assms consider "out = JobLeaseLost \<or> out = JobCancelledRun"
    | "scheduleRetryOrFail sch cfg ca job m c d = (Inr out, d')"
    | u where "markPermanentFailure sch ca job m c d = (Inr u, d')" "out = JobFailedForGood"
    by (auto simp: exec_handle_def cl split: prod.splits sum.splits if_splits bool.splits)
  then show ?thesis
  proof cases
    case 2
    then show ?thesis by (rule scheduleRetryOrFail_recorded)
  next
    case 3
    then show ?thesis using job_row_mono [OF markPermanentFailure_row [OF 3(1)]]
      by (simp add: outcome_recorded_def)
  qed (auto simp: outcome_recorded_def)
qed

lemma exec_events_ending:
  "exec_events sch cfg job events ending st = (st', Inr result) \<Longrightarrow> ending = Inr result"
  by (induction events arbitrary: st) (auto split: prod.splits option.splits)

lemma execute_recorded:
  assumes "execute sch cfg ca1 ca2 job aborted events ending d = (Inr out, d')"
  shows "outcome_recorded cfg (if ec_hasProcessor cfg then ca2 else ca1) job ending out d'"
proof (cases "ec_hasProcessor cfg")
  case False
  with assms have "out = JobFailedForGood \<and> (\<exists>u. markPermanentFailure sch ca1 job
      ''Unsupported job type: transcript-processing'' (code_value WORKER_UNSUPPORTED_JOB_TYPE) d = (Inr u, d'))"
    by (auto simp: execute_def unsupportedJobTypeError_def split: prod.splits sum.splits)
  then show ?thesis using job_row_mono [OF markPermanentFailure_row]
    by (fastforce simp: outcome_recorded_def)
next
  case True
  obtain st end' where e: "exec_events sch cfg job events ending (exec_start aborted d) = (st, end')"
    by fastforce
  have f: "exec_finish sch cfg ca1 ca2 job st end' = (Inr out, d')"
    using assms True by (simp add: execute_def e split: prod.splits option.splits)
  show ?thesis
  proof (cases end')
    case (Inl error)
    then show ?thesis using f True exec_handle_recorded by (simp add: exec_finish_def)
  next
    case (Inr result)
    have en: "ending = Inr result" using e Inr by (simp add: exec_events_ending)
    from f Inr consider "out = JobLeaseLost"
      | err d1 where "exec_handle sch cfg ca2 job st err d1 = (Inr out, d')"
      | x where "js_markCompleted sch (ca_fault ca1) (ca_evtId ca1) (cj_tenantId job) (cj_id job)
          (lj_leaseOwner job) (Some result) (ca_now ca1) (es_db st) = (Inr (Some x), d')" "out = JobDone"
      by (auto simp: exec_finish_def split: if_splits prod.splits sum.splits option.splits)
    then show ?thesis
    proof cases
      case 2
      then show ?thesis using True exec_handle_recorded by simp
    next
      case 3
      then show ?thesis using markCompleted_row [OF 3(1)] en by (simp add: outcome_recorded_def)
    qed (simp add: outcome_recorded_def)
  qed
qed

text \<open>
  C10: The outcome an execution reports is what the table says.  \<open>completed\<close> is reported only
  when the job's row is completed with the processor's result; \<open>retry-scheduled\<close> only when
  the row is retrying, not before now, and the attempts were not used up; \<open>failed\<close> only when
  the row is failed with an error code.
\<close>

theorem execute_outcome_recorded:
  assumes "execute sch cfg ca1 ca2 job aborted events ending d = (Inr out, d')"
  shows "outcome_recorded cfg (if ec_hasProcessor cfg then ca2 else ca1) job ending out d'"
  by (rule execute_recorded [OF assms])

lemma execute_outcome_recorded_witness:
  "outcome_recorded (example_config 3) (example_call 61) example_job (Inr example_result) JobDone
     (snd (execute example_schemas (example_config 3) (example_call 60) (example_call 61) example_job False
        [Stage CSNormalizingTranscript 20 False, LoopBeat 30 False] (Inr example_result) example_db2))"
proof -
  have "fst (execute example_schemas (example_config 3) (example_call 60) (example_call 61) example_job False
      [Stage CSNormalizingTranscript 20 False, LoopBeat 30 False] (Inr example_result) example_db2) = Inr JobDone"
    by code_simp
  then have "execute example_schemas (example_config 3) (example_call 60) (example_call 61) example_job False
      [Stage CSNormalizingTranscript 20 False, LoopBeat 30 False] (Inr example_result) example_db2
    = (Inr JobDone, snd (execute example_schemas (example_config 3) (example_call 60) (example_call 61) example_job
      False [Stage CSNormalizingTranscript 20 False, LoopBeat 30 False] (Inr example_result) example_db2))"
    by (simp add: prod_eq_iff)
  from execute_outcome_recorded [OF this] show ?thesis by (simp add: example_config_def)
qed

text \<open>
  Executions give up in time.  When the attempts of the job are used up, no failure of
  the processor, retryable or not, is scheduled for another attempt.
\<close>

theorem execute_gives_up:
  assumes "ec_maxAttempts cfg \<le> cj_attemptCount job"
  shows "fst (execute sch cfg ca1 ca2 job aborted events ending d) \<noteq> Inr JobRetryLater"
proof
  assume "fst (execute sch cfg ca1 ca2 job aborted events ending d) = Inr JobRetryLater"
  then obtain d' where "execute sch cfg ca1 ca2 job aborted events ending d = (Inr JobRetryLater, d')"
    by (metis prod.collapse)
  from execute_recorded [OF this] assms show False by (simp add: outcome_recorded_def)
qed

lemma execute_gives_up_witness:
  "fst (execute example_schemas (example_config 1) (example_call 60) (example_call 61) example_job False []
     (Inl (RetryableWorkerError ''m'' ''c'')) example_db2) \<noteq> Inr JobRetryLater"
proof -
  have "ec_maxAttempts (example_config 1) \<le> cj_attemptCount example_job" by code_simp
  then show ?thesis by (rule execute_gives_up)
qed

text \<open>
  What the code does when a renewal of the background loop fails in the driver: the loop
  ends with the error, and the error replaces the outcome although the job was completed.
\<close>

lemma heartbeat_fault_masks_completion:
  "(case execute example_schemas (example_config 3) (example_call 60) (example_call 61) example_job False
        [LoopBeat 30 True] (Inr example_result) example_db2 of
      (Inl (PlatformThrown e), d') \<Rightarrow>
        perror_code e = DATABASE_UNAVAILABLE \<and> map cr_status (contentJobs d') = [CCompleted]
    | _ \<Rightarrow> False)"
  by code_simp

text \<open>
  What the code does when the lease runs out while a failure is handled: \<open>execute\<close> rejects
  with \<open>LeaseLostError\<close> instead of reporting \<open>lease-lost\<close>.
\<close>

lemma lease_lost_while_failing_rejects:
  "fst (execute example_schemas (example_config 3) (example_call 60) (example_call 500) example_job False []
     (Inl (PermanentWorkerError ''m'' ''c'')) example_db2) = Inl LeaseLostError"
  by code_simp

text \<open>
  The lease names the worker process, not the acquisition.  When the process acquires a job
  again after its own lease on it ran out (it runs several jobs at a time), the earlier
  execution is not fenced off: here it settles the job during the second attempt.
\<close>

definition example_reacquired :: "db \<Rightarrow> db" where
  "example_reacquired d = snd (js_acquireNext example_schemas False (\<lambda>_. False)
     (snd (js_recoverStaleJob example_schemas False d ''evt_3'' ''tenant_1'' ''job_1'' 5 210 200 d))
     ''evt_4'' ''w'' 100 300
     (snd (js_recoverStaleJob example_schemas False d ''evt_3'' ''tenant_1'' ''job_1'' 5 210 200 d)))"

lemma same_worker_not_fenced_off:
  "map cr_attemptCount (contentJobs (example_reacquired example_db2)) = [2]
   \<and> fst (execute example_schemas (example_config 3) (example_call 310) (example_call 311) example_job False
       [Others example_reacquired] (Inr example_result) example_db2) = Inr JobDone"
proof
  show "map cr_attemptCount (contentJobs (example_reacquired example_db2)) = [2]" by code_simp
  show "fst (execute example_schemas (example_config 3) (example_call 310) (example_call 311) example_job False
       [Others example_reacquired] (Inr example_result) example_db2) = Inr JobDone" by code_simp
qed

end
