(* ===== verification/StaleRecovery.thy ===== *)
theory StaleRecovery
  imports ContentLifecycle Retry
begin

text \<open>
  The periodic recovery of content jobs whose lease ran out
  (\<open>src/application/workers/stale-job-recovery.ts\<close>).  The statements of one run follow each
  other; \<open>fault\<close> says for which job the recovery fails in the driver, which ends the run.
\<close>

subsection \<open>One run\<close>

definition stale_next_attempt :: "retry_policy \<Rightarrow> int \<Rightarrow> time \<Rightarrow> time" where
  "stale_next_attempt policy attemptCount now = now + calculateRetryDelayMs (attemptCount + 1) policy"

fun recover_each ::
  "result_schemas \<Rightarrow> retry_policy \<Rightarrow> int \<Rightarrow> (string \<Rightarrow> bool) \<Rightarrow> (string \<Rightarrow> string) \<Rightarrow> time
     \<Rightarrow> leased_job list \<Rightarrow> nat \<Rightarrow> db \<Rightarrow> (platform_error + nat) \<times> db" where
  "recover_each sch policy limit fault evtId now [] recovered d = (Inr recovered, d)"
| "recover_each sch policy limit fault evtId now (stale # rest) recovered d =
     (case js_recoverStaleJob sch (fault (cj_id stale)) d (evtId (cj_id stale)) (cj_tenantId stale)
             (cj_id stale) limit (stale_next_attempt policy (cj_attemptCount stale) now) now d of
        (Inl e, d') \<Rightarrow> (Inl e, d')
      | (Inr None, d') \<Rightarrow> recover_each sch policy limit fault evtId now rest recovered d'
      | (Inr (Some updated), d') \<Rightarrow> recover_each sch policy limit fault evtId now rest (recovered + 1) d')"

definition runOnce ::
  "result_schemas \<Rightarrow> retry_policy \<Rightarrow> int \<Rightarrow> bool \<Rightarrow> (string \<Rightarrow> bool) \<Rightarrow> (string \<Rightarrow> string) \<Rightarrow> time \<Rightarrow> nat
     \<Rightarrow> db \<Rightarrow> (platform_error + nat) \<times> db" where
  "runOnce sch policy attemptLimit listFault fault evtId now limit d =
     (case js_listStaleProcessingJobs sch listFault now limit d of
        Inl e \<Rightarrow> (Inl e, d)
      | Inr staleJobs \<Rightarrow> recover_each sch policy attemptLimit fault evtId now staleJobs 0 d)"

subsection \<open>Recovering one job\<close>

lemma update_where_id:
  assumes "distinct (map k rows)" and "r \<in> set rows" and "p r" and "\<And>x. p x \<Longrightarrow> k x = k r"
  shows "update_where p f rows = map (\<lambda>x. if k x = k r then f x else x) rows"
  unfolding update_where_def
proof (rule map_cong [OF refl])
  fix x
  assume x: "x \<in> set rows"
  show "(if p x then f x else x) = (if k x = k r then f x else x)"
  proof (cases "k x = k r")
    case True
    then have "x = r" by (rule unique_key_eq [OF assms(1) x assms(2)])
    then show ?thesis using assms(3) by simp
  next
    case False
    then have "\<not> p x" using assms(4) [of x] by blast
    then show ?thesis using False by simp
  qed
qed

definition recovered_row :: "retry_policy \<Rightarrow> int \<Rightarrow> time \<Rightarrow> content_row \<Rightarrow> content_row" where
  "recovered_row policy limit now r =
     js_set_recovered (cr_attemptCount r \<ge> limit) (stale_next_attempt policy (cr_attemptCount r) now) now r"

lemma recover_found:
  assumes inv: "content_inv sch d" and r: "r \<in> set (contentJobs d)" "js_stale now r"
  shows "\<exists>j evs. js_recoverStaleJob sch False d evtId (cr_tenantId r) (cr_id r) limit
       (stale_next_attempt policy (cr_attemptCount r) now) now d
     = (Inr (Some j), d\<lparr>contentJobs := map (\<lambda>x. if cr_id x = cr_id r then recovered_row policy limit now x else x)
          (contentJobs d), jobEvents := evs\<rparr>)"
proof -
  let ?g = "\<lambda>x. cr_id x = cr_id r \<and> cr_tenantId x = cr_tenantId r \<and> js_stale now x"
  have d: "distinct (map cr_id (contentJobs d))" using inv by (simp add: content_inv_def)
  have f: "find ?g (contentJobs d) = Some r"
    by (rule find_unique [OF d r(1)]) (use r in auto)
  have ok: "content_row_ok sch r" using inv r by (simp add: content_inv_def list_all_iff)
  let ?f = "js_set_recovered (limit \<le> cr_attemptCount r) (stale_next_attempt policy (cr_attemptCount r) now) now"
  have m: "pred_option (transcriptProcessingResultSchema sch) (cr_result (?f r))"
    using ok by (simp add: js_set_recovered_def content_row_ok_def content_outcome_ok_def)
  have u: "update_where ?g ?f (contentJobs d)
      = map (\<lambda>x. if cr_id x = cr_id r then recovered_row policy limit now x else x) (contentJobs d)"
  proof -
    have "update_where ?g ?f (contentJobs d) = map (\<lambda>x. if cr_id x = cr_id r then ?f x else x) (contentJobs d)"
      by (rule update_where_id [OF d r(1)]) (use r in auto)
    also have "\<dots> = map (\<lambda>x. if cr_id x = cr_id r then recovered_row policy limit now x else x) (contentJobs d)"
      using unique_key_eq [OF d _ r(1)] by (auto simp: recovered_row_def)
    finally show ?thesis .
  qed
  show ?thesis
    using f m u
    by (simp add: js_recoverStaleJob_def js_recover_body_def find_first_def update_returning_def Let_def
        content_commit_def mapContentJob_def or_unavailable_def) (intro conjI impI exI; rule refl)
qed

lemma recover_inv:
  assumes "content_inv sch d" and "js_recoverStaleJob sch fault d evtId t j limit next now d = (r, d')"
  shows "content_inv sch d'"
proof -
  have "content_step (\<lambda>s. s) (\<lambda>s. length s) sch None now d
      (snd (js_recoverStaleJob sch fault d evtId t j limit next now d))"
    by (rule content_step.recover)
  from content_step_inv [OF this assms(1)] assms(2) show ?thesis by simp
qed

subsection \<open>A run of the recovery\<close>

definition stands_for :: "leased_job \<Rightarrow> content_row \<Rightarrow> bool" where
  "stands_for j r \<longleftrightarrow> cj_id j = cr_id r \<and> cj_tenantId j = cr_tenantId r \<and> cj_attemptCount j = cr_attemptCount r"

lemma recover_each_all:
  assumes "content_inv sch d" and "distinct (map cj_id js)"
    and "\<forall>j \<in> set js. \<exists>r \<in> set (contentJobs d). js_stale now r \<and> stands_for j r"
  shows "\<exists>d'. recover_each sch policy limit (\<lambda>_. False) evtId now js n d = (Inr (n + length js), d')
     \<and> contentJobs d' = map (\<lambda>x. if cr_id x \<in> cj_id ` set js then recovered_row policy limit now x else x)
         (contentJobs d)"
  using assms
proof (induction js arbitrary: n d)
  case (Cons j js)
  from Cons.prems(3) obtain r where r: "r \<in> set (contentJobs d)" "js_stale now r" "stands_for j r" by auto
  from recover_found [OF Cons.prems(1) r(1,2), of "evtId (cj_id j)" limit policy] obtain x evs where
    rec: "js_recoverStaleJob sch False d (evtId (cj_id j)) (cj_tenantId j) (cj_id j) limit
        (stale_next_attempt policy (cj_attemptCount j) now) now d = (Inr (Some x), d\<lparr>contentJobs :=
          map (\<lambda>x. if cr_id x = cj_id j then recovered_row policy limit now x else x) (contentJobs d),
          jobEvents := evs\<rparr>)"
    using r(3) by (auto simp: stands_for_def)
  define d1 where "d1 = d\<lparr>contentJobs := map (\<lambda>x. if cr_id x = cj_id j then recovered_row policy limit now x else x)
      (contentJobs d), jobEvents := evs\<rparr>"
  have keep: "y \<in> set (contentJobs d1)" if "y \<in> set (contentJobs d)" "cr_id y \<noteq> cj_id j" for y
    using that by (auto simp: d1_def intro!: image_eqI [of _ _ y])
  have "\<exists>r \<in> set (contentJobs d1). js_stale now r \<and> stands_for j' r" if j': "j' \<in> set js" for j'
  proof -
    from Cons.prems(3) j' obtain r' where r': "r' \<in> set (contentJobs d)" "js_stale now r'" "stands_for j' r'" by auto
    have "cj_id j' \<in> cj_id ` set js" using j' by (rule imageI)
    then have "cj_id j' \<noteq> cj_id j" using Cons.prems(2) by auto
    then show ?thesis using keep [OF r'(1)] r' by (auto simp: stands_for_def)
  qed
  moreover have "content_inv sch d1"
    using recover_inv [OF Cons.prems(1) rec] by (simp add: d1_def)
  ultimately obtain d' where d': "recover_each sch policy limit (\<lambda>_. False) evtId now js (Suc n) d1
        = (Inr (Suc n + length js), d')"
      "contentJobs d' = map (\<lambda>x. if cr_id x \<in> cj_id ` set js then recovered_row policy limit now x else x)
         (contentJobs d1)"
    using Cons.IH [of d1 "Suc n"] Cons.prems(2) by auto
  have "contentJobs d' = map (\<lambda>x. if cr_id x \<in> cj_id ` set (j # js) then recovered_row policy limit now x else x)
      (contentJobs d)"
    using Cons.prems(2) unfolding d'(2) by (auto simp: d1_def recovered_row_def)
  then show ?case using rec d'(1) by (simp add: d1_def)
qed simp

lemma map_leased_stands:
  assumes "\<forall>r \<in> set rows. content_row_ok sch r \<and> cr_status r = CProcessing"
  shows "\<exists>js. map_leased sch rows = Inr js \<and> list_all2 stands_for js rows"
  using assms
proof (induction rows)
  case (Cons r rows)
  then obtain js where js: "map_leased sch rows = Inr js" "list_all2 stands_for js rows" by auto
  from Cons.prems have "\<exists>j. mapWorkerLeasedJob sch r = Inr j \<and> stands_for j r"
    by (auto simp: mapWorkerLeasedJob_def mapContentJob_def content_ok_defs stands_for_def
        content_job.extend_def content_job_of_def split: option.splits)
  then show ?case using js by auto
qed simp

lemma list_all2_ids: "list_all2 stands_for js rows \<Longrightarrow> map cj_id js = map cr_id rows"
  by (induction rule: list_all2_induct) (auto simp: stands_for_def)

text \<open>The rows one run takes on: the stale ones whose leases ended first.\<close>

definition stale_batch :: "time \<Rightarrow> nat \<Rightarrow> db \<Rightarrow> content_row list" where
  "stale_batch now limit d =
     order_limit (\<lambda>r. nulls_last (cr_leaseExpiresAt r)) (js_stale now) limit (contentJobs d)"

lemma runOnce_batch:
  assumes inv: "content_inv sch d"
  shows "\<exists>d'. runOnce sch policy attemptLimit False (\<lambda>_. False) evtId now limit d
       = (Inr (length (stale_batch now limit d)), d')
     \<and> contentJobs d' = map (\<lambda>x. if x \<in> set (stale_batch now limit d)
           then recovered_row policy attemptLimit now x else x) (contentJobs d)"
proof -
  let ?b = "stale_batch now limit d"
  have mem: "r \<in> set (contentJobs d) \<and> js_stale now r" if "r \<in> set ?b" for r
    using that unfolding stale_batch_def by (rule order_limit_mem)
  have "cr_leaseExpiresAt r \<noteq> None" if "r \<in> set ?b" for r
    using mem [OF that] by (auto simp: js_stale_def split: option.splits)
  then have fil: "filter (\<lambda>r. cr_leaseExpiresAt r \<noteq> None) ?b = ?b"
    by (simp add: filter_id_conv)
  have dc: "distinct (map cr_id (contentJobs d))" using inv by (simp add: content_inv_def)
  have db: "distinct (map cr_id ?b)"
  proof -
    have "distinct (map cr_id (filter (js_stale now) (contentJobs d)))"
      using dc by (simp add: distinct_map_filter)
    then have "distinct (map cr_id (sort_key (\<lambda>r. nulls_last (cr_leaseExpiresAt r))
        (filter (js_stale now) (contentJobs d))))"
      by (simp add: distinct_map)
    then show ?thesis by (simp add: stale_batch_def order_limit_def take_map distinct_take flip: take_map)
  qed
  have "\<forall>r \<in> set ?b. content_row_ok sch r \<and> cr_status r = CProcessing"
    using mem inv by (auto simp: content_inv_def list_all_iff js_stale_def)
  from map_leased_stands [OF this] obtain js where js: "map_leased sch ?b = Inr js" "list_all2 stands_for js ?b"
    by blast
  have ids: "map cj_id js = map cr_id ?b" and len: "length js = length ?b"
    using list_all2_ids [OF js(2)] list_all2_lengthD [OF js(2)] by auto
  have "\<forall>j \<in> set js. \<exists>r \<in> set (contentJobs d). js_stale now r \<and> stands_for j r"
    using js(2) mem by (metis in_set_conv_nth list_all2_conv_all_nth)
  from recover_each_all [OF inv _ this, of policy attemptLimit evtId 0] obtain d' where d':
    "recover_each sch policy attemptLimit (\<lambda>_. False) evtId now js 0 d = (Inr (length js), d')"
    "contentJobs d' = map (\<lambda>x. if cr_id x \<in> cj_id ` set js then recovered_row policy attemptLimit now x else x)
       (contentJobs d)"
    using db ids by auto
  have "cj_id ` set js = cr_id ` set ?b" using arg_cong [OF ids, where f = set] by simp
  then have "cr_id x \<in> cj_id ` set js \<longleftrightarrow> x \<in> set ?b" if "x \<in> set (contentJobs d)" for x
    using unique_key_eq [OF dc that] mem by auto
  then have "contentJobs d' = map (\<lambda>x. if x \<in> set ?b then recovered_row policy attemptLimit now x else x)
      (contentJobs d)"
    unfolding d'(2) by (intro map_cong refl) simp
  moreover have "js_listStaleProcessingJobs sch False now limit d = Inr js"
    using js(1) fil by (simp add: js_listStaleProcessingJobs_def stale_batch_def)
  ultimately show ?thesis using d'(1) len by (simp add: runOnce_def)
qed

text \<open>
  One run of the recovery, exactly.  In a consistent database, without interference or
  failures, it takes on the stale jobs whose leases ended first, at most \<open>limit\<close> of them, and
  reports their number; each of them becomes failed when its attempts are used up and
  otherwise retrying with the delay of its attempt count; every other row stays as it is.
\<close>

theorem recovery_run_exact:
  assumes "content_inv sch d"
  shows "\<exists>d'. runOnce sch policy attemptLimit False (\<lambda>_. False) evtId now limit d
       = (Inr (length (stale_batch now limit d)), d')
     \<and> contentJobs d' = map (\<lambda>x. if x \<in> set (stale_batch now limit d)
           then recovered_row policy attemptLimit now x else x) (contentJobs d)"
  by (rule runOnce_batch [OF assms])

lemma recovery_run_exact_witness:
  "\<exists>d'. runOnce example_schemas \<lparr>baseDelayMs = 10, maxDelayMs = 50, maxAttempts = 3, jitterRatio = None,
        random = 0\<rparr> 3 False (\<lambda>_. False) (\<lambda>i. ''evt_'' @ i) 200 50 example_db2
       = (Inr (length (stale_batch 200 50 example_db2)), d')
     \<and> contentJobs d' = map (\<lambda>x. if x \<in> set (stale_batch 200 50 example_db2)
           then recovered_row \<lparr>baseDelayMs = 10, maxDelayMs = 50, maxAttempts = 3, jitterRatio = None,
        random = 0\<rparr> 3 200 x else x) (contentJobs example_db2)"
  by (rule recovery_run_exact) (use content_run_table [OF example_run2 content_inv_empty] in blast)

text \<open>
  recovery leaves nothing behind.  When the limit covers the stale jobs, none is stale
  after the run.
\<close>

theorem recovery_clears_stale:
  assumes inv: "content_inv sch d" and lim: "length (filter (js_stale now) (contentJobs d)) \<le> limit"
    and run: "runOnce sch policy attemptLimit False (\<lambda>_. False) evtId now limit d = (res, d')"
  shows "filter (js_stale now) (contentJobs d') = []"
proof -
  have "set (stale_batch now limit d) = set (filter (js_stale now) (contentJobs d))"
    using lim by (simp add: stale_batch_def order_limit_def)
  then have "contentJobs d' = map (\<lambda>x. if x \<in> set (filter (js_stale now) (contentJobs d))
      then recovered_row policy attemptLimit now x else x) (contentJobs d)"
    using runOnce_batch [OF inv, of policy attemptLimit evtId now limit] run by auto
  moreover have "\<not> js_stale now (recovered_row policy attemptLimit now x)" for x
    by (simp add: js_stale_def recovered_row_def)
  ultimately show ?thesis by (auto simp: filter_empty_conv)
qed

lemma recovery_clears_stale_witness:
  "filter (js_stale 200) (contentJobs (snd (runOnce example_schemas \<lparr>baseDelayMs = 10, maxDelayMs = 50,
     maxAttempts = 3, jitterRatio = None, random = 0\<rparr> 3 False (\<lambda>_. False) (\<lambda>i. ''evt_'' @ i) 200 50 example_db2))) = []"
proof (rule recovery_clears_stale [OF _ _ prod.collapse [symmetric]])
  show "content_inv example_schemas example_db2"
    using content_run_table [OF example_run2 content_inv_empty] by blast
  have "length (contentJobs example_db2) = 1" using example_rows(1) by (metis length_Cons list.size(3) One_nat_def)
  then show "length (filter (js_stale 200) (contentJobs example_db2)) \<le> 50"
    using length_filter_le [of "js_stale 200" "contentJobs example_db2"] by simp
qed

end
