(* ===== verification/EngineClient.thy ===== *)
theory EngineClient
  imports PublishSource Texts
begin

text \<open>
  The HTTP client of the Publish Engine
  (\<open>src/infrastructure/publish-engine/http-publish-engine-client.ts\<close>) with the schemas of
  its messages (\<open>src/infrastructure/publish-engine/publish-engine-schemas.ts\<close>).

  The platform the client runs on is a record of functions: \<open>fetch\<close>, the token provider,
  the JSON parser, the URL and date checks of the libraries.  Time is what the clock
  showed when the code read it.  The functions give back the calls they made as well, so
  that what reaches the engine can be stated.
\<close>

subsection \<open>Schemas of the engine's messages\<close>

datatype engine_state = EQueued | EAccepted | ERunning | EProcessing | ESucceeded | EFailed | ECancelled

fun engine_state_name :: "engine_state \<Rightarrow> string" where
  "engine_state_name EQueued = ''queued''"
| "engine_state_name EAccepted = ''accepted''"
| "engine_state_name ERunning = ''running''"
| "engine_state_name EProcessing = ''processing''"
| "engine_state_name ESucceeded = ''succeeded''"
| "engine_state_name EFailed = ''failed''"
| "engine_state_name ECancelled = ''cancelled''"

definition engine_states :: "engine_state list" where
  "engine_states = [EQueued, EAccepted, ERunning, EProcessing, ESucceeded, EFailed, ECancelled]"

record engine_job_error =
  eje_code :: string
  eje_message :: string
  eje_correlationId :: "string option"

record engine_job =
  ej_jobId :: string
  ej_state :: engine_state
  ej_outputFormat :: output_format
  ej_correlationId :: "string option"
  ej_createdAt :: "string option"
  ej_updatedAt :: "string option"
  ej_error :: "engine_job_error option"

record engine_download =
  ed_jobId :: string
  ed_fileName :: string
  ed_mimeType :: string
  ed_byteSize :: "int option"
  ed_checksumSha256 :: "string option"
  ed_downloadUrl :: "string option"
  ed_expiresAt :: "string option"

text \<open>The library checks: \<open>z.iso.datetime\<close> and \<open>new URL\<close> (protocol and host of a URL).\<close>

record checks =
  ck_datetime :: "string \<Rightarrow> bool"
  ck_url :: "string \<Rightarrow> (string \<times> string) option"

text \<open>\<open>/^[A-Za-z0-9][A-Za-z0-9_-]{0,119}$/\<close>\<close>

definition publishEngineJobIdSchema :: "string \<Rightarrow> bool" where
  "publishEngineJobIdSchema s \<longleftrightarrow>
     s \<noteq> [] \<and> length s \<le> 120 \<and> alnum (hd s)
     \<and> list_all (\<lambda>c. alnum c \<or> c = CHR ''_'' \<or> c = CHR ''-'') (tl s)"

text \<open>Correlation IDs and idempotency keys: safe for a header and without surrounding white space.\<close>

definition publishEngineHeaderSchema :: "string \<Rightarrow> bool" where
  "publishEngineHeaderSchema s \<longleftrightarrow>
     s \<noteq> [] \<and> length s \<le> 200 \<and> list_all (\<lambda>c. \<not> control_char c) s \<and> js_trim s = s"

text \<open>
  A strict object schema reads its fields from an object with no other keys.  A field is
  \<open>None\<close> when it is absent; a schema that does not fit gives \<open>None\<close> as a whole.
\<close>

definition strict_object :: "string list \<Rightarrow> json \<Rightarrow> (string \<rightharpoonup> json) option" where
  "strict_object keys v =
     (case v of JObj entries \<Rightarrow>
        if list_all (\<lambda>(k, _). k \<in> set keys) entries then Some (map_of entries) else None
      | _ \<Rightarrow> None)"

fun json_string :: "json \<Rightarrow> string option" where
  "json_string (JStr s) = Some s"
| "json_string _ = None"

definition required :: "(json \<Rightarrow> 'a option) \<Rightarrow> json option \<Rightarrow> 'a option" where
  "required parse v = Option.bind v parse"

definition optional :: "(json \<Rightarrow> 'a option) \<Rightarrow> json option \<Rightarrow> 'a option option" where
  "optional parse v = (case v of None \<Rightarrow> Some None | Some x \<Rightarrow> map_option Some (parse x))"

definition string_where :: "(string \<Rightarrow> bool) \<Rightarrow> json \<Rightarrow> string option" where
  "string_where p v = (case json_string v of Some s \<Rightarrow> if p s then Some s else None | None \<Rightarrow> None)"

text \<open>\<open>z.string().trim().min(lo).max(hi)\<close>\<close>

definition trimmed_string :: "nat \<Rightarrow> nat \<Rightarrow> json \<Rightarrow> string option" where
  "trimmed_string lo hi v =
     (case json_string v of
        Some s \<Rightarrow> let t = js_trim s in if lo \<le> length t \<and> length t \<le> hi then Some t else None
      | None \<Rightarrow> None)"

definition positive_int :: "json \<Rightarrow> int option" where
  "positive_int v = (case v of JNum n \<Rightarrow> if n > 0 then Some n else None | _ \<Rightarrow> None)"

definition json_state :: "json \<Rightarrow> engine_state option" where
  "json_state v = Option.bind (json_string v) (\<lambda>s. find (\<lambda>x. engine_state_name x = s) engine_states)"

definition json_format :: "json \<Rightarrow> output_format option" where
  "json_format v = Option.bind (json_string v) (\<lambda>s. find (\<lambda>x. output_format_name x = s) [Html, Pdf, Epub])"

definition publishEngineJobErrorSchema :: "json \<Rightarrow> engine_job_error option" where
  "publishEngineJobErrorSchema v =
     Option.bind (strict_object [''code'', ''message'', ''correlationId''] v) (\<lambda>get.
     Option.bind (required (trimmed_string 1 120) (get ''code'')) (\<lambda>c.
     Option.bind (required (trimmed_string 1 2000) (get ''message'')) (\<lambda>m.
     Option.bind (optional (string_where publishEngineHeaderSchema) (get ''correlationId'')) (\<lambda>corr.
       Some \<lparr>eje_code = c, eje_message = m, eje_correlationId = corr\<rparr>))))"

definition publishEngineJobSchema :: "checks \<Rightarrow> json \<Rightarrow> engine_job option" where
  "publishEngineJobSchema ck v =
     Option.bind (strict_object [''jobId'', ''state'', ''outputFormat'', ''correlationId'', ''createdAt'',
                                 ''updatedAt'', ''error''] v) (\<lambda>get.
     Option.bind (required (string_where publishEngineJobIdSchema) (get ''jobId'')) (\<lambda>i.
     Option.bind (required json_state (get ''state'')) (\<lambda>st.
     Option.bind (required json_format (get ''outputFormat'')) (\<lambda>f.
     Option.bind (optional (string_where publishEngineHeaderSchema) (get ''correlationId'')) (\<lambda>corr.
     Option.bind (optional (string_where (ck_datetime ck)) (get ''createdAt'')) (\<lambda>ca.
     Option.bind (optional (string_where (ck_datetime ck)) (get ''updatedAt'')) (\<lambda>ua.
     Option.bind (optional publishEngineJobErrorSchema (get ''error'')) (\<lambda>err.
       Some \<lparr>ej_jobId = i, ej_state = st, ej_outputFormat = f, ej_correlationId = corr, ej_createdAt = ca,
             ej_updatedAt = ua, ej_error = err\<rparr>))))))))"

text \<open>A download URL uses HTTPS, or HTTP on the loopback hosts.\<close>

definition download_url_ok :: "checks \<Rightarrow> string \<Rightarrow> bool" where
  "download_url_ok ck u =
     (case ck_url ck u of
        None \<Rightarrow> False
      | Some (protocol, host) \<Rightarrow>
          protocol = ''https:''
          \<or> (protocol = ''http:'' \<and> host \<in> {''localhost'', ''127.0.0.1'', ''::1''}))"

definition publishEngineDownloadSchema :: "checks \<Rightarrow> json \<Rightarrow> engine_download option" where
  "publishEngineDownloadSchema ck v =
     Option.bind (strict_object [''jobId'', ''fileName'', ''mimeType'', ''byteSize'', ''checksumSha256'',
                                 ''downloadUrl'', ''expiresAt''] v) (\<lambda>get.
     Option.bind (required (string_where publishEngineJobIdSchema) (get ''jobId'')) (\<lambda>i.
     Option.bind (required (trimmed_string 1 512) (get ''fileName'')) (\<lambda>fn.
     Option.bind (required (trimmed_string 1 200) (get ''mimeType'')) (\<lambda>mt.
     Option.bind (optional positive_int (get ''byteSize'')) (\<lambda>bs.
     Option.bind (optional (string_where is_checksum) (get ''checksumSha256'')) (\<lambda>cs.
     Option.bind (optional (string_where (download_url_ok ck)) (get ''downloadUrl'')) (\<lambda>url.
     Option.bind (optional (string_where (ck_datetime ck)) (get ''expiresAt'')) (\<lambda>ex.
       Some \<lparr>ed_jobId = i, ed_fileName = fn, ed_mimeType = mt, ed_byteSize = bs, ed_checksumSha256 = cs,
             ed_downloadUrl = url, ed_expiresAt = ex\<rparr>))))))))"

definition publishEngineRemoteErrorBodySchema :: "json \<Rightarrow> engine_job_error option" where
  "publishEngineRemoteErrorBodySchema v =
     Option.bind (strict_object [''code'', ''message'', ''correlationId''] v) (\<lambda>get.
     Option.bind (required (trimmed_string 1 120) (get ''code'')) (\<lambda>c.
     Option.bind (required (trimmed_string 1 4000) (get ''message'')) (\<lambda>m.
     Option.bind (optional (string_where publishEngineHeaderSchema) (get ''correlationId'')) (\<lambda>corr.
       Some \<lparr>eje_code = c, eje_message = m, eje_correlationId = corr\<rparr>))))"

subsection \<open>One request\<close>

text \<open>
  The options object a caller gives: the options of a request, and those of
  \<open>waitForJob\<close>.  The schema of a request's options is strict: it refuses an object that
  has the other two.
\<close>

record request_options =
  op_idempotencyKey :: "string option"
  op_correlationId :: "string option"
  op_timeoutMs :: "int option"
  op_pollIntervalMs :: "int option"
  op_maxWaitMs :: "int option"

definition request_options_fields_ok :: "request_options \<Rightarrow> bool" where
  "request_options_fields_ok opts \<longleftrightarrow>
     pred_option publishEngineHeaderSchema (op_idempotencyKey opts)
     \<and> pred_option publishEngineHeaderSchema (op_correlationId opts)
     \<and> pred_option (\<lambda>t. 0 < t \<and> t \<le> 300000) (op_timeoutMs opts)"

definition normalizeJobId :: "string \<Rightarrow> publish_fault + string" where
  "normalizeJobId jobId =
     (if publishEngineJobIdSchema jobId then Inr jobId
      else Inl (EngineFault (ProtocolError ''Publish Engine job ID is invalid.'')))"

definition normalizeRequestOptions :: "request_options \<Rightarrow> publish_fault + request_options" where
  "normalizeRequestOptions opts =
     (if request_options_fields_ok opts \<and> op_pollIntervalMs opts = None \<and> op_maxWaitMs opts = None
      then Inr opts
      else Inl (EngineFault (ProtocolError ''Publish Engine request options are invalid.'')))"

definition normalizeWaitOptions :: "request_options \<Rightarrow> publish_fault + request_options" where
  "normalizeWaitOptions opts =
     (if request_options_fields_ok opts
         \<and> pred_option (\<lambda>t. 0 < t \<and> t \<le> 60000) (op_pollIntervalMs opts)
         \<and> pred_option (\<lambda>t. 0 < t \<and> t \<le> 3600000) (op_maxWaitMs opts)
      then Inr opts
      else Inl (EngineFault (ProtocolError ''Publish Engine wait options are invalid.'')))"

datatype http_method = GET | POST

record http_request =
  hq_method :: http_method
  hq_path :: string
  hq_headers :: "(string \<times> string) list"
  hq_body :: "json option"

text \<open>
  What \<open>fetch\<close> may do: reject with an error (and then the controller knows whether the
  caller cancelled or the time ran out), or answer.  Reading the text of an answer may
  itself fail.
\<close>

record fetch_error =
  fe_isError :: bool
  fe_name :: string
  fe_message :: string
  fe_code :: "string option"
  fe_didCancel :: bool
  fe_didTimeout :: bool

record http_response =
  hs_status :: int
  hs_retryAfter :: "string option"
  hs_text :: "string + string"

datatype fetch_answer = Rejected fetch_error | Answered http_response

datatype token_answer = TokenIs string | TokenAuthError string | TokenFailed

definition isAbortError :: "fetch_error \<Rightarrow> bool" where
  "isAbortError e \<longleftrightarrow> fe_isError e \<and> (fe_name e = ''AbortError'' \<or> matches_i ''abort'' (fe_message e))"

definition isRetryableNetworkError :: "fetch_error \<Rightarrow> bool" where
  "isRetryableNetworkError e \<longleftrightarrow>
     fe_isError e
     \<and> ((case fe_code e of None \<Rightarrow> False | Some c \<Rightarrow>
           c \<in> {''ECONNRESET'', ''ECONNREFUSED'', ''EHOSTUNREACH'', ''ENETDOWN'', ''ENETUNREACH'', ''ETIMEDOUT''})
        \<or> list_ex (\<lambda>w. matches_i w (fe_message e))
            [''network'', ''socket'', ''timeout'', ''timed out'', ''connection''])"

definition validateToken :: "string \<Rightarrow> engine_error + string" where
  "validateToken token =
     (let normalized = js_trim token in
      if normalized = [] then Inl (AuthenticationError ''Publish Engine access token is empty.'')
      else if list_ex control_char normalized
      then Inl (AuthenticationError ''Publish Engine access token contains invalid control characters.'')
      else if normalized \<noteq> token
      then Inl (AuthenticationError ''Publish Engine access token must not contain surrounding whitespace.'')
      else Inr normalized)"

definition acquireAccessToken :: "token_answer \<Rightarrow> engine_error + string" where
  "acquireAccessToken answer =
     (case answer of
        TokenIs token \<Rightarrow> validateToken token
      | TokenAuthError m \<Rightarrow> Inl (AuthenticationError m)
      | TokenFailed \<Rightarrow> Inl (AuthenticationError ''Publish Engine access token acquisition failed.''))"

definition parseJsonBody :: "(string \<Rightarrow> json option) \<Rightarrow> http_response \<Rightarrow> publish_fault + json" where
  "parseJsonBody parseJson response =
     (case hs_text response of
        Inl m \<Rightarrow> Inl (ErrorFault m)
      | Inr raw \<Rightarrow>
          if js_trim raw = [] then Inr JNull
          else (case parseJson raw of
              None \<Rightarrow> Inl (EngineFault (ProtocolError ''Publish Engine response body is not valid JSON.''))
            | Some v \<Rightarrow> Inr v))"

definition parseRemoteErrorBody :: "(string \<Rightarrow> json option) \<Rightarrow> http_response \<Rightarrow> engine_job_error option" where
  "parseRemoteErrorBody parseJson response =
     (case parseJsonBody parseJson response of
        Inl e \<Rightarrow> None
      | Inr v \<Rightarrow> publishEngineRemoteErrorBodySchema v)"

record 'a request =
  rq_method :: http_method
  rq_path :: string
  rq_body :: "json option"
  rq_options :: request_options
  rq_parseSuccess :: "json \<Rightarrow> publish_fault + 'a"

definition request_headers :: "'a request \<Rightarrow> string \<Rightarrow> (string \<times> string) list" where
  "request_headers rq token =
     [(''authorization'', ''Bearer '' @ token), (''accept'', ''application/json'')]
     @ (if rq_method rq = POST then [(''content-type'', ''application/json'')] else [])
     @ (case op_idempotencyKey (rq_options rq) of
          Some k \<Rightarrow> if k \<noteq> [] then [(''idempotency-key'', k)] else [] | None \<Rightarrow> [])
     @ (case op_correlationId (rq_options rq) of
          Some c \<Rightarrow> if c \<noteq> [] then [(''x-correlation-id'', c)] else [] | None \<Rightarrow> [])"

definition fetch_failure :: "fetch_error \<Rightarrow> engine_error" where
  "fetch_failure e =
     (if fe_didCancel e then EngineCancelledError ''Publish Engine request was cancelled by caller.''
      else if fe_didTimeout e then EngineTimeoutError ''Publish Engine request timed out.''
      else if isAbortError e then EngineCancelledError ''Publish Engine request was aborted.''
      else if isRetryableNetworkError e then TransportError ''Publish Engine transport failure occurred.''
      else TransportError ''Publish Engine transport request failed.'')"

definition response_result ::
  "(string \<Rightarrow> json option) \<Rightarrow> (json \<Rightarrow> publish_fault + 'a) \<Rightarrow> http_response \<Rightarrow> publish_fault + 'a" where
  "response_result parseJson parseSuccess response =
     (if 200 \<le> hs_status response \<and> hs_status response < 300 then
        (case parseJsonBody parseJson response of Inl e \<Rightarrow> Inl e | Inr v \<Rightarrow> parseSuccess v)
      else
        let body = parseRemoteErrorBody parseJson response;
            status = hs_status response
        in if status = 401 then Inl (EngineFault (AuthenticationError ''Publish Engine authentication failed.''))
           else if status = 409 \<and> map_option eje_code body = Some ''IDEMPOTENCY_CONFLICT''
           then Inl (EngineFault (IdempotencyConflictError ''Publish Engine idempotency conflict.''))
           else Inl (EngineFault (RemoteRequestError ''Publish Engine request failed.'' status
                                    (hs_retryAfter response))))"

text \<open>The platform: what \<open>fetch\<close> answers at an attempt and with a time limit, and the rest.\<close>

record platform =
  pf_fetch :: "nat \<Rightarrow> http_request \<Rightarrow> int \<Rightarrow> fetch_answer"
  pf_token :: "nat \<Rightarrow> token_answer"
  pf_onOrigin :: "string \<Rightarrow> bool"
  pf_parseJson :: "string \<Rightarrow> json option"
  pf_toNumber :: "string \<Rightarrow> rat option"
  pf_parseDate :: "string \<Rightarrow> time option"
  pf_start :: time
  pf_now :: "nat \<Rightarrow> time"
  pf_nowAfter :: "nat \<Rightarrow> time"
  pf_nowHeader :: "nat \<Rightarrow> time"
  pf_random :: "nat \<Rightarrow> rat"

text \<open>A call carries its time limit.\<close>

datatype client_call = Sent http_request int | Slept int

definition performHttpRequest ::
  "platform \<Rightarrow> 'a request \<Rightarrow> int \<Rightarrow> nat \<Rightarrow> (publish_fault + 'a) \<times> client_call list" where
  "performHttpRequest pf rq timeoutMs attempt =
     (case acquireAccessToken (pf_token pf attempt) of
        Inl e \<Rightarrow> (Inl (EngineFault e), [])
      | Inr token \<Rightarrow>
          if \<not> pf_onOrigin pf (rq_path rq) then
            (Inl (EngineFault (ProtocolError
               ''Publish Engine endpoint resolution escaped the configured origin.'')), [])
          else
            let req = \<lparr>hq_method = rq_method rq, hq_path = rq_path rq,
                       hq_headers = request_headers rq token, hq_body = rq_body rq\<rparr>
            in (case pf_fetch pf attempt req timeoutMs of
                  Rejected e \<Rightarrow> Inl (EngineFault (fetch_failure e))
                | Answered response \<Rightarrow> response_result (pf_parseJson pf) (rq_parseSuccess rq) response,
                [Sent req timeoutMs]))"

end
