(* ===== verification/EngineCalls.thy ===== *)
theory EngineCalls
  imports EngineClient
begin

text \<open>
  The operations of the Publish Engine client
  (\<open>src/infrastructure/publish-engine/http-publish-engine-client.ts\<close>): the retry loop around
  one request, the four operations built on it and \<open>waitForJob\<close>.

  An operation gives its result and the calls it made, in order: the requests sent with
  their time limits, and the pauses.  The retry loop ends because its attempts are
  numbered up to a limit; the loop of \<open>waitForJob\<close> is a partial function, whose value
  \<open>None\<close> would be a wait without end.
\<close>

subsection \<open>Configuration and the retry decision\<close>

record engine_config =
  ec_requestTimeoutMs :: int
  ec_pollIntervalMs :: int
  ec_maxWaitMs :: int
  ec_maxRetries :: int
  ec_retryBaseDelayMs :: int
  ec_retryMaxDelayMs :: int
  ec_retryJitterRatio :: rat

record retry_classification =
  rt_retryable :: bool
  rt_retryAfterHeader :: "string option"

definition classifyRetry :: "publish_fault \<Rightarrow> retry_context \<Rightarrow> retry_classification" where
  "classifyRetry error context =
     (case error of
        EngineFault e \<Rightarrow>
          (case e of
             IdempotencyConflictError m \<Rightarrow> \<lparr>rt_retryable = False, rt_retryAfterHeader = None\<rparr>
           | ProtocolError m \<Rightarrow> \<lparr>rt_retryable = False, rt_retryAfterHeader = None\<rparr>
           | AuthenticationError m \<Rightarrow> \<lparr>rt_retryable = False, rt_retryAfterHeader = None\<rparr>
           | EngineCancelledError m \<Rightarrow> \<lparr>rt_retryable = False, rt_retryAfterHeader = None\<rparr>
           | RemoteRequestError m status header \<Rightarrow>
               if status = 409 \<or> status = 400 \<or> status = 401 \<or> status = 403 \<or> status = 404 \<or> status = 422
               then \<lparr>rt_retryable = False, rt_retryAfterHeader = None\<rparr>
               else \<lparr>rt_retryable = (isRetryableStatus status \<and> shouldRetryOperation context),
                     rt_retryAfterHeader = header\<rparr>
           | EngineTimeoutError m \<Rightarrow>
               \<lparr>rt_retryable = shouldRetryOperation context, rt_retryAfterHeader = None\<rparr>
           | TransportError m \<Rightarrow>
               \<lparr>rt_retryable = shouldRetryOperation context, rt_retryAfterHeader = None\<rparr>
           | _ \<Rightarrow> \<lparr>rt_retryable = False, rt_retryAfterHeader = None\<rparr>)
      | _ \<Rightarrow> \<lparr>rt_retryable = False, rt_retryAfterHeader = None\<rparr>)"

definition request_policy :: "platform \<Rightarrow> engine_config \<Rightarrow> nat \<Rightarrow> retry_policy" where
  "request_policy pf cfg attempt =
     \<lparr>baseDelayMs = ec_retryBaseDelayMs cfg, maxDelayMs = ec_retryMaxDelayMs cfg,
      maxAttempts = ec_maxRetries cfg + 1, jitterRatio = Some (ec_retryJitterRatio cfg),
      random = pf_random pf attempt\<rparr>"

subsection \<open>The retry loop\<close>

text \<open>
  The loop from an attempt on.  \<open>remainingBudgetMs\<close> before the attempt and after its
  failure bound the time limit of the request and the pause before the next one.
\<close>

function request_attempts ::
  "platform \<Rightarrow> engine_config \<Rightarrow> retry_context \<Rightarrow> 'a request \<Rightarrow> int \<Rightarrow> nat
     \<Rightarrow> (publish_fault + 'a) \<times> client_call list" where
  "request_attempts pf cfg context rq totalTimeoutMs attempt =
     (if int attempt > ec_maxRetries cfg + 1
      then (Inl (EngineFault (RetryExhaustedError ''Publish Engine retry attempts were exhausted.'')), [])
      else
        let remainingBudgetMs = totalTimeoutMs - (pf_now pf attempt - pf_start pf)
        in if remainingBudgetMs \<le> 0
           then (Inl (EngineFault (EngineTimeoutError
                   ''Publish Engine request exceeded total timeout budget.'')), [])
           else (case performHttpRequest pf rq remainingBudgetMs attempt of
               (Inr v, sent) \<Rightarrow> (Inr v, sent)
             | (Inl error, sent) \<Rightarrow>
                 let decision = classifyRetry error context;
                     remainingAfterErrorMs = totalTimeoutMs - (pf_nowAfter pf attempt - pf_start pf);
                     retryAfterMs = parseRetryAfterMs (pf_toNumber pf) (pf_parseDate pf)
                       (rt_retryAfterHeader decision) (pf_nowHeader pf attempt);
                     delayMs = resolveRetryDelayMs (int attempt) retryAfterMs
                       (request_policy pf cfg attempt) remainingAfterErrorMs
                 in if \<not> rt_retryable decision then (Inl error, sent)
                    else if int attempt \<ge> ec_maxRetries cfg + 1
                    then (Inl (EngineFault (RetryExhaustedError
                            ''Publish Engine retry attempts were exhausted.'')), sent)
                    else if remainingAfterErrorMs \<le> 0
                    then (Inl (EngineFault (EngineTimeoutError
                            ''Publish Engine request exceeded timeout budget before retry could run.'')), sent)
                    else (case request_attempts pf cfg context rq totalTimeoutMs (Suc attempt) of
                        (result, later) \<Rightarrow>
                          (result, sent @ (if delayMs > 0 then [Slept delayMs] else []) @ later))))"
  by pat_completeness auto

termination
  by (relation "measure (\<lambda>(pf, cfg, context, rq, total, attempt). nat (ec_maxRetries cfg + 2 - int attempt))")
     auto

declare request_attempts.simps [simp del]

definition requestWithRetry ::
  "platform \<Rightarrow> engine_config \<Rightarrow> operation_type \<Rightarrow> 'a request \<Rightarrow> (publish_fault + 'a) \<times> client_call list" where
  "requestWithRetry pf cfg operationType rq =
     request_attempts pf cfg
       \<lparr>rc_operationType = operationType,
        rc_hasIdempotencyKey = (op_idempotencyKey (rq_options rq) \<noteq> None)\<rparr>
       rq
       (case op_timeoutMs (rq_options rq) of Some t \<Rightarrow> t | None \<Rightarrow> ec_requestTimeoutMs cfg)
       1"

subsection \<open>Submissions\<close>

definition trim_between :: "nat \<Rightarrow> nat \<Rightarrow> string \<Rightarrow> string option" where
  "trim_between lo hi s =
     (let t = js_trim s in if lo \<le> length t \<and> length t \<le> hi then Some t else None)"

definition optional_field :: "('a \<Rightarrow> 'a option) \<Rightarrow> 'a option \<Rightarrow> 'a option option" where
  "optional_field parse v = (case v of None \<Rightarrow> Some None | Some x \<Rightarrow> map_option Some (parse x))"

definition publishEnginePublicationMetadataSchema :: "publication_metadata \<Rightarrow> publication_metadata option" where
  "publishEnginePublicationMetadataSchema m =
     (if pm_audience m \<noteq> None then None
      else
        Option.bind (optional_field (trim_between 1 120) (pm_publicationId m)) (\<lambda>publicationId.
        Option.bind (optional_field (trim_between 1 400) (pm_title m)) (\<lambda>title.
        Option.bind (optional_field (trim_between 2 16) (pm_language m)) (\<lambda>language.
        Option.bind (optional_field (trim_between 1 80) (pm_theme m)) (\<lambda>theme.
          Some \<lparr>pm_publicationId = publicationId, pm_title = title, pm_language = language,
                pm_theme = theme, pm_audience = None\<rparr>)))))"

definition publishEngineCtaPublicationMetadataSchema :: "publication_metadata \<Rightarrow> publication_metadata option" where
  "publishEngineCtaPublicationMetadataSchema m =
     Option.bind (Option.bind (pm_publicationId m) (trim_between 1 120)) (\<lambda>publicationId.
     Option.bind (Option.bind (pm_title m) (trim_between 1 400)) (\<lambda>title.
     Option.bind (Option.bind (pm_language m) (trim_between 2 16)) (\<lambda>language.
     Option.bind (Option.bind (pm_theme m) (trim_between 1 80)) (\<lambda>theme.
     Option.bind (optional_field (trim_between 1 120) (pm_audience m)) (\<lambda>audience.
       Some \<lparr>pm_publicationId = Some publicationId, pm_title = Some title, pm_language = Some language,
             pm_theme = Some theme, pm_audience = audience\<rparr>)))))"

definition publishEngineRenderOptionsSchema :: "render_options \<Rightarrow> bool" where
  "publishEngineRenderOptionsSchema r \<longleftrightarrow>
     pred_option (\<lambda>v. v \<in> {''comfortable'', ''standard'', ''compact'', ''high-density''}) (ro_densityId r)
     \<and> pred_option (\<lambda>v. v \<in> {''single-column'', ''two-column'', ''wide-content''}) (ro_layoutId r)"

record submit_request =
  sr_source :: styled_source
  sr_outputFormat :: output_format
  sr_publication :: "publication_metadata option"
  sr_renderOptions :: "render_options option"

definition submitRenderRequestSchema :: "submit_request \<Rightarrow> submit_request option" where
  "submitRenderRequestSchema request =
     (if \<not> publishEngineStyledHtmlSourceSchema (sr_source request)
         \<or> \<not> pred_option publishEngineRenderOptionsSchema (sr_renderOptions request)
      then None
      else Option.bind (optional_field publishEnginePublicationMetadataSchema (sr_publication request))
        (\<lambda>publication. Some (request\<lparr>sr_publication := publication\<rparr>)))"

definition submitCtaRenderRequestSchema :: "submit_request \<Rightarrow> submit_request option" where
  "submitCtaRenderRequestSchema request =
     (if \<not> publishEngineStyledHtmlSourceSchema (sr_source request)
         \<or> \<not> pred_option publishEngineRenderOptionsSchema (sr_renderOptions request)
      then None
      else Option.bind (Option.bind (sr_publication request) publishEngineCtaPublicationMetadataSchema)
        (\<lambda>publication. Some (request\<lparr>sr_publication := Some publication\<rparr>)))"

definition styled_source_json :: "styled_source \<Rightarrow> json" where
  "styled_source_json s = JObj
     [(''payloadRepresentation'', JStr (ss_payloadRepresentation s)), (''mimeType'', JStr (ss_mimeType s)),
      (''fileExtension'', JStr (ss_fileExtension s)), (''payload'', JStr (ss_payload s)),
      (''byteSize'', JNum (ss_byteSize s)), (''checksumSha256'', JStr (ss_checksumSha256 s))]"

definition submit_body :: "submit_request \<Rightarrow> json" where
  "submit_body request = JObj
     ([(''source'', styled_source_json (sr_source request)),
       (''outputFormat'', JStr (output_format_name (sr_outputFormat request)))]
      @ present ''publication'' publication_metadata_json (sr_publication request)
      @ present ''renderOptions'' render_options_json (sr_renderOptions request))"

definition parse_job :: "checks \<Rightarrow> string \<Rightarrow> json \<Rightarrow> publish_fault + engine_job" where
  "parse_job ck operation body =
     (case publishEngineJobSchema ck body of
        Some job \<Rightarrow> Inr job
      | None \<Rightarrow> Inl (EngineFault (ProtocolError
          (''Publish Engine '' @ operation @ '' response schema is invalid.''))))"

definition submitRender ::
  "(string \<Rightarrow> string) \<Rightarrow> checks \<Rightarrow> platform \<Rightarrow> engine_config \<Rightarrow> submit_request \<Rightarrow> request_options
     \<Rightarrow> (publish_fault + engine_job) \<times> client_call list" where
  "submitRender sha256 ck pf cfg request options =
     (case submitRenderRequestSchema request of
        None \<Rightarrow> (Inl (EngineFault (ProtocolError ''Publish Engine submitRender request is invalid.'')), [])
      | Some parsed \<Rightarrow>
          (case validatePublishEngineStyledHtmlSource sha256 (sr_source parsed) of
             Inl e \<Rightarrow> (Inl (EngineFault e), [])
           | Inr _ \<Rightarrow>
               (case normalizeRequestOptions options of
                  Inl e \<Rightarrow> (Inl e, [])
                | Inr normalized \<Rightarrow>
                    requestWithRetry pf cfg Submission
                      \<lparr>rq_method = POST, rq_path = ''/v1/render-jobs'', rq_body = Some (submit_body parsed),
                       rq_options = normalized, rq_parseSuccess = parse_job ck ''submitRender''\<rparr>)))"

definition submitCtaRender ::
  "(string \<Rightarrow> string) \<Rightarrow> checks \<Rightarrow> platform \<Rightarrow> engine_config \<Rightarrow> submit_request \<Rightarrow> request_options
     \<Rightarrow> (publish_fault + engine_job) \<times> client_call list" where
  "submitCtaRender sha256 ck pf cfg request options =
     (case submitCtaRenderRequestSchema request of
        None \<Rightarrow> (Inl (EngineFault (ProtocolError ''Publish Engine submitCtaRender request is invalid.'')), [])
      | Some parsed \<Rightarrow>
          (case validatePublishEngineStyledHtmlSource sha256 (sr_source parsed) of
             Inl e \<Rightarrow> (Inl (EngineFault e), [])
           | Inr _ \<Rightarrow>
               (case normalizeRequestOptions options of
                  Inl e \<Rightarrow> (Inl e, [])
                | Inr normalized \<Rightarrow>
                    requestWithRetry pf cfg Submission
                      \<lparr>rq_method = POST, rq_path = ''/v1/cta-render-jobs'', rq_body = Some (submit_body parsed),
                       rq_options = normalized, rq_parseSuccess = parse_job ck ''submitCtaRender''\<rparr>)))"

subsection \<open>Reads\<close>

text \<open>\<open>encodeURIComponent\<close>: the unreserved characters stand for themselves.\<close>

definition encodeURIComponent :: "string \<Rightarrow> string" where
  "encodeURIComponent s = concat (map (\<lambda>c.
     if alnum c \<or> c \<in> {CHR ''-'', CHR ''_'', CHR ''.'', CHR ''!'', CHR ''~'', CHR ''*'', CHR 0x27,
                       CHR ''('', CHR '')''}
     then [c]
     else concat (map (\<lambda>b. let n = of_char b :: nat in
            [CHR ''%'', ''0123456789ABCDEF'' ! (n div 16), ''0123456789ABCDEF'' ! (n mod 16)])
          (utf8_char c))) s)"

definition getJob ::
  "checks \<Rightarrow> platform \<Rightarrow> engine_config \<Rightarrow> string \<Rightarrow> request_options
     \<Rightarrow> (publish_fault + engine_job) \<times> client_call list" where
  "getJob ck pf cfg jobId options =
     (case normalizeJobId jobId of
        Inl e \<Rightarrow> (Inl e, [])
      | Inr normalizedJobId \<Rightarrow>
          (case normalizeRequestOptions options of
             Inl e \<Rightarrow> (Inl e, [])
           | Inr normalized \<Rightarrow>
               requestWithRetry pf cfg Read
                 \<lparr>rq_method = GET, rq_path = ''/v1/render-jobs/'' @ encodeURIComponent normalizedJobId,
                  rq_body = None, rq_options = normalized, rq_parseSuccess = parse_job ck ''getJob''\<rparr>))"

definition getDownload ::
  "checks \<Rightarrow> platform \<Rightarrow> engine_config \<Rightarrow> string \<Rightarrow> request_options
     \<Rightarrow> (publish_fault + engine_download) \<times> client_call list" where
  "getDownload ck pf cfg jobId options =
     (case normalizeJobId jobId of
        Inl e \<Rightarrow> (Inl e, [])
      | Inr normalizedJobId \<Rightarrow>
          (case normalizeRequestOptions options of
             Inl e \<Rightarrow> (Inl e, [])
           | Inr normalized \<Rightarrow>
               requestWithRetry pf cfg Read
                 \<lparr>rq_method = GET,
                  rq_path = ''/v1/render-jobs/'' @ encodeURIComponent normalizedJobId @ ''/download'',
                  rq_body = None, rq_options = normalized,
                  rq_parseSuccess = (\<lambda>body. case publishEngineDownloadSchema ck body of
                      Some download \<Rightarrow> Inr download
                    | None \<Rightarrow> Inl (EngineFault (ProtocolError
                        ''Publish Engine getDownload response schema is invalid.'')))\<rparr>))"

subsection \<open>Waiting for a job\<close>

text \<open>The world a wait meets: one platform per poll, the caller's signal and the clock.\<close>

record wait_world =
  ww_platform :: "nat \<Rightarrow> platform"
  ww_aborted :: "nat \<Rightarrow> bool"
  ww_start :: time
  ww_now :: "nat \<Rightarrow> time"

definition wait_answer :: "engine_job \<Rightarrow> (publish_fault + engine_job) option" where
  "wait_answer job =
     (if ej_state job = ESucceeded then Some (Inr job)
      else if ej_state job = EFailed then Some (Inl (EngineFault (JobFailedError ''Publish Engine render job failed.'')))
      else if ej_state job = ECancelled
      then Some (Inl (EngineFault (JobCancelledError ''Publish Engine render job was cancelled.'')))
      else None)"

partial_function (option) wait_loop ::
  "checks \<Rightarrow> wait_world \<Rightarrow> engine_config \<Rightarrow> string \<Rightarrow> request_options \<Rightarrow> int \<Rightarrow> int \<Rightarrow> nat
     \<Rightarrow> ((publish_fault + engine_job) \<times> client_call list) option" where
  "wait_loop ck w cfg jobId options pollIntervalMs maxWaitMs i =
     (if ww_aborted w i
      then Some (Inl (EngineFault (EngineCancelledError
             ''Publish Engine waitForJob operation was cancelled by caller.'')), [])
      else
        (case fst (getJob ck (ww_platform w i) cfg jobId options) of
           Inl e \<Rightarrow> Some (Inl e, snd (getJob ck (ww_platform w i) cfg jobId options))
         | Inr job \<Rightarrow>
             (case wait_answer job of
                Some answer \<Rightarrow> Some (answer, snd (getJob ck (ww_platform w i) cfg jobId options))
              | None \<Rightarrow>
                  if maxWaitMs - (ww_now w i - ww_start w) \<le> 0
                  then Some (Inl (EngineFault (WaitTimeoutError
                         ''Publish Engine waitForJob exceeded the maximum wait time.'')),
                       snd (getJob ck (ww_platform w i) cfg jobId options))
                  else Option.bind (wait_loop ck w cfg jobId options pollIntervalMs maxWaitMs (Suc i))
                    (\<lambda>rest. Some (fst rest, snd (getJob ck (ww_platform w i) cfg jobId options)
                       @ Slept (min pollIntervalMs (maxWaitMs - (ww_now w i - ww_start w))) # snd rest)))))"

definition waitForJob ::
  "checks \<Rightarrow> wait_world \<Rightarrow> engine_config \<Rightarrow> string \<Rightarrow> request_options
     \<Rightarrow> ((publish_fault + engine_job) \<times> client_call list) option" where
  "waitForJob ck w cfg jobId options =
     (case normalizeJobId jobId of
        Inl e \<Rightarrow> Some (Inl e, [])
      | Inr normalizedJobId \<Rightarrow>
          (case normalizeWaitOptions options of
             Inl e \<Rightarrow> Some (Inl e, [])
           | Inr normalized \<Rightarrow>
               wait_loop ck w cfg normalizedJobId normalized
                 (case op_pollIntervalMs normalized of Some p \<Rightarrow> p | None \<Rightarrow> ec_pollIntervalMs cfg)
                 (case op_maxWaitMs normalized of Some m \<Rightarrow> m | None \<Rightarrow> ec_maxWaitMs cfg) 0))"

subsection \<open>The calls of one operation\<close>

definition is_sent :: "client_call \<Rightarrow> bool" where
  "is_sent c = (case c of Sent req limit \<Rightarrow> True | Slept d \<Rightarrow> False)"

lemma is_sent_simps [simp]: "is_sent (Sent req limit)" "\<not> is_sent (Slept d)"
  by (simp_all add: is_sent_def)

text \<open>What a request sends is fixed by the request, up to the token.\<close>

definition http_of :: "'a request \<Rightarrow> string \<Rightarrow> http_request" where
  "http_of rq token =
     \<lparr>hq_method = rq_method rq, hq_path = rq_path rq, hq_headers = request_headers rq token,
      hq_body = rq_body rq\<rparr>"

lemma perform_calls:
  "snd (performHttpRequest pf rq limit n) = []
   \<or> (\<exists>token. snd (performHttpRequest pf rq limit n) = [Sent (http_of rq token) limit])"
  by (auto simp: performHttpRequest_def http_of_def Let_def split: sum.split)

lemma perform_call:
  "c \<in> set (snd (performHttpRequest pf rq limit n)) \<Longrightarrow> \<exists>token. c = Sent (http_of rq token) limit"
  using perform_calls [of pf rq limit n] by auto

text \<open>One attempt: it ends the loop, or a pause and the next attempt follow.\<close>

definition retry_pause :: "platform \<Rightarrow> engine_config \<Rightarrow> int \<Rightarrow> publish_fault \<Rightarrow> retry_context \<Rightarrow> nat \<Rightarrow> int" where
  "retry_pause pf cfg totalTimeoutMs error context attempt =
     resolveRetryDelayMs (int attempt)
       (parseRetryAfterMs (pf_toNumber pf) (pf_parseDate pf)
         (rt_retryAfterHeader (classifyRetry error context)) (pf_nowHeader pf attempt))
       (request_policy pf cfg attempt) (totalTimeoutMs - (pf_nowAfter pf attempt - pf_start pf))"

definition attempt_goes_on ::
  "platform \<Rightarrow> engine_config \<Rightarrow> int \<Rightarrow> publish_fault \<Rightarrow> retry_context \<Rightarrow> nat \<Rightarrow> bool" where
  "attempt_goes_on pf cfg totalTimeoutMs error context attempt \<longleftrightarrow>
     rt_retryable (classifyRetry error context) \<and> int attempt < ec_maxRetries cfg + 1
     \<and> 0 < totalTimeoutMs - (pf_nowAfter pf attempt - pf_start pf)"

lemma request_attempts_cases:
  obtains (none) e where "request_attempts pf cfg ctx rq tot n = (Inl e, [])"
  | (last) r sent limit where "0 < limit" "limit = tot - (pf_now pf n - pf_start pf)"
      "int n \<le> ec_maxRetries cfg + 1" "sent = snd (performHttpRequest pf rq limit n)"
      "request_attempts pf cfg ctx rq tot n = (r, sent)"
      "\<And>v. r = Inr v \<Longrightarrow> fst (performHttpRequest pf rq limit n) = Inr v"
  | (again) e sent limit where "0 < limit" "limit = tot - (pf_now pf n - pf_start pf)"
      "int n < ec_maxRetries cfg + 1" "performHttpRequest pf rq limit n = (Inl e, sent)"
      "attempt_goes_on pf cfg tot e ctx n"
      "request_attempts pf cfg ctx rq tot n =
         (fst (request_attempts pf cfg ctx rq tot (Suc n)),
          sent @ (if retry_pause pf cfg tot e ctx n > 0
                  then [Slept (retry_pause pf cfg tot e ctx n)] else [])
          @ snd (request_attempts pf cfg ctx rq tot (Suc n)))"
proof -
  let ?limit = "tot - (pf_now pf n - pf_start pf)"
  obtain r sent where t: "performHttpRequest pf rq ?limit n = (r, sent)" by (meson surj_pair)
  consider (stop) "int n > ec_maxRetries cfg + 1 \<or> ?limit \<le> 0"
    | (good) v where "int n \<le> ec_maxRetries cfg + 1" "?limit > 0" "r = Inr v"
    | (bad) e where "int n \<le> ec_maxRetries cfg + 1" "?limit > 0" "r = Inl e"
    by (metis linorder_not_le sum.exhaust)
  then show thesis
  proof cases
    case stop
    then show thesis using none by (fastforce simp: request_attempts.simps [of pf] Let_def)
  next
    case (good v)
    then have "request_attempts pf cfg ctx rq tot n = (Inr v, sent)"
      using t by (simp add: request_attempts.simps [of pf] Let_def)
    then show thesis using last [of ?limit sent r] good t by simp
  next
    case (bad e)
    show thesis
    proof (cases "attempt_goes_on pf cfg tot e ctx n")
      case True
      then have "request_attempts pf cfg ctx rq tot n =
         (fst (request_attempts pf cfg ctx rq tot (Suc n)),
          sent @ (if retry_pause pf cfg tot e ctx n > 0
                  then [Slept (retry_pause pf cfg tot e ctx n)] else [])
          @ snd (request_attempts pf cfg ctx rq tot (Suc n)))"
        using bad t by (subst request_attempts.simps)
          (simp add: Let_def retry_pause_def attempt_goes_on_def split_beta)
      then show thesis using again [of ?limit e sent] True bad t by (simp add: attempt_goes_on_def)
    next
      case False
      then have "\<exists>e'. request_attempts pf cfg ctx rq tot n = (Inl e', sent)"
        using bad t by (subst request_attempts.simps) (auto simp: Let_def attempt_goes_on_def split_beta)
      then obtain e' where "request_attempts pf cfg ctx rq tot n = (Inl e', sent)" by blast
      then show thesis using last [of ?limit sent "Inl e'"] bad t by simp
    qed
  qed
qed

lemma pause_bounds:
  "retry_pause pf cfg tot e ctx n \<le> max 0 (ec_retryMaxDelayMs cfg)"
  "0 < retry_pause pf cfg tot e ctx n
     \<Longrightarrow> retry_pause pf cfg tot e ctx n \<le> tot - (pf_nowAfter pf n - pf_start pf)"
  by (auto simp: retry_pause_def resolveRetryDelayMs_def request_policy_def Let_def)

lemma retryable_operation: "rt_retryable (classifyRetry e ctx) \<Longrightarrow> shouldRetryOperation ctx"
  by (auto simp: classifyRetry_def split: publish_fault.splits engine_error.splits if_splits)

text \<open>Induction along the attempts.\<close>

lemma attempt_induct [case_names attempt]:
  assumes "\<And>n. (int n < limit \<Longrightarrow> P (Suc n)) \<Longrightarrow> P n"
  shows "P n"
proof (induction "nat (limit - int n)" arbitrary: n rule: less_induct)
  case less
  show ?case by (rule assms) (rule less, simp)
qed

definition clock_ok :: "platform \<Rightarrow> bool" where
  "clock_ok pf \<longleftrightarrow> (\<forall>k. pf_start pf \<le> pf_now pf k \<and> pf_start pf \<le> pf_nowAfter pf k)"

definition call_ok :: "'a request \<Rightarrow> engine_config \<Rightarrow> retry_context \<Rightarrow> int \<Rightarrow> client_call \<Rightarrow> bool" where
  "call_ok rq cfg ctx tot c =
     (case c of
        Sent req limit \<Rightarrow> (\<exists>token. req = http_of rq token) \<and> 0 < limit \<and> limit \<le> tot
      | Slept d \<Rightarrow> 0 < d \<and> d \<le> ec_retryMaxDelayMs cfg \<and> d \<le> tot \<and> shouldRetryOperation ctx)"

lemma attempt_calls_ok:
  assumes "clock_ok pf" "limit = tot - (pf_now pf n - pf_start pf)" "0 < limit"
  shows "\<forall>c \<in> set (snd (performHttpRequest pf rq limit n)). call_ok rq cfg ctx tot c"
  using assms perform_call [of _ pf rq limit n] by (fastforce simp: call_ok_def clock_ok_def)

lemma pause_ok:
  assumes "clock_ok pf" "attempt_goes_on pf cfg tot e ctx n" "0 < retry_pause pf cfg tot e ctx n"
  shows "call_ok rq cfg ctx tot (Slept (retry_pause pf cfg tot e ctx n))"
proof -
  have "pf_start pf \<le> pf_nowAfter pf n" using assms(1) by (simp add: clock_ok_def)
  then show ?thesis
    using assms(2,3) pause_bounds [of pf cfg tot e ctx n] retryable_operation [of e ctx]
    by (auto simp: call_ok_def attempt_goes_on_def)
qed

lemma request_attempts_calls:
  assumes "clock_ok pf"
  shows "\<forall>c \<in> set (snd (request_attempts pf cfg ctx rq tot n)). call_ok rq cfg ctx tot c"
proof (induction n rule: attempt_induct [where limit = "ec_maxRetries cfg + 1"])
  case (attempt n)
  show ?case
  proof (rule request_attempts_cases [of pf cfg ctx rq tot n])
    fix e sent limit
    assume a: "0 < limit" "limit = tot - (pf_now pf n - pf_start pf)" "int n < ec_maxRetries cfg + 1"
      "performHttpRequest pf rq limit n = (Inl e, sent)" "attempt_goes_on pf cfg tot e ctx n"
    have "\<forall>c \<in> set sent. call_ok rq cfg ctx tot c"
      using attempt_calls_ok [OF assms a(2,1), of rq cfg ctx] a(4) by simp
    then show ?case if "request_attempts pf cfg ctx rq tot n =
         (fst (request_attempts pf cfg ctx rq tot (Suc n)),
          sent @ (if retry_pause pf cfg tot e ctx n > 0
                  then [Slept (retry_pause pf cfg tot e ctx n)] else [])
          @ snd (request_attempts pf cfg ctx rq tot (Suc n)))"
      using that attempt [OF a(3)] pause_ok [OF assms a(5)] by auto
  qed (use attempt_calls_ok [OF assms] in simp_all)
qed

lemma request_attempts_count:
  "length (filter is_sent (snd (request_attempts pf cfg ctx rq tot n)))
     \<le> nat (ec_maxRetries cfg + 2 - int n)"
proof (induction n rule: attempt_induct [where limit = "ec_maxRetries cfg + 1"])
  case (attempt n)
  have one: "length (filter is_sent (snd (performHttpRequest pf rq limit n))) \<le> 1" for limit
    using perform_calls [of pf rq limit n] by auto
  show ?case
  proof (rule request_attempts_cases [of pf cfg ctx rq tot n])
    fix e sent limit
    assume a: "int n < ec_maxRetries cfg + 1" "performHttpRequest pf rq limit n = (Inl e, sent)"
    show ?case if "request_attempts pf cfg ctx rq tot n =
         (fst (request_attempts pf cfg ctx rq tot (Suc n)),
          sent @ (if retry_pause pf cfg tot e ctx n > 0
                  then [Slept (retry_pause pf cfg tot e ctx n)] else [])
          @ snd (request_attempts pf cfg ctx rq tot (Suc n)))"
      using that attempt [OF a(1)] one [of limit] a by auto
  next
    fix r sent limit
    assume a: "int n \<le> ec_maxRetries cfg + 1" "sent = snd (performHttpRequest pf rq limit n)"
      "request_attempts pf cfg ctx rq tot n = (r, sent)"
    then show ?case using one [of limit] by simp
  qed simp
qed

text \<open>A result is what the engine answered to the last request.\<close>

lemma perform_Inr:
  assumes "performHttpRequest pf rq limit n = (Inr v, calls)"
  obtains token response body where "calls = [Sent (http_of rq token) limit]"
    "pf_fetch pf n (http_of rq token) limit = Answered response"
    "200 \<le> hs_status response" "hs_status response < 300"
    "parseJsonBody (pf_parseJson pf) response = Inr body" "rq_parseSuccess rq body = Inr v"
  using assms
  by (auto simp: performHttpRequest_def http_of_def response_result_def Let_def
      split: sum.splits if_splits fetch_answer.splits)

lemma request_attempts_Inr:
  assumes "request_attempts pf cfg ctx rq tot n = (Inr v, calls)"
  shows "\<exists>k token limit response body earlier. n \<le> k
    \<and> calls = earlier @ [Sent (http_of rq token) limit]
    \<and> pf_fetch pf k (http_of rq token) limit = Answered response
    \<and> 200 \<le> hs_status response \<and> hs_status response < 300
    \<and> parseJsonBody (pf_parseJson pf) response = Inr body \<and> rq_parseSuccess rq body = Inr v"
  using assms
proof (induction n arbitrary: calls rule: attempt_induct [where limit = "ec_maxRetries cfg + 1"])
  case (attempt n)
  show ?case
  proof (rule request_attempts_cases [of pf cfg ctx rq tot n])
    fix r sent limit
    assume a: "sent = snd (performHttpRequest pf rq limit n)"
      "request_attempts pf cfg ctx rq tot n = (r, sent)"
      "\<And>v. r = Inr v \<Longrightarrow> fst (performHttpRequest pf rq limit n) = Inr v"
    then have "performHttpRequest pf rq limit n = (Inr v, calls)"
      using attempt(2) by (metis prod.collapse prod.inject)
    then show ?case by (rule perform_Inr) blast
  next
    fix e sent limit
    assume a: "int n < ec_maxRetries cfg + 1"
      "request_attempts pf cfg ctx rq tot n =
         (fst (request_attempts pf cfg ctx rq tot (Suc n)),
          sent @ (if retry_pause pf cfg tot e ctx n > 0
                  then [Slept (retry_pause pf cfg tot e ctx n)] else [])
          @ snd (request_attempts pf cfg ctx rq tot (Suc n)))"
    obtain later where l: "request_attempts pf cfg ctx rq tot (Suc n) = (Inr v, later)"
      using a(2) attempt(2) by (metis prod.collapse prod.inject)
    have "calls = (sent @ (if retry_pause pf cfg tot e ctx n > 0
                  then [Slept (retry_pause pf cfg tot e ctx n)] else [])) @ later"
      using a(2) attempt(2) l by simp
    then show ?case using attempt(1) [OF a(1) l] by (metis Suc_leD append.assoc)
  qed (use attempt(2) in simp)
qed

lemma request_without_retry:
  assumes "\<not> shouldRetryOperation ctx"
  shows "length (snd (request_attempts pf cfg ctx rq tot n)) \<le> 1"
proof (rule request_attempts_cases [of pf cfg ctx rq tot n])
  fix r sent limit
  assume "sent = snd (performHttpRequest pf rq limit n)" "request_attempts pf cfg ctx rq tot n = (r, sent)"
  then show ?thesis using perform_calls [of pf rq limit n] by auto
next
  fix e
  assume "attempt_goes_on pf cfg tot e ctx n"
  with assms retryable_operation [of e ctx] show ?thesis by (auto simp: attempt_goes_on_def)
qed simp

subsection \<open>The operations\<close>

definition request_budget :: "engine_config \<Rightarrow> 'a request \<Rightarrow> int" where
  "request_budget cfg rq =
     (case op_timeoutMs (rq_options rq) of Some t \<Rightarrow> t | None \<Rightarrow> ec_requestTimeoutMs cfg)"

lemma requestWithRetry_attempts:
  "requestWithRetry pf cfg ty rq =
     request_attempts pf cfg
       \<lparr>rc_operationType = ty, rc_hasIdempotencyKey = (op_idempotencyKey (rq_options rq) \<noteq> None)\<rparr>
       rq (request_budget cfg rq) 1"
  by (simp add: requestWithRetry_def request_budget_def)

lemma normalizeRequestOptions_Inr:
  "normalizeRequestOptions opts = Inr o' \<longleftrightarrow>
     o' = opts \<and> request_options_fields_ok opts \<and> op_pollIntervalMs opts = None \<and> op_maxWaitMs opts = None"
  by (auto simp: normalizeRequestOptions_def)

lemma normalizeWaitOptions_Inr:
  "normalizeWaitOptions opts = Inr o' \<longleftrightarrow>
     o' = opts \<and> request_options_fields_ok opts \<and> pred_option (\<lambda>t. 0 < t \<and> t \<le> 60000) (op_pollIntervalMs opts)
     \<and> pred_option (\<lambda>t. 0 < t \<and> t \<le> 3600000) (op_maxWaitMs opts)"
  by (auto simp: normalizeWaitOptions_def)

lemma normalizeJobId_Inr: "normalizeJobId i = Inr j \<longleftrightarrow> j = i \<and> publishEngineJobIdSchema i"
  by (auto simp: normalizeJobId_def)

text \<open>A submission is nothing, or one request with the caller's options.\<close>

lemma parsed_source:
  "submitRenderRequestSchema request = Some parsed \<Longrightarrow> sr_source parsed = sr_source request"
  "submitCtaRenderRequestSchema request = Some parsed \<Longrightarrow> sr_source parsed = sr_source request"
  by (auto simp: submitRenderRequestSchema_def submitCtaRenderRequestSchema_def bind_eq_Some_conv
      split: if_splits)

lemma submission_shape:
  assumes "calls = snd (submitRender sha256 ck pf cfg request options)
         \<or> calls = snd (submitCtaRender sha256 ck pf cfg request options)"
  shows "calls = [] \<or> (\<exists>(rq :: engine_job request) parsed. calls = snd (requestWithRetry pf cfg Submission rq)
    \<and> rq_method rq = POST \<and> rq_options rq = options \<and> request_options_fields_ok options
    \<and> rq_body rq = Some (submit_body parsed) \<and> sr_source parsed = sr_source request)"
proof (cases "calls = []")
  case False
  from assms show ?thesis
  proof
    assume c: "calls = snd (submitRender sha256 ck pf cfg request options)"
    from this False obtain parsed where p: "submitRenderRequestSchema request = Some parsed"
      "request_options_fields_ok options"
      "calls = snd (requestWithRetry pf cfg Submission
         \<lparr>rq_method = POST, rq_path = ''/v1/render-jobs'', rq_body = Some (submit_body parsed),
          rq_options = options, rq_parseSuccess = parse_job ck ''submitRender''\<rparr>)"
      by (auto simp: submitRender_def normalizeRequestOptions_Inr split: option.splits sum.splits)
    then show ?thesis using parsed_source(1) [OF p(1)]
      by (intro disjI2 exI [of _ "\<lparr>rq_method = POST, rq_path = ''/v1/render-jobs'', rq_body = Some (submit_body parsed),
          rq_options = options, rq_parseSuccess = parse_job ck ''submitRender''\<rparr>"] exI [of _ parsed]) simp
  next
    assume c: "calls = snd (submitCtaRender sha256 ck pf cfg request options)"
    with False obtain parsed where p: "submitCtaRenderRequestSchema request = Some parsed"
      "request_options_fields_ok options"
      "calls = snd (requestWithRetry pf cfg Submission
         \<lparr>rq_method = POST, rq_path = ''/v1/cta-render-jobs'', rq_body = Some (submit_body parsed),
          rq_options = options, rq_parseSuccess = parse_job ck ''submitCtaRender''\<rparr>)"
      by (auto simp: submitCtaRender_def normalizeRequestOptions_Inr split: option.splits sum.splits)
    then show ?thesis using parsed_source(2) [OF p(1)]
      by (intro disjI2 exI [of _ "\<lparr>rq_method = POST, rq_path = ''/v1/cta-render-jobs'', rq_body = Some (submit_body parsed),
          rq_options = options, rq_parseSuccess = parse_job ck ''submitCtaRender''\<rparr>"] exI [of _ parsed]) simp
  qed
qed simp

lemma request_headers_key:
  assumes "request_options_fields_ok (rq_options rq)"
  shows "map_of (request_headers rq token) ''idempotency-key'' = op_idempotencyKey (rq_options rq)"
  using assms
  by (cases "op_idempotencyKey (rq_options rq)")
    (auto simp: request_headers_def request_options_fields_ok_def publishEngineHeaderSchema_def
      split: option.splits)

lemma submission_requests:
  assumes "calls = snd (submitRender sha256 ck pf cfg request options)
         \<or> calls = snd (submitCtaRender sha256 ck pf cfg request options)" and "clock_ok pf"
  obtains "calls = []"
  | (sent) rq :: "engine_job request" and parsed where "calls = snd (requestWithRetry pf cfg Submission rq)"
      "rq_options rq = options" "sr_source parsed = sr_source request"
      "\<And>req limit. Sent req limit \<in> set calls \<Longrightarrow>
         hq_method req = POST \<and> hq_body req = Some (submit_body parsed)
         \<and> map_of (hq_headers req) ''idempotency-key'' = op_idempotencyKey options"
proof (cases "calls = []")
  case False
  with submission_shape [OF assms(1)] obtain rq :: "engine_job request" and parsed where
    rq: "calls = snd (requestWithRetry pf cfg Submission rq)" "rq_method rq = POST"
      "rq_options rq = options" "request_options_fields_ok options"
      "rq_body rq = Some (submit_body parsed)" "sr_source parsed = sr_source request" by blast
  have "\<forall>c \<in> set calls. \<exists>ctx. call_ok rq cfg ctx (request_budget cfg rq) c"
    unfolding rq(1) requestWithRetry_attempts using request_attempts_calls [OF assms(2)] by blast
  then have "\<forall>req limit. Sent req limit \<in> set calls \<longrightarrow> (\<exists>token. req = http_of rq token)"
    by (auto simp: call_ok_def)
  then have "hq_method req = POST \<and> hq_body req = Some (submit_body parsed)
         \<and> map_of (hq_headers req) ''idempotency-key'' = op_idempotencyKey options"
    if "Sent req limit \<in> set calls" for req limit
    using that request_headers_key [of rq] rq by (auto simp: http_of_def)
  then show thesis by (rule sent [OF rq(1,3,6)])
qed (use that in blast)

text \<open>
  The bounds of an operation.  On a clock that does not run behind its start, an operation
  sends at most one request more than the configured retries, gives each of them a time
  limit within its budget, and pauses between them for at most the configured delay and at
  most its budget.
\<close>

theorem requests_bounded:
  assumes "clock_ok pf"
  shows "length (filter is_sent (snd (requestWithRetry pf cfg ty rq))) \<le> nat (ec_maxRetries cfg + 1)
    \<and> (\<forall>req limit. Sent req limit \<in> set (snd (requestWithRetry pf cfg ty rq))
         \<longrightarrow> 0 < limit \<and> limit \<le> request_budget cfg rq)
    \<and> (\<forall>d. Slept d \<in> set (snd (requestWithRetry pf cfg ty rq))
         \<longrightarrow> 0 < d \<and> d \<le> ec_retryMaxDelayMs cfg \<and> d \<le> request_budget cfg rq)"
proof -
  let ?ctx = "\<lparr>rc_operationType = ty, rc_hasIdempotencyKey = (op_idempotencyKey (rq_options rq) \<noteq> None)\<rparr>"
  have "\<forall>c \<in> set (snd (requestWithRetry pf cfg ty rq)). call_ok rq cfg ?ctx (request_budget cfg rq) c"
    unfolding requestWithRetry_attempts by (rule request_attempts_calls [OF assms])
  moreover have "length (filter is_sent (snd (requestWithRetry pf cfg ty rq))) \<le> nat (ec_maxRetries cfg + 1)"
    using request_attempts_count [of pf cfg ?ctx rq "request_budget cfg rq" 1]
    by (simp add: requestWithRetry_attempts)
  ultimately show ?thesis by (auto simp: call_ok_def)
qed

text \<open>
  C20: Submissions.  Every request a submission sends, retries included, is a POST with the same
  body and with the caller's idempotency key in its header; without a key a submission is
  sent at most once and never retried.
\<close>

theorem submissions_keep_key:
  assumes "calls = snd (submitRender sha256 ck pf cfg request options)
         \<or> calls = snd (submitCtaRender sha256 ck pf cfg request options)" and "clock_ok pf"
  shows "(\<exists>body. \<forall>req limit. Sent req limit \<in> set calls \<longrightarrow>
       hq_method req = POST \<and> hq_body req = body
       \<and> map_of (hq_headers req) ''idempotency-key'' = op_idempotencyKey options)
    \<and> (op_idempotencyKey options = None \<longrightarrow> length calls \<le> 1)"
  using assms
proof (cases rule: submission_requests)
  case (sent rq parsed)
  have "op_idempotencyKey options = None \<longrightarrow> length calls \<le> 1"
    using request_without_retry [of "\<lparr>rc_operationType = Submission, rc_hasIdempotencyKey = False\<rparr>" pf cfg rq]
      sent(1,2)
    by (simp add: requestWithRetry_attempts shouldRetryOperation_def)
  then show ?thesis using sent(4) by blast
qed simp

text \<open>
  A job that \<open>getJob\<close> returns is the engine's answer to its last request: it was sent to
  the job's path, was answered with a status of success, and its body fits the schema.
\<close>

theorem job_is_the_answer:
  assumes "getJob ck pf cfg jobId options = (Inr job, calls)"
  shows "\<exists>k req limit response body. last calls = Sent req limit
    \<and> hq_method req = GET \<and> hq_path req = ''/v1/render-jobs/'' @ encodeURIComponent jobId
    \<and> pf_fetch pf k req limit = Answered response
    \<and> 200 \<le> hs_status response \<and> hs_status response < 300
    \<and> parseJsonBody (pf_parseJson pf) response = Inr body \<and> publishEngineJobSchema ck body = Some job"
proof -
  let ?rq = "\<lparr>rq_method = GET, rq_path = ''/v1/render-jobs/'' @ encodeURIComponent jobId,
      rq_body = None, rq_options = options, rq_parseSuccess = parse_job ck ''getJob''\<rparr>"
  have "requestWithRetry pf cfg Read ?rq = (Inr job, calls)"
    using assms by (simp add: getJob_def normalizeJobId_Inr normalizeRequestOptions_Inr split: sum.splits)
  from request_attempts_Inr [OF this [unfolded requestWithRetry_attempts]] obtain k token limit response body earlier
    where "calls = earlier @ [Sent (http_of ?rq token) limit]"
      "pf_fetch pf k (http_of ?rq token) limit = Answered response"
      "200 \<le> hs_status response" "hs_status response < 300"
      "parseJsonBody (pf_parseJson pf) response = Inr body" "rq_parseSuccess ?rq body = Inr job"
    by blast
  moreover from this have "publishEngineJobSchema ck body = Some job"
    by (simp add: parse_job_def split: option.splits)
  ultimately show ?thesis
    by (intro exI [of _ k] exI [of _ "http_of ?rq token"] exI [of _ limit] exI [of _ response] exI [of _ body])
      (simp add: http_of_def)
qed

lemma wait_loop_ends:
  assumes "\<And>k. ww_now w k < ww_now w (Suc k)"
  shows "\<exists>r calls. wait_loop ck w cfg jobId opts interval limit i = Some (r, calls)
    \<and> (\<forall>job. r = Inr job \<longrightarrow> ej_state job = ESucceeded)"
proof (induction "nat (limit - (ww_now w i - ww_start w))" arbitrary: i rule: less_induct)
  case less
  obtain r calls where t: "getJob ck (ww_platform w i) cfg jobId opts = (r, calls)" by (meson surj_pair)
  show ?case
  proof (cases "\<not> ww_aborted w i \<and> (\<exists>job. r = Inr job \<and> wait_answer job = None)
      \<and> 0 < limit - (ww_now w i - ww_start w)")
    case True
    then obtain job where go: "\<not> ww_aborted w i" "r = Inr job" "wait_answer job = None"
      "0 < limit - (ww_now w i - ww_start w)" by blast
    have "nat (limit - (ww_now w (Suc i) - ww_start w)) < nat (limit - (ww_now w i - ww_start w))"
      using assms [of i] go(4) by simp
    from less [OF this] obtain r' calls' where
      "wait_loop ck w cfg jobId opts interval limit (Suc i) = Some (r', calls')"
      "\<forall>job. r' = Inr job \<longrightarrow> ej_state job = ESucceeded" by blast
    then show ?thesis using go t by (subst wait_loop.simps) simp
  next
    case False
    then show ?thesis using t
      by (subst wait_loop.simps) (auto simp: wait_answer_def split: sum.split option.split if_splits)
  qed
qed

text \<open>
  C21: A wait ends: on a clock that moves between two polls \<open>waitForJob\<close> returns, and a job it
  returns has succeeded.
\<close>

theorem wait_ends:
  assumes "\<And>k. ww_now w k < ww_now w (Suc k)"
  shows "\<exists>r calls. waitForJob ck w cfg jobId options = Some (r, calls)
    \<and> (\<forall>job. r = Inr job \<longrightarrow> ej_state job = ESucceeded)"
proof (cases "normalizeJobId jobId")
  case (Inr j)
  then show ?thesis
    using wait_loop_ends [OF assms]
    by (cases "normalizeWaitOptions options") (simp_all add: waitForJob_def)
qed (simp add: waitForJob_def)

text \<open>
  The options of a wait cannot be used: \<open>waitForJob\<close> hands them to \<open>getJob\<close>, whose strict
  schema refuses them, so that a wait with a poll interval or a maximum of its own fails
  before it sends anything.
\<close>

theorem wait_options_refused:
  assumes "publishEngineJobIdSchema jobId" and "normalizeWaitOptions options = Inr options"
    and "op_pollIntervalMs options \<noteq> None \<or> op_maxWaitMs options \<noteq> None" and "\<not> ww_aborted w 0"
  shows "waitForJob ck w cfg jobId options
    = Some (Inl (EngineFault (ProtocolError ''Publish Engine request options are invalid.'')), [])"
proof -
  have "getJob ck (ww_platform w 0) cfg jobId options
      = (Inl (EngineFault (ProtocolError ''Publish Engine request options are invalid.'')), [])"
    using assms(1,3) by (auto simp: getJob_def normalizeJobId_def normalizeRequestOptions_def)
  then show ?thesis
    using assms by (simp add: waitForJob_def normalizeJobId_def) (subst wait_loop.simps, simp)
qed

subsection \<open>An example\<close>

text \<open>
  An engine that is unavailable at first and answers the next request; a request takes
  10 ms and the pauses are as configured.
\<close>

definition demo_job_body :: json where
  "demo_job_body = JObj [(''jobId'', JStr ''r1''), (''state'', JStr ''succeeded''), (''outputFormat'', JStr ''pdf'')]"

definition demo_platform :: platform where
  "demo_platform =
     \<lparr>pf_fetch = (\<lambda>n req limit. if n = 1 then Answered \<lparr>hs_status = 503, hs_retryAfter = None, hs_text = Inr []\<rparr>
        else Answered \<lparr>hs_status = 200, hs_retryAfter = None, hs_text = Inr ''job''\<rparr>),
      pf_token = (\<lambda>n. TokenIs ''t''), pf_onOrigin = (\<lambda>p. True),
      pf_parseJson = (\<lambda>s. Some demo_job_body), pf_toNumber = (\<lambda>s. None), pf_parseDate = (\<lambda>s. None),
      pf_start = 0, pf_now = (\<lambda>n. int n * 200), pf_nowAfter = (\<lambda>n. int n * 200 + 10),
      pf_nowHeader = (\<lambda>n. int n * 200 + 10), pf_random = (\<lambda>n. 0)\<rparr>"

definition demo_engine_config :: engine_config where
  "demo_engine_config =
     \<lparr>ec_requestTimeoutMs = 30000, ec_pollIntervalMs = 2000, ec_maxWaitMs = 300000, ec_maxRetries = 3,
      ec_retryBaseDelayMs = 100, ec_retryMaxDelayMs = 5000, ec_retryJitterRatio = 0\<rparr>"

definition demo_checks :: checks where
  "demo_checks = \<lparr>ck_datetime = (\<lambda>s. True), ck_url = (\<lambda>u. None)\<rparr>"

definition demo_options :: request_options where
  "demo_options = \<lparr>op_idempotencyKey = None, op_correlationId = Some ''corr'', op_timeoutMs = None,
     op_pollIntervalMs = None, op_maxWaitMs = None\<rparr>"

definition demo_styled_source :: styled_source where
  "demo_styled_source = \<lparr>ss_payloadRepresentation = ''styled-html'', ss_mimeType = ''text/html; charset=utf-8'',
     ss_fileExtension = ''.html'', ss_payload = ''<p>'', ss_byteSize = 3,
     ss_checksumSha256 = replicate 64 (CHR ''a'')\<rparr>"

definition demo_submission :: submit_request where
  "demo_submission = \<lparr>sr_source = demo_styled_source, sr_outputFormat = Pdf, sr_publication = None,
     sr_renderOptions = None\<rparr>"

lemma demo_clock: "clock_ok demo_platform"
  by (simp add: clock_ok_def demo_platform_def)

lemma requests_bounded_witness:
  "length (filter is_sent (snd (requestWithRetry demo_platform demo_engine_config Read
      \<lparr>rq_method = GET, rq_path = ''/v1/render-jobs/r1'', rq_body = None, rq_options = demo_options,
       rq_parseSuccess = parse_job demo_checks ''getJob''\<rparr>))) \<le> 4"
  using requests_bounded [OF demo_clock, of demo_engine_config Read
      "\<lparr>rq_method = GET, rq_path = ''/v1/render-jobs/r1'', rq_body = None, rq_options = demo_options,
       rq_parseSuccess = parse_job demo_checks ''getJob''\<rparr>"]
  by (simp add: demo_engine_config_def)

definition demo_submit_calls :: "client_call list" where
  "demo_submit_calls = snd (submitRender (\<lambda>s. replicate 64 (CHR ''a'')) demo_checks demo_platform
     demo_engine_config demo_submission (demo_options\<lparr>op_idempotencyKey := Some ''k''\<rparr>))"

lemma demo_submit_sent: "length (filter is_sent demo_submit_calls) = 2"
  unfolding demo_submit_calls_def by code_simp

lemma submissions_keep_key_witness:
  "length (filter is_sent demo_submit_calls) = 2
   \<and> list_all (\<lambda>c. case c of Sent req limit \<Rightarrow> map_of (hq_headers req) ''idempotency-key'' = Some ''k''
                 | Slept d \<Rightarrow> True) demo_submit_calls"
  using submissions_keep_key [OF disjI1 [OF demo_submit_calls_def] demo_clock] demo_submit_sent
  by (fastforce simp: list_all_iff split: client_call.split)

lemma demo_get_job:
  "\<exists>calls. getJob demo_checks demo_platform demo_engine_config ''r1'' demo_options =
     (Inr \<lparr>ej_jobId = ''r1'', ej_state = ESucceeded, ej_outputFormat = Pdf, ej_correlationId = None,
           ej_createdAt = None, ej_updatedAt = None, ej_error = None\<rparr>, calls)"
proof -
  have "fst (getJob demo_checks demo_platform demo_engine_config ''r1'' demo_options) =
     Inr \<lparr>ej_jobId = ''r1'', ej_state = ESucceeded, ej_outputFormat = Pdf, ej_correlationId = None,
           ej_createdAt = None, ej_updatedAt = None, ej_error = None\<rparr>" by code_simp
  then show ?thesis by (metis prod.collapse)
qed

lemma job_is_the_answer_witness:
  "\<exists>k req limit response. pf_fetch demo_platform k req limit = Answered response
    \<and> hq_path req = ''/v1/render-jobs/r1'' \<and> hs_status response < 300"
proof -
  have "encodeURIComponent ''r1'' = ''r1''" by code_simp
  with demo_get_job show ?thesis using job_is_the_answer by fastforce
qed

definition demo_wait :: wait_world where
  "demo_wait = \<lparr>ww_platform = (\<lambda>i. demo_platform), ww_aborted = (\<lambda>i. False), ww_start = 0, ww_now = int\<rparr>"

lemma wait_ends_witness:
  "\<exists>r calls. waitForJob demo_checks demo_wait demo_engine_config ''r1'' demo_options = Some (r, calls)"
proof -
  have "\<And>k. ww_now demo_wait k < ww_now demo_wait (Suc k)" by (simp add: demo_wait_def)
  from wait_ends [OF this] show ?thesis by blast
qed

lemma wait_options_refused_witness:
  "waitForJob demo_checks demo_wait demo_engine_config ''r1'' (demo_options\<lparr>op_pollIntervalMs := Some 100\<rparr>)
    = Some (Inl (EngineFault (ProtocolError ''Publish Engine request options are invalid.'')), [])"
proof (rule wait_options_refused)
  show "publishEngineJobIdSchema ''r1''" by code_simp
  show "normalizeWaitOptions (demo_options\<lparr>op_pollIntervalMs := Some 100\<rparr>)
      = Inr (demo_options\<lparr>op_pollIntervalMs := Some 100\<rparr>)" by code_simp
qed (simp_all add: demo_wait_def)

end
