(* ===== verification/PublishExecutor.thy ===== *)
theory PublishExecutor
  imports EngineCalls
begin

text \<open>
  The execution of a claimed publish job
  (\<open>src/application/publish-jobs/publish-job-executor.ts\<close>): submission of the job to the
  Publish Engine, or a poll of its remote job, and the recording of what came of it.

  What happens concurrently is a list of \<open>hb_event\<close>s for each remote operation: the ticks
  of the heartbeat timer, the abort signal, and what others do to the database.  The result
  of the remote operation is that of the client on the platform it meets.
\<close>

subsection \<open>What is sent and what is stored\<close>

definition publishRenderOptionsBoundedSchema :: "render_options \<Rightarrow> bool" where
  "publishRenderOptionsBoundedSchema r \<longleftrightarrow>
     pred_option (\<lambda>v. v \<in> {''comfortable'', ''standard'', ''compact'', ''high-density''}) (ro_densityId r)
     \<and> pred_option (\<lambda>v. v \<in> {''single-column'', ''two-column'', ''wide-content''}) (ro_layoutId r)"

definition publishStandardMetadataBoundedSchema :: "publication_metadata \<Rightarrow> publication_metadata option" where
  "publishStandardMetadataBoundedSchema m =
     (if pm_audience m \<noteq> None then None
      else
        Option.bind (optional_field (trim_between 1 120) (pm_publicationId m)) (\<lambda>publicationId.
        Option.bind (optional_field (trim_between 1 400) (pm_title m)) (\<lambda>title.
        Option.bind (optional_field (trim_between 2 16) (pm_language m)) (\<lambda>language.
        Option.bind (optional_field (trim_between 1 80) (pm_theme m)) (\<lambda>theme.
          Some \<lparr>pm_publicationId = publicationId, pm_title = title, pm_language = language,
                pm_theme = theme, pm_audience = None\<rparr>)))))"

definition publishCtaMetadataBoundedSchema :: "publication_metadata \<Rightarrow> publication_metadata option" where
  "publishCtaMetadataBoundedSchema m =
     Option.bind (Option.bind (pm_publicationId m) (trim_between 1 120)) (\<lambda>publicationId.
     Option.bind (Option.bind (pm_title m) (trim_between 1 400)) (\<lambda>title.
     Option.bind (Option.bind (pm_language m) (trim_between 2 16)) (\<lambda>language.
     Option.bind (Option.bind (pm_theme m) (trim_between 1 80)) (\<lambda>theme.
     Option.bind (optional_field (trim_between 1 120) (pm_audience m)) (\<lambda>audience.
       Some \<lparr>pm_publicationId = Some publicationId, pm_title = Some title, pm_language = Some language,
             pm_theme = Some theme, pm_audience = audience\<rparr>)))))"

definition sanitizeDownloadMetadata :: "checks \<Rightarrow> engine_download \<Rightarrow> publish_fault + download_metadata" where
  "sanitizeDownloadMetadata ck download =
     (case (trim_between 1 512 (ed_fileName download), trim_between 1 200 (ed_mimeType download)) of
        (Some fileName, Some mimeType) \<Rightarrow>
          if pred_option (\<lambda>n. 0 < n) (ed_byteSize download)
             \<and> pred_option is_checksum (ed_checksumSha256 download)
             \<and> pred_option (\<lambda>u. ck_url ck u \<noteq> None) (ed_downloadUrl download)
             \<and> pred_option (ck_datetime ck) (ed_expiresAt download)
          then Inr \<lparr>dm_fileName = fileName, dm_mimeType = mimeType, dm_byteSize = ed_byteSize download,
                    dm_checksumSha256 = ed_checksumSha256 download, dm_downloadUrl = ed_downloadUrl download,
                    dm_expiresAt = ed_expiresAt download\<rparr>
          else Inl (PlatformFault (ValidationError ''Publish download metadata is invalid.''))
      | _ \<Rightarrow> Inl (PlatformFault (ValidationError ''Publish download metadata is invalid.'')))"

text \<open>The base64 text of a list of bytes.\<close>

definition base64_char :: "nat \<Rightarrow> char" where
  "base64_char n =
     ''ABCDEFGHIJKLMNOPQRSTUVWXYZabcdefghijklmnopqrstuvwxyz0123456789+/'' ! n"

fun base64 :: "nat list \<Rightarrow> string" where
  "base64 [] = []"
| "base64 [a] = [base64_char (a div 4), base64_char (a mod 4 * 16), CHR ''='', CHR ''='']"
| "base64 [a, b] = [base64_char (a div 4), base64_char (a mod 4 * 16 + b div 16),
     base64_char (b mod 16 * 4), CHR ''='']"
| "base64 (a # b # c # rest) = [base64_char (a div 4), base64_char (a mod 4 * 16 + b div 16),
     base64_char (b mod 16 * 4 + c div 64), base64_char (c mod 64)] @ base64 rest"

text \<open>The render artifact rebuilt from the stored snapshot, whose identifier the schema trims.\<close>

definition snapshot_artifact :: "string \<Rightarrow> artifact_snapshot \<Rightarrow> render_artifact" where
  "snapshot_artifact createdAt snapshot =
     \<lparr>ra_artifactId = js_trim (as_artifactId snapshot), ra_status = ''ready'', ra_format = ''html'',
      ra_payloadRepresentation = Some ''styled-html'', ra_mimeType = as_mimeType snapshot,
      ra_fileExtension = as_fileExtension snapshot, ra_checksumSha256 = as_checksumSha256 snapshot,
      ra_byteSize = as_byteSize snapshot, ra_createdAt = createdAt, ra_warnings = [], ra_errors = [],
      ra_content = Some \<lparr>ic_kind = ''inline'', ic_encoding = ''utf-8'',
        ic_bytesBase64 = base64 (map of_char (utf8 (as_payload snapshot))),
        ic_serializedDocument = as_payload snapshot\<rparr>,
      ra_storage = StorageNone\<rparr>"

text \<open>A \<open>ZodError\<close>: an \<open>Error\<close> whose message is the list of the issues.\<close>

definition zod_error :: publish_fault where
  "zod_error = ErrorFault ''ZodError''"

definition submission_source ::
  "(string \<Rightarrow> string) \<Rightarrow> string \<Rightarrow> publish_row \<Rightarrow> publish_fault + styled_source" where
  "submission_source sha256 createdAt job =
     (if \<not> publishSourceArtifactSnapshotSchema (pr_sourceArtifactSnapshot job) then Inl zod_error
      else case createPublishEngineStyledHtmlSourceFromRenderArtifact sha256
             (snapshot_artifact createdAt (pr_sourceArtifactSnapshot job)) of
          Inl e \<Rightarrow> Inl (EngineFault e)
        | Inr source \<Rightarrow>
            (case validatePublishEngineStyledHtmlSource sha256 source of
               Inl e \<Rightarrow> Inl (EngineFault e)
             | Inr _ \<Rightarrow>
                 if pred_option publishRenderOptionsBoundedSchema (pr_renderOptions job)
                 then Inr source else Inl zod_error))"

definition submission_options :: "publish_row \<Rightarrow> request_options" where
  "submission_options job =
     \<lparr>op_idempotencyKey = Some (pr_remoteSubmissionIdempotencyKey job),
      op_correlationId = Some (pr_correlationId job), op_timeoutMs = None,
      op_pollIntervalMs = None, op_maxWaitMs = None\<rparr>"

definition read_options :: "publish_row \<Rightarrow> request_options" where
  "read_options job =
     \<lparr>op_idempotencyKey = None, op_correlationId = Some (pr_correlationId job), op_timeoutMs = None,
      op_pollIntervalMs = None, op_maxWaitMs = None\<rparr>"

text \<open>The remote operation of a submission.\<close>

definition submit_operation ::
  "(string \<Rightarrow> string) \<Rightarrow> checks \<Rightarrow> platform \<Rightarrow> engine_config \<Rightarrow> publish_row \<Rightarrow> styled_source
     \<Rightarrow> (publish_fault + engine_job) \<times> client_call list" where
  "submit_operation sha256 ck pf ecfg job source =
     (if pr_publishMode job = PCtaGuide then
        (case Option.bind (pr_publicationMetadata job) publishCtaMetadataBoundedSchema of
           None \<Rightarrow> (Inl (PlatformFault (ValidationError
                       ''CTA publish metadata is invalid for cta-guide mode.'')), [])
         | Some metadata \<Rightarrow>
             submitCtaRender sha256 ck pf ecfg
               \<lparr>sr_source = source, sr_outputFormat = pr_outputFormat job, sr_publication = Some metadata,
                sr_renderOptions = pr_renderOptions job\<rparr>
               (submission_options job))
      else
        submitRender sha256 ck pf ecfg
          \<lparr>sr_source = source, sr_outputFormat = pr_outputFormat job,
           sr_publication = Option.bind (pr_publicationMetadata job) publishStandardMetadataBoundedSchema,
           sr_renderOptions = pr_renderOptions job\<rparr>
          (submission_options job))"

subsection \<open>Heartbeats\<close>

record px_config =
  xc_pollIntervalMs :: int
  xc_leaseDurationMs :: int
  xc_maxConsecutiveFailures :: int
  xc_retryPolicy :: retry_policy

definition lease_worker :: "publish_row \<Rightarrow> string" where
  "lease_worker job = (case pr_leaseOwner job of Some w \<Rightarrow> w | None \<Rightarrow> [])"

text \<open>
  \<open>HBeat\<close> is a tick whose renewal is over; a renewal that fails is a rejection nobody
  handles, since the promise is dropped.
\<close>

datatype hb_event = HOthers "db \<Rightarrow> db" | HAbort | HBeat time bool

record hb_state =
  hb_db :: db
  hb_leaseLost :: bool
  hb_aborted :: bool
  hb_unhandled :: bool

fun hb_step :: "px_config \<Rightarrow> publish_row \<Rightarrow> hb_event \<Rightarrow> hb_state \<Rightarrow> hb_state" where
  "hb_step cfg job (HOthers f) st = st\<lparr>hb_db := f (hb_db st)\<rparr>"
| "hb_step cfg job HAbort st = st\<lparr>hb_aborted := True\<rparr>"
| "hb_step cfg job (HBeat now fault) st =
     (if hb_leaseLost st \<or> hb_aborted st then st
      else case ps_renewLease fault (pr_tenantId job) (pr_id job) (lease_worker job)
                  (xc_leaseDurationMs cfg) now (hb_db st) of
          (Inl e, d) \<Rightarrow> st\<lparr>hb_db := d, hb_unhandled := True\<rparr>
        | (Inr None, d) \<Rightarrow> st\<lparr>hb_db := d, hb_leaseLost := True, hb_aborted := True\<rparr>
        | (Inr (Some renewed), d) \<Rightarrow> st\<lparr>hb_db := d\<rparr>)"

definition withHeartbeat ::
  "px_config \<Rightarrow> publish_row \<Rightarrow> bool \<Rightarrow> hb_event list \<Rightarrow> publish_fault + 'a \<Rightarrow> db
     \<Rightarrow> (publish_fault + 'a) \<times> hb_state" where
  "withHeartbeat cfg job aborted events operation d =
     (let st = fold (hb_step cfg job) events
                 \<lparr>hb_db = d, hb_leaseLost = False, hb_aborted = aborted, hb_unhandled = False\<rparr>
      in (case operation of
            Inl e \<Rightarrow> Inl e
          | Inr v \<Rightarrow> if hb_leaseLost st then Inl PublishLeaseLost else Inr v, st))"

subsection \<open>Recording\<close>

datatype px_outcome = PxCompleted | PxWaiting | PxRetryScheduled | PxFailed | PxCancelled | PxLeaseLost

text \<open>The clock, the fate and the event identifiers of a recording.\<close>

record px_call =
  xa_now :: time
  xa_fault :: "nat option"
  xa_evtId :: string
  xa_evtId2 :: string

definition recorded :: "px_outcome \<Rightarrow> (platform_error + publish_row option) \<times> db
    \<Rightarrow> (publish_fault + px_outcome) \<times> db" where
  "recorded outcome res =
     (case res of
        (Inl e, d) \<Rightarrow> (Inl (PlatformFault e), d)
      | (Inr None, d) \<Rightarrow> (Inr PxLeaseLost, d)
      | (Inr (Some job), d) \<Rightarrow> (Inr outcome, d))"

definition failure_state :: "publish_row \<Rightarrow> failure_phase \<Rightarrow> string option" where
  "failure_state job phase =
     (if phase = PollPhase \<and> (case pr_remoteJobId job of Some i \<Rightarrow> i \<noteq> [] | None \<Rightarrow> False)
      then pr_remoteState job else None)"

definition handleFailure ::
  "px_config \<Rightarrow> px_call \<Rightarrow> publish_row \<Rightarrow> failure_phase \<Rightarrow> publish_fault \<Rightarrow> db
     \<Rightarrow> (publish_fault + px_outcome) \<times> db" where
  "handleFailure cfg ca job phase error d =
     (let classification = classifyPublishOrchestrationFailure error phase False
      in if \<not> cl_retryable classification then
           recorded PxFailed
             (pj_fail (xa_fault ca) (xa_evtId ca) (pr_tenantId job) (pr_id job) (lease_worker job)
                (cl_errorCode classification) (cl_errorMessage classification) (failure_state job phase)
                None None (xa_now ca) d)
         else
           let nextFailureCount = pr_consecutiveFailureCount job + 1
           in if nextFailureCount \<ge> xc_maxConsecutiveFailures cfg then
                recorded PxFailed
                  (pj_fail (xa_fault ca) (xa_evtId ca) (pr_tenantId job) (pr_id job) (lease_worker job)
                     (code_value PUBLISH_JOB_RETRY_EXHAUSTED) (cl_errorMessage classification)
                     (failure_state job phase) None None (xa_now ca) d)
              else
                recorded PxRetryScheduled
                  (pj_recordRetry (xa_fault ca) (xa_evtId ca) (pr_tenantId job) (pr_id job) (lease_worker job)
                     (cl_errorCode classification) (cl_errorMessage classification)
                     (xa_now ca + calculateRetryDelayMs nextFailureCount (xc_retryPolicy cfg)) (xa_now ca) d))"

text \<open>The catch block around a phase; others may act before the failure is handled.\<close>

definition caught_failure ::
  "px_config \<Rightarrow> px_call \<Rightarrow> (db \<Rightarrow> db) \<Rightarrow> publish_row \<Rightarrow> failure_phase \<Rightarrow> (publish_fault + px_outcome) \<times> db
     \<Rightarrow> (publish_fault + px_outcome) \<times> db" where
  "caught_failure cfg ca gap job phase res =
     (case res of
        (Inr outcome, d) \<Rightarrow> (Inr outcome, d)
      | (Inl PublishLeaseLost, d) \<Rightarrow> (Inr PxLeaseLost, d)
      | (Inl error, d) \<Rightarrow> handleFailure cfg ca job phase error (gap d))"

subsection \<open>The execution\<close>

text \<open>
  What an execution meets: the read of the job, the change of stage, the events of the
  remote operations, the recordings, and the platforms of the client.
\<close>

record px_world =
  xw_getFault :: bool
  xw_getSnap :: db
  xw_aborted :: bool
  xw_stageFault :: bool
  xw_stageSnap :: db
  xw_stage :: px_call
  xw_createdAt :: string
  xw_beats :: "hb_event list"
  xw_record :: px_call
  xw_downloadStageFault :: bool
  xw_downloadStageSnap :: db
  xw_downloadStageEvtId :: string
  xw_downloadAborted :: bool
  xw_downloadBeats :: "hb_event list"
  xw_complete :: px_call
  xw_gap :: "db \<Rightarrow> db"
  xw_handle :: px_call
  xw_platform :: platform
  xw_downloadPlatform :: platform

definition submit_phase ::
  "(string \<Rightarrow> string) \<Rightarrow> checks \<Rightarrow> engine_config \<Rightarrow> px_config \<Rightarrow> px_world \<Rightarrow> publish_row \<Rightarrow> db
     \<Rightarrow> (publish_fault + px_outcome) \<times> db" where
  "submit_phase sha256 ck ecfg cfg xw job d =
     (case submission_source sha256 (xw_createdAt xw) job of
        Inl e \<Rightarrow> (Inl e, d)
      | Inr source \<Rightarrow>
          (case withHeartbeat cfg job (xw_aborted xw) (xw_beats xw)
                  (fst (submit_operation sha256 ck (xw_platform xw) ecfg job source)) d of
             (Inl e, st) \<Rightarrow> (Inl e, hb_db st)
           | (Inr remoteJob, st) \<Rightarrow>
               recorded PxWaiting
                 (pj_recordSubmission (xa_fault (xw_record xw)) (xa_evtId (xw_record xw))
                    (xa_evtId2 (xw_record xw)) (pr_tenantId job) (pr_id job) (lease_worker job)
                    (ej_jobId remoteJob) (engine_state_name (ej_state remoteJob))
                    (ej_correlationId remoteJob) (xa_now (xw_record xw))
                    (xa_now (xw_record xw) + xc_pollIntervalMs cfg) (xa_now (xw_record xw)) (hb_db st))))"

definition submitRemoteJob ::
  "(string \<Rightarrow> string) \<Rightarrow> checks \<Rightarrow> engine_config \<Rightarrow> px_config \<Rightarrow> px_world \<Rightarrow> publish_row \<Rightarrow> db
     \<Rightarrow> (publish_fault + px_outcome) \<times> db" where
  "submitRemoteJob sha256 ck ecfg cfg xw job d =
     (case pj_setStage (xw_stageFault xw) (xw_stageSnap xw) (xa_evtId (xw_stage xw)) (pr_tenantId job)
             (pr_id job) (lease_worker job) PSSubmitting (xa_now (xw_stage xw)) d of
        (Inl e, d') \<Rightarrow> (Inl (PlatformFault e), d')
      | (Inr _, d') \<Rightarrow>
          caught_failure cfg (xw_handle xw) (xw_gap xw) job SubmissionPhase
            (submit_phase sha256 ck ecfg cfg xw job d'))"

definition isNonTerminalRemoteState :: "engine_state \<Rightarrow> bool" where
  "isNonTerminalRemoteState state \<longleftrightarrow> state \<in> {EQueued, EAccepted, ERunning, EProcessing}"

definition download_phase ::
  "checks \<Rightarrow> engine_config \<Rightarrow> px_config \<Rightarrow> px_world \<Rightarrow> publish_row \<Rightarrow> engine_job \<Rightarrow> time \<Rightarrow> db
     \<Rightarrow> (publish_fault + px_outcome) \<times> db" where
  "download_phase ck ecfg cfg xw job remoteJob polledAt d =
     (case pj_setStage (xw_downloadStageFault xw) (xw_downloadStageSnap xw) (xw_downloadStageEvtId xw)
             (pr_tenantId job) (pr_id job) (lease_worker job) PSRetrievingDownload polledAt d of
        (Inl e, d') \<Rightarrow> (Inl (PlatformFault e), d')
      | (Inr _, d') \<Rightarrow>
          (case withHeartbeat cfg job (xw_downloadAborted xw) (xw_downloadBeats xw)
                  (fst (getDownload ck (xw_downloadPlatform xw) ecfg (the (pr_remoteJobId job))
                          (read_options job))) d' of
             (Inl e, st) \<Rightarrow> (Inl e, hb_db st)
           | (Inr download, st) \<Rightarrow>
               (case sanitizeDownloadMetadata ck download of
                  Inl e \<Rightarrow> (Inl e, hb_db st)
                | Inr downloadMetadata \<Rightarrow>
                    recorded PxCompleted
                      (pj_complete (xa_fault (xw_complete xw)) (xa_evtId (xw_complete xw)) (pr_tenantId job)
                         (pr_id job) (lease_worker job) (engine_state_name (ej_state remoteJob))
                         (ej_correlationId remoteJob) (Some polledAt) downloadMetadata
                         (xa_now (xw_complete xw)) (hb_db st)))))"

definition poll_phase ::
  "checks \<Rightarrow> engine_config \<Rightarrow> px_config \<Rightarrow> px_world \<Rightarrow> publish_row \<Rightarrow> db
     \<Rightarrow> (publish_fault + px_outcome) \<times> db" where
  "poll_phase ck ecfg cfg xw job d =
     (case withHeartbeat cfg job (xw_aborted xw) (xw_beats xw)
             (fst (getJob ck (xw_platform xw) ecfg (the (pr_remoteJobId job)) (read_options job))) d of
        (Inl e, st) \<Rightarrow> (Inl e, hb_db st)
      | (Inr remoteJob, st) \<Rightarrow>
          let ca = xw_record xw; polledAt = xa_now ca; d' = hb_db st;
              remoteState = engine_state_name (ej_state remoteJob)
          in if isNonTerminalRemoteState (ej_state remoteJob) then
               recorded PxWaiting
                 (pj_recordRemoteWaiting (xa_fault ca) (xa_evtId ca) (pr_tenantId job) (pr_id job)
                    (lease_worker job) remoteState (ej_correlationId remoteJob) polledAt
                    (polledAt + xc_pollIntervalMs cfg) polledAt d')
             else if ej_state remoteJob = EFailed then
               recorded PxFailed
                 (pj_fail (xa_fault ca) (xa_evtId ca) (pr_tenantId job) (pr_id job) (lease_worker job)
                    (case ej_error remoteJob of Some e \<Rightarrow> eje_code e
                     | None \<Rightarrow> code_value PUBLISH_REMOTE_JOB_FAILED)
                    (case ej_error remoteJob of Some e \<Rightarrow> eje_message e
                     | None \<Rightarrow> ''Remote publish job failed.'')
                    (Some remoteState) (ej_correlationId remoteJob) (Some polledAt) polledAt d')
             else if ej_state remoteJob = ECancelled then
               recorded PxCancelled
                 (pj_markRemoteCancelled (xa_fault ca) (xa_evtId ca) (pr_tenantId job) (pr_id job)
                    (lease_worker job) remoteState (ej_correlationId remoteJob) (Some polledAt) polledAt d')
             else download_phase ck ecfg cfg xw job remoteJob polledAt d')"

definition pollRemoteJob ::
  "checks \<Rightarrow> engine_config \<Rightarrow> px_config \<Rightarrow> px_world \<Rightarrow> publish_row \<Rightarrow> db
     \<Rightarrow> (publish_fault + px_outcome) \<times> db" where
  "pollRemoteJob ck ecfg cfg xw job d =
     (case pj_setStage (xw_stageFault xw) (xw_stageSnap xw) (xa_evtId (xw_stage xw)) (pr_tenantId job)
             (pr_id job) (lease_worker job) PSCheckingRemoteStatus (xa_now (xw_stage xw)) d of
        (Inl e, d') \<Rightarrow> (Inl (PlatformFault e), d')
      | (Inr _, d') \<Rightarrow>
          caught_failure cfg (xw_handle xw) (xw_gap xw) job PollPhase (poll_phase ck ecfg cfg xw job d'))"

definition publish_execute ::
  "(string \<Rightarrow> string) \<Rightarrow> checks \<Rightarrow> engine_config \<Rightarrow> px_config \<Rightarrow> px_world \<Rightarrow> claimed_publish_job \<Rightarrow> db
     \<Rightarrow> (publish_fault + px_outcome) \<times> db" where
  "publish_execute sha256 ck ecfg cfg xw claim d =
     (case pj_getById (xw_getFault xw) (cp_tenantId claim) (cp_publishJobId claim) (xw_getSnap xw) of
        Inl e \<Rightarrow> (Inl (PlatformFault e), d)
      | Inr None \<Rightarrow> (Inr PxLeaseLost, d)
      | Inr (Some current) \<Rightarrow>
          if pr_status current \<noteq> PProcessing \<or> pr_leaseOwner current \<noteq> Some (cp_workerId claim)
          then (Inr PxLeaseLost, d)
          else if (case pr_remoteJobId current of None \<Rightarrow> True | Some i \<Rightarrow> i = [])
          then submitRemoteJob sha256 ck ecfg cfg xw current d
          else pollRemoteJob ck ecfg cfg xw current d)"

subsection \<open>An execution is a run of the operations\<close>

lemma publish_run_trans:
  assumes "publish_run tears e f" and "publish_run tears d e"
  shows "publish_run tears d f"
  using assms by (induction rule: publish_run.induct) (auto intro: run_step)

lemma publish_run1: "publish_step tears a now d d' \<Longrightarrow> publish_run tears d d'"
  by (rule run_step [OF run_none])

definition px_tears :: "px_world \<Rightarrow> bool" where
  "px_tears xw \<longleftrightarrow> (\<exists>ca \<in> {xw_record xw, xw_complete xw, xw_handle xw}. torn (xa_fault ca) 2)"

definition px_others_run :: "bool \<Rightarrow> px_world \<Rightarrow> bool" where
  "px_others_run tears xw \<longleftrightarrow>
     (\<forall>f. HOthers f \<in> set (xw_beats xw @ xw_downloadBeats xw) \<or> f = xw_gap xw
        \<longrightarrow> (\<forall>d. publish_run tears d (f d)))"

lemma torn_1_2: "torn fault 1 \<Longrightarrow> torn fault 2"
  by (auto simp: torn_def split: option.splits nat.splits)

lemma snd_recorded [simp]: "snd (recorded outcome res) = snd res"
  by (simp add: recorded_def split: prod.split sum.split option.split)

lemma hb_step_run:
  assumes "\<And>f. ev = HOthers f \<Longrightarrow> publish_run tears (hb_db st) (f (hb_db st))"
  shows "publish_run tears (hb_db st) (hb_db (hb_step cfg job ev st))"
proof (cases ev)
  case (HBeat now fault)
  have "publish_run tears (hb_db st) (snd (ps_renewLease fault (pr_tenantId job) (pr_id job)
      (lease_worker job) (xc_leaseDurationMs cfg) now (hb_db st)))"
    by (rule publish_run1 [OF publish_step.renew])
  then show ?thesis using HBeat by (auto simp: run_none split: prod.splits sum.splits option.splits)
qed (use assms in \<open>auto intro: run_none\<close>)

lemma hb_steps_run:
  assumes "\<And>f d. HOthers f \<in> set evs \<Longrightarrow> publish_run tears d (f d)"
  shows "publish_run tears (hb_db st) (hb_db (fold (hb_step cfg job) evs st))"
  using assms
proof (induction evs arbitrary: st)
  case (Cons ev evs)
  have "publish_run tears (hb_db st) (hb_db (hb_step cfg job ev st))"
    by (rule hb_step_run) (use Cons.prems in simp)
  moreover have "publish_run tears (hb_db (hb_step cfg job ev st)) (hb_db (fold (hb_step cfg job) evs (hb_step cfg job ev st)))"
    by (rule Cons.IH) (use Cons.prems in simp)
  ultimately show ?case by (simp add: publish_run_trans)
qed (simp add: run_none)

lemma withHeartbeat_run:
  assumes "withHeartbeat cfg job aborted evs operation d = (r, st)"
    and "\<And>f d. HOthers f \<in> set evs \<Longrightarrow> publish_run tears d (f d)"
  shows "publish_run tears d (hb_db st)"
  using hb_steps_run [of evs tears "\<lparr>hb_db = d, hb_leaseLost = False, hb_aborted = aborted, hb_unhandled = False\<rparr>"
      cfg job] assms by (auto simp: withHeartbeat_def Let_def)

lemma handleFailure_run:
  assumes "torn (xa_fault ca) 2 \<Longrightarrow> tears"
  shows "publish_run tears d (snd (handleFailure cfg ca job phase error d))"
  using assms torn_1_2
  by (auto simp: handleFailure_def Let_def intro!: publish_run1 [OF publish_step.fail] publish_run1 [OF publish_step.retry])

lemma caught_failure_run:
  assumes "torn (xa_fault ca) 2 \<Longrightarrow> tears" and "\<And>e. publish_run tears e (gap e)"
    and "publish_run tears d (snd res)"
  shows "publish_run tears d (snd (caught_failure cfg ca gap job phase res))"
proof -
  obtain r e where res: "res = (r, e)" by fastforce
  have "publish_run tears d (snd (handleFailure cfg ca job phase err (gap e)))" for err
    using handleFailure_run [OF assms(1)] assms(2,3) res by (metis publish_run_trans snd_conv)
  then show ?thesis using res assms(3) by (auto simp: caught_failure_def split: sum.split publish_fault.split)
qed

lemma submit_phase_run:
  assumes "px_others_run tears xw" and "px_tears xw \<Longrightarrow> tears"
  shows "publish_run tears d (snd (submit_phase sha256 ck ecfg cfg xw job d))"
proof (cases "submission_source sha256 (xw_createdAt xw) job")
  case (Inr source)
  let ?op = "fst (submit_operation sha256 ck (xw_platform xw) ecfg job source)"
  obtain r st where h: "withHeartbeat cfg job (xw_aborted xw) (xw_beats xw) ?op d = (r, st)" by (meson surj_pair)
  have run: "publish_run tears d (hb_db st)"
    by (rule withHeartbeat_run [OF h]) (use assms(1) in \<open>simp add: px_others_run_def\<close>)
  have "publish_run tears (hb_db st) (snd (pj_recordSubmission (xa_fault (xw_record xw)) (xa_evtId (xw_record xw))
       (xa_evtId2 (xw_record xw)) (pr_tenantId job) (pr_id job) (lease_worker job) rj rs rc sub poll now (hb_db st)))"
    for rj rs rc sub poll now
    by (rule publish_run1 [OF publish_step.submission]) (use assms(2) in \<open>auto simp: px_tears_def\<close>)
  then show ?thesis using Inr h run
    by (auto simp: submit_phase_def split: sum.split intro: publish_run_trans [OF _ run])
qed (simp add: submit_phase_def run_none)

lemma download_phase_run:
  assumes "px_others_run tears xw" and "px_tears xw \<Longrightarrow> tears"
  shows "publish_run tears d (snd (download_phase ck ecfg cfg xw job remoteJob polledAt d))"
proof -
  obtain r0 d0 where s: "pj_setStage (xw_downloadStageFault xw) (xw_downloadStageSnap xw) (xw_downloadStageEvtId xw)
     (pr_tenantId job) (pr_id job) (lease_worker job) PSRetrievingDownload polledAt d = (r0, d0)" by (meson surj_pair)
  have run0: "publish_run tears d d0"
    using publish_run1 [OF publish_step.stage, of tears d "xw_downloadStageFault xw"] s by (metis snd_conv)
  let ?op = "fst (getDownload ck (xw_downloadPlatform xw) ecfg (the (pr_remoteJobId job)) (read_options job))"
  obtain r st where h: "withHeartbeat cfg job (xw_downloadAborted xw) (xw_downloadBeats xw) ?op d0 = (r, st)"
    by (meson surj_pair)
  have run: "publish_run tears d (hb_db st)"
    by (rule publish_run_trans [OF withHeartbeat_run [OF h] run0]) (use assms(1) in \<open>simp add: px_others_run_def\<close>)
  have "publish_run tears (hb_db st) (snd (pj_complete (xa_fault (xw_complete xw)) (xa_evtId (xw_complete xw))
       (pr_tenantId job) (pr_id job) (lease_worker job) rs rc lp dm now (hb_db st)))" for rs rc lp dm now
    by (rule publish_run1 [OF publish_step.complete]) (use assms(2) torn_1_2 in \<open>auto simp: px_tears_def\<close>)
  then show ?thesis using s h run run0
    by (auto simp: download_phase_def split: sum.split intro: publish_run_trans [OF _ run])
qed

lemma poll_phase_run:
  assumes "px_others_run tears xw" and "px_tears xw \<Longrightarrow> tears"
  shows "publish_run tears d (snd (poll_phase ck ecfg cfg xw job d))"
proof -
  let ?op = "fst (getJob ck (xw_platform xw) ecfg (the (pr_remoteJobId job)) (read_options job))"
  obtain r st where h: "withHeartbeat cfg job (xw_aborted xw) (xw_beats xw) ?op d = (r, st)" by (meson surj_pair)
  have run: "publish_run tears d (hb_db st)"
    by (rule withHeartbeat_run [OF h]) (use assms(1) in \<open>simp add: px_others_run_def\<close>)
  have t: "torn (xa_fault (xw_record xw)) 1 \<Longrightarrow> tears" using assms(2) torn_1_2 by (auto simp: px_tears_def)
  note steps = publish_run1 [OF publish_step.waiting, OF t] publish_run1 [OF publish_step.fail, OF t]
    publish_run1 [OF publish_step.remote_cancelled, OF t] download_phase_run [OF assms]
  show ?thesis
  proof (cases r)
    case (Inr remoteJob)
    have "publish_run tears (hb_db st) (snd (poll_phase ck ecfg cfg xw job d))"
      using h Inr steps by (simp add: poll_phase_def Let_def)
    then show ?thesis using run by (rule publish_run_trans)
  qed (use h run in \<open>simp add: poll_phase_def\<close>)
qed

lemma phases_run:
  assumes "px_others_run (px_tears xw) xw"
  shows "publish_run (px_tears xw) d (snd (submitRemoteJob sha256 ck ecfg cfg xw job d))"
    and "publish_run (px_tears xw) d (snd (pollRemoteJob ck ecfg cfg xw job d))"
proof -
  have caught: "publish_run (px_tears xw) d (snd (caught_failure cfg (xw_handle xw) (xw_gap xw) job phase res))"
    if "publish_run (px_tears xw) d (snd res)" for phase res d
    by (rule caught_failure_run [OF _ _ that]) (use assms in \<open>auto simp: px_tears_def px_others_run_def\<close>)
  have stage: "publish_run (px_tears xw) d e"
    if "pj_setStage (xw_stageFault xw) (xw_stageSnap xw) (xa_evtId (xw_stage xw)) (pr_tenantId job)
      (pr_id job) (lease_worker job) stg (xa_now (xw_stage xw)) d = (r, e)" for stg r e
    using publish_run1 [OF publish_step.stage, of "px_tears xw" d "xw_stageFault xw"] that by (metis snd_conv)
  show "publish_run (px_tears xw) d (snd (submitRemoteJob sha256 ck ecfg cfg xw job d))"
    using publish_run_trans [OF caught [OF submit_phase_run [OF assms]] stage]
    by (auto simp: submitRemoteJob_def dest: stage split: prod.split sum.split)
  show "publish_run (px_tears xw) d (snd (pollRemoteJob ck ecfg cfg xw job d))"
    using publish_run_trans [OF caught [OF poll_phase_run [OF assms]] stage]
    by (auto simp: pollRemoteJob_def dest: stage split: prod.split sum.split)
qed


subsection \<open>The outcome is the stored one\<close>

definition stored :: "string \<Rightarrow> string \<Rightarrow> publish_status \<Rightarrow> db \<Rightarrow> bool" where
  "stored t j s d \<longleftrightarrow> (\<exists>r \<in> set (publishJobs d).
     pr_tenantId r = t \<and> pr_id r = j \<and> pr_status r = s \<and> pr_leaseOwner r = None)"

text \<open>A recording that gives back a row has stored a row with the status.\<close>

definition stores ::
  "string \<Rightarrow> string \<Rightarrow> publish_status \<Rightarrow> (platform_error + publish_row option) \<times> db \<Rightarrow> bool" where
  "stores t j s res \<longleftrightarrow> (\<forall>u d'. res = (Inr (Some u), d') \<longrightarrow> stored t j s d')"

lemma stores_checked:
  assumes "\<And>x. v = Inr x \<Longrightarrow> stores t j s (k x)"
  shows "stores t j s (checked v d k)"
  using assms by (auto simp: checked_def stores_def split: sum.splits)

lemma stores_record:
  assumes "\<And>r. pr_tenantId (f r) = pr_tenantId r" "\<And>r. pr_id (f r) = pr_id r"
    and "\<And>r. pr_status (f r) = s" "\<And>r. pr_leaseOwner (f r) = None"
  shows "stores t j s (pj_record fault m (pj_held t j w now) f evs d)"
proof (cases "update_returning (pj_held t j w now) f (publishJobs d)")
  case (Pair res jobs)
  show ?thesis
  proof (cases res)
    case (Some u)
    with Pair obtain r where r: "r \<in> set (publishJobs d)" "pj_held t j w now r"
      using update_returning_Some(1) by metis
    have "f r \<in> set jobs"
      using r update_returning_Some(2) [OF Pair [unfolded Some]] by (auto simp: set_update_where)
    then have jobs: "\<exists>r \<in> set jobs. pr_tenantId r = t \<and> pr_id r = j \<and> pr_status r = s \<and> pr_leaseOwner r = None"
      using assms r(2) by (intro bexI [of _ "f r"]) (simp_all add: pj_held_def pj_mine_def)
    have "publishJobs (snd (pj_record fault m (pj_held t j w now) f evs d)) = jobs \<or> fault = Some 0"
      by (simp add: pj_record_def Pair Some Let_def split: option.split nat.split)
    then show ?thesis
    proof
      assume "publishJobs (snd (pj_record fault m (pj_held t j w now) f evs d)) = jobs"
      with jobs show ?thesis unfolding stores_def stored_def by (metis snd_conv)
    qed (simp add: stores_def pj_record_def)
  qed (simp add: stores_def pj_record_def Pair)
qed

lemma stores_ops:
  "stores t j PWaiting (pj_recordSubmission fault e1 e2 t j w ri rs rc sub poll now d)"
  "stores t j PWaiting (pj_recordRemoteWaiting fault e1 t j w rs rc lp poll now d)"
  "stores t j PRetrying (pj_recordRetry fault e1 t j w c m na now d)"
  "stores t j PCompleted (pj_complete fault e1 t j w rs rc lpo dm now d)"
  "stores t j PFailed (pj_fail fault e1 t j w c m rso rc lpo now d)"
  "stores t j PCancelled (pj_markRemoteCancelled fault e1 t j w rs rc lpo now d)"
  unfolding pj_recordSubmission_def pj_recordRemoteWaiting_def pj_recordRetry_def pj_complete_def
    pj_fail_def pj_markRemoteCancelled_def
  by (intro stores_checked stores_record; simp add: pj_set_submitted_def pj_set_waiting_def
      pj_set_retrying_def pj_set_completed_def pj_set_failed_def pj_set_remote_cancelled_def count_poll_def)+

definition px_status :: "px_outcome \<Rightarrow> publish_status option" where
  "px_status outcome =
     (case outcome of PxCompleted \<Rightarrow> Some PCompleted | PxWaiting \<Rightarrow> Some PWaiting
      | PxRetryScheduled \<Rightarrow> Some PRetrying | PxFailed \<Rightarrow> Some PFailed | PxCancelled \<Rightarrow> Some PCancelled
      | PxLeaseLost \<Rightarrow> None)"

definition tells_truth :: "publish_row \<Rightarrow> (publish_fault + px_outcome) \<times> db \<Rightarrow> bool" where
  "tells_truth job res \<longleftrightarrow>
     (\<forall>outcome d' s. res = (Inr outcome, d') \<longrightarrow> px_status outcome = Some s
        \<longrightarrow> stored (pr_tenantId job) (pr_id job) s d')"

lemma tells_truth_Inl [simp]: "tells_truth job (Inl e, d)"
  by (simp add: tells_truth_def)

lemma tells_truth_recorded:
  "stores (pr_tenantId job) (pr_id job) s res \<Longrightarrow> px_status outcome = Some s
     \<Longrightarrow> tells_truth job (recorded outcome res)"
  by (auto simp: tells_truth_def stores_def recorded_def px_status_def
      split: prod.splits sum.splits option.splits)

lemma handleFailure_truth: "tells_truth job (handleFailure cfg ca job phase error d)"
  by (auto simp: handleFailure_def Let_def px_status_def
      intro!: tells_truth_recorded [OF stores_ops(5)] tells_truth_recorded [OF stores_ops(3)])

lemma caught_failure_truth:
  assumes "tells_truth job res"
  shows "tells_truth job (caught_failure cfg ca gap job phase res)"
proof -
  obtain r e where res: "res = (r, e)" by fastforce
  have "tells_truth job (Inr PxLeaseLost, e)" by (simp add: tells_truth_def px_status_def)
  then show ?thesis using res assms handleFailure_truth
    by (auto simp: caught_failure_def split: sum.split publish_fault.split)
qed

lemma submit_phase_truth: "tells_truth job (submit_phase sha256 ck ecfg cfg xw job d)"
  by (auto simp: submit_phase_def px_status_def split: sum.split prod.split
      intro!: tells_truth_recorded [OF stores_ops(1)])

lemma download_phase_truth: "tells_truth job (download_phase ck ecfg cfg xw job remoteJob polledAt d)"
  by (auto simp: download_phase_def px_status_def split: sum.split prod.split
      intro!: tells_truth_recorded [OF stores_ops(4)])

lemma poll_phase_truth: "tells_truth job (poll_phase ck ecfg cfg xw job d)"
  by (auto simp: poll_phase_def Let_def px_status_def split: sum.split prod.split
      intro!: tells_truth_recorded [OF stores_ops(2)] tells_truth_recorded [OF stores_ops(5)]
        tells_truth_recorded [OF stores_ops(6)] download_phase_truth)

lemma phases_truth:
  "tells_truth job (submitRemoteJob sha256 ck ecfg cfg xw job d)"
  "tells_truth job (pollRemoteJob ck ecfg cfg xw job d)"
  by (auto simp: submitRemoteJob_def pollRemoteJob_def split: prod.split sum.split
      intro!: caught_failure_truth submit_phase_truth poll_phase_truth)

lemma publish_execute_cases:
  assumes "publish_execute sha256 ck ecfg cfg xw claim d = (Inr outcome, d')" and "outcome \<noteq> PxLeaseLost"
  obtains current where
    "pj_getById (xw_getFault xw) (cp_tenantId claim) (cp_publishJobId claim) (xw_getSnap xw) = Inr (Some current)"
    "pr_tenantId current = cp_tenantId claim" "pr_id current = cp_publishJobId claim"
    "submitRemoteJob sha256 ck ecfg cfg xw current d = (Inr outcome, d')
     \<or> pollRemoteJob ck ecfg cfg xw current d = (Inr outcome, d')"
proof -
  obtain current where g: "pj_getById (xw_getFault xw) (cp_tenantId claim) (cp_publishJobId claim) (xw_getSnap xw)
      = Inr (Some current)"
    and r: "submitRemoteJob sha256 ck ecfg cfg xw current d = (Inr outcome, d')
      \<or> pollRemoteJob ck ecfg cfg xw current d = (Inr outcome, d')"
    using assms by (auto simp: publish_execute_def split: sum.splits option.splits if_splits)
  moreover have "pr_tenantId current = cp_tenantId claim \<and> pr_id current = cp_publishJobId claim"
    using g by (auto simp: pj_getById_def dest!: find_first_Some split: sum.splits if_splits option.splits)
  ultimately show thesis using that by blast
qed

text \<open>
  C18: The outcome an execution reports is the one it has stored: the job of the claim is then
  in the table with the status that goes with the outcome, and its lease is given up.
\<close>

theorem publish_outcome_recorded:
  assumes "publish_execute sha256 ck ecfg cfg xw claim d = (Inr outcome, d')"
    and "px_status outcome = Some s"
  shows "\<exists>r \<in> set (publishJobs d'). pr_tenantId r = cp_tenantId claim \<and> pr_id r = cp_publishJobId claim
    \<and> pr_status r = s \<and> pr_leaseOwner r = None"
proof -
  have "outcome \<noteq> PxLeaseLost" using assms(2) by (auto simp: px_status_def)
  from publish_execute_cases [OF assms(1) this] obtain current where c:
    "pr_tenantId current = cp_tenantId claim" "pr_id current = cp_publishJobId claim"
    "submitRemoteJob sha256 ck ecfg cfg xw current d = (Inr outcome, d')
     \<or> pollRemoteJob ck ecfg cfg xw current d = (Inr outcome, d')" by blast
  then have "stored (cp_tenantId claim) (cp_publishJobId claim) s d'"
    using phases_truth [of current] assms(2) unfolding tells_truth_def by metis
  then show ?thesis by (simp add: stored_def)
qed

subsection \<open>Giving up\<close>

lemma recorded_other: "recorded outcome res = (Inr PxRetryScheduled, d') \<Longrightarrow> outcome = PxRetryScheduled"
  by (auto simp: recorded_def split: prod.splits sum.splits option.splits)

lemma handleFailure_retry:
  assumes "handleFailure cfg ca job phase error d = (Inr PxRetryScheduled, d')"
  shows "cl_retryable (classifyPublishOrchestrationFailure error phase False)
    \<and> pr_consecutiveFailureCount job + 1 < xc_maxConsecutiveFailures cfg"
  using assms by (auto simp: handleFailure_def Let_def dest!: recorded_other split: if_splits)

lemma caught_failure_retry:
  assumes "caught_failure cfg ca gap job phase res = (Inr PxRetryScheduled, d')"
    and "\<And>e. res \<noteq> (Inr PxRetryScheduled, e)"
  shows "pr_consecutiveFailureCount job + 1 < xc_maxConsecutiveFailures cfg"
proof -
  obtain r e where res: "res = (r, e)" by fastforce
  then show ?thesis using assms handleFailure_retry
    by (cases r) (auto simp: caught_failure_def split: publish_fault.splits dest!: handleFailure_retry)
qed

lemma phases_do_not_retry:
  "submit_phase sha256 ck ecfg cfg xw job d \<noteq> (Inr PxRetryScheduled, e)"
  "poll_phase ck ecfg cfg xw job d \<noteq> (Inr PxRetryScheduled, e)"
  by (auto simp: submit_phase_def poll_phase_def download_phase_def Let_def dest!: recorded_other
      split: sum.splits prod.splits if_splits)

text \<open>
  A publish job is given up in time: an execution schedules another attempt only when the
  failure, with those before it in a row, is still below the configured maximum.
\<close>

theorem publish_retry_bounded:
  assumes "publish_execute sha256 ck ecfg cfg xw claim d = (Inr PxRetryScheduled, d')"
  shows "\<exists>current. pj_getById (xw_getFault xw) (cp_tenantId claim) (cp_publishJobId claim) (xw_getSnap xw)
      = Inr (Some current)
    \<and> pr_consecutiveFailureCount current + 1 < xc_maxConsecutiveFailures cfg"
proof -
  obtain current where c: "pj_getById (xw_getFault xw) (cp_tenantId claim) (cp_publishJobId claim) (xw_getSnap xw)
      = Inr (Some current)"
    and r: "submitRemoteJob sha256 ck ecfg cfg xw current d = (Inr PxRetryScheduled, d')
     \<or> pollRemoteJob ck ecfg cfg xw current d = (Inr PxRetryScheduled, d')"
    using publish_execute_cases [OF assms] by blast
  have "pr_consecutiveFailureCount current + 1 < xc_maxConsecutiveFailures cfg"
    using r phases_do_not_retry
    by (auto simp: submitRemoteJob_def pollRemoteJob_def split: prod.splits sum.splits
        dest!: caught_failure_retry)
  with c show ?thesis by blast
qed

subsection \<open>What was approved is what is sent\<close>

lemma submit_operation_requests:
  assumes "clock_ok pf" and "Sent req limit \<in> set (snd (submit_operation sha256 ck pf ecfg job source))"
  shows "map_of (hq_headers req) ''idempotency-key'' = Some (pr_remoteSubmissionIdempotencyKey job)
    \<and> (\<exists>parsed. hq_body req = Some (submit_body parsed) \<and> sr_source parsed = source)"
proof -
  have "\<exists>request. sr_source request = source \<and>
    (snd (submit_operation sha256 ck pf ecfg job source) = snd (submitRender sha256 ck pf ecfg request (submission_options job))
     \<or> snd (submit_operation sha256 ck pf ecfg job source) = snd (submitCtaRender sha256 ck pf ecfg request (submission_options job)))"
  proof (cases "pr_publishMode job = PCtaGuide")
    case True
    then obtain metadata where "Option.bind (pr_publicationMetadata job) publishCtaMetadataBoundedSchema = Some metadata"
      using assms(2) by (auto simp: submit_operation_def split: option.splits)
    then show ?thesis using True
      by (intro exI [of _ "\<lparr>sr_source = source, sr_outputFormat = pr_outputFormat job,
          sr_publication = Some metadata, sr_renderOptions = pr_renderOptions job\<rparr>"])
        (simp add: submit_operation_def)
  next
    case False
    then show ?thesis
      by (intro exI [of _ "\<lparr>sr_source = source, sr_outputFormat = pr_outputFormat job,
          sr_publication = Option.bind (pr_publicationMetadata job) publishStandardMetadataBoundedSchema,
          sr_renderOptions = pr_renderOptions job\<rparr>"]) (simp add: submit_operation_def)
  qed
  then obtain request where o: "sr_source request = source"
    "snd (submit_operation sha256 ck pf ecfg job source) = snd (submitRender sha256 ck pf ecfg request (submission_options job))
     \<or> snd (submit_operation sha256 ck pf ecfg job source) = snd (submitCtaRender sha256 ck pf ecfg request (submission_options job))"
    by blast
  from o(2) assms(1) show ?thesis
  proof (cases rule: submission_requests)
    case 1
    with assms(2) show ?thesis by simp
  next
    case (sent rq parsed)
    from sent(4) [OF assms(2)] sent(3) o(1) show ?thesis
      by (auto simp: submission_options_def)
  qed
qed

text \<open>
  C19: What was approved is what is sent.  A source accepted when the job was created, whose
  identifier has at most 120 characters, passes the worker's checks again, and every
  request of the job's submission has the approved document as its source and the job's
  own idempotency key in its header.
\<close>

theorem approved_source_is_submitted:
  assumes "createPublishSourceSnapshot sha256 contentJob pid = Inr (aid, pr_sourceArtifactSnapshot job)"
    and "length (js_trim aid) \<le> 120" and "pred_option publishRenderOptionsBoundedSchema (pr_renderOptions job)"
    and "clock_ok pf"
  shows "\<exists>source. submission_source sha256 createdAt job = Inr source
    \<and> ss_payload source = as_payload (pr_sourceArtifactSnapshot job)
    \<and> (\<forall>req limit. Sent req limit \<in> set (snd (submit_operation sha256 ck pf ecfg job source)) \<longrightarrow>
         map_of (hq_headers req) ''idempotency-key'' = Some (pr_remoteSubmissionIdempotencyKey job)
         \<and> (\<exists>parsed. hq_body req = Some (submit_body parsed) \<and> sr_source parsed = source))"
proof -
  let ?s = "pr_sourceArtifactSnapshot job"
  obtain a s where s: "createPublishEngineStyledHtmlSourceFromRenderArtifact sha256 a = Inr s"
      "ss_byteSize s \<le> publish_artifact_max_bytes" "deriveSourceRenderArtifactId contentJob = Inr aid"
      "?s = \<lparr>as_artifactId = aid, as_payloadRepresentation = ss_payloadRepresentation s,
         as_mimeType = ss_mimeType s, as_fileExtension = ss_fileExtension s,
         as_payload = ss_payload s, as_byteSize = ss_byteSize s, as_checksumSha256 = ss_checksumSha256 s\<rparr>"
    by (rule snapshot_Inr [OF assms(1)])
  have v: "validatePublishEngineStyledHtmlSource sha256 s = Inr s"
    by (rule create_source_Inr [OF s(1)])
  then have ok: "publishEngineStyledHtmlSourceSchema s" "byteLength (ss_payload s) = ss_byteSize s"
    "sha256 (ss_payload s) = ss_checksumSha256 s" by (auto simp: validate_source_Inr)
  have "publishSourceArtifactSnapshotSchema ?s"
    using ok s(2) assms(2) derived_id_nonempty [OF s(3)] byteLength_pos [of "ss_payload s"] length_utf8 [of "ss_payload s"]
    by (simp add: s(4) publishSourceArtifactSnapshotSchema_def publishEngineStyledHtmlSourceSchema_def byteLength_def)
  moreover have "\<lparr>ss_payloadRepresentation = ''styled-html'', ss_mimeType = ''text/html; charset=utf-8'',
      ss_fileExtension = ''.html'', ss_payload = ss_payload s, ss_byteSize = ss_byteSize s,
      ss_checksumSha256 = ss_checksumSha256 s\<rparr> = s" (is "?r = s")
    using ok(1) by (cases s) (simp add: publishEngineStyledHtmlSourceSchema_def)
  then have "validatePublishEngineStyledHtmlSource sha256 ?r = Inr s" by (simp only: v)
  then have "createPublishEngineStyledHtmlSourceFromRenderArtifact sha256 (snapshot_artifact createdAt ?s) = Inr s"
    using ok(1) by (simp add: s(4) snapshot_artifact_def createPublishEngineStyledHtmlSourceFromRenderArtifact_def
        publishEngineStyledHtmlSourceSchema_def)
  ultimately have "submission_source sha256 createdAt job = Inr s"
    using v assms(3) by (simp add: submission_source_def)
  then show ?thesis using submit_operation_requests [OF assms(4)] by (auto simp: s(4))
qed

subsection \<open>An example\<close>

text \<open>
  A job that worker \<open>w\<close> holds.  The engine answers as in the client's example.
\<close>

definition demo_px_row :: publish_row where
  "demo_px_row = (pj_new_row (create_input_of demo_command ''artifact_1'' demo_snapshot ''fp'') ''pk'' ''fp'' ''rk'' ''pjob_1'' 5)
     \<lparr>pr_status := PProcessing, pr_stage := PSValidatingSource, pr_attemptCount := 1,
      pr_leaseOwner := Some ''w'', pr_leaseExpiresAt := Some 1000, pr_heartbeatAt := Some 10\<rparr>"

definition demo_px_db :: db where
  "demo_px_db = empty_db\<lparr>publishJobs := [demo_px_row]\<rparr>"

definition demo_call :: "time \<Rightarrow> nat option \<Rightarrow> px_call" where
  "demo_call now fault = \<lparr>xa_now = now, xa_fault = fault, xa_evtId = ''e_2'', xa_evtId2 = ''e_3''\<rparr>"

definition demo_px_world :: "nat option \<Rightarrow> platform \<Rightarrow> px_world" where
  "demo_px_world fault pf =
     \<lparr>xw_getFault = False, xw_getSnap = demo_px_db, xw_aborted = False, xw_stageFault = False,
      xw_stageSnap = demo_px_db, xw_stage = demo_call 20 None, xw_createdAt = ''t'',
      xw_beats = [HBeat 25 False], xw_record = demo_call 30 fault, xw_downloadStageFault = False,
      xw_downloadStageSnap = demo_px_db, xw_downloadStageEvtId = ''e_4'', xw_downloadAborted = False,
      xw_downloadBeats = [], xw_complete = demo_call 40 None, xw_gap = id, xw_handle = demo_call 50 None,
      xw_platform = pf, xw_downloadPlatform = pf\<rparr>"

definition demo_px_config :: px_config where
  "demo_px_config = \<lparr>xc_pollIntervalMs = 100, xc_leaseDurationMs = 1000, xc_maxConsecutiveFailures = 3,
     xc_retryPolicy = \<lparr>baseDelayMs = 10, maxDelayMs = 100, maxAttempts = 3, jitterRatio = None, random = 0\<rparr>\<rparr>"

definition demo_claim :: claimed_publish_job where
  "demo_claim = \<lparr>cp_tenantId = ''tenant_1'', cp_publishJobId = ''pjob_1'', cp_workerId = ''w'',
     cp_leaseExpiresAt = 1000\<rparr>"

definition demo_execution :: "nat option \<Rightarrow> platform \<Rightarrow> (publish_fault + px_outcome) \<times> db" where
  "demo_execution fault pf = publish_execute demo_sha256 demo_checks demo_engine_config demo_px_config
     (demo_px_world fault pf) demo_claim demo_px_db"

text \<open>An engine that is never there.\<close>

definition demo_down :: platform where
  "demo_down = demo_platform\<lparr>pf_fetch := (\<lambda>n req limit. Answered \<lparr>hs_status = 503, hs_retryAfter = None,
     hs_text = Inr []\<rparr>)\<rparr>"

lemma demo_outcomes:
  "fst (demo_execution None demo_platform) = Inr PxWaiting"
  "fst (demo_execution (Some 0) demo_platform) = Inr PxFailed"
  "fst (demo_execution None demo_down) = Inr PxRetryScheduled"
  by code_simp+


lemma publish_outcome_recorded_witness:
  "\<exists>r \<in> set (publishJobs (snd (demo_execution None demo_platform))). pr_id r = ''pjob_1'' \<and> pr_status r = PWaiting"
proof -
  have "publish_execute demo_sha256 demo_checks demo_engine_config demo_px_config
     (demo_px_world None demo_platform) demo_claim demo_px_db
     = (Inr PxWaiting, snd (demo_execution None demo_platform))"
    using demo_outcomes(1) by (metis demo_execution_def prod.collapse)
  from publish_outcome_recorded [OF this, of PWaiting] show ?thesis
    by (auto simp: px_status_def demo_claim_def)
qed

lemma publish_retry_bounded_witness:
  "\<exists>current. pj_getById False ''tenant_1'' ''pjob_1'' demo_px_db = Inr (Some current)
    \<and> pr_consecutiveFailureCount current + 1 < 3"
proof -
  have "publish_execute demo_sha256 demo_checks demo_engine_config demo_px_config
     (demo_px_world None demo_down) demo_claim demo_px_db
     = (Inr PxRetryScheduled, snd (demo_execution None demo_down))"
    using demo_outcomes(3) by (metis demo_execution_def prod.collapse)
  from publish_retry_bounded [OF this] show ?thesis
    by (simp add: demo_px_world_def demo_claim_def demo_px_config_def)
qed

lemma approved_source_is_submitted_witness:
  "\<exists>source. submission_source demo_sha256 ''t'' demo_px_row = Inr source \<and> ss_payload source = ''<p></p>''"
proof -
  have row: "pr_sourceArtifactSnapshot demo_px_row = demo_snapshot" "pr_renderOptions demo_px_row = None"
    by (simp_all add: demo_px_row_def pj_new_row_def create_input_of_def demo_command_def)
  have id: "length (js_trim ''artifact_1'') \<le> 120" by code_simp
  have "createPublishSourceSnapshot demo_sha256 demo_job ''project_1''
      = Inr (''artifact_1'', pr_sourceArtifactSnapshot demo_px_row)"
    using demo_source row(1) by simp
  moreover have "pred_option publishRenderOptionsBoundedSchema (pr_renderOptions demo_px_row)"
    by (simp add: row)
  ultimately obtain source where "submission_source demo_sha256 ''t'' demo_px_row = Inr source"
      "ss_payload source = as_payload (pr_sourceArtifactSnapshot demo_px_row)"
    using approved_source_is_submitted [OF _ id _ demo_clock] by metis
  then show ?thesis by (simp add: row(1) demo_snapshot_def)
qed

text \<open>
  A database error while the submission is recorded is final: the engine has accepted the
  job, the recording fails once, and the job is failed for good without its remote job.
\<close>

theorem database_error_is_final:
  "fst (submit_operation demo_sha256 demo_checks demo_platform demo_engine_config demo_px_row
      \<lparr>ss_payloadRepresentation = ''styled-html'', ss_mimeType = ''text/html; charset=utf-8'',
       ss_fileExtension = ''.html'', ss_payload = ''<p></p>'', ss_byteSize = 7,
       ss_checksumSha256 = replicate 64 (CHR ''a'')\<rparr>)
     = Inr \<lparr>ej_jobId = ''r1'', ej_state = ESucceeded, ej_outputFormat = Pdf, ej_correlationId = None,
            ej_createdAt = None, ej_updatedAt = None, ej_error = None\<rparr>
   \<and> map (\<lambda>r. (pr_status r, pr_remoteJobId r)) (publishJobs (snd (demo_execution (Some 0) demo_platform)))
     = [(PFailed, None)]"
  by (intro conjI) code_simp+

end
