(* ===== verification/WorkerLoop.thy ===== *)
theory WorkerLoop
  imports Prelude
begin

text \<open>
  The loops of the workers (\<open>src/application/workers/worker-loop.ts\<close> and
  \<open>src/application/publish-jobs/publish-worker-loop.ts\<close>) and the runner around them
  (\<open>src/application/workers/worker-runner.ts\<close>).

  A loop is a state machine.  Between two of its awaits it runs alone; the events are what
  ends an await, and what may happen during any of them: the abort signal and the end of an
  execution.  The loop of the content worker gives each execution an abort controller of
  its own (\<open>own\<close>), the loop of the publish worker hands its own signal on.
\<close>

subsection \<open>The state machine\<close>

record loop_config =
  lc_concurrency :: nat
  lc_staleRecoveryIntervalMs :: int

text \<open>An execution under way; whether its signal is aborted.\<close>

record 'j execution =
  xn_id :: nat
  xn_job :: 'j
  xn_aborted :: bool

text \<open>
  Where the loop is: at the head of the outer loop; in the stale recovery, with the time it
  was found due; at the head of the inner loop; in \<open>acquireNext\<close>; after the inner loop; asleep;
  in the race of the executions it saw with a sleep; after the outer loop; waiting for the
  executions it saw; the same after the shutdown timeout; returned.
\<close>

datatype loop_pc =
    Top
  | Recovering time
  | Filling
  | Acquiring
  | Filled
  | Idle
  | Racing "nat list"
  | Leaving
  | Draining "nat list"
  | Aborting "nat list"
  | Returned

record 'j loop_state =
  lp_pc :: loop_pc
  lp_aborted :: bool
  lp_active :: "'j execution list"
  lp_nextId :: nat
  lp_nextStaleRecoveryAt :: time
  lp_activeJobCount :: nat
  lp_lastSuccessfulPollAt :: "time option"
  lp_lastStaleRecoveryRunAt :: "time option"

text \<open>
  \<open>LGo\<close>: the loop runs from one point to the next, reading the clock; the others end an
  await: the recovery with success or failure, \<open>acquireNext\<close> with a job, without one or with
  an error, a sleep of the poll interval, the shutdown timeout.
\<close>

datatype 'j loop_event =
    LAbort
  | LSettle nat
  | LGo time
  | LRecovered bool
  | LAcquired time "'j option"
  | LAcquireFailed
  | LWake
  | LTimeout

definition ids :: "'j execution list \<Rightarrow> nat list" where
  "ids xs = map xn_id xs"

definition abort_all :: "'j execution list \<Rightarrow> 'j execution list" where
  "abort_all xs = map (\<lambda>x. x\<lparr>xn_aborted := True\<rparr>) xs"

definition all_settled :: "nat list \<Rightarrow> 'j execution list \<Rightarrow> bool" where
  "all_settled waited xs \<longleftrightarrow> list_all (\<lambda>i. i \<notin> set (ids xs)) waited"

definition begin_execution :: "bool \<Rightarrow> 'j \<Rightarrow> 'j loop_state \<Rightarrow> 'j loop_state" where
  "begin_execution own job s =
     (let active = lp_active s @ [\<lparr>xn_id = lp_nextId s, xn_job = job,
                                   xn_aborted = (\<not> own \<and> lp_aborted s)\<rparr>]
      in s\<lparr>lp_active := active, lp_nextId := Suc (lp_nextId s), lp_activeJobCount := length active,
           lp_pc := Filling\<rparr>)"

definition end_execution :: "nat \<Rightarrow> 'j loop_state \<Rightarrow> 'j loop_state" where
  "end_execution i s =
     (let active = filter (\<lambda>x. xn_id x \<noteq> i) (lp_active s)
      in s\<lparr>lp_active := active, lp_activeJobCount := length active\<rparr>)"

definition loop_go :: "loop_config \<Rightarrow> time \<Rightarrow> 'j loop_state \<Rightarrow> 'j loop_state option" where
  "loop_go cfg now s =
     (case lp_pc s of
        Top \<Rightarrow>
          if lp_aborted s then Some (s\<lparr>lp_pc := Leaving\<rparr>)
          else if now \<ge> lp_nextStaleRecoveryAt s then Some (s\<lparr>lp_pc := Recovering now\<rparr>)
          else Some (s\<lparr>lp_pc := Filling\<rparr>)
      | Filling \<Rightarrow>
          if length (lp_active s) < lc_concurrency cfg \<and> \<not> lp_aborted s
          then Some (s\<lparr>lp_pc := Acquiring\<rparr>)
          else Some (s\<lparr>lp_pc := Filled\<rparr>)
      | Filled \<Rightarrow>
          if lp_aborted s then Some (s\<lparr>lp_pc := Leaving\<rparr>)
          else if lp_active s = [] then Some (s\<lparr>lp_pc := Idle\<rparr>)
          else Some (s\<lparr>lp_pc := Racing (ids (lp_active s))\<rparr>)
      | Racing waited \<Rightarrow> if all_settled waited (lp_active s) then Some (s\<lparr>lp_pc := Top\<rparr>) else None
      | Leaving \<Rightarrow>
          if lp_active s = [] then Some (s\<lparr>lp_pc := Returned\<rparr>)
          else Some (s\<lparr>lp_pc := Draining (ids (lp_active s))\<rparr>)
      | Draining waited \<Rightarrow>
          if all_settled waited (lp_active s) then Some (s\<lparr>lp_pc := Returned\<rparr>) else None
      | Aborting waited \<Rightarrow>
          if all_settled waited (lp_active s) then Some (s\<lparr>lp_pc := Returned\<rparr>) else None
      | _ \<Rightarrow> None)"

definition loop_next ::
  "bool \<Rightarrow> loop_config \<Rightarrow> 'j loop_event \<Rightarrow> 'j loop_state \<Rightarrow> 'j loop_state option" where
  "loop_next own cfg event s =
     (case event of
        LAbort \<Rightarrow>
          if lp_aborted s then None
          else Some (s\<lparr>lp_aborted := True, lp_active := abort_all (lp_active s)\<rparr>)
      | LSettle i \<Rightarrow> if i \<in> set (ids (lp_active s)) then Some (end_execution i s) else None
      | LGo now \<Rightarrow> loop_go cfg now s
      | LRecovered ok \<Rightarrow>
          (case lp_pc s of
             Recovering due \<Rightarrow>
               if ok
               then Some (s\<lparr>lp_pc := Filling, lp_lastStaleRecoveryRunAt := Some due,
                            lp_nextStaleRecoveryAt := due + lc_staleRecoveryIntervalMs cfg\<rparr>)
               else Some (s\<lparr>lp_pc := Filling\<rparr>)
           | _ \<Rightarrow> None)
      | LAcquired now job \<Rightarrow>
          if lp_pc s = Acquiring
          then (case job of
                  None \<Rightarrow> Some (s\<lparr>lp_pc := Filled, lp_lastSuccessfulPollAt := Some now\<rparr>)
                | Some j \<Rightarrow> Some (begin_execution own j (s\<lparr>lp_lastSuccessfulPollAt := Some now\<rparr>)))
          else None
      | LAcquireFailed \<Rightarrow> if lp_pc s = Acquiring then Some (s\<lparr>lp_pc := Filled\<rparr>) else None
      | LWake \<Rightarrow>
          (case lp_pc s of
             Idle \<Rightarrow> Some (s\<lparr>lp_pc := Top\<rparr>)
           | Racing waited \<Rightarrow> Some (s\<lparr>lp_pc := Top\<rparr>)
           | _ \<Rightarrow> None)
      | LTimeout \<Rightarrow>
          (case lp_pc s of
             Draining waited \<Rightarrow>
               Some (s\<lparr>lp_pc := Aborting (ids (lp_active s)),
                       lp_active := (if own then abort_all (lp_active s) else lp_active s)\<rparr>)
           | _ \<Rightarrow> None))"

definition loop_start :: "time \<Rightarrow> 'j loop_state" where
  "loop_start now = \<lparr>lp_pc = Top, lp_aborted = False, lp_active = [], lp_nextId = 0,
     lp_nextStaleRecoveryAt = now, lp_activeJobCount = 0, lp_lastSuccessfulPollAt = None,
     lp_lastStaleRecoveryRunAt = None\<rparr>"

text \<open>The loop of the content worker and that of the publish worker.\<close>

definition content_loop :: "loop_config \<Rightarrow> 'j loop_event \<Rightarrow> 'j loop_state \<Rightarrow> 'j loop_state option" where
  "content_loop = loop_next True"

definition publish_loop :: "loop_config \<Rightarrow> 'j loop_event \<Rightarrow> 'j loop_state \<Rightarrow> 'j loop_state option" where
  "publish_loop = loop_next False"

fun loop_events :: "bool \<Rightarrow> loop_config \<Rightarrow> 'j loop_event list \<Rightarrow> 'j loop_state \<Rightarrow> 'j loop_state option" where
  "loop_events own cfg [] s = Some s"
| "loop_events own cfg (ev # evs) s = Option.bind (loop_next own cfg ev s) (loop_events own cfg evs)"

inductive loop_reach :: "bool \<Rightarrow> loop_config \<Rightarrow> 'j loop_state \<Rightarrow> 'j loop_state \<Rightarrow> bool" for own cfg where
  reach_refl: "loop_reach own cfg s s"
| reach_step: "loop_reach own cfg s s' \<Longrightarrow> loop_next own cfg ev s' = Some s'' \<Longrightarrow> loop_reach own cfg s s''"

lemma loop_reach_trans: "loop_reach own cfg s' s'' \<Longrightarrow> loop_reach own cfg s s' \<Longrightarrow> loop_reach own cfg s s''"
  by (induction rule: loop_reach.induct) (auto intro: reach_step)

lemma loop_events_reach:
  assumes "loop_events own cfg evs s = Some s'"
  shows "loop_reach own cfg s s'"
  using assms
proof (induction evs arbitrary: s)
  case (Cons ev evs)
  then obtain s1 where "loop_next own cfg ev s = Some s1" "loop_reach own cfg s1 s'"
    by (auto simp: bind_eq_Some_conv)
  then show ?case using reach_step [OF reach_refl] loop_reach_trans by metis
qed (simp add: reach_refl)

subsection \<open>The invariant\<close>

text \<open>
  Never more executions than the concurrency, one of them room for what is being acquired;
  distinct identifiers below the next one; the published count is right; whoever the loop
  waits for at the end covers all that is active; nothing is active when it has returned.
\<close>

definition loop_inv :: "loop_config \<Rightarrow> 'j loop_state \<Rightarrow> bool" where
  "loop_inv cfg s \<longleftrightarrow>
     length (lp_active s) + (if lp_pc s = Acquiring then 1 else 0) \<le> lc_concurrency cfg
     \<and> distinct (ids (lp_active s)) \<and> list_all (\<lambda>i. i < lp_nextId s) (ids (lp_active s))
     \<and> lp_activeJobCount s = length (lp_active s)
     \<and> (case lp_pc s of
          Draining waited \<Rightarrow> lp_aborted s \<and> set (ids (lp_active s)) \<subseteq> set waited
        | Aborting waited \<Rightarrow> lp_aborted s \<and> set (ids (lp_active s)) \<subseteq> set waited
        | Leaving \<Rightarrow> lp_aborted s
        | Returned \<Rightarrow> lp_aborted s \<and> lp_active s = []
        | _ \<Rightarrow> True)"

lemma ids_abort_all [simp]: "ids (abort_all xs) = ids xs" "length (abort_all xs) = length xs"
  "abort_all xs = [] \<longleftrightarrow> xs = []"
  by (simp_all add: ids_def abort_all_def comp_def)

lemma ids_filter: "set (ids (filter p xs)) \<subseteq> set (ids xs)" "distinct (ids xs) \<Longrightarrow> distinct (ids (filter p xs))"
  by (auto simp: ids_def distinct_map intro: inj_on_subset)

lemma all_settled_covers:
  "all_settled waited xs \<Longrightarrow> set (ids xs) \<subseteq> set waited \<Longrightarrow> xs = []"
  by (cases xs) (auto simp: all_settled_def list_all_iff ids_def)

lemma begin_execution_inv:
  assumes "loop_inv cfg s" and "lp_pc s = Acquiring"
  shows "loop_inv cfg (begin_execution own j (s\<lparr>lp_lastSuccessfulPollAt := t\<rparr>))"
  using assms by (auto simp: loop_inv_def begin_execution_def Let_def ids_def list_all_iff)

lemma end_execution_inv:
  assumes "loop_inv cfg s"
  shows "loop_inv cfg (end_execution i s)"
proof -
  obtain ys where ys: "ys = filter (\<lambda>x. xn_id x \<noteq> i) (lp_active s)"
    "length ys \<le> length (lp_active s)" "set (ids ys) \<subseteq> set (ids (lp_active s))"
    "distinct (ids (lp_active s)) \<Longrightarrow> distinct (ids ys)"
    using ids_filter [where p = "\<lambda>x. xn_id x \<noteq> i" and xs = "lp_active s"] by simp
  show ?thesis using assms ys(2-4) unfolding loop_inv_def end_execution_def ys(1) [symmetric]
    by (auto simp: Let_def list_all_iff ids_def split: loop_pc.splits if_splits)
qed

lemma loop_go_inv:
  assumes "loop_go cfg now s = Some s'" and "loop_inv cfg s"
  shows "loop_inv cfg s'"
  using assms all_settled_covers
  by (cases "lp_pc s") (auto simp: loop_go_def loop_inv_def split: if_splits)

lemma loop_next_inv:
  assumes "loop_next own cfg ev s = Some s'" and "loop_inv cfg s"
  shows "loop_inv cfg s'"
proof (cases ev)
  case (LAcquired now job)
  show ?thesis
  proof (cases job)
    case (Some j)
    then show ?thesis using assms LAcquired begin_execution_inv [of cfg s own j "Some now"]
      by (auto simp: loop_next_def split: if_splits)
  qed (use assms LAcquired in \<open>auto simp: loop_next_def loop_inv_def split: if_splits\<close>)
next
  case (LSettle i)
  then show ?thesis using assms end_execution_inv by (auto simp: loop_next_def split: if_splits)
next
  case (LGo now)
  then show ?thesis using assms loop_go_inv by (auto simp: loop_next_def)
next
  case (LRecovered ok)
  then show ?thesis using assms
    by (cases "lp_pc s"; cases ok) (auto simp: loop_next_def loop_inv_def)
qed (use assms in \<open>cases "lp_pc s"; auto simp: loop_next_def loop_inv_def split: if_splits\<close>)+

lemma loop_reach_inv: "loop_reach own cfg s s' \<Longrightarrow> loop_inv cfg s \<Longrightarrow> loop_inv cfg s'"
  by (induction rule: loop_reach.induct) (auto intro: loop_next_inv)

lemma loop_start_inv: "loop_inv cfg (loop_start now)"
  by (simp add: loop_inv_def loop_start_def ids_def)

subsection \<open>Properties\<close>

text \<open>
  C22: A worker never overbooks: in every reachable state at most as many executions are under
  way as the concurrency allows, the published count is theirs, and a loop that has
  returned has left none behind.
\<close>

theorem loop_bounded:
  assumes "loop_reach own cfg (loop_start t) s"
  shows "length (lp_active s) \<le> lc_concurrency cfg \<and> lp_activeJobCount s = length (lp_active s)
    \<and> (lp_pc s = Returned \<longrightarrow> lp_active s = [])"
  using loop_reach_inv [OF assms loop_start_inv] by (auto simp: loop_inv_def split: if_splits)

text \<open>The executions begun and the one being acquired; none is added once the signal is aborted.\<close>

definition loop_begun :: "'j loop_state \<Rightarrow> nat" where
  "loop_begun s = lp_nextId s + (if lp_pc s = Acquiring then 1 else 0)"

lemma loop_next_aborted:
  assumes "loop_next own cfg ev s = Some s'" and "lp_aborted s"
  shows "lp_aborted s' \<and> loop_begun s' \<le> loop_begun s"
proof (cases ev)
  case (LAcquired now job)
  then show ?thesis using assms
    by (cases job) (auto simp: loop_next_def loop_begun_def begin_execution_def Let_def split: if_splits)
next
  case (LGo now)
  then show ?thesis using assms
    by (cases "lp_pc s") (auto simp: loop_next_def loop_go_def loop_begun_def split: if_splits)
qed (use assms in \<open>cases "lp_pc s"; auto simp: loop_next_def loop_begun_def end_execution_def Let_def split: if_splits\<close>)+

text \<open>
  No new work after the signal: from then on a loop begins at most the one execution whose
  acquisition was already under way.
\<close>

theorem no_new_work_after_abort:
  assumes "loop_reach own cfg s s'" and "lp_aborted s"
  shows "lp_nextId s' \<le> lp_nextId s + (if lp_pc s = Acquiring then 1 else 0)"
proof -
  have "lp_aborted s' \<and> loop_begun s' \<le> loop_begun s"
    using assms by (induction rule: loop_reach.induct) (auto dest: loop_next_aborted)
  then show ?thesis by (simp add: loop_begun_def)
qed

text \<open>The way still to go after the signal.\<close>

fun loop_rank :: "loop_pc \<Rightarrow> nat" where
  "loop_rank Acquiring = 10"
| "loop_rank (Recovering due) = 9"
| "loop_rank Filling = 8"
| "loop_rank Filled = 7"
| "loop_rank Idle = 6"
| "loop_rank (Racing waited) = 6"
| "loop_rank Top = 5"
| "loop_rank Leaving = 4"
| "loop_rank (Draining waited) = 3"
| "loop_rank (Aborting waited) = 2"
| "loop_rank Returned = 0"

definition loop_ahead :: "'j loop_state \<Rightarrow> nat" where
  "loop_ahead s = loop_rank (lp_pc s) + length (lp_active s)"

lemma end_execution_shorter:
  assumes "i \<in> set (ids (lp_active s))"
  shows "loop_ahead (end_execution i s) < loop_ahead s"
proof -
  have "length (filter (\<lambda>x. xn_id x \<noteq> i) (lp_active s)) < length (lp_active s)"
    using assms by (auto simp: ids_def intro: length_filter_less)
  then show ?thesis by (simp add: loop_ahead_def end_execution_def Let_def)
qed

lemma loop_next_ahead:
  assumes "loop_next own cfg ev s = Some s'" and "lp_aborted s"
  shows "loop_ahead s' < loop_ahead s"
proof (cases ev)
  case (LSettle i)
  then show ?thesis using assms end_execution_shorter by (auto simp: loop_next_def split: if_splits)
next
  case (LAcquired now job)
  then show ?thesis using assms
    by (cases job) (auto simp: loop_next_def loop_ahead_def begin_execution_def Let_def split: if_splits)
next
  case (LGo now)
  then show ?thesis using assms
    by (cases "lp_pc s") (auto simp: loop_next_def loop_go_def loop_ahead_def split: if_splits)
next
  case (LRecovered ok)
  then show ?thesis using assms
    by (cases "lp_pc s"; cases ok) (auto simp: loop_next_def loop_ahead_def)
qed (use assms in \<open>cases "lp_pc s"; auto simp: loop_next_def loop_ahead_def split: if_splits\<close>)+

lemma loop_events_ahead:
  assumes "loop_events own cfg evs s = Some s'" and "lp_aborted s"
  shows "length evs + loop_ahead s' \<le> loop_ahead s"
  using assms
proof (induction evs arbitrary: s)
  case (Cons ev evs)
  then obtain s1 where s1: "loop_next own cfg ev s = Some s1" "loop_events own cfg evs s1 = Some s'"
    by (auto simp: bind_eq_Some_conv)
  with Cons loop_next_ahead [OF s1(1)] loop_next_aborted [OF s1(1)] show ?case by fastforce
qed simp

lemma loop_not_stuck:
  assumes "lp_pc s \<noteq> Returned"
  shows "\<exists>ev s'. loop_next own cfg ev s = Some s'"
proof (cases "lp_active s")
  case (Cons x xs)
  then show ?thesis
    by (intro exI [of _ "LSettle (xn_id x)"]) (simp add: loop_next_def ids_def)
next
  case Nil
  show ?thesis
  proof (cases "lp_pc s")
    case (Recovering due)
    then show ?thesis by (intro exI [of _ "LRecovered False"]) (simp add: loop_next_def)
  next
    case Acquiring
    then show ?thesis by (intro exI [of _ LAcquireFailed]) (simp add: loop_next_def)
  next
    case Idle
    then show ?thesis by (intro exI [of _ LWake]) (simp add: loop_next_def)
  qed (use assms Nil in \<open>(intro exI [of _ "LGo 0"], simp add: loop_next_def loop_go_def all_settled_def
      ids_def list_all_iff)\<close>)+
qed

text \<open>
  C23: Shutdown ends: once the signal is aborted, no matter how long executions, statements and
  sleeps take, at most ten events more than the concurrency are left, and until the loop
  has returned one of them can happen.
\<close>

theorem loop_stops:
  assumes "loop_reach own cfg (loop_start t) s" and "lp_aborted s"
  shows "(\<forall>evs s'. loop_events own cfg evs s = Some s' \<longrightarrow> length evs \<le> lc_concurrency cfg + 10)
    \<and> (lp_pc s \<noteq> Returned \<longrightarrow> (\<exists>ev s'. loop_next own cfg ev s = Some s'))"
proof -
  have "length (lp_active s) \<le> lc_concurrency cfg"
    using loop_reach_inv [OF assms(1) loop_start_inv] by (auto simp: loop_inv_def split: if_splits)
  moreover have "loop_rank (lp_pc s) \<le> 10" by (cases "lp_pc s") simp_all
  ultimately have "loop_ahead s \<le> lc_concurrency cfg + 10" by (simp add: loop_ahead_def)
  then show ?thesis using loop_events_ahead [OF _ assms(2)] loop_not_stuck by (meson add_leD1 order_trans)
qed

text \<open>
  In the loop of the publish worker every execution runs under the aborted signal from the
  abort on, also one whose job was still being acquired; in that of the content worker this
  late execution is not told before the shutdown timeout.
\<close>

lemma publish_loop_aborts_all:
  assumes "loop_reach False cfg (loop_start t) s" and "lp_aborted s"
  shows "list_all xn_aborted (lp_active s)"
proof -
  have step: "(lp_aborted s' \<longrightarrow> list_all xn_aborted (lp_active s'))
      \<Longrightarrow> loop_next False cfg ev s' = Some s'' \<Longrightarrow> lp_aborted s'' \<longrightarrow> list_all xn_aborted (lp_active s'')"
    for s' s'' :: "'a loop_state" and ev
    by (cases ev; cases "lp_pc s'")
      (auto simp: loop_next_def loop_go_def begin_execution_def end_execution_def abort_all_def
        list_all_iff Let_def split: if_splits option.splits)
  have "lp_aborted s \<longrightarrow> list_all xn_aborted (lp_active s)"
    using assms(1)
  proof (induction "loop_start t :: 'a loop_state" s rule: loop_reach.induct)
    case (reach_step s' ev s'')
    then show ?case using step by blast
  qed (simp add: loop_start_def)
  with assms(2) show ?thesis by simp
qed

definition demo_loop :: loop_config where
  "demo_loop = \<lparr>lc_concurrency = 2, lc_staleRecoveryIntervalMs = 1000\<rparr>"

text \<open>The signal comes while the second job is being acquired.\<close>

definition demo_events :: "string loop_event list" where
  "demo_events = [LGo 0, LRecovered True, LGo 0, LAcquired 1 (Some ''a''), LGo 1, LAbort,
     LAcquired 2 (Some ''b''), LGo 2, LGo 2, LGo 2]"

definition demo_left :: "bool \<Rightarrow> string loop_state" where
  "demo_left own = the (loop_events own demo_loop demo_events (loop_start 0))"

lemma late_job_not_aborted:
  "map (\<lambda>x. (xn_job x, xn_aborted x)) (lp_active (demo_left True)) = [(''a'', True), (''b'', False)]
   \<and> map (\<lambda>x. (xn_job x, xn_aborted x)) (lp_active (demo_left False)) = [(''a'', True), (''b'', True)]
   \<and> lp_pc (demo_left True) = Draining [0, 1]"
  by (intro conjI) code_simp+

lemma demo_left_reached:
  "loop_reach own demo_loop (loop_start 0) (demo_left own)" "lp_aborted (demo_left own)"
proof -
  have "loop_events True demo_loop demo_events (loop_start 0) \<noteq> None"
    "loop_events False demo_loop demo_events (loop_start 0) \<noteq> None" by code_simp+
  then have "loop_events own demo_loop demo_events (loop_start 0) \<noteq> None" by (cases own) simp_all
  then show "loop_reach own demo_loop (loop_start 0) (demo_left own)"
    using loop_events_reach unfolding demo_left_def by fastforce
  have "lp_aborted (demo_left True)" "lp_aborted (demo_left False)" by code_simp+
  then show "lp_aborted (demo_left own)" by (cases own) simp_all
qed

lemma loop_bounded_witness: "length (lp_active (demo_left True)) \<le> 2"
  using loop_bounded [OF demo_left_reached(1)] by (simp add: demo_loop_def)

lemma no_new_work_after_abort_witness:
  "\<exists>s'. loop_next True demo_loop LTimeout (demo_left True) = Some s' \<and> lp_nextId s' \<le> lp_nextId (demo_left True)"
proof -
  obtain s' where s': "loop_next True demo_loop LTimeout (demo_left True) = Some s'"
    using late_job_not_aborted by (auto simp: loop_next_def)
  have "lp_pc (demo_left True) \<noteq> Acquiring" using late_job_not_aborted by simp
  with no_new_work_after_abort [OF reach_step [OF reach_refl s'] demo_left_reached(2)] s' show ?thesis by auto
qed

lemma loop_stops_witness: "\<exists>ev s'. loop_next True demo_loop ev (demo_left True) = Some s'"
  using loop_stops [OF demo_left_reached] late_job_not_aborted by auto

subsection \<open>The runner\<close>

text \<open>
  What the runner publishes.  \<open>start\<close> begins the loop once and gives back the same promise
  ever after; \<open>stop\<close> awaits it, if there is one.
\<close>

record runner_state =
  rn_running :: bool
  rn_started :: bool
  rn_stopping :: bool
  rn_stopped :: bool
  rn_activeJobCount :: nat

definition runner_start :: "runner_state \<Rightarrow> runner_state" where
  "runner_start r =
     (if rn_running r then r
      else r\<lparr>rn_running := True, rn_started := True, rn_stopped := False\<rparr>)"

definition runner_loop_ended :: "runner_state \<Rightarrow> runner_state" where
  "runner_loop_ended r = r\<lparr>rn_stopped := True, rn_stopping := False, rn_activeJobCount := 0\<rparr>"

definition runner_stop :: "runner_state \<Rightarrow> runner_state" where
  "runner_stop r = r\<lparr>rn_stopping := True\<rparr>"

lemma runner_start_once: "runner_start (runner_start r) = runner_start r"
  by (simp add: runner_start_def)

text \<open>A runner stopped after its loop has ended goes on saying that it is stopping.\<close>

lemma runner_stop_late: "rn_stopping (runner_stop (runner_loop_ended r))" "rn_stopped (runner_stop (runner_loop_ended r))"
  by (simp_all add: runner_stop_def runner_loop_ended_def)

end
