(* ===== verification/CtaGuide.thy ===== *)
theory CtaGuide
  imports Publications Fingerprint
begin

text \<open>
  From the result of the AI pipeline to a publication: the template of the CTA guide
  (\<open>src/application/publications/templates/cta-guide-template.ts\<close>) and the builder
  (\<open>publication-builder.ts\<close>).  Numbers are printed in decimal, as JavaScript prints integers
  below \<open>10^21\<close>; \<open>nowIso\<close> is what the clock gives.
\<close>

subsection \<open>Texts\<close>

text \<open>\<open>replace(/\s+/g, ' ')\<close>; the flag tells that the last character was white.\<close>

fun collapse_whitespace :: "bool \<Rightarrow> string \<Rightarrow> string" where
  "collapse_whitespace white [] = []"
| "collapse_whitespace white (c # s) =
     (if js_space c then (if white then collapse_whitespace True s else CHR '' '' # collapse_whitespace True s)
      else c # collapse_whitespace False s)"

definition normalizeWhitespace :: "string \<Rightarrow> string" where
  "normalizeWhitespace value = collapse_whitespace False (js_trim value)"

definition slug_char :: "char \<Rightarrow> bool" where
  "slug_char c \<longleftrightarrow> (let n = of_char c :: nat in (48 \<le> n \<and> n \<le> 57) \<or> (97 \<le> n \<and> n \<le> 122))"

fun dash_runs :: "bool \<Rightarrow> string \<Rightarrow> string" where
  "dash_runs dashed [] = []"
| "dash_runs dashed (c # s) =
     (if slug_char c then c # dash_runs False s
      else if dashed then dash_runs True s else CHR ''-'' # dash_runs True s)"

definition slugify :: "string \<Rightarrow> string" where
  "slugify value = take 120 (trim_by (\<lambda>c. c = CHR ''-'') (dash_runs False (lower_case value)))"

text \<open>The first of the values with the same key.\<close>

fun first_by :: "('a \<Rightarrow> string) \<Rightarrow> string list \<Rightarrow> 'a list \<Rightarrow> 'a list" where
  "first_by key seen [] = []"
| "first_by key seen (x # xs) =
     (if key x \<in> set seen then first_by key seen xs else x # first_by key (key x # seen) xs)"

definition normalizeScriptureKey :: "scripture_reference \<Rightarrow> string" where
  "normalizeScriptureKey r =
     join ''|'' [lower_case (normalizeWhitespace (ar_book r)), stringify_int (ar_chapter r),
       stringify_int (ar_verseStart r), (case ar_verseEnd r of None \<Rightarrow> [] | Some v \<Rightarrow> stringify_int v)]"

definition deduplicateScriptureReferences :: "scripture_reference list \<Rightarrow> scripture_reference list" where
  "deduplicateScriptureReferences = first_by normalizeScriptureKey []"

definition normalizeReferenceKey :: "publication_reference \<Rightarrow> string" where
  "normalizeReferenceKey r =
     (case pq_referenceType r of
        InternalReference \<Rightarrow> ''internal|'' @ (case pq_targetId r of Some t \<Rightarrow> t | None \<Rightarrow> [])
      | ExternalReference \<Rightarrow>
          ''external|'' @ lower_case (normalizeWhitespace (case pq_url r of Some u \<Rightarrow> u | None \<Rightarrow> pq_label r))
      | BibleReference \<Rightarrow> ''bible|'' @ lower_case (normalizeWhitespace (pq_label r)))"

definition deduplicatePublicationReferences :: "publication_reference list \<Rightarrow> publication_reference list" where
  "deduplicatePublicationReferences = first_by normalizeReferenceKey []"

fun unique_non_empty :: "string list \<Rightarrow> string list \<Rightarrow> string list" where
  "unique_non_empty seen [] = []"
| "unique_non_empty seen (v # vs) =
     (let normalized = normalizeWhitespace v; key = lower_case normalized in
      if normalized = [] \<or> key \<in> set seen then unique_non_empty seen vs
      else normalized # unique_non_empty (key # seen) vs)"

definition uniqueNonEmpty :: "string list \<Rightarrow> string list" where
  "uniqueNonEmpty values = unique_non_empty [] values"

subsection \<open>Sections\<close>

definition createTextBlock :: "string \<Rightarrow> text_kind \<Rightarrow> string \<Rightarrow> publication_block" where
  "createTextBlock i kind body = TextBlock i kind body None None None"

definition createHeading :: "string \<Rightarrow> string \<Rightarrow> nat \<Rightarrow> publication_block" where
  "createHeading i body level = HeadingBlock i level body None None"

definition section_with :: "string \<Rightarrow> string \<Rightarrow> publication_block list \<Rightarrow> publication_section" where
  "section_with i title blocks =
     \<lparr>pn_id = i, pn_title = title, pn_slug = i, pn_order = 0, pn_blocks = blocks\<rparr>"

fun reference_type_name :: "reference_type \<Rightarrow> string" where
  "reference_type_name BibleReference = ''bible''"
| "reference_type_name ExternalReference = ''external''"
| "reference_type_name InternalReference = ''internal''"

text \<open>The list \<open>sections\<close> that \<open>createSections\<close> fills, and its return.\<close>

definition pushed_sections :: "ai_result \<Rightarrow> publication_reference list \<Rightarrow> publication_section list" where
  "pushed_sections ai references =
     (let scriptureLines = map pq_label references;
          keywords = uniqueNonEmpty (ai_keywords ai);
          reflections = uniqueNonEmpty (ai_reflections ai);
          short = as_shortSummary (ai_summary_of ai)
      in    [section_with ''cover'' ''Cover''
               [createHeading ''cover-h1'' (am_title (ai_metadata_of ai)) 1,
                createTextBlock ''cover-subtitle'' Paragraph short],
             section_with ''table-of-contents'' ''Table of Contents''
               [createHeading ''toc-h1'' ''Table of Contents'' 1,
                createTextBlock ''toc-note'' Paragraph ''Entries are generated from section and heading hierarchy.''],
             section_with ''message-summary'' ''Message Summary''
               [createHeading ''summary-h1'' ''Message Summary'' 1,
                createHeading ''summary-h2-detail'' ''Detailed Summary'' 2,
                createTextBlock ''summary-short'' KeyTakeaway short,
                createTextBlock ''summary-detailed'' Paragraph (as_detailedSummary (ai_summary_of ai))]]
            @ (if keywords = [] then []
               else [section_with ''key-themes'' ''Key Themes''
                 [createHeading ''themes-h1'' ''Key Themes'' 1, createHeading ''themes-h2-list'' ''Theme Highlights'' 2,
                  ListBlock ''themes-list'' BulletList keywords None None]])
            @ (if scriptureLines = [] then []
               else [section_with ''scripture-references'' ''Scripture References''
                 [createHeading ''scripture-h1'' ''Scripture References'' 1,
                  createHeading ''scripture-h2-passages'' ''Referenced Passages'' 2,
                  ScriptureBlock ''scripture-block'' scriptureLines (join ''; '' scriptureLines) None None]])
            @ (if reflections = [] then []
               else [section_with ''reflection-questions'' ''Reflection Questions''
                 [createHeading ''reflection-h1'' ''Reflection Questions'' 1,
                  createHeading ''reflection-h2-questions'' ''Questions'' 2,
                  ListBlock ''reflection-list'' NumberedList reflections None None]])
            @ (if references = [] then []
               else [section_with ''references'' ''References''
                 [createHeading ''references-h1'' ''References'' 1,
                  TableBlock ''references-table'' [''Type'', ''Reference'']
                    (map (\<lambda>r. [reference_type_name (pq_referenceType r), pq_label r]) references)]]))"

definition createSections :: "ai_result \<Rightarrow> publication_reference list \<Rightarrow> publication_section list" where
  "createSections ai references = numbered (\<lambda>n s. s\<lparr>pn_order := int n\<rparr>) (pushed_sections ai references)"

definition scripture_label :: "scripture_reference \<Rightarrow> string" where
  "scripture_label r =
     normalizeWhitespace (ar_book r) @ '' '' @ stringify_int (ar_chapter r) @ '':'' @ stringify_int (ar_verseStart r)
     @ (case ar_verseEnd r of None \<Rightarrow> [] | Some v \<Rightarrow> ''-'' @ stringify_int v)"

definition bible_reference :: "string \<Rightarrow> nat \<Rightarrow> scripture_reference \<Rightarrow> publication_reference" where
  "bible_reference pipelineVersion n r =
     \<lparr>pq_id = ''ref-scripture-'' @ digits_of n, pq_referenceType = BibleReference, pq_label = scripture_label r,
      pq_detail = ''Scripture reference extracted from transcript context ('' @ pipelineVersion @ '').'',
      pq_url = None, pq_targetId = None\<rparr>"

definition createReferences :: "ai_result \<Rightarrow> publication_reference list" where
  "createReferences ai =
     numbered (\<lambda>n r. r\<lparr>pq_id := ''ref-scripture-'' @ digits_of n\<rparr>)
       (deduplicatePublicationReferences
         (numbered (bible_reference (ai_pipelineVersion ai)) (deduplicateScriptureReferences (ai_references ai))))"

subsection \<open>The table of contents\<close>

definition normalizeHeadingLevel :: "nat \<Rightarrow> nat \<Rightarrow> nat" where
  "normalizeHeadingLevel previousLevel requested =
     (if requested \<le> 1 then 2
      else let nextMax = min 3 (previousLevel + 1) in if requested > nextMax then nextMax else requested)"

fun heading_entries :: "publication_section \<Rightarrow> nat \<Rightarrow> string option \<Rightarrow> publication_block list \<Rightarrow> toc_entry list" where
  "heading_entries s previousLevel parentLevel2Id [] = []"
| "heading_entries s previousLevel parentLevel2Id (HeadingBlock i level body cs fs # blocks) =
     (if level > 1
      then let normalizedLevel = normalizeHeadingLevel previousLevel level;
               entryId = ''toc-'' @ i;
               parentId = (if normalizedLevel = 2 then ''toc-'' @ pn_id s
                 else (case parentLevel2Id of Some p \<Rightarrow> p | None \<Rightarrow> ''toc-'' @ pn_id s))
           in \<lparr>te_id = entryId, te_targetId = i, te_title = body, te_level = normalizedLevel,
                te_anchor = pn_slug s @ ''-'' @ slugify i, te_parentId = Some parentId, te_pageNumber = None\<rparr>
              # heading_entries s normalizedLevel (if normalizedLevel = 2 then Some entryId else parentLevel2Id) blocks
      else heading_entries s previousLevel parentLevel2Id blocks)"
| "heading_entries s previousLevel parentLevel2Id (block # blocks) =
     heading_entries s previousLevel parentLevel2Id blocks"

definition section_entries :: "publication_section \<Rightarrow> toc_entry list" where
  "section_entries s =
     (if is_front_matter (pn_id s) then []
      else \<lparr>te_id = ''toc-'' @ pn_id s, te_targetId = pn_id s, te_title = pn_title s, te_level = 1,
             te_anchor = pn_slug s, te_parentId = None, te_pageNumber = None\<rparr>
           # heading_entries s 1 None (pn_blocks s))"

definition createTocEntriesForSections :: "publication_section list \<Rightarrow> toc_entry list" where
  "createTocEntriesForSections sections = concat (map section_entries sections)"

subsection \<open>The guide and its builder\<close>

definition guide_citation :: "nat \<Rightarrow> publication_reference \<Rightarrow> publication_citation" where
  "guide_citation n r = \<lparr>pi_id = ''citation-'' @ digits_of n, pi_label = ''Citation '' @ digits_of n,
     pi_text = pq_label r, pi_referenceId = Some (pq_id r)\<rparr>"

definition buildCtaGuidePublication ::
  "string \<Rightarrow> string \<Rightarrow> string \<Rightarrow> string \<Rightarrow> ai_result \<Rightarrow> string \<Rightarrow> string \<Rightarrow> publication" where
  "buildCtaGuidePublication publicationId sourceVersionId sourceContentHash generatedAt ai audience theme' =
     (let references = createReferences ai; sections = createSections ai references;
          title = am_title (ai_metadata_of ai); short = as_shortSummary (ai_summary_of ai) in
      \<lparr>pu_metadata = \<lparr>pd_publicationId = publicationId, pd_publicationType = ''cta-guide'', pd_title = title,
         pd_subtitle = Some short, pd_author = ''RoaM Content Engine'', pd_organization = None,
         pd_generatedAt = generatedAt, pd_sourceVersionId = sourceVersionId,
         pd_sourceContentHash = sourceContentHash, pd_pipelineVersion = ai_pipelineVersion ai,
         pd_audience = audience, pd_theme = theme',
         pd_style = \<lparr>py_tone = ''pastoral guidance'', py_readingLevel = ''introductory'', py_voice = ''reflective''\<rparr>\<rparr>,
       pu_cover = \<lparr>pv_title = title, pv_subtitle = Some short, pv_author = ''RoaM Content Engine'',
         pv_organization = None, pv_coverImageAssetId = None, pv_branding = Some ''RoaM'',
         pv_generatedDate = generatedAt, pv_publicationType = ''cta-guide''\<rparr>,
       pu_toc = createTocEntriesForSections sections,
       pu_sections = sections,
       pu_references = references,
       pu_citations = numbered guide_citation references,
       pu_footnotes = [],
       pu_assets = [\<lparr>pa_id = ''cover-image-placeholder'', pa_uri = ''asset://cover-image-placeholder'',
         pa_altText = Some ''Cover image placeholder'', pa_mimeType = None\<rparr>],
       pu_schemaVersion = ''1.0'', pu_layoutIntent = ''digital-first'', pu_language = am_language (ai_metadata_of ai),
       pu_preferredTargets = [''cta-guide''], pu_includeCover = True, pu_includeToc = True\<rparr>)"

datatype publication_error =
    PublicationCancelledError
  | PublicationValidationError string
  | UnsupportedPublicationTypeError string
  | PublicationBuildError
  | PublicationInputError

record build_input =
  bi_sourceVersionId :: string
  bi_sourceContentHash :: string
  bi_aiResult :: "ai_result option"
  bi_publicationType :: string
  bi_audience :: "string option"
  bi_theme :: "string option"

definition mapAudience :: "string \<Rightarrow> string" where
  "mapAudience value =
     (let normalized = lower_case (js_trim value) in
      if contains ''youth'' normalized then ''youth''
      else if contains ''leader'' normalized then ''leadership''
      else if contains ''small group'' normalized then ''small-group''
      else if contains ''study'' normalized then ''bible-study''
      else if contains ''education'' normalized then ''education''
      else if contains ''nonprofit'' normalized then ''nonprofit''
      else if contains ''coach'' normalized then ''coaching''
      else if contains ''church'' normalized then ''church''
      else ''general'')"

definition publicationBuilderInputSchema :: "build_input \<Rightarrow> build_input option" where
  "publicationBuilderInputSchema b = do {
     sourceVersionId \<leftarrow> zstring 1 80 (bi_sourceVersionId b);
     sourceContentHash \<leftarrow> zstring 1 200 (bi_sourceContentHash b);
     publicationType \<leftarrow> zstring 1 80 (bi_publicationType b);
     audience \<leftarrow> zopt (zenum publication_audiences) (bi_audience b);
     theme' \<leftarrow> zopt (zenum html_themes) (bi_theme b);
     Some (b\<lparr>bi_sourceVersionId := sourceVersionId, bi_sourceContentHash := sourceContentHash,
       bi_publicationType := publicationType, bi_audience := audience, bi_theme := theme'\<rparr>)
   }"

text \<open>\<open>None\<close> as an AI result is a payload of another shape.\<close>

definition publication_build ::
  "(string \<Rightarrow> bool) \<Rightarrow> (string \<Rightarrow> bool) \<Rightarrow> bool \<Rightarrow> string \<Rightarrow> build_input \<Rightarrow> publication_error + publication" where
  "publication_build datetime isUrl aborted nowIso input =
     (if aborted then Inl PublicationCancelledError
      else case publicationBuilderInputSchema input of
        None \<Rightarrow> Inl PublicationInputError
      | Some v \<Rightarrow>
          (case Option.bind (bi_aiResult input) (aiPipelineResultSchema datetime) of
             None \<Rightarrow> Inl (PublicationValidationError ''AI payload is invalid for publication generation.'')
           | Some ai \<Rightarrow>
               let audience = (case bi_audience v of Some a \<Rightarrow> a | None \<Rightarrow> mapAudience (am_audience (ai_metadata_of ai)));
                   theme' = (case bi_theme v of Some t \<Rightarrow> t | None \<Rightarrow> ''ministry'')
               in if bi_publicationType v = ''cta-guide''
                  then (case publicationSchema datetime isUrl
                          (buildCtaGuidePublication (''pub_'' @ bi_sourceVersionId v) (bi_sourceVersionId v)
                             (bi_sourceContentHash v) nowIso ai audience theme') of
                      None \<Rightarrow> Inl (PublicationValidationError ''Publication validation failed.'')
                    | Some p \<Rightarrow> Inr p)
                  else Inl (UnsupportedPublicationTypeError (bi_publicationType v))))"

end
