(* ===== verification/TrimmedTexts.thy ===== *)
theory TrimmedTexts
  imports Publications Fingerprint
begin

text \<open>
  Texts that a schema leaves as they are, and facts on the schema combinators, numbered lists and
  printed numbers that the building of publications shares.
\<close>

subsection \<open>Trimmed texts\<close>

definition trimmed :: "string \<Rightarrow> bool" where
  "trimmed s \<longleftrightarrow> s \<noteq> [] \<and> \<not> js_space (hd s) \<and> \<not> js_space (last s)"

lemma trim_trimmed [simp]: "trimmed s \<Longrightarrow> js_trim s = s"
  by (auto simp: js_trim_def trimmed_def intro: trim_by_fixed)

lemma trimmed_trim: "js_trim s \<noteq> [] \<Longrightarrow> trimmed (js_trim s)"
  using trim_by_ends [of js_space s] by (simp add: js_trim_def trimmed_def)

lemma zstring_trimmed: "trimmed s \<Longrightarrow> zstring lo hi s = (if lo \<le> length s \<and> length s \<le> hi then Some s else None)"
  by (simp add: zstring_def)

lemma zstring_result:
  "zstring lo hi s = Some t \<Longrightarrow> 1 \<le> lo \<Longrightarrow> trimmed t \<and> lo \<le> length t \<and> length t \<le> hi"
  using trimmed_trim [of s] by (cases "js_trim s = []") (auto simp: zstring_def Let_def split: if_splits)

lemma trimmed_append: "trimmed s \<Longrightarrow> trimmed t \<Longrightarrow> trimmed (s @ mid @ t)"
  by (auto simp: trimmed_def hd_append)

lemma trimmed_append2: "trimmed s \<Longrightarrow> trimmed t \<Longrightarrow> trimmed (s @ t)"
  by (auto simp: trimmed_def hd_append)

lemma trimmed_Cons: "trimmed (c # s) \<longleftrightarrow> \<not> js_space c \<and> \<not> js_space (last (c # s))"
  by (simp add: trimmed_def)

lemma trimmed_length: "trimmed s \<Longrightarrow> Suc 0 \<le> length s"
  by (auto simp: trimmed_def Suc_le_eq)

lemma join_trimmed: "xs \<noteq> [] \<Longrightarrow> (\<And>x. x \<in> set xs \<Longrightarrow> trimmed x) \<Longrightarrow> trimmed (join sep xs)"
  by (induction sep xs rule: join.induct) (auto intro: trimmed_append)

lemma zopt_known: "zopt (zenum vs) x = Some y \<Longrightarrow> y = Some a \<Longrightarrow> a \<in> set vs"
  by (auto simp: zopt_def zenum_def split: option.splits if_splits)

lemma zstring_None: "length s > hi \<Longrightarrow> trimmed s \<Longrightarrow> zstring lo hi s = None"
  by (simp add: zstring_trimmed)

lemma zlist_same: "(\<And>x. x \<in> set xs \<Longrightarrow> f x = Some x) \<Longrightarrow> lo \<le> length xs \<Longrightarrow> length xs \<le> hi \<Longrightarrow> zlist lo hi f xs = Some xs"
proof -
  assume "\<And>x. x \<in> set xs \<Longrightarrow> f x = Some x" and l: "lo \<le> length xs" "length xs \<le> hi"
  then have "map f xs = map Some xs" by simp
  moreover have "those (map Some xs) = Some xs" by (induction xs) auto
  ultimately have "those (map f xs) = Some xs" by (simp only:)
  then show ?thesis using l by (simp add: zlist_def)
qed

lemma zlist_result:
  assumes "zlist lo hi f xs = Some ys"
  shows "lo \<le> length ys" and "length ys \<le> hi" and "x \<in> set xs \<Longrightarrow> \<exists>y. f x = Some y"
    and "y \<in> set ys \<Longrightarrow> \<exists>x \<in> set xs. f x = Some y"
proof -
  have t: "those (map f xs) = Some ys" and l: "lo \<le> length xs" "length xs \<le> hi"
    using assms by (auto simp: zlist_def split: if_splits)
  have "map f xs = map Some ys" using t
    by (induction xs arbitrary: ys) (auto split: option.splits)
  then have e: "length xs = length ys" "\<And>i. i < length xs \<Longrightarrow> f (xs ! i) = Some (ys ! i)"
    by (auto simp: list_eq_iff_nth_eq)
  show "lo \<le> length ys" "length ys \<le> hi" using l e(1) by auto
  show "\<exists>y. f x = Some y" if "x \<in> set xs" using that e by (auto simp: in_set_conv_nth)
  show "\<exists>x \<in> set xs. f x = Some y" if "y \<in> set ys" using that e by (metis in_set_conv_nth)
qed

lemma lower_case_length [simp]: "length (lower_case s) = length s"
  by (simp add: lower_case_def)

subsection \<open>Numbering\<close>

lemma numbered_alt: "numbered f xs = map (\<lambda>i. f (Suc i) (xs ! i)) [0..<length xs]"
  unfolding numbered_def by (rule nth_equalityI) (auto simp: nth_enumerate_eq)

lemma numbered_shape [simp]: "length (numbered f xs) = length xs" "numbered f [] = []" "numbered f xs = [] \<longleftrightarrow> xs = []"
  by (auto simp: numbered_alt)

lemma in_numbered: "y \<in> set (numbered f xs) \<Longrightarrow> \<exists>n \<le> length xs. \<exists>x \<in> set xs. 1 \<le> n \<and> y = f n x"
proof -
  assume "y \<in> set (numbered f xs)"
  then obtain i where "i < length xs" "y = f (Suc i) (xs ! i)" by (auto simp: numbered_alt)
  then show ?thesis by (intro exI [of _ "Suc i"]) (auto simp: Suc_le_eq)
qed

fun digits_value :: "nat \<Rightarrow> string \<Rightarrow> nat" where
  "digits_value acc [] = acc"
| "digits_value acc (c # s) = digits_value (10 * acc + hex_val c) s"

lemma digits_value_append: "digits_value acc (s @ t) = digits_value (digits_value acc s) t"
  by (induction acc s rule: digits_value.induct) auto

lemma digits_value_of: "digits_value 0 (digits_of n) = n"
proof (induction n rule: digits_of.induct)
  case (1 n)
  show ?case
    by (subst digits_of.simps) (use 1 in \<open>auto simp: digits_value_append hex_val_digit\<close>)
qed

lemma digits_of_inject [simp]: "digits_of m = digits_of n \<longleftrightarrow> m = n"
  by (metis digits_value_of)

lemma distinct_numbered:
  assumes "\<And>m n x y. key (f m x) = key (f n y) \<Longrightarrow> m = n"
  shows "distinct (map key (numbered f xs))"
  unfolding numbered_alt by (auto simp: distinct_map inj_on_def dest!: assms)

lemma not_space_digit: "\<not> js_space (hex_digit n)"
proof -
  have "list_all (\<lambda>m. \<not> js_space (hex_digit m)) [0..<16]" by code_simp
  then have "\<not> js_space (hex_digit (n mod 16))" by (auto simp: list_all_iff)
  then show ?thesis by (simp add: hex_digit_def)
qed

lemma trimmed_digits [simp]: "trimmed (digits_of n)"
proof (induction n rule: digits_of.induct)
  case (1 n)
  show ?case
    by (subst digits_of.simps) (use 1 in \<open>auto simp: trimmed_def not_space_digit hd_append\<close>)
qed

lemma digits_of_short: "n < 100 \<Longrightarrow> length (digits_of n) \<le> 2"
  by (subst digits_of.simps, subst digits_of.simps) auto

end
