(* ===== verification/GuideBuild.thy ===== *)
theory GuideBuild
  imports CtaGuide TrimmedTexts
begin

text \<open>
  When a result of the AI pipeline becomes a publication: the schema of publications leaves a built
  guide as it is, and refuses it exactly when one of the limits of \<open>guide_fits\<close> is passed.
\<close>

subsection \<open>Normalized texts\<close>

lemma collapse_last:
  "s \<noteq> [] \<Longrightarrow> \<not> js_space (last s) \<Longrightarrow>
   collapse_whitespace white s \<noteq> [] \<and> last (collapse_whitespace white s) = last s"
  by (induction white s rule: collapse_whitespace.induct) (auto split: if_splits)

lemma collapse_shorter: "length (collapse_whitespace white s) \<le> length s"
  by (induction white s rule: collapse_whitespace.induct) (auto intro: le_SucI)

lemma normalize_trimmed: "normalizeWhitespace v \<noteq> [] \<Longrightarrow> trimmed (normalizeWhitespace v)"
proof -
  assume "normalizeWhitespace v \<noteq> []"
  then have "js_trim v \<noteq> []" by (auto simp: normalizeWhitespace_def)
  then have t: "trimmed (js_trim v)" by (rule trimmed_trim)
  then obtain c s where v: "js_trim v = c # s" and "\<not> js_space c" by (cases "js_trim v") (auto simp: trimmed_def)
  then show ?thesis using t collapse_last [of "js_trim v" False]
    by (simp add: normalizeWhitespace_def trimmed_def)
qed

lemma normalize_nonempty: "trimmed v \<Longrightarrow> normalizeWhitespace v \<noteq> []"
  using collapse_last [of v False] by (simp add: normalizeWhitespace_def trimmed_def)

lemma length_trim: "length (js_trim v) \<le> length v"
  using trim_by_infix [of v js_space] unfolding js_trim_def
  by (metis le_add1 le_add2 le_trans length_append)

lemma normalize_shorter: "length (normalizeWhitespace v) \<le> length v"
  using collapse_shorter [of False "js_trim v"] length_trim [of v] by (simp add: normalizeWhitespace_def)

lemma unique_non_empty_elements:
  "x \<in> set (unique_non_empty seen vs) \<Longrightarrow> \<exists>v \<in> set vs. x = normalizeWhitespace v \<and> x \<noteq> []"
  by (induction seen vs rule: unique_non_empty.induct) (auto simp: Let_def split: if_splits)

lemma unique_non_empty_shorter: "length (unique_non_empty seen vs) \<le> length vs"
  by (induction seen vs rule: unique_non_empty.induct) (auto simp: Let_def intro: le_SucI)

lemma first_by_elements: "set (first_by key seen xs) \<subseteq> set xs"
  by (induction key seen xs rule: first_by.induct) (auto simp: Let_def)

lemma first_by_shorter: "length (first_by key seen xs) \<le> length xs"
  by (induction key seen xs rule: first_by.induct) (auto intro: le_SucI)

subsection \<open>What the AI result gives\<close>

lemma scripture_label_trimmed:
  assumes "trimmed (ar_book r)" and "0 < ar_verseStart r" and "\<forall>v. ar_verseEnd r = Some v \<longrightarrow> 0 < v"
  shows "trimmed (scripture_label r)"
proof -
  let ?book = "normalizeWhitespace (ar_book r)"
  let ?mid = "'' '' @ stringify_int (ar_chapter r) @ '':''"
  have b: "trimmed ?book" using assms by (simp add: normalize_nonempty normalize_trimmed)
  have n: "trimmed (stringify_int v)" if "0 < v" for v using that by (simp add: stringify_int_def)
  show ?thesis
  proof (cases "ar_verseEnd r")
    case None
    have "scripture_label r = ?book @ ?mid @ stringify_int (ar_verseStart r)"
      by (simp add: scripture_label_def None)
    then show ?thesis using trimmed_append [OF b n [OF assms(2)], of ?mid] by (simp only:)
  next
    case (Some v)
    let ?mid' = "?mid @ stringify_int (ar_verseStart r) @ ''-''"
    have "scripture_label r = ?book @ ?mid' @ stringify_int v" by (simp add: scripture_label_def Some)
    then show ?thesis using trimmed_append [OF b n, of v ?mid'] assms(3) Some by (simp only: simp_thms)
  qed
qed

lemma references_shape:
  assumes "r \<in> set (createReferences ai)"
  obtains n s where "n \<le> length (ai_references ai)" "1 \<le> n" "s \<in> set (ai_references ai)"
    "r = bible_reference (ai_pipelineVersion ai) n s"
proof -
  let ?scriptures = "deduplicateScriptureReferences (ai_references ai)"
  let ?bible = "numbered (bible_reference (ai_pipelineVersion ai)) ?scriptures"
  from assms obtain n q where n: "n \<le> length (deduplicatePublicationReferences ?bible)" "1 \<le> n"
    and q: "q \<in> set (deduplicatePublicationReferences ?bible)" "r = q\<lparr>pq_id := ''ref-scripture-'' @ digits_of n\<rparr>"
    unfolding createReferences_def by (auto dest!: in_numbered)
  have "q \<in> set ?bible"
    using q(1) first_by_elements [of normalizeReferenceKey "[]" ?bible]
    unfolding deduplicatePublicationReferences_def by (rule rev_subsetD)
  then obtain m s where s: "s \<in> set ?scriptures" and m: "q = bible_reference (ai_pipelineVersion ai) m s"
    using in_numbered by fastforce
  have "s \<in> set (ai_references ai)"
    using s first_by_elements [of normalizeScriptureKey "[]" "ai_references ai"]
    unfolding deduplicateScriptureReferences_def by (rule rev_subsetD)
  moreover have "n \<le> length (ai_references ai)" using n(1) first_by_shorter [of normalizeReferenceKey "[]" ?bible]
      first_by_shorter [of normalizeScriptureKey "[]" "ai_references ai"]
    by (simp add: deduplicatePublicationReferences_def deduplicateScriptureReferences_def)
  ultimately show ?thesis using that n(2) q(2) m by (simp add: bible_reference_def)
qed

lemma references_few: "length (createReferences ai) \<le> length (ai_references ai)"
proof -
  let ?scriptures = "deduplicateScriptureReferences (ai_references ai)"
  have "length ?scriptures \<le> length (ai_references ai)"
    by (simp add: deduplicateScriptureReferences_def first_by_shorter)
  then show ?thesis
    using first_by_shorter [of normalizeReferenceKey "[]" "numbered (bible_reference (ai_pipelineVersion ai)) ?scriptures"]
    by (simp add: createReferences_def deduplicatePublicationReferences_def)
qed

lemma references_distinct: "distinct (map pq_id (createReferences ai))"
  unfolding createReferences_def by (rule distinct_numbered) simp

text \<open>What a parsed AI result keeps.\<close>

definition ai_texts_ok :: "ai_result \<Rightarrow> bool" where
  "ai_texts_ok ai \<longleftrightarrow>
     trimmed (ai_pipelineVersion ai)
     \<and> trimmed (am_title (ai_metadata_of ai)) \<and> length (am_title (ai_metadata_of ai)) \<le> 120
     \<and> trimmed (am_language (ai_metadata_of ai)) \<and> 2 \<le> length (am_language (ai_metadata_of ai))
     \<and> length (am_language (ai_metadata_of ai)) \<le> 20
     \<and> trimmed (as_shortSummary (ai_summary_of ai)) \<and> length (as_shortSummary (ai_summary_of ai)) \<le> 240
     \<and> trimmed (as_detailedSummary (ai_summary_of ai)) \<and> length (as_detailedSummary (ai_summary_of ai)) \<le> 2000
     \<and> length (ai_keywords ai) \<le> 20 \<and> (\<forall>k \<in> set (ai_keywords ai). length k \<le> 80)
     \<and> length (ai_reflections ai) \<le> 10 \<and> (\<forall>k \<in> set (ai_reflections ai). length k \<le> 240)
     \<and> length (ai_references ai) \<le> 20
     \<and> (\<forall>r \<in> set (ai_references ai). trimmed (scripture_label r))"

lemma parsed_reference:
  "aiScriptureReferenceSchema r = Some r' \<Longrightarrow> trimmed (scripture_label r')"
  by (rule scripture_label_trimmed)
     (auto simp: aiScriptureReferenceSchema_def bind_eq_Some_conv zwhen_def zopt_def
       split: if_splits option.splits dest: zstring_result)

lemma parsed_ai:
  assumes "aiPipelineResultSchema datetime a = Some ai"
  shows "ai_texts_ok ai"
proof -
  from assms obtain metadata summary kws references reflections pipelineVersion where
    v: "ztrimmed (ai_pipelineVersion a) = Some pipelineVersion"
    and m: "aiMetadataSchema (ai_metadata_of a) = Some metadata"
    and s: "aiSummarySchema (ai_summary_of a) = Some summary"
    and k: "aiKeywordsSchema (ai_keywords a) = Some kws"
    and r: "aiScriptureSchema (ai_references a) = Some references"
    and q: "aiReflectionsSchema (ai_reflections a) = Some reflections"
    and e: "ai_pipelineVersion ai = pipelineVersion" "ai_metadata_of ai = metadata" "ai_summary_of ai = summary"
      "ai_keywords ai = kws" "ai_references ai = references" "ai_reflections ai = reflections"
    by (auto simp: aiPipelineResultSchema_def bind_eq_Some_conv)
  have "trimmed pipelineVersion"
    using v trimmed_trim by (auto simp: ztrimmed_def znonempty_def zwhen_def split: if_splits)
  moreover have "trimmed (am_title metadata) \<and> length (am_title metadata) \<le> 120 \<and> trimmed (am_language metadata)
      \<and> 2 \<le> length (am_language metadata) \<and> length (am_language metadata) \<le> 20"
    using m by (auto simp: aiMetadataSchema_def bind_eq_Some_conv dest!: zstring_result)
  moreover have "trimmed (as_shortSummary summary) \<and> length (as_shortSummary summary) \<le> 240
      \<and> trimmed (as_detailedSummary summary) \<and> length (as_detailedSummary summary) \<le> 2000"
    using s by (auto simp: aiSummarySchema_def bind_eq_Some_conv dest!: zstring_result)
  moreover have "length kws \<le> 20 \<and> (\<forall>x \<in> set kws. length x \<le> 80)"
    using k zlist_result(2, 4) unfolding aiKeywordsSchema_def
    by (fastforce dest: zstring_result)
  moreover have "length reflections \<le> 10 \<and> (\<forall>x \<in> set reflections. length x \<le> 240)"
    using q zlist_result(2, 4) unfolding aiReflectionsSchema_def
    by (fastforce dest: zstring_result)
  moreover have "length references \<le> 20 \<and> (\<forall>x \<in> set references. trimmed (scripture_label x))"
    using r zlist_result(2, 4) unfolding aiScriptureSchema_def
    by (fastforce dest: parsed_reference)
  ultimately show ?thesis by (simp add: ai_texts_ok_def e)
qed

subsection \<open>The parts of a guide parse\<close>

lemma unique_parses:
  assumes "\<forall>k \<in> set vs. length k \<le> most" and "most \<le> hi" and "length vs \<le> 40" and "uniqueNonEmpty vs \<noteq> []"
  shows "zlist 1 40 (zstring 1 hi) (uniqueNonEmpty vs) = Some (uniqueNonEmpty vs)"
proof (rule zlist_same)
  show "zstring 1 hi x = Some x" if "x \<in> set (uniqueNonEmpty vs)" for x
  proof -
    from that obtain v where "v \<in> set vs" "x = normalizeWhitespace v" "x \<noteq> []"
      unfolding uniqueNonEmpty_def by (blast dest: unique_non_empty_elements)
    moreover have "length (normalizeWhitespace v) \<le> hi"
      using normalize_shorter [of v] assms(1, 2) \<open>v \<in> set vs\<close> by (meson order_trans)
    ultimately show ?thesis using normalize_trimmed by (auto simp: zstring_trimmed Suc_le_eq)
  qed
qed (use assms unique_non_empty_shorter [of "[]" vs] in \<open>auto simp: uniqueNonEmpty_def Suc_le_eq\<close>)

definition references_fit :: "publication_reference list \<Rightarrow> bool" where
  "references_fit references \<longleftrightarrow>
     (\<forall>r \<in> set references. length (pq_label r) \<le> 200) \<and> length (join ''; '' (map pq_label references)) \<le> 1200"

lemma label_trimmed: "ai_texts_ok ai \<Longrightarrow> r \<in> set (createReferences ai) \<Longrightarrow> trimmed (pq_label r) \<and> pq_referenceType r = BibleReference"
  by (erule references_shape) (auto simp: ai_texts_ok_def bible_reference_def)

lemma zstring_label:
  "ai_texts_ok ai \<Longrightarrow> references_fit (createReferences ai) \<Longrightarrow> r \<in> set (createReferences ai) \<Longrightarrow> 200 \<le> hi \<Longrightarrow>
   zstring (Suc 0) hi (pq_label r) = Some (pq_label r)"
  using label_trimmed [of ai r] by (fastforce simp: references_fit_def zstring_trimmed trimmed_def Suc_le_eq)

lemma guide_literals:
  "list_all trimmed [''cover'', ''Cover'', ''cover-h1'', ''cover-subtitle'', ''table-of-contents'',
     ''Table of Contents'', ''toc-h1'', ''toc-note'',
     ''Entries are generated from section and heading hierarchy.'', ''message-summary'', ''Message Summary'',
     ''summary-h1'', ''summary-h2-detail'', ''Detailed Summary'', ''summary-short'', ''summary-detailed'',
     ''key-themes'', ''Key Themes'', ''themes-h1'', ''themes-h2-list'', ''Theme Highlights'', ''themes-list'',
     ''scripture-references'', ''Scripture References'', ''scripture-h1'', ''scripture-h2-passages'',
     ''Referenced Passages'', ''scripture-block'', ''reflection-questions'', ''Reflection Questions'',
     ''reflection-h1'', ''reflection-h2-questions'', ''Questions'', ''reflection-list'',
     ''references'', ''References'', ''references-h1'', ''references-table'']"
  by code_simp

lemmas guide_trimmed = guide_literals [unfolded list.pred_inject simp_thms]

lemma pushed_few: "length (pushed_sections ai references) \<le> 7"
  by (simp add: pushed_sections_def Let_def)

lemma pushed_parses:
  assumes ai: "ai_texts_ok ai" and fit: "references_fit (createReferences ai)"
    and s: "s \<in> set (pushed_sections ai (createReferences ai))" and n: "0 \<le> n" "n \<le> max_safe_integer"
  shows "publicationSectionSchema (s\<lparr>pn_order := n\<rparr>) = Some (s\<lparr>pn_order := n\<rparr>)"
proof -
  let ?refs = "createReferences ai"
  have few: "length ?refs \<le> 40" using references_few [of ai] ai by (simp add: ai_texts_ok_def)
  have labels: "zlist 0 40 (zstring (Suc 0) 200) (map pq_label ?refs) = Some (map pq_label ?refs)"
    by (rule zlist_same) (use few zstring_label [OF ai fit] in auto)
  have joined: "zstring (Suc 0) 1200 (join ''; '' (map pq_label ?refs)) = Some (join ''; '' (map pq_label ?refs))" if "?refs \<noteq> []"
  proof -
    have "trimmed (join ''; '' (map pq_label ?refs))" using that label_trimmed [OF ai] by (intro join_trimmed) auto
    then show ?thesis using fit by (auto simp: zstring_trimmed references_fit_def Suc_le_eq trimmed_def)
  qed
  have rows: "zlist 0 40 (zlist (Suc 0) 8 (zstring (Suc 0) 240))
      (map (\<lambda>r. [reference_type_name (pq_referenceType r), pq_label r]) ?refs) =
      Some (map (\<lambda>r. [reference_type_name (pq_referenceType r), pq_label r]) ?refs)"
    by (rule zlist_same)
       (use few zstring_label [OF ai fit] label_trimmed [OF ai] in
         \<open>auto intro!: zlist_same simp: zstring_trimmed trimmed_Cons js_space_def\<close>)
  have lists: "uniqueNonEmpty (ai_keywords ai) \<noteq> [] \<Longrightarrow> zlist (Suc 0) 40 (zstring (Suc 0) 240) (uniqueNonEmpty (ai_keywords ai)) = Some (uniqueNonEmpty (ai_keywords ai))"
    "uniqueNonEmpty (ai_reflections ai) \<noteq> [] \<Longrightarrow> zlist (Suc 0) 40 (zstring (Suc 0) 240) (uniqueNonEmpty (ai_reflections ai)) = Some (uniqueNonEmpty (ai_reflections ai))"
    using unique_parses [of "ai_keywords ai" 80 240] unique_parses [of "ai_reflections ai" 240 240] ai
    by (simp_all add: ai_texts_ok_def)
  have headers: "zlist (Suc 0) 8 (zstring (Suc 0) 120) [''Type'', ''Reference''] = Some [''Type'', ''Reference'']"
    by code_simp
  have "list_all (\<lambda>s. list_all (\<lambda>b. publicationBlockSchema b = Some b) (pn_blocks s)) (pushed_sections ai ?refs)"
    using ai labels joined rows lists headers unfolding ai_texts_ok_def
    by (simp add: pushed_sections_def Let_def section_with_def createHeading_def createTextBlock_def
        zstring_trimmed guide_trimmed trimmed_length zopt_def zwhen_def list.pred_map o_def list.pred_True)
  then have blocks: "publicationBlockSchema b = Some b" if "b \<in> set (pn_blocks s)" for b
    using s that by (auto simp: list_all_iff)
  have head: "trimmed (pn_id s)" "length (pn_id s) \<le> 80" "trimmed (pn_title s)" "length (pn_title s) \<le> 200"
    "pn_slug s = pn_id s" "zlist 1 80 publicationBlockSchema (pn_blocks s) = zlist (Suc 0) 80 publicationBlockSchema (pn_blocks s)"
    "pn_blocks s \<noteq> []" "length (pn_blocks s) \<le> 80"
    using s by (auto simp: pushed_sections_def Let_def section_with_def guide_trimmed split: if_splits)
  have "zlist (Suc 0) 80 publicationBlockSchema (pn_blocks s) = Some (pn_blocks s)"
    by (rule zlist_same) (use blocks head in \<open>auto simp: Suc_le_eq\<close>)
  then show ?thesis using head n
    by (auto simp: publicationSectionSchema_def zstring_trimmed zwhen_def trimmed_def Suc_le_eq)
qed

lemma sections_parse:
  assumes "ai_texts_ok ai" and "references_fit (createReferences ai)"
  shows "zlist 1 100 publicationSectionSchema (createSections ai (createReferences ai)) =
    Some (createSections ai (createReferences ai))"
proof (rule zlist_same)
  fix x assume "x \<in> set (createSections ai (createReferences ai))"
  then obtain n s where s: "s \<in> set (pushed_sections ai (createReferences ai))" and x: "x = s\<lparr>pn_order := int n\<rparr>"
    and "n \<le> length (pushed_sections ai (createReferences ai))"
    unfolding createSections_def by (auto dest!: in_numbered)
  then have "int n \<le> max_safe_integer" using pushed_few [of ai "createReferences ai"] by (simp add: max_safe_integer_def)
  then show "publicationSectionSchema x = Some x" using pushed_parses [OF assms s] x by simp
qed (use pushed_few [of ai "createReferences ai"] in
      \<open>auto simp: createSections_def Suc_le_eq pushed_sections_def Let_def\<close>)

lemma references_parse:
  assumes "ai_texts_ok ai" and "references_fit (createReferences ai)" and "length (ai_pipelineVersion ai) \<le> 40"
  shows "zlist 0 400 (publicationReferenceSchema isUrl) (createReferences ai) = Some (createReferences ai)"
proof (rule zlist_same)
  fix r assume r: "r \<in> set (createReferences ai)"
  then obtain n s where n: "n \<le> length (ai_references ai)" and e: "r = bible_reference (ai_pipelineVersion ai) n s"
    by (rule references_shape)
  have "length (digits_of n) \<le> 2" using n assms(1) by (intro digits_of_short) (simp add: ai_texts_ok_def)
  moreover have "zstring (Suc 0) 240 (pq_label r) = Some (pq_label r)" by (rule zstring_label [OF assms(1, 2) r]) simp
  moreover have "trimmed (''ref-scripture-'' @ digits_of n)"
    by (intro trimmed_append2) (simp_all add: trimmed_Cons js_space_def)
  moreover have "trimmed (''Scripture reference extracted from transcript context ('' @ ai_pipelineVersion ai @ '').'')"
    by (intro trimmed_append) (simp_all add: trimmed_Cons js_space_def)
  ultimately show "publicationReferenceSchema isUrl r = Some r" using assms(3)
    by (simp add: e publicationReferenceSchema_def bible_reference_def zstring_trimmed zopt_def)
qed (use references_few [of ai] assms(1) in \<open>auto simp: ai_texts_ok_def\<close>)

lemma citations_parse:
  assumes "ai_texts_ok ai" and "references_fit (createReferences ai)"
  shows "zlist 0 400 publicationCitationSchema (numbered guide_citation (createReferences ai)) =
    Some (numbered guide_citation (createReferences ai))"
proof (rule zlist_same)
  fix c assume "c \<in> set (numbered guide_citation (createReferences ai))"
  then obtain n r where n: "n \<le> length (createReferences ai)" and r: "r \<in> set (createReferences ai)"
    and c: "c = guide_citation n r" by (auto dest!: in_numbered)
  obtain m s where m: "m \<le> length (ai_references ai)" and e: "pq_id r = ''ref-scripture-'' @ digits_of m"
    using r by (rule references_shape) (auto simp: bible_reference_def)
  have "length (digits_of n) \<le> 2" "length (digits_of m) \<le> 2"
    using n m references_few [of ai] assms(1) by (auto intro!: digits_of_short simp: ai_texts_ok_def)
  moreover have "zstring (Suc 0) 400 (pq_label r) = Some (pq_label r)" by (rule zstring_label [OF assms r]) simp
  moreover have "trimmed (''ref-scripture-'' @ digits_of m)" "trimmed (''citation-'' @ digits_of n)"
    by (rule trimmed_append2; simp add: trimmed_Cons js_space_def)+
  moreover have "trimmed (''Citation '' @ digits_of n)"
    using trimmed_append [of "''Citation''" "digits_of n" "'' ''"] by (simp add: trimmed_Cons js_space_def)
  ultimately show "publicationCitationSchema c = Some c"
    by (simp add: c publicationCitationSchema_def guide_citation_def zstring_trimmed zopt_def e)
qed (use references_few [of ai] assms(1) in \<open>auto simp: ai_texts_ok_def\<close>)

subsection \<open>Sections and the table of contents\<close>

text \<open>Of a section, the refinement sees only the identifiers.\<close>

definition stub :: "publication_section \<Rightarrow> publication_section" where
  "stub s = section_with (pn_id s) [] (map (DividerBlock \<circ> block_id) (pn_blocks s))"

lemma stub_simps [simp]: "pn_id (stub s) = pn_id s" "map block_id (pn_blocks (stub s)) = map block_id (pn_blocks s)"
  by (simp_all add: stub_def section_with_def)

lemma section_issues_stub: "section_issues (map stub ss) a b = section_issues ss a b"
  by (induction ss arbitrary: a b) simp_all

definition skeleton :: "bool \<Rightarrow> bool \<Rightarrow> bool \<Rightarrow> publication_section list" where
  "skeleton k r q =
     [section_with ''cover'' [] (map DividerBlock [''cover-h1'', ''cover-subtitle'']),
      section_with ''table-of-contents'' [] (map DividerBlock [''toc-h1'', ''toc-note'']),
      section_with ''message-summary'' [] (map DividerBlock
        [''summary-h1'', ''summary-h2-detail'', ''summary-short'', ''summary-detailed''])]
     @ (if k then [] else [section_with ''key-themes'' [] (map DividerBlock [''themes-h1'', ''themes-h2-list'', ''themes-list''])])
     @ (if r then [] else [section_with ''scripture-references'' [] (map DividerBlock
          [''scripture-h1'', ''scripture-h2-passages'', ''scripture-block''])])
     @ (if q then [] else [section_with ''reflection-questions'' [] (map DividerBlock
          [''reflection-h1'', ''reflection-h2-questions'', ''reflection-list''])])
     @ (if r then [] else [section_with ''references'' [] (map DividerBlock [''references-h1'', ''references-table''])])"

definition skeleton_toc :: "bool \<Rightarrow> bool \<Rightarrow> bool \<Rightarrow> toc_entry list" where
  "skeleton_toc k r q =
     (let first = (\<lambda>i t. \<lparr>te_id = ''toc-'' @ i, te_targetId = i, te_title = t, te_level = 1, te_anchor = i,
            te_parentId = None, te_pageNumber = None\<rparr>);
          second = (\<lambda>s i t. \<lparr>te_id = ''toc-'' @ i, te_targetId = i, te_title = t, te_level = 2,
            te_anchor = s @ ''-'' @ i, te_parentId = Some (''toc-'' @ s), te_pageNumber = None\<rparr>) in
      [first ''message-summary'' ''Message Summary'', second ''message-summary'' ''summary-h2-detail'' ''Detailed Summary'']
      @ (if k then [] else [first ''key-themes'' ''Key Themes'', second ''key-themes'' ''themes-h2-list'' ''Theme Highlights''])
      @ (if r then [] else [first ''scripture-references'' ''Scripture References'',
           second ''scripture-references'' ''scripture-h2-passages'' ''Referenced Passages''])
      @ (if q then [] else [first ''reflection-questions'' ''Reflection Questions'',
           second ''reflection-questions'' ''reflection-h2-questions'' ''Questions''])
      @ (if r then [] else [first ''references'' ''References'']))"

lemma numbered_stub: "map stub (numbered (\<lambda>n s. s\<lparr>pn_order := int n\<rparr>) ss) = map stub ss"
proof -
  have "stub (s\<lparr>pn_order := n\<rparr>) = stub s" for s n by (simp add: stub_def)
  then show ?thesis unfolding numbered_alt by (intro nth_equalityI) simp_all
qed

lemma numbered_entries: "section_entries (s\<lparr>pn_order := n\<rparr>) = section_entries s"
proof -
  have "heading_entries (s\<lparr>pn_order := n\<rparr>) l p bs = heading_entries s l p bs" for l p bs
    by (induction "s" l p bs rule: heading_entries.induct) (simp_all add: Let_def split: option.split)
  then show ?thesis by (simp add: section_entries_def)
qed

lemma sections_stub:
  "map stub (createSections ai references) =
   skeleton (uniqueNonEmpty (ai_keywords ai) = []) (references = []) (uniqueNonEmpty (ai_reflections ai) = [])"
  unfolding createSections_def numbered_stub
  by (simp add: pushed_sections_def skeleton_def Let_def stub_def section_with_def createHeading_def createTextBlock_def)

lemma sections_toc:
  "createTocEntriesForSections (createSections ai references) =
   skeleton_toc (uniqueNonEmpty (ai_keywords ai) = []) (references = []) (uniqueNonEmpty (ai_reflections ai) = [])"
proof -
  have slugs: "slugify ''summary-h2-detail'' = ''summary-h2-detail''" "slugify ''themes-h2-list'' = ''themes-h2-list''"
    "slugify ''scripture-h2-passages'' = ''scripture-h2-passages''"
    "slugify ''reflection-h2-questions'' = ''reflection-h2-questions''"
    by code_simp+
  have "map section_entries (createSections ai references) = map section_entries (pushed_sections ai references)"
    unfolding createSections_def numbered_alt by (intro nth_equalityI) (simp_all add: numbered_entries)
  then show ?thesis
    unfolding createTocEntriesForSections_def
    by (simp add: pushed_sections_def skeleton_toc_def Let_def section_entries_def section_with_def is_front_matter_def
        createHeading_def createTextBlock_def normalizeHeadingLevel_def slugs)
qed

definition skeleton_ok :: "bool \<Rightarrow> bool \<Rightarrow> bool \<Rightarrow> bool" where
  "skeleton_ok k r q \<longleftrightarrow>
     (let ss = skeleton k r q; toc = skeleton_toc k r q in
      section_issues ss [] [] = []
      \<and> zlist 0 400 publicationTableOfContentsEntrySchema toc = Some toc
      \<and> toc_issues (concat (map (\<lambda>s. pn_id s # map block_id (pn_blocks s)) ss)) toc [] = []
      \<and> list_ex (\<lambda>s. \<not> is_front_matter (pn_id s)) ss)"

lemma all_skeletons: "skeleton_ok k r q"
proof -
  have "list_all (\<lambda>k. list_all (\<lambda>r. list_all (skeleton_ok k r) [True, False]) [True, False]) [True, False]"
    by code_simp
  then show ?thesis by (cases k; cases r; cases q) simp_all
qed

subsection \<open>No issues\<close>

lemma duplicate_none: "distinct xs \<Longrightarrow> set xs \<inter> set seen = {} \<Longrightarrow> duplicate_issues c xs seen = []"
  by (induction c xs seen rule: duplicate_issues.induct) auto

lemma reference_issues_none:
  "distinct (map pq_id rs) \<Longrightarrow> pq_id ` set rs \<inter> set seen = {} \<Longrightarrow>
   (\<And>r. r \<in> set rs \<Longrightarrow> pq_referenceType r = BibleReference) \<Longrightarrow> reference_issues targets rs seen = []"
  by (induction targets rs seen rule: reference_issues.induct) (auto simp: dangling_if_def)

lemma citation_issues_none:
  "distinct (map pi_id cs) \<Longrightarrow> pi_id ` set cs \<inter> set seen = {} \<Longrightarrow>
   \<forall>c \<in> set cs. \<exists>r \<in> set references. pi_referenceId c = Some r \<Longrightarrow>
   citation_issues references cs seen = []"
  by (induction references cs seen rule: citation_issues.induct) (auto simp: dangling_if_def split: option.splits)


lemma plain_blocks:
  assumes "s \<in> set (createSections ai references)" and "b \<in> set (pn_blocks s)"
  shows "block_assetId b = None \<and> block_footnoteIds b = [] \<and> block_citationIds b = []"
proof -
  have "list_all (\<lambda>s. list_all (\<lambda>b. block_assetId b = None \<and> block_footnoteIds b = [] \<and> block_citationIds b = [])
      (pn_blocks s)) (pushed_sections ai references)"
    by (simp add: pushed_sections_def Let_def section_with_def createHeading_def createTextBlock_def)
  then show ?thesis using assms unfolding createSections_def by (auto simp: list_all_iff dest!: in_numbered)
qed

lemma guide_has_no_issues:
  assumes "ai_texts_ok ai"
  shows "publication_issues (buildCtaGuidePublication pid sv hash now ai audience theme') = []"
proof -
  let ?p = "buildCtaGuidePublication pid sv hash now ai audience theme'"
  let ?refs = "createReferences ai"
  let ?ss = "createSections ai ?refs"
  let ?k = "uniqueNonEmpty (ai_keywords ai) = []" and ?q = "uniqueNonEmpty (ai_reflections ai) = []"
  have p: "pu_sections ?p = ?ss" "pu_assets ?p = [\<lparr>pa_id = ''cover-image-placeholder'', pa_uri = ''asset://cover-image-placeholder'',
         pa_altText = Some ''Cover image placeholder'', pa_mimeType = None\<rparr>]"
    "pu_references ?p = ?refs" "pu_citations ?p = numbered guide_citation ?refs" "pu_footnotes ?p = []"
    "pu_toc ?p = createTocEntriesForSections ?ss" "pv_coverImageAssetId (pu_cover ?p) = None"
    by (simp_all add: buildCtaGuidePublication_def Let_def)
  have ok: "section_issues (map stub ?ss) [] [] = []"
    "toc_issues (concat (map (\<lambda>s. pn_id s # map block_id (pn_blocks s)) (map stub ?ss))) (pu_toc ?p) [] = []"
    "list_ex (\<lambda>s. \<not> is_front_matter (pn_id s)) (map stub ?ss)"
    using all_skeletons [of ?k "?refs = []" ?q] unfolding skeleton_ok_def Let_def p sections_stub sections_toc by simp_all
  have targets: "validTargetIds ?p = concat (map (\<lambda>s. pn_id s # map block_id (pn_blocks s)) (map stub ?ss))"
    by (simp add: validTargetIds_def p o_def)
  have "reference_issues (validTargetIds ?p) ?refs [] = []"
    using references_distinct label_trimmed [OF assms] by (intro reference_issues_none) auto
  moreover have "distinct (map pi_id (numbered guide_citation ?refs))"
    by (rule distinct_numbered) (simp add: guide_citation_def)
  then have "citation_issues (map pq_id ?refs) (numbered guide_citation ?refs) [] = []"
    by (intro citation_issues_none) (auto simp: guide_citation_def dest!: in_numbered)
  moreover have "concat (map (block_issues ?p) (sections_blocks ?p)) = []"
    using plain_blocks unfolding sections_blocks_def p by (force simp: block_issues_def dangling_if_def)
  moreover have "\<not> (\<forall>s \<in> set ?ss. is_front_matter (pn_id s))"
    using ok(3) by (auto simp: list_ex_iff)
  moreover have "toc_issues (validTargetIds ?p) (pu_toc ?p) [] = []" using ok(2) unfolding targets .
  moreover have "section_issues ?ss [] [] = []" using ok(1) by (simp add: section_issues_stub)
  ultimately show ?thesis unfolding publication_issues_def p
    by (simp add: dangling_if_def)
qed

text \<open>The limits that the schema of publications sets and the schemas of the inputs do not.\<close>

definition guide_fits :: "string \<Rightarrow> ai_result \<Rightarrow> bool" where
  "guide_fits sourceVersionId ai \<longleftrightarrow>
     length sourceVersionId \<le> 76 \<and> length (ai_pipelineVersion ai) \<le> 40 \<and> references_fit (createReferences ai)"

lemma metadata_parses:
  assumes "ai_texts_ok ai" and "trimmed sv" and "trimmed hash" and "length hash \<le> 200" and "datetime now"
    and "audience \<in> set publication_audiences" and "theme' \<in> set html_themes"
    and "length sv \<le> 80"
  defines "p \<equiv> buildCtaGuidePublication (''pub_'' @ sv) sv hash now ai audience theme'"
  shows "publicationMetadataSchema datetime (pu_metadata p) =
     (if length sv \<le> 76 \<and> length (ai_pipelineVersion ai) \<le> 40 then Some (pu_metadata p) else None)"
    and "publicationCoverSchema datetime (pu_cover p) = Some (pu_cover p)"
proof -
  have "trimmed (''pub_'' @ sv)" using assms(2) by (intro trimmed_append2) (simp_all add: trimmed_Cons js_space_def)
  moreover have "list_all trimmed [''RoaM Content Engine'', ''pastoral guidance'', ''RoaM'']" by code_simp
  moreover have "length (am_title (ai_metadata_of ai)) \<le> 240" "length (as_shortSummary (ai_summary_of ai)) \<le> 300"
    using assms(1) by (auto simp: ai_texts_ok_def)
  moreover note assms(1) [unfolded ai_texts_ok_def]
  ultimately show "publicationMetadataSchema datetime (pu_metadata p) =
     (if length sv \<le> 76 \<and> length (ai_pipelineVersion ai) \<le> 40 then Some (pu_metadata p) else None)"
    and "publicationCoverSchema datetime (pu_cover p) = Some (pu_cover p)"
    using assms(2-8) 
    by (simp_all add: p_def publicationMetadataSchema_def publicationCoverSchema_def publicationStyleSchema_def
        buildCtaGuidePublication_def Let_def zstring_trimmed trimmed_length zopt_def zenum_def zwhen_def)
qed

lemma mapAudience_known: "mapAudience v \<in> set publication_audiences"
  by (simp add: mapAudience_def publication_audiences_def Let_def)

lemma scripture_section_pushed:
  assumes "createReferences ai \<noteq> []"
  shows "\<exists>s \<in> set (createSections ai (createReferences ai)).
    ScriptureBlock ''scripture-block'' (map pq_label (createReferences ai)) (join ''; '' (map pq_label (createReferences ai))) None None
      \<in> set (pn_blocks s)"
proof -
  let ?b = "ScriptureBlock ''scripture-block'' (map pq_label (createReferences ai)) (join ''; '' (map pq_label (createReferences ai))) None None"
  have "\<exists>s \<in> set (pushed_sections ai (createReferences ai)). ?b \<in> set (pn_blocks s)"
    using assms by (simp add: pushed_sections_def Let_def section_with_def)
  then obtain i where "i < length (pushed_sections ai (createReferences ai))"
    and "?b \<in> set (pn_blocks (pushed_sections ai (createReferences ai) ! i))" by (metis in_set_conv_nth)
  then show ?thesis unfolding createSections_def numbered_alt
    by (intro bexI [of _ "(pushed_sections ai (createReferences ai) ! i)\<lparr>pn_order := int (Suc i)\<rparr>"]) auto
qed

lemma sections_need_fit:
  assumes "ai_texts_ok ai" and "zlist 1 100 publicationSectionSchema (createSections ai (createReferences ai)) = Some ss"
  shows "references_fit (createReferences ai)"
proof (cases "createReferences ai = []")
  case True then show ?thesis by (simp add: references_fit_def)
next
  case False
  let ?refs = "createReferences ai"
  from scripture_section_pushed [OF False] obtain s where s: "s \<in> set (createSections ai ?refs)"
    and b: "ScriptureBlock ''scripture-block'' (map pq_label ?refs) (join ''; '' (map pq_label ?refs)) None None \<in> set (pn_blocks s)"
    by blast
  from zlist_result(3) [OF assms(2) s] obtain bs where "zlist 1 80 publicationBlockSchema (pn_blocks s) = Some bs"
    by (auto simp: publicationSectionSchema_def bind_eq_Some_conv)
  from zlist_result(3) [OF this b] obtain ls t where ls: "zlist 0 40 (zstring 1 200) (map pq_label ?refs) = Some ls"
    and t: "zstring 1 1200 (join ''; '' (map pq_label ?refs)) = Some t"
    by (auto simp: bind_eq_Some_conv)
  have "trimmed (join ''; '' (map pq_label ?refs))" using False label_trimmed [OF assms(1)] by (intro join_trimmed) auto
  then have "length (join ''; '' (map pq_label ?refs)) \<le> 1200" using t zstring_None by (metis not_le option.distinct(1))
  moreover have "length (pq_label r) \<le> 200" if r: "r \<in> set ?refs" for r
    using zlist_result(3) [OF ls, of "pq_label r"] label_trimmed [OF assms(1) r] r
    by (metis image_eqI list.set_map not_le option.distinct(1) zstring_None)
  ultimately show ?thesis by (simp add: references_fit_def)
qed

lemma guide_schema:
  assumes "ai_texts_ok ai" and "trimmed sv" and "trimmed hash" and "length hash \<le> 200" and "datetime now"
    and "audience \<in> set publication_audiences" and "theme' \<in> set html_themes"
    and "length sv \<le> 80"
  defines "p \<equiv> buildCtaGuidePublication (''pub_'' @ sv) sv hash now ai audience theme'"
  shows "publicationSchema datetime isUrl p = (if guide_fits sv ai then Some p else None)"
proof (cases "guide_fits sv ai")
  case True
  then have f: "references_fit (createReferences ai)" "length (ai_pipelineVersion ai) \<le> 40" by (auto simp: guide_fits_def)
  have "zlist 0 200 publicationAssetSchema (pu_assets p) = Some (pu_assets p)"
    unfolding p_def buildCtaGuidePublication_def Let_def by (simp only: publication.simps) code_simp
  moreover have "zlist 0 400 publicationTableOfContentsEntrySchema (pu_toc p) = Some (pu_toc p)"
    using all_skeletons [of "uniqueNonEmpty (ai_keywords ai) = []" "createReferences ai = []" "uniqueNonEmpty (ai_reflections ai) = []"]
    by (simp add: skeleton_ok_def Let_def p_def buildCtaGuidePublication_def sections_toc)
  moreover have "zlist 1 6 (zenum [''cta-guide'', ''epub'', ''pdf'', ''html'', ''docx'', ''markdown'']) [''cta-guide''] = Some [''cta-guide'']"
    by code_simp
  moreover have "zlist 0 400 publicationFootnoteSchema [] = Some []" by (simp add: zlist_def)
  ultimately have "publicationShape datetime isUrl p = Some p"
    using metadata_parses [where datetime = datetime and now = now, OF assms(1-8)] True sections_parse [OF assms(1) f(1)] references_parse [OF assms(1) f]
      citations_parse [OF assms(1) f(1)] assms(1)
    unfolding p_def [symmetric]
    by (simp add: publicationShape_def guide_fits_def)
       (simp add: p_def buildCtaGuidePublication_def Let_def zenum_def zstring_trimmed ai_texts_ok_def)
  then show ?thesis using guide_has_no_issues [OF assms(1)] True by (simp add: publicationSchema_def p_def)
next
  case False
  have "publicationShape datetime isUrl p = None"
  proof (rule ccontr)
    assume "publicationShape datetime isUrl p \<noteq> None"
    then obtain m ss where "publicationMetadataSchema datetime (pu_metadata p) = Some m"
      and "zlist 1 100 publicationSectionSchema (createSections ai (createReferences ai)) = Some ss"
      by (auto simp: publicationShape_def bind_eq_Some_conv p_def buildCtaGuidePublication_def Let_def)
    then show False using False metadata_parses(1) [where datetime = datetime and now = now, OF assms(1-8)] sections_need_fit [OF assms(1)]
      by (auto simp: p_def guide_fits_def split: if_splits)
  qed
  then show ?thesis using False by (simp add: publicationSchema_def)
qed

text \<open>
  C30: A guide is built exactly when it fits.  An AI result of its schema is made into the publication
  of the template when the source version identifier has at most 76 characters, the pipeline version
  at most 40, every label of a reference at most 200 and the joined labels at most 1200; otherwise
  the build ends with a validation error.  Nothing else of the result can make the build fail.
\<close>

theorem guide_built_exactly_when_it_fits:
  assumes "publicationBuilderInputSchema input = Some v" and "bi_publicationType v = ''cta-guide''"
    and "bi_aiResult input = Some raw" and "aiPipelineResultSchema datetime raw = Some ai" and "datetime nowIso"
  shows "publication_build datetime isUrl False nowIso input =
    (if guide_fits (bi_sourceVersionId v) ai
     then Inr (buildCtaGuidePublication (''pub_'' @ bi_sourceVersionId v) (bi_sourceVersionId v) (bi_sourceContentHash v)
       nowIso ai (case bi_audience v of Some a \<Rightarrow> a | None \<Rightarrow> mapAudience (am_audience (ai_metadata_of ai)))
       (case bi_theme v of Some t \<Rightarrow> t | None \<Rightarrow> ''ministry''))
     else Inl (PublicationValidationError ''Publication validation failed.''))"
proof -
  from assms(1) obtain sv hash where sv: "zstring 1 80 (bi_sourceVersionId input) = Some sv"
    and hash: "zstring 1 200 (bi_sourceContentHash input) = Some hash"
    and a: "zopt (zenum publication_audiences) (bi_audience input) = Some (bi_audience v)"
    and t: "zopt (zenum html_themes) (bi_theme input) = Some (bi_theme v)"
    and e: "bi_sourceVersionId v = sv" "bi_sourceContentHash v = hash"
    by (auto simp: publicationBuilderInputSchema_def bind_eq_Some_conv)
  have v: "trimmed (bi_sourceVersionId v)" "length (bi_sourceVersionId v) \<le> 80"
    "trimmed (bi_sourceContentHash v)" "length (bi_sourceContentHash v) \<le> 200"
    "(case bi_audience v of Some a \<Rightarrow> a | None \<Rightarrow> mapAudience (am_audience (ai_metadata_of ai))) \<in> set publication_audiences"
    "(case bi_theme v of Some t \<Rightarrow> t | None \<Rightarrow> ''ministry'') \<in> set html_themes"
    using zstring_result [OF sv] zstring_result [OF hash] zopt_known [OF a] zopt_known [OF t] mapAudience_known e
    by (auto split: option.split simp: html_themes_def)
  show ?thesis
    using guide_schema [where datetime = datetime and now = nowIso, OF parsed_ai [OF assms(4)] v(1, 3, 4) assms(5) v(5, 6, 2), of isUrl] assms(1-4)
    by (simp add: publication_build_def Let_def)
qed

definition demo_usage :: ai_usage where
  "demo_usage = \<lparr>au_inputTokens = 10, au_outputTokens = 80, au_totalTokens = 90, au_estimatedCostUsd = None, au_latencyMs = 5\<rparr>"

definition demo_ai_result :: ai_result where
  "demo_ai_result =
     \<lparr>ai_pipelineVersion = ''1.0'', ai_provider = ''mock'', ai_model = ''default'', ai_generatedAt = ''2026-01-01T00:00:00.000Z'',
      ai_metadata_of = \<lparr>am_title = ''A title'', am_description = ''A description'', am_language = ''en'', am_audience = ''Youth groups''\<rparr>,
      ai_summary_of = \<lparr>as_shortSummary = ''Short.'', as_detailedSummary = ''Detailed.''\<rparr>,
      ai_keywords = [''grace'', ''hope''],
      ai_references = [\<lparr>ar_book = ''John'', ar_chapter = 3, ar_verseStart = 16, ar_verseEnd = Some 17\<rparr>,
        \<lparr>ar_book = ''john'', ar_chapter = 3, ar_verseStart = 16, ar_verseEnd = Some 17\<rparr>],
      ai_reflections = [''Where do you see grace?''],
      ai_promptExecutions = [\<lparr>ae_stage = ''metadata'', ae_promptKey = ''metadata'', ae_promptVersion = ''1.0'',
        ae_pipelineVersion = ''1.0'', ae_provider = ''mock'', ae_model = ''default'',
        ae_generatedAt = ''2026-01-01T00:00:00.000Z'', ae_usage = demo_usage\<rparr>],
      ai_usageTotals = demo_usage\<rparr>"

definition demo_input :: build_input where
  "demo_input = \<lparr>bi_sourceVersionId = ''srcver_1'', bi_sourceContentHash = ''sha256_1'', bi_aiResult = Some demo_ai_result,
     bi_publicationType = ''cta-guide'', bi_audience = None, bi_theme = None\<rparr>"

theorem guide_built_exactly_when_it_fits_witness:
  "\<exists>p. publication_build (\<lambda>_. True) (\<lambda>_. True) False ''2026-01-01T00:00:01.000Z'' demo_input = Inr p
     \<and> map pq_label (pu_references p) = [''John 3:16-17''] \<and> pd_audience (pu_metadata p) = ''youth''"
proof -
  have i: "publicationBuilderInputSchema demo_input = Some demo_input" by code_simp
  have r: "aiPipelineResultSchema (\<lambda>_. True) demo_ai_result = Some demo_ai_result" by code_simp
  have "guide_fits (bi_sourceVersionId demo_input) demo_ai_result" by code_simp
  moreover have "map pq_label (createReferences demo_ai_result) = [''John 3:16-17'']" by code_simp
  moreover have "mapAudience (am_audience (ai_metadata_of demo_ai_result)) = ''youth''" by code_simp
  ultimately show ?thesis
    using guide_built_exactly_when_it_fits [where datetime = "\<lambda>_. True" and isUrl = "\<lambda>_. True" and nowIso = "''2026-01-01T00:00:01.000Z''", OF i _ _ r]
    by (simp add: demo_input_def buildCtaGuidePublication_def Let_def)
qed

end
