(* ===== verification/AiPipeline.thy ===== *)
theory AiPipeline
  imports AiResults Transcript
begin

text \<open>
  The AI pipeline (\<open>src/application/ai\<close>), its prompts (\<open>src/infrastructure/ai/prompts\<close>) and the
  interface and errors of a provider (\<open>src/domain/ai\<close>).  A provider is a function from requests to
  answers, which stands for what its calls return in one run; the abort signal reaches the run only
  through it.  Costs are exact rationals, so that the rounding and the overflow of a sum of doubles
  are left out; a \<open>NotFinite\<close> stands for a number that is none, or for a value of another type.
\<close>

subsection \<open>Errors and usage\<close>

datatype ai_error_kind =
  AIValidation | AIProviderUnavailable | AIRateLimit | AIAuthentication | AITimeout | AIPermanent

text \<open>
  What a run can throw: an \<open>AIProviderError\<close>, a \<open>WorkerCancelledError\<close>, the error of a schema's
  \<open>parse\<close>, or anything else, with its code when it has one.
\<close>

datatype ai_thrown =
    AIProviderError ai_error_kind string
  | AICancelled string
  | AISchemaError
  | AIOtherThrown "string option"

datatype js_number = Number rat | NotFinite

record raw_usage =
  ru_inputTokens :: js_number
  ru_outputTokens :: js_number
  ru_totalTokens :: js_number
  ru_estimatedCostUsd :: "js_number option"
  ru_latencyMs :: js_number

definition token_error :: ai_thrown where
  "token_error = AIProviderError AIValidation ''Prompt usage contains invalid token accounting.''"

definition safe_nonnegative :: "js_number \<Rightarrow> int option" where
  "safe_nonnegative v = (case v of
     NotFinite \<Rightarrow> None
   | Number q \<Rightarrow> (let (n, d) = quotient_of q in if d = 1 \<and> 0 \<le> n \<and> n \<le> max_safe_integer then Some n else None))"

definition validateNonNegativeSafeInteger :: "js_number \<Rightarrow> ai_thrown + int" where
  "validateNonNegativeSafeInteger v = (case safe_nonnegative v of None \<Rightarrow> Inl token_error | Some n \<Rightarrow> Inr n)"

definition checkedSum :: "int \<Rightarrow> int \<Rightarrow> ai_thrown + int" where
  "checkedSum left right =
     (if left + right \<le> max_safe_integer \<and> 0 \<le> left + right then Inr (left + right)
      else Inl (AIProviderError AIValidation ''Prompt usage token total overflowed safe integer range.''))"

definition checked_cost :: "js_number option \<Rightarrow> ai_thrown + rat option" where
  "checked_cost c = (case c of
     None \<Rightarrow> Inr None
   | Some (Number q) \<Rightarrow>
       if 0 \<le> q then Inr (Some q)
       else Inl (AIProviderError AIValidation ''Prompt usage contains invalid estimated cost.'')
   | Some NotFinite \<Rightarrow> Inl (AIProviderError AIValidation ''Prompt usage contains invalid estimated cost.''))"

definition normalizeUsage :: "raw_usage \<Rightarrow> ai_thrown + ai_usage" where
  "normalizeUsage u =
     and_then (validateNonNegativeSafeInteger (ru_inputTokens u)) (\<lambda>inputTokens.
     and_then (validateNonNegativeSafeInteger (ru_outputTokens u)) (\<lambda>outputTokens.
     and_then (validateNonNegativeSafeInteger (ru_latencyMs u)) (\<lambda>latencyMs.
     and_then (checkedSum inputTokens outputTokens) (\<lambda>totalTokens.
     and_then (checked_cost (ru_estimatedCostUsd u)) (\<lambda>cost.
       Inr \<lparr>au_inputTokens = inputTokens, au_outputTokens = outputTokens, au_totalTokens = totalTokens,
         au_estimatedCostUsd = cost, au_latencyMs = latencyMs\<rparr>)))))"

subsection \<open>Totals (\<open>usage-recorder.ts\<close>)\<close>

definition usage_count :: "int \<Rightarrow> ai_thrown + int" where
  "usage_count n =
     (if 0 \<le> n \<and> n \<le> max_safe_integer then Inr n
      else Inl (AIProviderError AIValidation ''Usage aggregation failed due to invalid token accounting.''))"

definition checkedAdd :: "int \<Rightarrow> int \<Rightarrow> ai_thrown + int" where
  "checkedAdd left right =
     (if left + right \<le> max_safe_integer \<and> 0 \<le> left + right then Inr (left + right)
      else Inl (AIProviderError AIValidation ''Usage aggregation overflowed safe integer range.''))"

fun add_usages :: "int \<Rightarrow> int \<Rightarrow> int \<Rightarrow> ai_usage list \<Rightarrow> ai_thrown + int \<times> int \<times> int" where
  "add_usages i out l [] = Inr (i, out, l)"
| "add_usages i out l (u # us) =
     and_then (usage_count (au_inputTokens u)) (\<lambda>i'.
     and_then (usage_count (au_outputTokens u)) (\<lambda>out'.
     and_then (usage_count (au_latencyMs u)) (\<lambda>l'.
     and_then (checkedAdd i i') (\<lambda>i2.
     and_then (checkedAdd out out') (\<lambda>out2.
     and_then (checkedAdd l l') (\<lambda>l2. add_usages i2 out2 l2 us))))))"

fun add_costs :: "rat \<Rightarrow> rat option list \<Rightarrow> ai_thrown + rat" where
  "add_costs acc [] = Inr acc"
| "add_costs acc (Some c # cs) =
     (if c < 0 then Inl (AIProviderError AIValidation ''Usage aggregation failed due to invalid estimated cost.'')
      else add_costs (acc + c) cs)"
| "add_costs acc (None # cs) =
     Inl (AIProviderError AIValidation ''Usage aggregation failed due to invalid estimated cost.'')"

definition mergeUsageTotals :: "ai_usage list \<Rightarrow> ai_thrown + ai_usage" where
  "mergeUsageTotals us =
     and_then (add_usages 0 0 0 us) (\<lambda>(i, out, l).
     and_then (if list_all (\<lambda>u. au_estimatedCostUsd u \<noteq> None) us
               then and_then (add_costs 0 (map au_estimatedCostUsd us)) (\<lambda>c. Inr (Some c)) else Inr None) (\<lambda>cost.
     and_then (checkedAdd i out) (\<lambda>total'.
       Inr \<lparr>au_inputTokens = i, au_outputTokens = out, au_totalTokens = total', au_estimatedCostUsd = cost,
         au_latencyMs = l\<rparr>)))"

subsection \<open>Prompts\<close>

record prompt_input =
  pt_transcriptText :: jstext
  pt_summaryText :: "string option"
  pt_keywords :: "string list option"

text \<open>The payload of a prompt, by the shape it has.\<close>

datatype ai_output =
    MetadataOutput ai_metadata
  | KeywordsOutput "string list"
  | SummaryOutput ai_summary
  | ScriptureOutput "scripture_reference list"
  | ReflectionsOutput "string list"
  | OtherOutput

record 'o prompt_definition =
  pf_stage :: string
  pf_key :: string
  pf_version :: string
  pf_schema :: "ai_output \<Rightarrow> 'o option"
  pf_output :: "'o \<Rightarrow> ai_output"
  pf_temperature :: rat
  pf_maxTokens :: int
  pf_buildPrompt :: "prompt_input \<Rightarrow> jstext"

definition units :: "string \<Rightarrow> jstext" where
  "units = map of_char"

fun join_lines :: "jstext list \<Rightarrow> jstext" where
  "join_lines [] = []"
| "join_lines [x] = x"
| "join_lines (x # y # xs) = x @ [10, 10] @ join_lines (y # xs)"

definition metadataPrompt :: "ai_metadata prompt_definition" where
  "metadataPrompt =
     \<lparr>pf_stage = ''metadata'', pf_key = ''metadata'', pf_version = ''1.0'',
      pf_schema = (\<lambda>out. case out of MetadataOutput m \<Rightarrow> aiMetadataSchema m | _ \<Rightarrow> None),
      pf_output = MetadataOutput, pf_temperature = 0, pf_maxTokens = 400,
      pf_buildPrompt = (\<lambda>input. join_lines (map units
        [''Extract concise metadata from the transcript.'',
         ''Return strict JSON matching the requested schema.'', ''Transcript:'']
        @ [pt_transcriptText input]))\<rparr>"

definition keywordsPrompt :: "string list prompt_definition" where
  "keywordsPrompt =
     \<lparr>pf_stage = ''keywords'', pf_key = ''keywords'', pf_version = ''1.0'',
      pf_schema = (\<lambda>out. case out of KeywordsOutput k \<Rightarrow> aiKeywordsSchema k | _ \<Rightarrow> None),
      pf_output = KeywordsOutput, pf_temperature = 0, pf_maxTokens = 250,
      pf_buildPrompt = (\<lambda>input. join_lines (map units
        [''Extract important keywords from the transcript.'', ''Use clear lowercase keyword phrases.'',
         ''Return strict JSON matching the requested schema.'', ''Transcript:'']
        @ [pt_transcriptText input]))\<rparr>"

definition summaryPrompt :: "ai_summary prompt_definition" where
  "summaryPrompt =
     \<lparr>pf_stage = ''summary'', pf_key = ''summary'', pf_version = ''1.0'',
      pf_schema = (\<lambda>out. case out of SummaryOutput s \<Rightarrow> aiSummarySchema s | _ \<Rightarrow> None),
      pf_output = SummaryOutput, pf_temperature = 1 / 10, pf_maxTokens = 700,
      pf_buildPrompt = (\<lambda>input. join_lines (map units
        [''Generate a short and detailed summary of the transcript.'',
         ''Return strict JSON matching the requested schema.'', ''Transcript:'']
        @ [pt_transcriptText input]))\<rparr>"

definition scripturePrompt :: "scripture_reference list prompt_definition" where
  "scripturePrompt =
     \<lparr>pf_stage = ''scripture'', pf_key = ''scripture'', pf_version = ''1.0'',
      pf_schema = (\<lambda>out. case out of ScriptureOutput r \<Rightarrow> aiScriptureSchema r | _ \<Rightarrow> None),
      pf_output = ScriptureOutput, pf_temperature = 0, pf_maxTokens = 400,
      pf_buildPrompt = (\<lambda>input. join_lines (map units
        [''Find explicit or implied scripture references in the transcript.'',
         ''If none are present, return an empty references list.'',
         ''Return strict JSON matching the requested schema.'', ''Transcript:'']
        @ [pt_transcriptText input]))\<rparr>"

definition reflectionsPrompt :: "string list prompt_definition" where
  "reflectionsPrompt =
     \<lparr>pf_stage = ''reflections'', pf_key = ''reflections'', pf_version = ''1.0'',
      pf_schema = (\<lambda>out. case out of ReflectionsOutput r \<Rightarrow> aiReflectionsSchema r | _ \<Rightarrow> None),
      pf_output = ReflectionsOutput, pf_temperature = 1 / 5, pf_maxTokens = 500,
      pf_buildPrompt = (\<lambda>input. join_lines (filter (\<lambda>line. line \<noteq> [])
        [units ''Produce concise reflection points from the transcript content.'',
         units ''Return strict JSON matching the requested schema.'', units ''Transcript:'',
         pt_transcriptText input,
         (case pt_summaryText input of
            Some s \<Rightarrow> if s \<noteq> [] then units (''Summary context: '' @ s) else []
          | None \<Rightarrow> [])]))\<rparr>"

subsection \<open>Providers and the prompt runner\<close>

record ai_request =
  aq_stage :: string
  aq_promptKey :: string
  aq_promptVersion :: string
  aq_pipelineVersion :: string
  aq_prompt :: jstext
  aq_schema :: "ai_output \<Rightarrow> ai_output option"
  aq_model :: string
  aq_temperature :: rat
  aq_maxTokens :: int
  aq_timeoutMs :: int

record provider_result =
  vr_provider :: string
  vr_model :: string
  vr_output :: ai_output
  vr_usage :: raw_usage
  vr_generatedAt :: string

record ai_provider =
  vp_providerName :: string
  vp_generate :: "ai_request \<Rightarrow> ai_thrown + provider_result"

record 'o prompt_run =
  rn_output :: 'o
  rn_stage :: string
  rn_promptKey :: string
  rn_promptVersion :: string
  rn_provider :: string
  rn_model :: string
  rn_generatedAt :: string
  rn_usage :: ai_usage

definition prompt_request :: "int \<Rightarrow> string \<Rightarrow> 'o prompt_definition \<Rightarrow> prompt_input \<Rightarrow> ai_request" where
  "prompt_request timeoutMs pipelineVersion p input =
     \<lparr>aq_stage = pf_stage p, aq_promptKey = pf_key p, aq_promptVersion = pf_version p,
      aq_pipelineVersion = pipelineVersion, aq_prompt = pf_buildPrompt p input,
      aq_schema = (\<lambda>out. map_option (pf_output p) (pf_schema p out)), aq_model = ''default'',
      aq_temperature = pf_temperature p, aq_maxTokens = pf_maxTokens p, aq_timeoutMs = timeoutMs\<rparr>"

definition runner_run ::
  "ai_provider \<Rightarrow> int \<Rightarrow> string \<Rightarrow> 'o prompt_definition \<Rightarrow> prompt_input \<Rightarrow> ai_thrown + 'o prompt_run" where
  "runner_run provider timeoutMs pipelineVersion p input =
     and_then (vp_generate provider (prompt_request timeoutMs pipelineVersion p input)) (\<lambda>result.
       case pf_schema p (vr_output result) of
         None \<Rightarrow> Inl (AIProviderError AIValidation ''Prompt output failed runtime validation.'')
       | Some parsedOutput \<Rightarrow>
           and_then (normalizeUsage (vr_usage result)) (\<lambda>usage.
             Inr \<lparr>rn_output = parsedOutput, rn_stage = pf_stage p, rn_promptKey = pf_key p,
               rn_promptVersion = pf_version p, rn_provider = vr_provider result, rn_model = vr_model result,
               rn_generatedAt = vr_generatedAt result, rn_usage = usage\<rparr>))"

subsection \<open>The pipeline\<close>

definition execution_of :: "string \<Rightarrow> 'o prompt_run \<Rightarrow> prompt_execution" where
  "execution_of pipelineVersion r =
     \<lparr>ae_stage = rn_stage r, ae_promptKey = rn_promptKey r, ae_promptVersion = rn_promptVersion r,
      ae_pipelineVersion = pipelineVersion, ae_provider = rn_provider r, ae_model = rn_model r,
      ae_generatedAt = rn_generatedAt r, ae_usage = rn_usage r\<rparr>"

definition pipeline_result ::
  "(string \<Rightarrow> bool) \<Rightarrow> string \<Rightarrow> string \<Rightarrow> ai_metadata prompt_run \<Rightarrow> string list prompt_run \<Rightarrow> ai_summary prompt_run
     \<Rightarrow> scripture_reference list prompt_run \<Rightarrow> string list prompt_run \<Rightarrow> ai_thrown + ai_result" where
  "pipeline_result datetime providerName pipelineVersion metadata kws summary scripture reflections =
     (let promptExecutions =
        [execution_of pipelineVersion metadata, execution_of pipelineVersion kws,
         execution_of pipelineVersion summary, execution_of pipelineVersion scripture,
         execution_of pipelineVersion reflections] in
      and_then (mergeUsageTotals (map ae_usage promptExecutions)) (\<lambda>usageTotals.
        case aiPipelineResultSchema datetime
          \<lparr>ai_pipelineVersion = pipelineVersion, ai_provider = providerName,
           ai_model = ae_model (last promptExecutions), ai_generatedAt = ae_generatedAt (last promptExecutions),
           ai_metadata_of = rn_output metadata, ai_summary_of = rn_output summary, ai_keywords = rn_output kws,
           ai_references = rn_output scripture, ai_reflections = rn_output reflections,
           ai_promptExecutions = promptExecutions, ai_usageTotals = usageTotals\<rparr> of
          None \<Rightarrow> Inl AISchemaError
        | Some result \<Rightarrow> Inr result))"

definition pipeline_run ::
  "(string \<Rightarrow> bool) \<Rightarrow> ai_provider \<Rightarrow> string \<Rightarrow> int \<Rightarrow> jstext \<Rightarrow> ai_thrown + ai_result" where
  "pipeline_run datetime provider pipelineVersion timeoutMs transcript =
     (let input = \<lparr>pt_transcriptText = transcript, pt_summaryText = None, pt_keywords = None\<rparr> in
      and_then (runner_run provider timeoutMs pipelineVersion metadataPrompt input) (\<lambda>metadata.
      and_then (runner_run provider timeoutMs pipelineVersion keywordsPrompt input) (\<lambda>kws.
      and_then (runner_run provider timeoutMs pipelineVersion summaryPrompt input) (\<lambda>summary.
      and_then (runner_run provider timeoutMs pipelineVersion scripturePrompt input) (\<lambda>scripture.
      and_then (runner_run provider timeoutMs pipelineVersion reflectionsPrompt
        (input\<lparr>pt_summaryText := Some (as_shortSummary (rn_output summary)), pt_keywords := Some (rn_output kws)\<rparr>))
      (\<lambda>reflections.
        pipeline_result datetime (vp_providerName provider) pipelineVersion metadata kws summary scripture reflections))))))"

end
