(* ===== verification/AiProviders.thy ===== *)
theory AiProviders
  imports AiPipeline UrlSafety "HOL-Library.Sublist"
begin

text \<open>
  The providers (\<open>src/infrastructure/ai/providers\<close>) and their choice
  (\<open>src/infrastructure/ai/registry.ts\<close>).  What the OpenAI library answers, the abort signals when
  it has answered and the clock are the fields of an \<open>openai_call\<close>; \<open>parse_json\<close> is \<open>JSON.parse\<close>,
  giving the payload by its shape.
\<close>

subsection \<open>The mock provider\<close>

datatype mock_mode = MockSuccess | MockRetryableFailure | MockPermanentFailure | MockTimeout | MockMalformedOutput

definition safe_nonneg_int :: "int \<Rightarrow> bool" where
  "safe_nonneg_int n \<longleftrightarrow> 0 \<le> n \<and> n \<le> max_safe_integer"

definition deterministicUsage :: "jstext \<Rightarrow> ai_thrown + raw_usage" where
  "deterministicUsage prompt =
     (let inputTokens = max 1 (int (length prompt) div 4); outputTokens = 80;
          totalTokens = inputTokens + outputTokens in
      if \<not> safe_nonneg_int inputTokens
      then Inl (AIProviderError AIValidation ''Mock provider generated invalid input token usage.'')
      else if \<not> safe_nonneg_int outputTokens
      then Inl (AIProviderError AIValidation ''Mock provider generated invalid output token usage.'')
      else if \<not> safe_nonneg_int totalTokens
      then Inl (AIProviderError AIValidation ''Mock provider token usage overflowed safe integer range.'')
      else Inr \<lparr>ru_inputTokens = Number (of_int inputTokens), ru_outputTokens = Number (of_int outputTokens),
        ru_totalTokens = Number (of_int totalTokens), ru_estimatedCostUsd = None, ru_latencyMs = Number 5\<rparr>)"

definition buildMockPayload :: "string \<Rightarrow> ai_output" where
  "buildMockPayload promptKey =
     (if promptKey = ''metadata''
      then MetadataOutput \<lparr>am_title = ''Deterministic Transcript Title'',
        am_description = ''Deterministic metadata generated by mock provider.'',
        am_language = ''en'', am_audience = ''general''\<rparr>
      else if promptKey = ''summary''
      then SummaryOutput \<lparr>as_shortSummary = ''Deterministic short summary.'',
        as_detailedSummary = ''Deterministic detailed summary generated for integration testing.''\<rparr>
      else if promptKey = ''keywords'' then KeywordsOutput [''deterministic'', ''transcript'', ''pipeline'']
      else if promptKey = ''scripture''
      then ScriptureOutput [\<lparr>ar_book = ''John'', ar_chapter = 3, ar_verseStart = 16, ar_verseEnd = Some 17\<rparr>]
      else if promptKey = ''reflections''
      then ReflectionsOutput [''Deterministic reflection point one.'', ''Deterministic reflection point two.'']
      else OtherOutput)"

definition mock_generate :: "mock_mode \<Rightarrow> string \<Rightarrow> bool \<Rightarrow> ai_request \<Rightarrow> ai_thrown + provider_result" where
  "mock_generate mode nowIso aborted request =
     (if aborted then Inl (AICancelled ''Mock provider request was aborted.'')
      else if mode = MockTimeout
      then Inl (AIProviderError AITimeout ''Mock provider timeout mode is active.'')
      else if mode = MockRetryableFailure
      then Inl (AIProviderError AIProviderUnavailable ''Mock provider retryable failure mode is active.'')
      else if mode = MockPermanentFailure
      then Inl (AIProviderError AIPermanent ''Mock provider permanent failure mode is active.'')
      else (case aq_schema request
              (if mode = MockMalformedOutput then OtherOutput else buildMockPayload (aq_promptKey request)) of
          None \<Rightarrow> Inl (AIProviderError AIValidation ''Mock provider returned invalid output.'')
        | Some out \<Rightarrow>
            and_then (deterministicUsage (aq_prompt request)) (\<lambda>usage.
              Inr \<lparr>vr_provider = ''mock'', vr_model = aq_model request, vr_output = out, vr_usage = usage,
                vr_generatedAt = nowIso\<rparr>)))"

definition mock_provider :: "mock_mode \<Rightarrow> string \<Rightarrow> (ai_request \<Rightarrow> bool) \<Rightarrow> ai_provider" where
  "mock_provider mode nowIso aborted =
     \<lparr>vp_providerName = ''mock'', vp_generate = (\<lambda>q. mock_generate mode nowIso (aborted q) q)\<rparr>"

subsection \<open>The OpenAI provider\<close>

text \<open>
  The errors of the library by their most specific class; an error of another class may carry a
  \<open>status\<close>.
\<close>

datatype sdk_error =
    APIConnectionTimeoutError
  | APIUserAbortError
  | AuthenticationError
  | PermissionDeniedError
  | BadRequestError
  | RateLimitError
  | InternalServerError
  | APIConnectionError
  | StatusError "int option"
  | OtherSdkError

definition unexpected_failure :: ai_thrown where
  "unexpected_failure = AIProviderError AIProviderUnavailable ''OpenAI request failed unexpectedly.''"

definition status_failure :: "int option \<Rightarrow> ai_thrown" where
  "status_failure s =
     (case s of
        None \<Rightarrow> unexpected_failure
      | Some status \<Rightarrow>
          if status = 401 \<or> status = 403 then AIProviderError AIAuthentication ''OpenAI authentication failed.''
          else if status = 429 then AIProviderError AIRateLimit ''OpenAI rate limit exceeded.''
          else if 500 \<le> status then AIProviderError AIProviderUnavailable ''OpenAI service is unavailable.''
          else if 400 \<le> status then AIProviderError AIPermanent ''OpenAI request failed.''
          else unexpected_failure)"

fun mapOpenAIError :: "sdk_error \<Rightarrow> ai_thrown" where
  "mapOpenAIError APIConnectionTimeoutError = AIProviderError AITimeout ''OpenAI request timed out.''"
| "mapOpenAIError APIUserAbortError = AICancelled ''OpenAI request was cancelled.''"
| "mapOpenAIError AuthenticationError = AIProviderError AIAuthentication ''OpenAI authentication failed.''"
| "mapOpenAIError PermissionDeniedError = AIProviderError AIAuthentication ''OpenAI permission denied.''"
| "mapOpenAIError BadRequestError = AIProviderError AIPermanent ''OpenAI request was rejected.''"
| "mapOpenAIError RateLimitError = AIProviderError AIRateLimit ''OpenAI rate limit exceeded.''"
| "mapOpenAIError InternalServerError = AIProviderError AIProviderUnavailable ''OpenAI service is unavailable.''"
| "mapOpenAIError APIConnectionError = AIProviderError AIProviderUnavailable ''OpenAI service is unavailable.''"
| "mapOpenAIError (StatusError s) = status_failure s"
| "mapOpenAIError OtherSdkError = unexpected_failure"

text \<open>A count that is undefined or null is an absent one.\<close>

definition parseOptionalTokenCount :: "js_number option \<Rightarrow> ai_thrown + int" where
  "parseOptionalTokenCount value =
     (case value of
        None \<Rightarrow> Inr 0
      | Some v \<Rightarrow> (case safe_nonnegative v of
            None \<Rightarrow> Inl (AIProviderError AIValidation ''OpenAI usage token count was invalid.'')
          | Some n \<Rightarrow> Inr n))"

definition checkedTokenSum :: "int \<Rightarrow> int \<Rightarrow> ai_thrown + int" where
  "checkedTokenSum inputTokens outputTokens =
     (if safe_nonneg_int (inputTokens + outputTokens) then Inr (inputTokens + outputTokens)
      else Inl (AIProviderError AIValidation ''OpenAI token usage overflowed safe integer range.''))"

datatype message_content = NoContent | TextContent string | OtherContent

record openai_choice =
  ch_refusal :: "string option"
  ch_content :: message_content
  ch_finishReason :: string

record openai_completion =
  oc_choice :: "openai_choice option"
  oc_promptTokens :: "js_number option"
  oc_completionTokens :: "js_number option"
  oc_totalTokens :: "js_number option"

record openai_call =
  ol_abortedBefore :: bool
  ol_answer :: "sdk_error + openai_completion"
  ol_aborted :: bool
  ol_timedOut :: bool
  ol_startedAt :: int
  ol_endedAt :: int
  ol_generatedAt :: string

definition validation_failure :: "string \<Rightarrow> ai_thrown" where
  "validation_failure m = AIProviderError AIValidation m"

text \<open>The payload of the first choice.\<close>

definition completion_output :: "(string \<Rightarrow> ai_output option) \<Rightarrow> ai_request \<Rightarrow> openai_choice option \<Rightarrow> ai_thrown + ai_output" where
  "completion_output parse_json request choice =
     (if (case Option.bind choice ch_refusal of None \<Rightarrow> False | Some r \<Rightarrow> js_trim r \<noteq> [])
      then Inl (AIProviderError AIPermanent ''OpenAI response was refused.'')
      else if map_option ch_finishReason choice = Some ''length''
      then Inl (validation_failure ''OpenAI response was truncated.'')
      else case (case choice of None \<Rightarrow> NoContent | Some c \<Rightarrow> ch_content c) of
        NoContent \<Rightarrow> Inl (validation_failure ''OpenAI response did not include content.'')
      | OtherContent \<Rightarrow> Inl (validation_failure ''OpenAI response content was empty.'')
      | TextContent rawContent \<Rightarrow>
          if js_trim rawContent = [] then Inl (validation_failure ''OpenAI response content was empty.'')
          else case parse_json rawContent of
            None \<Rightarrow> Inl (validation_failure ''OpenAI response was not valid JSON.'')
          | Some parsedJson \<Rightarrow>
              (case aq_schema request parsedJson of
                 None \<Rightarrow> Inl (validation_failure ''OpenAI response failed schema validation.'')
               | Some out \<Rightarrow> Inr out))"

definition openai_result ::
  "(string \<Rightarrow> ai_output option) \<Rightarrow> string \<Rightarrow> ai_request \<Rightarrow> openai_call \<Rightarrow> openai_completion \<Rightarrow> ai_thrown + provider_result" where
  "openai_result parse_json defaultModel request call completion =
     and_then (completion_output parse_json request (oc_choice completion)) (\<lambda>out.
     and_then (parseOptionalTokenCount (oc_promptTokens completion)) (\<lambda>inputTokens.
     and_then (parseOptionalTokenCount (oc_completionTokens completion)) (\<lambda>outputTokens.
     and_then (checkedTokenSum inputTokens outputTokens) (\<lambda>totalTokens.
     and_then (parseOptionalTokenCount (oc_totalTokens completion)) (\<lambda>_.
       Inr \<lparr>vr_provider = ''openai'', vr_model = defaultModel, vr_output = out,
         vr_usage = \<lparr>ru_inputTokens = Number (of_int inputTokens), ru_outputTokens = Number (of_int outputTokens),
           ru_totalTokens = Number (of_int totalTokens), ru_estimatedCostUsd = None,
           ru_latencyMs = Number (of_int (max 0 (ol_endedAt call - ol_startedAt call)))\<rparr>,
         vr_generatedAt = ol_generatedAt call\<rparr>)))))"

text \<open>What is thrown in the \<open>try\<close> is replaced when a signal is aborted; the signals are those at the answer.\<close>

definition openai_generate ::
  "(string \<Rightarrow> ai_output option) \<Rightarrow> string \<Rightarrow> openai_call \<Rightarrow> ai_request \<Rightarrow> ai_thrown + provider_result" where
  "openai_generate parse_json defaultModel call request =
     (if ol_abortedBefore call then Inl (AICancelled ''OpenAI request was cancelled before start.'')
      else if ol_aborted call then Inl (AICancelled ''OpenAI request was cancelled.'')
      else if ol_timedOut call then Inl (AIProviderError AITimeout ''OpenAI request timed out.'')
      else (case ol_answer call of
          Inl e \<Rightarrow> Inl (mapOpenAIError e)
        | Inr completion \<Rightarrow> openai_result parse_json defaultModel request call completion))"

definition openai_provider ::
  "(string \<Rightarrow> ai_output option) \<Rightarrow> string \<Rightarrow> (ai_request \<Rightarrow> openai_call) \<Rightarrow> ai_provider" where
  "openai_provider parse_json defaultModel calls =
     \<lparr>vp_providerName = ''openai'', vp_generate = (\<lambda>q. openai_generate parse_json defaultModel (calls q) q)\<rparr>"

subsection \<open>The registry\<close>

record registry_config =
  rc_providerName :: string
  rc_openAiApiKey :: string
  rc_openAiModel :: string
  rc_mockMode :: mock_mode

text \<open>The provider chosen, or the message of the \<open>ValidationError\<close>.\<close>

definition createAIProvider ::
  "(string \<Rightarrow> ai_output option) \<Rightarrow> (ai_request \<Rightarrow> openai_call) \<Rightarrow> string \<Rightarrow> (ai_request \<Rightarrow> bool) \<Rightarrow> registry_config
     \<Rightarrow> string + ai_provider" where
  "createAIProvider parse_json calls nowIso aborted config =
     (if rc_providerName config = ''mock'' then Inr (mock_provider (rc_mockMode config) nowIso aborted)
      else if rc_providerName config = ''openai''
      then if js_trim (rc_openAiApiKey config) = []
           then Inl ''OPENAI_API_KEY is required when AI_PROVIDER=openai.''
           else Inr (openai_provider parse_json (rc_openAiModel config) calls)
      else Inl ''Unknown AI provider configuration.'')"

end
