(* ===== verification/PipelineRuns.thy ===== *)
theory PipelineRuns
  imports AiProviders TrimmedTexts
begin

text \<open>
  What a run of the AI pipeline gives: a result that its schema accepts as it is, with the totals of
  its five executions; and that a provider which answers every request well always leads to one.
\<close>

subsection \<open>Parsing twice\<close>

definition settles :: "('a \<Rightarrow> 'a option) \<Rightarrow> bool" where
  "settles f \<longleftrightarrow> (\<forall>x y. f x = Some y \<longrightarrow> f y = Some y)"

named_theorems settling "schemas that accept what they give as it is"

lemma settles_zstring [settling]: "settles (zstring lo hi)"
  by (auto simp: settles_def zstring_def Let_def split: if_splits)

lemma settles_zenum [settling]: "settles (zenum vs)"
  by (auto simp: settles_def zenum_def split: if_splits)

lemma settles_zwhen [settling]: "settles (zwhen p)"
  by (auto simp: settles_def zwhen_def split: if_splits)

lemma settles_znonempty [settling]: "settles znonempty"
  unfolding znonempty_def by (rule settles_zwhen)

lemma settles_safe_count [settling]: "settles safe_count"
  unfolding safe_count_def by (rule settles_zwhen)

lemma settles_ztrimmed [settling]: "settles ztrimmed"
  by (auto simp: settles_def ztrimmed_def znonempty_def zwhen_def split: if_splits)

lemma settles_zopt [settling]: "settles f \<Longrightarrow> settles (zopt f)"
  by (auto simp: settles_def zopt_def split: option.splits)

lemma settles_zlist [settling]: "settles f \<Longrightarrow> settles (zlist lo hi f)"
  unfolding settles_def by (auto intro!: zlist_same dest: zlist_result)

lemma settlesD: "settles f \<Longrightarrow> f x = Some y \<Longrightarrow> f y = Some y"
  by (simp add: settles_def)

lemma lower_char: "js_space (to_lower c) = js_space c \<and> to_lower (to_lower c) = to_lower c"
proof (cases "65 \<le> (of_char c :: nat) \<and> (of_char c :: nat) \<le> 90 \<or> 192 \<le> (of_char c :: nat) \<and> (of_char c :: nat) \<le> 222 \<and> (of_char c :: nat) \<noteq> 215")
  case True
  define n where "n = (of_char c :: nat)"
  have l: "to_lower c = char_of (n + 32)" using True by (simp add: to_lower_def Let_def n_def)
  have "n + 32 < 256" using True by (auto simp: n_def)
  then have o: "(of_char (char_of (n + 32)) :: nat) = n + 32" by simp
  have "\<not> (65 \<le> n + 32 \<and> n + 32 \<le> 90)" "\<not> (192 \<le> n + 32 \<and> n + 32 \<le> 222 \<and> n + 32 \<noteq> 215)"
    using True by (auto simp: n_def)
  then have "to_lower (char_of (n + 32)) = char_of (n + 32)" unfolding to_lower_def o Let_def by simp
  moreover have "js_space (to_lower c) = js_space c" using True unfolding l js_space_def o by (auto simp: n_def)
  ultimately show ?thesis by (simp add: l)
next
  case False
  then have "to_lower c = c" by (auto simp: to_lower_def Let_def)
  then show ?thesis by simp
qed

lemma trim_lower: "js_trim (lower_case s) = lower_case (js_trim s)"
proof -
  have "js_space \<circ> to_lower = js_space" by (rule ext) (simp add: lower_char)
  then show ?thesis by (simp add: js_trim_def trim_by_def lower_case_def dropWhile_map rev_map)
qed

lemma settles_keyword [settling]: "settles (\<lambda>k. map_option lower_case (zstring lo hi k))"
  by (auto simp: settles_def zstring_def Let_def trim_lower split: if_splits)
     (simp_all add: lower_case_def lower_char)

lemma settles_metadata [settling]: "settles aiMetadataSchema"
  unfolding settles_def aiMetadataSchema_def
  by (auto simp: bind_eq_Some_conv settlesD [OF settles_zstring])

lemma settles_summary [settling]: "settles aiSummarySchema"
  unfolding settles_def aiSummarySchema_def
  by (auto simp: bind_eq_Some_conv settlesD [OF settles_zstring])

lemma settles_keywords [settling]: "settles aiKeywordsSchema"
  unfolding aiKeywordsSchema_def by (intro settling)

lemma settles_reference [settling]: "settles aiScriptureReferenceSchema"
proof -
  have "settles (zopt (zwhen (\<lambda>n::int. 0 < n)))" by (intro settling)
  then show ?thesis
    unfolding settles_def [of aiScriptureReferenceSchema] aiScriptureReferenceSchema_def
    by (auto simp: bind_eq_Some_conv settlesD [OF settles_zstring] settlesD [OF settles_zwhen] settlesD)
qed

lemma settles_scripture [settling]: "settles aiScriptureSchema"
  unfolding aiScriptureSchema_def by (intro settling)

lemma settles_reflections [settling]: "settles aiReflectionsSchema"
  unfolding aiReflectionsSchema_def by (intro settling)

lemma settles_usage [settling]: "settles aiUsageSchema"
  by (auto simp: settles_def aiUsageSchema_def bind_eq_Some_conv split: if_splits)

lemma settles_execution [settling]: "settles (aiPromptExecutionRecordSchema datetime)"
  unfolding settles_def aiPromptExecutionRecordSchema_def
  by (auto simp: bind_eq_Some_conv settlesD [OF settles_zenum] settlesD [OF settles_zwhen]
      settlesD [OF settles_znonempty] settlesD [OF settles_ztrimmed] settlesD [OF settles_usage])

lemma settles_result [settling]: "settles (aiPipelineResultSchema datetime)"
proof -
  have "settles (zlist 1 5 (aiPromptExecutionRecordSchema datetime))" by (intro settling)
  then show ?thesis
    unfolding settles_def [of "aiPipelineResultSchema datetime"] aiPipelineResultSchema_def
    by (auto simp: bind_eq_Some_conv settlesD [OF settles_zenum] settlesD [OF settles_zwhen]
        settlesD [OF settles_znonempty] settlesD [OF settles_ztrimmed] settlesD [OF settles_usage]
        settlesD [OF settles_metadata] settlesD [OF settles_summary] settlesD [OF settles_keywords]
        settlesD [OF settles_scripture] settlesD [OF settles_reflections] settlesD)
qed

subsection \<open>Totals\<close>

lemma add_usages_sums:
  "add_usages i out l us = Inr (i', out', l') \<Longrightarrow>
   i' = i + sum_list (map au_inputTokens us) \<and> out' = out + sum_list (map au_outputTokens us)
   \<and> l' = l + sum_list (map au_latencyMs us)"
proof (induction us arbitrary: i out l)
  case (Cons u us)
  then have "add_usages (i + au_inputTokens u) (out + au_outputTokens u) (l + au_latencyMs u) us = Inr (i', out', l')"
    by (auto simp: usage_count_def checkedAdd_def split: if_splits)
  from Cons.IH [OF this] show ?case by simp
qed simp

lemma add_costs_sums:
  "add_costs acc cs = Inr c \<Longrightarrow> None \<notin> set cs \<and> c = acc + sum_list (map the cs)"
  by (induction acc cs rule: add_costs.induct) (auto split: if_splits)

lemma merged_totals:
  assumes "mergeUsageTotals us = Inr t"
  shows "au_inputTokens t = sum_list (map au_inputTokens us)"
    and "au_outputTokens t = sum_list (map au_outputTokens us)"
    and "au_latencyMs t = sum_list (map au_latencyMs us)"
    and "au_totalTokens t = au_inputTokens t + au_outputTokens t"
    and "au_estimatedCostUsd t =
      (if \<exists>u \<in> set us. au_estimatedCostUsd u = None then None
       else Some (sum_list (map (the \<circ> au_estimatedCostUsd) us)))"
  using assms unfolding mergeUsageTotals_def
  by (auto simp: checkedAdd_def list_all_iff o_def dest!: add_usages_sums add_costs_sums split: if_splits)

lemma schema_keeps_executions:
  assumes "aiPipelineResultSchema datetime a = Some r"
  shows "map ae_stage (ai_promptExecutions r) = map ae_stage (ai_promptExecutions a)"
    and "map ae_usage (ai_promptExecutions r) = map ae_usage (ai_promptExecutions a)"
    and "ai_usageTotals r = ai_usageTotals a"
    and "ai_pipelineVersion r = js_trim (ai_pipelineVersion a)"
    and "map ae_pipelineVersion (ai_promptExecutions r) = map (js_trim \<circ> ae_pipelineVersion) (ai_promptExecutions a)"
proof -
  from assms obtain es where es: "zlist 1 5 (aiPromptExecutionRecordSchema datetime) (ai_promptExecutions a) = Some es"
    and r: "ai_promptExecutions r = es" "ai_usageTotals r = ai_usageTotals a" "ai_pipelineVersion r = js_trim (ai_pipelineVersion a)"
    by (auto simp: aiPipelineResultSchema_def bind_eq_Some_conv aiUsageSchema_def ztrimmed_def znonempty_def zwhen_def split: if_splits)
  have one: "ae_stage y = ae_stage x \<and> ae_usage y = ae_usage x \<and> ae_pipelineVersion y = js_trim (ae_pipelineVersion x)"
    if "aiPromptExecutionRecordSchema datetime x = Some y" for x y
    using that by (auto simp: aiPromptExecutionRecordSchema_def bind_eq_Some_conv aiUsageSchema_def zenum_def
        ztrimmed_def znonempty_def zwhen_def split: if_splits)
  have "those (map (aiPromptExecutionRecordSchema datetime) xs) = Some ys \<Longrightarrow>
      map ae_stage ys = map ae_stage xs \<and> map ae_usage ys = map ae_usage xs
      \<and> map ae_pipelineVersion ys = map (js_trim \<circ> ae_pipelineVersion) xs" for xs ys
    by (induction xs arbitrary: ys) (auto split: option.splits dest!: one)
  then show "map ae_stage (ai_promptExecutions r) = map ae_stage (ai_promptExecutions a)"
    "map ae_usage (ai_promptExecutions r) = map ae_usage (ai_promptExecutions a)"
    "map ae_pipelineVersion (ai_promptExecutions r) = map (js_trim \<circ> ae_pipelineVersion) (ai_promptExecutions a)"
    using es r(1) unfolding zlist_def by (auto split: if_splits)
qed (use assms in \<open>auto simp: aiPipelineResultSchema_def bind_eq_Some_conv aiUsageSchema_def ztrimmed_def
      znonempty_def zwhen_def split: if_splits\<close>)

lemma run_keeps_prompt:
  assumes "runner_run provider timeoutMs v p input = Inr r"
  shows "rn_stage r = pf_stage p" and "\<exists>out. pf_schema p out = Some (rn_output r)"
  using assms unfolding runner_run_def by (auto split: option.splits) blast

lemma sum_usages:
  "map ae_usage es = us \<Longrightarrow> sum_list (map (f \<circ> ae_usage) es) = sum_list (map f us)"
  by (auto simp: o_assoc)

text \<open>
  What the AI pipeline gives is a result of its type.  The result is what its schema accepts,
  unchanged, with the five stages in order, all of the result's pipeline version; and the totals are
  the sums of the executions, with no cost when one of the executions has none.
\<close>

theorem pipeline_result_valid:
  assumes "pipeline_run datetime provider pipelineVersion timeoutMs transcript = Inr r"
  shows "aiPipelineResultSchema datetime r = Some r
    \<and> map ae_stage (ai_promptExecutions r) = [''metadata'', ''keywords'', ''summary'', ''scripture'', ''reflections'']
    \<and> (\<forall>e \<in> set (ai_promptExecutions r). ae_pipelineVersion e = ai_pipelineVersion r)
    \<and> au_inputTokens (ai_usageTotals r) = sum_list (map (au_inputTokens \<circ> ae_usage) (ai_promptExecutions r))
    \<and> au_outputTokens (ai_usageTotals r) = sum_list (map (au_outputTokens \<circ> ae_usage) (ai_promptExecutions r))
    \<and> au_latencyMs (ai_usageTotals r) = sum_list (map (au_latencyMs \<circ> ae_usage) (ai_promptExecutions r))
    \<and> au_estimatedCostUsd (ai_usageTotals r) =
        (if \<exists>e \<in> set (ai_promptExecutions r). au_estimatedCostUsd (ae_usage e) = None then None
         else Some (sum_list (map (the \<circ> au_estimatedCostUsd \<circ> ae_usage) (ai_promptExecutions r))))"
proof -
  from assms obtain m k s b q where runs:
    "rn_stage m = ''metadata''" "rn_stage k = ''keywords''" "rn_stage s = ''summary''" "rn_stage b = ''scripture''"
    "rn_stage q = ''reflections''"
    and res: "pipeline_result datetime (vp_providerName provider) pipelineVersion m k s b q = Inr r"
    unfolding pipeline_run_def Let_def
    by (auto dest!: run_keeps_prompt(1)
        simp: metadataPrompt_def keywordsPrompt_def summaryPrompt_def scripturePrompt_def reflectionsPrompt_def)
  let ?es = "[execution_of pipelineVersion m, execution_of pipelineVersion k, execution_of pipelineVersion s,
      execution_of pipelineVersion b, execution_of pipelineVersion q]"
  from res obtain t a where t: "mergeUsageTotals (map ae_usage ?es) = Inr t"
    and a: "aiPipelineResultSchema datetime a = Some r"
    and e: "ai_promptExecutions a = ?es" "ai_usageTotals a = t" "ai_pipelineVersion a = pipelineVersion"
    unfolding pipeline_result_def Let_def by (auto split: option.splits)
  note keeps = schema_keeps_executions [OF a, unfolded e]
  have us: "map ae_usage (ai_promptExecutions r) = map ae_usage ?es" by (rule keeps(2))
  note sums = sum_usages [OF us]
  have costless: "(\<exists>e \<in> set (ai_promptExecutions r). au_estimatedCostUsd (ae_usage e) = None) =
      (\<exists>u \<in> set (map ae_usage ?es). au_estimatedCostUsd u = None)"
    unfolding us [symmetric] by simp
  have version: "\<forall>e \<in> set (ai_promptExecutions r). ae_pipelineVersion e = ai_pipelineVersion r"
  proof
    fix e' assume "e' \<in> set (ai_promptExecutions r)"
    then have "ae_pipelineVersion e' \<in> set (map ae_pipelineVersion (ai_promptExecutions r))" by simp
    then show "ae_pipelineVersion e' = ai_pipelineVersion r" unfolding keeps(5) keeps(4) by (auto simp: execution_of_def)
  qed
  have stages: "map ae_stage (ai_promptExecutions r) = [''metadata'', ''keywords'', ''summary'', ''scripture'', ''reflections'']"
    using keeps(1) runs by (simp add: execution_of_def)
  show ?thesis
    using settlesD [OF settles_result a] stages version merged_totals [OF t] sums costless keeps(3)
    unfolding sums costless e by (simp only: simp_thms)
qed

subsection \<open>Providers that answer\<close>

text \<open>The requests a run can make.\<close>

inductive pipeline_request :: "string \<Rightarrow> ai_request \<Rightarrow> bool" for pipelineVersion where
  "pipeline_request pipelineVersion (prompt_request timeoutMs pipelineVersion metadataPrompt input)"
| "pipeline_request pipelineVersion (prompt_request timeoutMs pipelineVersion keywordsPrompt input)"
| "pipeline_request pipelineVersion (prompt_request timeoutMs pipelineVersion summaryPrompt input)"
| "pipeline_request pipelineVersion (prompt_request timeoutMs pipelineVersion scripturePrompt input)"
| "pipeline_request pipelineVersion (prompt_request timeoutMs pipelineVersion reflectionsPrompt input)"

definition modest :: "js_number \<Rightarrow> bool" where
  "modest v \<longleftrightarrow> (case safe_nonnegative v of None \<Rightarrow> False | Some n \<Rightarrow> n \<le> max_safe_integer div 10)"

definition well_usage :: "ai_usage \<Rightarrow> bool" where
  "well_usage u \<longleftrightarrow>
     (let small = (\<lambda>n. 0 \<le> n \<and> n \<le> max_safe_integer div 10) in
      small (au_inputTokens u) \<and> small (au_outputTokens u) \<and> small (au_latencyMs u)
      \<and> au_totalTokens u = au_inputTokens u + au_outputTokens u \<and> au_estimatedCostUsd u = None)"

lemma well_usage_schema: "well_usage u \<Longrightarrow> aiUsageSchema u = Some u"
  by (simp add: well_usage_def aiUsageSchema_def safe_count_def zwhen_def zopt_def Let_def max_safe_integer_def)

lemma five_totals:
  assumes "\<forall>u \<in> {a, b, c, d, e}. well_usage u"
  shows "\<exists>t. mergeUsageTotals [a, b, c, d, e] = Inr t \<and> aiUsageSchema t = Some t"
  using assms
  by (simp add: mergeUsageTotals_def usage_count_def checkedAdd_def well_usage_def Let_def max_safe_integer_def
      aiUsageSchema_def safe_count_def zwhen_def zopt_def)

lemma prompts_fit:
  assumes "length (pt_transcriptText input) < 2 ^ 29" and "\<forall>x. pt_summaryText input = Some x \<longrightarrow> length x \<le> 240"
  shows "length (pf_buildPrompt metadataPrompt input) < 2 ^ 30" and "length (pf_buildPrompt keywordsPrompt input) < 2 ^ 30"
    and "length (pf_buildPrompt summaryPrompt input) < 2 ^ 30" and "length (pf_buildPrompt scripturePrompt input) < 2 ^ 30"
    and "length (pf_buildPrompt reflectionsPrompt input) < 2 ^ 30"
  using assms
  by (auto simp: metadataPrompt_def keywordsPrompt_def summaryPrompt_def scripturePrompt_def reflectionsPrompt_def
      units_def split: option.splits)

lemma prompts_settle:
  shows "pf_schema metadataPrompt out = Some m \<Longrightarrow> aiMetadataSchema m = Some m"
    and "pf_schema keywordsPrompt out = Some k \<Longrightarrow> aiKeywordsSchema k = Some k"
    and "pf_schema summaryPrompt out = Some s \<Longrightarrow> aiSummarySchema s = Some s"
    and "pf_schema scripturePrompt out = Some b \<Longrightarrow> aiScriptureSchema b = Some b"
    and "pf_schema reflectionsPrompt out = Some r \<Longrightarrow> aiReflectionsSchema r = Some r"
  by (cases out; simp add: metadataPrompt_def keywordsPrompt_def summaryPrompt_def scripturePrompt_def
      reflectionsPrompt_def settlesD [OF settles_metadata] settlesD [OF settles_keywords]
      settlesD [OF settles_summary] settlesD [OF settles_scripture] settlesD [OF settles_reflections])+

locale answering_provider =
  fixes datetime :: "string \<Rightarrow> bool"
    and provider :: ai_provider
  assumes named: "vp_providerName provider \<in> set ai_providers"
    and answers: "pipeline_request v q \<Longrightarrow> length (aq_prompt q) < 2 ^ 30 \<Longrightarrow>
      \<exists>a. vp_generate provider q = Inr a \<and> aq_schema q (vr_output a) \<noteq> None
        \<and> vr_provider a \<in> set ai_providers \<and> vr_model a \<noteq> [] \<and> datetime (vr_generatedAt a)
        \<and> modest (ru_inputTokens (vr_usage a)) \<and> modest (ru_outputTokens (vr_usage a)) \<and> modest (ru_latencyMs (vr_usage a))
        \<and> ru_estimatedCostUsd (vr_usage a) = None"
begin

definition well_run :: "'o prompt_run \<Rightarrow> bool" where
  "well_run r \<longleftrightarrow> rn_provider r \<in> set ai_providers \<and> rn_model r \<noteq> [] \<and> datetime (rn_generatedAt r)
     \<and> rn_promptKey r \<noteq> [] \<and> rn_promptVersion r \<noteq> [] \<and> rn_stage r \<in> set ai_stages
     \<and> well_usage (rn_usage r)"

lemma run_answers:
  assumes "pipeline_request v (prompt_request t v p input)" and "length (pf_buildPrompt p input) < 2 ^ 30"
    and "pf_key p \<noteq> []" and "pf_version p \<noteq> []" and "pf_stage p \<in> set ai_stages"
  shows "\<exists>r. runner_run provider t v p input = Inr r \<and> well_run r"
proof -
  from answers [OF assms(1)] assms(2) obtain a out where
    a: "vp_generate provider (prompt_request t v p input) = Inr a" and out: "pf_schema p (vr_output a) = Some out"
    and rest: "vr_provider a \<in> set ai_providers" "vr_model a \<noteq> []" "datetime (vr_generatedAt a)"
      "modest (ru_inputTokens (vr_usage a))" "modest (ru_outputTokens (vr_usage a))" "modest (ru_latencyMs (vr_usage a))"
      "ru_estimatedCostUsd (vr_usage a) = None"
    by (auto simp: prompt_request_def)
  obtain i where i: "safe_nonnegative (ru_inputTokens (vr_usage a)) = Some i" "i \<le> max_safe_integer div 10" "0 \<le> i"
    using rest(4) by (auto simp: modest_def safe_nonnegative_def Let_def split: option.splits js_number.splits prod.splits if_splits)
  obtain u where u: "safe_nonnegative (ru_outputTokens (vr_usage a)) = Some u" "u \<le> max_safe_integer div 10" "0 \<le> u"
    using rest(5) by (auto simp: modest_def safe_nonnegative_def Let_def split: option.splits js_number.splits prod.splits if_splits)
  obtain l where l: "safe_nonnegative (ru_latencyMs (vr_usage a)) = Some l" "l \<le> max_safe_integer div 10" "0 \<le> l"
    using rest(6) by (auto simp: modest_def safe_nonnegative_def Let_def split: option.splits js_number.splits prod.splits if_splits)
  have "normalizeUsage (vr_usage a) = Inr \<lparr>au_inputTokens = i, au_outputTokens = u, au_totalTokens = i + u,
      au_estimatedCostUsd = None, au_latencyMs = l\<rparr>"
    using i u l rest(7) by (simp add: normalizeUsage_def validateNonNegativeSafeInteger_def checkedSum_def checked_cost_def max_safe_integer_def)
  then show ?thesis using a out rest i u l assms(3-5) by (simp add: runner_run_def well_run_def well_usage_def)
qed

lemma well_run_execution:
  assumes "well_run r" and "js_trim v \<noteq> []"
  shows "\<exists>e. aiPromptExecutionRecordSchema datetime (execution_of v r) = Some e"
  using assms well_usage_schema [of "rn_usage r"]
  by (simp add: well_run_def execution_of_def aiPromptExecutionRecordSchema_def zenum_def znonempty_def zwhen_def
      ztrimmed_def)

lemma result_exists:
  fixes m :: "ai_metadata prompt_run" and k :: "string list prompt_run" and s :: "ai_summary prompt_run"
    and b :: "scripture_reference list prompt_run" and r :: "string list prompt_run"
  assumes "well_run m" and "well_run k" and "well_run s" and "well_run b" and "well_run r" and v: "js_trim v \<noteq> []"
    and "aiMetadataSchema (rn_output m) = Some (rn_output m)" and "aiKeywordsSchema (rn_output k) = Some (rn_output k)"
    and "aiSummarySchema (rn_output s) = Some (rn_output s)" and "aiScriptureSchema (rn_output b) = Some (rn_output b)"
    and "aiReflectionsSchema (rn_output r) = Some (rn_output r)"
  shows "\<exists>x. pipeline_result datetime (vp_providerName provider) v m k s b r = Inr x"
proof -
  have "\<exists>t. mergeUsageTotals [rn_usage m, rn_usage k, rn_usage s, rn_usage b, rn_usage r] = Inr t \<and> aiUsageSchema t = Some t"
    using assms(1-5) by (intro five_totals) (simp add: well_run_def)
  then obtain t where t: "mergeUsageTotals [rn_usage m, rn_usage k, rn_usage s, rn_usage b, rn_usage r] = Inr t"
    and t': "aiUsageSchema t = Some t" by blast
  obtain es where "zlist 1 5 (aiPromptExecutionRecordSchema datetime)
      [execution_of v m, execution_of v k, execution_of v s, execution_of v b, execution_of v r] = Some es"
    using well_run_execution [OF assms(1) v] well_run_execution [OF assms(2) v] well_run_execution [OF assms(3) v]
      well_run_execution [OF assms(4) v] well_run_execution [OF assms(5) v] by (auto simp: zlist_def)
  moreover have "ztrimmed v = Some (js_trim v)" using v by (simp add: ztrimmed_def znonempty_def zwhen_def)
  moreover have "zenum ai_providers (vp_providerName provider) = Some (vp_providerName provider)" using named by (simp add: zenum_def)
  moreover have "znonempty (rn_model r) = Some (rn_model r)" "zwhen datetime (rn_generatedAt r) = Some (rn_generatedAt r)"
    using assms(5) by (simp_all add: well_run_def znonempty_def zwhen_def)
  ultimately show ?thesis using t t' assms(7-11)
    by (simp add: pipeline_result_def aiPipelineResultSchema_def Let_def execution_of_def)
qed

lemma completes:
  assumes "length transcript < 2 ^ 29" and "js_trim v \<noteq> []"
  shows "\<exists>x. pipeline_run datetime provider v timeoutMs transcript = Inr x"
proof -
  let ?i = "\<lparr>pt_transcriptText = transcript, pt_summaryText = None, pt_keywords = None\<rparr>"
  note fit = prompts_fit [of ?i] and request = pipeline_request.intros
  have "\<exists>r. runner_run provider timeoutMs v metadataPrompt ?i = Inr r \<and> well_run r"
    by (rule run_answers [OF request(1)]) (use fit assms(1) in \<open>simp_all add: metadataPrompt_def ai_stages_def\<close>)
  then obtain m where m: "runner_run provider timeoutMs v metadataPrompt ?i = Inr m" "well_run m" by blast
  have "\<exists>r. runner_run provider timeoutMs v keywordsPrompt ?i = Inr r \<and> well_run r"
    by (rule run_answers [OF request(2)]) (use fit assms(1) in \<open>simp_all add: keywordsPrompt_def ai_stages_def\<close>)
  then obtain k where k: "runner_run provider timeoutMs v keywordsPrompt ?i = Inr k" "well_run k" by blast
  have "\<exists>r. runner_run provider timeoutMs v summaryPrompt ?i = Inr r \<and> well_run r"
    by (rule run_answers [OF request(3)]) (use fit assms(1) in \<open>simp_all add: summaryPrompt_def ai_stages_def\<close>)
  then obtain s where s: "runner_run provider timeoutMs v summaryPrompt ?i = Inr s" "well_run s" by blast
  have "\<exists>r. runner_run provider timeoutMs v scripturePrompt ?i = Inr r \<and> well_run r"
    by (rule run_answers [OF request(4)]) (use fit assms(1) in \<open>simp_all add: scripturePrompt_def ai_stages_def\<close>)
  then obtain b where b: "runner_run provider timeoutMs v scripturePrompt ?i = Inr b" "well_run b" by blast
  have settled: "aiSummarySchema (rn_output s) = Some (rn_output s)"
    using run_keeps_prompt(2) [OF s(1)] prompts_settle(3) by blast
  then have short: "length (as_shortSummary (rn_output s)) \<le> 240"
    by (auto simp: aiSummarySchema_def bind_eq_Some_conv dest!: zstring_result sym [of _ "rn_output s"])
  let ?j = "?i\<lparr>pt_summaryText := Some (as_shortSummary (rn_output s)), pt_keywords := Some (rn_output k)\<rparr>"
  have "\<exists>r. runner_run provider timeoutMs v reflectionsPrompt ?j = Inr r \<and> well_run r"
    by (rule run_answers [OF request(5)]) (use prompts_fit [of ?j] short assms(1) in \<open>simp_all add: reflectionsPrompt_def ai_stages_def\<close>)
  then obtain r where r: "runner_run provider timeoutMs v reflectionsPrompt ?j = Inr r" "well_run r" by blast
  have "aiMetadataSchema (rn_output m) = Some (rn_output m)"
    using run_keeps_prompt(2) [OF m(1)] prompts_settle(1) by blast
  moreover have "aiKeywordsSchema (rn_output k) = Some (rn_output k)"
    using run_keeps_prompt(2) [OF k(1)] prompts_settle(2) by blast
  moreover note settled
  moreover have "aiScriptureSchema (rn_output b) = Some (rn_output b)"
    using run_keeps_prompt(2) [OF b(1)] prompts_settle(4) by blast
  moreover have "aiReflectionsSchema (rn_output r) = Some (rn_output r)"
    using run_keeps_prompt(2) [OF r(1)] prompts_settle(5) by blast
  ultimately show ?thesis
    using result_exists [OF m(2) k(2) s(2) b(2) r(2) assms(2)] m(1) k(1) s(1) b(1) r(1)
    by (simp add: pipeline_run_def)
qed

end

lemma mock_payloads:
  "aiMetadataSchema \<lparr>am_title = ''Deterministic Transcript Title'',
     am_description = ''Deterministic metadata generated by mock provider.'', am_language = ''en'', am_audience = ''general''\<rparr> \<noteq> None"
  "aiSummarySchema \<lparr>as_shortSummary = ''Deterministic short summary.'',
     as_detailedSummary = ''Deterministic detailed summary generated for integration testing.''\<rparr> \<noteq> None"
  "aiKeywordsSchema [''deterministic'', ''transcript'', ''pipeline''] \<noteq> None"
  "aiScriptureSchema [\<lparr>ar_book = ''John'', ar_chapter = 3, ar_verseStart = 16, ar_verseEnd = Some 17\<rparr>] \<noteq> None"
  "aiReflectionsSchema [''Deterministic reflection point one.'', ''Deterministic reflection point two.''] \<noteq> None"
  by code_simp+

lemma modest_int: "0 \<le> n \<Longrightarrow> n \<le> max_safe_integer div 10 \<Longrightarrow> modest (Number (of_int n))"
  by (simp add: modest_def safe_nonnegative_def max_safe_integer_def)

lemma mock_answers:
  assumes "aq_schema q (buildMockPayload (aq_promptKey q)) = Some out" and "length (aq_prompt q) < 2 ^ 30"
    and "aq_schema q out \<noteq> None" and "aq_model q \<noteq> []"
  shows "\<exists>a. vp_generate (mock_provider MockSuccess nowIso (\<lambda>_. False)) q = Inr a \<and> aq_schema q (vr_output a) \<noteq> None
    \<and> vr_provider a \<in> set ai_providers \<and> vr_model a \<noteq> [] \<and> vr_generatedAt a = nowIso
    \<and> modest (ru_inputTokens (vr_usage a)) \<and> modest (ru_outputTokens (vr_usage a)) \<and> modest (ru_latencyMs (vr_usage a))
    \<and> ru_estimatedCostUsd (vr_usage a) = None"
proof -
  let ?n = "max 1 (int (length (aq_prompt q)) div 4)"
  have n: "0 \<le> ?n" "?n \<le> 2 ^ 30" using assms(2) by auto
  then have "deterministicUsage (aq_prompt q) = Inr \<lparr>ru_inputTokens = Number (of_int ?n), ru_outputTokens = Number (of_int 80),
      ru_totalTokens = Number (of_int (?n + 80)), ru_estimatedCostUsd = None, ru_latencyMs = Number (of_int 5)\<rparr>"
    by (simp add: deterministicUsage_def Let_def safe_nonneg_int_def max_safe_integer_def)
  moreover have "modest (Number (of_int ?n))" "modest (Number (of_int 80))" "modest (Number (of_int 5))"
    using n by (intro modest_int; simp add: max_safe_integer_def)+
  ultimately show ?thesis using assms by (simp add: mock_provider_def mock_generate_def ai_providers_def)
qed

lemma mock_payload_parses:
  assumes "settles f" and "f x \<noteq> None" and "\<And>z. pf_schema p (pf_output p z) = f z"
    and "buildMockPayload (pf_key p) = pf_output p x"
  shows "\<exists>y. pf_schema p (buildMockPayload (pf_key p)) = Some y \<and> pf_schema p (pf_output p y) = Some y"
  using assms by (auto simp: settles_def)

lemma mock_payloads_parse:
  shows "\<exists>y. pf_schema metadataPrompt (buildMockPayload (pf_key metadataPrompt)) = Some y \<and> pf_schema metadataPrompt (pf_output metadataPrompt y) = Some y"
    and "\<exists>y. pf_schema summaryPrompt (buildMockPayload (pf_key summaryPrompt)) = Some y \<and> pf_schema summaryPrompt (pf_output summaryPrompt y) = Some y"
    and "\<exists>y. pf_schema keywordsPrompt (buildMockPayload (pf_key keywordsPrompt)) = Some y \<and> pf_schema keywordsPrompt (pf_output keywordsPrompt y) = Some y"
    and "\<exists>y. pf_schema scripturePrompt (buildMockPayload (pf_key scripturePrompt)) = Some y \<and> pf_schema scripturePrompt (pf_output scripturePrompt y) = Some y"
    and "\<exists>y. pf_schema reflectionsPrompt (buildMockPayload (pf_key reflectionsPrompt)) = Some y \<and> pf_schema reflectionsPrompt (pf_output reflectionsPrompt y) = Some y"
proof -
  show "\<exists>y. pf_schema metadataPrompt (buildMockPayload (pf_key metadataPrompt)) = Some y \<and> pf_schema metadataPrompt (pf_output metadataPrompt y) = Some y"
    by (rule mock_payload_parses [OF settles_metadata mock_payloads(1)]) (simp_all add: metadataPrompt_def buildMockPayload_def)
  show "\<exists>y. pf_schema summaryPrompt (buildMockPayload (pf_key summaryPrompt)) = Some y \<and> pf_schema summaryPrompt (pf_output summaryPrompt y) = Some y"
    by (rule mock_payload_parses [OF settles_summary mock_payloads(2)]) (simp_all add: summaryPrompt_def buildMockPayload_def)
  show "\<exists>y. pf_schema keywordsPrompt (buildMockPayload (pf_key keywordsPrompt)) = Some y \<and> pf_schema keywordsPrompt (pf_output keywordsPrompt y) = Some y"
    by (rule mock_payload_parses [OF settles_keywords mock_payloads(3)]) (simp_all add: keywordsPrompt_def buildMockPayload_def)
  show "\<exists>y. pf_schema scripturePrompt (buildMockPayload (pf_key scripturePrompt)) = Some y \<and> pf_schema scripturePrompt (pf_output scripturePrompt y) = Some y"
    by (rule mock_payload_parses [OF settles_scripture mock_payloads(4)]) (simp_all add: scripturePrompt_def buildMockPayload_def)
  show "\<exists>y. pf_schema reflectionsPrompt (buildMockPayload (pf_key reflectionsPrompt)) = Some y \<and> pf_schema reflectionsPrompt (pf_output reflectionsPrompt y) = Some y"
    by (rule mock_payload_parses [OF settles_reflections mock_payloads(5)]) (simp_all add: reflectionsPrompt_def buildMockPayload_def)
qed

lemma mock_request_ok:
  assumes "\<exists>y. pf_schema p (buildMockPayload (pf_key p)) = Some y \<and> pf_schema p (pf_output p y) = Some y"
  shows "\<exists>out. aq_schema (prompt_request t v p i) (buildMockPayload (aq_promptKey (prompt_request t v p i))) = Some out
    \<and> aq_schema (prompt_request t v p i) out \<noteq> None \<and> aq_model (prompt_request t v p i) \<noteq> []"
  using assms by (auto simp: prompt_request_def)

interpretation mock: answering_provider "\<lambda>s. s = nowIso \<or> isIso s" "mock_provider MockSuccess nowIso (\<lambda>_. False)"
  for nowIso isIso
proof unfold_locales
  show "vp_providerName (mock_provider MockSuccess nowIso (\<lambda>_. False)) \<in> set ai_providers"
    by (simp add: mock_provider_def ai_providers_def)
  fix v q assume r: "pipeline_request v q" and l: "length (aq_prompt q) < 2 ^ 30"
  have "\<exists>out. aq_schema q (buildMockPayload (aq_promptKey q)) = Some out \<and> aq_schema q out \<noteq> None \<and> aq_model q \<noteq> []"
    using r by cases (simp_all only: mock_request_ok mock_payloads_parse)
  then show "\<exists>a. vp_generate (mock_provider MockSuccess nowIso (\<lambda>_. False)) q = Inr a \<and> aq_schema q (vr_output a) \<noteq> None
      \<and> vr_provider a \<in> set ai_providers \<and> vr_model a \<noteq> [] \<and> (vr_generatedAt a = nowIso \<or> isIso (vr_generatedAt a))
      \<and> modest (ru_inputTokens (vr_usage a)) \<and> modest (ru_outputTokens (vr_usage a)) \<and> modest (ru_latencyMs (vr_usage a))
      \<and> ru_estimatedCostUsd (vr_usage a) = None"
    using mock_answers [OF _ l] by blast
qed

text \<open>
  C29: A provider that answers always leads to a result.  When every request of the pipeline gets an
  answer that its schema accepts, with modest counts, a provider, a model and a date, the pipeline
  ends with a result, for every transcript of less than half a gigaunit.
\<close>

theorem pipeline_completes:
  assumes "answering_provider datetime provider" and "length transcript < 2 ^ 29" and "js_trim pipelineVersion \<noteq> []"
  shows "\<exists>r. pipeline_run datetime provider pipelineVersion timeoutMs transcript = Inr r"
  using answering_provider.completes [OF assms] .

theorem pipeline_completes_witness:
  "\<exists>r. pipeline_run (\<lambda>s. s = ''2026-01-01T00:00:00.000Z'' \<or> False)
     (mock_provider MockSuccess ''2026-01-01T00:00:00.000Z'' (\<lambda>_. False)) ''1.0'' 30000 (units ''God so loved the world'') = Inr r"
proof -
  have "length (units ''God so loved the world'') < 2 ^ 29" by (simp add: units_def)
  moreover have "js_trim ''1.0'' \<noteq> []" by code_simp
  ultimately show ?thesis by (rule pipeline_completes [OF mock.answering_provider_axioms])
qed

theorem pipeline_result_valid_witness:
  "\<exists>r. pipeline_run (\<lambda>s. s = ''2026-01-01T00:00:00.000Z'' \<or> False)
     (mock_provider MockSuccess ''2026-01-01T00:00:00.000Z'' (\<lambda>_. False)) ''1.0'' 30000 (units ''God so loved the world'') = Inr r
     \<and> map ae_stage (ai_promptExecutions r) = [''metadata'', ''keywords'', ''summary'', ''scripture'', ''reflections'']"
proof -
  have "length (units ''God so loved the world'') < 2 ^ 29" by (simp add: units_def)
  moreover have "js_trim ''1.0'' \<noteq> []" by code_simp
  ultimately obtain r where r: "pipeline_run (\<lambda>s. s = ''2026-01-01T00:00:00.000Z'' \<or> False)
     (mock_provider MockSuccess ''2026-01-01T00:00:00.000Z'' (\<lambda>_. False)) ''1.0'' 30000 (units ''God so loved the world'') = Inr r"
    using mock.completes [of "units ''God so loved the world''" "''1.0''" "''2026-01-01T00:00:00.000Z''" "\<lambda>_. False" 30000] by blast
  note stages = conjunct1 [OF conjunct2 [OF pipeline_result_valid [OF r]]]
  show ?thesis by (rule exI, rule conjI [OF r stages])
qed

end
