(* ===== verification/Themes.thy ===== *)
theory Themes
  imports Texts Fingerprint HtmlSchema
begin

text \<open>
  The themes of a publication (\<open>src/application/themes\<close>): the registry (\<open>registry.ts\<close>), the sources
  of the style sheets (\<open>css-sources.ts\<close>) and their packaging (\<open>css-packager.ts\<close>).  The style sheets
  are files; \<open>read\<close> gives the text of one, or \<open>None\<close> when it cannot be read.
\<close>

datatype theme_error =
    DuplicateThemeRegistrationError string
  | UnknownThemeError string
  | UnknownDensityError string
  | UnknownLayoutError string
  | MissingCssSourceError string
  | InvalidCssPackageConfigurationError

definition publicationThemeIds :: "string list" where
  "publicationThemeIds = [''classic'', ''modern'', ''ministry'', ''workbook'', ''magazine'', ''dark'', ''minimal'']"

definition publicationDensityIds :: "string list" where
  "publicationDensityIds = [''comfortable'', ''standard'', ''compact'', ''high-density'']"

definition publicationLayoutIds :: "string list" where
  "publicationLayoutIds = [''single-column'', ''two-column'', ''wide-content'']"

record theme_metadata =
  th_id :: string
  th_label :: string
  th_colorScheme :: string
  th_presetLayerId :: string

definition default_theme_registration :: "theme_metadata list" where
  "default_theme_registration =
     map (\<lambda>(i, label, scheme, preset). \<lparr>th_id = i, th_label = label, th_colorScheme = scheme, th_presetLayerId = preset\<rparr>)
       [(''classic'', ''Classic'', ''light'', ''preset-classic''),
        (''modern'', ''Modern'', ''light'', ''preset-modern''),
        (''ministry'', ''Ministry Classic'', ''light'', ''preset-ministry''),
        (''workbook'', ''Workbook'', ''light'', ''preset-workbook''),
        (''magazine'', ''Magazine'', ''light'', ''preset-magazine''),
        (''dark'', ''Dark'', ''dark'', ''preset-dark''),
        (''minimal'', ''Minimal'', ''light'', ''preset-minimal'')]"

text \<open>The map of the registry is an association list.\<close>

fun register_themes :: "theme_metadata list \<Rightarrow> theme_metadata list \<Rightarrow> theme_error + theme_metadata list" where
  "register_themes [] themesById = Inr themesById"
| "register_themes (t # ts) themesById =
     (if th_id t \<in> set (map th_id themesById) then Inl (DuplicateThemeRegistrationError (th_id t))
      else register_themes ts (themesById @ [t]))"

definition getTheme :: "theme_metadata list \<Rightarrow> string \<Rightarrow> theme_error + theme_metadata" where
  "getTheme themesById themeId =
     (case find (\<lambda>t. th_id t = themeId) themesById of
        None \<Rightarrow> Inl (UnknownThemeError themeId)
      | Some t \<Rightarrow> Inr t)"

definition create_registry :: "theme_metadata list \<Rightarrow> theme_error + theme_metadata list" where
  "create_registry themes =
     and_then (register_themes themes []) (\<lambda>themesById.
       case find (\<lambda>i. i \<notin> set (map th_id themesById)) publicationThemeIds of
         Some i \<Rightarrow> Inl (UnknownThemeError i)
       | None \<Rightarrow> Inr themesById)"

definition listThemes :: "theme_metadata list \<Rightarrow> theme_error + theme_metadata list" where
  "listThemes themesById = in_order (map (getTheme themesById) publicationThemeIds)"

definition getPresetLayerId :: "theme_metadata list \<Rightarrow> string \<Rightarrow> theme_error + string" where
  "getPresetLayerId themesById themeId = and_then (getTheme themesById themeId) (\<lambda>t. Inr (th_presetLayerId t))"

subsection \<open>The sources\<close>

definition layer_source_paths :: "(string \<times> string) list" where
  "layer_source_paths =
     [(''tokens-primitives'', ''tokens/primitives.css''), (''tokens-semantic'', ''tokens/semantic.css''),
      (''tokens-components'', ''tokens/components.css''), (''base-reset'', ''base/reset.css''),
      (''base-document'', ''base/document.css''), (''base-typography'', ''base/typography.css''),
      (''base-accessibility'', ''base/accessibility.css''), (''base-utilities'', ''base/utilities.css''),
      (''layout-single-column'', ''layouts/single-column.css''), (''layout-two-column'', ''layouts/two-column.css''),
      (''layout-wide-content'', ''layouts/wide-content.css''),
      (''component-publication'', ''components/publication.css''), (''component-headings'', ''components/headings.css''),
      (''component-paragraphs'', ''components/paragraphs.css''), (''component-blockquotes'', ''components/blockquotes.css''),
      (''component-lists'', ''components/lists.css''), (''component-tables'', ''components/tables.css''),
      (''component-figures'', ''components/figures.css''), (''component-navigation'', ''components/navigation.css''),
      (''component-dividers'', ''components/dividers.css''), (''component-reflection'', ''components/reflection.css''),
      (''component-prayer'', ''components/prayer.css''), (''component-journal-prompt'', ''components/journal-prompt.css''),
      (''component-call-to-action'', ''components/call-to-action.css''), (''component-scripture'', ''components/scripture.css''),
      (''component-sidebar'', ''components/sidebar.css''), (''component-key-takeaway'', ''components/key-takeaway.css''),
      (''component-highlight'', ''components/highlight.css''), (''component-warning'', ''components/warning.css''),
      (''density-comfortable'', ''density/comfortable.css''), (''density-standard'', ''density/standard.css''),
      (''density-compact'', ''density/compact.css''), (''density-high-density'', ''density/high-density.css''),
      (''preset-classic'', ''presets/classic.css''), (''preset-modern'', ''presets/modern.css''),
      (''preset-ministry'', ''presets/ministry.css''), (''preset-workbook'', ''presets/workbook.css''),
      (''preset-magazine'', ''presets/magazine.css''), (''preset-dark'', ''presets/dark.css''),
      (''preset-minimal'', ''presets/minimal.css'')]"

text \<open>\<open>replace(/\r\n/g, '\n').replace(/\r/g, '\n')\<close>\<close>

fun crlf_to_lf :: "string \<Rightarrow> string" where
  "crlf_to_lf [] = []"
| "crlf_to_lf [c] = [c]"
| "crlf_to_lf (c # d # s) =
     (if c = CHR 0x0D \<and> d = CHR 0x0A then CHR 0x0A # crlf_to_lf s else c # crlf_to_lf (d # s))"

definition lf_only :: "string \<Rightarrow> string" where
  "lf_only s = map (\<lambda>c. if c = CHR 0x0D then CHR 0x0A else c) (crlf_to_lf s)"

definition normalizeCssNewlines :: "string \<Rightarrow> string" where
  "normalizeCssNewlines source =
     (let normalized = lf_only source in
      if normalized \<noteq> [] \<and> last normalized = CHR 0x0A then normalized else normalized @ [CHR 0x0A])"

definition loadCssLayer :: "(string \<Rightarrow> string option) \<Rightarrow> string \<Rightarrow> theme_error + string" where
  "loadCssLayer read layerId =
     (case map_of layer_source_paths layerId of
        None \<Rightarrow> Inl (MissingCssSourceError layerId)
      | Some path \<Rightarrow> (case read path of
            None \<Rightarrow> Inl (MissingCssSourceError layerId)
          | Some source \<Rightarrow> Inr (normalizeCssNewlines source)))"

definition getPresetCss :: "(string \<Rightarrow> string option) \<Rightarrow> theme_metadata list \<Rightarrow> string \<Rightarrow> theme_error + string" where
  "getPresetCss read themesById themeId = and_then (getPresetLayerId themesById themeId) (loadCssLayer read)"

subsection \<open>The packager\<close>

definition shared_layer_order :: "string list" where
  "shared_layer_order =
     [''tokens-primitives'', ''tokens-semantic'', ''tokens-components'', ''base-reset'', ''base-document'',
      ''base-typography'', ''base-accessibility'', ''base-utilities'',
      ''component-publication'', ''component-headings'', ''component-paragraphs'', ''component-blockquotes'',
      ''component-lists'', ''component-tables'', ''component-figures'', ''component-navigation'',
      ''component-dividers'', ''component-reflection'', ''component-prayer'', ''component-journal-prompt'',
      ''component-call-to-action'', ''component-scripture'', ''component-sidebar'', ''component-key-takeaway'',
      ''component-highlight'', ''component-warning'']"

definition layout_layer_by_id :: "(string \<times> string) list" where
  "layout_layer_by_id =
     [(''single-column'', ''layout-single-column''), (''two-column'', ''layout-two-column''),
      (''wide-content'', ''layout-wide-content'')]"

definition density_layer_by_id :: "(string \<times> string) list" where
  "density_layer_by_id =
     [(''comfortable'', ''density-comfortable''), (''standard'', ''density-standard''),
      (''compact'', ''density-compact''), (''high-density'', ''density-high-density'')]"

definition ordered_layers :: "string \<Rightarrow> string \<Rightarrow> string \<Rightarrow> string list" where
  "ordered_layers layoutLayerId densityLayerId presetLayerId =
     take 8 shared_layer_order @ [layoutLayerId] @ drop 8 shared_layer_order @ [densityLayerId, presetLayerId]"

definition layer_section :: "(string \<Rightarrow> string option) \<Rightarrow> string \<Rightarrow> theme_error + string" where
  "layer_section read layerId =
     and_then (loadCssLayer read layerId) (\<lambda>layer.
       Inr (''/* layer:'' @ layerId @ '' */'' @ [CHR 0x0A] @ layer))"

definition css_package ::
  "(string \<Rightarrow> string option) \<Rightarrow> theme_metadata list \<Rightarrow> string \<Rightarrow> string \<Rightarrow> string \<Rightarrow> theme_error + string" where
  "css_package read themesById themeId densityId layoutId =
     (if themeId \<notin> set publicationThemeIds then Inl (UnknownThemeError themeId)
      else if densityId \<notin> set publicationDensityIds then Inl (UnknownDensityError densityId)
      else if layoutId \<notin> set publicationLayoutIds then Inl (UnknownLayoutError layoutId)
      else and_then (getPresetLayerId themesById themeId) (\<lambda>presetLayerId.
        case (map_of layout_layer_by_id layoutId, map_of density_layer_by_id densityId) of
          (Some layoutLayerId, Some densityLayerId) \<Rightarrow>
            if presetLayerId = [] then Inl InvalidCssPackageConfigurationError
            else and_then (in_order (map (layer_section read) (ordered_layers layoutLayerId densityLayerId presetLayerId)))
              (\<lambda>sections. Inr (lf_only (join [CHR 0x0A] sections)))
        | _ \<Rightarrow> Inl InvalidCssPackageConfigurationError))"

subsection \<open>What is packaged\<close>

lemma default_registry: "create_registry default_theme_registration = Inr default_theme_registration"
  by code_simp

lemma crlf_to_lf_keeps: "c \<noteq> CHR 0x0D \<Longrightarrow> s \<noteq> [] \<Longrightarrow> last s = c \<Longrightarrow> crlf_to_lf s \<noteq> [] \<and> last (crlf_to_lf s) = c"
  by (induction s rule: crlf_to_lf.induct) (auto split: if_splits)

lemma lf_only_no_cr: "CHR 0x0D \<notin> set (lf_only s)"
  by (auto simp: lf_only_def)

lemma lf_only_ends: "s \<noteq> [] \<Longrightarrow> last s = CHR 0x0A \<Longrightarrow> lf_only s \<noteq> [] \<and> last (lf_only s) = CHR 0x0A"
  using crlf_to_lf_keeps [of "CHR 0x0A" s] by (simp add: lf_only_def last_map)

lemma join_last: "xs \<noteq> [] \<Longrightarrow> last xs \<noteq> [] \<Longrightarrow> join sep xs \<noteq> [] \<and> last (join sep xs) = last (last xs)"
  by (induction sep xs rule: join.induct) auto

lemma in_order_all:
  "(\<And>x. x \<in> set xs \<Longrightarrow> \<exists>y. f x = Inr y) \<Longrightarrow> \<exists>ys. in_order (map f xs) = Inr ys \<and> list_all2 (\<lambda>x y. f x = Inr y) xs ys"
proof (induction xs)
  case (Cons x xs)
  from Cons.prems [of x] obtain y where "f x = Inr y" by auto
  moreover from Cons obtain ys where "in_order (map f xs) = Inr ys" "list_all2 (\<lambda>x y. f x = Inr y) xs ys" by auto
  ultimately show ?case by (intro exI [of _ "y # ys"]) simp
qed simp

lemma layer_loaded:
  assumes "\<forall>p \<in> set (map snd layer_source_paths). read p \<noteq> None" and "map_of layer_source_paths l \<noteq> None"
  shows "\<exists>text. layer_section read l = Inr (''/* layer:'' @ l @ '' */'' @ [CHR 0x0A] @ text) \<and> text \<noteq> [] \<and> last text = CHR 0x0A"
proof -
  obtain path where path: "map_of layer_source_paths l = Some path"
    using assms(2) by blast
  then have "path \<in> set (map snd layer_source_paths)" using map_of_SomeD [OF path] by (metis image_eqI list.set_map snd_conv)
  then obtain source where "read path = Some source" using assms(1) by blast
  then show ?thesis using path
    by (simp add: layer_section_def loadCssLayer_def normalizeCssNewlines_def Let_def)
qed

lemma list_all2_last: "list_all2 P xs ys \<Longrightarrow> xs \<noteq> [] \<Longrightarrow> P (last xs) (last ys)"
  by (induction rule: list_all2_induct) auto

lemma right_found: "case r of Inr p \<Rightarrow> Q p | Inl e \<Rightarrow> False \<Longrightarrow> \<exists>p. r = Inr p \<and> Q p"
  by (auto split: sum.splits)

lemma some_found: "case r of Some p \<Rightarrow> Q p | None \<Rightarrow> False \<Longrightarrow> \<exists>p. r = Some p \<and> Q p"
  by (auto split: option.splits)

lemma theme_layers:
  "list_all (\<lambda>t. case getPresetLayerId default_theme_registration t of
     Inr p \<Rightarrow> p \<noteq> [] \<and> map_of layer_source_paths p \<noteq> None | Inl _ \<Rightarrow> False) publicationThemeIds"
  "list_all (\<lambda>l. case map_of layout_layer_by_id l of Some p \<Rightarrow> map_of layer_source_paths p \<noteq> None | None \<Rightarrow> False) publicationLayoutIds"
  "list_all (\<lambda>d. case map_of density_layer_by_id d of Some p \<Rightarrow> map_of layer_source_paths p \<noteq> None | None \<Rightarrow> False) publicationDensityIds"
  "list_all (\<lambda>p. map_of layer_source_paths p \<noteq> None) shared_layer_order"
  by code_simp+

lemma layers_known:
  assumes "themeId \<in> set publicationThemeIds" and "densityId \<in> set publicationDensityIds" and "layoutId \<in> set publicationLayoutIds"
  shows "\<exists>preset layout density. getPresetLayerId default_theme_registration themeId = Inr preset \<and> preset \<noteq> []
    \<and> map_of layout_layer_by_id layoutId = Some layout \<and> map_of density_layer_by_id densityId = Some density
    \<and> (\<forall>l \<in> set (ordered_layers layout density preset). map_of layer_source_paths l \<noteq> None)"
proof -
  obtain preset where p: "getPresetLayerId default_theme_registration themeId = Inr preset" "preset \<noteq> []"
      "map_of layer_source_paths preset \<noteq> None"
    using right_found [OF bspec [OF theme_layers(1) [unfolded list_all_iff] assms(1)]] by (elim exE conjE) (rule that)
  obtain layout where l: "map_of layout_layer_by_id layoutId = Some layout" "map_of layer_source_paths layout \<noteq> None"
    using some_found [OF bspec [OF theme_layers(2) [unfolded list_all_iff] assms(3)]] by (elim exE conjE) (rule that)
  obtain density where d: "map_of density_layer_by_id densityId = Some density" "map_of layer_source_paths density \<noteq> None"
    using some_found [OF bspec [OF theme_layers(3) [unfolded list_all_iff] assms(2)]] by (elim exE conjE) (rule that)
  have "map_of layer_source_paths x \<noteq> None" if "x \<in> set (ordered_layers layout density preset)" for x
  proof -
    have "x \<in> set shared_layer_order \<or> x = layout \<or> x = density \<or> x = preset"
      using that unfolding ordered_layers_def by (auto dest: in_set_takeD in_set_dropD)
    then show ?thesis using theme_layers(4) p(3) l(2) d(2) unfolding list_all_iff by metis
  qed
  then show ?thesis using p(1, 2) l(1) d(1) by metis
qed

text \<open>
  Every style sheet package can be made.  When the files of the layers can be read, the package
  of any known theme, density and layout exists; it has no carriage return and ends in a line feed,
  whatever the line ends of the files.
\<close>

theorem css_package_complete:
  assumes "\<forall>p \<in> set (map snd layer_source_paths). read p \<noteq> None"
    and "themeId \<in> set publicationThemeIds" and "densityId \<in> set publicationDensityIds" and "layoutId \<in> set publicationLayoutIds"
  shows "\<exists>css. css_package read default_theme_registration themeId densityId layoutId = Inr css
    \<and> CHR 0x0D \<notin> set css \<and> css \<noteq> [] \<and> last css = CHR 0x0A"
proof -
  from layers_known [OF assms(2-4)] obtain preset layout density where
    k: "getPresetLayerId default_theme_registration themeId = Inr preset" "preset \<noteq> []"
      "map_of layout_layer_by_id layoutId = Some layout" "map_of density_layer_by_id densityId = Some density"
    and known: "\<forall>l \<in> set (ordered_layers layout density preset). map_of layer_source_paths l \<noteq> None" by blast
  let ?layers = "ordered_layers layout density preset"
  have "\<exists>y. layer_section read l = Inr y" if "l \<in> set ?layers" for l
    using layer_loaded [OF assms(1)] known that by blast
  from in_order_all [where f = "layer_section read", OF this] obtain ys where ys: "in_order (map (layer_section read) ?layers) = Inr ys"
    and all: "list_all2 (\<lambda>x y. layer_section read x = Inr y) ?layers ys" by blast
  have ne: "?layers \<noteq> []" "last ?layers = preset" by (simp_all add: ordered_layers_def)
  then have "ys \<noteq> []" using all by auto
  then have "layer_section read preset = Inr (last ys)"
    using list_all2_last [OF all ne(1)] ne(2) by simp
  moreover have "map_of layer_source_paths preset \<noteq> None" using known ne last_in_set [OF ne(1)] by metis
  ultimately have "last ys \<noteq> [] \<and> last (last ys) = CHR 0x0A"
    using layer_loaded [OF assms(1), of preset] by auto
  then have "join [CHR 0x0A] ys \<noteq> [] \<and> last (join [CHR 0x0A] ys) = CHR 0x0A" using join_last [OF \<open>ys \<noteq> []\<close>] by simp
  then show ?thesis using lf_only_ends lf_only_no_cr k ys assms(2-4) by (simp add: css_package_def)
qed

theorem css_package_complete_witness:
  "\<exists>css. css_package (\<lambda>_. Some ''body{}'') default_theme_registration ''ministry'' ''standard'' ''single-column'' = Inr css
    \<and> CHR 0x0D \<notin> set css \<and> css \<noteq> [] \<and> last css = CHR 0x0A"
  by (rule css_package_complete)
     (simp_all add: publicationThemeIds_def publicationDensityIds_def publicationLayoutIds_def)

end
