(* ===== verification/Packaging.thy ===== *)
theory Packaging
  imports Themes HtmlMarkup
begin

text \<open>
  The packaging of a document as one HTML file
  (\<open>src/application/publication-packaging/publication-package-composer.ts\<close> with \<open>defaults.ts\<close> and
  \<open>errors.ts\<close>).  The packager of style sheets throws errors of the themes only, so that
  \<open>CssPackagingError\<close> cannot come about.
\<close>

subsection \<open>Errors\<close>

datatype packaging_error =
    PackageThemeError theme_error
  | InvalidPublicationPackageCompositionInputError
  | HtmlSerializationError
  | MissingPublicationTitleError
  | InvalidPublicationLanguageError
  | PackageShellError markup_error
  | InvalidStandaloneHtmlDocumentInvariantError string

definition or_throw :: "('e \<Rightarrow> packaging_error) \<Rightarrow> 'e + 'a \<Rightarrow> packaging_error + 'a" where
  "or_throw f r = (case r of Inl e \<Rightarrow> Inl (f e) | Inr x \<Rightarrow> Inr x)"

subsection \<open>The presentation\<close>

record composition_input =
  ci_document :: html_document
  ci_themeId :: "string option"
  ci_densityId :: "string option"
  ci_layoutId :: "string option"

record presentation =
  ps_themeId :: string
  ps_densityId :: string
  ps_layoutId :: string
  ps_colorScheme :: string

definition or_default :: "'a option \<Rightarrow> 'a \<Rightarrow> 'a" where
  "or_default v d = (case v of Some x \<Rightarrow> x | None \<Rightarrow> d)"

definition resolvePublicationPresentation :: "composition_input \<Rightarrow> string \<Rightarrow> presentation" where
  "resolvePublicationPresentation composition colorScheme =
     \<lparr>ps_themeId = or_default (ci_themeId composition) (hd_theme (ci_document composition)),
      ps_densityId = or_default (ci_densityId composition) ''standard'',
      ps_layoutId = or_default (ci_layoutId composition) ''single-column'', ps_colorScheme = colorScheme\<rparr>"

subsection \<open>The checks\<close>

definition assertValidCompositionInput ::
  "url_library \<Rightarrow> (string \<Rightarrow> bool) \<Rightarrow> composition_input \<Rightarrow> packaging_error + unit" where
  "assertValidCompositionInput lib datetime input =
     (if htmlDocumentSchema lib datetime (ci_document input) = None
      then Inl InvalidPublicationPackageCompositionInputError
      else if hh_title (hd_head (ci_document input)) = [] then Inl MissingPublicationTitleError
      else if length (hh_lang (hd_head (ci_document input))) < 2 then Inl InvalidPublicationLanguageError
      else Inr ())"

definition assertSerializedDocumentParts :: "serialized_html_document \<Rightarrow> packaging_error + unit" where
  "assertSerializedDocumentParts parts =
     (if sd_doctype parts \<noteq> ''<!doctype html>'' then Inl (PackageShellError (InvalidSerializedHtmlDocumentError ''Serialized HTML doctype is invalid.''))
      else if sd_title parts = [] then Inl MissingPublicationTitleError
      else case find (\<lambda>(name, v). name = ''lang'') (sd_htmlAttributes parts) of
        None \<Rightarrow> Inl InvalidPublicationLanguageError
      | Some (name, v) \<Rightarrow> if length v < 2 then Inl InvalidPublicationLanguageError else Inr ())"

text \<open>
  The patterns start with \<open><\<close>, so that their matches cannot overlap and their number is that of
  the places at which they match.
\<close>

fun count_places :: "(string \<Rightarrow> bool) \<Rightarrow> string \<Rightarrow> nat" where
  "count_places p [] = 0"
| "count_places p (c # s) = (if p (c # s) then 1 else 0) + count_places p s"

definition starts_i :: "string \<Rightarrow> string \<Rightarrow> bool" where
  "starts_i word s \<longleftrightarrow> starts_with word (map lower s)"

definition standalone_invariants :: "((string \<Rightarrow> bool) \<times> string) list" where
  "standalone_invariants =
     [(starts_i ''<!doctype html>'', ''Standalone HTML must contain exactly one doctype.''),
      (starts_tag ''html'', ''Standalone HTML must contain exactly one html element.''),
      (starts_i ''<head>'', ''Standalone HTML must contain exactly one head element.''),
      (starts_tag ''body'', ''Standalone HTML must contain exactly one body element.''),
      (starts_i ''<title>'', ''Standalone HTML must contain exactly one title element.''),
      (starts_i ''<style>'', ''Standalone HTML must contain exactly one embedded style element.'')]"

text \<open>\<open>/<link\b[^>]*rel\s*=\s*["']?stylesheet/i\<close> and \<open>/<meta\b[^>]*http-equiv\s*=\s*["']?refresh/i\<close>\<close>

definition starts_setting :: "string \<Rightarrow> string \<Rightarrow> string \<Rightarrow> bool" where
  "starts_setting name setting s \<longleftrightarrow>
     starts_i name s
     \<and> (case dropWhile js_space (drop (length name) s) of
          c # rest \<Rightarrow> c = CHR ''=''
            \<and> (case dropWhile js_space rest of
                 q # rest' \<Rightarrow> starts_i setting (q # rest') \<or> (q \<in> {CHR 0x22, CHR 0x27} \<and> starts_i setting rest')
               | [] \<Rightarrow> False)
        | [] \<Rightarrow> False)"

fun before_close :: "(string \<Rightarrow> bool) \<Rightarrow> string \<Rightarrow> bool" where
  "before_close p [] \<longleftrightarrow> p []"
| "before_close p (c # s) \<longleftrightarrow> p (c # s) \<or> (c \<noteq> CHR ''>'' \<and> before_close p s)"

definition html_forbidden_patterns :: "(string \<Rightarrow> bool) list" where
  "html_forbidden_patterns =
     [starts_tag ''script'', starts_handler,
      (\<lambda>s. starts_tag ''link'' s \<and> before_close (starts_setting ''rel'' ''stylesheet'') (drop 5 s)),
      (\<lambda>s. starts_tag ''meta'' s \<and> before_close (starts_setting ''http-equiv'' ''refresh'') (drop 5 s))]"

text \<open>Some line ends in a blank or a tab.\<close>

fun trailing_blank :: "string \<Rightarrow> bool" where
  "trailing_blank [] \<longleftrightarrow> False"
| "trailing_blank [c] \<longleftrightarrow> c = CHR '' '' \<or> c = CHR 0x09"
| "trailing_blank (c # d # s) \<longleftrightarrow> ((c = CHR '' '' \<or> c = CHR 0x09) \<and> d = CHR 0x0A) \<or> trailing_blank (d # s)"

definition assertStandaloneHtmlInvariants :: "string \<Rightarrow> packaging_error + unit" where
  "assertStandaloneHtmlInvariants html =
     (case find (\<lambda>(p, m). count_places p html \<noteq> 1) standalone_invariants of
        Some (p, m) \<Rightarrow> Inl (InvalidStandaloneHtmlDocumentInvariantError m)
      | None \<Rightarrow>
          if list_ex (\<lambda>p. somewhere p html) html_forbidden_patterns
          then Inl (InvalidStandaloneHtmlDocumentInvariantError
            ''Standalone HTML contains prohibited active content or external resource tags.'')
          else if CHR 0x0D \<in> set html
          then Inl (InvalidStandaloneHtmlDocumentInvariantError ''Standalone HTML must use LF newlines only.'')
          else if trailing_blank html
          then Inl (InvalidStandaloneHtmlDocumentInvariantError ''Standalone HTML must not contain trailing whitespace.'')
          else Inr ())"

subsection \<open>Composition\<close>

record composed_package =
  cp_serializedHtmlDocument :: string
  cp_packagedStylesheetCss :: string
  cp_standaloneHtmlDocument :: string
  cp_presentation :: presentation

definition package_compose ::
  "(string \<Rightarrow> 'k::linorder) \<Rightarrow> url_library \<Rightarrow> (string \<Rightarrow> bool) \<Rightarrow> (string \<Rightarrow> string option) \<Rightarrow> theme_metadata list
     \<Rightarrow> composition_input \<Rightarrow> packaging_error + composed_package" where
  "package_compose collate lib datetime read registry input =
     and_then (assertValidCompositionInput lib datetime input) (\<lambda>_.
     and_then (or_throw PackageThemeError
       (getTheme registry (or_default (ci_themeId input) (hd_theme (ci_document input))))) (\<lambda>theme'.
     let presentation = resolvePublicationPresentation input (th_colorScheme theme') in
     and_then (or_throw (\<lambda>_. HtmlSerializationError) (serializeDocumentParts collate lib (ci_document input))) (\<lambda>parts.
     and_then (assertSerializedDocumentParts parts) (\<lambda>_.
     and_then (or_throw PackageShellError (shell_compose
       \<lparr>si_document = parts, si_bodyAttributes = [], si_embeddedStylesheetCss = None, si_colorScheme = None,
        si_policy = PreserveReserved\<rparr>)) (\<lambda>serializedHtmlDocument.
     and_then (or_throw PackageThemeError (css_package read registry (ps_themeId presentation)
       (ps_densityId presentation) (ps_layoutId presentation))) (\<lambda>css.
     and_then (or_throw PackageShellError (shell_compose
       \<lparr>si_document = parts,
        si_bodyAttributes = [(''data-publication-theme'', ps_themeId presentation),
          (''data-publication-density'', ps_densityId presentation), (''data-publication-layout'', ps_layoutId presentation)],
        si_embeddedStylesheetCss = Some css, si_colorScheme = Some (ps_colorScheme presentation),
        si_policy = ExcludeReserved\<rparr>)) (\<lambda>html.
     and_then (assertStandaloneHtmlInvariants html) (\<lambda>_.
       Inr \<lparr>cp_serializedHtmlDocument = serializedHtmlDocument, cp_packagedStylesheetCss = css,
         cp_standaloneHtmlDocument = html, cp_presentation = presentation\<rparr>))))))))"

end
