(* ===== verification/Renderers.thy ===== *)
theory Renderers
  imports Packaging PublishSource AcceptedHtml HtmlReading "HOL-Library.List_Lexorder" "HOL-Library.Char_ord"
begin

text \<open>
  The renderers (\<open>src/application/rendering\<close>): the check of a request with its schema
  (\<open>src/schemas/rendering/rendering-schema.ts\<close>), the three ways to write a document, and the
  artifact around the text (\<open>text-render-artifact-builder.ts\<close>).  \<open>sha256\<close> is the digest of the UTF-8
  bytes of a text and \<open>base64\<close> their encoding; \<open>isoDate\<close> is the date format of the request's schema.
\<close>

subsection \<open>Errors\<close>

text \<open>An error of the packaging or of the themes passes through the styled renderer unchanged.\<close>

datatype render_error =
    RenderValidationError string
  | UnsupportedRenderFormatError
  | UnsupportedRenderThemeError
  | RenderFailedError
  | InvalidRenderAssetError
  | RenderCancelledError
  | RenderPackagingError packaging_error

subsection \<open>Requests\<close>

record render_request_metadata =
  rq_title :: string
  rq_subtitle :: "string option"
  rq_author :: string
  rq_speaker :: "string option"
  rq_organization :: "string option"
  rq_publicationDate :: string
  rq_language :: string
  rq_theme :: string
  rq_keywords :: "string list"
  rq_description :: "string option"
  rq_coverImageReference :: "string option"
  rq_copyright :: "string option"
  rq_license :: "string option"

record presentation_options =
  pz_themeId :: "string option"
  pz_densityId :: "string option"
  pz_layoutId :: "string option"

record render_request =
  rr_htmlDocument :: html_document
  rr_metadata :: render_request_metadata
  rr_format :: string
  rr_theme :: string
  rr_presentation :: "presentation_options option"

definition render_formats :: "string list" where
  "render_formats = [''html'', ''pdf'', ''epub'', ''docx'', ''markdown'']"

definition renderRequestMetadataSchema :: "(string \<Rightarrow> bool) \<Rightarrow> render_request_metadata \<Rightarrow> bool" where
  "renderRequestMetadataSchema isoDate m \<longleftrightarrow>
     rq_title m \<noteq> [] \<and> rq_subtitle m \<noteq> Some [] \<and> rq_author m \<noteq> [] \<and> rq_speaker m \<noteq> Some []
     \<and> rq_organization m \<noteq> Some [] \<and> isoDate (rq_publicationDate m) \<and> 2 \<le> length (rq_language m)
     \<and> rq_theme m \<in> set html_themes \<and> length (rq_keywords m) \<le> 50 \<and> [] \<notin> set (rq_keywords m)
     \<and> rq_description m \<noteq> Some [] \<and> rq_coverImageReference m \<noteq> Some [] \<and> rq_copyright m \<noteq> Some []
     \<and> rq_license m \<noteq> Some []"

definition styledHtmlPresentationOptionsSchema :: "presentation_options \<Rightarrow> bool" where
  "styledHtmlPresentationOptionsSchema o' \<longleftrightarrow>
     pred_option (\<lambda>t. t \<in> set publicationThemeIds) (pz_themeId o')
     \<and> pred_option (\<lambda>t. t \<in> set publicationDensityIds) (pz_densityId o')
     \<and> pred_option (\<lambda>t. t \<in> set publicationLayoutIds) (pz_layoutId o')"

definition renderRequestSchema :: "url_library \<Rightarrow> (string \<Rightarrow> bool) \<Rightarrow> (string \<Rightarrow> bool) \<Rightarrow> render_request \<Rightarrow> bool" where
  "renderRequestSchema lib datetime isoDate r \<longleftrightarrow>
     htmlDocumentSchema lib datetime (rr_htmlDocument r) \<noteq> None
     \<and> renderRequestMetadataSchema isoDate (rr_metadata r)
     \<and> rr_format r \<in> set render_formats \<and> rr_theme r \<in> set html_themes
     \<and> pred_option styledHtmlPresentationOptionsSchema (rr_presentation r)"

subsection \<open>Capabilities\<close>

record renderer_capabilities =
  rk_renderer :: string
  rk_formats :: "string list"
  rk_themes :: "string list"
  rk_supportedTokenCategories :: "string list"

definition token_categories :: "string list" where
  "token_categories = [''spacing'', ''typography'', ''color-intent'', ''font-role'', ''border-intent'', ''shadow-intent'',
     ''radius'', ''callout-type'', ''page-intent'', ''section-intent'', ''heading-intent'', ''content-width'',
     ''image-alignment'']"

datatype renderer = HtmlPassthroughRenderer | HtmlMarkupRenderer | StyledHtmlRenderer

fun getCapabilities :: "renderer \<Rightarrow> renderer_capabilities" where
  "getCapabilities HtmlPassthroughRenderer = \<lparr>rk_renderer = ''html-passthrough'', rk_formats = [''html''],
     rk_themes = html_themes, rk_supportedTokenCategories = token_categories\<rparr>"
| "getCapabilities HtmlMarkupRenderer = \<lparr>rk_renderer = ''html-markup'', rk_formats = [''html''],
     rk_themes = html_themes, rk_supportedTokenCategories = token_categories\<rparr>"
| "getCapabilities StyledHtmlRenderer = \<lparr>rk_renderer = ''styled-html'', rk_formats = [''html''],
     rk_themes = publicationThemeIds, rk_supportedTokenCategories = token_categories\<rparr>"

text \<open>The categories of all the style tokens of a document.\<close>

fun node_categories :: "html_node \<Rightarrow> string list" where
  "node_categories (HText text) = []"
| "node_categories (HElement ty i tag attrs cls al role sts children) =
     map st_category sts @ concat (map node_categories children)"

definition collectTokenCategories :: "html_document \<Rightarrow> string list" where
  "collectTokenCategories d =
     remdups (map st_category (hm_styleTokens (hd_metadata d)) @ map st_category (hh_styleTokens (hd_head d))
       @ concat (map (\<lambda>s. map st_category (hx_styleTokens s) @ concat (map node_categories (hx_elements s))) (hd_sections d)))"

definition asset_safe :: "url_library \<Rightarrow> string \<Rightarrow> bool" where
  "asset_safe lib uri = (case assertSafeAssetUrl lib uri asset_schemes of Inl e \<Rightarrow> False | Inr u \<Rightarrow> True)"

definition renderer_validate ::
  "url_library \<Rightarrow> (string \<Rightarrow> bool) \<Rightarrow> (string \<Rightarrow> bool) \<Rightarrow> renderer \<Rightarrow> render_request \<Rightarrow> render_error + unit" where
  "renderer_validate lib datetime isoDate renderer r =
     (let capabilities = getCapabilities renderer in
      if rr_format r \<notin> set (rk_formats capabilities) then Inl UnsupportedRenderFormatError
      else if rr_theme r \<notin> set (rk_themes capabilities) then Inl UnsupportedRenderThemeError
      else if \<not> renderRequestSchema lib datetime isoDate r
      then Inl (RenderValidationError ''Render request validation failed.'')
      else if rq_theme (rr_metadata r) \<noteq> rr_theme r
      then Inl (RenderValidationError ''Metadata theme and render option theme must match.'')
      else case find (\<lambda>c. c \<notin> set (rk_supportedTokenCategories capabilities)) (collectTokenCategories (rr_htmlDocument r)) of
        Some category \<Rightarrow> Inl (RenderValidationError (''Unsupported style token category: '' @ category))
      | None \<Rightarrow>
          if list_ex (\<lambda>a. \<not> asset_safe lib (hg_uri a)) (hm_assetReferences (hd_metadata (rr_htmlDocument r)))
          then Inl InvalidRenderAssetError
          else (case rq_coverImageReference (rr_metadata r) of
              None \<Rightarrow> Inr ()
            | Some uri \<Rightarrow> if uri = [] \<or> asset_safe lib uri then Inr () else Inl InvalidRenderAssetError))"

subsection \<open>Artifacts\<close>

definition createTextRenderArtifact ::
  "(string \<Rightarrow> string) \<Rightarrow> (string \<Rightarrow> string) \<Rightarrow> string \<Rightarrow> string \<Rightarrow> string \<Rightarrow> string \<Rightarrow> string \<Rightarrow> string \<Rightarrow> string
     \<Rightarrow> render_artifact" where
  "createTextRenderArtifact sha256 base64 artifactId createdAt format payloadRep mimeType fileExtension serializedDocument =
     \<lparr>ra_artifactId = artifactId, ra_status = ''ready'', ra_format = format,
      ra_payloadRepresentation = Some payloadRep, ra_mimeType = mimeType, ra_fileExtension = fileExtension,
      ra_checksumSha256 = sha256 serializedDocument, ra_byteSize = byteLength serializedDocument,
      ra_createdAt = createdAt, ra_warnings = [], ra_errors = [],
      ra_content = Some \<lparr>ic_kind = ''inline'', ic_encoding = ''utf-8'', ic_bytesBase64 = base64 (utf8 serializedDocument),
        ic_serializedDocument = serializedDocument\<rparr>,
      ra_storage = StorageNone\<rparr>"

subsection \<open>Documents as JSON values\<close>

definition token_json :: "style_token \<Rightarrow> json" where
  "token_json t = JObj [(''category'', JStr (st_category t)), (''value'', JStr (st_value t))]"

definition attributes_json :: "html_attributes \<Rightarrow> json" where
  "attributes_json a = JObj
     (present ''id'' JStr (ha_id a) @ present ''href'' JStr (ha_href a) @ present ''src'' JStr (ha_src a)
      @ present ''alt'' JStr (ha_alt a) @ present ''title'' JStr (ha_title a) @ present ''role'' JStr (ha_role a)
      @ present ''lang'' JStr (ha_lang a) @ present ''target'' JStr (ha_target a) @ present ''rel'' JStr (ha_rel a)
      @ present ''ariaLabel'' JStr (ha_ariaLabel a) @ present ''ariaDescribedBy'' JStr (ha_ariaDescribedBy a)
      @ present ''ariaLabelledBy'' JStr (ha_ariaLabelledBy a) @ present ''scope'' JStr (ha_scope a)
      @ present ''colspan'' JStr (ha_colspan a) @ present ''rowspan'' JStr (ha_rowspan a)
      @ present ''loading'' JStr (ha_loading a) @ present ''decoding'' JStr (ha_decoding a)
      @ present ''referrerpolicy'' JStr (ha_referrerpolicy a)
      @ present ''dataPublicationBlock'' JStr (ha_dataPublicationBlock a)
      @ present ''dataReferenceId'' JStr (ha_dataReferenceId a) @ present ''dataCitationId'' JStr (ha_dataCitationId a)
      @ present ''dataFootnoteId'' JStr (ha_dataFootnoteId a))"

definition strings_json :: "string list \<Rightarrow> json" where
  "strings_json xs = JArr (map JStr xs)"

fun element_type_entries :: "element_type \<Rightarrow> (string \<times> json) list" where
  "element_type_entries GenericElement = [(''elementType'', JStr ''generic'')]"
| "element_type_entries (HeadingElement level) = [(''elementType'', JStr ''heading''), (''level'', JNum (int level))]"
| "element_type_entries (ListElement ordered) = [(''elementType'', JStr ''list''), (''ordered'', JBool ordered)]"
| "element_type_entries (TableElement headers rows) =
     [(''elementType'', JStr ''table''), (''headers'', strings_json headers), (''rows'', JArr (map strings_json rows))]"
| "element_type_entries (ImageElement assetId src alt caption) =
     [(''elementType'', JStr ''image''), (''assetId'', JStr assetId), (''src'', JStr src), (''alt'', JStr alt),
      (''caption'', or_null JStr caption)]"
| "element_type_entries (CalloutElement calloutType) =
     [(''elementType'', JStr ''callout''), (''calloutType'', JStr calloutType)]"

fun node_json :: "html_node \<Rightarrow> json" where
  "node_json (HText text) = JObj [(''nodeType'', JStr ''text''), (''text'', JStr text)]"
| "node_json (HElement ty i tag attrs cls al role sts children) = JObj
     ([(''nodeType'', JStr ''element''), (''id'', or_null JStr i), (''tag'', JStr tag),
       (''attributes'', attributes_json attrs), (''classList'', strings_json cls), (''ariaLabel'', or_null JStr al),
       (''role'', or_null JStr role), (''styleTokens'', JArr (map token_json sts)),
       (''children'', JArr (map node_json children))]
      @ element_type_entries ty)"

definition asset_json :: "html_asset \<Rightarrow> json" where
  "asset_json a = JObj [(''id'', JStr (hg_id a)), (''assetId'', JStr (hg_assetId a)), (''uri'', JStr (hg_uri a)),
     (''mimeType'', or_null JStr (hg_mimeType a)), (''altText'', JStr (hg_altText a))]"

definition metadata_json :: "html_metadata \<Rightarrow> json" where
  "metadata_json m = JObj
     [(''publicationId'', JStr (hm_publicationId m)), (''publicationType'', JStr (hm_publicationType m)),
      (''title'', JStr (hm_title m)), (''description'', or_null JStr (hm_description m)),
      (''language'', JStr (hm_language m)), (''generatedAt'', JStr (hm_generatedAt m)),
      (''sourceVersionId'', JStr (hm_sourceVersionId m)), (''sourceContentHash'', JStr (hm_sourceContentHash m)),
      (''audience'', JStr (hm_audience m)), (''theme'', JStr (hm_theme m)),
      (''styleTokens'', JArr (map token_json (hm_styleTokens m))),
      (''assetReferences'', JArr (map asset_json (hm_assetReferences m)))]"

definition document_json :: "html_document \<Rightarrow> json" where
  "document_json d = JObj
     [(''schemaVersion'', JStr (hd_schemaVersion d)), (''metadata'', metadata_json (hd_metadata d)),
      (''theme'', JStr (hd_theme d)),
      (''head'', JObj [(''title'', JStr (hh_title (hd_head d))), (''lang'', JStr (hh_lang (hd_head d))),
         (''metadata'', JArr (map (\<lambda>(n, c). JObj [(''name'', JStr n), (''content'', JStr c)]) (hh_metadata (hd_head d)))),
         (''styleTokens'', JArr (map token_json (hh_styleTokens (hd_head d))))]),
      (''body'', JObj [(''skipNavigationTargetId'', JStr (hd_skipNavigationTargetId d)),
         (''sections'', JArr (map (\<lambda>s. JObj [(''id'', JStr (hx_id s)), (''title'', JStr (hx_title s)),
            (''role'', JStr (hx_role s)), (''styleTokens'', JArr (map token_json (hx_styleTokens s))),
            (''elements'', JArr (map node_json (hx_elements s)))]) (hd_sections d))),
         (''landmarks'', JArr (map (\<lambda>l. JObj [(''role'', JStr (hl_role l)), (''sectionId'', JStr (hl_sectionId l)),
            (''label'', or_null JStr (hl_label l))]) (hd_landmarks d)))])]"

text \<open>\<open>Object.keys(value).sort()\<close> orders by code units.\<close>

definition canonicalJsonStringify :: "json \<Rightarrow> string" where
  "canonicalJsonStringify v = canonicalize (\<lambda>s::string. s) v"

subsection \<open>Rendering\<close>

record render_services =
  sv_sha256 :: "string \<Rightarrow> string"
  sv_base64 :: "string \<Rightarrow> string"
  sv_read :: "string \<Rightarrow> string option"
  sv_registry :: "theme_metadata list"
  sv_artifactId :: string
  sv_nowIso :: string

definition composition_of :: "render_request \<Rightarrow> composition_input" where
  "composition_of r =
     \<lparr>ci_document = rr_htmlDocument r, ci_themeId = Option.bind (rr_presentation r) pz_themeId,
      ci_densityId = Option.bind (rr_presentation r) pz_densityId,
      ci_layoutId = Option.bind (rr_presentation r) pz_layoutId\<rparr>"

definition render_artifact_of :: "render_services \<Rightarrow> render_request \<Rightarrow> string \<Rightarrow> string \<Rightarrow> string \<Rightarrow> string \<Rightarrow> render_artifact" where
  "render_artifact_of sv r payloadRep mimeType fileExtension text =
     createTextRenderArtifact (sv_sha256 sv) (sv_base64 sv) (sv_artifactId sv) (sv_nowIso sv) (rr_format r)
       payloadRep mimeType fileExtension text"

text \<open>The \<open>render\<close> of the three renderers: of a passed on document, of its markup, of the styled package.\<close>

definition passthrough_render ::
  "url_library \<Rightarrow> (string \<Rightarrow> bool) \<Rightarrow> (string \<Rightarrow> bool) \<Rightarrow> render_services \<Rightarrow> bool
     \<Rightarrow> render_request \<Rightarrow> render_error + render_artifact" where
  "passthrough_render lib datetime isoDate sv aborted r =
     (if aborted then Inl RenderCancelledError
      else and_then (renderer_validate lib datetime isoDate HtmlPassthroughRenderer r) (\<lambda>_.
        Inr (render_artifact_of sv r ''structured-json'' ''application/json'' ''.json''
          (canonicalJsonStringify (document_json (rr_htmlDocument r))))))"

definition markup_render ::
  "(string \<Rightarrow> 'k::linorder) \<Rightarrow> url_library \<Rightarrow> (string \<Rightarrow> bool) \<Rightarrow> (string \<Rightarrow> bool) \<Rightarrow> render_services \<Rightarrow> bool
     \<Rightarrow> render_request \<Rightarrow> render_error + render_artifact" where
  "markup_render collate lib datetime isoDate sv aborted r =
     (if aborted then Inl RenderCancelledError
      else and_then (renderer_validate lib datetime isoDate HtmlMarkupRenderer r) (\<lambda>_.
        case markup_serialize collate lib (rr_htmlDocument r) of
          Inl e \<Rightarrow> Inl RenderFailedError
        | Inr html \<Rightarrow> Inr (render_artifact_of sv r ''html-markup'' ''text/html; charset=utf-8'' ''.html'' html)))"

definition styled_render ::
  "(string \<Rightarrow> 'k::linorder) \<Rightarrow> url_library \<Rightarrow> (string \<Rightarrow> bool) \<Rightarrow> (string \<Rightarrow> bool) \<Rightarrow> render_services \<Rightarrow> bool
     \<Rightarrow> render_request \<Rightarrow> render_error + render_artifact" where
  "styled_render collate lib datetime isoDate sv aborted r =
     (if aborted then Inl RenderCancelledError
      else and_then (renderer_validate lib datetime isoDate StyledHtmlRenderer r) (\<lambda>_.
        case package_compose collate lib datetime (sv_read sv) (sv_registry sv) (composition_of r) of
          Inl e \<Rightarrow> Inl (RenderPackagingError e)
        | Inr p \<Rightarrow> Inr (render_artifact_of sv r ''styled-html'' ''text/html; charset=utf-8'' ''.html''
            (cp_standaloneHtmlDocument p))))"

fun render ::
  "(string \<Rightarrow> 'k::linorder) \<Rightarrow> url_library \<Rightarrow> (string \<Rightarrow> bool) \<Rightarrow> (string \<Rightarrow> bool) \<Rightarrow> render_services \<Rightarrow> renderer \<Rightarrow> bool
     \<Rightarrow> render_request \<Rightarrow> render_error + render_artifact" where
  "render collate lib datetime isoDate sv HtmlPassthroughRenderer aborted r = passthrough_render lib datetime isoDate sv aborted r"
| "render collate lib datetime isoDate sv HtmlMarkupRenderer aborted r = markup_render collate lib datetime isoDate sv aborted r"
| "render collate lib datetime isoDate sv StyledHtmlRenderer aborted r = styled_render collate lib datetime isoDate sv aborted r"

lemma render_def:
  "render collate lib datetime isoDate sv renderer aborted r =
     (if aborted then Inl RenderCancelledError
      else and_then (renderer_validate lib datetime isoDate renderer r) (\<lambda>_.
        case renderer of
          HtmlPassthroughRenderer \<Rightarrow>
            Inr (render_artifact_of sv r ''structured-json'' ''application/json'' ''.json''
              (canonicalJsonStringify (document_json (rr_htmlDocument r))))
        | HtmlMarkupRenderer \<Rightarrow>
            (case markup_serialize collate lib (rr_htmlDocument r) of
               Inl e \<Rightarrow> Inl RenderFailedError
             | Inr html \<Rightarrow> Inr (render_artifact_of sv r ''html-markup'' ''text/html; charset=utf-8'' ''.html'' html))
        | StyledHtmlRenderer \<Rightarrow>
            (case package_compose collate lib datetime (sv_read sv) (sv_registry sv) (composition_of r) of
               Inl e \<Rightarrow> Inl (RenderPackagingError e)
             | Inr p \<Rightarrow> Inr (render_artifact_of sv r ''styled-html'' ''text/html; charset=utf-8'' ''.html''
                 (cp_standaloneHtmlDocument p)))))"
  by (cases renderer) (simp_all add: passthrough_render_def markup_render_def styled_render_def)

subsection \<open>Rendered artifacts\<close>

lemma and_then_Inl: "and_then r f = Inl e \<longleftrightarrow> r = Inl e \<or> (\<exists>x. r = Inr x \<and> f x = Inl e)"
  by (cases r) simp_all

lemma or_throw_Inr [simp]: "or_throw f r = Inr x \<longleftrightarrow> r = Inr x"
  by (cases r) (simp_all add: or_throw_def)

declare render.simps [simp del]

lemma shell_starts: "shell_compose i = Inr html \<Longrightarrow> starts_with canonicalHtmlDoctype html"
  by (auto simp: shell_compose_def Let_def starts_with_append split: if_splits sum.splits option.splits)

lemma styled_render_shape:
  assumes "render collate lib datetime isoDate sv StyledHtmlRenderer aborted r = Inr a"
  obtains p where "package_compose collate lib datetime (sv_read sv) (sv_registry sv) (composition_of r) = Inr p"
    "a = render_artifact_of sv r ''styled-html'' ''text/html; charset=utf-8'' ''.html'' (cp_standaloneHtmlDocument p)"
    "rr_format r = ''html''" "\<not> aborted" "renderer_validate lib datetime isoDate StyledHtmlRenderer r = Inr ()"
  using assms that unfolding render_def
  by (auto split: if_splits sum.splits simp: renderer_validate_def Let_def)

lemma packaged_shape:
  assumes "package_compose collate lib datetime read registry i = Inr p"
  shows "starts_with canonicalHtmlDoctype (cp_standaloneHtmlDocument p)"
    and "assertStandaloneHtmlInvariants (cp_standaloneHtmlDocument p) = Inr ()"
  using assms unfolding package_compose_def
  by (auto simp: Let_def intro: shell_starts)

lemma markup_text_nonempty: "markup_serialize collate lib d = Inr html \<Longrightarrow> html \<noteq> []"
proof -
  have nav: "s \<noteq> [] \<Longrightarrow> \<not> starts_with ''<nav'' s \<Longrightarrow> remove_empty_navs s \<noteq> []" for s
  proof -
    assume s: "s \<noteq> []" "\<not> starts_with ''<nav'' s"
    then obtain c rest where "s = c # rest" by (cases s) auto
    then have "remove_empty_navs s = c # remove_empty_navs rest"
      using s(2) by (simp add: remove_empty_navs.simps [of "c # rest"] Let_def)
    then show ?thesis by simp
  qed
  have "s \<noteq> [] \<and> \<not> starts_with ''<nav'' s" if "starts_with canonicalHtmlDoctype s" for s
    using that by (auto simp: starts_with_append canonicalHtmlDoctype_def)
  then show "markup_serialize collate lib d = Inr html \<Longrightarrow> html \<noteq> []"
    using nav by (auto simp: markup_serialize_def split: sum.splits if_splits dest!: shell_starts)
qed

lemma canonicalize_object_nonempty: "canonicalize f (JObj entries) \<noteq> []"
  by (simp only: canonicalize.simps) simp

lemma render_text:
  assumes "render collate lib datetime isoDate sv renderer aborted r = Inr a"
  obtains payloadRep mimeType fileExtension html where
    "a = render_artifact_of sv r payloadRep mimeType fileExtension html" "html \<noteq> []" "rr_format r = ''html''"
    "payloadRep \<in> {''structured-json'', ''html-markup'', ''styled-html''}" "fileExtension \<in> {''.json'', ''.html''}" "mimeType \<noteq> []"
    "renderer = StyledHtmlRenderer \<Longrightarrow> payloadRep = ''styled-html'' \<and> mimeType = ''text/html; charset=utf-8'' \<and> fileExtension = ''.html''"
proof -
  have format: "rr_format r = ''html''"
    using assms by (cases renderer) (auto simp: render_def renderer_validate_def Let_def split: if_splits)
  show thesis
  proof (cases renderer)
    case HtmlPassthroughRenderer
    then have "a = render_artifact_of sv r ''structured-json'' ''application/json'' ''.json''
        (canonicalJsonStringify (document_json (rr_htmlDocument r)))"
      using assms by (auto simp: render_def split: if_splits)
    moreover have "canonicalJsonStringify (document_json (rr_htmlDocument r)) \<noteq> []"
      unfolding canonicalJsonStringify_def document_json_def by (rule canonicalize_object_nonempty)
    ultimately show thesis using that format HtmlPassthroughRenderer by blast
  next
    case HtmlMarkupRenderer
    then obtain html where "markup_serialize collate lib (rr_htmlDocument r) = Inr html"
      and "a = render_artifact_of sv r ''html-markup'' ''text/html; charset=utf-8'' ''.html'' html"
      using assms by (auto simp: render_def split: if_splits sum.splits)
    then show thesis using that format HtmlMarkupRenderer markup_text_nonempty by blast
  next
    case StyledHtmlRenderer
    then obtain p where p: "package_compose collate lib datetime (sv_read sv) (sv_registry sv) (composition_of r) = Inr p"
      and a: "a = render_artifact_of sv r ''styled-html'' ''text/html; charset=utf-8'' ''.html'' (cp_standaloneHtmlDocument p)"
      using assms styled_render_shape by metis
    have "cp_standaloneHtmlDocument p \<noteq> []"
      using packaged_shape(1) [OF p] by (auto simp: starts_with_def canonicalHtmlDoctype_def)
    then show thesis using that format StyledHtmlRenderer a by blast
  qed
qed

lemma rendered_schema:
  assumes "render collate lib datetime isoDate sv renderer aborted r = Inr a"
    and "\<forall>t. is_checksum (sv_sha256 sv t)" and "\<forall>t. t \<noteq> [] \<longrightarrow> sv_base64 sv t \<noteq> []"
    and "sv_artifactId sv \<noteq> []" and "rs_datetime sch (sv_nowIso sv)"
  shows "renderArtifactSchema sch a"
proof -
  obtain payloadRep mimeType fileExtension html where
    a: "a = render_artifact_of sv r payloadRep mimeType fileExtension html" and html: "html \<noteq> []" and f: "rr_format r = ''html''"
    and p: "payloadRep \<in> {''structured-json'', ''html-markup'', ''styled-html''}" "fileExtension \<in> {''.json'', ''.html''}" "mimeType \<noteq> []"
    and styled: "renderer = StyledHtmlRenderer \<Longrightarrow> payloadRep = ''styled-html'' \<and> mimeType = ''text/html; charset=utf-8'' \<and> fileExtension = ''.html''"
    using render_text [OF assms(1)] by blast
  have "utf8_char c \<noteq> []" for c by (simp add: utf8_char_def Let_def)
  then have "utf8 html \<noteq> []" using html by (cases html) (auto simp: utf8_def)
  then show ?thesis using assms(2-5) html f p
    by (auto simp: a renderArtifactSchema_def render_artifact_of_def createTextRenderArtifact_def byteLength_def
        inlineArtifactContentSchema_def)
qed

text \<open>
  C31: What a renderer gives is an artifact of its type.  The artifact passes the schema of render
  artifacts, with the digest and the length of the text it holds; and the artifact of the styled
  renderer is a source that the client of the Publish Engine accepts, with that text as its payload.
\<close>

theorem rendered_artifact_valid:
  assumes "render collate lib datetime isoDate sv renderer aborted r = Inr a"
    and "\<forall>t. is_checksum (sv_sha256 sv t)" and "\<forall>t. t \<noteq> [] \<longrightarrow> sv_base64 sv t \<noteq> []"
    and "sv_artifactId sv \<noteq> []" and "rs_datetime sch (sv_nowIso sv)"
  shows "renderArtifactSchema sch a
    \<and> (\<exists>html. map_option ic_serializedDocument (ra_content a) = Some html
      \<and> ra_checksumSha256 a = sv_sha256 sv html \<and> ra_byteSize a = byteLength html
      \<and> (renderer = StyledHtmlRenderer \<longrightarrow>
          createPublishEngineStyledHtmlSourceFromRenderArtifact (sv_sha256 sv) a =
            Inr \<lparr>ss_payloadRepresentation = ''styled-html'', ss_mimeType = ''text/html; charset=utf-8'',
              ss_fileExtension = ''.html'', ss_payload = html, ss_byteSize = byteLength html,
              ss_checksumSha256 = sv_sha256 sv html\<rparr>))"
proof -
  obtain payloadRep mimeType fileExtension html where
    a: "a = render_artifact_of sv r payloadRep mimeType fileExtension html" and html: "html \<noteq> []" and f: "rr_format r = ''html''"
    and p: "payloadRep \<in> {''structured-json'', ''html-markup'', ''styled-html''}" "fileExtension \<in> {''.json'', ''.html''}" "mimeType \<noteq> []"
    and styled: "renderer = StyledHtmlRenderer \<Longrightarrow> payloadRep = ''styled-html'' \<and> mimeType = ''text/html; charset=utf-8'' \<and> fileExtension = ''.html''"
    using render_text [OF assms(1)] by blast
  have "renderArtifactSchema sch a" by (rule rendered_schema [OF assms])
  moreover have "createPublishEngineStyledHtmlSourceFromRenderArtifact (sv_sha256 sv) a =
      Inr \<lparr>ss_payloadRepresentation = ''styled-html'', ss_mimeType = ''text/html; charset=utf-8'', ss_fileExtension = ''.html'',
        ss_payload = html, ss_byteSize = byteLength html, ss_checksumSha256 = sv_sha256 sv html\<rparr>"
    if "renderer = StyledHtmlRenderer"
    using styled [OF that] assms(2) html
    by (simp add: a render_artifact_of_def createTextRenderArtifact_def createPublishEngineStyledHtmlSourceFromRenderArtifact_def
        validatePublishEngineStyledHtmlSource_def publishEngineStyledHtmlSourceSchema_def validateChecksumFormat_def byteLength_def)
  ultimately show ?thesis by (simp add: a render_artifact_of_def createTextRenderArtifact_def)
qed

text \<open>Code equations of the checks of a body that do not fold the case of the whole rest at each place.\<close>

lemma lower_less: "lower c = CHR ''<'' \<longleftrightarrow> c = CHR ''<''"
proof -
  have "lower c \<noteq> CHR ''<''" if "65 \<le> (of_char c :: nat)" "(of_char c :: nat) \<le> 90"
  proof
    assume "lower c = CHR ''<''"
    then have "(of_char (char_of (of_char c + 32 :: nat)) :: nat) = of_char (CHR ''<'')" using that by (simp add: lower_def Let_def)
    moreover have "of_char c + 32 < (256 :: nat)" using that by simp
    ultimately show False using that by simp
  qed
  moreover have "lower c = c" if "\<not> (65 \<le> (of_char c :: nat) \<and> (of_char c :: nat) \<le> 90)"
    using that by (auto simp: lower_def Let_def)
  ultimately show ?thesis by (cases "65 \<le> (of_char c :: nat) \<and> (of_char c :: nat) \<le> 90") auto
qed

lemma starts_i_code [code]:
  "starts_i word s = (case word of [] \<Rightarrow> True
     | w # ws \<Rightarrow> (case s of [] \<Rightarrow> False
         | c # s' \<Rightarrow> if (if w = CHR ''<'' then c = CHR ''<'' else lower c = w) then starts_i ws s' else False))"
  by (cases word; cases s) (auto simp: starts_i_def starts_with_def lower_less)

lemma starts_tag_code [code]:
  "starts_tag tag s = (case s of [] \<Rightarrow> False
     | c # s' \<Rightarrow> if c = CHR ''<'' then starts_i tag s' \<and>
         (case drop (length tag) s' of [] \<Rightarrow> True | d # _ \<Rightarrow> \<not> word_char d) else False)"
  by (cases s) (auto simp: starts_tag_def starts_i_def starts_with_def lower_less)

lemma starts_handler_code [code]:
  "starts_handler s = (case s of [] \<Rightarrow> False
     | c # rest \<Rightarrow> if js_space c then (if starts_i ''on'' rest then takeWhile ascii_letter (drop 2 rest) \<noteq> []
          \<and> starts_with ''='' (dropWhile js_space (dropWhile ascii_letter (drop 2 rest))) else False) else False)"
  by (auto simp: starts_handler_def starts_i_def split: list.split)

lemma js_space_code [code]:
  "js_space (Char b0 b1 b2 b3 b4 b5 b6 b7) =
     (if b6 then False else if b4 then False
      else if b3 then \<not> b5 \<and> \<not> b7 \<and> (if b2 then \<not> b1 else b0 \<or> b1)
      else b5 \<and> \<not> b0 \<and> \<not> b1 \<and> \<not> b2)"
  by (cases b0; cases b1; cases b2; cases b3; cases b4; cases b5; cases b6; cases b7) (simp_all add: js_space_def)

definition demo_services :: render_services where
  "demo_services = \<lparr>sv_sha256 = (\<lambda>_. replicate 64 (CHR ''0'')), sv_base64 = (\<lambda>s. s), sv_read = (\<lambda>_. None),
     sv_registry = [], sv_artifactId = ''artifact_1'', sv_nowIso = ''2026-01-01T00:00:00.000Z''\<rparr>"

definition demo_request :: render_request where
  "demo_request = \<lparr>rr_htmlDocument = demo_document,
     rr_metadata = \<lparr>rq_title = ''T'', rq_subtitle = None, rq_author = ''A'', rq_speaker = None, rq_organization = None,
       rq_publicationDate = ''2026-01-01T00:00:00.000Z'', rq_language = ''en'', rq_theme = ''classic'', rq_keywords = [],
       rq_description = None, rq_coverImageReference = None, rq_copyright = None, rq_license = None\<rparr>,
     rr_format = ''html'', rr_theme = ''classic'', rr_presentation = None\<rparr>"

definition render_demo_schemas :: result_schemas where
  "render_demo_schemas = \<lparr>rs_datetime = (\<lambda>s. True), rs_ai = (\<lambda>v. True), rs_publication = (\<lambda>v. True), rs_htmlDocument = (\<lambda>v. True)\<rparr>"

lemma demo_request_valid:
  "renderer_validate demo_library (\<lambda>s. True) (\<lambda>s. True) HtmlMarkupRenderer demo_request = Inr ()"
  by code_simp

lemma demo_request_serialized:
  "case markup_serialize demo_order demo_library (rr_htmlDocument demo_request) of Inl e \<Rightarrow> False | Inr html \<Rightarrow> True"
proof -
  have "case serializeDocumentParts demo_order demo_library (rr_htmlDocument demo_request) of
      Inl e \<Rightarrow> False
    | Inr parts \<Rightarrow> (case shell_compose \<lparr>si_document = parts, si_bodyAttributes = [], si_embeddedStylesheetCss = None,
          si_colorScheme = None, si_policy = PreserveReserved\<rparr> of Inl e \<Rightarrow> False | Inr html \<Rightarrow> True)"
    by code_simp
  then show ?thesis by (auto simp: markup_serialize_def split: sum.splits)
qed

lemma demo_request_rendered:
  "\<exists>a. render demo_order demo_library (\<lambda>s. True) (\<lambda>s. True) demo_services HtmlMarkupRenderer False demo_request = Inr a"
  using demo_request_serialized by (auto simp: render_def demo_request_valid split: sum.splits)

theorem rendered_artifact_valid_witness:
  "\<exists>a. render demo_order demo_library (\<lambda>s. True) (\<lambda>s. True) demo_services HtmlMarkupRenderer False demo_request = Inr a
     \<and> renderArtifactSchema render_demo_schemas a"
proof -
  obtain a where a: "render demo_order demo_library (\<lambda>s. True) (\<lambda>s. True) demo_services HtmlMarkupRenderer False demo_request = Inr a"
    using demo_request_rendered by blast
  have "renderArtifactSchema render_demo_schemas a"
    using rendered_artifact_valid [OF a, of render_demo_schemas] by (simp add: demo_services_def render_demo_schemas_def is_checksum_def hex_lower_def list_all_iff)
  with a show ?thesis by blast
qed

end
