(* ===== verification/SettledSchemas.thy ===== *)
theory SettledSchemas
  imports PipelineRuns
begin

text \<open>
  The schemas of publications and of HTML documents accept what they give as it is: what the
  builder and the composer return can be parsed again, as the schema of a job's result does
  (\<open>src/domain/content-jobs/types.ts\<close>), and stays the same.
\<close>

lemma settlesI: "(\<And>x y. f x = Some y \<Longrightarrow> f y = Some y) \<Longrightarrow> settles f"
  by (simp add: settles_def)

lemma zstring_again: "zstring lo hi x = Some y \<Longrightarrow> zstring lo hi y = Some y"
  by (rule settlesD [OF settles_zstring])

lemma zenum_again: "zenum vs x = Some y \<Longrightarrow> zenum vs y = Some y"
  by (rule settlesD [OF settles_zenum])

lemma zwhen_again: "zwhen p x = Some y \<Longrightarrow> zwhen p y = Some y"
  by (rule settlesD [OF settles_zwhen])

lemma zopt_again: "settles f \<Longrightarrow> zopt f x = Some y \<Longrightarrow> zopt f y = Some y"
  by (rule settlesD [OF settles_zopt])

lemma zlist_again: "settles f \<Longrightarrow> zlist lo hi f x = Some y \<Longrightarrow> zlist lo hi f y = Some y"
  by (rule settlesD [OF settles_zlist])

lemmas again = zstring_again zenum_again zwhen_again zopt_again [OF settles_zstring] zopt_again [OF settles_zenum]
  zopt_again [OF settles_zwhen] zlist_again [OF settles_zstring] zlist_again [OF settles_zenum]
  zlist_again [OF settles_zlist [OF settles_zstring]]

subsection \<open>Publications\<close>

lemma settles_ids [settling]: "settles idListSchema"
  unfolding idListSchema_def by (intro settling)

lemma settles_style [settling]: "settles publicationStyleSchema"
  unfolding settles_def publicationStyleSchema_def by (auto simp: bind_eq_Some_conv again)

lemma settles_pub_metadata [settling]: "settles (publicationMetadataSchema datetime)"
  unfolding settles_def publicationMetadataSchema_def
  by (auto simp: bind_eq_Some_conv again settlesD [OF settles_style])

lemma settles_pub_asset [settling]: "settles publicationAssetSchema"
  unfolding settles_def publicationAssetSchema_def by (auto simp: bind_eq_Some_conv again)

lemma settles_zurl [settling]: "settles (zurl isUrl hi)"
  by (auto simp: settles_def zurl_def Let_def split: if_splits)

lemma settles_pub_reference [settling]: "settles (publicationReferenceSchema isUrl)"
proof (rule settlesI)
  fix x y assume "publicationReferenceSchema isUrl x = Some y"
  then have "zstring 1 80 (pq_id y) = Some (pq_id y)" "zstring 1 240 (pq_label y) = Some (pq_label y)"
    "zstring 1 400 (pq_detail y) = Some (pq_detail y)" "zopt (zurl isUrl 1024) (pq_url y) = Some (pq_url y)"
    "zopt (zstring 1 80) (pq_targetId y) = Some (pq_targetId y)"
    "(pq_referenceType y = InternalReference) = (pq_targetId y \<noteq> None)"
    unfolding publicationReferenceSchema_def
    by (auto simp: bind_eq_Some_conv again zopt_again [OF settles_zurl] split: if_splits)
  then show "publicationReferenceSchema isUrl y = Some y" by (simp add: publicationReferenceSchema_def)
qed

lemma settles_citation [settling]: "settles publicationCitationSchema"
  unfolding settles_def publicationCitationSchema_def by (auto simp: bind_eq_Some_conv again)

lemma settles_footnote [settling]: "settles publicationFootnoteSchema"
  unfolding settles_def publicationFootnoteSchema_def by (auto simp: bind_eq_Some_conv again)

lemma settles_block [settling]: "settles publicationBlockSchema"
proof (rule settlesI)
  fix x y assume "publicationBlockSchema x = Some y"
  then show "publicationBlockSchema y = Some y"
    by (cases x) (auto simp: bind_eq_Some_conv again zopt_again [OF settles_ids] split: if_splits)
qed

lemma settles_section [settling]: "settles publicationSectionSchema"
  unfolding settles_def publicationSectionSchema_def
  by (auto simp: bind_eq_Some_conv again zlist_again [OF settles_block])

lemma settles_cover [settling]: "settles (publicationCoverSchema datetime)"
  unfolding settles_def publicationCoverSchema_def by (auto simp: bind_eq_Some_conv again)

lemma settles_toc_entry [settling]: "settles publicationTableOfContentsEntrySchema"
  unfolding settles_def publicationTableOfContentsEntrySchema_def by (auto simp: bind_eq_Some_conv again)

lemma settles_publication_shape: "settles (publicationShape datetime isUrl)"
  unfolding settles_def publicationShape_def
  by (auto simp: bind_eq_Some_conv again settlesD [OF settles_pub_metadata] settlesD [OF settles_cover]
      zlist_again [OF settles_toc_entry] zlist_again [OF settles_section] zlist_again [OF settles_pub_reference]
      zlist_again [OF settles_citation] zlist_again [OF settles_footnote] zlist_again [OF settles_pub_asset])

lemma settles_publication: "settles (publicationSchema datetime isUrl)"
  using settlesD [OF settles_publication_shape]
  by (auto simp: settles_def publicationSchema_def split: option.splits if_splits)

subsection \<open>HTML documents\<close>

lemma settles_zdigits [settling]: "settles zdigits"
  by (auto simp: settles_def zdigits_def Let_def split: if_splits)

lemma settles_class [settling]: "settles htmlClassTokenSchema"
  unfolding htmlClassTokenSchema_def by (intro settling)

lemma settles_attributes [settling]: "settles htmlAttributesSchema"
  unfolding settles_def htmlAttributesSchema_def
  by (auto simp: bind_eq_Some_conv again zopt_again [OF settles_zdigits])

lemma settles_token [settling]: "settles htmlStyleTokenSchema"
  by (auto simp: settles_def htmlStyleTokenSchema_def split: option.splits if_splits)

lemma settles_html_asset [settling]: "settles htmlAssetReferenceSchema"
  unfolding settles_def htmlAssetReferenceSchema_def by (auto simp: bind_eq_Some_conv again)

lemma settles_html_metadata [settling]: "settles (htmlMetadataSchema datetime)"
  unfolding settles_def htmlMetadataSchema_def
  by (auto simp: bind_eq_Some_conv again zlist_again [OF settles_token] zlist_again [OF settles_html_asset] split: if_splits)

lemma settles_meta [settling]:
  "settles (\<lambda>(name, content). do { name' \<leftarrow> zstring lo hi name; content' \<leftarrow> zstring lo' hi' content; Some (name', content') })"
  by (auto simp: settles_def bind_eq_Some_conv again)

lemma settles_head [settling]: "settles htmlHeadSchema"
  unfolding settles_def htmlHeadSchema_def
  by (auto simp: bind_eq_Some_conv again zlist_again [OF settles_token] zlist_again [OF settles_meta])

lemma element_type_again: "elementTypeSchema ty tag = Some ty' \<Longrightarrow> elementTypeSchema ty' tag = Some ty'"
  by (cases ty) (auto simp: elementTypeSchema_def bind_eq_Some_conv again split: if_splits)

lemma nodes_length: "htmlNodesSchema nodes = Some nodes' \<Longrightarrow> length nodes' = length nodes"
  by (induction nodes arbitrary: nodes') (auto simp: bind_eq_Some_conv)

lemma node_again:
  "htmlNodeSchema node = Some node' \<Longrightarrow> htmlNodeSchema node' = Some node'"
  "htmlNodesSchema nodes = Some nodes' \<Longrightarrow> htmlNodesSchema nodes' = Some nodes'"
proof (induction node and nodes arbitrary: node' and nodes' rule: htmlNodeSchema_htmlNodesSchema.induct)
  case (2 ty i tag attrs cls al role sts children)
  then show ?case
    by (auto simp: bind_eq_Some_conv again element_type_again settlesD [OF settles_attributes]
        zlist_again [OF settles_class] zlist_again [OF settles_token] nodes_length split: if_splits)
next
  case (4 node nodes)
  then show ?case by (auto simp: bind_eq_Some_conv)
qed (auto simp: again)

lemma node_kind: "htmlNodeSchema node = Some node' \<Longrightarrow> is_element node' = is_element node"
  by (cases node) (auto simp: bind_eq_Some_conv)

lemma settles_element [settling]: "settles htmlElementSchema"
  by (auto simp: settles_def htmlElementSchema_def node_kind node_again(1) split: if_splits)

lemma settles_html_section [settling]: "settles htmlSectionSchema"
  unfolding settles_def htmlSectionSchema_def
  by (auto simp: bind_eq_Some_conv again zlist_again [OF settles_token] zlist_again [OF settles_element])

lemma settles_landmark [settling]: "settles htmlLandmarkSchema"
  unfolding settles_def htmlLandmarkSchema_def by (auto simp: bind_eq_Some_conv again)

lemma settles_document_shape: "settles (documentShape datetime)"
  unfolding settles_def documentShape_def
  by (auto simp: bind_eq_Some_conv again settlesD [OF settles_html_metadata] settlesD [OF settles_head]
      zlist_again [OF settles_html_section] zlist_again [OF settles_landmark])

lemma settles_document: "settles (htmlDocumentSchema lib datetime)"
  using settlesD [OF settles_document_shape]
  by (auto simp: settles_def htmlDocumentSchema_def split: option.splits if_splits)

end
