(* ===== verification/AccessTokens.thy ===== *)
theory AccessTokens
  imports PublishFailures AiPipeline
begin

text \<open>
  The provider of access tokens for the Publish Engine
  (\<open>src/infrastructure/publish-engine/azure-publish-engine-access-token-provider.ts\<close>): a cached token
  and a request to the credential that all callers share.  A run is a list of events: a caller
  asks, the credential answers the request under way, and the reaction of the next caller that
  awaited it runs.  What the credential answers and what the clock shows are in the events.
\<close>

subsection \<open>Settings and tokens\<close>

definition normalizeScope :: "string \<Rightarrow> engine_error + string" where
  "normalizeScope scope =
     (if js_trim scope = [] then Inl (ConfigurationError ''Publish Engine scope is required for token acquisition.'')
      else Inr (js_trim scope))"

definition normalizeRefreshSkewMs :: "js_number option \<Rightarrow> engine_error + int" where
  "normalizeRefreshSkewMs refreshSkewMs = (case refreshSkewMs of
     None \<Rightarrow> Inr 300000
   | Some v \<Rightarrow>
       (case safe_nonnegative v of
          Some n \<Rightarrow> if n \<le> 3600000 then Inr n
            else Inl (ConfigurationError ''Publish Engine token refresh skew must be an integer between 0 and 3600000.'')
        | None \<Rightarrow> Inl (ConfigurationError ''Publish Engine token refresh skew must be an integer between 0 and 3600000.'')))"

record access_token =
  at_token :: string
  at_expiresOnTimestamp :: js_number

record cached_token =
  ck_token :: string
  ck_expiresOnTimestamp :: rat
  ck_acquiredAtMs :: int
  ck_lifetimeMs :: rat

definition normalizeTokenResponse :: "access_token option \<Rightarrow> int \<Rightarrow> engine_error + cached_token" where
  "normalizeTokenResponse token nowMs =
     (case token of
        None \<Rightarrow> Inl (AuthenticationError ''Publish Engine access token acquisition returned no token.'')
      | Some t \<Rightarrow>
          if js_trim (at_token t) = [] then Inl (AuthenticationError ''Publish Engine access token is empty.'')
          else (case at_expiresOnTimestamp t of
              NotFinite \<Rightarrow> Inl (AuthenticationError ''Publish Engine access token expiration is missing or invalid.'')
            | Number expires \<Rightarrow>
                if expires \<le> 0 then Inl (AuthenticationError ''Publish Engine access token expiration is missing or invalid.'')
                else if expires \<le> of_int nowMs then Inl (AuthenticationError ''Publish Engine access token is already expired.'')
                else Inr \<lparr>ck_token = js_trim (at_token t), ck_expiresOnTimestamp = expires, ck_acquiredAtMs = nowMs,
                       ck_lifetimeMs = max 1 (expires - of_int nowMs)\<rparr>))"

definition refresh_window :: "cached_token \<Rightarrow> int \<Rightarrow> int" where
  "refresh_window cached refreshSkewMs = min refreshSkewMs (max 1000 \<lfloor>ck_lifetimeMs cached / 10\<rfloor>)"

definition isTokenSafelyUsable :: "cached_token \<Rightarrow> int \<Rightarrow> int \<Rightarrow> bool" where
  "isTokenSafelyUsable cached nowMs refreshSkewMs =
     (let remainingMs = ck_expiresOnTimestamp cached - of_int nowMs in
      0 < remainingMs \<and> of_int (refresh_window cached refreshSkewMs) < remainingMs)"

subsection \<open>Callers and the shared request\<close>

text \<open>
  A request under way has the callers that await it, the one that began it first.  When it is
  settled the callers' reactions are queued, and the provider goes on showing it as under way until
  the reaction of the caller that began it has run.  The answers are told in their order: to whom,
  when, whether from the cache, and what.
\<close>

datatype credential_answer = CredentialGives "access_token option" | CredentialThrows

datatype refresh = NoRefresh | Pending "nat list" | Settled "engine_error + string"

record token_state =
  ts_cachedToken :: "cached_token option"
  ts_inFlightRefresh :: refresh
  ts_reactions :: "(nat \<times> bool \<times> (engine_error + string)) list"
  ts_answers :: "(nat \<times> int \<times> bool \<times> (engine_error + string)) list"

datatype token_event = GetAccessToken nat int | CredentialSettles credential_answer int | Reacts int

definition token_start :: token_state where
  "token_start = \<lparr>ts_cachedToken = None, ts_inFlightRefresh = NoRefresh, ts_reactions = [], ts_answers = []\<rparr>"

definition getSafelyReusableCachedToken :: "int \<Rightarrow> int \<Rightarrow> token_state \<Rightarrow> string option" where
  "getSafelyReusableCachedToken refreshSkewMs nowMs s =
     (case ts_cachedToken s of
        None \<Rightarrow> None
      | Some cached \<Rightarrow> if isTokenSafelyUsable cached nowMs refreshSkewMs then Some (ck_token cached) else None)"

definition acquired_token :: "credential_answer \<Rightarrow> int \<Rightarrow> engine_error + cached_token" where
  "acquired_token answer nowMs =
     (case answer of
        CredentialThrows \<Rightarrow> Inl (AuthenticationError ''Publish Engine credential token request failed.'')
      | CredentialGives response \<Rightarrow> normalizeTokenResponse response nowMs)"

definition acquireAndCacheToken :: "credential_answer \<Rightarrow> int \<Rightarrow> token_state \<Rightarrow> (engine_error + string) \<times> token_state" where
  "acquireAndCacheToken answer nowMs s =
     (case acquired_token answer nowMs of
        Inl e \<Rightarrow> (Inl e, s)
      | Inr cached \<Rightarrow> (Inr (ck_token cached), s\<lparr>ts_cachedToken := Some cached\<rparr>))"

definition after_refresh :: "int \<Rightarrow> int \<Rightarrow> bool \<Rightarrow> engine_error + string \<Rightarrow> token_state \<Rightarrow> bool \<times> (engine_error + string)" where
  "after_refresh refreshSkewMs nowMs began r s =
     (case r of
        Inr token \<Rightarrow> (False, Inr token)
      | Inl error \<Rightarrow>
          (case getSafelyReusableCachedToken refreshSkewMs nowMs s of
             Some token \<Rightarrow> (True, Inr token)
           | None \<Rightarrow>
               (case error of
                  AuthenticationError m \<Rightarrow>
                    if began then (False, Inl error)
                    else (False, Inl (AuthenticationError ''Publish Engine access token acquisition failed.''))
                | _ \<Rightarrow> (False, Inl (AuthenticationError ''Publish Engine access token acquisition failed.'')))))"

fun token_step :: "int \<Rightarrow> token_event \<Rightarrow> token_state \<Rightarrow> token_state" where
  "token_step skew (GetAccessToken caller now) s =
     (case getSafelyReusableCachedToken skew now s of
        Some token \<Rightarrow> s\<lparr>ts_answers := ts_answers s @ [(caller, now, True, Inr token)]\<rparr>
      | None \<Rightarrow>
          (case ts_inFlightRefresh s of
             NoRefresh \<Rightarrow> s\<lparr>ts_inFlightRefresh := Pending [caller]\<rparr>
           | Pending callers \<Rightarrow> s\<lparr>ts_inFlightRefresh := Pending (callers @ [caller])\<rparr>
           | Settled r \<Rightarrow> s\<lparr>ts_reactions := ts_reactions s @ [(caller, False, r)]\<rparr>))"
| "token_step skew (CredentialSettles answer now) s =
     (case ts_inFlightRefresh s of
        Pending (caller # callers) \<Rightarrow>
          (case acquireAndCacheToken answer now s of
             (r, s') \<Rightarrow> s'\<lparr>ts_inFlightRefresh := Settled r,
               ts_reactions := ts_reactions s @ (caller, True, r) # map (\<lambda>c. (c, False, r)) callers\<rparr>)
      | _ \<Rightarrow> s)"
| "token_step skew (Reacts now) s =
     (case ts_reactions s of
        [] \<Rightarrow> s
      | (caller, began, r) # rest \<Rightarrow>
          (case after_refresh skew now began r s of
             (cached, answer) \<Rightarrow>
               s\<lparr>ts_inFlightRefresh := (if began then NoRefresh else ts_inFlightRefresh s), ts_reactions := rest,
                 ts_answers := ts_answers s @ [(caller, now, cached, answer)]\<rparr>))"

definition token_run :: "int \<Rightarrow> token_event list \<Rightarrow> token_state" where
  "token_run skew events = foldl (\<lambda>s e. token_step skew e s) token_start events"

lemma token_run_simps [simp]:
  "token_run skew [] = token_start"
  "token_run skew (events @ [e]) = token_step skew e (token_run skew events)"
  by (simp_all add: token_run_def)

subsection \<open>Where tokens come from\<close>

text \<open>The credential gave it, in an answer that was not expired.\<close>

definition given_at :: "token_event list \<Rightarrow> string \<Rightarrow> rat \<Rightarrow> int \<Rightarrow> bool" where
  "given_at events token expires came \<longleftrightarrow>
     (\<exists>t. CredentialSettles (CredentialGives (Some t)) came \<in> set events \<and> token = js_trim (at_token t) \<and> token \<noteq> []
        \<and> at_expiresOnTimestamp t = Number expires \<and> of_int came < expires)"

definition cached_given :: "token_event list \<Rightarrow> cached_token \<Rightarrow> bool" where
  "cached_given events k \<longleftrightarrow>
     given_at events (ck_token k) (ck_expiresOnTimestamp k) (ck_acquiredAtMs k)
     \<and> ck_lifetimeMs k = max 1 (ck_expiresOnTimestamp k - of_int (ck_acquiredAtMs k))"

definition answer_given :: "int \<Rightarrow> token_event list \<Rightarrow> int \<Rightarrow> bool \<Rightarrow> string \<Rightarrow> bool" where
  "answer_given skew events now cached token \<longleftrightarrow>
     (\<exists>expires came. given_at events token expires came
        \<and> (cached \<longrightarrow> of_int now < expires
             \<and> of_int (min skew (max 1000 \<lfloor>max 1 (expires - of_int came) / 10\<rfloor>)) < expires - of_int now))"

definition token_sound :: "int \<Rightarrow> token_event list \<Rightarrow> token_state \<Rightarrow> bool" where
  "token_sound skew events s \<longleftrightarrow>
     pred_option (cached_given events) (ts_cachedToken s)
     \<and> (\<forall>t. ts_inFlightRefresh s = Settled (Inr t) \<longrightarrow> (\<exists>expires came. given_at events t expires came))
     \<and> (\<forall>c b t. (c, b, Inr t) \<in> set (ts_reactions s) \<longrightarrow> (\<exists>expires came. given_at events t expires came))
     \<and> (\<forall>c now cached t. (c, now, cached, Inr t) \<in> set (ts_answers s) \<longrightarrow> answer_given skew events now cached t)"

lemma given_at_mono: "given_at events t x came \<Longrightarrow> set events \<subseteq> set events' \<Longrightarrow> given_at events' t x came"
  unfolding given_at_def by blast

lemma acquired_given:
  "acquired_token answer came = Inr k \<Longrightarrow> cached_given (events @ [CredentialSettles answer came]) k"
  by (auto simp: acquired_token_def normalizeTokenResponse_def cached_given_def given_at_def
      split: credential_answer.splits option.splits js_number.splits if_splits)

lemma reused_given:
  assumes "getSafelyReusableCachedToken skew now s = Some t" and "pred_option (cached_given events) (ts_cachedToken s)"
  shows "answer_given skew events now True t"
  using assms
  by (auto simp: getSafelyReusableCachedToken_def cached_given_def answer_given_def isTokenSafelyUsable_def
      refresh_window_def Let_def split: option.splits if_splits)

lemma token_sound_mono:
  assumes "token_sound skew events s" and "set events \<subseteq> set events'"
  shows "token_sound skew events' s"
  using assms(1) given_at_mono [OF _ assms(2)]
  unfolding token_sound_def cached_given_def answer_given_def by (cases "ts_cachedToken s") (simp_all, blast+)

lemma after_refresh_given:
  assumes "after_refresh skew now began r s = (cached, Inr t)" and "pred_option (cached_given events) (ts_cachedToken s)"
    and "\<And>u. r = Inr u \<Longrightarrow> \<exists>expires came. given_at events u expires came"
  shows "answer_given skew events now cached t"
proof (cases r)
  case (Inl e)
  then have "getSafelyReusableCachedToken skew now s = Some t \<and> cached"
    using assms(1) by (cases "getSafelyReusableCachedToken skew now s"; cases e) (auto simp: after_refresh_def split: if_splits)
  then show ?thesis using reused_given [OF _ assms(2)] by auto
next
  case (Inr u)
  then show ?thesis using assms(1, 3) by (auto simp: after_refresh_def answer_given_def)
qed

lemma token_step_sound:
  assumes "token_sound skew events s"
  shows "token_sound skew (events @ [e]) (token_step skew e s)"
proof -
  have s: "token_sound skew (events @ [e]) s" by (rule token_sound_mono [OF assms]) auto
  note reused = reused_given [of skew _ s _ "events @ [e]"]
  show ?thesis
  proof (cases e)
    case (GetAccessToken c now)
    then show ?thesis using s reused [of now]
      by (auto simp: token_sound_def split: option.splits refresh.splits)
  next
    case (CredentialSettles a now)
    then show ?thesis using s acquired_given [of a now _ events]
      by (auto simp: token_sound_def acquireAndCacheToken_def cached_given_def
          split: refresh.splits list.splits sum.splits)
  next
    case (Reacts now)
    show ?thesis
    proof (cases "ts_reactions s")
      case (Cons x rest)
      obtain c b r where x: "x = (c, b, r)" by (cases x)
      obtain cached a where a: "after_refresh skew now b r s = (cached, a)" by fastforce
      have "answer_given skew (events @ [e]) now cached t" if "a = Inr t" for t
        using after_refresh_given [of skew now b r s cached t "events @ [e]"] a that s Cons x
        by (auto simp: token_sound_def)
      then show ?thesis using s Reacts Cons x a by (auto simp: token_sound_def)
    qed (use s Reacts in simp)
  qed
qed

lemma token_run_sound: "token_sound skew events (token_run skew events)"
proof (induction events rule: rev_induct)
  case Nil
  then show ?case by (simp add: token_sound_def token_start_def)
next
  case (snoc e events)
  then show ?case using token_step_sound by simp
qed

text \<open>
  C36: Tokens handed out.  Whatever callers ask at whatever times and whatever the credential answers,
  every token handed out is one the credential gave, trimmed, not empty and not expired when it came;
  and one from the cache has not expired, by more than the refresh window, which is the configured
  skew or a tenth of the token's lifetime, at least a second, whichever is less.
\<close>

theorem tokens_handed_out_live:
  assumes "(caller, now, cached, Inr token) \<in> set (ts_answers (token_run skew events))"
  shows "\<exists>t came expires. CredentialSettles (CredentialGives (Some t)) came \<in> set events
    \<and> token = js_trim (at_token t) \<and> token \<noteq> [] \<and> at_expiresOnTimestamp t = Number expires \<and> of_int came < expires
    \<and> (cached \<longrightarrow> of_int now < expires
         \<and> of_int (min skew (max 1000 \<lfloor>max 1 (expires - of_int came) / 10\<rfloor>)) < expires - of_int now)"
proof -
  have "answer_given skew events now cached token"
    using token_run_sound [of skew events] assms unfolding token_sound_def by blast
  then show ?thesis unfolding answer_given_def given_at_def by blast
qed

subsection \<open>One request, one answer\<close>

definition awaiting :: "token_state \<Rightarrow> nat list" where
  "awaiting s = (case ts_inFlightRefresh s of Pending callers \<Rightarrow> callers | _ \<Rightarrow> []) @ map fst (ts_reactions s)"

fun asked :: "token_event \<Rightarrow> nat list" where
  "asked (GetAccessToken caller now) = [caller]"
| "asked _ = []"

definition refresh_shape :: "token_state \<Rightarrow> bool" where
  "refresh_shape s \<longleftrightarrow>
     (case ts_inFlightRefresh s of
        NoRefresh \<Rightarrow> filter (\<lambda>(c, began, r). began) (ts_reactions s) = []
      | Pending callers \<Rightarrow> callers \<noteq> [] \<and> filter (\<lambda>(c, began, r). began) (ts_reactions s) = []
      | Settled r \<Rightarrow> (\<exists>c. filter (\<lambda>(c, began, r). began) (ts_reactions s) = [(c, True, r)]))"

lemma no_other_began: "filter (\<lambda>(c, began, r). began) (map (\<lambda>c. (c, False, r)) cs) = []"
  by (induction cs) auto

lemma token_step_shape: "refresh_shape s \<Longrightarrow> refresh_shape (token_step skew e s)"
  by (cases e) (auto simp: refresh_shape_def acquireAndCacheToken_def no_other_began
      split: option.splits refresh.splits list.splits sum.splits prod.splits)

lemma token_run_shape: "refresh_shape (token_run skew events)"
  by (induction events rule: rev_induct) (simp_all add: token_step_shape, simp add: refresh_shape_def token_start_def)

lemma waiting_callers: "image_mset fst (image_mset (\<lambda>c. (c, False, x)) M) = M"
  by (simp add: multiset.map_comp comp_def)

lemma token_step_callers:
  assumes "refresh_shape s"
  shows "mset (awaiting (token_step skew e s)) + mset (map fst (ts_answers (token_step skew e s)))
    = mset (awaiting s) + mset (map fst (ts_answers s)) + mset (asked e)"
  using assms
  by (cases e) (auto simp: awaiting_def refresh_shape_def acquireAndCacheToken_def waiting_callers
      split: option.splits refresh.splits list.splits sum.splits prod.splits)

lemma token_run_callers:
  "mset (awaiting (token_run skew events)) + mset (map fst (ts_answers (token_run skew events))) = mset (concat (map asked events))"
proof (induction events rule: rev_induct)
  case Nil
  then show ?case by (simp add: awaiting_def token_start_def)
next
  case (snoc e events)
  then show ?case using token_step_callers [OF token_run_shape] by simp
qed

lemma reactions_drain:
  assumes "refresh_shape s" and "length clocks = length (ts_reactions s)"
  shows "ts_reactions (foldl (\<lambda>s e. token_step skew e s) s (map Reacts clocks)) = []
    \<and> ts_inFlightRefresh (foldl (\<lambda>s e. token_step skew e s) s (map Reacts clocks))
      = (case ts_inFlightRefresh s of Settled r \<Rightarrow> NoRefresh | w \<Rightarrow> w)"
  using assms
proof (induction clocks arbitrary: s)
  case Nil
  then show ?case by (auto simp: refresh_shape_def split: refresh.splits)
next
  case (Cons now clocks)
  from Cons.prems(2) obtain c b r rest where rs: "ts_reactions s = (c, b, r) # rest" by (cases "ts_reactions s") auto
  obtain cached a where a: "after_refresh skew now b r s = (cached, a)" by fastforce
  let ?s = "token_step skew (Reacts now) s"
  have "refresh_shape ?s" by (rule token_step_shape [OF Cons.prems(1)])
  moreover have "length clocks = length (ts_reactions ?s)" using Cons.prems(2) rs a by simp
  moreover have "(case ts_inFlightRefresh ?s of Settled r \<Rightarrow> NoRefresh | w \<Rightarrow> w) = (case ts_inFlightRefresh s of Settled r \<Rightarrow> NoRefresh | w \<Rightarrow> w)"
    using Cons.prems(1) rs a by (auto simp: refresh_shape_def split: refresh.splits)
  ultimately show ?case using Cons.IH [of ?s] by simp
qed

text \<open>
  C37: No caller is lost and none answered twice.  Callers share one request: whatever has happened,
  when as many reactions have run as there were, everybody who asked has one answer, except those
  who await the request still under way; when there is none, the next caller begins a new one.
\<close>

theorem token_callers_answered:
  assumes "length clocks = length (ts_reactions (token_run skew events))"
  shows "let s = token_run skew events; s' = token_run skew (events @ map Reacts clocks) in
    mset (concat (map asked events)) = mset (map fst (ts_answers s')) + mset (case ts_inFlightRefresh s of Pending cs \<Rightarrow> cs | _ \<Rightarrow> [])
    \<and> ts_inFlightRefresh s' = (case ts_inFlightRefresh s of Pending cs \<Rightarrow> Pending cs | _ \<Rightarrow> NoRefresh)"
proof -
  let ?s = "token_run skew events" and ?s' = "token_run skew (events @ map Reacts clocks)"
  have e: "?s' = foldl (\<lambda>s e. token_step skew e s) ?s (map Reacts clocks)" by (simp add: token_run_def)
  note d = reactions_drain [OF token_run_shape assms, of skew, folded e]
  have "concat (map (asked \<circ> Reacts) clocks) = []" by (simp add: comp_def)
  with token_run_callers [of skew "events @ map Reacts clocks"] d
  show ?thesis by (auto simp: awaiting_def Let_def add.commute split: refresh.splits)
qed

lemma token_callers_answered_witness:
  "mset (map fst (ts_answers (token_run 1000 ([GetAccessToken 1 0, GetAccessToken 2 5, CredentialSettles CredentialThrows 9]
     @ map Reacts [10, 11])))) = {#1, 2#}"
  using token_callers_answered [of "[10, 11]" 1000 "[GetAccessToken 1 0, GetAccessToken 2 5, CredentialSettles CredentialThrows 9]"]
  by (simp add: token_run_def token_start_def getSafelyReusableCachedToken_def acquireAndCacheToken_def acquired_token_def
      after_refresh_def Let_def)

lemma tokens_handed_out_live_witness:
  "\<exists>t came expires. CredentialSettles (CredentialGives (Some t)) came \<in> set
      [GetAccessToken 1 0, CredentialSettles (CredentialGives (Some \<lparr>at_token = ''t'', at_expiresOnTimestamp = Number 60000\<rparr>)) 9,
       Reacts 10, GetAccessToken 2 50000]
    \<and> at_expiresOnTimestamp t = Number expires \<and> of_int 50000 < expires"
proof -
  have "(2, 50000, True, Inr ''t'') \<in> set (ts_answers (token_run 1000
      [GetAccessToken 1 0, CredentialSettles (CredentialGives (Some \<lparr>at_token = ''t'', at_expiresOnTimestamp = Number 60000\<rparr>)) 9,
       Reacts 10, GetAccessToken 2 50000]))"
    by code_simp
  from tokens_handed_out_live [OF this] show ?thesis by fastforce
qed

subsection \<open>Failed requests\<close>

text \<open>
  After a failed request the provider looks into the cache again.  On a clock that never goes back
  it finds nothing there: the caller began the request because the cached token could not be used,
  and no later time makes it usable.
\<close>

fun event_time :: "token_event \<Rightarrow> int" where
  "event_time (GetAccessToken caller now) = now"
| "event_time (CredentialSettles answer now) = now"
| "event_time (Reacts now) = now"

definition failing :: "token_state \<Rightarrow> bool" where
  "failing s \<longleftrightarrow> (case ts_inFlightRefresh s of NoRefresh \<Rightarrow> False | Pending cs \<Rightarrow> True | Settled (Inl e) \<Rightarrow> True | _ \<Rightarrow> False)"

lemma not_usable_later:
  "getSafelyReusableCachedToken skew now s = None \<Longrightarrow> now \<le> later \<Longrightarrow> getSafelyReusableCachedToken skew later s = None"
  by (auto simp: getSafelyReusableCachedToken_def isTokenSafelyUsable_def Let_def split: option.splits if_splits)

lemma failing_cache_unusable:
  assumes "sorted (map event_time events)" and "\<forall>e \<in> set events. event_time e \<le> now" and "failing (token_run skew events)"
  shows "getSafelyReusableCachedToken skew now (token_run skew events) = None"
  using assms
proof (induction events arbitrary: now rule: rev_induct)
  case Nil
  then show ?case by (simp add: failing_def token_start_def)
next
  case (snoc e events)
  let ?s = "token_run skew events"
  have t: "sorted (map event_time events)" "\<forall>e' \<in> set events. event_time e' \<le> event_time e" "event_time e \<le> now"
    using snoc.prems(1, 2) by (auto simp: sorted_append)
  have same: "getSafelyReusableCachedToken skew now s' = getSafelyReusableCachedToken skew now ?s"
    if "ts_cachedToken s' = ts_cachedToken ?s" for s' using that by (simp add: getSafelyReusableCachedToken_def)
  have old: "getSafelyReusableCachedToken skew now ?s = None" if "failing ?s"
    using not_usable_later [OF snoc.IH [OF t(1, 2) that] t(3)] .
  show ?case
  proof (cases "failing ?s")
    case True
    have "ts_cachedToken (token_step skew e ?s) = ts_cachedToken ?s"
      using True snoc.prems(3) by (cases e) (auto simp: failing_def acquireAndCacheToken_def
          split: option.splits refresh.splits list.splits sum.splits prod.splits)
    from same [OF this] old [OF True] show ?thesis by simp
  next
    case False
    then obtain caller where e: "e = GetAccessToken caller (event_time e)"
      and n: "getSafelyReusableCachedToken skew (event_time e) ?s = None"
      using snoc.prems(3) by (cases e) (auto simp: failing_def acquireAndCacheToken_def
          split: option.splits refresh.splits list.splits sum.splits prod.splits if_splits)
    then have "ts_cachedToken (token_step skew e ?s) = ts_cachedToken ?s"
      by (cases e) (auto split: refresh.splits)
    from same [OF this] not_usable_later [OF n t(3)] show ?thesis by simp
  qed
qed

text \<open>
  Failed requests are told.  On a clock that never goes back, the caller whose request to the
  credential failed gets an authentication error: what the provider looks for in the cache after the
  failure is never there.
\<close>

theorem failed_refresh_is_told:
  assumes "sorted (map event_time (events @ [Reacts now]))"
    and "ts_reactions (token_run skew events) = (caller, True, Inl error) # rest"
  shows "\<exists>m. ts_answers (token_run skew (events @ [Reacts now]))
    = ts_answers (token_run skew events) @ [(caller, now, False, Inl (AuthenticationError m))]"
proof -
  let ?s = "token_run skew events"
  have "failing ?s" using token_run_shape [of skew events] assms(2)
    by (auto simp: failing_def refresh_shape_def split: refresh.splits)
  then have "getSafelyReusableCachedToken skew now ?s = None"
    using assms(1) by (intro failing_cache_unusable) (auto simp: sorted_append)
  then show ?thesis using assms(2) by (cases error) (auto simp: after_refresh_def)
qed

lemma failed_refresh_is_told_witness:
  "\<exists>m. ts_answers (token_run 1000 ([GetAccessToken 7 0, CredentialSettles CredentialThrows 9] @ [Reacts 10]))
    = [(7, 10, False, Inl (AuthenticationError m))]"
proof -
  have "ts_reactions (token_run 1000 [GetAccessToken 7 0, CredentialSettles CredentialThrows 9])
      = (7, True, Inl (AuthenticationError ''Publish Engine credential token request failed.'')) # []"
    "ts_answers (token_run 1000 [GetAccessToken 7 0, CredentialSettles CredentialThrows 9]) = []"
    by code_simp+
  from failed_refresh_is_told [OF _ this(1), of 10] this(2) show ?thesis by simp
qed

end
