(* ===== verification/EngineConfig.thy ===== *)
theory EngineConfig
  imports EngineCalls AccessTokens UrlSafety
begin

text \<open>
  The configuration of the Publish Engine client
  (\<open>src/infrastructure/publish-engine/publish-engine-config.ts\<close>).  The URL format of the schema
  library, the URL parser and the language's conversion of a text to a number are arguments.
\<close>

record engine_url = url_parts +
  up_search :: string
  up_hash :: string

record config_input =
  gi_baseUrl :: string
  gi_scope :: string
  gi_requestTimeoutMs :: "js_number option"
  gi_pollIntervalMs :: "js_number option"
  gi_maxWaitMs :: "js_number option"
  gi_maxRetries :: "js_number option"
  gi_retryBaseDelayMs :: "js_number option"
  gi_retryMaxDelayMs :: "js_number option"
  gi_retryJitterRatio :: "js_number option"

definition int_between :: "int \<Rightarrow> int \<Rightarrow> js_number \<Rightarrow> int option" where
  "int_between lo hi v = (case safe_nonnegative v of None \<Rightarrow> None | Some n \<Rightarrow> if lo \<le> n \<and> n \<le> hi then Some n else None)"

definition int_setting :: "int \<Rightarrow> int \<Rightarrow> int \<Rightarrow> js_number option \<Rightarrow> int option" where
  "int_setting lo hi fallback v = (case v of None \<Rightarrow> Some fallback | Some x \<Rightarrow> int_between lo hi x)"

definition ratio_setting :: "rat \<Rightarrow> js_number option \<Rightarrow> rat option" where
  "ratio_setting fallback v = (case v of
     None \<Rightarrow> Some fallback
   | Some (Number q) \<Rightarrow> if 0 \<le> q \<and> q \<le> 1 then Some q else None
   | Some NotFinite \<Rightarrow> None)"

definition configSchema :: "(string \<Rightarrow> bool) \<Rightarrow> config_input \<Rightarrow> (string \<times> string \<times> engine_config) option" where
  "configSchema isUrl input =
     Option.bind (zwhen isUrl (gi_baseUrl input)) (\<lambda>baseUrl.
     Option.bind (zstring 1 2000 (gi_scope input)) (\<lambda>scope.
     Option.bind (int_setting 1 300000 30000 (gi_requestTimeoutMs input)) (\<lambda>requestTimeoutMs.
     Option.bind (int_setting 1 60000 2000 (gi_pollIntervalMs input)) (\<lambda>pollIntervalMs.
     Option.bind (int_setting 1 3600000 300000 (gi_maxWaitMs input)) (\<lambda>maxWaitMs.
     Option.bind (int_setting 0 10 3 (gi_maxRetries input)) (\<lambda>maxRetries.
     Option.bind (int_setting 1 60000 250 (gi_retryBaseDelayMs input)) (\<lambda>retryBaseDelayMs.
     Option.bind (int_setting 1 120000 5000 (gi_retryMaxDelayMs input)) (\<lambda>retryMaxDelayMs.
     Option.bind (ratio_setting (1 / 5) (gi_retryJitterRatio input)) (\<lambda>retryJitterRatio.
       if maxWaitMs < pollIntervalMs \<or> retryMaxDelayMs < retryBaseDelayMs then None
       else Some (baseUrl, scope, \<lparr>ec_requestTimeoutMs = requestTimeoutMs, ec_pollIntervalMs = pollIntervalMs,
         ec_maxWaitMs = maxWaitMs, ec_maxRetries = maxRetries, ec_retryBaseDelayMs = retryBaseDelayMs,
         ec_retryMaxDelayMs = retryMaxDelayMs, ec_retryJitterRatio = retryJitterRatio\<rparr>))))))))))"

text \<open>The setter of a pathname keeps a path that has none of its characters left at the root.\<close>

definition set_pathname :: "string \<Rightarrow> engine_url \<Rightarrow> engine_url" where
  "set_pathname p u = u\<lparr>up_pathname := (if p = [] then ''/'' else p)\<rparr>"

definition strip_slashes :: "string \<Rightarrow> string" where
  "strip_slashes p = rev (dropWhile (\<lambda>c. c = CHR ''/'') (rev p))"

definition local_hosts :: "string list" where
  "local_hosts = [''localhost'', ''127.0.0.1'', ''::1'']"

definition normalizeBaseUrl :: "(string \<Rightarrow> engine_url option) \<Rightarrow> string \<Rightarrow> engine_error + engine_url" where
  "normalizeBaseUrl parse input =
     (case parse (js_trim input) of
        None \<Rightarrow> Inl (ConfigurationError ''PUBLISH_ENGINE_BASE_URL is invalid.'')
      | Some u \<Rightarrow>
          let protocol = lower_case (up_protocol u) in
          if protocol \<noteq> ''https:'' \<and> protocol \<noteq> ''http:''
          then Inl (ConfigurationError ''Publish Engine base URL must use HTTP or HTTPS.'')
          else if up_username u \<noteq> [] \<or> up_password u \<noteq> []
          then Inl (ConfigurationError ''Publish Engine base URL must not include embedded credentials.'')
          else if up_search u \<noteq> [] \<or> up_hash u \<noteq> []
          then Inl (ConfigurationError ''Publish Engine base URL must not include query string or fragment.'')
          else
            let u' = set_pathname (if up_pathname u = ''/'' then ''/'' else strip_slashes (up_pathname u)) u;
                isLocalHttp = protocol = ''http:'' \<and> lower_case (up_hostname u) \<in> set local_hosts
            in if protocol = ''http:'' \<and> \<not> isLocalHttp
               then Inl (ConfigurationError ''Publish Engine base URL must use HTTPS except for localhost loopback testing.'')
               else Inr u')"

definition createPublishEngineConfig ::
  "(string \<Rightarrow> bool) \<Rightarrow> (string \<Rightarrow> engine_url option) \<Rightarrow> config_input \<Rightarrow> engine_error + engine_url \<times> string \<times> engine_config" where
  "createPublishEngineConfig isUrl parse input =
     (case configSchema isUrl input of
        None \<Rightarrow> Inl (ConfigurationError ''Publish Engine configuration is invalid.'')
      | Some (baseUrl, scope, cfg) \<Rightarrow>
          (case normalizeBaseUrl parse baseUrl of Inl e \<Rightarrow> Inl e | Inr u \<Rightarrow> Inr (u, scope, cfg)))"

definition parse_number :: "(string \<Rightarrow> js_number) \<Rightarrow> string option \<Rightarrow> js_number option" where
  "parse_number number v = (case v of None \<Rightarrow> None | Some s \<Rightarrow> if js_trim s = [] then None else Some (number s))"

definition createPublishEngineConfigFromEnvironment ::
  "(string \<Rightarrow> bool) \<Rightarrow> (string \<Rightarrow> engine_url option) \<Rightarrow> (string \<Rightarrow> js_number) \<Rightarrow> (string \<Rightarrow> string option)
     \<Rightarrow> engine_error + engine_url \<times> string \<times> engine_config" where
  "createPublishEngineConfigFromEnvironment isUrl parse number env =
     (case env ''PUBLISH_ENGINE_BASE_URL'' of
        None \<Rightarrow> Inl (ConfigurationError ''PUBLISH_ENGINE_BASE_URL is required.'')
      | Some baseUrl \<Rightarrow>
          if js_trim baseUrl = [] then Inl (ConfigurationError ''PUBLISH_ENGINE_BASE_URL is required.'')
          else (case env ''PUBLISH_ENGINE_SCOPE'' of
              None \<Rightarrow> Inl (ConfigurationError ''PUBLISH_ENGINE_SCOPE is required.'')
            | Some scope \<Rightarrow>
                if js_trim scope = [] then Inl (ConfigurationError ''PUBLISH_ENGINE_SCOPE is required.'')
                else createPublishEngineConfig isUrl parse
                  \<lparr>gi_baseUrl = baseUrl, gi_scope = scope,
                   gi_requestTimeoutMs = parse_number number (env ''PUBLISH_ENGINE_REQUEST_TIMEOUT_MS''),
                   gi_pollIntervalMs = parse_number number (env ''PUBLISH_ENGINE_POLL_INTERVAL_MS''),
                   gi_maxWaitMs = parse_number number (env ''PUBLISH_ENGINE_MAX_WAIT_MS''),
                   gi_maxRetries = parse_number number (env ''PUBLISH_ENGINE_MAX_RETRIES''),
                   gi_retryBaseDelayMs = parse_number number (env ''PUBLISH_ENGINE_RETRY_BASE_DELAY_MS''),
                   gi_retryMaxDelayMs = parse_number number (env ''PUBLISH_ENGINE_RETRY_MAX_DELAY_MS''),
                   gi_retryJitterRatio = None\<rparr>))"

subsection \<open>What a configuration guarantees\<close>

lemma int_between_Some: "int_between lo hi v = Some n \<longleftrightarrow> safe_nonnegative v = Some n \<and> lo \<le> n \<and> n \<le> hi"
  by (auto simp: int_between_def split: option.splits if_splits)

lemma int_setting_bounds: "int_setting lo hi def v = Some n \<Longrightarrow> lo \<le> def \<Longrightarrow> def \<le> hi \<Longrightarrow> lo \<le> n \<and> n \<le> hi"
  by (auto simp: int_setting_def int_between_Some split: option.splits)

lemma ratio_setting_bounds: "ratio_setting def v = Some q \<Longrightarrow> 0 \<le> def \<Longrightarrow> def \<le> 1 \<Longrightarrow> 0 \<le> q \<and> q \<le> 1"
  by (auto simp: ratio_setting_def split: option.splits js_number.splits if_splits)

definition engine_config_ok :: "engine_config \<Rightarrow> bool" where
  "engine_config_ok cfg \<longleftrightarrow>
     1 \<le> ec_requestTimeoutMs cfg \<and> ec_requestTimeoutMs cfg \<le> 300000
     \<and> 1 \<le> ec_pollIntervalMs cfg \<and> ec_pollIntervalMs cfg \<le> ec_maxWaitMs cfg \<and> ec_maxWaitMs cfg \<le> 3600000
     \<and> 0 \<le> ec_maxRetries cfg \<and> ec_maxRetries cfg \<le> 10
     \<and> 1 \<le> ec_retryBaseDelayMs cfg \<and> ec_retryBaseDelayMs cfg \<le> ec_retryMaxDelayMs cfg \<and> ec_retryMaxDelayMs cfg \<le> 120000
     \<and> 0 \<le> ec_retryJitterRatio cfg \<and> ec_retryJitterRatio cfg \<le> 1"

lemma configSchema_ok:
  assumes "configSchema isUrl input = Some (u, scope, cfg)"
  shows "engine_config_ok cfg"
proof -
  from assms obtain t p m r b c j where v: "int_setting 1 300000 30000 (gi_requestTimeoutMs input) = Some t"
      "int_setting 1 60000 2000 (gi_pollIntervalMs input) = Some p" "int_setting 1 3600000 300000 (gi_maxWaitMs input) = Some m"
      "int_setting 0 10 3 (gi_maxRetries input) = Some r" "int_setting 1 60000 250 (gi_retryBaseDelayMs input) = Some b"
      "int_setting 1 120000 5000 (gi_retryMaxDelayMs input) = Some c" "ratio_setting (1 / 5) (gi_retryJitterRatio input) = Some j"
    and rules: "p \<le> m" "b \<le> c"
    and cfg: "cfg = \<lparr>ec_requestTimeoutMs = t, ec_pollIntervalMs = p, ec_maxWaitMs = m, ec_maxRetries = r,
      ec_retryBaseDelayMs = b, ec_retryMaxDelayMs = c, ec_retryJitterRatio = j\<rparr>"
    by (auto simp: configSchema_def bind_eq_Some_conv split: if_splits)
  show ?thesis
    using int_setting_bounds [OF v(1)] int_setting_bounds [OF v(2)] int_setting_bounds [OF v(3)] int_setting_bounds [OF v(4)]
      int_setting_bounds [OF v(5)] int_setting_bounds [OF v(6)] ratio_setting_bounds [OF v(7)] rules
    by (simp add: engine_config_ok_def cfg)
qed

lemma strip_slashes_last: "strip_slashes p \<noteq> [] \<Longrightarrow> last (strip_slashes p) \<noteq> CHR ''/''"
  unfolding strip_slashes_def using hd_dropWhile [of "\<lambda>c. c = CHR ''/''" "rev p"] by (simp add: last_rev)

lemma normalizeBaseUrl_ok:
  assumes "normalizeBaseUrl parse input = Inr u"
  shows "(lower_case (up_protocol u) = ''https:''
      \<or> lower_case (up_protocol u) = ''http:'' \<and> lower_case (up_hostname u) \<in> set local_hosts)
    \<and> up_username u = [] \<and> up_password u = [] \<and> up_search u = [] \<and> up_hash u = []
    \<and> (up_pathname u = ''/'' \<or> last (up_pathname u) \<noteq> CHR ''/'')"
  using assms strip_slashes_last
  by (auto simp: normalizeBaseUrl_def set_pathname_def Let_def split: option.splits if_splits)


definition example_config_input :: config_input where
  "example_config_input = \<lparr>gi_baseUrl = ''https://e'', gi_scope = ''s'', gi_requestTimeoutMs = None, gi_pollIntervalMs = None,
     gi_maxWaitMs = None, gi_maxRetries = Some (Number 3), gi_retryBaseDelayMs = None, gi_retryMaxDelayMs = None,
     gi_retryJitterRatio = None\<rparr>"

definition example_parse :: "string \<Rightarrow> engine_url option" where
  "example_parse s = Some \<lparr>up_protocol = ''https:'', up_username = [], up_password = [], up_hostname = ''e'', up_port = None,
     up_pathname = ''/'', up_search = [], up_hash = []\<rparr>"


end
