(* ===== verification/Environment.thy ===== *)
theory Environment
  imports EngineConfig AiProviders
begin

text \<open>
  The environment of the processes (\<open>src/platform/foundation/environment/index.ts\<close>): the variables,
  their defaults and ranges and the rules between them, up to the list of the fields refused.  A
  variable is a text or not there; the conversion of a text to a number is an argument.
\<close>

subsection \<open>Variables\<close>

type_synonym process_env = "string \<Rightarrow> string option"

text \<open>A number: \<open>Number\<close> of the text, a safe integer of the range, or the default for a variable not there.\<close>

definition env_int :: "(string \<Rightarrow> js_number) \<Rightarrow> process_env \<Rightarrow> int \<Rightarrow> int \<Rightarrow> int option \<Rightarrow> string \<Rightarrow> int option" where
  "env_int number env lo hi fallback name =
     (case env name of None \<Rightarrow> fallback | Some s \<Rightarrow> int_between lo hi (number s))"

definition env_text :: "process_env \<Rightarrow> string \<Rightarrow> string \<Rightarrow> string option" where
  "env_text env fallback name = (case env name of None \<Rightarrow> Some fallback | Some s \<Rightarrow> znonempty s)"

definition env_trimmed :: "process_env \<Rightarrow> string \<Rightarrow> string \<Rightarrow> string option" where
  "env_trimmed env fallback name = (case env name of None \<Rightarrow> Some fallback | Some s \<Rightarrow> Some (js_trim s))"

definition env_trimmed_nonempty :: "process_env \<Rightarrow> string \<Rightarrow> string \<Rightarrow> string option" where
  "env_trimmed_nonempty env fallback name = (case env name of None \<Rightarrow> Some fallback | Some s \<Rightarrow> znonempty (js_trim s))"

definition env_choice :: "process_env \<Rightarrow> string list \<Rightarrow> string option \<Rightarrow> string \<Rightarrow> string option" where
  "env_choice env vs fallback name = (case env name of None \<Rightarrow> fallback | Some s \<Rightarrow> zenum vs s)"

definition env_bool :: "process_env \<Rightarrow> string option \<Rightarrow> string \<Rightarrow> bool option" where
  "env_bool env fallback name = map_option (\<lambda>s. s = ''true'') (env_choice env [''true'', ''false''] fallback name)"

definition env_positive :: "(string \<Rightarrow> js_number) \<Rightarrow> process_env \<Rightarrow> int \<Rightarrow> string \<Rightarrow> int option" where
  "env_positive number env fallback name = env_int number env 1 max_safe_integer (Some fallback) name"

subsection \<open>The environment\<close>

record server_settings =
  en_nodeEnv :: string
  en_host :: string
  en_port :: int
  en_databaseUrl :: string
  en_databaseMaxConnections :: int
  en_databaseSsl :: bool

record worker_settings =
  en_workerPollIntervalMs :: int
  en_workerName :: string
  en_workerLeaseDurationMs :: int
  en_workerHeartbeatIntervalMs :: int
  en_workerMaxAttempts :: int
  en_workerConcurrency :: int
  en_workerShutdownTimeoutMs :: int
  en_workerRetryBaseDelayMs :: int
  en_workerRetryMaxDelayMs :: int
  en_workerStaleRecoveryIntervalMs :: int

record publish_settings =
  en_publishWorkerEnabled :: bool
  en_publishWorkerName :: string
  en_publishJobPollIntervalMs :: int
  en_publishJobMaxConsecutiveFailures :: int
  en_publishJobLeaseDurationMs :: int
  en_publishJobHeartbeatIntervalMs :: int
  en_publishJobRetryBaseDelayMs :: int
  en_publishJobRetryMaxDelayMs :: int
  en_publishJobStaleRecoveryIntervalMs :: int
  en_publishJobConcurrency :: int
  en_publishJobShutdownTimeoutMs :: int

record engine_settings =
  en_publishEngineBaseUrl :: string
  en_publishEngineScope :: string
  en_publishEngineIdentityMode :: string
  en_publishEngineManagedIdentityClientId :: string
  en_publishEngineTokenRefreshSkewMs :: string
  en_publishEngineRequestTimeoutMs :: int
  en_publishEngineMaxRetries :: int
  en_publishEngineRetryBaseDelayMs :: int
  en_publishEngineRetryMaxDelayMs :: int

record ai_settings =
  en_aiProvider :: string
  en_openAiApiKey :: string
  en_openAiModel :: string
  en_openAiTimeoutMs :: int
  en_pipelineVersion :: string
  en_mockAiMode :: mock_mode

record environment =
  en_server :: server_settings
  en_worker :: worker_settings
  en_publish :: publish_settings
  en_engine :: engine_settings
  en_ai :: ai_settings

definition server_schema :: "(string \<Rightarrow> js_number) \<Rightarrow> process_env \<Rightarrow> server_settings option" where
  "server_schema number env =
     Option.bind (env_choice env [''development'', ''test'', ''production''] (Some ''development'') ''NODE_ENV'') (\<lambda>nodeEnv.
     Option.bind (env_text env ''0.0.0.0'' ''HOST'') (\<lambda>host.
     Option.bind (env_int number env 1 65535 (Some 3000) ''PORT'') (\<lambda>port.
     Option.bind (Option.bind (env ''DATABASE_URL'') znonempty) (\<lambda>databaseUrl.
     Option.bind (env_int number env 1 100 None ''DATABASE_MAX_CONNECTIONS'') (\<lambda>maxConnections.
     Option.bind (env_bool env None ''DATABASE_SSL'') (\<lambda>ssl.
       if starts_with ''postgresql://'' databaseUrl \<or> starts_with ''postgres://'' databaseUrl
       then Some \<lparr>en_nodeEnv = nodeEnv, en_host = host, en_port = port, en_databaseUrl = databaseUrl,
              en_databaseMaxConnections = maxConnections, en_databaseSsl = ssl\<rparr>
       else None))))))"

definition worker_schema :: "(string \<Rightarrow> js_number) \<Rightarrow> process_env \<Rightarrow> worker_settings option" where
  "worker_schema number env =
     Option.bind (env_positive number env 1000 ''WORKER_POLL_INTERVAL_MS'') (\<lambda>poll.
     Option.bind (env_text env ''roam-content-worker'' ''WORKER_NAME'') (\<lambda>name.
     Option.bind (env_positive number env 30000 ''WORKER_LEASE_DURATION_MS'') (\<lambda>lease.
     Option.bind (env_positive number env 10000 ''WORKER_HEARTBEAT_INTERVAL_MS'') (\<lambda>heartbeat.
     Option.bind (env_positive number env 5 ''WORKER_MAX_ATTEMPTS'') (\<lambda>attempts.
     Option.bind (env_positive number env 1 ''WORKER_CONCURRENCY'') (\<lambda>concurrency.
     Option.bind (env_positive number env 30000 ''WORKER_SHUTDOWN_TIMEOUT_MS'') (\<lambda>shutdown.
     Option.bind (env_positive number env 1000 ''WORKER_RETRY_BASE_DELAY_MS'') (\<lambda>base.
     Option.bind (env_positive number env 60000 ''WORKER_RETRY_MAX_DELAY_MS'') (\<lambda>cap.
     Option.bind (env_positive number env 30000 ''WORKER_STALE_RECOVERY_INTERVAL_MS'') (\<lambda>stale.
       Some \<lparr>en_workerPollIntervalMs = poll, en_workerName = name, en_workerLeaseDurationMs = lease,
         en_workerHeartbeatIntervalMs = heartbeat, en_workerMaxAttempts = attempts, en_workerConcurrency = concurrency,
         en_workerShutdownTimeoutMs = shutdown, en_workerRetryBaseDelayMs = base, en_workerRetryMaxDelayMs = cap,
         en_workerStaleRecoveryIntervalMs = stale\<rparr>))))))))))"

definition publish_schema :: "(string \<Rightarrow> js_number) \<Rightarrow> process_env \<Rightarrow> publish_settings option" where
  "publish_schema number env =
     Option.bind (env_bool env (Some ''false'') ''PUBLISH_WORKER_ENABLED'') (\<lambda>enabled.
     Option.bind (env_text env ''roam-content-publish-worker'' ''PUBLISH_WORKER_NAME'') (\<lambda>name.
     Option.bind (env_int number env 100 max_safe_integer (Some 2000) ''PUBLISH_JOB_POLL_INTERVAL_MS'') (\<lambda>poll.
     Option.bind (env_positive number env 5 ''PUBLISH_JOB_MAX_CONSECUTIVE_FAILURES'') (\<lambda>failures.
     Option.bind (env_positive number env 30000 ''PUBLISH_JOB_LEASE_DURATION_MS'') (\<lambda>lease.
     Option.bind (env_positive number env 10000 ''PUBLISH_JOB_HEARTBEAT_INTERVAL_MS'') (\<lambda>heartbeat.
     Option.bind (env_positive number env 1000 ''PUBLISH_JOB_RETRY_BASE_DELAY_MS'') (\<lambda>base.
     Option.bind (env_positive number env 60000 ''PUBLISH_JOB_RETRY_MAX_DELAY_MS'') (\<lambda>cap.
     Option.bind (env_positive number env 30000 ''PUBLISH_JOB_STALE_RECOVERY_INTERVAL_MS'') (\<lambda>stale.
     Option.bind (env_positive number env 1 ''PUBLISH_JOB_CONCURRENCY'') (\<lambda>concurrency.
     Option.bind (env_positive number env 30000 ''PUBLISH_JOB_SHUTDOWN_TIMEOUT_MS'') (\<lambda>shutdown.
       Some \<lparr>en_publishWorkerEnabled = enabled, en_publishWorkerName = name, en_publishJobPollIntervalMs = poll,
         en_publishJobMaxConsecutiveFailures = failures, en_publishJobLeaseDurationMs = lease,
         en_publishJobHeartbeatIntervalMs = heartbeat, en_publishJobRetryBaseDelayMs = base,
         en_publishJobRetryMaxDelayMs = cap, en_publishJobStaleRecoveryIntervalMs = stale,
         en_publishJobConcurrency = concurrency, en_publishJobShutdownTimeoutMs = shutdown\<rparr>)))))))))))"

definition engine_schema :: "(string \<Rightarrow> js_number) \<Rightarrow> process_env \<Rightarrow> engine_settings option" where
  "engine_schema number env =
     Option.bind (env_trimmed env [] ''PUBLISH_ENGINE_BASE_URL'') (\<lambda>baseUrl.
     Option.bind (env_trimmed env [] ''PUBLISH_ENGINE_SCOPE'') (\<lambda>scope.
     Option.bind (env_trimmed env [] ''PUBLISH_ENGINE_IDENTITY_MODE'') (\<lambda>identityMode.
     Option.bind (env_trimmed env [] ''PUBLISH_ENGINE_MANAGED_IDENTITY_CLIENT_ID'') (\<lambda>clientId.
     Option.bind (env_trimmed env ''300000'' ''PUBLISH_ENGINE_TOKEN_REFRESH_SKEW_MS'') (\<lambda>skew.
     Option.bind (env_int number env 1 300000 (Some 30000) ''PUBLISH_ENGINE_REQUEST_TIMEOUT_MS'') (\<lambda>timeout.
     Option.bind (env_int number env 0 10 (Some 3) ''PUBLISH_ENGINE_MAX_RETRIES'') (\<lambda>retries.
     Option.bind (env_positive number env 250 ''PUBLISH_ENGINE_RETRY_BASE_DELAY_MS'') (\<lambda>base.
     Option.bind (env_positive number env 5000 ''PUBLISH_ENGINE_RETRY_MAX_DELAY_MS'') (\<lambda>cap.
       Some \<lparr>en_publishEngineBaseUrl = baseUrl, en_publishEngineScope = scope, en_publishEngineIdentityMode = identityMode,
         en_publishEngineManagedIdentityClientId = clientId, en_publishEngineTokenRefreshSkewMs = skew,
         en_publishEngineRequestTimeoutMs = timeout, en_publishEngineMaxRetries = retries,
         en_publishEngineRetryBaseDelayMs = base, en_publishEngineRetryMaxDelayMs = cap\<rparr>)))))))))"

fun mock_mode_of :: "string \<Rightarrow> mock_mode" where
  "mock_mode_of s =
     (if s = ''retryable-failure'' then MockRetryableFailure
      else if s = ''permanent-failure'' then MockPermanentFailure
      else if s = ''timeout'' then MockTimeout
      else if s = ''malformed-output'' then MockMalformedOutput else MockSuccess)"

definition ai_schema :: "(string \<Rightarrow> js_number) \<Rightarrow> process_env \<Rightarrow> ai_settings option" where
  "ai_schema number env =
     Option.bind (Option.bind (env_trimmed env ''mock'' ''AI_PROVIDER'') (zenum [''mock'', ''openai''])) (\<lambda>provider.
     Option.bind (env_trimmed env [] ''OPENAI_API_KEY'') (\<lambda>key.
     Option.bind (env_trimmed_nonempty env ''gpt-4o-mini'' ''OPENAI_MODEL'') (\<lambda>model.
     Option.bind (env_int number env 1 300000 (Some 30000) ''OPENAI_TIMEOUT_MS'') (\<lambda>timeout.
     Option.bind (env_trimmed_nonempty env ''1.0.0'' ''PIPELINE_VERSION'') (\<lambda>version.
     Option.bind (env_choice env [''success'', ''retryable-failure'', ''permanent-failure'', ''timeout'', ''malformed-output'']
         (Some ''success'') ''MOCK_AI_MODE'') (\<lambda>mode.
       Some \<lparr>en_aiProvider = provider, en_openAiApiKey = key, en_openAiModel = model, en_openAiTimeoutMs = timeout,
         en_pipelineVersion = version, en_mockAiMode = mock_mode_of mode\<rparr>))))))"

text \<open>The rules between the variables.\<close>

definition environment_rules :: "environment \<Rightarrow> bool" where
  "environment_rules e \<longleftrightarrow>
     \<not> en_workerLeaseDurationMs (en_worker e) \<le> en_workerHeartbeatIntervalMs (en_worker e)
     \<and> \<not> en_workerRetryMaxDelayMs (en_worker e) < en_workerRetryBaseDelayMs (en_worker e)
     \<and> \<not> en_publishJobLeaseDurationMs (en_publish e) \<le> en_publishJobHeartbeatIntervalMs (en_publish e)
     \<and> \<not> en_publishJobRetryMaxDelayMs (en_publish e) < en_publishJobRetryBaseDelayMs (en_publish e)
     \<and> \<not> en_publishEngineRetryMaxDelayMs (en_engine e) < en_publishEngineRetryBaseDelayMs (en_engine e)
     \<and> \<not> (en_aiProvider (en_ai e) = ''openai'' \<and> js_trim (en_openAiApiKey (en_ai e)) = [])"

definition environmentSchema :: "(string \<Rightarrow> js_number) \<Rightarrow> process_env \<Rightarrow> environment option" where
  "environmentSchema number env =
     Option.bind (server_schema number env) (\<lambda>server.
     Option.bind (worker_schema number env) (\<lambda>worker.
     Option.bind (publish_schema number env) (\<lambda>publish.
     Option.bind (engine_schema number env) (\<lambda>engine.
     Option.bind (ai_schema number env) (\<lambda>ai.
       let e = \<lparr>en_server = server, en_worker = worker, en_publish = publish, en_engine = engine, en_ai = ai\<rparr>
       in if environment_rules e then Some e else None)))))"

subsection \<open>What an accepted environment guarantees\<close>

lemma bind_SomeE: "Option.bind x f = Some y \<Longrightarrow> (\<And>v. x = Some v \<Longrightarrow> f v = Some y \<Longrightarrow> P) \<Longrightarrow> P"
  by (auto simp: bind_eq_Some_conv)

lemma bind_intE:
  "Option.bind (env_int number env lo hi (Some d) name) f = Some y \<Longrightarrow> lo \<le> d \<Longrightarrow> d \<le> hi
     \<Longrightarrow> (\<And>v. lo \<le> v \<Longrightarrow> v \<le> hi \<Longrightarrow> f v = Some y \<Longrightarrow> P) \<Longrightarrow> P"
  by (auto simp: bind_eq_Some_conv env_int_def int_between_Some split: option.splits)

lemma bind_positiveE:
  "Option.bind (env_positive number env d name) f = Some y \<Longrightarrow> 1 \<le> d \<Longrightarrow> (\<And>v. 1 \<le> v \<Longrightarrow> f v = Some y \<Longrightarrow> P) \<Longrightarrow> P"
  by (auto simp: bind_eq_Some_conv env_positive_def env_int_def int_between_Some split: option.splits)

lemma worker_schema_positive:
  assumes "worker_schema number env = Some w"
  shows "1 \<le> en_workerPollIntervalMs w \<and> 1 \<le> en_workerLeaseDurationMs w \<and> 1 \<le> en_workerHeartbeatIntervalMs w
    \<and> 1 \<le> en_workerMaxAttempts w \<and> 1 \<le> en_workerConcurrency w \<and> 1 \<le> en_workerShutdownTimeoutMs w
    \<and> 1 \<le> en_workerRetryBaseDelayMs w \<and> 1 \<le> en_workerStaleRecoveryIntervalMs w"
  using assms unfolding worker_schema_def
  by (elim bind_positiveE bind_SomeE; simp) auto

lemma publish_schema_positive:
  assumes "publish_schema number env = Some w"
  shows "100 \<le> en_publishJobPollIntervalMs w \<and> 1 \<le> en_publishJobLeaseDurationMs w \<and> 1 \<le> en_publishJobHeartbeatIntervalMs w
    \<and> 1 \<le> en_publishJobMaxConsecutiveFailures w \<and> 1 \<le> en_publishJobConcurrency w \<and> 1 \<le> en_publishJobShutdownTimeoutMs w
    \<and> 1 \<le> en_publishJobRetryBaseDelayMs w \<and> 1 \<le> en_publishJobStaleRecoveryIntervalMs w"
  using assms unfolding publish_schema_def
  by (elim bind_positiveE bind_intE bind_SomeE; simp add: max_safe_integer_def) auto

lemma engine_schema_bounds:
  assumes "engine_schema number env = Some g"
  shows "1 \<le> en_publishEngineRequestTimeoutMs g \<and> en_publishEngineRequestTimeoutMs g \<le> 300000
    \<and> 0 \<le> en_publishEngineMaxRetries g \<and> en_publishEngineMaxRetries g \<le> 10 \<and> 1 \<le> en_publishEngineRetryBaseDelayMs g"
  using assms unfolding engine_schema_def
  by (elim bind_positiveE bind_intE bind_SomeE; simp) auto

lemma environment_parts:
  assumes "environmentSchema number env = Some e"
  shows "server_schema number env = Some (en_server e)" and "worker_schema number env = Some (en_worker e)"
    and "publish_schema number env = Some (en_publish e)" and "engine_schema number env = Some (en_engine e)"
    and "ai_schema number env = Some (en_ai e)" and "environment_rules e"
  using assms unfolding environmentSchema_def by (auto simp: bind_eq_Some_conv Let_def split: if_splits)

lemma ai_schema_known:
  assumes "ai_schema number env = Some a"
  shows "en_aiProvider a = ''mock'' \<or> en_aiProvider a = ''openai''"
proof -
  from assms obtain v where "zenum [''mock'', ''openai''] v = Some (en_aiProvider a)"
    unfolding ai_schema_def by (elim bind_SomeE) auto
  then show ?thesis by (auto simp: zenum_def split: if_splits)
qed

end
