(* ===== verification/TextCounts.thy ===== *)
theory TextCounts
  imports Transcript
begin

text \<open>
  The counts of words, paragraphs and lines of a transcript
  (\<open>src/infrastructure/workers/deterministic-transcript-processor.ts\<close>).  \<open>split_with\<close> is
  \<open>String.prototype.split\<close> with a pattern that matches no empty text: \<open>m s\<close> is \<open>Some n\<close> when the
  pattern matches the first character of \<open>s\<close> and the \<open>n\<close> after it.
\<close>

subsection \<open>Splitting\<close>

function split_with :: "(jstext \<Rightarrow> nat option) \<Rightarrow> jstext \<Rightarrow> jstext list" where
  "split_with m [] = [[]]"
| "split_with m (c # s) =
     (case m (c # s) of
        Some n \<Rightarrow> [] # split_with m (drop n s)
      | None \<Rightarrow> (case split_with m s of p # ps \<Rightarrow> (c # p) # ps | [] \<Rightarrow> [[c]]))"
  by pat_completeness auto

termination by (relation "measure (length \<circ> snd)") auto

text \<open>\<open>/\s+/\<close>, \<open>/\n/\<close> and \<open>/\n\s*\n/\<close>, which takes the last line feed of the white space.\<close>

fun white_run :: "jstext \<Rightarrow> nat option" where
  "white_run [] = None"
| "white_run (c # s) = (if js_space_unit c then Some (length (takeWhile js_space_unit s)) else None)"

fun line_feed :: "jstext \<Rightarrow> nat option" where
  "line_feed [] = None"
| "line_feed (c # s) = (if c = 10 then Some 0 else None)"

fun paragraph_break :: "jstext \<Rightarrow> nat option" where
  "paragraph_break [] = None"
| "paragraph_break (c # s) =
     (let white = takeWhile js_space_unit s in
      if c = 10 \<and> 10 \<in> set white
      then Some (length white - length (takeWhile (\<lambda>u. u \<noteq> 10) (rev white))) else None)"

definition nonblank :: "jstext \<Rightarrow> bool" where
  "nonblank part \<longleftrightarrow> js_trim_text part \<noteq> []"

definition count_words :: "jstext \<Rightarrow> nat" where
  "count_words normalized =
     (if normalized = [] then 0 else length (filter (\<lambda>part. part \<noteq> []) (split_with white_run normalized)))"

definition count_paragraphs :: "jstext \<Rightarrow> nat" where
  "count_paragraphs normalized =
     (if normalized = [] then 0 else length (filter nonblank (split_with paragraph_break normalized)))"

definition count_lines :: "jstext \<Rightarrow> nat" where
  "count_lines normalized =
     (if normalized = [] then 0 else length (filter nonblank (split_with line_feed normalized)))"

subsection \<open>Pieces and separators\<close>

text \<open>A separator: what the pattern matches at the start of \<open>sep @ rest\<close>.\<close>

definition separates :: "(jstext \<Rightarrow> nat option) \<Rightarrow> jstext \<Rightarrow> jstext \<Rightarrow> bool" where
  "separates m sep rest \<longleftrightarrow> (\<exists>c s n. sep @ rest = c # s \<and> m (c # s) = Some n \<and> sep = c # take n s \<and> rest = drop n s)"

lemma split_with_nonempty [simp]: "split_with m t \<noteq> []"
  by (cases t) (auto split: option.split list.split)

lemma split_cases:
  "split_with m t = [t]
    \<or> (\<exists>p sep rest. t = p @ sep @ rest \<and> split_with m t = p # split_with m rest \<and> separates m sep rest)"
proof (induction t)
  case (Cons c s)
  show ?case
  proof (cases "m (c # s)")
    case (Some n)
    then have "separates m (c # take n s) (drop n s)" by (force simp: separates_def)
    moreover have "c # s = [] @ (c # take n s) @ drop n s" by simp
    ultimately show ?thesis using Some by (metis option.simps(5) split_with.simps(2))
  next
    case None
    from Cons consider "split_with m s = [s]"
      | p sep rest where "s = p @ sep @ rest" "split_with m s = p # split_with m rest" "separates m sep rest" by blast
    then show ?thesis
    proof cases
      case 2
      then have "c # s = (c # p) @ sep @ rest" "split_with m (c # s) = (c # p) # split_with m rest"
        using None by simp_all
      then show ?thesis using 2(3) by blast
    qed (simp add: None)
  qed
qed simp

lemma separates_length: "separates m sep rest \<Longrightarrow> length rest < length (sep @ rest)"
  by (auto simp: separates_def)

lemma split_induct [case_names Last More]:
  assumes "\<And>t. split_with m t = [t] \<Longrightarrow> P t"
    and "\<And>p sep rest. split_with m (p @ sep @ rest) = p # split_with m rest \<Longrightarrow> separates m sep rest \<Longrightarrow> P rest
      \<Longrightarrow> P (p @ sep @ rest)"
  shows "P t"
proof (induction "length t" arbitrary: t rule: less_induct)
  case less
  from split_cases [of m t] show ?case
  proof
    assume "\<exists>p sep rest. t = p @ sep @ rest \<and> split_with m t = p # split_with m rest \<and> separates m sep rest"
    then obtain p sep rest where t: "t = p @ sep @ rest" "split_with m t = p # split_with m rest" "separates m sep rest"
      by blast
    then have "length rest < length t" using separates_length by fastforce
    then show ?thesis using assms(2) [OF _ t(3)] less t by simp
  qed (rule assms(1))
qed

text \<open>A count that separators split bounds the number of pieces of a kind it counts at least once.\<close>

locale piece_count =
  fixes m :: "jstext \<Rightarrow> nat option"
    and f :: "jstext \<Rightarrow> nat"
    and q :: "jstext \<Rightarrow> bool"
  assumes separated: "separates m sep rest \<Longrightarrow> f p + f rest \<le> f (p @ sep @ rest)"
    and counted: "q p \<Longrightarrow> Suc 0 \<le> f p"
begin

lemma bound: "length (filter q (split_with m t)) \<le> f t"
proof (induction t rule: split_induct [of m])
  case (Last t)
  then show ?case using counted by simp
next
  case (More p sep rest)
  then show ?case using separated [OF More(2), of p] counted [of p] by fastforce
qed

end

lemma split_finds:
  assumes "\<And>sep rest. separates m sep rest \<Longrightarrow> \<forall>u \<in> set sep. js_space_unit u"
    and "\<exists>u \<in> set t. \<not> js_space_unit u"
  shows "\<exists>p \<in> set (split_with m t). \<exists>u \<in> set p. \<not> js_space_unit u"
  using assms(2)
proof (induction t rule: split_induct [of m])
  case (More p sep rest)
  then show ?case using assms(1) [OF More(2)] by auto
qed auto

subsection \<open>Blank texts\<close>

lemma trim_by_Nil: "trim_by ws xs = [] \<longleftrightarrow> (\<forall>x \<in> set xs. ws x)"
proof
  assume "\<forall>x \<in> set xs. ws x"
  then have "dropWhile ws xs = []" unfolding dropWhile_eq_Nil_conv .
  then show "trim_by ws xs = []" unfolding trim_by_def by (simp only:) simp
next
  assume "trim_by ws xs = []"
  then have "\<forall>x \<in> set (dropWhile ws xs). ws x" by (simp add: trim_by_def)
  then have "dropWhile ws xs = []" by (metis hd_dropWhile hd_in_set)
  then show "\<forall>x \<in> set xs. ws x" by simp
qed

lemma nonblank_iff: "nonblank part \<longleftrightarrow> (\<exists>u \<in> set part. \<not> js_space_unit u)"
  by (simp add: nonblank_def js_trim_text_def trim_by_Nil)

lemma white_separates:
  assumes "separates white_run sep rest"
  shows "\<forall>u \<in> set sep. js_space_unit u" and "sep \<noteq> []"
  using assms by (auto simp: separates_def split: if_splits) (metis in_set_takeD set_takeWhileD takeWhile_eq_take)

lemma newline_space [simp]: "js_space_unit 10"
  by (simp add: js_space_unit_def)

lemma line_separates: "separates line_feed sep rest \<longleftrightarrow> sep = [10]"
  by (auto simp: separates_def split: if_splits)

lemma break_shape:
  assumes "10 \<in> set white"
  shows "\<exists>white'. take (length white - length (takeWhile (\<lambda>u. u \<noteq> 10) (rev white))) white = white' @ [10]"
proof -
  let ?d = "dropWhile (\<lambda>u. u \<noteq> 10) (rev white)"
  have "rev white = takeWhile (\<lambda>u. u \<noteq> 10) (rev white) @ ?d" by simp
  then have w: "white = rev ?d @ rev (takeWhile (\<lambda>u. u \<noteq> 10) (rev white))" by (metis rev_append rev_rev_ident)
  have "?d \<noteq> []" using assms by simp
  moreover have "hd ?d = 10" using hd_dropWhile [of "\<lambda>u. u \<noteq> 10" "rev white"] \<open>?d \<noteq> []\<close> by blast
  ultimately obtain ds where d: "?d = 10 # ds" by (cases ?d) auto
  have "length white - length (takeWhile (\<lambda>u. u \<noteq> 10) (rev white)) = length (rev ?d)"
    using arg_cong [OF w, of length] by simp
  then have "take (length white - length (takeWhile (\<lambda>u. u \<noteq> 10) (rev white))) white = rev ?d"
    using w by (metis append_eq_conv_conj)
  then show ?thesis using d by auto
qed

lemma break_separates:
  assumes "separates paragraph_break sep rest"
  shows "\<exists>white. sep = 10 # white @ [10] \<and> (\<forall>u \<in> set white. js_space_unit u)"
proof -
  from assms obtain c s n where c: "paragraph_break (c # s) = Some n" "sep = c # take n s"
    unfolding separates_def by blast
  have "c = 10" using c(1) by (cases "c = 10") (simp_all add: Let_def)
  with c have s: "paragraph_break (10 # s) = Some n" "sep = 10 # take n s" by simp_all
  let ?w = "takeWhile js_space_unit s"
  from s(1) have n: "10 \<in> set ?w" "n = length ?w - length (takeWhile (\<lambda>u. u \<noteq> 10) (rev ?w))"
    by (auto simp: Let_def split: if_splits)
  have "n \<le> length ?w" using n(2) by simp
  then have "take n (?w @ dropWhile js_space_unit s) = take n ?w" unfolding take_append by simp
  then have w: "take n s = take n ?w" unfolding takeWhile_dropWhile_id .
  obtain white where w: "take n s = white @ [10]" "set white \<subseteq> set ?w"
    using break_shape [OF n(1)] n(2) w by (metis Un_subset_iff set_append set_take_subset)
  then show ?thesis using s(2) by (auto dest: set_takeWhileD)
qed

subsection \<open>Words\<close>

text \<open>A word ends where white space or the end of the text follows.\<close>

fun word_ends :: "jstext \<Rightarrow> nat" where
  "word_ends [] = 0"
| "word_ends (c # s) = (if \<not> js_space_unit c \<and> (s = [] \<or> js_space_unit (hd s)) then 1 else 0) + word_ends s"

lemma word_ends_append: "js_space_unit c \<Longrightarrow> word_ends (p @ c # rest) = word_ends p + word_ends rest"
  by (induction p) (auto simp: hd_append)

lemma word_ends_drop: "word_ends (dropWhile js_space_unit s) = word_ends s"
  by (induction s) auto

lemma drop_white: "drop (length (takeWhile js_space_unit s)) s = dropWhile js_space_unit s"
  by (simp add: dropWhile_eq_drop)

lemma words_are_ends:
  "length (filter (\<lambda>part. part \<noteq> []) (split_with white_run t)) = word_ends t
   \<and> (hd (split_with white_run t) = [] \<longleftrightarrow> t = [] \<or> js_space_unit (hd t))"
proof (induction t rule: length_induct)
  case (1 t)
  show ?case
  proof (cases t)
    case (Cons c s)
    show ?thesis
    proof (cases "js_space_unit c")
      case True
      have "length (dropWhile js_space_unit s) < length t" using Cons by (simp add: le_imp_less_Suc length_dropWhile_le)
      with 1 True show ?thesis by (simp add: Cons drop_white word_ends_drop)
    next
      case False
      obtain p ps where p: "split_with white_run s = p # ps" by (cases "split_with white_run s") auto
      have "length s < length t" by (simp add: Cons)
      with 1 have "length (filter (\<lambda>part. part \<noteq> []) (p # ps)) = word_ends s" "p = [] \<longleftrightarrow> s = [] \<or> js_space_unit (hd s)"
        using p by (metis, metis list.sel(1))
      then show ?thesis using False p by (auto simp: Cons)
    qed
  qed simp
qed

lemma count_words_ends: "count_words t = word_ends t"
  using words_are_ends by (simp add: count_words_def)

lemma word_ends_pos: "\<exists>u \<in> set p. \<not> js_space_unit u \<Longrightarrow> Suc 0 \<le> word_ends p"
  by (induction p) (auto simp: neq_Nil_conv Suc_le_eq dest: gr0_conv_Suc [THEN iffD1])

lemma word_ends_length: "word_ends t \<le> length t"
  by (induction t) auto

subsection \<open>Lines\<close>

lemma lines_append: "split_with line_feed (p @ 10 # rest) = split_with line_feed p @ split_with line_feed rest"
proof (induction p)
  case (Cons c p)
  then show ?case by (cases "split_with line_feed p") (auto split: option.split)
qed simp

definition nonblank_lines :: "jstext \<Rightarrow> nat" where
  "nonblank_lines t = length (filter nonblank (split_with line_feed t))"

lemma nonblank_lines_append: "nonblank_lines (p @ 10 # rest) = nonblank_lines p + nonblank_lines rest"
  by (simp add: nonblank_lines_def lines_append)

lemma nonblank_lines_pos:
  assumes "nonblank p"
  shows "Suc 0 \<le> nonblank_lines p"
proof -
  have "\<exists>q \<in> set (split_with line_feed p). nonblank q"
    using split_finds [of line_feed p] assms by (auto simp: line_separates nonblank_iff)
  then have "filter nonblank (split_with line_feed p) \<noteq> []" by (auto simp: filter_empty_conv)
  then show ?thesis by (simp add: nonblank_lines_def Suc_le_eq)
qed

interpretation lines: piece_count line_feed word_ends nonblank
  by unfold_locales (simp_all add: line_separates word_ends_append nonblank_iff word_ends_pos)

lemma nonblank_lines_break:
  assumes "separates paragraph_break sep rest"
  shows "nonblank_lines p + nonblank_lines rest \<le> nonblank_lines (p @ sep @ rest)"
proof -
  obtain white where sep: "sep = 10 # white @ [10]" using break_separates [OF assms] by blast
  have "nonblank_lines (p @ 10 # (white @ 10 # rest)) = nonblank_lines p + (nonblank_lines white + nonblank_lines rest)"
    by (simp only: nonblank_lines_append)
  then show ?thesis by (simp add: sep)
qed

interpretation paragraphs: piece_count paragraph_break nonblank_lines nonblank
  by unfold_locales (simp_all only: nonblank_lines_break nonblank_lines_pos)

lemma paragraphs_pos:
  assumes "\<exists>u \<in> set t. \<not> js_space_unit u"
  shows "Suc 0 \<le> length (filter nonblank (split_with paragraph_break t))"
proof -
  have "\<forall>u \<in> set sep. js_space_unit u" if "separates paragraph_break sep rest" for sep rest
    using break_separates [OF that] by auto
  then have "\<exists>q \<in> set (split_with paragraph_break t). nonblank q"
    using split_finds [of paragraph_break t] assms by (auto simp: nonblank_iff)
  then have "filter nonblank (split_with paragraph_break t) \<noteq> []" by (auto simp: filter_empty_conv)
  then show ?thesis by (simp add: Suc_le_eq)
qed

subsection \<open>The order of the counts\<close>

text \<open>
  The statistics of a transcript are in order.  A text that is not blank has a paragraph, at
  least as many lines as paragraphs, words as lines and characters as words; the words are counted
  by the places where a character is the last before white space or the end.
\<close>

theorem counts_in_order:
  assumes "normalizeTranscript transcript \<noteq> []"
  shows "1 \<le> count_paragraphs (normalizeTranscript transcript)
    \<and> count_paragraphs (normalizeTranscript transcript) \<le> count_lines (normalizeTranscript transcript)
    \<and> count_lines (normalizeTranscript transcript) \<le> count_words (normalizeTranscript transcript)
    \<and> count_words (normalizeTranscript transcript) \<le> length (normalizeTranscript transcript)
    \<and> count_words (normalizeTranscript transcript) = word_ends (normalizeTranscript transcript)"
proof -
  let ?t = "normalizeTranscript transcript"
  have "trim_by js_space_unit ?t \<noteq> []"
    using normalizeTranscript_trimmed [of transcript] assms by (simp add: js_trim_text_def)
  then have "\<exists>u \<in> set ?t. \<not> js_space_unit u" by (simp add: trim_by_Nil)
  then show ?thesis
    using paragraphs_pos [of ?t] paragraphs.bound [of ?t] lines.bound [of ?t] word_ends_length [of ?t] assms
    by (simp add: count_paragraphs_def count_lines_def count_words_ends nonblank_lines_def)
qed

lemma demo_counts:
  "count_paragraphs [97, 32, 98, 10, 32, 10, 10, 99, 10, 100] = 2"
  "count_lines [97, 32, 98, 10, 32, 10, 10, 99, 10, 100] = 3"
  "count_words [97, 32, 98, 10, 32, 10, 10, 99, 10, 100] = 4"
  by code_simp+

lemma counts_in_order_witness:
  "count_paragraphs (normalizeTranscript [97, 32, 98, 10, 32, 10, 10, 99, 10, 100]) = 2
   \<and> count_lines (normalizeTranscript [97, 32, 98, 10, 32, 10, 10, 99, 10, 100]) = 3
   \<and> count_words (normalizeTranscript [97, 32, 98, 10, 32, 10, 10, 99, 10, 100]) = 4
   \<and> 1 \<le> count_paragraphs (normalizeTranscript [97, 32, 98, 10, 32, 10, 10, 99, 10, 100])"
proof -
  have n: "normalizeTranscript [97, 32, 98, 10, 32, 10, 10, 99, 10, 100] = [97, 32, 98, 10, 32, 10, 10, 99, 10, 100]"
    by code_simp
  then have "normalizeTranscript [97, 32, 98, 10, 32, 10, 10, 99, 10, 100] \<noteq> []" by simp
  from conjunct1 [OF counts_in_order [OF this]] show ?thesis
    unfolding n using demo_counts by simp
qed

end
