(* ===== verification/TranscriptProcessor.thy ===== *)
theory TranscriptProcessor
  imports TextCounts ContentExecutor HtmlComposer CtaGuide Renderers SettledSchemas
begin

text \<open>
  The processor of transcript jobs
  (\<open>src/infrastructure/workers/deterministic-transcript-processor.ts\<close>) and its run under the job
  executor.  The AI result and the publication of a result are JSON values there, given by
  \<open>pc_aiJson\<close> and \<open>pc_publicationJson\<close>.
\<close>

subsection \<open>Errors\<close>

fun ai_error_code :: "ai_error_kind \<Rightarrow> error_code" where
  "ai_error_code AIValidation = AI_VALIDATION_ERROR"
| "ai_error_code AIProviderUnavailable = AI_PROVIDER_UNAVAILABLE"
| "ai_error_code AIRateLimit = AI_RATE_LIMIT"
| "ai_error_code AIAuthentication = AI_AUTHENTICATION_ERROR"
| "ai_error_code AITimeout = AI_TIMEOUT"
| "ai_error_code AIPermanent = AI_PERMANENT_ERROR"

text \<open>An error that no branch of a \<open>catch\<close> knows is thrown again; those of the schema library have no code.\<close>

fun ai_failure :: "ai_thrown \<Rightarrow> worker_error" where
  "ai_failure (AIProviderError kind message) =
     (if kind = AIProviderUnavailable \<or> kind = AIRateLimit \<or> kind = AITimeout
      then RetryableWorkerError message (code_value (ai_error_code kind))
      else PermanentWorkerError message (code_value (ai_error_code kind)))"
| "ai_failure (AICancelled message) = WorkerCancelledError"
| "ai_failure AISchemaError = OtherThrown None"
| "ai_failure (AIOtherThrown code) = OtherThrown code"

definition permanent :: "string \<Rightarrow> error_code \<Rightarrow> worker_error" where
  "permanent message code = PermanentWorkerError message (code_value code)"

definition publication_failure :: "bool \<Rightarrow> publication_error \<Rightarrow> worker_error" where
  "publication_failure aborted e =
     (if e = PublicationCancelledError \<or> aborted then WorkerCancelledError
      else case e of
        PublicationValidationError m \<Rightarrow> permanent ''Publication validation failed.'' PUBLICATION_VALIDATION_ERROR
      | UnsupportedPublicationTypeError t \<Rightarrow> permanent ''Unsupported publication type.'' PUBLICATION_UNSUPPORTED_TYPE
      | PublicationBuildError \<Rightarrow> permanent ''Publication build failed.'' PUBLICATION_BUILD_ERROR
      | _ \<Rightarrow> OtherThrown None)"

definition html_failure :: "bool \<Rightarrow> html_error \<Rightarrow> worker_error" where
  "html_failure aborted e =
     (if aborted then WorkerCancelledError
      else case e of
        HtmlCancelledError m \<Rightarrow> WorkerCancelledError
      | HtmlValidationError m \<Rightarrow> permanent ''HTML document validation failed.'' HTML_VALIDATION_ERROR
      | UnsupportedHtmlElementError m \<Rightarrow> permanent ''HTML document uses unsupported element mappings.'' HTML_UNSUPPORTED_ELEMENT
      | HtmlCompositionError m \<Rightarrow> permanent ''HTML document composition failed.'' HTML_COMPOSITION_ERROR)"

definition render_failure :: "bool \<Rightarrow> render_error \<Rightarrow> worker_error" where
  "render_failure aborted e =
     (if e = RenderCancelledError \<or> aborted then WorkerCancelledError
      else case e of
        RenderValidationError m \<Rightarrow> permanent ''Render request validation failed.'' RENDER_VALIDATION_ERROR
      | UnsupportedRenderFormatError \<Rightarrow> permanent ''Render format is not supported.'' UNSUPPORTED_FORMAT
      | UnsupportedRenderThemeError \<Rightarrow> permanent ''Render theme is not supported.'' UNSUPPORTED_THEME
      | InvalidRenderAssetError \<Rightarrow> permanent ''Render assets are invalid.'' INVALID_ASSET
      | RenderFailedError \<Rightarrow> permanent ''Rendering failed.'' RENDER_FAILED
      | _ \<Rightarrow> OtherThrown None)"

subsection \<open>The processor\<close>

text \<open>
  What the processor is constructed with: a pipeline is a provider, a pipeline version and a time
  limit; the generator, the composer and the renderer are there or not.
\<close>

record processor_config =
  pc_sha256 :: "jstext \<Rightarrow> string"
  pc_datetime :: "string \<Rightarrow> bool"
  pc_isUrl :: "string \<Rightarrow> bool"
  pc_isoDate :: "string \<Rightarrow> bool"
  pc_lib :: url_library
  pc_pipeline :: "(ai_provider \<times> string \<times> int) option"
  pc_hasGenerator :: bool
  pc_generatedAt :: string
  pc_hasComposer :: bool
  pc_renderer :: "renderer option"
  pc_services :: render_services
  pc_processedAt :: string
  pc_aiJson :: "ai_result \<Rightarrow> json"
  pc_publicationJson :: "publication \<Rightarrow> json"

definition process_source :: "bool \<Rightarrow> leased_job \<Rightarrow> db \<Rightarrow> worker_error + source_version" where
  "process_source fault job d =
     (case sv_getById fault (cj_tenantId job) (cj_sourceVersionId job) d of
        Inl e \<Rightarrow> Inl (PlatformThrown e)
      | Inr None \<Rightarrow> Inl (permanent ''Source version was not found for tenant-scoped job.'' SOURCE_VERSION_NOT_FOUND)
      | Inr (Some v) \<Rightarrow>
          if sv_projectId v \<noteq> cj_projectId job
          then Inl (permanent ''Source version does not belong to the job project.'' SOURCE_PROJECT_MISMATCH)
          else Inr v)"

definition process_ai :: "processor_config \<Rightarrow> jstext \<Rightarrow> worker_error + ai_result option" where
  "process_ai pc normalized =
     (case pc_pipeline pc of
        None \<Rightarrow> Inr None
      | Some (provider, pipelineVersion, timeoutMs) \<Rightarrow>
          (case pipeline_run (pc_datetime pc) provider pipelineVersion timeoutMs normalized of
             Inl e \<Rightarrow> Inl (ai_failure e)
           | Inr a \<Rightarrow> Inr (Some a)))"

definition process_publication ::
  "processor_config \<Rightarrow> bool \<Rightarrow> source_version \<Rightarrow> jstext \<Rightarrow> ai_result \<Rightarrow> worker_error + publication" where
  "process_publication pc aborted v normalized ai =
     (if \<not> pc_hasGenerator pc
      then Inl (permanent ''Publication generation is not configured.'' PUBLICATION_BUILD_ERROR)
      else case publication_build (pc_datetime pc) (pc_isUrl pc) aborted (pc_generatedAt pc)
          \<lparr>bi_sourceVersionId = sv_id v, bi_sourceContentHash = computeTranscriptHash (pc_sha256 pc) normalized,
           bi_aiResult = Some ai, bi_publicationType = ''cta-guide'', bi_audience = None, bi_theme = None\<rparr> of
        Inl e \<Rightarrow> Inl (publication_failure aborted e)
      | Inr p \<Rightarrow> Inr p)"

definition process_html :: "processor_config \<Rightarrow> bool \<Rightarrow> publication \<Rightarrow> worker_error + html_document" where
  "process_html pc aborted p =
     (if \<not> pc_hasComposer pc then Inl (permanent ''HTML composition is not configured.'' HTML_COMPOSITION_ERROR)
      else case html_compose (pc_lib pc) (pc_datetime pc) (pc_isUrl pc) aborted aborted p of
        Inl e \<Rightarrow> Inl (html_failure aborted e)
      | Inr d \<Rightarrow> Inr d)"

definition render_request_of :: "renderer \<Rightarrow> publication \<Rightarrow> html_document \<Rightarrow> render_request" where
  "render_request_of renderer p d =
     \<lparr>rr_htmlDocument = d,
      rr_metadata = \<lparr>rq_title = pd_title (pu_metadata p), rq_subtitle = pd_subtitle (pu_metadata p),
        rq_author = pd_author (pu_metadata p), rq_speaker = None, rq_organization = pd_organization (pu_metadata p),
        rq_publicationDate = pd_generatedAt (pu_metadata p), rq_language = pu_language p,
        rq_theme = pd_theme (pu_metadata p), rq_keywords = map pi_label (pu_citations p),
        rq_description = pd_subtitle (pu_metadata p),
        rq_coverImageReference = (case pv_coverImageAssetId (pu_cover p) of
            None \<Rightarrow> None
          | Some i \<Rightarrow> map_option pa_uri (find (\<lambda>a. pa_id a = i) (pu_assets p))),
        rq_copyright = None, rq_license = None\<rparr>,
      rr_format = ''html'', rr_theme = pd_theme (pu_metadata p),
      rr_presentation = (if rk_renderer (getCapabilities renderer) = ''styled-html''
        then Some \<lparr>pz_themeId = Some (pd_theme (pu_metadata p)), pz_densityId = None, pz_layoutId = None\<rparr> else None)\<rparr>"

definition process_render ::
  "(string \<Rightarrow> 'k::linorder) \<Rightarrow> processor_config \<Rightarrow> bool \<Rightarrow> publication \<Rightarrow> html_document
     \<Rightarrow> worker_error + render_artifact option" where
  "process_render collate pc aborted p d =
     (case pc_renderer pc of
        None \<Rightarrow> Inr None
      | Some renderer \<Rightarrow>
          (case render collate (pc_lib pc) (pc_datetime pc) (pc_isoDate pc) (pc_services pc) renderer aborted
              (render_request_of renderer p d) of
             Inl e \<Rightarrow> Inl (render_failure aborted e)
           | Inr a \<Rightarrow> Inr (Some a)))"

definition process_result ::
  "processor_config \<Rightarrow> bool \<Rightarrow> source_version \<Rightarrow> jstext \<Rightarrow> ai_result option \<Rightarrow> publication option
     \<Rightarrow> html_document option \<Rightarrow> render_artifact option \<Rightarrow> worker_error + processing_result" where
  "process_result pc aborted v normalized ai p d a =
     (if aborted then Inl WorkerCancelledError
      else Inr \<lparr>res_schemaVersion = ''1.0'', res_sourceVersionId = sv_id v,
        res_contentHash = computeTranscriptHash (pc_sha256 pc) normalized,
        res_wordCount = int (count_words normalized), res_characterCount = int (length normalized),
        res_paragraphCount = int (count_paragraphs normalized), res_lineCount = int (count_lines normalized),
        res_processedAt = pc_processedAt pc, res_ai = map_option (pc_aiJson pc) ai,
        res_publication = map_option (pc_publicationJson pc) p, res_htmlDocument = map_option document_json d,
        res_renderArtifact = a\<rparr>)"

text \<open>From the normalized text on; the signal is read when the pipeline has answered and when the build has.\<close>

definition process_text ::
  "(string \<Rightarrow> 'k::linorder) \<Rightarrow> processor_config \<Rightarrow> bool \<Rightarrow> bool \<Rightarrow> source_version \<Rightarrow> worker_error + processing_result" where
  "process_text collate pc abortedAtBuild abortedAfter v =
     (let normalized = normalizeTranscript (sv_transcriptText v) in
      and_then (process_ai pc normalized) (\<lambda>result.
        case result of
          None \<Rightarrow> process_result pc abortedAtBuild v normalized None None None None
        | Some ai \<Rightarrow>
            and_then (process_publication pc abortedAtBuild v normalized ai) (\<lambda>p.
            and_then (process_html pc abortedAfter p) (\<lambda>d.
            and_then (process_render collate pc abortedAfter p d) (\<lambda>a.
              process_result pc abortedAfter v normalized (Some ai) (Some p) (Some d) a)))))"

subsection \<open>The processor under the executor\<close>

text \<open>
  What happens during the awaits of \<open>process\<close>: before the source version is read, before each of its
  three calls of the executor (with their time and fate), while the pipeline runs and while the
  build is awaited.
\<close>

record process_awaits =
  aw_source :: "exec_event list"
  aw_sourceFault :: bool
  aw_stage :: "exec_event list \<times> time \<times> bool"
  aw_beat :: "exec_event list \<times> time \<times> bool"
  aw_beaten :: "exec_event list"
  aw_statistics :: "exec_event list \<times> time \<times> bool"
  aw_pipeline :: "exec_event list"
  aw_build :: "exec_event list"

definition state_after :: "result_schemas \<Rightarrow> exec_config \<Rightarrow> leased_job \<Rightarrow> exec_state \<Rightarrow> exec_event list \<Rightarrow> exec_state" where
  "state_after sch cfg job st evs = fst (exec_events sch cfg job evs (Inl WorkerCancelledError) st)"

definition calls_before_text :: "process_awaits \<Rightarrow> exec_event list" where
  "calls_before_text aw =
     (case (aw_stage aw, aw_beat aw) of ((before, t, fault), (before', t', fault')) \<Rightarrow>
        aw_source aw @ before @ [Stage CSNormalizingTranscript t fault] @ before' @ [Beat t' fault'] @ aw_beaten aw)"

definition calls_before_build :: "process_awaits \<Rightarrow> exec_event list" where
  "calls_before_build aw =
     (case aw_statistics aw of (before, t, fault) \<Rightarrow>
        calls_before_text aw @ before @ [Stage CSCalculatingStatistics t fault] @ aw_pipeline aw)"

text \<open>Whether the build is reached and gives a publication, which is then awaited.\<close>

definition publication_built :: "processor_config \<Rightarrow> bool \<Rightarrow> source_version \<Rightarrow> bool" where
  "publication_built pc aborted v =
     (let normalized = normalizeTranscript (sv_transcriptText v) in
      case process_ai pc normalized of
        Inr (Some ai) \<Rightarrow> (case process_publication pc aborted v normalized ai of Inr p \<Rightarrow> True | Inl e \<Rightarrow> False)
      | _ \<Rightarrow> False)"

text \<open>The events of an execution by the processor, and how it ends when none of them throws.\<close>

definition transcript_process ::
  "(string \<Rightarrow> 'k::linorder) \<Rightarrow> processor_config \<Rightarrow> result_schemas \<Rightarrow> exec_config \<Rightarrow> leased_job \<Rightarrow> process_awaits
     \<Rightarrow> exec_state \<Rightarrow> exec_event list \<times> (worker_error + processing_result)" where
  "transcript_process collate pc sch cfg job aw st =
     (let after = state_after sch cfg job st in
      if es_aborted st then ([], Inl WorkerCancelledError)
      else case process_source (aw_sourceFault aw) job (es_db (after (aw_source aw))) of
        Inl e \<Rightarrow> (aw_source aw, Inl e)
      | Inr v \<Rightarrow>
          if es_aborted (after (calls_before_text aw)) then (calls_before_text aw, Inl WorkerCancelledError)
          else let abortedAtBuild = es_aborted (after (calls_before_build aw));
                   events = calls_before_build aw @ (if publication_built pc abortedAtBuild v then aw_build aw else [])
               in (events, process_text collate pc abortedAtBuild (es_aborted (after events)) v))"

definition execute_transcript_job ::
  "(string \<Rightarrow> 'k::linorder) \<Rightarrow> processor_config \<Rightarrow> result_schemas \<Rightarrow> exec_config \<Rightarrow> exec_call \<Rightarrow> exec_call \<Rightarrow> leased_job
     \<Rightarrow> bool \<Rightarrow> process_awaits \<Rightarrow> db \<Rightarrow> (worker_error + job_outcome) \<times> db" where
  "execute_transcript_job collate pc sch cfg ca1 ca2 job aborted aw d =
     (case transcript_process collate pc sch cfg job aw (exec_start aborted d) of
        (events, ending) \<Rightarrow> execute sch cfg ca1 ca2 job aborted events ending d)"

text \<open>A processor without a pipeline, and one whose pipeline is given.\<close>

definition example_processor :: "(ai_provider \<times> string \<times> int) option \<Rightarrow> processor_config" where
  "example_processor pipeline =
     \<lparr>pc_sha256 = (\<lambda>_. ''h''), pc_datetime = (\<lambda>_. True), pc_isUrl = (\<lambda>_. True), pc_isoDate = (\<lambda>_. True),
      pc_lib = \<lparr>ul_parse = (\<lambda>_. None), ul_decode = Some\<rparr>, pc_pipeline = pipeline, pc_hasGenerator = False,
      pc_generatedAt = ''2026-01-01T00:00:00.000Z'', pc_hasComposer = True, pc_renderer = Some StyledHtmlRenderer,
      pc_services = \<lparr>sv_sha256 = (\<lambda>_. replicate 64 CHR ''a''), sv_base64 = id, sv_read = (\<lambda>_. None), sv_registry = [],
        sv_artifactId = ''artifact_1'', sv_nowIso = ''2026-01-01T00:00:00.000Z''\<rparr>,
      pc_processedAt = ''2026-01-01T00:00:00.000Z'', pc_aiJson = (\<lambda>_. JNull), pc_publicationJson = (\<lambda>_. JNull)\<rparr>"

definition example_awaits :: process_awaits where
  "example_awaits = \<lparr>aw_source = [], aw_sourceFault = False, aw_stage = ([], 20, False), aw_beat = ([LoopBeat 25 False], 30, False),
     aw_beaten = [], aw_statistics = ([], 35, False), aw_pipeline = [], aw_build = []\<rparr>"

definition example_execution :: "(worker_error + job_outcome) \<times> db" where
  "example_execution = execute_transcript_job example_collate (example_processor None) example_schemas (example_config 3)
     (example_call 60) (example_call 61) example_job False example_awaits example_db2"

definition example_text :: "worker_error + processing_result" where
  "example_text = process_text example_collate (example_processor None) False False example_source"

lemma example_runs:
  "fst example_execution = Inr JobDone"
  "es_db (state_after example_schemas (example_config 3) example_job (exec_start False example_db2) []) = example_db2"
  "(case example_text of Inr r \<Rightarrow> True | _ \<Rightarrow> False)"
  "sv_inv (\<lambda>_. ''h'') example_db2"
  "isPrefixedId (sv_id example_source) ''srcver''"
  by code_simp+

subsection \<open>Completed jobs\<close>

lemma process_source_Inr:
  assumes "process_source fault job d = Inr v"
  shows "v \<in> set (sourceVersions d) \<and> sv_id v = cj_sourceVersionId job \<and> sv_tenantId v = cj_tenantId job
    \<and> sv_projectId v = cj_projectId job"
  using assms by (auto simp: process_source_def sv_getById_def dest!: find_first_Some
      split: sum.splits option.splits if_splits)

lemma process_result_Inr:
  "process_result pc aborted v normalized ai p d a = Inr r \<longleftrightarrow>
     \<not> aborted \<and> r = \<lparr>res_schemaVersion = ''1.0'', res_sourceVersionId = sv_id v,
        res_contentHash = computeTranscriptHash (pc_sha256 pc) normalized,
        res_wordCount = int (count_words normalized), res_characterCount = int (length normalized),
        res_paragraphCount = int (count_paragraphs normalized), res_lineCount = int (count_lines normalized),
        res_processedAt = pc_processedAt pc, res_ai = map_option (pc_aiJson pc) ai,
        res_publication = map_option (pc_publicationJson pc) p, res_htmlDocument = map_option document_json d,
        res_renderArtifact = a\<rparr>"
  by (auto simp: process_result_def)

lemma process_text_Inr:
  assumes "process_text collate pc b1 b2 v = Inr r"
  obtains ai p d a b where
    "process_result pc b v (normalizeTranscript (sv_transcriptText v)) ai p d a = Inr r"
    "\<forall>x. ai = Some x \<longrightarrow> process_ai pc (normalizeTranscript (sv_transcriptText v)) = Inr (Some x)"
    "\<forall>x. p = Some x \<longrightarrow> (\<exists>y. process_publication pc b1 v (normalizeTranscript (sv_transcriptText v)) y = Inr x)"
    "\<forall>x. d = Some x \<longrightarrow> (\<exists>y. process_html pc b2 y = Inr x)"
    "\<forall>x. a = Some x \<longrightarrow> (\<exists>y z. process_render collate pc b2 y z = Inr (Some x))"
proof -
  let ?n = "normalizeTranscript (sv_transcriptText v)"
  from assms obtain res where ai: "process_ai pc ?n = Inr res"
    by (auto simp: process_text_def Let_def and_then_Inr)
  show thesis
  proof (cases res)
    case None
    then have "process_result pc b1 v ?n None None None None = Inr r"
      using assms ai by (simp add: process_text_def Let_def)
    then show thesis by (rule that) simp_all
  next
    case (Some x)
    with assms ai obtain p d a where s: "process_publication pc b1 v ?n x = Inr p" "process_html pc b2 p = Inr d"
      "process_render collate pc b2 p d = Inr a" "process_result pc b2 v ?n (Some x) (Some p) (Some d) a = Inr r"
      by (auto simp: process_text_def Let_def and_then_Inr)
    show thesis
    proof (rule that [OF s(4)])
      show "\<forall>y. Some x = Some y \<longrightarrow> process_ai pc ?n = Inr (Some y)" using ai Some by simp
      show "\<forall>y. Some p = Some y \<longrightarrow> (\<exists>z. process_publication pc b1 v ?n z = Inr y)" using s(1) by auto
      show "\<forall>y. Some d = Some y \<longrightarrow> (\<exists>z. process_html pc b2 z = Inr y)" using s(2) by auto
      show "\<forall>y. a = Some y \<longrightarrow> (\<exists>z z'. process_render collate pc b2 z z' = Inr (Some y))" using s(3) by auto
    qed
  qed
qed

definition stored_statistics :: "(jstext \<Rightarrow> string) \<Rightarrow> source_version \<Rightarrow> processing_result \<Rightarrow> bool" where
  "stored_statistics sha256 v r \<longleftrightarrow>
     res_sourceVersionId r = sv_id v \<and> res_contentHash r = sv_contentHash v
     \<and> res_characterCount r = int (length (sv_transcriptText v))
     \<and> 1 \<le> res_paragraphCount r \<and> res_paragraphCount r \<le> res_lineCount r \<and> res_lineCount r \<le> res_wordCount r
     \<and> res_wordCount r \<le> res_characterCount r"

lemma counts_ordered:
  assumes "normalizeTranscript t = t" and "t \<noteq> []"
  shows "1 \<le> count_paragraphs t \<and> count_paragraphs t \<le> count_lines t \<and> count_lines t \<le> count_words t \<and> count_words t \<le> length t"
proof -
  have "js_trim_text t = t" using assms(1) normalizeTranscript_trimmed [of t] by simp
  then have "\<exists>u \<in> set t. \<not> js_space_unit u" using assms(2) trim_by_Nil [of js_space_unit t] by (auto simp: js_trim_text_def)
  then show ?thesis
    using paragraphs_pos [of t] paragraphs.bound [of t] lines.bound [of t] word_ends_length [of t] assms(2)
    by (simp add: count_paragraphs_def count_lines_def count_words_ends nonblank_lines_def)
qed

lemma process_text_statistics:
  assumes "process_text collate pc b1 b2 v = Inr r" and "sv_row_ok (pc_sha256 pc) v"
  shows "stored_statistics (pc_sha256 pc) v r"
proof -
  have t: "normalizeTranscript (sv_transcriptText v) = sv_transcriptText v" "sv_transcriptText v \<noteq> []"
    "sv_contentHash v = pc_sha256 pc (sv_transcriptText v)" using assms(2) by (simp_all add: sv_row_ok_def)
  from process_text_Inr [OF assms(1)] obtain ai p d a b where
    "process_result pc b v (sv_transcriptText v) ai p d a = Inr r" by (metis t(1))
  then show ?thesis using counts_ordered [OF t(1, 2)] t by (auto simp: process_result_Inr stored_statistics_def computeTranscriptHash_def)
qed

text \<open>
  C32: A completed job tells the statistics of its source version.  When an execution by the processor
  completes a job, over a table of source versions that satisfies its invariant, the job's row is
  completed with a result about the version the job names, of the job's tenant and project: with the
  stored content hash, the length of the stored text and counts in order.
\<close>

theorem completed_transcript_job:
  assumes "execute_transcript_job collate pc sch cfg ca1 ca2 job aborted aw d = (Inr JobDone, d')"
    and "sv_inv (pc_sha256 pc) (es_db (state_after sch cfg job (exec_start aborted d) (aw_source aw)))"
  shows "\<exists>v \<in> set (sourceVersions (es_db (state_after sch cfg job (exec_start aborted d) (aw_source aw)))).
    sv_id v = cj_sourceVersionId job \<and> sv_tenantId v = cj_tenantId job \<and> sv_projectId v = cj_projectId job
    \<and> job_row job CCompleted (\<lambda>row. \<exists>r. cr_result row = Some r \<and> stored_statistics (pc_sha256 pc) v r) d'"
proof -
  let ?st = "exec_start aborted d" and ?d = "es_db (state_after sch cfg job (exec_start aborted d) (aw_source aw))"
  obtain events ending where tp: "transcript_process collate pc sch cfg job aw ?st = (events, ending)" by fastforce
  with assms(1) have ex: "execute sch cfg ca1 ca2 job aborted events ending d = (Inr JobDone, d')"
    by (simp add: execute_transcript_job_def)
  from execute_recorded [OF ex] obtain r where r: "ending = Inr r" "job_row job CCompleted (\<lambda>row. cr_result row = Some r) d'"
    by (auto simp: outcome_recorded_def)
  with tp obtain v b1 b2 where v: "process_source (aw_sourceFault aw) job ?d = Inr v" "process_text collate pc b1 b2 v = Inr r"
    by (auto simp: transcript_process_def Let_def split: if_splits sum.splits)
  note row = process_source_Inr [OF v(1)]
  then have "sv_row_ok (pc_sha256 pc) v" using assms(2) by (auto simp: sv_inv_def list_all_iff)
  then have "stored_statistics (pc_sha256 pc) v r" by (rule process_text_statistics [OF v(2)])
  then have "job_row job CCompleted (\<lambda>row. \<exists>r. cr_result row = Some r \<and> stored_statistics (pc_sha256 pc) v r) d'"
    by (intro job_row_mono [OF r(2)]) blast
  with row show ?thesis by blast
qed

lemma completed_transcript_job_witness:
  "\<exists>v \<in> set (sourceVersions example_db2). sv_id v = cj_sourceVersionId example_job \<and> sv_tenantId v = cj_tenantId example_job
    \<and> sv_projectId v = cj_projectId example_job
    \<and> job_row example_job CCompleted (\<lambda>row. \<exists>r. cr_result row = Some r \<and> stored_statistics (\<lambda>_. ''h'') v r) (snd example_execution)"
proof -
  have "example_execution = (Inr JobDone, snd example_execution)" using example_runs(1) by (simp add: prod_eq_iff)
  then have run: "execute_transcript_job example_collate (example_processor None) example_schemas (example_config 3)
      (example_call 60) (example_call 61) example_job False example_awaits example_db2 = (Inr JobDone, snd example_execution)"
    by (simp add: example_execution_def)
  have "aw_source example_awaits = []" "pc_sha256 (example_processor None) = (\<lambda>_. ''h'')"
    by (simp_all add: example_awaits_def example_processor_def)
  with completed_transcript_job [OF run] example_runs(2, 4) show ?thesis by simp
qed

subsection \<open>Results of their type\<close>

definition services_sound :: "processor_config \<Rightarrow> result_schemas \<Rightarrow> bool" where
  "services_sound pc sch \<longleftrightarrow>
     (\<forall>t. pc_sha256 pc t \<noteq> []) \<and> rs_datetime sch (pc_processedAt pc)
     \<and> (\<forall>t. is_checksum (sv_sha256 (pc_services pc) t)) \<and> (\<forall>t. t \<noteq> [] \<longrightarrow> sv_base64 (pc_services pc) t \<noteq> [])
     \<and> sv_artifactId (pc_services pc) \<noteq> [] \<and> rs_datetime sch (sv_nowIso (pc_services pc))"

text \<open>The schema of a result accepts the JSON values of the parts that the schemas of the parts accept.\<close>

definition schemas_accept :: "processor_config \<Rightarrow> result_schemas \<Rightarrow> bool" where
  "schemas_accept pc sch \<longleftrightarrow>
     (\<forall>a. aiPipelineResultSchema (pc_datetime pc) a \<noteq> None \<longrightarrow> rs_ai sch (pc_aiJson pc a))
     \<and> (\<forall>p. publicationSchema (pc_datetime pc) (pc_isUrl pc) p \<noteq> None \<longrightarrow> rs_publication sch (pc_publicationJson pc p))
     \<and> (\<forall>d. htmlDocumentSchema (pc_lib pc) (pc_datetime pc) d \<noteq> None \<longrightarrow> rs_htmlDocument sch (document_json d))"

lemma pipeline_gives_result: "pipeline_run datetime provider v t transcript = Inr r \<Longrightarrow> aiPipelineResultSchema datetime r = Some r"
  unfolding pipeline_run_def pipeline_result_def Let_def
  by (auto split: option.splits intro: settlesD [OF settles_result])

lemma build_gives_publication: "publication_build datetime isUrl aborted now i = Inr p \<Longrightarrow> publicationSchema datetime isUrl p = Some p"
  unfolding publication_build_def Let_def
  by (auto split: option.splits if_splits intro: settlesD [OF settles_publication])

lemma compose_gives_document: "html_compose lib datetime isUrl aborted later p = Inr d \<Longrightarrow> htmlDocumentSchema lib datetime d = Some d"
  by (erule composed_parts) (rule settlesD [OF settles_document])

lemma process_render_valid:
  assumes "process_render collate pc aborted p d = Inr (Some a)" and "services_sound pc sch"
  shows "renderArtifactSchema sch a"
proof -
  from assms(1) obtain renderer where "render collate (pc_lib pc) (pc_datetime pc) (pc_isoDate pc) (pc_services pc) renderer
      aborted (render_request_of renderer p d) = Inr a"
    unfolding process_render_def by (cases "pc_renderer pc") (auto split: sum.splits)
  then show ?thesis by (rule rendered_schema) (use assms(2) in \<open>simp_all add: services_sound_def\<close>)
qed

text \<open>
  C33: What the processor gives is a result of its type.  With hashes, dates and identifiers as the
  platform makes them, every result passes the schema that the completion of a job checks, so that
  no processed job is refused when it is to be stored.
\<close>

theorem processed_result_valid:
  assumes "process_text collate pc abortedAtBuild abortedAfter v = Inr r" and "isPrefixedId (sv_id v) ''srcver''"
    and "services_sound pc sch" and "schemas_accept pc sch"
  shows "transcriptProcessingResultSchema sch r"
proof -
  from process_text_Inr [OF assms(1)] obtain ai p d a b where
    r: "process_result pc b v (normalizeTranscript (sv_transcriptText v)) ai p d a = Inr r"
    and ai: "\<forall>x. ai = Some x \<longrightarrow> process_ai pc (normalizeTranscript (sv_transcriptText v)) = Inr (Some x)"
    and p: "\<forall>x. p = Some x \<longrightarrow> (\<exists>y. process_publication pc abortedAtBuild v (normalizeTranscript (sv_transcriptText v)) y = Inr x)"
    and d: "\<forall>x. d = Some x \<longrightarrow> (\<exists>y. process_html pc abortedAfter y = Inr x)"
    and a: "\<forall>x. a = Some x \<longrightarrow> (\<exists>y z. process_render collate pc abortedAfter y z = Inr (Some x))" .
  have "pred_option (\<lambda>x. rs_ai sch (pc_aiJson pc x)) ai"
    using ai assms(4) by (cases ai) (auto simp: process_ai_def schemas_accept_def dest!: pipeline_gives_result split: option.splits sum.splits)
  moreover have "pred_option (\<lambda>x. rs_publication sch (pc_publicationJson pc x)) p"
    using p assms(4) by (cases p) (auto simp: process_publication_def schemas_accept_def dest!: build_gives_publication split: if_splits sum.splits)
  moreover have "pred_option (\<lambda>x. rs_htmlDocument sch (document_json x)) d"
    using d assms(4) by (cases d) (auto simp: process_html_def schemas_accept_def dest!: compose_gives_document split: if_splits sum.splits)
  moreover have "pred_option (renderArtifactSchema sch) a"
    using a assms(3) by (cases a) (auto intro: process_render_valid)
  ultimately show ?thesis using r assms(2, 3)
    by (auto simp: process_result_Inr transcriptProcessingResultSchema_def services_sound_def computeTranscriptHash_def
        option.pred_map comp_def)
qed

lemma processed_result_valid_witness:
  "\<exists>r. example_text = Inr r \<and> transcriptProcessingResultSchema example_schemas r"
proof -
  obtain r where r: "example_text = Inr r" using example_runs(3) by (auto split: sum.splits)
  have "is_checksum (replicate 64 CHR ''a'')" by code_simp
  then have "services_sound (example_processor None) example_schemas" "schemas_accept (example_processor None) example_schemas"
    by (simp_all add: services_sound_def schemas_accept_def example_processor_def example_schemas_def)
  with r example_runs(5) show ?thesis
    using processed_result_valid [of example_collate "example_processor None" False False example_source r example_schemas]
    by (simp add: example_text_def)
qed

subsection \<open>Failures\<close>

text \<open>Whether an answer of the OpenAI library is worth another attempt.\<close>

fun sdk_retried :: "sdk_error \<Rightarrow> bool" where
  "sdk_retried AuthenticationError = False"
| "sdk_retried PermissionDeniedError = False"
| "sdk_retried BadRequestError = False"
| "sdk_retried APIUserAbortError = False"
| "sdk_retried (StatusError (Some status)) = (status = 429 \<or> status < 400 \<or> 500 \<le> status)"
| "sdk_retried _ = True"

text \<open>
  What the AI service answers decides about another attempt.  When the first request of a job is
  answered by an error and nobody cancelled, the processing fails, and the executor classifies the
  failure as retryable exactly when the answer is transient: a time limit, a rate limit, a failing
  service or connection, but not a refusal of the key, of the permission or of the request.
\<close>

theorem openai_failure_retried:
  assumes "pc_pipeline pc = Some (openai_provider parse_json model calls, pipelineVersion, timeoutMs)"
    and "calls (prompt_request timeoutMs pipelineVersion metadataPrompt
      \<lparr>pt_transcriptText = normalizeTranscript (sv_transcriptText v), pt_summaryText = None, pt_keywords = None\<rparr>) = call"
    and "\<not> ol_abortedBefore call" and "\<not> ol_aborted call" and "\<not> ol_timedOut call"
    and "ol_answer call = Inl err" and "err \<noteq> APIUserAbortError"
  shows "\<exists>e. process_text collate pc abortedAtBuild abortedAfter v = Inl e \<and> (fst (classifyError e) \<longleftrightarrow> sdk_retried err)"
proof -
  have "fst (classifyError (ai_failure (mapOpenAIError err))) \<longleftrightarrow> sdk_retried err"
    using assms(7) by (cases err rule: sdk_retried.cases)
      (simp_all add: classifyError_def unexpected_failure_def status_failure_def)
  then show ?thesis using assms(1-6)
    by (simp add: process_text_def process_ai_def pipeline_run_def runner_run_def openai_provider_def openai_generate_def)
qed

lemma openai_failure_retried_witness:
  "\<exists>e. process_text example_collate (example_processor (Some (openai_provider (\<lambda>_. None) ''gpt''
       (\<lambda>_. \<lparr>ol_abortedBefore = False, ol_answer = Inl RateLimitError, ol_aborted = False, ol_timedOut = False, ol_startedAt = 0,
          ol_endedAt = 1, ol_generatedAt = ''2026-01-01T00:00:00.000Z''\<rparr>), ''1.0'', 30000))) False False example_source = Inl e
     \<and> fst (classifyError e)"
  using openai_failure_retried [where parse_json = "\<lambda>_. None" and model = "''gpt''" and pipelineVersion = "''1.0''"
    and timeoutMs = 30000 and v = example_source and collate = example_collate and err = RateLimitError
    and abortedAtBuild = False and abortedAfter = False
    and calls = "\<lambda>_. \<lparr>ol_abortedBefore = False, ol_answer = Inl RateLimitError, ol_aborted = False, ol_timedOut = False,
      ol_startedAt = 0, ol_endedAt = 1, ol_generatedAt = ''2026-01-01T00:00:00.000Z''\<rparr>", OF _ refl]
  by (simp add: example_processor_def)

lemma classify_simps [simp]:
  "fst (classifyError (permanent m c)) = False"
  "fst (classifyError (OtherThrown code)) = True"
  by (auto simp: classifyError_def permanent_def)

lemma publication_failure_final:
  assumes "process_publication pc False v normalized ai = Inl e"
    and "zstring 1 80 (sv_id v) \<noteq> None" and "zstring 1 200 (computeTranscriptHash (pc_sha256 pc) normalized) \<noteq> None"
  shows "\<not> fst (classifyError e)"
proof (cases "pc_hasGenerator pc")
  case True
  obtain i h where ih: "zstring 1 80 (sv_id v) = Some i" "zstring 1 200 (computeTranscriptHash (pc_sha256 pc) normalized) = Some h"
    using assms(2, 3) by blast
  have "zstring 1 80 ''cta-guide'' = Some ''cta-guide''" by code_simp
  with True ih assms(1) obtain x where "e = publication_failure False x"
    and "\<exists>m. x = PublicationValidationError m \<or> x = UnsupportedPublicationTypeError m"
    by (auto simp: process_publication_def publication_build_def publicationBuilderInputSchema_def zopt_def Let_def
        split: option.splits sum.splits if_splits)
  then show ?thesis by (auto simp: publication_failure_def)
next
  case False
  then show ?thesis using assms(1) by (auto simp: process_publication_def)
qed

lemma html_failure_final:
  "process_html pc False p = Inl e \<Longrightarrow> e \<noteq> WorkerCancelledError \<Longrightarrow> \<not> fst (classifyError e)"
  by (auto simp: process_html_def html_failure_def split: if_splits sum.splits html_error.splits)

lemma render_failure_class:
  assumes "process_render collate pc False p d = Inl e" and "e \<noteq> WorkerCancelledError"
  shows "fst (classifyError e) \<longleftrightarrow> pc_renderer pc = Some StyledHtmlRenderer
    \<and> (\<exists>x. styled_render collate (pc_lib pc) (pc_datetime pc) (pc_isoDate pc) (pc_services pc) False
          (render_request_of StyledHtmlRenderer p d) = Inl (RenderPackagingError x))"
proof -
  from assms(1) obtain renderer x where r: "pc_renderer pc = Some renderer" "e = render_failure False x"
    and x: "render collate (pc_lib pc) (pc_datetime pc) (pc_isoDate pc) (pc_services pc) renderer False
      (render_request_of renderer p d) = Inl x"
    by (auto simp: process_render_def split: option.splits sum.splits)
  have plain: "\<not> (\<exists>y. x = RenderPackagingError y)" if "renderer \<noteq> StyledHtmlRenderer"
    using that x by (cases renderer)
      (auto simp: render_def and_then_Inl renderer_validate_def Let_def split: if_splits option.splits sum.splits)
  show ?thesis
  proof (cases "\<exists>y. x = RenderPackagingError y")
    case True
    then show ?thesis using plain r x by (cases renderer) (auto simp: render_failure_def render.simps)
  next
    case False
    then have "\<not> fst (classifyError e)" using assms(2) r(2)
      by (cases x) (auto simp: render_failure_def)
    then show ?thesis using False r x by (auto simp: render.simps)
  qed
qed

text \<open>
  C34: After the AI has answered, a failure is final unless it is one of the packaging.  When nobody
  aborts, the failure of a job whose AI result is there is classified as retryable only when the
  styled renderer threw an error of the packaging or of the themes, which no branch of the processor
  knows: the same text is then refused, after new AI calls, until the attempts are used up.
\<close>

theorem answered_job_failures:
  assumes ai: "process_ai pc (normalizeTranscript (sv_transcriptText v)) = Inr (Some ai)"
    and i: "zstring 1 80 (sv_id v) \<noteq> None"
    and h: "zstring 1 200 (computeTranscriptHash (pc_sha256 pc) (normalizeTranscript (sv_transcriptText v))) \<noteq> None"
    and e: "process_text collate pc False False v = Inl e" "e \<noteq> WorkerCancelledError"
  shows "fst (classifyError e) \<longleftrightarrow>
    (\<exists>p d x. process_publication pc False v (normalizeTranscript (sv_transcriptText v)) ai = Inr p
      \<and> process_html pc False p = Inr d \<and> pc_renderer pc = Some StyledHtmlRenderer
      \<and> styled_render collate (pc_lib pc) (pc_datetime pc) (pc_isoDate pc) (pc_services pc) False
          (render_request_of StyledHtmlRenderer p d) = Inl (RenderPackagingError x))"
proof -
  let ?n = "normalizeTranscript (sv_transcriptText v)"
  show ?thesis
  proof (cases "process_publication pc False v ?n ai")
    case (Inl x)
    then show ?thesis using e(1) ai publication_failure_final [OF Inl i h] by (auto simp: process_text_def)
  next
    case p: (Inr p)
    show ?thesis
    proof (cases "process_html pc False p")
      case (Inl x)
      then have "x = e" using e(1) ai p by (simp add: process_text_def)
      then show ?thesis using html_failure_final [OF Inl] e(2) p Inl by auto
    next
      case d: (Inr d)
      have "process_render collate pc False p d = Inl e"
      proof (cases "process_render collate pc False p d")
        case (Inl x)
        then show ?thesis using e(1) ai p d by (simp add: process_text_def Let_def)
      next
        case (Inr a)
        then show ?thesis using e(1) ai p d by (simp add: process_text_def Let_def process_result_def)
      qed
      from render_failure_class [OF this e(2)] show ?thesis using p d by auto
    qed
  qed
qed

lemma answered_job_failures_witness:
  "\<not> fst (classifyError (permanent ''Publication generation is not configured.'' PUBLICATION_BUILD_ERROR))"
proof -
  let ?pc = "example_processor (Some (mock_provider MockSuccess ''2026-01-01T00:00:00.000Z'' (\<lambda>_. False), ''1.0'', 30000))"
  let ?n = "normalizeTranscript (sv_transcriptText example_source)"
  have n: "?n = [72]" by code_simp
  have "js_trim ''1.0'' \<noteq> []" by code_simp
  then obtain ai where "pipeline_run (\<lambda>s. s = ''2026-01-01T00:00:00.000Z'' \<or> True) (mock_provider MockSuccess ''2026-01-01T00:00:00.000Z''
      (\<lambda>_. False)) ''1.0'' 30000 ?n = Inr ai"
    using mock.completes [of ?n "''1.0''" "''2026-01-01T00:00:00.000Z''" "\<lambda>_. True" 30000] n by auto
  then have ai: "process_ai ?pc ?n = Inr (Some ai)" by (simp add: process_ai_def example_processor_def)
  have e: "process_text example_collate ?pc False False example_source
      = Inl (permanent ''Publication generation is not configured.'' PUBLICATION_BUILD_ERROR)"
    using ai by (simp add: process_text_def process_publication_def example_processor_def)
  have ih: "zstring 1 80 (sv_id example_source) \<noteq> None" "zstring 1 200 (computeTranscriptHash (pc_sha256 ?pc) ?n) \<noteq> None"
    by code_simp+
  have "permanent ''Publication generation is not configured.'' PUBLICATION_BUILD_ERROR \<noteq> WorkerCancelledError"
    by (simp add: permanent_def)
  from answered_job_failures [OF ai ih e this] show ?thesis
    by (simp add: process_publication_def example_processor_def)
qed

end
