(* ===== verification/Startup.thy ===== *)
theory Startup
  imports Environment TranscriptProcessor WorkerLoop PublishExecutor
begin

text \<open>
  How the processes are put together: \<open>src/worker/app.ts\<close> and \<open>server.ts\<close> for the content worker,
  \<open>src/worker/publish-app.ts\<close> and \<open>publish-server.ts\<close> for the publish worker.  What the platform gives
  to the processor of transcripts is an argument, a \<open>processor_config\<close> whose choices are replaced;
  the draws of the jitter are not used, for the policies have none.
\<close>

subsection \<open>The content worker\<close>

definition safe_name_char :: "char \<Rightarrow> char" where
  "safe_name_char c = (if slug_char c \<or> c = CHR ''-'' then c else CHR ''-'')"

fun squeeze_dashes :: "string \<Rightarrow> string" where
  "squeeze_dashes (a # b # s) =
     (if a = CHR ''-'' \<and> b = CHR ''-'' then squeeze_dashes (b # s) else a # squeeze_dashes (b # s))"
| "squeeze_dashes s = s"

definition drop_end_dashes :: "string \<Rightarrow> string" where
  "drop_end_dashes s =
     (let t = (if starts_with ''-'' s then tl s else s) in if t \<noteq> [] \<and> last t = CHR ''-'' then butlast t else t)"

definition createWorkerId :: "string \<Rightarrow> string \<Rightarrow> string \<Rightarrow> string" where
  "createWorkerId pid ulid workerName =
     ''worker_'' @ drop_end_dashes (squeeze_dashes (map safe_name_char (lower_case workerName))) @ ''_'' @ pid @ ''_''
       @ lower_case (drop (length ulid - 6) ulid)"

record worker_config =
  wc_workerId :: string
  wc_pollIntervalMs :: int
  wc_leaseDurationMs :: int
  wc_heartbeatIntervalMs :: int
  wc_maxAttempts :: int
  wc_concurrency :: int
  wc_shutdownTimeoutMs :: int
  wc_staleRecoveryIntervalMs :: int
  wc_retryBaseDelayMs :: int
  wc_retryMaxDelayMs :: int

definition resolvePublicationRenderer :: "renderer option \<Rightarrow> string option \<Rightarrow> string + renderer option" where
  "resolvePublicationRenderer publicationRenderer rendererSelection =
     (if publicationRenderer \<noteq> None \<and> rendererSelection \<noteq> None
      then Inl ''Renderer configuration is ambiguous: provide either publicationRenderer or rendererSelection, not both.''
      else if publicationRenderer \<noteq> None then Inr publicationRenderer
      else case rendererSelection of
          None \<Rightarrow> Inr None
        | Some selection \<Rightarrow>
            if selection = ''structured-json'' then Inr (Some HtmlPassthroughRenderer)
            else if selection = ''html-markup'' then Inr (Some HtmlMarkupRenderer)
            else if selection = ''styled-html'' then Inr (Some StyledHtmlRenderer)
            else Inl ''Renderer selection is invalid. Supported values: structured-json, html-markup, styled-html.'')"

definition plain_policy :: "int \<Rightarrow> int \<Rightarrow> int \<Rightarrow> retry_policy" where
  "plain_policy base cap attempts =
     \<lparr>baseDelayMs = base, maxDelayMs = cap, maxAttempts = attempts, jitterRatio = None, random = 0\<rparr>"

record worker_app =
  wa_processor :: processor_config
  wa_executor :: exec_config
  wa_config :: worker_config
  wa_recoveryMaxAttempts :: int
  wa_recoveryPolicy :: retry_policy
  wa_loop :: loop_config

definition createWorkerApp ::
  "processor_config \<Rightarrow> worker_config \<Rightarrow> (ai_provider \<times> string \<times> int) option \<Rightarrow> renderer option \<Rightarrow> string option
     \<Rightarrow> string + worker_app" where
  "createWorkerApp platform config aiPipeline publicationRenderer rendererSelection =
     (case resolvePublicationRenderer publicationRenderer rendererSelection of
        Inl e \<Rightarrow> Inl e
      | Inr renderer \<Rightarrow> Inr
         \<lparr>wa_processor = platform\<lparr>pc_pipeline := aiPipeline, pc_hasGenerator := True, pc_hasComposer := True,
            pc_renderer := renderer\<rparr>,
          wa_executor = \<lparr>ec_hasProcessor = True, ec_leaseDurationMs = wc_leaseDurationMs config,
            ec_retryPolicy = plain_policy (wc_retryBaseDelayMs config) (wc_retryMaxDelayMs config) (wc_maxAttempts config),
            ec_maxAttempts = wc_maxAttempts config\<rparr>,
          wa_config = config,
          wa_recoveryMaxAttempts = wc_maxAttempts config,
          wa_recoveryPolicy = plain_policy (wc_retryBaseDelayMs config) (wc_retryMaxDelayMs config) (wc_maxAttempts config),
          wa_loop = \<lparr>lc_concurrency = nat (wc_concurrency config), lc_staleRecoveryIntervalMs = wc_staleRecoveryIntervalMs config\<rparr>\<rparr>)"

definition registry_of :: "ai_settings \<Rightarrow> registry_config" where
  "registry_of a = \<lparr>rc_providerName = en_aiProvider a, rc_openAiApiKey = en_openAiApiKey a,
     rc_openAiModel = en_openAiModel a, rc_mockMode = en_mockAiMode a\<rparr>"

definition startWorkerServer ::
  "(string \<Rightarrow> ai_output option) \<Rightarrow> (ai_request \<Rightarrow> openai_call) \<Rightarrow> string \<Rightarrow> (ai_request \<Rightarrow> bool) \<Rightarrow> processor_config
     \<Rightarrow> string \<Rightarrow> string \<Rightarrow> environment \<Rightarrow> string + worker_app" where
  "startWorkerServer parse_json calls nowIso isAborted platform pid ulid e =
     (let w = en_worker e; a = en_ai e in
      case createAIProvider parse_json calls nowIso isAborted (registry_of a) of
        Inl m \<Rightarrow> Inl m
      | Inr provider \<Rightarrow>
          createWorkerApp platform
            \<lparr>wc_workerId = createWorkerId pid ulid (en_workerName w), wc_pollIntervalMs = en_workerPollIntervalMs w,
             wc_leaseDurationMs = en_workerLeaseDurationMs w, wc_heartbeatIntervalMs = en_workerHeartbeatIntervalMs w,
             wc_maxAttempts = en_workerMaxAttempts w, wc_concurrency = en_workerConcurrency w,
             wc_shutdownTimeoutMs = en_workerShutdownTimeoutMs w,
             wc_staleRecoveryIntervalMs = en_workerStaleRecoveryIntervalMs w,
             wc_retryBaseDelayMs = en_workerRetryBaseDelayMs w, wc_retryMaxDelayMs = en_workerRetryMaxDelayMs w\<rparr>
            (Some (provider, en_pipelineVersion a, en_openAiTimeoutMs a)) None None)"

subsection \<open>The publish worker\<close>

record publish_worker_config =
  wp_workerId :: string
  wp_pollIntervalMs :: int
  wp_leaseDurationMs :: int
  wp_heartbeatIntervalMs :: int
  wp_retryBaseDelayMs :: int
  wp_retryMaxDelayMs :: int
  wp_maxConsecutiveFailures :: int
  wp_concurrency :: int
  wp_shutdownTimeoutMs :: int
  wp_staleRecoveryIntervalMs :: int

record publish_app =
  wq_executor :: px_config
  wq_config :: publish_worker_config
  wq_recoveryPolicy :: retry_policy
  wq_recoveryMaxFailures :: int
  wq_loop :: loop_config

definition createPublishWorkerApp :: "publish_worker_config \<Rightarrow> publish_app" where
  "createPublishWorkerApp config =
     \<lparr>wq_executor = \<lparr>xc_pollIntervalMs = wp_pollIntervalMs config, xc_leaseDurationMs = wp_leaseDurationMs config,
        xc_maxConsecutiveFailures = wp_maxConsecutiveFailures config,
        xc_retryPolicy = plain_policy (wp_retryBaseDelayMs config) (wp_retryMaxDelayMs config) (wp_maxConsecutiveFailures config)\<rparr>,
      wq_config = config,
      wq_recoveryPolicy = plain_policy (wp_retryBaseDelayMs config) (wp_retryMaxDelayMs config) (wp_maxConsecutiveFailures config),
      wq_recoveryMaxFailures = wp_maxConsecutiveFailures config,
      wq_loop = \<lparr>lc_concurrency = nat (wp_concurrency config), lc_staleRecoveryIntervalMs = wp_staleRecoveryIntervalMs config\<rparr>\<rparr>"

datatype identity_mode = ManagedIdentity | DefaultAzureCredential

definition resolveIdentityMode :: "string \<Rightarrow> engine_error + identity_mode" where
  "resolveIdentityMode rawIdentityMode =
     (let normalized = js_trim rawIdentityMode in
      if normalized = [] then Inl (ConfigurationError ''PUBLISH_ENGINE_IDENTITY_MODE is required when PUBLISH_WORKER_ENABLED=true.'')
      else if normalized = ''managed-identity'' then Inr ManagedIdentity
      else if normalized = ''default-azure-credential'' then Inr DefaultAzureCredential
      else Inl (ConfigurationError ''PUBLISH_ENGINE_IDENTITY_MODE must be one of: managed-identity, default-azure-credential.''))"

definition resolveTokenRefreshSkewMs :: "(string \<Rightarrow> js_number) \<Rightarrow> string \<Rightarrow> engine_error + int" where
  "resolveTokenRefreshSkewMs number rawTokenRefreshSkewMs =
     (let normalized = js_trim rawTokenRefreshSkewMs in
      if normalized = [] then Inr 300000
      else case int_between 0 3600000 (number normalized) of
          None \<Rightarrow> Inl (ConfigurationError ''PUBLISH_ENGINE_TOKEN_REFRESH_SKEW_MS must be an integer between 0 and 3600000.'')
        | Some n \<Rightarrow> Inr n)"

definition resolveManagedIdentityClientId :: "string \<Rightarrow> string option \<Rightarrow> string option" where
  "resolveManagedIdentityClientId rawDedicatedClientId rawAzureClientId =
     (if js_trim rawDedicatedClientId \<noteq> [] then Some (js_trim rawDedicatedClientId)
      else case rawAzureClientId of
          None \<Rightarrow> None
        | Some c \<Rightarrow> if js_trim c \<noteq> [] then Some (js_trim c) else None)"

text \<open>The credentials of the library, which may throw when they are made.\<close>

datatype credential = ManagedIdentityCredential "string option" | DefaultCredential

definition make_credential :: "(credential \<Rightarrow> bool) \<Rightarrow> identity_mode \<Rightarrow> string option \<Rightarrow> engine_error + credential" where
  "make_credential constructs mode clientId =
     (case mode of
        ManagedIdentity \<Rightarrow>
          if constructs (ManagedIdentityCredential clientId) then Inr (ManagedIdentityCredential clientId)
          else Inl (ConfigurationError ''Failed to configure Managed Identity credential for publish worker.'')
      | DefaultAzureCredential \<Rightarrow>
          if constructs DefaultCredential then Inr DefaultCredential
          else Inl (ConfigurationError ''Failed to configure DefaultAzureCredential for publish worker.''))"

record engine_access =
  ga_credential :: credential
  ga_scope :: string
  ga_refreshSkewMs :: int
  ga_url :: engine_url
  ga_config :: engine_config

definition resolveProductionPublishEngineClient ::
  "(credential \<Rightarrow> bool) \<Rightarrow> (string \<Rightarrow> js_number) \<Rightarrow> engine_url \<times> string \<times> engine_config \<Rightarrow> string \<Rightarrow> string \<Rightarrow> string option
     \<Rightarrow> string \<Rightarrow> engine_error + engine_access" where
  "resolveProductionPublishEngineClient constructs number config identityModeRaw managedIdentityClientIdRaw azureClientIdRaw skewRaw =
     (case config of (url, scope, cfg) \<Rightarrow>
        and_then (resolveIdentityMode identityModeRaw) (\<lambda>mode.
        and_then (resolveTokenRefreshSkewMs number skewRaw) (\<lambda>skew.
        and_then (make_credential constructs mode (resolveManagedIdentityClientId managedIdentityClientIdRaw azureClientIdRaw)) (\<lambda>c.
        and_then (normalizeScope scope) (\<lambda>tokenScope.
        and_then (normalizeRefreshSkewMs (Some (Number (of_int skew)))) (\<lambda>tokenSkew.
          Inr \<lparr>ga_credential = c, ga_scope = tokenScope, ga_refreshSkewMs = tokenSkew, ga_url = url, ga_config = cfg\<rparr>))))))"

definition publish_config_input :: "environment \<Rightarrow> config_input" where
  "publish_config_input e =
     (let g = en_engine e; number = (\<lambda>n. Some (Number (of_int n))) in
      \<lparr>gi_baseUrl = en_publishEngineBaseUrl g, gi_scope = en_publishEngineScope g,
       gi_requestTimeoutMs = number (en_publishEngineRequestTimeoutMs g),
       gi_pollIntervalMs = number (en_publishJobPollIntervalMs (en_publish e)), gi_maxWaitMs = None,
       gi_maxRetries = number (en_publishEngineMaxRetries g),
       gi_retryBaseDelayMs = number (en_publishEngineRetryBaseDelayMs g),
       gi_retryMaxDelayMs = number (en_publishEngineRetryMaxDelayMs g), gi_retryJitterRatio = None\<rparr>)"

text \<open>A worker that is not enabled ends at once: \<open>None\<close>.\<close>

definition startPublishWorkerServer ::
  "(string \<Rightarrow> bool) \<Rightarrow> (string \<Rightarrow> engine_url option) \<Rightarrow> (credential \<Rightarrow> bool) \<Rightarrow> (string \<Rightarrow> js_number) \<Rightarrow> string option
     \<Rightarrow> string \<Rightarrow> string \<Rightarrow> environment \<Rightarrow> engine_error + (engine_access \<times> publish_app) option" where
  "startPublishWorkerServer isUrl parse constructs number azureClientId pid ulid e =
     (let p = en_publish e; g = en_engine e in
      if \<not> en_publishWorkerEnabled p then Inr None
      else if en_publishEngineBaseUrl g = [] \<or> en_publishEngineScope g = []
      then Inl (ConfigurationError ''PUBLISH_ENGINE_BASE_URL and PUBLISH_ENGINE_SCOPE are required when PUBLISH_WORKER_ENABLED=true.'')
      else
        and_then (createPublishEngineConfig isUrl parse (publish_config_input e)) (\<lambda>config.
        and_then (resolveProductionPublishEngineClient constructs number config (en_publishEngineIdentityMode g)
            (en_publishEngineManagedIdentityClientId g) azureClientId (en_publishEngineTokenRefreshSkewMs g)) (\<lambda>client.
          Inr (Some (client, createPublishWorkerApp
            \<lparr>wp_workerId = createWorkerId pid ulid (en_publishWorkerName p), wp_pollIntervalMs = en_publishJobPollIntervalMs p,
             wp_leaseDurationMs = en_publishJobLeaseDurationMs p, wp_heartbeatIntervalMs = en_publishJobHeartbeatIntervalMs p,
             wp_retryBaseDelayMs = en_publishJobRetryBaseDelayMs p, wp_retryMaxDelayMs = en_publishJobRetryMaxDelayMs p,
             wp_maxConsecutiveFailures = en_publishJobMaxConsecutiveFailures p, wp_concurrency = en_publishJobConcurrency p,
             wp_shutdownTimeoutMs = en_publishJobShutdownTimeoutMs p,
             wp_staleRecoveryIntervalMs = en_publishJobStaleRecoveryIntervalMs p\<rparr>)))))"

subsection \<open>The content worker starts\<close>

lemma plain_delay:
  assumes "1 \<le> base" and "base \<le> cap" and "0 < n"
  shows "1 \<le> calculateRetryDelayMs n (plain_policy base cap k) \<and> calculateRetryDelayMs n (plain_policy base cap k) \<le> cap"
proof -
  have "1 * 1 \<le> base * 2 ^ nat (n - 1)" using assms(1) by (intro mult_mono) simp_all
  then show ?thesis using assms by (simp add: plain_policy_def calculateRetryDelayMs_def Let_def)
qed

text \<open>
  An accepted environment is enough for the content worker.  It always starts: its AI provider
  is known and has its key; its lease outlasts its heartbeat; it executes at least one job at a time and
  tries each at least once; and the delay before any attempt is at least a millisecond and at most the
  configured maximum.
\<close>

theorem accepted_environment_starts:
  assumes "environmentSchema number env = Some e"
  shows "\<exists>app. startWorkerServer parse_json calls nowIso isAborted platform pid ulid e = Inr app
    \<and> wc_heartbeatIntervalMs (wa_config app) < ec_leaseDurationMs (wa_executor app) \<and> 1 \<le> wc_heartbeatIntervalMs (wa_config app)
    \<and> 1 \<le> lc_concurrency (wa_loop app) \<and> 1 \<le> ec_maxAttempts (wa_executor app)
    \<and> (\<forall>n > 0. 1 \<le> calculateRetryDelayMs n (ec_retryPolicy (wa_executor app))
         \<and> calculateRetryDelayMs n (ec_retryPolicy (wa_executor app)) \<le> en_workerRetryMaxDelayMs (en_worker e))"
proof -
  let ?w = "en_worker e"
  note parts = environment_parts [OF assms]
  note w = worker_schema_positive [OF parts(2)] and rules = parts(6) [unfolded environment_rules_def]
  have "\<exists>p. createAIProvider parse_json calls nowIso isAborted (registry_of (en_ai e)) = Inr p"
    using ai_schema_known [OF parts(5)] rules by (auto simp: createAIProvider_def registry_of_def)
  then obtain p where p: "createAIProvider parse_json calls nowIso isAborted (registry_of (en_ai e)) = Inr p" by blast
  have "1 \<le> en_workerRetryBaseDelayMs ?w" "en_workerRetryBaseDelayMs ?w \<le> en_workerRetryMaxDelayMs ?w" using w rules by auto
  note delay = plain_delay [OF this]
  show ?thesis using w rules delay
    by (auto simp: startWorkerServer_def createWorkerApp_def resolvePublicationRenderer_def p Let_def nat_le_iff
        le_nat_iff)
qed

definition example_number :: "string \<Rightarrow> js_number" where
  "example_number s = (if s = ''10'' then Number 10 else if s = ''120000'' then Number 120000 else NotFinite)"

definition example_env :: process_env where
  "example_env = map_of [(''DATABASE_URL'', ''postgres://db''), (''DATABASE_MAX_CONNECTIONS'', ''10''), (''DATABASE_SSL'', ''true''),
     (''PUBLISH_WORKER_ENABLED'', ''true''), (''PUBLISH_JOB_POLL_INTERVAL_MS'', ''120000'')]"

lemma example_env_accepted:
  "(case environmentSchema example_number example_env of None \<Rightarrow> False
    | Some e \<Rightarrow> en_publishWorkerEnabled (en_publish e) \<and> en_publishJobPollIntervalMs (en_publish e) = 120000)"
  by code_simp

lemma accepted_environment_starts_witness:
  "\<exists>e app. environmentSchema example_number example_env = Some e
    \<and> startWorkerServer (\<lambda>_. None) undefined ''now'' (\<lambda>_. False) (example_processor None) ''1'' ''ulid'' e = Inr app
    \<and> wc_heartbeatIntervalMs (wa_config app) < ec_leaseDurationMs (wa_executor app)"
proof -
  obtain e where e: "environmentSchema example_number example_env = Some e"
    using example_env_accepted by (auto split: option.splits)
  from accepted_environment_starts [OF e] e show ?thesis by blast
qed

subsection \<open>What the content worker produces\<close>

lemma processed_without_renderer:
  assumes "process_text collate pc b1 b2 v = Inr r" and "pc_renderer pc = None"
  shows "res_renderArtifact r = None"
proof -
  from process_text_Inr [OF assms(1)] obtain ai p d a b where
    r: "process_result pc b v (normalizeTranscript (sv_transcriptText v)) ai p d a = Inr r"
    and a: "\<forall>x. a = Some x \<longrightarrow> (\<exists>y z. process_render collate pc b2 y z = Inr (Some x))" .
  have "a = None" using a assms(2) by (cases a) (auto simp: process_render_def)
  then show ?thesis using r by (simp add: process_result_Inr)
qed

text \<open>
  C39: A content worker without a renderer.  The entry point creates its worker with neither a renderer
  nor a selection of one (\<open>server_app\<close>); a job that such a worker completes has a result without an
  artifact, and no publish job can be created from it, for any project.
\<close>

theorem unrendered_results_unpublishable:
  assumes "createWorkerApp platform config pipeline None None = Inr app"
    and "execute_transcript_job collate (wa_processor app) sch (wa_executor app) ca1 ca2 job aborted aw d = (Inr JobDone, d')"
  shows "job_row job CCompleted (\<lambda>row. \<exists>r. cr_result row = Some r \<and> res_renderArtifact r = None
    \<and> (\<forall>projectId. \<exists>code m. createPublishSourceSnapshot sha256 (content_job_of row) projectId = Inl (ConflictError code m))) d'"
proof -
  have none: "pc_renderer (wa_processor app) = None"
    using assms(1) by (auto simp: createWorkerApp_def resolvePublicationRenderer_def)
  obtain events ending where tp: "transcript_process collate (wa_processor app) sch (wa_executor app) job aw (exec_start aborted d)
      = (events, ending)" by fastforce
  with assms(2) have "execute sch (wa_executor app) ca1 ca2 job aborted events ending d = (Inr JobDone, d')"
    by (simp add: execute_transcript_job_def)
  from execute_recorded [OF this] obtain r where r: "ending = Inr r" "job_row job CCompleted (\<lambda>row. cr_result row = Some r) d'"
    by (auto simp: outcome_recorded_def)
  with tp obtain v b1 b2 where "process_text collate (wa_processor app) b1 b2 v = Inr r"
    by (auto simp: transcript_process_def Let_def split: if_splits sum.splits)
  then have "res_renderArtifact r = None" by (rule processed_without_renderer [OF _ none])
  then show ?thesis
    by (intro job_row_mono [OF r(2)]) (auto simp: createPublishSourceSnapshot_def content_job_of_def)
qed

lemma server_app:
  "startWorkerServer parse_json calls nowIso isAborted platform pid ulid e = Inr app
     \<Longrightarrow> \<exists>config pipeline. createWorkerApp platform config pipeline None None = Inr app"
  by (auto simp: startWorkerServer_def Let_def split: sum.splits)

lemma execution_without_pipeline:
  assumes "pc_pipeline pc = None" and "pc_pipeline pc' = None" and "pc_sha256 pc = pc_sha256 pc'"
    and "pc_processedAt pc = pc_processedAt pc'"
  shows "execute_transcript_job collate pc = execute_transcript_job collate pc'"
proof -
  have ai: "process_ai pc = (\<lambda>_. Inr None)" "process_ai pc' = (\<lambda>_. Inr None)"
    by (intro ext; simp add: process_ai_def assms(1, 2))+
  have built: "publication_built pc = publication_built pc'" by (intro ext) (simp add: publication_built_def ai)
  have processed: "process_text collate pc = process_text collate pc'"
    by (intro ext) (simp add: process_text_def ai process_result_def assms(3, 4) Let_def)
  show ?thesis by (intro ext) (unfold execute_transcript_job_def transcript_process_def built processed, rule refl)
qed

definition example_app :: worker_app where
  "example_app = (case createWorkerApp (example_processor None)
       \<lparr>wc_workerId = ''w'', wc_pollIntervalMs = 1000, wc_leaseDurationMs = 100, wc_heartbeatIntervalMs = 30, wc_maxAttempts = 3,
        wc_concurrency = 1, wc_shutdownTimeoutMs = 1000, wc_staleRecoveryIntervalMs = 1000, wc_retryBaseDelayMs = 10,
        wc_retryMaxDelayMs = 50\<rparr> None None None of Inr app \<Rightarrow> app)"

lemma unrendered_results_unpublishable_witness:
  "job_row example_job CCompleted (\<lambda>row. \<exists>r. cr_result row = Some r \<and> res_renderArtifact r = None
    \<and> (\<forall>projectId. \<exists>code m. createPublishSourceSnapshot example_sha256 (content_job_of row) projectId = Inl (ConflictError code m)))
    (snd (execute_transcript_job example_collate (wa_processor example_app) example_schemas (wa_executor example_app)
       (example_call 60) (example_call 61) example_job False example_awaits example_db2))"
proof -
  let ?run = "execute_transcript_job example_collate (wa_processor example_app) example_schemas (wa_executor example_app)
    (example_call 60) (example_call 61) example_job False example_awaits example_db2"
  have app: "createWorkerApp (example_processor None)
       \<lparr>wc_workerId = ''w'', wc_pollIntervalMs = 1000, wc_leaseDurationMs = 100, wc_heartbeatIntervalMs = 30, wc_maxAttempts = 3,
        wc_concurrency = 1, wc_shutdownTimeoutMs = 1000, wc_staleRecoveryIntervalMs = 1000, wc_retryBaseDelayMs = 10,
        wc_retryMaxDelayMs = 50\<rparr> None None None = Inr example_app"
    by (simp add: example_app_def createWorkerApp_def resolvePublicationRenderer_def)
  have executor: "wa_executor example_app = example_config 3"
    by (simp add: example_app_def createWorkerApp_def resolvePublicationRenderer_def example_config_def plain_policy_def)
  have "execute_transcript_job example_collate (wa_processor example_app)
      = execute_transcript_job example_collate (example_processor None)"
    by (rule execution_without_pipeline)
       (simp_all add: example_app_def createWorkerApp_def resolvePublicationRenderer_def example_processor_def)
  then have "?run = example_execution" by (simp only: executor example_execution_def)
  then have "fst ?run = Inr JobDone" using example_runs(1) by simp
  then have "?run = (Inr JobDone, snd ?run)" by (simp add: prod_eq_iff)
  from unrendered_results_unpublishable [OF app this] show ?thesis .
qed

subsection \<open>When the publish worker starts\<close>

lemma safe_nonnegative_of_int: "0 \<le> n \<Longrightarrow> n \<le> max_safe_integer \<Longrightarrow> safe_nonnegative (Number (of_int n)) = Some n"
  by (simp add: safe_nonnegative_def)

lemma int_between_of_int:
  assumes "0 \<le> lo" and "hi \<le> max_safe_integer"
  shows "int_between lo hi (Number (of_int n)) = (if lo \<le> n \<and> n \<le> hi then Some n else None)"
  using assms by (auto simp: int_between_def safe_nonnegative_def)

lemma js_trim_Nil: "js_trim [] = []"
  by (simp add: js_trim_def trim_by_def)

lemma config_of_environment:
  assumes "environmentSchema number env = Some e"
  shows "(\<exists>x. createPublishEngineConfig isUrl parse (publish_config_input e) = Inr x)
    \<longleftrightarrow> isUrl (en_publishEngineBaseUrl (en_engine e)) \<and> (\<exists>u. normalizeBaseUrl parse (en_publishEngineBaseUrl (en_engine e)) = Inr u)
      \<and> js_trim (en_publishEngineScope (en_engine e)) \<noteq> [] \<and> length (js_trim (en_publishEngineScope (en_engine e))) \<le> 2000
      \<and> en_publishJobPollIntervalMs (en_publish e) \<le> 60000
      \<and> en_publishEngineRetryBaseDelayMs (en_engine e) \<le> 60000 \<and> en_publishEngineRetryMaxDelayMs (en_engine e) \<le> 120000"
proof -
  let ?g = "en_engine e"
  note parts = environment_parts [OF assms]
  have g: "1 \<le> en_publishEngineRequestTimeoutMs ?g" "en_publishEngineRequestTimeoutMs ?g \<le> 300000"
    "0 \<le> en_publishEngineMaxRetries ?g" "en_publishEngineMaxRetries ?g \<le> 10" "1 \<le> en_publishEngineRetryBaseDelayMs ?g"
    "en_publishEngineRetryBaseDelayMs ?g \<le> en_publishEngineRetryMaxDelayMs ?g" "100 \<le> en_publishJobPollIntervalMs (en_publish e)"
    using engine_schema_bounds [OF parts(4)] publish_schema_positive [OF parts(3)] parts(6) by (auto simp: environment_rules_def)
  have "(\<exists>x. configSchema isUrl (publish_config_input e) = Some x) \<longleftrightarrow> isUrl (en_publishEngineBaseUrl ?g)
      \<and> js_trim (en_publishEngineScope ?g) \<noteq> [] \<and> length (js_trim (en_publishEngineScope ?g)) \<le> 2000
      \<and> en_publishJobPollIntervalMs (en_publish e) \<le> 60000
      \<and> en_publishEngineRetryBaseDelayMs ?g \<le> 60000 \<and> en_publishEngineRetryMaxDelayMs ?g \<le> 120000"
    using g by (auto simp: configSchema_def publish_config_input_def Let_def bind_eq_Some_conv zwhen_def zstring_def
        int_between_of_int max_safe_integer_def int_setting_def ratio_setting_def Suc_le_eq split: if_splits)
  moreover have "fst x = en_publishEngineBaseUrl ?g" if "configSchema isUrl (publish_config_input e) = Some x" for x
    using that by (auto simp: configSchema_def publish_config_input_def Let_def bind_eq_Some_conv zwhen_def split: if_splits)
  ultimately show ?thesis
    by (cases "configSchema isUrl (publish_config_input e)")
       (auto simp: createPublishEngineConfig_def split: sum.splits)
qed

lemma client_of_environment:
  "(\<exists>c. resolveProductionPublishEngineClient constructs number (url, scope, cfg) mode clientId azure skew = Inr c)
    \<longleftrightarrow> js_trim scope \<noteq> [] \<and> (js_trim skew = [] \<or> int_between 0 3600000 (number (js_trim skew)) \<noteq> None)
      \<and> (js_trim mode = ''managed-identity'' \<and> constructs (ManagedIdentityCredential (resolveManagedIdentityClientId clientId azure))
          \<or> js_trim mode = ''default-azure-credential'' \<and> constructs DefaultCredential)"
proof -
  have "normalizeRefreshSkewMs (Some (Number (of_int n))) = Inr n" if "resolveTokenRefreshSkewMs number skew = Inr n" for n
    using that safe_nonnegative_of_int [of n]
    by (auto simp: resolveTokenRefreshSkewMs_def int_between_Some Let_def normalizeRefreshSkewMs_def max_safe_integer_def split: if_splits option.splits)
  then have n: "(\<exists>n. resolveTokenRefreshSkewMs number skew = Inr n
        \<and> (\<exists>k. normalizeRefreshSkewMs (Some (Number (of_int n))) = Inr k))
      \<longleftrightarrow> js_trim skew = [] \<or> int_between 0 3600000 (number (js_trim skew)) \<noteq> None"
    by (auto simp: resolveTokenRefreshSkewMs_def Let_def split: option.splits)
  have t: "(\<exists>t. normalizeScope scope = Inr t) \<longleftrightarrow> js_trim scope \<noteq> []" by (simp add: normalizeScope_def)
  have i: "(\<exists>m c. resolveIdentityMode mode = Inr m \<and> make_credential constructs m i = Inr c)
      \<longleftrightarrow> js_trim mode = ''managed-identity'' \<and> constructs (ManagedIdentityCredential i)
        \<or> js_trim mode = ''default-azure-credential'' \<and> constructs DefaultCredential" for i
    by (auto simp: resolveIdentityMode_def make_credential_def Let_def)
  have "(\<exists>c. resolveProductionPublishEngineClient constructs number (url, scope, cfg) mode clientId azure skew = Inr c)
    \<longleftrightarrow> (\<exists>t. normalizeScope scope = Inr t)
      \<and> (\<exists>n. resolveTokenRefreshSkewMs number skew = Inr n \<and> (\<exists>k. normalizeRefreshSkewMs (Some (Number (of_int n))) = Inr k))
      \<and> (\<exists>m c. resolveIdentityMode mode = Inr m
            \<and> make_credential constructs m (resolveManagedIdentityClientId clientId azure) = Inr c)"
    unfolding resolveProductionPublishEngineClient_def prod.case and_then_Inr by blast
  then show ?thesis unfolding n t i .
qed

text \<open>
  C40: When the publish worker starts.  Enabled under an accepted environment, it starts exactly when the
  engine's address and scope are there and can be used, the poll interval and the two delays of the
  client keep to the client's own limits, which the environment does not know, the identity mode is a known
  one, the refresh skew is a number of milliseconds up to an hour or not there, and the credential
  can be made.
\<close>

theorem publish_worker_starts_exactly:
  assumes "environmentSchema number env = Some e" and "en_publishWorkerEnabled (en_publish e)"
  shows "(\<exists>client app. startPublishWorkerServer isUrl parse constructs number azure pid ulid e = Inr (Some (client, app)))
    \<longleftrightarrow> en_publishEngineBaseUrl (en_engine e) \<noteq> [] \<and> isUrl (en_publishEngineBaseUrl (en_engine e))
      \<and> (\<exists>u. normalizeBaseUrl parse (en_publishEngineBaseUrl (en_engine e)) = Inr u)
      \<and> js_trim (en_publishEngineScope (en_engine e)) \<noteq> [] \<and> length (js_trim (en_publishEngineScope (en_engine e))) \<le> 2000
      \<and> en_publishJobPollIntervalMs (en_publish e) \<le> 60000
      \<and> en_publishEngineRetryBaseDelayMs (en_engine e) \<le> 60000 \<and> en_publishEngineRetryMaxDelayMs (en_engine e) \<le> 120000
      \<and> (js_trim (en_publishEngineTokenRefreshSkewMs (en_engine e)) = []
          \<or> int_between 0 3600000 (number (js_trim (en_publishEngineTokenRefreshSkewMs (en_engine e)))) \<noteq> None)
      \<and> (js_trim (en_publishEngineIdentityMode (en_engine e)) = ''managed-identity''
            \<and> constructs (ManagedIdentityCredential
                 (resolveManagedIdentityClientId (en_publishEngineManagedIdentityClientId (en_engine e)) azure))
          \<or> js_trim (en_publishEngineIdentityMode (en_engine e)) = ''default-azure-credential'' \<and> constructs DefaultCredential)"
proof -
  let ?g = "en_engine e"
  have "snd x = snd y \<and> fst (snd x) = js_trim (en_publishEngineScope ?g)"
    if "createPublishEngineConfig isUrl parse (publish_config_input e) = Inr x" "y = x" for x y
    using that by (auto simp: createPublishEngineConfig_def configSchema_def publish_config_input_def Let_def bind_eq_Some_conv
        zstring_def split: option.splits sum.splits if_splits)
  then have scope: "\<exists>u cfg. x = (u, js_trim (en_publishEngineScope ?g), cfg)"
    if "createPublishEngineConfig isUrl parse (publish_config_input e) = Inr x" for x
    using that by (cases x) auto
  let ?client = "js_trim (en_publishEngineScope ?g) \<noteq> []
      \<and> (js_trim (en_publishEngineTokenRefreshSkewMs ?g) = []
          \<or> int_between 0 3600000 (number (js_trim (en_publishEngineTokenRefreshSkewMs ?g))) \<noteq> None)
      \<and> (js_trim (en_publishEngineIdentityMode ?g) = ''managed-identity''
            \<and> constructs (ManagedIdentityCredential
                 (resolveManagedIdentityClientId (en_publishEngineManagedIdentityClientId ?g) azure))
          \<or> js_trim (en_publishEngineIdentityMode ?g) = ''default-azure-credential'' \<and> constructs DefaultCredential)"
  have client: "(\<exists>c. resolveProductionPublishEngineClient constructs number x (en_publishEngineIdentityMode ?g)
        (en_publishEngineManagedIdentityClientId ?g) azure (en_publishEngineTokenRefreshSkewMs ?g) = Inr c) \<longleftrightarrow> ?client"
    if config: "createPublishEngineConfig isUrl parse (publish_config_input e) = Inr x" for x
  proof -
    from scope [OF config] obtain u cfg where x: "x = (u, js_trim (en_publishEngineScope ?g), cfg)" by blast
    show ?thesis unfolding x client_of_environment js_trim_idem ..
  qed
  have "(\<exists>client app. startPublishWorkerServer isUrl parse constructs number azure pid ulid e = Inr (Some (client, app)))
    \<longleftrightarrow> en_publishEngineBaseUrl ?g \<noteq> [] \<and> en_publishEngineScope ?g \<noteq> []
      \<and> (\<exists>x. createPublishEngineConfig isUrl parse (publish_config_input e) = Inr x
           \<and> (\<exists>c. resolveProductionPublishEngineClient constructs number x (en_publishEngineIdentityMode ?g)
                (en_publishEngineManagedIdentityClientId ?g) azure (en_publishEngineTokenRefreshSkewMs ?g) = Inr c))"
    using assms(2) by (auto simp: startPublishWorkerServer_def Let_def)
  also have "\<dots> \<longleftrightarrow> en_publishEngineBaseUrl ?g \<noteq> [] \<and> en_publishEngineScope ?g \<noteq> []
      \<and> (\<exists>x. createPublishEngineConfig isUrl parse (publish_config_input e) = Inr x) \<and> ?client"
    using client by blast
  also have "\<dots> \<longleftrightarrow> en_publishEngineBaseUrl ?g \<noteq> []
      \<and> (\<exists>x. createPublishEngineConfig isUrl parse (publish_config_input e) = Inr x) \<and> ?client"
    using config_of_environment [OF assms(1), of isUrl parse] by (auto simp: js_trim_Nil)
  finally show ?thesis unfolding config_of_environment [OF assms(1)] by blast
qed

lemma publish_worker_starts_exactly_witness:
  "\<exists>e. environmentSchema example_number example_env = Some e
    \<and> (\<forall>client app. startPublishWorkerServer (\<lambda>_. True) example_parse (\<lambda>_. True) example_number None ''1'' ''ulid'' e
         \<noteq> Inr (Some (client, app)))"
proof -
  obtain e where e: "environmentSchema example_number example_env = Some e" "en_publishWorkerEnabled (en_publish e)"
    "en_publishJobPollIntervalMs (en_publish e) = 120000"
    using example_env_accepted by (auto split: option.splits)
  from publish_worker_starts_exactly [OF e(1, 2), of "\<lambda>_. True" example_parse "\<lambda>_. True" None "''1''" "''ulid''"] e(1, 3)
  show ?thesis by auto
qed

end
