(* ===== verification/Api.thy ===== *)
theory Api
  imports PublishSource PublishRecords SourceVersions ContentLifecycle AiResults
begin

text \<open>
  The HTTP API (\<open>src/api\<close>): the tenant and correlation headers, the schemas of the requests, the
  routes over the use cases, the bodies of the answers and the mapping of errors.  Fastify finds the
  route, parses the body and calls the hooks in their order; what it makes of a body it refuses is the
  code of its error.  Moments are answered as they are stored, their rendering as a text is left out,
  and so are the details of errors.
\<close>

subsection \<open>Errors\<close>

text \<open>What can be thrown while a request is served: an error of Fastify with its code, a platform error, anything else.\<close>

datatype api_thrown = FrameworkError string | PlatformFault platform_error | UnknownError

definition mapError :: "api_thrown \<Rightarrow> nat \<times> error_code \<times> string" where
  "mapError error =
     (case error of
        FrameworkError code \<Rightarrow>
          if code = ''FST_ERR_CTP_BODY_TOO_LARGE'' then (413, PAYLOAD_TOO_LARGE, ''Request payload is too large.'')
          else if code = ''FST_ERR_CTP_INVALID_JSON_BODY'' then (400, INVALID_JSON, ''Malformed JSON payload.'')
          else (500, INTERNAL_SERVER_ERROR, ''An unexpected error occurred.'')
      | PlatformFault e \<Rightarrow>
          (case e of
             ValidationError m \<Rightarrow> (400, VALIDATION_ERROR, m)
           | NotFoundError t i \<Rightarrow> (404, RESOURCE_NOT_FOUND, perror_message e)
           | ConflictError c m \<Rightarrow> (409, c, m)
           | PlatformError c m \<Rightarrow>
               if c = DATABASE_UNAVAILABLE then (503, DATABASE_UNAVAILABLE, ''Database is currently unavailable.'')
               else (500, INTERNAL_SERVER_ERROR, ''An unexpected error occurred.''))
      | UnknownError \<Rightarrow> (500, INTERNAL_SERVER_ERROR, ''An unexpected error occurred.''))"

definition invalid :: "string \<Rightarrow> api_thrown" where
  "invalid message = PlatformFault (ValidationError message)"

text \<open>\<open>parseSchema\<close>: what the schema gives, or a validation error with the message.\<close>

definition parseSchema :: "'a option \<Rightarrow> string \<Rightarrow> api_thrown + 'a" where
  "parseSchema parsed message = (case parsed of None \<Rightarrow> Inl (invalid message) | Some v \<Rightarrow> Inr v)"

subsection \<open>Requests and their schemas\<close>

record source_body =
  sb_projectId :: string
  sb_transcriptText :: jstext
  sb_sourceType :: "string option"
  sb_sourceReference :: "string option"

record content_body =
  cb_projectId :: string
  cb_sourceVersionId :: string
  cb_jobType :: string
  cb_requestSchemaVersion :: string

record publish_body =
  pb_projectId :: string
  pb_sourceContentJobId :: string
  pb_outputFormat :: output_format
  pb_publishMode :: publish_mode
  pb_renderOptions :: "render_options option"
  pb_publicationMetadata :: "publication_metadata option"

definition prefixed :: "string \<Rightarrow> string \<Rightarrow> string option" where
  "prefixed p value = (if isPrefixedId value p then Some value else None)"

definition idempotencyKeySchema :: "string option \<Rightarrow> string option" where
  "idempotencyKeySchema key = Option.bind key (zstring 1 255)"

definition createSourceVersionBodySchema :: "source_body \<Rightarrow> (string \<times> jstext) option" where
  "createSourceVersionBodySchema b =
     Option.bind (prefixed ''project'' (sb_projectId b)) (\<lambda>projectId.
     Option.bind (if js_trim_text (sb_transcriptText b) = [] then None else Some (js_trim_text (sb_transcriptText b))) (\<lambda>transcript.
     Option.bind (zopt (zenum [''transcript'']) (sb_sourceType b)) (\<lambda>_.
     Option.bind (zopt (zstring 1 255) (sb_sourceReference b)) (\<lambda>_. Some (projectId, transcript)))))"

definition createContentJobBodySchema :: "content_body \<Rightarrow> content_body option" where
  "createContentJobBodySchema b =
     Option.bind (prefixed ''project'' (cb_projectId b)) (\<lambda>_.
     Option.bind (prefixed ''srcver'' (cb_sourceVersionId b)) (\<lambda>_.
     Option.bind (zenum [''transcript-processing''] (cb_jobType b)) (\<lambda>_.
     Option.bind (zenum [''1.0''] (cb_requestSchemaVersion b)) (\<lambda>_. Some b))))"

definition renderOptionsSchema :: "render_options \<Rightarrow> render_options option" where
  "renderOptionsSchema o' =
     Option.bind (zopt (zenum [''comfortable'', ''standard'', ''compact'', ''high-density'']) (ro_densityId o')) (\<lambda>_.
     Option.bind (zopt (zenum [''single-column'', ''two-column'', ''wide-content'']) (ro_layoutId o')) (\<lambda>_. Some o'))"

definition standardPublicationMetadataSchema :: "publication_metadata \<Rightarrow> publication_metadata option" where
  "standardPublicationMetadataSchema m =
     (if pm_audience m \<noteq> None then None
      else
        Option.bind (zopt (zstring 1 120) (pm_publicationId m)) (\<lambda>i.
        Option.bind (zopt (zstring 1 400) (pm_title m)) (\<lambda>t.
        Option.bind (zopt (zstring 2 16) (pm_language m)) (\<lambda>l.
        Option.bind (zopt (zstring 1 80) (pm_theme m)) (\<lambda>h.
          Some \<lparr>pm_publicationId = i, pm_title = t, pm_language = l, pm_theme = h, pm_audience = None\<rparr>)))))"

definition ctaPublicationMetadataSchema :: "publication_metadata \<Rightarrow> publication_metadata option" where
  "ctaPublicationMetadataSchema m =
     Option.bind (Option.bind (pm_publicationId m) (zstring 1 120)) (\<lambda>i.
     Option.bind (Option.bind (pm_title m) (zstring 1 400)) (\<lambda>t.
     Option.bind (Option.bind (pm_language m) (zstring 2 16)) (\<lambda>l.
     Option.bind (Option.bind (pm_theme m) (zstring 1 80)) (\<lambda>h.
     Option.bind (zopt (zstring 1 120) (pm_audience m)) (\<lambda>a.
       Some \<lparr>pm_publicationId = Some i, pm_title = Some t, pm_language = Some l, pm_theme = Some h, pm_audience = a\<rparr>)))))"

definition createPublishJobBodySchema :: "publish_body \<Rightarrow> publish_body option" where
  "createPublishJobBodySchema b =
     Option.bind (prefixed ''project'' (pb_projectId b)) (\<lambda>_.
     Option.bind (prefixed ''job'' (pb_sourceContentJobId b)) (\<lambda>_.
     Option.bind (zopt renderOptionsSchema (pb_renderOptions b)) (\<lambda>_.
     Option.bind (zopt (\<lambda>m. case standardPublicationMetadataSchema m of Some m' \<Rightarrow> Some m' | None \<Rightarrow> ctaPublicationMetadataSchema m)
         (pb_publicationMetadata b)) (\<lambda>m. Some (b\<lparr>pb_publicationMetadata := m\<rparr>)))))"

text \<open>A body that is not an object of the fields with their types, or has others, is \<open>None\<close>.\<close>

datatype api_route =
    PostSourceVersion "source_body option" | GetSourceVersion string
  | PostContentJob "content_body option" | GetContentJob string | GetContentJobEvents string | PostContentJobCancel string
  | PostPublishJob "publish_body option" | GetPublishJob string | GetPublishJobEvents string | PostPublishJobCancel string

record api_request =
  rt_requestId :: string
  rt_correlationHeader :: "string option"
  rt_tenantHeader :: "string option"
  rt_idempotencyHeader :: "string option"
  rt_bodyError :: "string option"
  rt_route :: api_route

subsection \<open>Answers\<close>

record source_version_dto =
  sd_id :: string
  sd_tenantId :: string
  sd_projectId :: string
  sd_versionNumber :: int
  sd_contentHash :: string
  sd_createdAt :: time

record content_job_dto =
  jd_id :: string
  jd_tenantId :: string
  jd_projectId :: string
  jd_sourceVersionId :: string
  jd_status :: content_status
  jd_currentStage :: content_stage
  jd_attemptCount :: int
  jd_result :: "processing_result option"
  jd_errorCode :: "string option"
  jd_errorMessage :: "string option"
  jd_correlationId :: string
  jd_createdAt :: time
  jd_startedAt :: "time option"
  jd_completedAt :: "time option"
  jd_updatedAt :: time

record job_event_dto =
  jv_id :: string
  jv_jobId :: string
  jv_eventType :: job_event_type
  jv_priorStatus :: "content_status option"
  jv_newStatus :: "content_status option"
  jv_details :: "event_details option"
  jv_createdAt :: time

record download_dto =
  dd_fileName :: string
  dd_mimeType :: string
  dd_byteSize :: "int option"
  dd_checksumSha256 :: "string option"
  dd_expiresAt :: "string option"
  dd_expired :: bool

record publish_job_dto =
  qd_id :: string
  qd_tenantId :: string
  qd_projectId :: string
  qd_sourceContentJobId :: string
  qd_sourceRenderArtifactId :: string
  qd_sourceArtifactChecksumSha256 :: string
  qd_sourceArtifactByteSize :: int
  qd_publishMode :: publish_mode
  qd_outputFormat :: output_format
  qd_status :: publish_status
  qd_stage :: publish_stage
  qd_idempotencyKey :: string
  qd_remoteJobId :: "string option"
  qd_remoteState :: "string option"
  qd_remoteCorrelationId :: "string option"
  qd_downloadMetadata :: "download_dto option"
  qd_attemptCount :: int
  qd_consecutiveFailureCount :: int
  qd_pollCount :: int
  qd_correlationId :: string
  qd_nextAttemptAt :: "time option"
  qd_nextPollAt :: "time option"
  qd_submittedAt :: "time option"
  qd_lastPolledAt :: "time option"
  qd_completedAt :: "time option"
  qd_cancelledAt :: "time option"
  qd_createdAt :: time
  qd_updatedAt :: time

datatype api_body =
    SourceVersionBody source_version_dto
  | ContentJobBody content_job_dto
  | ContentJobEventsBody string "job_event_dto list"
  | PublishJobBody publish_job_dto
  | PublishJobEventsBody string "publish_event list"
  | ErrorBody error_code string string string

definition toSourceVersionDto :: "source_version \<Rightarrow> source_version_dto" where
  "toSourceVersionDto v = \<lparr>sd_id = sv_id v, sd_tenantId = sv_tenantId v, sd_projectId = sv_projectId v,
     sd_versionNumber = sv_versionNumber v, sd_contentHash = sv_contentHash v, sd_createdAt = sv_createdAt v\<rparr>"

definition toContentJobDto :: "content_job \<Rightarrow> content_job_dto" where
  "toContentJobDto job = \<lparr>jd_id = cj_id job, jd_tenantId = cj_tenantId job, jd_projectId = cj_projectId job,
     jd_sourceVersionId = cj_sourceVersionId job, jd_status = cj_status job, jd_currentStage = cj_currentStage job,
     jd_attemptCount = cj_attemptCount job, jd_result = cj_result job, jd_errorCode = cj_errorCode job,
     jd_errorMessage = cj_errorMessage job, jd_correlationId = cj_correlationId job, jd_createdAt = cj_createdAt job,
     jd_startedAt = cj_startedAt job, jd_completedAt = cj_completedAt job, jd_updatedAt = cj_updatedAt job\<rparr>"

definition toJobEventDto :: "job_event \<Rightarrow> job_event_dto" where
  "toJobEventDto e = \<lparr>jv_id = je_id e, jv_jobId = je_jobId e, jv_eventType = je_eventType e,
     jv_priorStatus = je_priorStatus e, jv_newStatus = je_newStatus e, jv_details = je_details e, jv_createdAt = je_createdAt e\<rparr>"

text \<open>The address of the download is left out; \<open>parse_date\<close> is the moment of a text, \<open>now\<close> the clock.\<close>

definition toDownloadMetadataDto :: "(string \<Rightarrow> time option) \<Rightarrow> time \<Rightarrow> download_metadata option \<Rightarrow> download_dto option" where
  "toDownloadMetadataDto parse_date now downloadMetadata =
     map_option (\<lambda>m. \<lparr>dd_fileName = dm_fileName m, dd_mimeType = dm_mimeType m, dd_byteSize = dm_byteSize m,
       dd_checksumSha256 = dm_checksumSha256 m, dd_expiresAt = dm_expiresAt m,
       dd_expired = (case dm_expiresAt m of
           None \<Rightarrow> False
         | Some s \<Rightarrow> s \<noteq> [] \<and> (case parse_date s of None \<Rightarrow> False | Some t \<Rightarrow> t \<le> now))\<rparr>) downloadMetadata"

definition toPublishJobDto :: "(string \<Rightarrow> time option) \<Rightarrow> time \<Rightarrow> publish_row \<Rightarrow> publish_job_dto" where
  "toPublishJobDto parse_date now job =
     \<lparr>qd_id = pr_id job, qd_tenantId = pr_tenantId job, qd_projectId = pr_projectId job,
      qd_sourceContentJobId = pr_sourceContentJobId job, qd_sourceRenderArtifactId = pr_sourceRenderArtifactId job,
      qd_sourceArtifactChecksumSha256 = pr_sourceArtifactChecksumSha256 job,
      qd_sourceArtifactByteSize = pr_sourceArtifactByteSize job, qd_publishMode = pr_publishMode job,
      qd_outputFormat = pr_outputFormat job, qd_status = pr_status job, qd_stage = pr_stage job,
      qd_idempotencyKey = pr_idempotencyKey job, qd_remoteJobId = pr_remoteJobId job, qd_remoteState = pr_remoteState job,
      qd_remoteCorrelationId = pr_remoteCorrelationId job,
      qd_downloadMetadata = toDownloadMetadataDto parse_date now (pr_downloadMetadata job),
      qd_attemptCount = pr_attemptCount job, qd_consecutiveFailureCount = pr_consecutiveFailureCount job,
      qd_pollCount = pr_pollCount job, qd_correlationId = pr_correlationId job, qd_nextAttemptAt = pr_nextAttemptAt job,
      qd_nextPollAt = pr_nextPollAt job, qd_submittedAt = pr_submittedAt job, qd_lastPolledAt = pr_lastPolledAt job,
      qd_completedAt = pr_completedAt job, qd_cancelledAt = pr_cancelledAt job, qd_createdAt = pr_createdAt job,
      qd_updatedAt = pr_updatedAt job\<rparr>"

text \<open>All fields of an event of a publish job are answered.\<close>

definition toPublishJobEventDto :: "publish_event \<Rightarrow> publish_event" where
  "toPublishJobEventDto e = e"

subsection \<open>The routes\<close>

text \<open>
  What a request meets besides the database: the fates of its statements, what its plain selects
  read, fresh identifiers and the clock, when the statements run and when the answer is written.
\<close>

record api_world =
  wd_fault :: bool
  wd_readFault :: bool
  wd_listFault :: bool
  wd_seen :: db
  wd_snap :: db
  wd_newId :: string
  wd_newCorrelation :: string
  wd_evtId :: string
  wd_now :: time
  wd_clock :: time

type_synonym api_outcome = "(api_thrown + nat \<times> api_body) \<times> db"

definition answer :: "nat \<Rightarrow> ('a \<Rightarrow> api_body) \<Rightarrow> (platform_error + 'a) \<times> db \<Rightarrow> api_outcome" where
  "answer status body r =
     (case r of (Inl e, d) \<Rightarrow> (Inl (PlatformFault e), d) | (Inr x, d) \<Rightarrow> (Inr (status, body x), d))"

definition parsed :: "api_thrown + 'b \<Rightarrow> db \<Rightarrow> ('b \<Rightarrow> api_outcome) \<Rightarrow> api_outcome" where
  "parsed c d k = (case c of Inl e \<Rightarrow> (Inl e, d) | Inr b \<Rightarrow> k b)"

definition post_source_version ::
  "(jstext \<Rightarrow> string) \<Rightarrow> api_world \<Rightarrow> string \<Rightarrow> source_body option \<Rightarrow> db \<Rightarrow> api_outcome" where
  "post_source_version sha256t w tenant body d =
     parsed (parseSchema (Option.bind body createSourceVersionBodySchema) ''Invalid source version request body.'') d
       (\<lambda>(projectId, transcript).
          answer 201 (SourceVersionBody \<circ> toSourceVersionDto)
            (sv_createImmutable sha256t (wd_fault w) (wd_snap w) (wd_newId w) (wd_now w) tenant projectId transcript d))"

definition get_source_version :: "api_world \<Rightarrow> string \<Rightarrow> string \<Rightarrow> db \<Rightarrow> api_outcome" where
  "get_source_version w tenant param d =
     parsed (parseSchema (prefixed ''srcver'' param) ''Invalid source version ID.'') d (\<lambda>i.
       answer 200 (SourceVersionBody \<circ> toSourceVersionDto) (getSourceVersion (wd_fault w) tenant i d, d))"

definition post_content_job ::
  "(string \<Rightarrow> string) \<Rightarrow> (string \<Rightarrow> 'k::linorder) \<Rightarrow> result_schemas \<Rightarrow> api_world \<Rightarrow> string \<Rightarrow> string \<Rightarrow> string option
     \<Rightarrow> content_body option \<Rightarrow> db \<Rightarrow> api_outcome" where
  "post_content_job sha256 collate sch w tenant correlation key body d =
     parsed (parseSchema (idempotencyKeySchema key) ''Invalid content job request headers.'') d (\<lambda>k.
     parsed (parseSchema (Option.bind body createContentJobBodySchema) ''Invalid content job request body.'') d (\<lambda>b.
       answer 202 (ContentJobBody \<circ> toContentJobDto)
         (cj_createOrGetIdempotent sha256 collate sch (wd_fault w) (wd_snap w) (wd_newId w) (wd_newCorrelation w)
            (wd_evtId w) (wd_now w)
            \<lparr>cci_tenantId = tenant, cci_projectId = cb_projectId b, cci_sourceVersionId = cb_sourceVersionId b,
             cci_idempotencyKey = k, cci_correlationId = Some correlation, cci_jobType = cb_jobType b,
             cci_requestSchemaVersion = cb_requestSchemaVersion b\<rparr> d)))"

definition get_content_job :: "result_schemas \<Rightarrow> api_world \<Rightarrow> string \<Rightarrow> string \<Rightarrow> db \<Rightarrow> api_outcome" where
  "get_content_job sch w tenant param d =
     parsed (parseSchema (prefixed ''job'' param) ''Invalid content job ID.'') d (\<lambda>i.
       answer 200 (ContentJobBody \<circ> toContentJobDto) (getContentJob sch (wd_fault w) tenant i d, d))"

definition get_content_job_events :: "result_schemas \<Rightarrow> api_world \<Rightarrow> string \<Rightarrow> string \<Rightarrow> db \<Rightarrow> api_outcome" where
  "get_content_job_events sch w tenant param d =
     parsed (parseSchema (prefixed ''job'' param) ''Invalid content job ID.'') d (\<lambda>i.
       answer 200 (ContentJobEventsBody i \<circ> map toJobEventDto) (getContentJobEvents sch (wd_fault w) tenant i d, d))"

definition post_content_job_cancel :: "result_schemas \<Rightarrow> api_world \<Rightarrow> string \<Rightarrow> string \<Rightarrow> db \<Rightarrow> api_outcome" where
  "post_content_job_cancel sch w tenant param d =
     parsed (parseSchema (prefixed ''job'' param) ''Invalid content job ID.'') d (\<lambda>i.
       answer 200 (ContentJobBody \<circ> toContentJobDto)
         (cj_cancel sch (wd_fault w) (wd_snap w) (wd_evtId w) (wd_now w) tenant i d))"

text \<open>
  The normalization of the render options and of the metadata in the route copies what is present, which
  for these records is the record itself.
\<close>

definition post_publish_job ::
  "(string \<Rightarrow> string) \<Rightarrow> (string \<Rightarrow> 'k::linorder) \<Rightarrow> result_schemas \<Rightarrow> (string \<Rightarrow> time option) \<Rightarrow> api_world \<Rightarrow> string
     \<Rightarrow> string \<Rightarrow> string option \<Rightarrow> publish_body option \<Rightarrow> db \<Rightarrow> api_outcome" where
  "post_publish_job sha256 collate sch parse_date w tenant correlation key body d =
     parsed (parseSchema (idempotencyKeySchema key) ''Invalid publish job request headers.'') d (\<lambda>k.
     parsed (parseSchema (Option.bind body createPublishJobBodySchema) ''Invalid publish job request body.'') d (\<lambda>b.
       answer 202 (PublishJobBody \<circ> toPublishJobDto parse_date (wd_clock w))
         (createPublishJob sha256 collate sch (wd_readFault w) (wd_seen w) (wd_fault w) (wd_snap w) (wd_newId w)
            (wd_evtId w) (wd_now w)
            \<lparr>cpc_tenantId = tenant, cpc_projectId = pb_projectId b, cpc_sourceContentJobId = pb_sourceContentJobId b,
             cpc_outputFormat = pb_outputFormat b, cpc_publishMode = pb_publishMode b,
             cpc_renderOptions = pb_renderOptions b, cpc_publicationMetadata = pb_publicationMetadata b,
             cpc_idempotencyKey = k, cpc_correlationId = correlation\<rparr> d)))"

definition get_publish_job :: "(string \<Rightarrow> time option) \<Rightarrow> api_world \<Rightarrow> string \<Rightarrow> string \<Rightarrow> db \<Rightarrow> api_outcome" where
  "get_publish_job parse_date w tenant param d =
     parsed (parseSchema (prefixed ''pjob'' param) ''Invalid publish job ID.'') d (\<lambda>i.
       answer 200 (PublishJobBody \<circ> toPublishJobDto parse_date (wd_clock w)) (getPublishJob (wd_fault w) tenant i d, d))"

definition get_publish_job_events :: "api_world \<Rightarrow> string \<Rightarrow> string \<Rightarrow> db \<Rightarrow> api_outcome" where
  "get_publish_job_events w tenant param d =
     parsed (parseSchema (prefixed ''pjob'' param) ''Invalid publish job ID.'') d (\<lambda>i.
       answer 200 (PublishJobEventsBody i \<circ> map toPublishJobEventDto)
         (getPublishJobEvents (wd_fault w) (wd_listFault w) tenant i d, d))"

definition post_publish_job_cancel :: "(string \<Rightarrow> time option) \<Rightarrow> api_world \<Rightarrow> string \<Rightarrow> string \<Rightarrow> db \<Rightarrow> api_outcome" where
  "post_publish_job_cancel parse_date w tenant param d =
     parsed (parseSchema (prefixed ''pjob'' param) ''Invalid publish job ID.'') d (\<lambda>i.
       answer 200 (PublishJobBody \<circ> toPublishJobDto parse_date (wd_clock w))
         (pj_cancel (wd_fault w) (wd_snap w) (wd_evtId w) tenant i (wd_now w) d))"

definition api_route_handler ::
  "(jstext \<Rightarrow> string) \<Rightarrow> (string \<Rightarrow> string) \<Rightarrow> (string \<Rightarrow> 'k::linorder) \<Rightarrow> result_schemas \<Rightarrow> (string \<Rightarrow> time option)
     \<Rightarrow> api_world \<Rightarrow> string \<Rightarrow> string \<Rightarrow> string option \<Rightarrow> api_route \<Rightarrow> db \<Rightarrow> api_outcome" where
  "api_route_handler sha256t sha256 collate sch parse_date w tenant correlation key route d =
     (case route of
        PostSourceVersion body \<Rightarrow> post_source_version sha256t w tenant body d
      | GetSourceVersion i \<Rightarrow> get_source_version w tenant i d
      | PostContentJob body \<Rightarrow> post_content_job sha256 collate sch w tenant correlation key body d
      | GetContentJob i \<Rightarrow> get_content_job sch w tenant i d
      | GetContentJobEvents i \<Rightarrow> get_content_job_events sch w tenant i d
      | PostContentJobCancel i \<Rightarrow> post_content_job_cancel sch w tenant i d
      | PostPublishJob body \<Rightarrow> post_publish_job sha256 collate sch parse_date w tenant correlation key body d
      | GetPublishJob i \<Rightarrow> get_publish_job parse_date w tenant i d
      | GetPublishJobEvents i \<Rightarrow> get_publish_job_events w tenant i d
      | PostPublishJobCancel i \<Rightarrow> post_publish_job_cancel parse_date w tenant i d)"

subsection \<open>A request\<close>

definition coerceCorrelationId :: "string \<Rightarrow> string option \<Rightarrow> api_thrown + string" where
  "coerceCorrelationId newCorrelation rawValue =
     (case rawValue of
        None \<Rightarrow> Inr newCorrelation
      | Some value \<Rightarrow> if value = [] then Inr newCorrelation else parseSchema (prefixed ''corr'' value) ''Invalid correlation header.'')"

definition requireTenantContext :: "string option \<Rightarrow> api_thrown + string" where
  "requireTenantContext rawTenantHeader =
     (case rawTenantHeader of
        None \<Rightarrow> Inl (invalid ''x-tenant-id header is required.'')
      | Some value \<Rightarrow>
          if js_trim value = [] then Inl (invalid ''x-tenant-id header is required.'')
          else parseSchema (prefixed ''tenant'' value) ''Invalid tenant header.'')"

definition error_answer :: "string \<Rightarrow> string \<Rightarrow> api_thrown \<Rightarrow> nat \<times> api_body" where
  "error_answer requestId correlationId error =
     (case mapError error of (status, code, message) \<Rightarrow> (status, ErrorBody code message requestId correlationId))"

definition answered :: "string \<Rightarrow> string \<Rightarrow> api_outcome \<Rightarrow> (nat \<times> api_body) \<times> db" where
  "answered requestId correlationId r =
     (case r of (Inl e, d) \<Rightarrow> (error_answer requestId correlationId e, d) | (Inr a, d) \<Rightarrow> (a, d))"

text \<open>The hooks: the correlation first, then the body is parsed, then the tenant.\<close>

definition api_handle ::
  "(jstext \<Rightarrow> string) \<Rightarrow> (string \<Rightarrow> string) \<Rightarrow> (string \<Rightarrow> 'k::linorder) \<Rightarrow> result_schemas \<Rightarrow> (string \<Rightarrow> time option)
     \<Rightarrow> api_world \<Rightarrow> api_request \<Rightarrow> db \<Rightarrow> (nat \<times> api_body) \<times> db" where
  "api_handle sha256t sha256 collate sch parse_date w req d =
     (case coerceCorrelationId (wd_newCorrelation w) (rt_correlationHeader req) of
        Inl e \<Rightarrow> (error_answer (rt_requestId req) ''corr_unknown'' e, d)
      | Inr correlation \<Rightarrow>
          (case rt_bodyError req of
             Some code \<Rightarrow> (error_answer (rt_requestId req) correlation (FrameworkError code), d)
           | None \<Rightarrow>
               (case requireTenantContext (rt_tenantHeader req) of
                  Inl e \<Rightarrow> (error_answer (rt_requestId req) correlation e, d)
                | Inr tenant \<Rightarrow>
                    answered (rt_requestId req) correlation
                      (api_route_handler sha256t sha256 collate sch parse_date w tenant correlation
                         (rt_idempotencyHeader req) (rt_route req) d))))"

end
