(* ===== verification/TenantIsolation.thy ===== *)
theory TenantIsolation
  imports Api
begin

text \<open>
  What the API keeps between tenants: a request changes rows of the tenant in its header only, and its
  answer tells of rows of that tenant only.
\<close>

subsection \<open>Rows of others\<close>

definition elsewhere_same :: "string \<Rightarrow> db \<Rightarrow> db \<Rightarrow> bool" where
  "elsewhere_same t d d' \<longleftrightarrow>
     filter (\<lambda>r. sv_tenantId r \<noteq> t) (sourceVersions d') = filter (\<lambda>r. sv_tenantId r \<noteq> t) (sourceVersions d)
     \<and> filter (\<lambda>r. cr_tenantId r \<noteq> t) (contentJobs d') = filter (\<lambda>r. cr_tenantId r \<noteq> t) (contentJobs d)
     \<and> filter (\<lambda>r. je_tenantId r \<noteq> t) (jobEvents d') = filter (\<lambda>r. je_tenantId r \<noteq> t) (jobEvents d)
     \<and> filter (\<lambda>r. pr_tenantId r \<noteq> t) (publishJobs d') = filter (\<lambda>r. pr_tenantId r \<noteq> t) (publishJobs d)
     \<and> filter (\<lambda>r. pe_tenantId r \<noteq> t) (publishJobEvents d') = filter (\<lambda>r. pe_tenantId r \<noteq> t) (publishJobEvents d)"

lemma elsewhere_refl [simp]: "elsewhere_same t d d"
  by (simp add: elsewhere_same_def)

lemma update_elsewhere:
  assumes "\<And>r. p r \<Longrightarrow> k r = t \<and> k (f r) = t"
  shows "filter (\<lambda>r. k r \<noteq> t) (update_where p f rows) = filter (\<lambda>r. k r \<noteq> t) rows"
  using assms by (induction rows) (auto simp: update_where_def)

lemma updated_row: "update_returning p f rows = (Some r, rows') \<Longrightarrow> \<exists>x \<in> set rows. p x \<and> r = f x"
  by (auto simp: update_returning_def dest: find_Some_mem)

lemma transaction_ends:
  assumes "transaction fault d body = (r, d')"
  obtains (failed) e where "r = Inl e" "d' = d" | (ran) a where "r = Inr a" "body = Inr (a, d')"
  using assms by (auto simp: transaction_def split: if_splits sum.splits prod.splits)

subsection \<open>Source versions\<close>

lemma sv_create_body_tenant:
  assumes "sv_create_body snap newId now t projectId h text d = Inr (v, d')"
  shows "sv_tenantId v = t \<and> elsewhere_same t d d'"
  using assms unfolding sv_create_body_def Let_def elsewhere_same_def
  by (auto split: option.splits if_splits dest!: find_first_Some)

lemma sv_create_tenant:
  assumes "sv_create sha256 fault snap newId now t projectId text d = (r, d')"
  shows "elsewhere_same t d d' \<and> (\<forall>v. r = Inr v \<longrightarrow> sv_tenantId v = t)"
proof -
  let ?n = "normalizeTranscript text"
  let ?h = "computeTranscriptHash sha256 ?n"
  obtain r' d1 where tr: "transaction fault d (sv_create_body snap newId now t projectId ?h ?n d) = (r', d1)" by fastforce
  from tr show ?thesis
  proof (cases rule: transaction_ends)
    case (failed e)
    then show ?thesis using assms tr
      by (auto simp: sv_create_def checked_def Let_def sv_findByHash_def dest!: find_first_Some
          split: sum.splits if_splits option.splits)
  next
    case (ran a)
    then show ?thesis using assms tr sv_create_body_tenant [OF ran(2)]
      by (auto simp: sv_create_def checked_def Let_def split: sum.splits if_splits)
  qed
qed

lemma getSourceVersion_tenant: "getSourceVersion fault t i d = Inr v \<Longrightarrow> sv_tenantId v = t"
  by (auto simp: getSourceVersion_def sv_getById_def dest!: find_first_Some split: sum.splits option.splits if_splits)

subsection \<open>Content jobs\<close>

lemma mapContentJob_tenant: "mapContentJob sch row = Inr j \<Longrightarrow> cj_tenantId j = cr_tenantId row"
  by (auto simp: mapContentJob_def content_job_of_def split: if_splits)

lemma content_commit_tenant:
  assumes "content_commit sch jobs event row d = Inr (j, d')" and "je_tenantId event = t" and "cr_tenantId row = t"
    and "filter (\<lambda>r. cr_tenantId r \<noteq> t) jobs = filter (\<lambda>r. cr_tenantId r \<noteq> t) (contentJobs d)"
  shows "cj_tenantId j = t \<and> elsewhere_same t d d'"
  using assms mapContentJob_tenant [of sch row]
  by (auto simp: content_commit_def thrown_def elsewhere_same_def map_sum_def split: sum.splits)

lemma cj_create_body_tenant:
  assumes "cj_create_body sch snap newId newCorr evtId now input key fp d = Inr (j, d')"
  shows "cj_tenantId j = cci_tenantId input \<and> elsewhere_same (cci_tenantId input) d d'"
proof -
  have existing: "cr_tenantId row = cci_tenantId input" if "cj_by_key (cci_tenantId input) key snap = Some row" for row
    using that by (auto simp: cj_by_key_def dest!: find_first_Some)
  show ?thesis
  proof (cases "cj_by_key (cci_tenantId input) key snap")
    case None
    then show ?thesis using assms unfolding cj_create_body_def
      by (auto simp: Let_def cj_new_row_def split: option.splits if_splits dest!: content_commit_tenant [where t = "cci_tenantId input"])
  next
    case (Some row)
    then show ?thesis using assms existing [OF Some] mapContentJob_tenant [of sch row] unfolding cj_create_body_def
      by (auto simp: thrown_def map_sum_def split: option.splits sum.splits)
  qed
qed

lemma cj_create_tenant:
  assumes "cj_createOrGetIdempotent sha256 collate sch fault snap newId newCorr evtId now input d = (r, d')"
  shows "elsewhere_same (cci_tenantId input) d d' \<and> (\<forall>j. r = Inr j \<longrightarrow> cj_tenantId j = cci_tenantId input)"
proof (cases "cj_validate_create input")
  case (Inl e)
  then show ?thesis using assms by (auto simp: cj_createOrGetIdempotent_def checked_def)
next
  case (Inr key)
  let ?fp = "computeRequestFingerprint sha256 collate (cj_fingerprint_input input)"
  obtain r' d1 where tr: "transaction fault d (cj_create_body sch snap newId newCorr evtId now input key ?fp d) = (r', d1)" by fastforce
  from tr show ?thesis
  proof (cases rule: transaction_ends)
    case (failed e)
    then show ?thesis using assms tr Inr
      by (auto simp: cj_createOrGetIdempotent_def checked_def Let_def cj_getByIdempotencyKey_def cj_by_key_def map_sum_def
          dest!: find_first_Some mapContentJob_tenant split: sum.splits if_splits option.splits)
  next
    case (ran a)
    then show ?thesis using assms tr Inr cj_create_body_tenant [OF ran(2)]
      by (auto simp: cj_createOrGetIdempotent_def checked_def Let_def)
  qed
qed

lemma getContentJob_tenant: "getContentJob sch fault t i d = Inr j \<Longrightarrow> cj_tenantId j = t"
  by (auto simp: getContentJob_def cj_getById_def map_sum_def dest!: find_first_Some mapContentJob_tenant
      split: sum.splits option.splits if_splits)

lemma getContentJobEvents_tenant:
  "getContentJobEvents sch fault t i d = Inr es \<Longrightarrow> e \<in> set es \<Longrightarrow> e \<in> set (jobEvents d) \<and> je_tenantId e = t"
  by (auto simp: getContentJobEvents_def je_listByJob_def split: sum.splits option.splits if_splits)

lemma cj_cancel_tenant:
  assumes "cj_cancel sch fault snap evtId now t i d = (r, d')"
  shows "elsewhere_same t d d' \<and> (\<forall>j. r = Inr j \<longrightarrow> cj_tenantId j = t)"
proof -
  let ?p = "\<lparr>tp_tenantId = t, tp_jobId = i, tp_targetStatus = CCancelled, tp_targetStage = CSFailed,
    tp_eventType = JobCancelled, tp_details = None, tp_setValues = (\<lambda>r. r\<lparr>cr_completedAt := Some now, cr_result := None\<rparr>),
    tp_beforeUpdate = (\<lambda>_. Inr ())\<rparr>"
  have body: "cj_tenantId j = t \<and> elsewhere_same t d d1" if b: "cj_transition_body sch snap evtId now ?p d = Inr (j, d1)" for j d1
  proof -
    from b obtain st updated jobs where
      u: "update_returning (\<lambda>r. cr_id r = i \<and> cr_tenantId r = t \<and> cr_status r = st)
        (\<lambda>r. r\<lparr>cr_completedAt := Some now, cr_result := None, cr_status := CCancelled, cr_currentStage := CSFailed, cr_updatedAt := now\<rparr>)
        (contentJobs d) = (Some updated, jobs)"
      and c: "content_commit sch jobs \<lparr>je_id = evtId, je_tenantId = t, je_jobId = i, je_eventType = JobCancelled,
        je_priorStatus = Some st, je_newStatus = Some CCancelled, je_details = None, je_createdAt = now\<rparr>
        updated d = Inr (j, d1)"
      by (auto simp: cj_transition_body_def split: option.splits sum.splits prod.splits)
    show ?thesis
    proof (rule content_commit_tenant [OF c])
      show "cr_tenantId updated = t" using updated_row [OF u] by auto
      show "filter (\<lambda>r. cr_tenantId r \<noteq> t) jobs = filter (\<lambda>r. cr_tenantId r \<noteq> t) (contentJobs d)"
        using u by (auto simp: update_returning_def intro!: update_elsewhere)
    qed simp
  qed
  obtain r' d1 where tr: "transaction fault d (cj_transition_body sch snap evtId now ?p d) = (r', d1)" by fastforce
  from tr show ?thesis
  proof (cases rule: transaction_ends)
    case (failed e)
    then show ?thesis using assms tr
      by (auto simp: cj_cancel_def cj_transitionWithEvent_def checked_def or_unavailable_def split: sum.splits)
  next
    case (ran a)
    then show ?thesis using assms tr body [OF ran(2)]
      by (auto simp: cj_cancel_def cj_transitionWithEvent_def checked_def or_unavailable_def split: sum.splits)
  qed
qed

subsection \<open>Publish jobs\<close>

lemma pj_create_body_tenant:
  assumes "pj_create_body snap newId evtId now input key fp d = Inr (j, d')"
  shows "pr_tenantId j = cpi_tenantId input \<and> elsewhere_same (cpi_tenantId input) d d'"
proof -
  have existing: "pr_tenantId row = cpi_tenantId input" if "pj_by_key (cpi_tenantId input) key snap = Some row" for row
    using that by (auto simp: pj_by_key_def dest!: find_first_Some)
  show ?thesis using assms existing unfolding pj_create_body_def
    by (auto simp: Let_def pj_new_row_def pj_event_def pj_reuse_def thrown_def elsewhere_same_def
        split: option.splits sum.splits if_splits)
qed

lemma pj_create_tenant:
  assumes "pj_createOrGetIdempotent fault snap newId evtId now input d = (r, d')"
  shows "elsewhere_same (cpi_tenantId input) d d' \<and> (\<forall>j. r = Inr j \<longrightarrow> pr_tenantId j = cpi_tenantId input)"
proof (cases "\<exists>key fp. ensureNonEmpty (cpi_idempotencyKey input) ''idempotencyKey'' = Inr key
    \<and> ensureNonEmpty (cpi_requestFingerprint input) ''requestFingerprint'' = Inr fp")
  case True
  then obtain key fp where k: "ensureNonEmpty (cpi_idempotencyKey input) ''idempotencyKey'' = Inr key"
    "ensureNonEmpty (cpi_requestFingerprint input) ''requestFingerprint'' = Inr fp" by blast
  obtain r' d1 where tr: "transaction fault d (pj_create_body snap newId evtId now input key fp d) = (r', d1)" by fastforce
  from tr show ?thesis
  proof (cases rule: transaction_ends)
    case (failed e)
    then show ?thesis using assms tr k
      by (auto simp: pj_createOrGetIdempotent_def checked_def pj_by_key_def pj_reuse_def
          dest!: find_first_Some split: sum.splits if_splits option.splits)
  next
    case (ran a)
    then show ?thesis using assms tr k pj_create_body_tenant [OF ran(2)]
      by (auto simp: pj_createOrGetIdempotent_def checked_def split: sum.splits)
  qed
next
  case False
  then show ?thesis using assms by (auto simp: pj_createOrGetIdempotent_def checked_def split: sum.splits)
qed

lemma createPublishJob_tenant:
  assumes "createPublishJob sha256 collate sch readFault seen fault snap newId evtId now command d = (r, d')"
  shows "elsewhere_same (cpc_tenantId command) d d' \<and> (\<forall>j. r = Inr j \<longrightarrow> pr_tenantId j = cpc_tenantId command)"
proof -
  have "(r, d') \<in> {(r, d). \<exists>e. r = Inl e} \<inter> {(r, d'). d' = d} \<or> (\<exists>input. cpi_tenantId input = cpc_tenantId command
      \<and> pj_createOrGetIdempotent fault snap newId evtId now input d = (r, d'))"
    using assms unfolding createPublishJob_def
    by (auto simp: create_input_of_def split: if_splits sum.splits option.splits)
  then show ?thesis using pj_create_tenant by fastforce
qed

lemma getPublishJob_tenant: "getPublishJob fault t i d = Inr j \<Longrightarrow> pr_tenantId j = t"
  by (auto simp: getPublishJob_def pj_getById_def dest!: find_first_Some split: sum.splits option.splits if_splits)

lemma getPublishJobEvents_tenant:
  "getPublishJobEvents fault fault' t i d = Inr es \<Longrightarrow> e \<in> set es \<Longrightarrow> e \<in> set (publishJobEvents d) \<and> pe_tenantId e = t"
  by (auto simp: getPublishJobEvents_def pj_listEvents_def split: sum.splits option.splits if_splits)

lemma pj_cancel_tenant:
  assumes "pj_cancel fault snap evtId t i now d = (r, d')"
  shows "elsewhere_same t d d' \<and> (\<forall>j. r = Inr j \<longrightarrow> pr_tenantId j = t)"
proof -
  have body: "pr_tenantId j = t \<and> elsewhere_same t d d1" if b: "pj_cancel_body snap evtId t i now d = Inr (j, d1)" for j d1
  proof -
    from b obtain st updated jobs where
      u: "update_returning (\<lambda>r. pr_tenantId r = t \<and> pr_id r = i \<and> pr_status r = st) (pj_set_cancelled now)
        (publishJobs d) = (Some updated, jobs)"
      and r: "j = updated" "d1 = d\<lparr>publishJobs := jobs, publishJobEvents := publishJobEvents d @
        [pj_event evtId PublishCancelled (Some st) PCancelled None now updated]\<rparr>"
      by (auto simp: pj_cancel_body_def thrown_def split: option.splits prod.splits if_splits)
    have t: "pr_tenantId updated = t" using updated_row [OF u] by (auto simp: pj_set_cancelled_def)
    have "filter (\<lambda>r. pr_tenantId r \<noteq> t) jobs = filter (\<lambda>r. pr_tenantId r \<noteq> t) (publishJobs d)"
      using u by (auto simp: update_returning_def pj_set_cancelled_def intro!: update_elsewhere)
    then show ?thesis using r t by (simp add: elsewhere_same_def pj_event_def)
  qed
  obtain r' d1 where tr: "transaction fault d (pj_cancel_body snap evtId t i now d) = (r', d1)" by fastforce
  from tr show ?thesis
  proof (cases rule: transaction_ends)
    case (failed e)
    then show ?thesis using assms tr by (auto simp: pj_cancel_def checked_def or_unavailable_def split: sum.splits)
  next
    case (ran a)
    then show ?thesis using assms tr body [OF ran(2)]
      by (auto simp: pj_cancel_def checked_def or_unavailable_def split: sum.splits)
  qed
qed

subsection \<open>The routes\<close>

fun tells_tenant :: "string \<Rightarrow> db \<Rightarrow> api_body \<Rightarrow> bool" where
  "tells_tenant t d (SourceVersionBody v) = (sd_tenantId v = t)"
| "tells_tenant t d (ContentJobBody j) = (jd_tenantId j = t)"
| "tells_tenant t d (ContentJobEventsBody i es) = (\<forall>e \<in> set es. \<exists>r \<in> set (jobEvents d). je_tenantId r = t \<and> e = toJobEventDto r)"
| "tells_tenant t d (PublishJobBody j) = (qd_tenantId j = t)"
| "tells_tenant t d (PublishJobEventsBody i es) = (\<forall>e \<in> set es. e \<in> set (publishJobEvents d) \<and> pe_tenantId e = t)"
| "tells_tenant t d (ErrorBody c m r q) = True"

definition keeps_tenant :: "string \<Rightarrow> db \<Rightarrow> api_outcome \<Rightarrow> bool" where
  "keeps_tenant t d r \<longleftrightarrow> elsewhere_same t d (snd r) \<and> (\<forall>status body. fst r = Inr (status, body) \<longrightarrow> tells_tenant t d body)"

lemma keeps_parsed [intro]: "(\<And>b. c = Inr b \<Longrightarrow> keeps_tenant t d (k b)) \<Longrightarrow> keeps_tenant t d (parsed c d k)"
  by (cases c) (auto simp: parsed_def keeps_tenant_def)

lemma keeps_answer:
  assumes "elsewhere_same t d (snd r)" and "\<And>x. fst r = Inr x \<Longrightarrow> tells_tenant t d (body x)"
  shows "keeps_tenant t d (answer status body r)"
  using assms by (cases r; cases "fst r") (auto simp: answer_def keeps_tenant_def)

lemma route_keeps_tenant:
  "keeps_tenant t d (api_route_handler sha256t sha256 collate sch parse_date w t correlation key route d)"
proof (cases route)
  case (PostSourceVersion body)
  have "elsewhere_same t d (snd (sv_createImmutable sha256t f sn ni nw t p x d))
      \<and> (\<forall>v. fst (sv_createImmutable sha256t f sn ni nw t p x d) = Inr v \<longrightarrow> sv_tenantId v = t)" for f sn ni nw p x
    using sv_create_tenant [OF prod.collapse [symmetric]] by (auto simp: sv_createImmutable_def)
  then show ?thesis using PostSourceVersion
    by (auto simp: api_route_handler_def post_source_version_def toSourceVersionDto_def intro!: keeps_parsed keeps_answer)
next
  case (GetSourceVersion i)
  then show ?thesis
    by (auto simp: api_route_handler_def get_source_version_def toSourceVersionDto_def
        intro!: keeps_parsed keeps_answer dest: getSourceVersion_tenant)
next
  case (PostContentJob body)
  have same: "elsewhere_same t d (snd (cj_createOrGetIdempotent sha256 collate sch f sn ni nc ev nw i d))"
    if "cci_tenantId i = t" for f sn ni nc ev nw i
    using cj_create_tenant [OF prod.collapse [symmetric]] that by blast
  have mine: "cj_tenantId j = t"
    if "fst (cj_createOrGetIdempotent sha256 collate sch f sn ni nc ev nw i d) = Inr j" "cci_tenantId i = t" for f sn ni nc ev nw i j
    using cj_create_tenant [OF prod.collapse [symmetric]] that by blast
  show ?thesis using PostContentJob
    by (auto simp: api_route_handler_def post_content_job_def toContentJobDto_def same intro!: keeps_parsed keeps_answer dest!: mine)
next
  case (GetContentJob i)
  then show ?thesis
    by (auto simp: api_route_handler_def get_content_job_def toContentJobDto_def
        intro!: keeps_parsed keeps_answer dest: getContentJob_tenant)
next
  case (GetContentJobEvents i)
  then show ?thesis
    by (auto simp: api_route_handler_def get_content_job_events_def intro!: keeps_parsed keeps_answer)
       (blast dest: getContentJobEvents_tenant)
next
  case (PostContentJobCancel i)
  have "elsewhere_same t d (snd (cj_cancel sch f sn ev nw t j d))
      \<and> (\<forall>x. fst (cj_cancel sch f sn ev nw t j d) = Inr x \<longrightarrow> cj_tenantId x = t)" for f sn ev nw j
    using cj_cancel_tenant [OF prod.collapse [symmetric]] by blast
  then show ?thesis using PostContentJobCancel
    by (auto simp: api_route_handler_def post_content_job_cancel_def toContentJobDto_def intro!: keeps_parsed keeps_answer)
next
  case (PostPublishJob body)
  have same: "elsewhere_same t d (snd (createPublishJob sha256 collate sch rf sn f sp ni ev nw c d))"
    if "cpc_tenantId c = t" for rf sn f sp ni ev nw c
    using createPublishJob_tenant [OF prod.collapse [symmetric]] that by blast
  have mine: "pr_tenantId j = t"
    if "fst (createPublishJob sha256 collate sch rf sn f sp ni ev nw c d) = Inr j" "cpc_tenantId c = t" for rf sn f sp ni ev nw c j
    using createPublishJob_tenant [OF prod.collapse [symmetric]] that by blast
  show ?thesis using PostPublishJob
    by (auto simp: api_route_handler_def post_publish_job_def toPublishJobDto_def same intro!: keeps_parsed keeps_answer dest!: mine)
next
  case (GetPublishJob i)
  then show ?thesis
    by (auto simp: api_route_handler_def get_publish_job_def toPublishJobDto_def
        intro!: keeps_parsed keeps_answer dest: getPublishJob_tenant)
next
  case (GetPublishJobEvents i)
  then show ?thesis
    by (auto simp: api_route_handler_def get_publish_job_events_def toPublishJobEventDto_def
        intro!: keeps_parsed keeps_answer dest: getPublishJobEvents_tenant)
next
  case (PostPublishJobCancel i)
  have "elsewhere_same t d (snd (pj_cancel f sn ev t j nw d))
      \<and> (\<forall>x. fst (pj_cancel f sn ev t j nw d) = Inr x \<longrightarrow> pr_tenantId x = t)" for f sn ev nw j
    using pj_cancel_tenant [OF prod.collapse [symmetric]] by blast
  then show ?thesis using PostPublishJobCancel
    by (auto simp: api_route_handler_def post_publish_job_cancel_def toPublishJobDto_def intro!: keeps_parsed keeps_answer)
qed

text \<open>
  C35: Tenants are kept apart.  Whatever is sent, a request changes no row of another tenant than the one
  in its header, in any table, whatever happens to its statements; without a valid tenant it changes
  nothing; and what it answers, other than an error, is a row of that tenant or events of it.
\<close>

theorem tenants_kept_apart:
  assumes "api_handle sha256t sha256 collate sch parse_date w req d = ((status, body), d')"
  shows "(rt_tenantHeader req = None \<longrightarrow> d' = d)
    \<and> (\<forall>t. rt_tenantHeader req = Some t \<longrightarrow> elsewhere_same t d d' \<and> tells_tenant t d body \<and> (\<not> isPrefixedId t ''tenant'' \<longrightarrow> d' = d))
    \<and> (rt_tenantHeader req = None \<longrightarrow> (\<exists>code m r q. body = ErrorBody code m r q))"
proof -
  have tells: "tells_tenant t d b" if "error_answer r q e = (s, b)" for t r q e s b
    using that by (cases "mapError e") (auto simp: error_answer_def)
  have errbody: "\<exists>c m r q. b = ErrorBody c m r q" if "error_answer r q e = (s, b)" for r q e s b
    using that by (cases "mapError e") (auto simp: error_answer_def)
  consider (stopped) e q where "d' = d" "error_answer (rt_requestId req) q e = (status, body)"
    | (handled) t correlation where "rt_tenantHeader req = Some t" "isPrefixedId t ''tenant''"
        "answered (rt_requestId req) correlation (api_route_handler sha256t sha256 collate sch parse_date w t correlation
           (rt_idempotencyHeader req) (rt_route req) d) = ((status, body), d')"
    using assms
    by (auto simp: api_handle_def requireTenantContext_def parseSchema_def prefixed_def
        split: sum.splits option.splits if_splits)
  then show ?thesis
  proof cases
    case stopped
    then show ?thesis using tells errbody by auto
  next
    case handled
    note k = route_keeps_tenant [of t d sha256t sha256 collate sch parse_date w correlation "rt_idempotencyHeader req" "rt_route req"]
    show ?thesis using handled k tells
      by (auto simp: answered_def keeps_tenant_def split: prod.splits sum.splits)
  qed
qed

definition example_world :: api_world where
  "example_world = \<lparr>wd_fault = False, wd_readFault = False, wd_listFault = False, wd_seen = example_db1, wd_snap = example_db1,
     wd_newId = ''job_2'', wd_newCorrelation = ''corr_2'', wd_evtId = ''evt_9'', wd_now = 50, wd_clock = 50\<rparr>"

definition example_cancel :: api_request where
  "example_cancel = \<lparr>rt_requestId = ''req-1'', rt_correlationHeader = None, rt_tenantHeader = Some ''tenant_1'',
     rt_idempotencyHeader = None, rt_bodyError = None, rt_route = PostContentJobCancel ''job_1''\<rparr>"

definition example_answer :: "(nat \<times> api_body) \<times> db" where
  "example_answer = api_handle (\<lambda>_. ''h'') example_sha256 example_collate example_schemas (\<lambda>_. None) example_world example_cancel
     example_db1"

lemma tenants_kept_apart_witness:
  "fst (fst example_answer) = 200 \<and> elsewhere_same ''tenant_1'' example_db1 (snd example_answer)
     \<and> tells_tenant ''tenant_1'' example_db1 (snd (fst example_answer))"
proof -
  have "fst (fst example_answer) = 200" by code_simp
  moreover have "example_answer = ((fst (fst example_answer), snd (fst example_answer)), snd example_answer)" by simp
  note tenants_kept_apart [OF this [unfolded example_answer_def]]
  ultimately show ?thesis by (simp add: example_answer_def example_cancel_def)
qed

end
