(* ===== verification/Spec2Isabelle.thy ===== *)
theory Spec2Isabelle
  imports ComposerCases CreationCases ContentExecutor StaleRecovery PublishExecutor WorkerLoop HtmlComposer GuideBuild PipelineRuns Renderers SettledSchemas Startup TenantIsolation
begin

text \<open>
  A verification development of the Roam content engine: an API that accepts transcripts and
  content jobs, workers that process the jobs, and workers that publish the results through
  the remote Publish Engine, all of them over one PostgreSQL database.

  \<^bold>\<open>The program and its parts.\<close>
  A transcript is normalized, hashed and stored as an immutable source version.  A content
  job is created under an idempotency key, leased by a worker, executed under heartbeats, and
  completed, failed or scheduled again; a recovery pass takes back jobs whose lease ran out.
  A publish job is created from the styled HTML artifact of a completed content job; a publish
  worker submits it to the engine, polls it and stores where the result can be downloaded.
  The parts meet in the rows of the database and in the status, the lease and the schedule
  these carry.

  \<^bold>\<open>Theories and sources\<close> (paths under \<open>src/src\<close>).
  \<^item> \<open>Prelude\<close>: time, trimming, the shapes of the SQL statements on lists of rows, chains of
    recorded transitions.
  \<^item> \<open>Errors\<close>: \<open>platform/shared/errors\<close>, \<open>infrastructure/repositories/error-utils.ts\<close>,
    \<open>platform/identity/ids\<close>; transactions as functions from a database to a result and a
    database, with the rollback on an error.
  \<^item> \<open>Transcript\<close>: \<open>platform/security/hashing\<close>.  \<open>Fingerprint\<close>:
    \<open>platform/security/fingerprinting\<close> and \<open>application/publish-jobs/request-fingerprint.ts\<close>.
    \<open>Retry\<close>: \<open>application/workers/retry-policy.ts\<close> and the retry rules of the client.
  \<^item> \<open>Domain\<close>: statuses, stages and transition policies (\<open>domain/content-jobs\<close>,
    \<open>domain/publish-jobs\<close>), results and their schemas.  \<open>Database\<close>: the tables
    (\<open>db/schema\<close>) as lists of records in one record \<open>db\<close>.
  \<^item> \<open>SourceVersions\<close>: \<open>drizzle-source-version-repository.ts\<close>.
  \<^item> \<open>ContentJobs\<close>: \<open>drizzle-content-job-repository.ts\<close> and the job events.
    \<open>JobSource\<close>: \<open>infrastructure/workers/database-job-source.ts\<close>.
    \<open>ContentExecutor\<close>: \<open>application/workers/job-executor.ts\<close>.
    \<open>StaleRecovery\<close>: \<open>application/workers/stale-job-recovery.ts\<close>.
  \<^item> \<open>PublishJobs\<close>, \<open>PublishRecords\<close>: the two halves of \<open>drizzle-publish-job-repository.ts\<close>,
    \<open>database-publish-job-source.ts\<close>, \<open>publish-stale-recovery.ts\<close>.
    \<open>PublishFailures\<close>: the errors of the client and \<open>publish-retry-classifier.ts\<close>.
    \<open>PublishSource\<close>: \<open>create-publish-job.ts\<close>, \<open>source-eligibility.ts\<close> and the artifact validator.
  \<^item> \<open>EngineClient\<close>, \<open>EngineCalls\<close>: \<open>http-publish-engine-client.ts\<close> and the schemas of the
    engine's messages: one request, then the retry loop and the operations.
    \<open>PublishExecutor\<close>: \<open>publish-job-executor.ts\<close>.
  \<^item> \<open>WorkerLoop\<close>: \<open>worker-loop.ts\<close>, \<open>publish-worker-loop.ts\<close>, \<open>worker-runner.ts\<close>.
  \<^item> \<open>Texts\<close>: classes of characters and searches, as the regular expressions use them.
    \<open>UrlSafety\<close>: \<open>platform/security/url-safety.ts\<close>.  \<open>HtmlMarkup\<close>: \<open>domain/publications/html-types.ts\<close>,
    \<open>application/rendering/html-escaping.ts\<close> and \<open>html-markup-serializer.ts\<close>, and
    \<open>standalone-html-document-composer.ts\<close>.  \<open>HtmlReading\<close>: a reader of markup, the reference for
    the serializer.
  \<^item> \<open>HtmlSchema\<close>: \<open>schemas/publications/html-document-schema.ts\<close>.  \<open>AcceptedHtml\<close>: what it
    guarantees to the serializer.  \<open>Publications\<close>: \<open>domain/publications/types.ts\<close> and
    \<open>publication-schema.ts\<close>.  \<open>HtmlComposer\<close>: \<open>application/publications/html-composer.ts\<close>.
  \<^item> \<open>AiResults\<close>: \<open>schemas/ai\<close>.  \<open>AiPipeline\<close>: \<open>application/ai\<close>, \<open>domain/ai\<close> and
    \<open>infrastructure/ai/prompts\<close>.  \<open>AiProviders\<close>: \<open>infrastructure/ai/providers\<close> and
    \<open>registry.ts\<close>.  \<open>PipelineRuns\<close>: what a run gives and when it gives something.
  \<^item> \<open>CtaGuide\<close>: \<open>application/publications/templates/cta-guide-template.ts\<close> and
    \<open>publication-builder.ts\<close>.  \<open>TrimmedTexts\<close>, \<open>GuideBuild\<close>: when the publication built is valid.
  \<^item> \<open>Themes\<close>: \<open>application/themes\<close>.  \<open>Packaging\<close>:
    \<open>application/publication-packaging/publication-package-composer.ts\<close> and \<open>defaults.ts\<close>.
    \<open>Renderers\<close>: the renderers of \<open>application/rendering\<close>, \<open>text-render-artifact-builder.ts\<close> and
    the request schema of \<open>schemas/rendering\<close>.
  \<^item> \<open>TextCounts\<close>, \<open>TranscriptProcessor\<close>: the statistics and the stages of
    \<open>infrastructure/workers/deterministic-transcript-processor.ts\<close>, and its run under the executor.
    \<open>SettledSchemas\<close>: the schemas of publications and documents accept what they give as it is.
  \<^item> \<open>AccessTokens\<close>: \<open>azure-publish-engine-access-token-provider.ts\<close>.  \<open>EngineConfig\<close>:
    \<open>publish-engine-config.ts\<close>.  \<open>Environment\<close>: \<open>platform/foundation/environment\<close>.  \<open>Startup\<close>: how
    \<open>worker/app.ts\<close>, \<open>server.ts\<close>, \<open>publish-app.ts\<close> and \<open>publish-server.ts\<close> put the workers together.
  \<^item> \<open>Api\<close>: the headers, schemas, routes, answers and errors of \<open>src/api\<close>.  \<open>TenantIsolation\<close>: what a
    request keeps of other tenants.
  \<^item> \<open>ComposerCases\<close>, \<open>CreationCases\<close>: concrete publications the composer refuses, and a concrete
    creation of a publish job, evaluated.

  \<^bold>\<open>Interfaces.\<close>
  \<open>JobTable\<close> holds the two contracts the operations on jobs share, as locales: a table of
  rows each with a status, changed by steps that follow a transition policy and told in an
  event log (\<open>content_step\<close> and \<open>publish_step\<close> are runs of it), and a lease protocol, in which
  the one who holds a row keeps it while the others respect the lease.  \<open>ContentLifecycle\<close> and
  \<open>PublishLifecycle\<close>/\<open>PublishRuns\<close> interpret both on the model's own rows and operations; the
  invariants, the histories, the exclusiveness of leases and the finality of settled jobs come
  from these interpretations.  In \<open>PipelineRuns\<close>, \<open>answering_provider\<close> is what the pipeline needs
  of an AI provider to end with a result; the mock provider is an interpretation of it.  In
  \<open>TextCounts\<close>, \<open>piece_count\<close> says when a count bounds the pieces a text is split into, with the
  lines and the paragraphs as its interpretations.

  \<^bold>\<open>What the theorems show.\<close>
  Invariants of every reachable job table, also when statements fail and, for publish jobs,
  when an update stands without its event; gapless histories; lease exclusiveness and fencing;
  no live job is stranded; idempotent creation under races and refusal of a reused key; an
  execution of either kind of job is a run of the table's operations (refinement) and reports
  what it stored; attempts are bounded; every request of a submission carries the job's key and
  the approved document; the client's requests, time limits and pauses are bounded and its wait
  ends; the worker loops never overbook and shut down in a bounded number of events.
  An accepted link has an allowed protocol as the platform reads it.  Serialized HTML reads back
  as the tree it came from, with nothing active in it and no identifier twice; what the composer
  makes of a publication is always serialized, and no text of the publication is lost.  A run of
  the AI pipeline gives a result of its type and gives one whenever the provider answers; the
  publication of a result is built exactly when four lengths fit; a style sheet package exists for
  every theme; rendered artifacts are of their type and publishable.  What the processor of
  transcripts gives is a result of its type; a job it completes holds the statistics of the source
  version it names; which of its failures are attempted again is told exactly.
  The API changes and tells rows of the caller's tenant only.  Access tokens are handed out alive and
  their callers share one request without one being lost.  An accepted environment is enough for
  the content worker; when it is enough for the publish worker is told exactly.  The
  theorems also establish some faults of the code, which are listed as findings.

  \<^bold>\<open>Modelling choices.\<close>
  Every function of the program is a definition that computes.  A database operation takes the
  fate of its statements, the database its plain selects read (\<open>snap\<close>, which may be older than
  the one its guarded update meets, as READ COMMITTED allows), the clock it read and the fresh
  identifiers, and gives back an error or a result with the database after it.  \<open>SELECT ... FOR
  UPDATE SKIP LOCKED\<close> is a predicate on identifiers.  Concurrency is the order of events: what
  others do between two statements is an event of an execution or a step of a run.  A time is an
  integer of milliseconds; a nullable value is an option; text is a list of the code units 0 to
  255 (transcripts: 16-bit units); the doubles of the jitter are exact rationals.  SHA-256, the
  collation of \<open>localeCompare\<close>, \<open>Date.parse\<close>, JSON parsing, \<open>fetch\<close> and the URL parser are
  arguments.

  \<^bold>\<open>Bounds and fuel.\<close>
  No function uses fuel.  The retry loop of the client is a recursion on the attempt number and
  ends at the configured maximum; \<open>waitForJob\<close> is a partial function, proved to return on a
  clock that moves; the loops of the workers are state machines, for which the number of events
  after the abort signal is bounded by the concurrency plus ten.

  \<^bold>\<open>Not modelled.\<close>
  Logging, the diagnostic details and causes of errors, the handling of process signals, the pool of
  the database and the Drizzle query builder below the statements, what Fastify does before and
  after the hooks and routes, the health routes, and the calls of the OpenAI and Azure libraries (I/O).
\<close>

end
